(* ===== verification/Mish_Prelude.thy ===== *)
theory Mish_Prelude
  imports Main "HOL-Library.Word" "HOL-Library.AList" "HOL-Library.Sublist"
begin

text \<open>
  Vocabulary shared by every component of the Mish development: Rust's unsigned 64-bit
  integers with their checked and saturating operations, the option and association-list
  idioms of the sources, and the fact collections the component proofs are carried by.
\<close>

section \<open>Fact collections\<close>

named_theorems machine_simps "unfolding rules for the interface record of a typed state machine"
named_theorems kernel_simps "how kernel operations act on single fields of the runner state"

section \<open>Unsigned 64-bit integers\<close>

type_synonym u64 = "64 word"

text \<open>
  \<open>u64::checked_add\<close>, \<open>u64::checked_sub\<close> and \<open>u64::saturating_add\<close>. A plain \<open>-\<close> of the
  sources panics on underflow when overflow checks are on; it is written with
  \<open>checked_sub\<close>, so that the panic is the value \<open>None\<close>.
\<close>

definition checked_add :: "u64 \<Rightarrow> u64 \<Rightarrow> u64 option" where
  "checked_add a b = (if unat a + unat b < 2 ^ 64 then Some (a + b) else None)"

definition checked_sub :: "u64 \<Rightarrow> u64 \<Rightarrow> u64 option" where
  "checked_sub a b = (if b \<le> a then Some (a - b) else None)"

definition saturating_sub :: "('a::len) word \<Rightarrow> 'a word \<Rightarrow> 'a word" where
  "saturating_sub a b = (if b \<le> a then a - b else 0)"

definition saturating_add :: "u64 \<Rightarrow> u64 \<Rightarrow> u64" where
  "saturating_add a b = (case checked_add a b of None \<Rightarrow> - 1 | Some c \<Rightarrow> c)"

lemma unat_less_64: "unat (a :: u64) < 2 ^ 64"
  using unsigned_less [of a, where ?'a = nat] by simp

lemma checked_add_Some_iff:
  "checked_add a b = Some c \<longleftrightarrow> unat a + unat b < 2 ^ 64 \<and> c = a + b"
  by (auto simp: checked_add_def)

lemma checked_add_code [code]: "checked_add a b = (if b \<le> - 1 - a then Some (a + b) else None)"
proof -
  have "unat (- 1 - a) = 2 ^ 64 - 1 - unat a"
    by (simp add: unat_sub unsigned_minus_1_eq_mask mask_eq_exp_minus_1)
  then have "b \<le> - 1 - a \<longleftrightarrow> unat b \<le> 2 ^ 64 - 1 - unat a"
    by (simp add: word_le_nat_alt)
  also have "\<dots> \<longleftrightarrow> unat a + unat b < 2 ^ 64"
    using unat_less_64 [of a] by auto
  finally show ?thesis
    by (simp add: checked_add_def)
qed

lemma checked_add_unat:
  assumes "checked_add a b = Some c"
  shows "unat c = unat a + unat b"
  using assms unat_less_64 [of c]
  by (simp add: checked_add_Some_iff unat_word_ariths)

lemma checked_add_None_iff: "checked_add a b = None \<longleftrightarrow> 2 ^ 64 \<le> unat a + unat b"
  by (simp add: checked_add_def not_less)

lemma checked_add_1_None_iff: "checked_add a 1 = None \<longleftrightarrow> a = - 1"
proof -
  have "a = - 1 \<longleftrightarrow> unat a = 2 ^ 64 - 1"
    by (simp add: word_unat_eq_iff unsigned_minus_1_eq_mask mask_eq_exp_minus_1)
  moreover have "unat a < 2 ^ 64"
    by (rule unat_less_64)
  ultimately show ?thesis
    by (auto simp: checked_add_None_iff)
qed

lemma checked_add_1_less:
  "checked_add a 1 = Some c \<Longrightarrow> a < c"
  by (drule checked_add_unat) (simp add: word_less_nat_alt)

lemma checked_add_1_ge_1:
  "checked_add a 1 = Some c \<Longrightarrow> 1 \<le> c"
  by (drule checked_add_unat) (simp add: word_le_nat_alt)

lemma checked_sub_Some_iff: "checked_sub a b = Some c \<longleftrightarrow> b \<le> a \<and> c = a - b"
  by (auto simp: checked_sub_def)

lemma checked_sub_checked_add:
  "checked_add a b = Some c \<Longrightarrow> checked_sub c b = Some a"
  by (frule checked_add_unat)
    (auto simp: checked_sub_Some_iff checked_add_Some_iff word_le_nat_alt)

lemma saturating_add_1_eq: "saturating_add a 1 = (if a = - 1 then - 1 else a + 1)"
  proof (cases "a = - 1")
  case True
  then have "checked_add a 1 = None"
    by (simp only: checked_add_1_None_iff)
  with True show ?thesis
    by (simp add: saturating_add_def)
next
  case False
  then obtain c where c: "checked_add a 1 = Some c"
    by (metis checked_add_1_None_iff option.exhaust)
  then have "c = a + 1"
    by (simp add: checked_add_Some_iff)
  with False c show ?thesis
    by (simp add: saturating_add_def)
qed

text \<open>\<open>u64::to_string\<close>: the decimal digits of a number, most significant first.\<close>

fun nat_to_string :: "nat \<Rightarrow> string" where
  "nat_to_string n =
     (if n < 10 then [''0123456789'' ! n] else nat_to_string (n div 10) @ [''0123456789'' ! (n mod 10)])"

declare nat_to_string.simps [simp del]

definition u64_to_string :: "u64 \<Rightarrow> string" where
  "u64_to_string n = nat_to_string (unat n)"

lemma nat_to_string_digits: "set (nat_to_string n) \<subseteq> set ''0123456789''"
proof (induction n rule: nat_to_string.induct)
  case (1 n)
  have digit: "d < 10 \<Longrightarrow> ''0123456789'' ! d \<in> set ''0123456789''" for d :: nat
    by (rule nth_mem) simp
  show ?case
  proof (cases "n < 10")
    case True
    then show ?thesis using digit [of n] by (subst nat_to_string.simps) simp
  next
    case False
    then show ?thesis
      using 1 digit [of "n mod 10"] by (subst nat_to_string.simps) simp
  qed
qed

lemma u64_to_string_neq_word:
  "\<not> set w \<subseteq> set ''0123456789'' \<Longrightarrow> u64_to_string n \<noteq> w"
  using nat_to_string_digits by (auto simp: u64_to_string_def)

section \<open>Options\<close>

text \<open>\<open>Option::is_some_and\<close>, \<open>Option::or_else\<close> and \<open>Option::unwrap_or\<close>.\<close>

definition is_some_and :: "'a option \<Rightarrow> ('a \<Rightarrow> bool) \<Rightarrow> bool" where
  "is_some_and x p = (case x of None \<Rightarrow> False | Some a \<Rightarrow> p a)"

definition or_else :: "'a option \<Rightarrow> 'a option \<Rightarrow> 'a option" where
  "or_else x y = (case x of None \<Rightarrow> y | Some a \<Rightarrow> Some a)"

definition unwrap_or :: "'a option \<Rightarrow> 'a \<Rightarrow> 'a" where
  "unwrap_or x d = (case x of None \<Rightarrow> d | Some a \<Rightarrow> a)"

lemma is_some_and_simps [simp]:
  "is_some_and None p = False"
  "is_some_and (Some a) p = p a"
  by (simp_all add: is_some_and_def)

lemma or_else_simps [simp]:
  "or_else None y = y"
  "or_else (Some a) y = Some a"
  by (simp_all add: or_else_def)

lemma unwrap_or_simps [simp]:
  "unwrap_or None d = d"
  "unwrap_or (Some a) d = a"
  by (simp_all add: unwrap_or_def)

lemma is_some_and_iff: "is_some_and x p \<longleftrightarrow> (\<exists>a. x = Some a \<and> p a)"
  by (cases x) simp_all

section \<open>Bounded queues\<close>

text \<open>
  The sources bound a \<open>VecDeque\<close> by pushing at the back and popping the front while it is
  longer than the limit.
\<close>

function pop_front_while_over :: "nat \<Rightarrow> 'a list \<Rightarrow> 'a list" where
  "pop_front_while_over limit xs =
     (if limit < length xs then pop_front_while_over limit (tl xs) else xs)"
  by pat_completeness auto
termination
  by (relation "measure (\<lambda>(limit, xs). length xs)") auto

declare pop_front_while_over.simps [simp del]

lemma pop_front_while_over_eq:
  "pop_front_while_over limit xs = drop (length xs - limit) xs"
proof (induction limit xs rule: pop_front_while_over.induct)
  case (1 limit xs)
  show ?case
  proof (cases "limit < length xs")
    case True
    then obtain x ys where xs: "xs = x # ys"
      by (cases xs) auto
    have "length xs - limit = Suc (length ys - limit)"
      using True xs by simp
    then show ?thesis
      using 1 True xs by (subst pop_front_while_over.simps) simp
  qed (simp add: pop_front_while_over.simps [of limit xs])
qed

lemma length_pop_front_while_over:
  "length (pop_front_while_over limit xs) = min limit (length xs)"
  by (simp add: pop_front_while_over_eq)

lemma set_pop_front_while_over: "set (pop_front_while_over limit xs) \<subseteq> set xs"
  by (simp add: pop_front_while_over_eq set_drop_subset)

lemma pop_front_while_over_snoc:
  "0 < limit \<Longrightarrow> \<exists>ys. pop_front_while_over limit (xs @ [x]) = ys @ [x]"
  by (simp add: pop_front_while_over_eq)

section \<open>Association lists\<close>

lemma map_fst_map_snd [simp]:
  "map fst (map (\<lambda>(i, t). (i, f i t)) xs) = map fst xs"
  by (induction xs) auto

lemma map_fst_filter_fst: "map fst (filter (\<lambda>p. P (fst p)) xs) = filter P (map fst xs)"
  by (induction xs) auto

lemma delete_map_fst: "map fst (AList.delete k xs) = filter (\<lambda>x. x \<noteq> k) (map fst xs)"
  by (induction xs) auto

lemma map_of_delete_self [simp]: "map_of (AList.delete k xs) k = None"
  by (induction xs) auto

lemma set_delete_iff: "p \<in> set (AList.delete k xs) \<longleftrightarrow> p \<in> set xs \<and> fst p \<noteq> k"
  by (induction xs) auto

lemma subseqs_map_image: "set (subseqs (map f xs)) = map f ` set (subseqs xs)"
  by (induction xs) (auto simp: Let_def image_Un image_image)

lemma subseq_append_self [simp]: "subseq xs (xs @ ys)"
  by (metis list_emb_append2 subseq_order.order_refl append_Nil2 list_emb_append_mono list_emb_Nil)

lemma distinct_subseq: "subseq xs ys \<Longrightarrow> distinct ys \<Longrightarrow> distinct xs"
  by (induction rule: list_emb.induct) (auto dest: list_emb_set)

end
