(* ===== verification/Kernel.thy ===== *)
theory Kernel
  imports Mish_Prelude
begin

text \<open>
  The typed state-machine kernel, \<^verbatim>\<open>crates/state-machine/src/lib.rs\<close>. A machine is a record
  of the functions of the \<^verbatim>\<open>Machine\<close> and \<^verbatim>\<open>CorrelatedEffect\<close> traits; the runner is an explicit
  state threaded through \<open>apply_input_with_role\<close>, \<open>finish_effect\<close>, \<open>drain\<close> and
  \<open>complete_shutdown\<close>. A turn in which the reducer or the transition observer panics is the value
  \<open>Panic\<close>, with the runner as it stood. What the executor answers, when a deadline passes and on
  which call an observer panics is not under the kernel's control: it is the argument \<open>ws\<close> of
  \<open>drain_until\<close> (the results of the successive \<^verbatim>\<open>timeout(remaining, join_next)\<close> calls), the
  choice of rule in \<open>kernel_step\<close> and the argument \<open>observer\<close> of \<open>spawn_runner\<close>.
\<close>

section \<open>Correlation, effects and transitions\<close>

record correlation =
  machine_authority :: string
  scope_epoch :: u64
  operation_id :: string
  admitted_revision :: u64
  effect_id :: u64

definition same_operation :: "correlation \<Rightarrow> correlation \<Rightarrow> bool" where
  "same_operation self other \<longleftrightarrow>
     machine_authority self = machine_authority other
     \<and> scope_epoch self = scope_epoch other
     \<and> operation_id self = operation_id other
     \<and> admitted_revision self = admitted_revision other"

definition with_effect :: "correlation \<Rightarrow> u64 \<Rightarrow> correlation" where
  "with_effect self eid = self\<lparr>effect_id := eid\<rparr>"

datatype effect_mode = Spawn | Cancel

datatype task_failure = Aborted | CompletionConflict | Panicked

datatype disposition =
    D_Accepted
  | D_Rejected
  | D_Unchanged
  | D_EffectEmitting
  | D_Committed
  | D_Cancelled
  | D_Failed
  | D_Retired
  | D_RecoveryRequired

fun disposition_label :: "disposition \<Rightarrow> string" where
  "disposition_label D_Accepted = ''accepted''"
| "disposition_label D_Rejected = ''rejected''"
| "disposition_label D_Unchanged = ''unchanged''"
| "disposition_label D_EffectEmitting = ''effect-emitting''"
| "disposition_label D_Committed = ''committed''"
| "disposition_label D_Cancelled = ''cancelled''"
| "disposition_label D_Failed = ''failed''"
| "disposition_label D_Retired = ''retired''"
| "disposition_label D_RecoveryRequired = ''recovery-required''"

datatype 'e effect_batch = EffectBatch (batch_first: 'e) (batch_rest: "'e list")

definition batch_one :: "'e \<Rightarrow> 'e effect_batch" where
  "batch_one e = EffectBatch e []"

definition batch_from_first :: "'e \<Rightarrow> 'e list \<Rightarrow> 'e effect_batch" where
  "batch_from_first e es = EffectBatch e es"

definition batch_into_iter :: "'e effect_batch \<Rightarrow> 'e list" where
  "batch_into_iter b = batch_first b # batch_rest b"

datatype ('s, 'e, 'err) transition =
    T_Accepted 's
  | T_Rejected 'err
  | T_Unchanged
  | T_EffectEmitting 's "'e effect_batch"
  | T_Committed 's
  | T_Cancelled 's
  | T_Failed 's
  | T_Retired
  | T_RecoveryRequired 's

fun transition_disposition :: "('s, 'e, 'err) transition \<Rightarrow> disposition" where
  "transition_disposition (T_Accepted _) = D_Accepted"
| "transition_disposition (T_Rejected _) = D_Rejected"
| "transition_disposition T_Unchanged = D_Unchanged"
| "transition_disposition (T_EffectEmitting _ _) = D_EffectEmitting"
| "transition_disposition (T_Committed _) = D_Committed"
| "transition_disposition (T_Cancelled _) = D_Cancelled"
| "transition_disposition (T_Failed _) = D_Failed"
| "transition_disposition T_Retired = D_Retired"
| "transition_disposition (T_RecoveryRequired _) = D_RecoveryRequired"

text \<open>
  The state a transition leaves behind and the effects it hands to the runner: the two
  things \<open>apply_input_with_role\<close> reads off a transition.
\<close>

fun next_state :: "'s \<Rightarrow> ('s, 'e, 'err) transition \<Rightarrow> 's" where
  "next_state s (T_Accepted s') = s'"
| "next_state s (T_Rejected _) = s"
| "next_state s T_Unchanged = s"
| "next_state s (T_EffectEmitting s' _) = s'"
| "next_state s (T_Committed s') = s'"
| "next_state s (T_Cancelled s') = s'"
| "next_state s (T_Failed s') = s'"
| "next_state s T_Retired = s"
| "next_state s (T_RecoveryRequired s') = s'"

fun emitted :: "('s, 'e, 'err) transition \<Rightarrow> 'e list" where
  "emitted (T_EffectEmitting _ b) = batch_into_iter b"
| "emitted _ = []"

text \<open>The \<^verbatim>\<open>Machine\<close> trait, with the two methods of its \<^verbatim>\<open>CorrelatedEffect\<close>.\<close>

record ('s, 'i, 'e, 'err) machine =
  m_reduce :: "'s \<Rightarrow> 'i \<Rightarrow> ('s, 'e, 'err) transition option"
  m_input_correlation :: "'s \<Rightarrow> 'i \<Rightarrow> correlation option"
  m_effect_is_current :: "'s \<Rightarrow> correlation \<Rightarrow> bool"
  m_task_failed :: "correlation \<Rightarrow> task_failure \<Rightarrow> 'i"
  m_shutdown :: 'i
  m_unavailable :: 'err
  m_correlation :: "'e \<Rightarrow> correlation"
  m_mode :: "'e \<Rightarrow> effect_mode"

record 's admission =
  adm_state :: 's
  adm_disposition :: disposition

datatype 'err admission_error = AE_Rejected 'err | InboxSaturated | AE_Retired

fun into_unavailable :: "'err admission_error \<Rightarrow> 'err \<Rightarrow> 'err" where
  "into_unavailable (AE_Rejected err) unavailable = err"
| "into_unavailable InboxSaturated unavailable = unavailable"
| "into_unavailable AE_Retired unavailable = unavailable"

datatype actor_failure = AF_Cancelled | AF_Panicked | AF_RetiredBeforeReply

datatype forced_reason = ShutdownDeadlineExceeded | FinalizerDeadlineExceeded

datatype 'err retirement_terminal =
    RT_Applied
  | RT_AlreadyRetired
  | RT_ShutdownRejected 'err
  | RT_CleanupFailed disposition
  | RT_Forced forced_reason
  | RT_ActorFailed actor_failure

record ('s, 'err) retirement =
  rt_state :: 's
  rt_disposition :: disposition
  rt_terminal :: "'err retirement_terminal"

section \<open>The runner\<close>

datatype effect_role = Operation | Finalizer

record owned_effect =
  oe_cancelled :: bool
  oe_correlation :: correlation
  oe_role :: effect_role

text \<open>
  One actor's state: the reducer-owned state, the shared snapshot, the tasks of the
  \<^verbatim>\<open>JoinSet\<close> with the effect each executes, the correlation table \<^verbatim>\<open>owned\<close>, the next
  task id, and the calls made on the transition observer, each with the snapshot a
  consumer would read at the moment of the call. The observer is code of the host: \<open>rn_observer\<close>
  is the number of the call on which it panics, if it ever does. \<open>rn_released\<close> holds the tasks
  the actor let go of without joining them (\<^verbatim>\<open>JoinSet::detach_all\<close>, or the drop of the join set with
  the actor): they were told to abort, and one that does not yield may still be running.
\<close>

record ('s, 'i, 'e) runner =
  rn_state :: 's
  rn_snapshot :: 's
  rn_tasks :: "(nat \<times> 'e) list"
  rn_owned :: "(nat \<times> owned_effect) list"
  rn_next :: nat
  rn_observed :: "('s \<times> 'i \<times> 's \<times> disposition \<times> 's) list"
  rn_released :: "(nat \<times> 'e) list"
  rn_observer :: "nat option"

definition initial_runner :: "nat option \<Rightarrow> 's \<Rightarrow> ('s, 'i, 'e) runner" where
  "initial_runner observer s =
     \<lparr>rn_state = s, rn_snapshot = s, rn_tasks = [], rn_owned = [], rn_next = 0, rn_observed = [],
      rn_released = [], rn_observer = observer\<rparr>"

text \<open>
  What one turn of the reducer or of a settlement ends in: a panic that unwinds the actor, with the
  runner at that moment, or a value and the runner it leaves.
\<close>

datatype ('a, 's, 'i, 'e) turn =
    Panic (turn_runner: "('s, 'i, 'e) runner")
  | Turned 'a (turn_runner: "('s, 'i, 'e) runner")

definition store_snapshot :: "('s, 'i, 'e) runner \<Rightarrow> ('s, 'i, 'e) runner" where
  "store_snapshot r = r\<lparr>rn_snapshot := rn_state r\<rparr>"

definition notify_observer ::
  "'s \<Rightarrow> 'i \<Rightarrow> disposition \<Rightarrow> ('s, 'i, 'e) runner \<Rightarrow> ('s, 'i, 'e) runner" where
  "notify_observer previous input d r =
     r\<lparr>rn_observed := rn_observed r @ [(previous, input, rn_state r, d, rn_snapshot r)]\<rparr>"

text \<open>Whether the call of the observer that is due now panics.\<close>

definition observer_panics :: "('s, 'i, 'e) runner \<Rightarrow> bool" where
  "observer_panics r \<longleftrightarrow> rn_observer r = Some (length (rn_observed r))"

definition cancel_matching :: "correlation \<Rightarrow> (nat \<times> owned_effect) list \<Rightarrow> (nat \<times> owned_effect) list" where
  "cancel_matching c =
     map (\<lambda>(i, t). (i, if oe_correlation t = c then t\<lparr>oe_cancelled := True\<rparr> else t))"

definition run_effect ::
  "('s, 'i, 'e, 'err) machine \<Rightarrow> effect_role \<Rightarrow> 'e \<Rightarrow> ('s, 'i, 'e) runner \<Rightarrow> ('s, 'i, 'e) runner" where
  "run_effect m role e r =
     (case m_mode m e of
        Cancel \<Rightarrow> r\<lparr>rn_owned := cancel_matching (m_correlation m e) (rn_owned r)\<rparr>
      | Spawn \<Rightarrow>
          r\<lparr>rn_tasks := rn_tasks r @ [(rn_next r, e)],
            rn_owned := rn_owned r @
              [(rn_next r, \<lparr>oe_cancelled = False, oe_correlation = m_correlation m e, oe_role = role\<rparr>)],
            rn_next := Suc (rn_next r)\<rparr>)"

primrec run_effects ::
  "('s, 'i, 'e, 'err) machine \<Rightarrow> effect_role \<Rightarrow> 'e list \<Rightarrow> ('s, 'i, 'e) runner \<Rightarrow> ('s, 'i, 'e) runner" where
  "run_effects m role [] r = r"
| "run_effects m role (e # es) r = run_effects m role es (run_effect m role e r)"

definition apply_input_with_role ::
  "('s, 'i, 'e, 'err) machine \<Rightarrow> 'i \<Rightarrow> effect_role \<Rightarrow> ('s, 'i, 'e) runner
     \<Rightarrow> ('err + 's admission, 's, 'i, 'e) turn" where
  "apply_input_with_role m input role r =
     (let previous = rn_state r in
      case m_reduce m previous input of
        None \<Rightarrow> Panic r
      | Some t \<Rightarrow>
          (let d = transition_disposition t;
               r1 = r\<lparr>rn_state := next_state previous t\<rparr>;
               r2 = store_snapshot r1;
               r3 = notify_observer previous input d r2
           in if observer_panics r2 then Panic r3
              else case t of
                T_Rejected err \<Rightarrow> Turned (Inl err) r3
              | _ \<Rightarrow>
                  (let r4 = run_effects m role (emitted t) r3
                   in Turned (Inr \<lparr>adm_state = rn_state r4, adm_disposition = d\<rparr>) r4)))"

definition apply_input ::
  "('s, 'i, 'e, 'err) machine \<Rightarrow> 'i \<Rightarrow> ('s, 'i, 'e) runner
     \<Rightarrow> ('err + 's admission, 's, 'i, 'e) turn" where
  "apply_input m input r = apply_input_with_role m input Operation r"

definition apply_shutdown ::
  "('s, 'i, 'e, 'err) machine \<Rightarrow> ('s, 'i, 'e) runner
     \<Rightarrow> ('err + 's admission, 's, 'i, 'e) turn" where
  "apply_shutdown m r = apply_input m (m_shutdown m) r"

text \<open>What \<^verbatim>\<open>JoinSet::join_next_with_id\<close> yields: a finished task, or a panicked or aborted one.\<close>

datatype 'i joined = Join_Ok (joined_id: nat) 'i | Join_Err (joined_id: nat) (join_is_panic: bool)

definition join_next :: "'i joined \<Rightarrow> ('s, 'i, 'e) runner \<Rightarrow> ('s, 'i, 'e) runner" where
  "join_next j r = r\<lparr>rn_tasks := AList.delete (joined_id j) (rn_tasks r)\<rparr>"

text \<open>
  The input \<open>finish_effect\<close> hands to the reducer for an owned task, and the role under
  which it does so: the completion itself when it is correlated and current, otherwise
  one finalizer built from the owned correlation.
\<close>

definition completion_input ::
  "('s, 'i, 'e, 'err) machine \<Rightarrow> bool \<Rightarrow> 's \<Rightarrow> owned_effect \<Rightarrow> 'i joined \<Rightarrow> 'i \<times> effect_role" where
  "completion_input m force s task j =
     (case j of
        Join_Ok _ input \<Rightarrow>
          (if m_input_correlation m s input \<noteq> Some (oe_correlation task)
              \<or> \<not> m_effect_is_current m s (oe_correlation task)
              \<or> (force \<and> oe_role task = Operation)
           then (m_task_failed m (oe_correlation task) CompletionConflict, Finalizer)
           else (input, oe_role task))
      | Join_Err _ is_panic \<Rightarrow>
          (m_task_failed m (oe_correlation task) (if is_panic then Panicked else Aborted), Finalizer))"

definition settlement :: "'err + 's admission \<Rightarrow> disposition" where
  "settlement res = (case res of Inl _ \<Rightarrow> D_Rejected | Inr a \<Rightarrow> adm_disposition a)"

definition finish_effect ::
  "('s, 'i, 'e, 'err) machine \<Rightarrow> bool \<Rightarrow> 'i joined \<Rightarrow> ('s, 'i, 'e) runner
     \<Rightarrow> (disposition, 's, 'i, 'e) turn" where
  "finish_effect m force j r =
     (case map_of (rn_owned r) (joined_id j) of
        None \<Rightarrow> Turned D_Retired r
      | Some task \<Rightarrow>
          (let r1 = r\<lparr>rn_owned := AList.delete (joined_id j) (rn_owned r)\<rparr>;
               (input, role) = completion_input m force (rn_state r1) task j
           in case apply_input_with_role m input role r1 of
                Panic r2 \<Rightarrow> Panic r2
              | Turned res r2 \<Rightarrow> Turned (settlement res) r2))"

section \<open>Draining\<close>

datatype drain_terminal = Drain_Completed | Drain_Forced forced_reason

record drain_outcome =
  do_terminal :: drain_terminal
  do_last_disposition :: "disposition option"

text \<open>The answer of one \<^verbatim>\<open>timeout(remaining, tasks.join_next_with_id())\<close>.\<close>

datatype 'i wake = Wake "'i joined" | Elapsed

text \<open>
  \<open>Drain_Waiting\<close>: the answers given so far are used up and the loop is still waiting;
  \<open>Drain_Panicked\<close>: the reducer or the observer panicked; otherwise the value \<^verbatim>\<open>drain_until\<close>
  returned (whether the deadline passed) with the answers it did not consume. Each carries the
  runner at that moment.
\<close>

datatype ('s, 'i, 'e) drain_result =
    Drain_Waiting (drain_runner: "('s, 'i, 'e) runner")
  | Drain_Panicked (drain_runner: "('s, 'i, 'e) runner")
  | Drain_Returned bool (drain_runner: "('s, 'i, 'e) runner") drain_outcome "'i wake list"

fun drain_until ::
  "('s, 'i, 'e, 'err) machine \<Rightarrow> bool \<Rightarrow> 'i wake list \<Rightarrow> ('s, 'i, 'e) runner \<Rightarrow> drain_outcome
     \<Rightarrow> ('s, 'i, 'e) drain_result" where
  "drain_until m force [] r oc =
     (if rn_tasks r = [] then Drain_Returned False r oc [] else Drain_Waiting r)"
| "drain_until m force (w # ws) r oc =
     (if rn_tasks r = [] then Drain_Returned False r oc (w # ws)
      else case w of
        Elapsed \<Rightarrow> Drain_Returned True r oc ws
      | Wake j \<Rightarrow>
          (case finish_effect m force j (join_next j r) of
             Panic r' \<Rightarrow> Drain_Panicked r'
           | Turned d r' \<Rightarrow> drain_until m force ws r' (oc\<lparr>do_last_disposition := Some d\<rparr>)))"

definition abort_owned :: "('s, 'i, 'e) runner \<Rightarrow> ('s, 'i, 'e) runner" where
  "abort_owned r = r\<lparr>rn_owned := map (\<lambda>(i, t). (i, t\<lparr>oe_cancelled := True\<rparr>)) (rn_owned r)\<rparr>"

text \<open>
  The actor's table of owned effects and its join set are gone: after \<^verbatim>\<open>tasks.detach_all()\<close> and
  \<^verbatim>\<open>owned.clear()\<close>, and when the actor itself ends and drops them.
\<close>

definition release_tasks :: "('s, 'i, 'e) runner \<Rightarrow> ('s, 'i, 'e) runner" where
  "release_tasks r = r\<lparr>rn_released := rn_released r @ rn_tasks r, rn_tasks := [], rn_owned := []\<rparr>"

definition drain ::
  "('s, 'i, 'e, 'err) machine \<Rightarrow> 'i wake list \<Rightarrow> ('s, 'i, 'e) runner \<Rightarrow> ('s, 'i, 'e) drain_result" where
  "drain m ws r =
     (case drain_until m False ws r \<lparr>do_terminal = Drain_Completed, do_last_disposition = None\<rparr> of
        Drain_Returned True r1 oc ws1 \<Rightarrow>
          (case drain_until m True ws1 (abort_owned r1)
                  (oc\<lparr>do_terminal := Drain_Forced ShutdownDeadlineExceeded\<rparr>) of
             Drain_Returned True r2 oc2 ws2 \<Rightarrow>
               Drain_Returned True (release_tasks (abort_owned r2))
                 (oc2\<lparr>do_terminal := Drain_Forced FinalizerDeadlineExceeded\<rparr>) ws2
           | res \<Rightarrow> res)
      | res \<Rightarrow> res)"

record ('s, 'err) shutdown_reply =
  sr_result :: "'err + 's admission"
  sr_drain :: drain_outcome

datatype ('s, 'i, 'e, 'err) shutdown_result =
    Shutdown_Waiting (shutdown_runner: "('s, 'i, 'e) runner")
  | Shutdown_Panicked (shutdown_runner: "('s, 'i, 'e) runner")
  | Shutdown_Replied "('s, 'err) shutdown_reply" (shutdown_runner: "('s, 'i, 'e) runner")

definition complete_shutdown ::
  "('s, 'i, 'e, 'err) machine \<Rightarrow> 'i wake list \<Rightarrow> ('s, 'i, 'e) runner
     \<Rightarrow> ('s, 'i, 'e, 'err) shutdown_result" where
  "complete_shutdown m ws r =
     (case apply_shutdown m r of
        Panic r1 \<Rightarrow> Shutdown_Panicked r1
      | Turned shutdown r1 \<Rightarrow>
          (case drain m ws r1 of
             Drain_Waiting r2 \<Rightarrow> Shutdown_Waiting r2
           | Drain_Panicked r2 \<Rightarrow> Shutdown_Panicked r2
           | Drain_Returned _ r2 oc _ \<Rightarrow>
               (let r3 = store_snapshot r2 in
                Shutdown_Replied
                  \<lparr>sr_result = map_sum id (\<lambda>a. a\<lparr>adm_state := rn_state r3\<rparr>) shutdown, sr_drain = oc\<rparr>
                  r3)))"

text \<open>
  The last part of \<open>RunnerHandle::shutdown\<close>: what the caller is told, from the way the
  actor ended and the reply it sent, if any.
\<close>

definition cleanup_failing :: "disposition \<Rightarrow> bool" where
  "cleanup_failing d \<longleftrightarrow> d \<in> {D_Rejected, D_Failed, D_RecoveryRequired}"

definition retirement_report ::
  "actor_failure option \<Rightarrow> ('s, 'err) shutdown_reply option \<Rightarrow> 's \<Rightarrow> ('s, 'err) retirement" where
  "retirement_report failure reply snapshot =
     (case failure of
        Some f \<Rightarrow> \<lparr>rt_state = snapshot, rt_disposition = D_Retired, rt_terminal = RT_ActorFailed f\<rparr>
      | None \<Rightarrow>
          (case reply of
             None \<Rightarrow>
               \<lparr>rt_state = snapshot, rt_disposition = D_Retired,
                rt_terminal = RT_ActorFailed AF_RetiredBeforeReply\<rparr>
           | Some rep \<Rightarrow>
               (let d = settlement (sr_result rep);
                    state = (case sr_result rep of Inl _ \<Rightarrow> snapshot | Inr a \<Rightarrow> adm_state a);
                    terminal =
                      (case do_terminal (sr_drain rep) of
                         Drain_Forced reason \<Rightarrow> RT_Forced reason
                       | Drain_Completed \<Rightarrow>
                           (case sr_result rep of
                              Inl err \<Rightarrow> RT_ShutdownRejected err
                            | Inr _ \<Rightarrow>
                                (let last = unwrap_or (do_last_disposition (sr_drain rep)) d
                                 in if cleanup_failing last then RT_CleanupFailed last else RT_Applied)))
                in \<lparr>rt_state = state, rt_disposition = d, rt_terminal = terminal\<rparr>)))"

section \<open>The handle and the actor\<close>

datatype actor_status = Running | Finished | Dead actor_failure

text \<open>
  The state shared by \<^verbatim>\<open>RunnerHandle\<close> and the actor of \<^verbatim>\<open>run_actor\<close>: the bounded inbox of
  admitted commands with the number of the reply channel each carries, the replies sent so far,
  the reply channels dropped without a reply, the \<^verbatim>\<open>closed\<close> flag, the shutdown token and the
  retirement reply.
\<close>

record ('s, 'i, 'e, 'err) kernel =
  kn_runner :: "('s, 'i, 'e) runner"
  kn_inbox :: "(nat \<times> 'i) list"
  kn_next_reply :: nat
  kn_replies :: "(nat \<times> ('err + 's admission)) list"
  kn_dropped :: "nat list"
  kn_closed :: bool
  kn_shutdown :: bool
  kn_actor :: actor_status
  kn_retirement :: "('s, 'err) shutdown_reply option"

definition spawn_runner :: "nat option \<Rightarrow> 's \<Rightarrow> ('s, 'i, 'e, 'err) kernel" where
  "spawn_runner observer s =
     \<lparr>kn_runner = initial_runner observer s, kn_inbox = [], kn_next_reply = 0, kn_replies = [],
      kn_dropped = [], kn_closed = False, kn_shutdown = False, kn_actor = Running, kn_retirement = None\<rparr>"

text \<open>
  The synchronous part of \<^verbatim>\<open>RunnerHandle::try_admit\<close>: refused at once, or the number of the
  reply to await. A channel whose receiver is gone (the actor ended) reports \<^verbatim>\<open>Closed\<close>.
\<close>

definition try_admit ::
  "nat \<Rightarrow> 'i \<Rightarrow> ('s, 'i, 'e, 'err) kernel
     \<Rightarrow> ('err admission_error + nat) \<times> ('s, 'i, 'e, 'err) kernel" where
  "try_admit capacity input k =
     (if kn_closed k then (Inl AE_Retired, k)
      else if kn_actor k \<noteq> Running then (Inl AE_Retired, k)
      else if capacity \<le> length (kn_inbox k) then (Inl InboxSaturated, k)
      else (Inr (kn_next_reply k),
            k\<lparr>kn_inbox := kn_inbox k @ [(kn_next_reply k, input)],
              kn_next_reply := Suc (kn_next_reply k)\<rparr>))"

text \<open>
  What awaiting that reply gives: the reducer's answer once it was sent, \<^verbatim>\<open>Retired\<close> once the
  channel was dropped with the actor, and nothing (\<open>None\<close>) while the command waits.
\<close>

definition try_admit_response ::
  "nat \<Rightarrow> ('s, 'i, 'e, 'err) kernel \<Rightarrow> ('err admission_error + 's admission) option" where
  "try_admit_response n k =
     (case map_of (kn_replies k) n of
        Some res \<Rightarrow> Some (map_sum AE_Rejected id res)
      | None \<Rightarrow> if n \<in> set (kn_dropped k) then Some (Inl AE_Retired) else None)"

text \<open>The synchronous part of \<^verbatim>\<open>RunnerHandle::shutdown\<close>, and of dropping the last owner.\<close>

definition request_shutdown ::
  "('s, 'i, 'e, 'err) kernel \<Rightarrow> ('s, 'err) retirement option \<times> ('s, 'i, 'e, 'err) kernel" where
  "request_shutdown k =
     (if kn_closed k
      then (Some \<lparr>rt_state = rn_snapshot (kn_runner k), rt_disposition = D_Unchanged,
                  rt_terminal = RT_AlreadyRetired\<rparr>, k)
      else (None, k\<lparr>kn_closed := True, kn_shutdown := True\<rparr>))"

text \<open>
  The end of the future of \<^verbatim>\<open>run_actor\<close>, by return, by unwinding or by abort: its locals are
  dropped, the receiver with every queued command and its reply channel, the join set (which tells
  its tasks to abort) and the table of owned effects. \<open>pending\<close> is the reply channel of the command
  in hand, if any.
\<close>

definition end_actor ::
  "actor_status \<Rightarrow> nat list \<Rightarrow> ('s, 'i, 'e, 'err) kernel \<Rightarrow> ('s, 'i, 'e, 'err) kernel" where
  "end_actor status pending k =
     k\<lparr>kn_actor := status, kn_runner := release_tasks (kn_runner k),
       kn_dropped := kn_dropped k @ pending @ map fst (kn_inbox k), kn_inbox := []\<rparr>"

text \<open>The three arms of the biased \<^verbatim>\<open>select!\<close> of \<^verbatim>\<open>run_actor\<close>.\<close>

definition actor_join ::
  "('s, 'i, 'e, 'err) machine \<Rightarrow> 'i joined \<Rightarrow> ('s, 'i, 'e, 'err) kernel \<Rightarrow> ('s, 'i, 'e, 'err) kernel" where
  "actor_join m j k =
     (case finish_effect m False j (join_next j (kn_runner k)) of
        Panic r \<Rightarrow> end_actor (Dead AF_Panicked) [] (k\<lparr>kn_runner := r\<rparr>)
      | Turned _ r \<Rightarrow> k\<lparr>kn_runner := store_snapshot r\<rparr>)"

definition actor_receive ::
  "('s, 'i, 'e, 'err) machine \<Rightarrow> ('s, 'i, 'e, 'err) kernel \<Rightarrow> ('s, 'i, 'e, 'err) kernel" where
  "actor_receive m k =
     (case kn_inbox k of
        [] \<Rightarrow> k
      | (reply, input) # rest \<Rightarrow>
          (case apply_input m input (kn_runner k) of
             Panic r \<Rightarrow> end_actor (Dead AF_Panicked) [reply] (k\<lparr>kn_inbox := rest, kn_runner := r\<rparr>)
           | Turned res r \<Rightarrow>
               k\<lparr>kn_inbox := rest, kn_runner := store_snapshot r,
                 kn_replies := kn_replies k @ [(reply, res)]\<rparr>))"

definition actor_shutdown ::
  "('s, 'i, 'e, 'err) machine \<Rightarrow> 'i wake list \<Rightarrow> ('s, 'i, 'e, 'err) kernel \<Rightarrow> ('s, 'i, 'e, 'err) kernel" where
  "actor_shutdown m ws k =
     (case complete_shutdown m ws (kn_runner k) of
        Shutdown_Waiting _ \<Rightarrow> k
      | Shutdown_Panicked r \<Rightarrow> end_actor (Dead AF_Panicked) [] (k\<lparr>kn_runner := r\<rparr>)
      | Shutdown_Replied rep r \<Rightarrow>
          end_actor Finished [] (k\<lparr>kn_runner := r, kn_retirement := Some rep\<rparr>))"

text \<open>
  Aborting the actor, between two turns or, once the shutdown is under way, at one of the points
  where its drain waits: \<open>ws\<close> are the answers the drain has had by then.
\<close>

definition abort_for_process_termination ::
  "('s, 'i, 'e, 'err) kernel \<Rightarrow> ('s, 'i, 'e, 'err) kernel" where
  "abort_for_process_termination k =
     (if kn_actor k = Running then end_actor (Dead AF_Cancelled) [] k else k)"

definition abort_in_shutdown ::
  "('s, 'i, 'e, 'err) machine \<Rightarrow> 'i wake list \<Rightarrow> ('s, 'i, 'e, 'err) kernel \<Rightarrow> ('s, 'i, 'e, 'err) kernel" where
  "abort_in_shutdown m ws k =
     (case complete_shutdown m ws (kn_runner k) of
        Shutdown_Waiting r \<Rightarrow> abort_for_process_termination (k\<lparr>kn_runner := r\<rparr>)
      | _ \<Rightarrow> k)"

text \<open>What an explicit shutdown returns once the actor has been joined.\<close>

definition retirement_of :: "('s, 'i, 'e, 'err) kernel \<Rightarrow> ('s, 'err) retirement" where
  "retirement_of k =
     retirement_report (case kn_actor k of Dead f \<Rightarrow> Some f | _ \<Rightarrow> None) (kn_retirement k)
       (rn_snapshot (kn_runner k))"

text \<open>
  One step of handle and actor. The parameter \<open>capacity\<close> is the configured inbox capacity;
  \<open>command\<close> and \<open>answer\<close> describe the environment: which inputs callers admit, and which
  results the executor may give for an effect (the effect and the input it completed with). A run
  starts with any observer.
\<close>

definition answers :: "('e \<Rightarrow> 'i \<Rightarrow> bool) \<Rightarrow> (nat \<times> 'e) list \<Rightarrow> 'i joined \<Rightarrow> bool" where
  "answers answer tasks j \<longleftrightarrow>
     (case map_of tasks (joined_id j) of
        None \<Rightarrow> False
      | Some e \<Rightarrow> (case j of Join_Ok _ i \<Rightarrow> answer e i | Join_Err _ _ \<Rightarrow> True))"

inductive kernel_step ::
  "('s, 'i, 'e, 'err) machine \<Rightarrow> nat \<Rightarrow> ('i \<Rightarrow> bool) \<Rightarrow> ('e \<Rightarrow> 'i \<Rightarrow> bool)
     \<Rightarrow> ('s, 'i, 'e, 'err) kernel \<Rightarrow> ('s, 'i, 'e, 'err) kernel \<Rightarrow> bool"
  for m capacity command answer where
  admit: "command input \<Longrightarrow>
     kernel_step m capacity command answer k (snd (try_admit capacity input k))"
| shutdown_requested: "kernel_step m capacity command answer k (snd (request_shutdown k))"
| joined: "kn_actor k = Running \<Longrightarrow> \<not> kn_shutdown k \<Longrightarrow> rn_owned (kn_runner k) \<noteq> [] \<Longrightarrow>
     answers answer (rn_tasks (kn_runner k)) j \<Longrightarrow>
     kernel_step m capacity command answer k (actor_join m j k)"
| received: "kn_actor k = Running \<Longrightarrow> \<not> kn_shutdown k \<Longrightarrow> kn_inbox k \<noteq> [] \<Longrightarrow>
     kernel_step m capacity command answer k (actor_receive m k)"
| retired: "kn_actor k = Running \<Longrightarrow> kn_shutdown k \<Longrightarrow>
     kernel_step m capacity command answer k (actor_shutdown m ws k)"
| aborted: "kernel_step m capacity command answer k (abort_for_process_termination k)"
| aborted_draining: "kn_actor k = Running \<Longrightarrow> kn_shutdown k \<Longrightarrow>
     kernel_step m capacity command answer k (abort_in_shutdown m ws k)"

inductive kernel_reach ::
  "('s, 'i, 'e, 'err) machine \<Rightarrow> nat \<Rightarrow> ('i \<Rightarrow> bool) \<Rightarrow> ('e \<Rightarrow> 'i \<Rightarrow> bool) \<Rightarrow> 's
     \<Rightarrow> ('s, 'i, 'e, 'err) kernel \<Rightarrow> bool"
  for m capacity command answer s0 where
  start: "kernel_reach m capacity command answer s0 (spawn_runner observer s0)"
| step: "kernel_reach m capacity command answer s0 k \<Longrightarrow>
     kernel_step m capacity command answer k k' \<Longrightarrow> kernel_reach m capacity command answer s0 k'"

end
