(* ===== verification/Kernel_Laws.thy ===== *)
theory Kernel_Laws
  imports Kernel
begin

text \<open>
  What the kernel guarantees of every machine: publication before notification, exact
  ownership of effect tasks, retirement of stale completions, bounded admission and a
  drain that leaves nothing owned. The second half states the contract a machine offers
  the kernel as locales; each machine theory interprets them for its reducer.
\<close>

section \<open>Correlations\<close>

lemma with_effect_sel [simp]:
  "machine_authority (with_effect c n) = machine_authority c"
  "scope_epoch (with_effect c n) = scope_epoch c"
  "operation_id (with_effect c n) = operation_id c"
  "admitted_revision (with_effect c n) = admitted_revision c"
  "effect_id (with_effect c n) = n"
  by (simp_all add: with_effect_def)

lemma same_operation_refl [simp]: "same_operation c c"
  by (simp add: same_operation_def)

lemma same_operation_sym: "same_operation a b \<longleftrightarrow> same_operation b a"
  by (auto simp: same_operation_def)

lemma same_operation_trans: "same_operation a b \<Longrightarrow> same_operation b c \<Longrightarrow> same_operation a c"
  by (simp add: same_operation_def)

lemma same_operation_with_effect [simp]:
  "same_operation (with_effect a n) b = same_operation a b"
  "same_operation a (with_effect b n) = same_operation a b"
  by (simp_all add: same_operation_def)

lemma same_operation_effect_eq:
  "same_operation a b \<Longrightarrow> with_effect a (effect_id b) = b"
  by (cases a; cases b) (simp add: same_operation_def with_effect_def)

lemma with_effect_eq_iff [simp]: "with_effect c m = with_effect c n \<longleftrightarrow> m = n"
  using with_effect_sel(5) by metis

section \<open>How runner operations act on fields\<close>

lemma batch_one_iter [simp]: "batch_into_iter (batch_one e) = [e]"
  by (simp add: batch_one_def batch_into_iter_def)

lemma run_effect_sel [simp]:
  "rn_state (run_effect m role e r) = rn_state r"
  "rn_snapshot (run_effect m role e r) = rn_snapshot r"
  "rn_observed (run_effect m role e r) = rn_observed r"
  "rn_released (run_effect m role e r) = rn_released r"
  "rn_observer (run_effect m role e r) = rn_observer r"
  by (simp_all add: run_effect_def split: effect_mode.split)

lemma run_effects_sel [simp]:
  "rn_state (run_effects m role es r) = rn_state r"
  "rn_snapshot (run_effects m role es r) = rn_snapshot r"
  "rn_observed (run_effects m role es r) = rn_observed r"
  "rn_released (run_effects m role es r) = rn_released r"
  "rn_observer (run_effects m role es r) = rn_observer r"
  by (induction es arbitrary: r) simp_all

lemma store_snapshot_sel [simp]:
  "rn_state (store_snapshot r) = rn_state r"
  "rn_snapshot (store_snapshot r) = rn_state r"
  "rn_tasks (store_snapshot r) = rn_tasks r"
  "rn_owned (store_snapshot r) = rn_owned r"
  "rn_next (store_snapshot r) = rn_next r"
  "rn_observed (store_snapshot r) = rn_observed r"
  "rn_released (store_snapshot r) = rn_released r"
  "rn_observer (store_snapshot r) = rn_observer r"
  by (simp_all add: store_snapshot_def)

lemma notify_observer_sel [simp]:
  "rn_state (notify_observer p i d r) = rn_state r"
  "rn_snapshot (notify_observer p i d r) = rn_snapshot r"
  "rn_tasks (notify_observer p i d r) = rn_tasks r"
  "rn_owned (notify_observer p i d r) = rn_owned r"
  "rn_next (notify_observer p i d r) = rn_next r"
  "rn_observed (notify_observer p i d r) = rn_observed r @ [(p, i, rn_state r, d, rn_snapshot r)]"
  "rn_released (notify_observer p i d r) = rn_released r"
  "rn_observer (notify_observer p i d r) = rn_observer r"
  by (simp_all add: notify_observer_def)

lemma join_next_sel [simp]:
  "rn_state (join_next j r) = rn_state r"
  "rn_snapshot (join_next j r) = rn_snapshot r"
  "rn_owned (join_next j r) = rn_owned r"
  "rn_next (join_next j r) = rn_next r"
  "rn_observed (join_next j r) = rn_observed r"
  "rn_tasks (join_next j r) = AList.delete (joined_id j) (rn_tasks r)"
  "rn_released (join_next j r) = rn_released r"
  "rn_observer (join_next j r) = rn_observer r"
  by (simp_all add: join_next_def)

lemma abort_owned_sel [simp]:
  "rn_state (abort_owned r) = rn_state r"
  "rn_snapshot (abort_owned r) = rn_snapshot r"
  "rn_tasks (abort_owned r) = rn_tasks r"
  "rn_next (abort_owned r) = rn_next r"
  "rn_observed (abort_owned r) = rn_observed r"
  "rn_released (abort_owned r) = rn_released r"
  "rn_observer (abort_owned r) = rn_observer r"
  by (simp_all add: abort_owned_def)

lemma release_tasks_sel [simp]:
  "rn_state (release_tasks r) = rn_state r"
  "rn_snapshot (release_tasks r) = rn_snapshot r"
  "rn_tasks (release_tasks r) = []"
  "rn_owned (release_tasks r) = []"
  "rn_next (release_tasks r) = rn_next r"
  "rn_observed (release_tasks r) = rn_observed r"
  "rn_released (release_tasks r) = rn_released r @ rn_tasks r"
  "rn_observer (release_tasks r) = rn_observer r"
  by (simp_all add: release_tasks_def)

lemma observer_panics_simps [simp]:
  "observer_panics (store_snapshot r) = observer_panics r"
  "observer_panics (r\<lparr>rn_state := s\<rparr>) = observer_panics r"
  "observer_panics (r\<lparr>rn_owned := os\<rparr>) = observer_panics r"
  "observer_panics (join_next j r) = observer_panics r"
  by (simp_all add: observer_panics_def)

text \<open>The runner state after a transition has been published and observed, before its effects run.\<close>

definition published ::
  "'i \<Rightarrow> ('s, 'e, 'err) transition \<Rightarrow> ('s, 'i, 'e) runner \<Rightarrow> ('s, 'i, 'e) runner" where
  "published input t r =
     notify_observer (rn_state r) input (transition_disposition t)
       (store_snapshot (r\<lparr>rn_state := next_state (rn_state r) t\<rparr>))"

definition reply_of :: "'s \<Rightarrow> ('s, 'e, 'err) transition \<Rightarrow> 'err + 's admission" where
  "reply_of s t =
     (case t of
        T_Rejected err \<Rightarrow> Inl err
      | _ \<Rightarrow> Inr \<lparr>adm_state = next_state s t, adm_disposition = transition_disposition t\<rparr>)"

lemma published_sel [simp]:
  "rn_state (published i t r) = next_state (rn_state r) t"
  "rn_snapshot (published i t r) = next_state (rn_state r) t"
  "rn_tasks (published i t r) = rn_tasks r"
  "rn_owned (published i t r) = rn_owned r"
  "rn_next (published i t r) = rn_next r"
  "rn_observed (published i t r) =
     rn_observed r @ [(rn_state r, i, next_state (rn_state r) t, transition_disposition t,
                       next_state (rn_state r) t)]"
  "rn_released (published i t r) = rn_released r"
  "rn_observer (published i t r) = rn_observer r"
  by (simp_all add: published_def)

lemma settlement_reply_of [simp]: "settlement (reply_of s t) = transition_disposition t"
  by (cases t) (simp_all add: settlement_def reply_of_def)

lemma apply_input_with_role_eq:
  "apply_input_with_role m i role r =
     (case m_reduce m (rn_state r) i of
        None \<Rightarrow> Panic r
      | Some t \<Rightarrow>
          if observer_panics r then Panic (published i t r)
          else Turned (reply_of (rn_state r) t) (run_effects m role (emitted t) (published i t r)))"
proof (cases "m_reduce m (rn_state r) i")
  case None
  then show ?thesis
    by (simp add: apply_input_with_role_def)
next
  case (Some t)
  then show ?thesis
    by (cases t) (simp_all add: apply_input_with_role_def published_def reply_of_def Let_def)
qed

lemma apply_input_with_role_TurnedE:
  assumes "apply_input_with_role m i role r = Turned res r'"
  obtains t where "m_reduce m (rn_state r) i = Some t" "res = reply_of (rn_state r) t"
    "r' = run_effects m role (emitted t) (published i t r)"
  using assms by (auto simp: apply_input_with_role_eq split: option.splits if_splits)

lemma finish_effect_eq:
  "finish_effect m force j r =
     (case map_of (rn_owned r) (joined_id j) of
        None \<Rightarrow> Turned D_Retired r
      | Some task \<Rightarrow>
          (let input = fst (completion_input m force (rn_state r) task j);
               role = snd (completion_input m force (rn_state r) task j);
               r1 = r\<lparr>rn_owned := AList.delete (joined_id j) (rn_owned r)\<rparr>
           in case m_reduce m (rn_state r) input of
                None \<Rightarrow> Panic r1
              | Some t \<Rightarrow>
                  if observer_panics r then Panic (published input t r1)
                  else Turned (transition_disposition t)
                         (run_effects m role (emitted t) (published input t r1))))"
  by (auto simp: finish_effect_def apply_input_with_role_eq Let_def split_beta
      split: option.splits prod.splits if_splits)

lemma finish_effect_TurnedE:
  assumes "finish_effect m force j r = Turned d r'"
  obtains (unowned) "map_of (rn_owned r) (joined_id j) = None" "d = D_Retired" "r' = r"
  | (owned) task i role t where
      "map_of (rn_owned r) (joined_id j) = Some task"
      "completion_input m force (rn_state r) task j = (i, role)"
      "m_reduce m (rn_state r) i = Some t" "d = transition_disposition t"
      "r' = run_effects m role (emitted t)
              (published i t (r\<lparr>rn_owned := AList.delete (joined_id j) (rn_owned r)\<rparr>))"
  using assms by (auto simp: finish_effect_eq Let_def split: option.splits if_splits) (metis prod.collapse)

text \<open>The runner a settlement leaves behind, whether it panicked or not.\<close>

lemma finish_effect_runner_cases:
  obtains (unowned) "map_of (rn_owned r) (joined_id j) = None" "turn_runner (finish_effect m force j r) = r"
  | (reducer) task where "map_of (rn_owned r) (joined_id j) = Some task"
      "turn_runner (finish_effect m force j r) = r\<lparr>rn_owned := AList.delete (joined_id j) (rn_owned r)\<rparr>"
  | (observer) task i t where "map_of (rn_owned r) (joined_id j) = Some task"
      "m_reduce m (rn_state r) i = Some t"
      "turn_runner (finish_effect m force j r)
         = published i t (r\<lparr>rn_owned := AList.delete (joined_id j) (rn_owned r)\<rparr>)"
  | (owned) task i role t where
      "map_of (rn_owned r) (joined_id j) = Some task"
      "m_reduce m (rn_state r) i = Some t"
      "turn_runner (finish_effect m force j r) = run_effects m role (emitted t)
         (published i t (r\<lparr>rn_owned := AList.delete (joined_id j) (rn_owned r)\<rparr>))"
proof (cases "map_of (rn_owned r) (joined_id j)")
  case None
  then show thesis by (intro unowned) (simp_all add: finish_effect_eq)
next
  case (Some task)
  show thesis
  proof (cases "m_reduce m (rn_state r) (fst (completion_input m force (rn_state r) task j))")
    case None
    then show thesis using Some by (intro reducer) (simp_all add: finish_effect_eq)
  next
    case t: (Some t)
    show thesis
    proof (cases "observer_panics r")
      case True
      then show thesis using Some t by (intro observer [OF Some t]) (simp add: finish_effect_eq)
    next
      case False
      then show thesis using Some t by (intro owned [OF Some t]) (simp add: finish_effect_eq)
    qed
  qed
qed

section \<open>Published state\<close>

text \<open>
  A consumer that reads the snapshot when an observer is called reads the state the call
  is about, and between actor turns the snapshot is the reducer's state.
\<close>

definition snapshot_fresh :: "('s, 'i, 'e) runner \<Rightarrow> bool" where
  "snapshot_fresh r \<longleftrightarrow>
     rn_snapshot r = rn_state r \<and> (\<forall>(p, i, cur, d, snap) \<in> set (rn_observed r). snap = cur)"

lemma snapshot_fresh_published:
  "snapshot_fresh r \<Longrightarrow> snapshot_fresh (published i t r)"
  by (simp add: snapshot_fresh_def)

lemma snapshot_fresh_cong:
  "rn_snapshot r' = rn_snapshot r \<Longrightarrow> rn_state r' = rn_state r \<Longrightarrow> rn_observed r' = rn_observed r
     \<Longrightarrow> snapshot_fresh r' = snapshot_fresh r"
  by (simp add: snapshot_fresh_def)

lemma snapshot_fresh_simps [simp]:
  "snapshot_fresh (run_effects m role es r) = snapshot_fresh r"
  "snapshot_fresh (join_next j r) = snapshot_fresh r"
  "snapshot_fresh (abort_owned r) = snapshot_fresh r"
  "snapshot_fresh (r\<lparr>rn_owned := os\<rparr>) = snapshot_fresh r"
  "snapshot_fresh (release_tasks r) = snapshot_fresh r"
  "snapshot_fresh (initial_runner observer s)"
  by (rule snapshot_fresh_cong; simp)+ (simp add: snapshot_fresh_def initial_runner_def)

lemma snapshot_fresh_store: "snapshot_fresh r \<Longrightarrow> store_snapshot r = r"
  by (simp add: snapshot_fresh_def store_snapshot_def)

section \<open>Ownership of effect tasks\<close>

text \<open>
  The join set and the correlation table name the same tasks, each with the correlation
  of the effect it runs, and a task id is never used twice.
\<close>

definition tracked :: "('s, 'i, 'e, 'err) machine \<Rightarrow> ('s, 'i, 'e) runner \<Rightarrow> bool" where
  "tracked m r \<longleftrightarrow>
     map (\<lambda>(i, e). (i, m_correlation m e)) (rn_tasks r)
       = map (\<lambda>(i, t). (i, oe_correlation t)) (rn_owned r)
     \<and> distinct (map fst (rn_owned r))
     \<and> (\<forall>i \<in> fst ` set (rn_owned r). i < rn_next r)"

lemma cancel_matching_map [simp]:
  "map (\<lambda>(i, t). (i, oe_correlation t)) (cancel_matching c os) = map (\<lambda>(i, t). (i, oe_correlation t)) os"
  "map fst (cancel_matching c os) = map fst os"
  by (auto simp: cancel_matching_def)

lemma fst_set_cancel_matching [simp]: "fst ` set (cancel_matching c os) = fst ` set os"
  by (metis cancel_matching_map(2) image_set)

lemma map_abort [simp]:
  "map (\<lambda>(i, t). (i, oe_correlation t)) (rn_owned (abort_owned r))
     = map (\<lambda>(i, t). (i, oe_correlation t)) (rn_owned r)"
  "map fst (rn_owned (abort_owned r)) = map fst (rn_owned r)"
  by (auto simp: abort_owned_def)

lemma fst_set_abort [simp]: "fst ` set (rn_owned (abort_owned r)) = fst ` set (rn_owned r)"
  by (metis map_abort(2) image_set)

lemma tracked_run_effect: "tracked m r \<Longrightarrow> tracked m (run_effect m role e r)"
proof (cases "m_mode m e")
  case Spawn
  assume "tracked m r"
  moreover from this have "rn_next r \<notin> fst ` set (rn_owned r)"
    by (auto simp: tracked_def)
  ultimately show ?thesis
    using Spawn by (auto simp: tracked_def run_effect_def less_Suc_eq)
qed (simp add: tracked_def run_effect_def)

lemma tracked_run_effects: "tracked m r \<Longrightarrow> tracked m (run_effects m role es r)"
  by (induction es arbitrary: r) (simp_all add: tracked_run_effect)

lemma tracked_cong:
  "rn_tasks r' = rn_tasks r \<Longrightarrow> rn_owned r' = rn_owned r \<Longrightarrow> rn_next r' = rn_next r
     \<Longrightarrow> tracked m r' = tracked m r"
  by (simp add: tracked_def)

lemma tracked_simps [simp]:
  "tracked m (published i t r) = tracked m r"
  "tracked m (store_snapshot r) = tracked m r"
  "tracked m (abort_owned r) = tracked m r"
  "tracked m (initial_runner observer s)"
  "tracked m (release_tasks r)"
  by (rule tracked_cong; simp)+ (simp_all add: tracked_def initial_runner_def)

lemma map_delete_commute:
  "map (\<lambda>(i, e). (i, f e)) (AList.delete k xs) = AList.delete k (map (\<lambda>(i, e). (i, f e)) xs)"
  by (induction xs) auto

lemma tracked_joined:
  assumes "tracked m r"
  shows "tracked m ((join_next j r)\<lparr>rn_owned := AList.delete (joined_id j) (rn_owned r)\<rparr>)"
  using assms by (auto simp: tracked_def map_delete_commute delete_map_fst set_delete_iff)

lemma tracked_join_unowned:
  assumes "tracked m r" and "map_of (rn_owned r) (joined_id j) = None"
  shows "tracked m (join_next j r)"
proof -
  have "AList.delete (joined_id j) (rn_owned r) = rn_owned r"
    using assms(2) by (simp add: map_of_eq_None_iff delete_id)
  then show ?thesis
    using tracked_joined [OF assms(1), of j] tracked_cong
    by (metis (no_types, lifting) join_next_sel(3) runner.surjective runner.update_convs(4))
qed

lemma tracked_finish_effect:
  assumes "tracked m r"
  shows "tracked m (turn_runner (finish_effect m force j (join_next j r)))"
  by (cases rule: finish_effect_runner_cases [where m = m and force = force and j = j and r = "join_next j r"])
    (use tracked_join_unowned [OF assms] tracked_joined [OF assms, of j]
      in \<open>simp_all add: tracked_run_effects\<close>)

lemma tracked_distinct_tasks: "tracked m r \<Longrightarrow> distinct (map fst (rn_tasks r))"
proof -
  assume tr: "tracked m r"
  then have "map fst (map (\<lambda>(i, e). (i, m_correlation m e)) (rn_tasks r))
      = map fst (map (\<lambda>(i, t). (i, oe_correlation t)) (rn_owned r))"
    by (simp only: tracked_def)
  then show ?thesis
    using tr by (simp only: map_fst_map_snd tracked_def)
qed

lemma tracked_tasks_Nil: "tracked m r \<Longrightarrow> rn_tasks r = [] \<longleftrightarrow> rn_owned r = []"
  by (metis (no_types, lifting) list.map_disc_iff tracked_def)

section \<open>Lifting runner facts to the drain and to every reachable kernel\<close>

text \<open>
  A predicate kept by one reducer turn, by a task settlement and by the bookkeeping of
  the drain holds of every runner the kernel reaches.
\<close>

definition runner_stable :: "('s, 'i, 'e, 'err) machine \<Rightarrow> (('s, 'i, 'e) runner \<Rightarrow> bool) \<Rightarrow> bool" where
  "runner_stable m P \<longleftrightarrow>
     (\<forall>i role r t. P r \<longrightarrow> m_reduce m (rn_state r) i = Some t \<longrightarrow>
        P (run_effects m role (emitted t) (published i t r)) \<and> P (published i t r))
     \<and> (\<forall>force j r. P r \<longrightarrow> P (turn_runner (finish_effect m force j (join_next j r))))
     \<and> (\<forall>r. P r \<longrightarrow> P (store_snapshot r))
     \<and> (\<forall>r. P r \<longrightarrow> P (abort_owned r))
     \<and> (\<forall>r. P r \<longrightarrow> P (release_tasks r))"

lemma runner_stableD:
  assumes "runner_stable m P" and "P r"
  shows "m_reduce m (rn_state r) i = Some t \<Longrightarrow> P (run_effects m role (emitted t) (published i t r))"
    and "finish_effect m force j (join_next j r) = Turned d r' \<Longrightarrow> P r'"
    and "P (store_snapshot r)"
    and "P (abort_owned r)"
    and "P (release_tasks r)"
    and "m_reduce m (rn_state r) i = Some t \<Longrightarrow> P (published i t r)"
    and "P (turn_runner (finish_effect m force j (join_next j r)))"
  using assms by (auto simp: runner_stable_def) (metis turn.sel(2))

lemma apply_input_runner_stable:
  assumes "runner_stable m P" and "P r"
  shows "P (turn_runner (apply_input_with_role m i role r))"
  using runner_stableD(1,6) [OF assms] assms(2)
  by (auto simp: apply_input_with_role_eq split: option.splits)

lemma apply_input_stable:
  assumes "runner_stable m P" and "P r" and "apply_input_with_role m i role r = Turned res r'"
  shows "P r'"
  using apply_input_runner_stable [OF assms(1,2), of i role] assms(3) by simp

lemma drain_until_stable:
  assumes "runner_stable m P" and "P r"
  shows "P (drain_runner (drain_until m force ws r oc))"
  using assms(2)
proof (induction ws arbitrary: r oc)
  case (Cons w ws)
  show ?case
  proof (cases w)
    case (Wake j)
    show ?thesis
      using Wake Cons.IH Cons.prems runner_stableD(7) [OF assms(1) Cons.prems, of force j]
      by (auto split: turn.splits)
  qed (use Cons.prems in simp)
qed simp

lemma drain_stable:
  assumes "runner_stable m P" and "P r"
  shows "P (drain_runner (drain m ws r))"
proof -
  let ?oc = "\<lparr>do_terminal = Drain_Completed, do_last_disposition = None\<rparr>"
  have first: "P (drain_runner (drain_until m False ws r ?oc))"
    by (rule drain_until_stable [OF assms])
  have second: "P (drain_runner (drain_until m True ws1 (abort_owned r1) oc1))"
    if "P r1" for r1 ws1 oc1
    by (rule drain_until_stable [OF assms(1) runner_stableD(4) [OF assms(1) that]])
  have third: "P (release_tasks (abort_owned r2))" if "P r2" for r2
    using that runner_stableD(4,5) [OF assms(1)] by blast
  show ?thesis
  proof (cases "drain_until m False ws r ?oc")
    case (Drain_Returned b1 r1 oc1 ws1)
    have r1: "P r1"
      using first Drain_Returned by simp
    show ?thesis
    proof (cases b1)
      case True
      let ?d = "drain_until m True ws1 (abort_owned r1)
          (oc1\<lparr>do_terminal := Drain_Forced ShutdownDeadlineExceeded\<rparr>)"
      have "P (drain_runner ?d)"
        by (rule second [OF r1])
      then show ?thesis
        using True Drain_Returned third
        by (cases ?d) (simp_all add: drain_def split: bool.splits)
    qed (use r1 Drain_Returned in \<open>simp add: drain_def\<close>)
  qed (use first in \<open>simp_all add: drain_def\<close>)
qed

lemma complete_shutdown_RepliedE:
  assumes "complete_shutdown m ws r = Shutdown_Replied rep r'"
  obtains res r1 b r2 oc ws' where "apply_shutdown m r = Turned res r1"
    "drain m ws r1 = Drain_Returned b r2 oc ws'" "r' = store_snapshot r2" "sr_drain rep = oc"
    "sr_result rep = map_sum id (\<lambda>a. a\<lparr>adm_state := rn_state r2\<rparr>) res"
  using assms
  by (auto simp: complete_shutdown_def Let_def split: turn.splits drain_result.splits)

lemma complete_shutdown_stable:
  assumes "runner_stable m P" and "P r"
  shows "P (shutdown_runner (complete_shutdown m ws r))"
proof -
  have first: "P (turn_runner (apply_shutdown m r))"
    using apply_input_runner_stable [OF assms] by (simp add: apply_shutdown_def apply_input_def)
  have second: "P (drain_runner (drain m ws r1))" if "P r1" for r1
    by (rule drain_stable [OF assms(1) that])
  show ?thesis
    using first second runner_stableD(3) [OF assms(1)]
    by (fastforce simp: complete_shutdown_def Let_def split: turn.splits drain_result.splits)
qed

lemma end_actor_sel [simp]:
  "kn_runner (end_actor status pending k) = release_tasks (kn_runner k)"
  "kn_actor (end_actor status pending k) = status"
  "kn_inbox (end_actor status pending k) = []"
  "kn_replies (end_actor status pending k) = kn_replies k"
  "kn_dropped (end_actor status pending k) = kn_dropped k @ pending @ map fst (kn_inbox k)"
  "kn_next_reply (end_actor status pending k) = kn_next_reply k"
  "kn_retirement (end_actor status pending k) = kn_retirement k"
  "kn_closed (end_actor status pending k) = kn_closed k"
  "kn_shutdown (end_actor status pending k) = kn_shutdown k"
  by (simp_all add: end_actor_def)

lemma kernel_step_stable:
  assumes "runner_stable m P" and "P (kn_runner k)" and "kernel_step m capacity command answer k k'"
  shows "P (kn_runner k')"
  using assms(3)
proof cases
  case (joined j)
  then show ?thesis
    using runner_stableD(7) [OF assms(1,2), of False j] runner_stableD(3,5) [OF assms(1)]
    by (auto simp: actor_join_def split: turn.splits)
next
  case received
  then obtain n i rest where "kn_inbox k = (n, i) # rest"
    by (metis neq_Nil_conv surj_pair)
  then show ?thesis
    using received apply_input_runner_stable [OF assms(1,2), of i Operation] runner_stableD(3,5) [OF assms(1)]
    by (auto simp: actor_receive_def apply_input_def split: turn.splits)
next
  case (retired ws)
  then show ?thesis
    using assms(2) complete_shutdown_stable [OF assms(1,2), of ws] runner_stableD(5) [OF assms(1)]
    by (auto simp: actor_shutdown_def split: shutdown_result.splits)
next
  case (aborted_draining ws)
  then show ?thesis
    using assms(2) complete_shutdown_stable [OF assms(1,2), of ws] runner_stableD(5) [OF assms(1)]
    by (auto simp: abort_in_shutdown_def abort_for_process_termination_def split: shutdown_result.splits)
qed (use assms(2) runner_stableD(5) [OF assms(1)]
    in \<open>auto simp: try_admit_def request_shutdown_def abort_for_process_termination_def\<close>)

theorem kernel_reach_stable:
  assumes "runner_stable m P" and "\<And>observer. P (initial_runner observer s0)"
    and "kernel_reach m capacity command answer s0 k"
  shows "P (kn_runner k)"
  using assms(3)
proof (induction rule: kernel_reach.induct)
  case start
  then show ?case using assms(2) by (simp add: spawn_runner_def)
next
  case (step k k')
  then show ?case using kernel_step_stable [OF assms(1)] by blast
qed

lemma runner_stable_snapshot_fresh: "runner_stable m snapshot_fresh"
proof -
  have "snapshot_fresh (turn_runner (finish_effect m force j (join_next j r)))" if "snapshot_fresh r" for force j r
    by (cases rule: finish_effect_runner_cases [where m = m and force = force and j = j and r = "join_next j r"])
      (use that in \<open>simp_all add: snapshot_fresh_published\<close>)
  then show ?thesis
    by (auto simp: runner_stable_def snapshot_fresh_published snapshot_fresh_store)
qed

lemma runner_stable_tracked: "runner_stable m (tracked m)"
  by (auto simp: runner_stable_def tracked_run_effects intro: tracked_finish_effect)

text \<open>
  Evidence: \<open>requires s\<close> lists what a machine must have consumed, in this order, to be in
  state \<open>s\<close>; \<open>tag\<close> reads off an input what is recorded of it. If every transition adds at
  most its own input to the list, then a state is only ever reached with its whole list on
  record at the observer.
\<close>

definition consumed :: "('s, 'i, 'e) runner \<Rightarrow> 'i list" where
  "consumed r = map (\<lambda>(p, i, cur, d, snap). i) (rn_observed r)"

definition evidence_law ::
  "('s, 'i, 'e, 'err) machine \<Rightarrow> ('i \<Rightarrow> 'k) \<Rightarrow> ('s \<Rightarrow> bool) \<Rightarrow> ('s \<Rightarrow> 'k list) \<Rightarrow> bool" where
  "evidence_law m tag I requires \<longleftrightarrow>
     (\<forall>s i t. I s \<longrightarrow> m_reduce m s i = Some t \<longrightarrow>
        I (next_state s t) \<and> subseq (requires (next_state s t)) (requires s @ [tag i]))"

definition on_record ::
  "('i \<Rightarrow> 'k) \<Rightarrow> ('s \<Rightarrow> bool) \<Rightarrow> ('s \<Rightarrow> 'k list) \<Rightarrow> ('s, 'i, 'e) runner \<Rightarrow> bool" where
  "on_record tag I requires r \<longleftrightarrow>
     I (rn_state r) \<and> subseq (requires (rn_state r)) (map tag (consumed r))"

lemma consumed_simps [simp]:
  "consumed (published i t r) = consumed r @ [i]"
  "consumed (run_effects m role es r) = consumed r"
  by (simp_all add: consumed_def)

lemma on_record_published:
  assumes "evidence_law m tag I requires" and "on_record tag I requires r"
    and "m_reduce m (rn_state r) i = Some t"
  shows "on_record tag I requires (published i t r)"
proof -
  have next_inv: "I (next_state (rn_state r) t)"
    and "subseq (requires (next_state (rn_state r) t)) (requires (rn_state r) @ [tag i])"
    using assms by (auto simp: evidence_law_def on_record_def)
  moreover have "subseq (requires (rn_state r) @ [tag i]) (map tag (consumed r) @ [tag i])"
    using assms(2) by (simp add: on_record_def subseq_append)
  ultimately have "subseq (requires (next_state (rn_state r) t)) (map tag (consumed r) @ [tag i])"
    by (blast intro: subseq_order.trans)
  then show ?thesis
    using next_inv by (simp add: on_record_def)
qed

lemma on_record_frame:
  "on_record tag I req (store_snapshot r) = on_record tag I req r"
  "on_record tag I req (abort_owned r) = on_record tag I req r"
  "on_record tag I req (join_next j r) = on_record tag I req r"
  "on_record tag I req (r\<lparr>rn_owned := os\<rparr>) = on_record tag I req r"
  "on_record tag I req (release_tasks r) = on_record tag I req r"
  "on_record tag I req (run_effects m role es r) = on_record tag I req r"
  by (simp_all add: on_record_def consumed_def)

lemma on_record_settled:
  assumes "evidence_law m tag I requires" and r: "on_record tag I requires r"
  shows "on_record tag I requires (turn_runner (finish_effect m force j (join_next j r)))"
proof -
  let ?r = "(join_next j r)\<lparr>rn_owned := AList.delete (joined_id j) (rn_owned (join_next j r))\<rparr>"
  have "on_record tag I requires ?r"
    using r by (simp add: on_record_frame)
  from this on_record_published [OF assms(1) this] show ?thesis
    by (cases rule: finish_effect_runner_cases [where m = m and force = force and j = j and r = "join_next j r"])
      (use r in \<open>simp_all add: on_record_frame\<close>)
qed

lemma runner_stable_on_record:
  "evidence_law m tag I requires \<Longrightarrow> runner_stable m (on_record tag I requires)"
  unfolding runner_stable_def
  by (auto simp: on_record_frame intro: on_record_published on_record_settled)

lemma reached_tags_on_record:
  assumes "evidence_law m tag I requires" and "I s0" and "requires s0 = []"
    and "kernel_reach m capacity command answer s0 k"
  shows "subseq (requires (rn_state (kn_runner k))) (map tag (consumed (kn_runner k)))"
proof -
  have "on_record tag I requires (initial_runner observer s0 :: ('a, 'b, 'c) runner)" for observer
    using assms(2,3) by (simp add: on_record_def initial_runner_def)
  then have "on_record tag I requires (kn_runner k)"
    by (rule kernel_reach_stable [OF runner_stable_on_record [OF assms(1)] _ assms(4)])
  then show ?thesis
    by (simp add: on_record_def)
qed

lemma reached_on_record:
  assumes "evidence_law m tag I requires" and "I s0" and "requires s0 = []"
    and "kernel_reach m capacity command answer s0 k"
  obtains "is" where "subseq is (consumed (kn_runner k))"
    "map tag is = requires (rn_state (kn_runner k))"
proof -
  have "requires (rn_state (kn_runner k)) \<in> set (subseqs (map tag (consumed (kn_runner k))))"
    using reached_tags_on_record [OF assms] by simp
  then show thesis
    using that by (auto simp: subseqs_map_image)
qed

section \<open>Draining ends and leaves nothing owned\<close>

lemma drain_until_False_tasks:
  "drain_until m force ws r oc = Drain_Returned False r' oc' ws' \<Longrightarrow> rn_tasks r' = []"
  by (induction ws arbitrary: r oc) (auto split: if_splits wake.splits turn.splits)

lemma drain_until_terminal:
  "drain_until m force ws r oc = Drain_Returned b r' oc' ws' \<Longrightarrow> do_terminal oc' = do_terminal oc"
  by (induction ws arbitrary: r oc) (fastforce split: if_splits wake.splits turn.splits)+

lemma drain_ReturnedE:
  assumes "drain m ws r = Drain_Returned b r' oc ws'"
  obtains
    (completed) "drain_until m False ws r \<lparr>do_terminal = Drain_Completed, do_last_disposition = None\<rparr>
        = Drain_Returned False r' oc ws'" "do_terminal oc = Drain_Completed"
  | (forced) r1 oc1 ws1 where
      "drain_until m False ws r \<lparr>do_terminal = Drain_Completed, do_last_disposition = None\<rparr>
        = Drain_Returned True r1 oc1 ws1"
      "drain_until m True ws1 (abort_owned r1) (oc1\<lparr>do_terminal := Drain_Forced ShutdownDeadlineExceeded\<rparr>)
        = Drain_Returned False r' oc ws'" "do_terminal oc = Drain_Forced ShutdownDeadlineExceeded"
  | (detached) r2 where "r' = release_tasks (abort_owned r2)"
      "do_terminal oc = Drain_Forced FinalizerDeadlineExceeded"
  using assms
  by (auto simp: drain_def split: drain_result.splits bool.splits dest: drain_until_terminal)

lemma drain_tasks_Nil:
  assumes "drain m ws r = Drain_Returned b r' oc ws'"
  shows "rn_tasks r' = []"
  using assms by (cases rule: drain_ReturnedE) (auto dest: drain_until_False_tasks)

lemma drain_nothing_owned:
  assumes "tracked m r" and "drain m ws r = Drain_Returned b r' oc ws'"
  shows "rn_owned r' = []"
  using drain_stable [OF runner_stable_tracked assms(1), of ws] drain_tasks_Nil [OF assms(2)] assms(2)
  by (simp add: tracked_tasks_Nil)

lemma finish_effect_observer [simp]: "rn_observer (turn_runner (finish_effect m force j r)) = rn_observer r"
  by (cases rule: finish_effect_runner_cases [where m = m and force = force and j = j and r = r]) simp_all

text \<open>Only the second deadline makes the drain let go of tasks it has not joined.\<close>

lemma finish_effect_released: "rn_released (turn_runner (finish_effect m force j r)) = rn_released r"
  by (cases rule: finish_effect_runner_cases [where m = m and force = force and j = j and r = r]) simp_all

lemma apply_input_released: "rn_released (turn_runner (apply_input_with_role m i role r)) = rn_released r"
  by (simp add: apply_input_with_role_eq split: option.splits)

lemma drain_until_released: "rn_released (drain_runner (drain_until m force ws r oc)) = rn_released r"
proof (induction ws arbitrary: r oc)
  case (Cons w ws)
  show ?case
  proof (cases w)
    case (Wake j)
    show ?thesis
      using Wake Cons.IH finish_effect_released [where m = m and force = force and j = j and r = "join_next j r"]
      by (cases "finish_effect m force j (join_next j r)") simp_all
  qed simp
qed simp

lemma drain_released:
  assumes "drain m ws r = Drain_Returned b r' oc ws'"
    and "do_terminal oc \<noteq> Drain_Forced FinalizerDeadlineExceeded"
  shows "rn_released r' = rn_released r"
  using assms(1)
proof (cases rule: drain_ReturnedE)
  case completed
  then show ?thesis using drain_until_released [where r = r] by (metis drain_result.sel(3))
next
  case (forced r1 oc1 ws1)
  then show ?thesis
    using drain_until_released [where r = r] drain_until_released [where r = "abort_owned r1"]
    by (metis abort_owned_sel(6) drain_result.sel(3))
qed (use assms(2) in simp)

definition deadlines :: "'i wake list \<Rightarrow> nat" where
  "deadlines ws = length (filter (\<lambda>w. w = Elapsed) ws)"

lemma deadlines_simps [simp]:
  "deadlines [] = 0"
  "deadlines (Elapsed # ws) = Suc (deadlines ws)"
  "deadlines (Wake j # ws) = deadlines ws"
  by (simp_all add: deadlines_def)

lemma drain_until_ends:
  "0 < deadlines ws \<Longrightarrow> \<not> is_Drain_Waiting (drain_until m force ws r oc)"
proof (induction ws arbitrary: r oc)
  case (Cons w ws)
  then show ?case by (cases w) (auto split: turn.splits)
qed simp

lemma drain_until_deadlines:
  "drain_until m force ws r oc = Drain_Returned b r' oc' ws' \<Longrightarrow> deadlines ws \<le> Suc (deadlines ws')"
proof (induction ws arbitrary: r oc)
  case (Cons w ws)
  then show ?case by (cases w) (auto split: turn.splits if_splits)
qed (auto split: if_splits)

lemma drain_ends:
  assumes "2 \<le> deadlines ws"
  shows "\<not> is_Drain_Waiting (drain m ws r)"
proof -
  let ?oc = "\<lparr>do_terminal = Drain_Completed, do_last_disposition = None\<rparr>"
  have first: "\<not> is_Drain_Waiting (drain_until m False ws r ?oc)"
    using assms by (intro drain_until_ends) simp
  show ?thesis
  proof (cases "drain_until m False ws r ?oc")
    case (Drain_Returned b r1 oc1 ws1)
    then have "0 < deadlines ws1"
      using drain_until_deadlines [OF Drain_Returned] assms by simp
    then have "\<not> is_Drain_Waiting (drain_until m True ws1 (abort_owned r1)
        (oc1\<lparr>do_terminal := Drain_Forced ShutdownDeadlineExceeded\<rparr>))"
      by (rule drain_until_ends)
    then show ?thesis
      using Drain_Returned by (auto simp: drain_def split: bool.splits drain_result.splits)
  qed (use first in \<open>simp_all add: drain_def\<close>)
qed

section \<open>The contract of a machine\<close>

text \<open>
  What a product domain promises the kernel: an invariant of its state that its reducer
  keeps on every input, whether or not the input is expected in that state.
\<close>

definition state_inv :: "('s \<Rightarrow> bool) \<Rightarrow> ('s, 'i, 'e) runner \<Rightarrow> bool" where
  "state_inv I r \<longleftrightarrow>
     I (rn_state r) \<and> I (rn_snapshot r) \<and> (\<forall>(p, i, cur, d, snap) \<in> set (rn_observed r). I p \<and> I cur)"

locale machine_contract =
  fixes m :: "('s, 'i, 'e, 'err) machine"
    and inv :: "'s \<Rightarrow> bool"
  assumes reduce_inv: "inv s \<Longrightarrow> m_reduce m s i = Some t \<Longrightarrow> inv (next_state s t)"
begin

lemma state_inv_published:
  assumes "state_inv inv r" and "m_reduce m (rn_state r) i = Some t"
  shows "state_inv inv (published i t r)"
  using assms reduce_inv [OF _ assms(2)] by (auto simp: state_inv_def)

lemma runner_stable_inv: "runner_stable m (state_inv inv)"
proof -
  have frame: "state_inv inv ((join_next j r)\<lparr>rn_owned := os\<rparr>) = state_inv inv r"
      "state_inv inv (join_next j r) = state_inv inv r"
      "state_inv inv (run_effects m role es r) = state_inv inv r" for j r os role es
    by (simp_all add: state_inv_def)
  have "state_inv inv (turn_runner (finish_effect m force j (join_next j r)))"
    if r: "state_inv inv r" for force j r
    by (cases rule: finish_effect_runner_cases [where m = m and force = force and j = j and r = "join_next j r"])
      (use r state_inv_published [of "(join_next j r)\<lparr>rn_owned := AList.delete (joined_id j) (rn_owned r)\<rparr>"]
        in \<open>simp_all add: frame\<close>)
  moreover have "state_inv inv (store_snapshot r)" "state_inv inv (abort_owned r)"
      "state_inv inv (release_tasks r)" if "state_inv inv r" for r :: "('s, 'i, 'e) runner"
    using that by (simp_all add: state_inv_def)
  ultimately show ?thesis
    unfolding runner_stable_def by (simp add: frame(3) state_inv_published)
qed

lemma reachable_inv:
  assumes "inv s0" and "kernel_reach m capacity command answer s0 k"
  shows "state_inv inv (kn_runner k)"
  using kernel_reach_stable [OF runner_stable_inv _ assms(2)] assms(1)
  by (simp add: state_inv_def initial_runner_def)

end

text \<open>
  A machine whose reducer never panics from a state of its invariant never kills its actor: only
  an observer that panics can.
\<close>

definition quiet :: "('s \<Rightarrow> bool) \<Rightarrow> ('s, 'i, 'e) runner \<Rightarrow> bool" where
  "quiet I r \<longleftrightarrow> state_inv I r \<and> rn_observer r = None"

locale total_machine = machine_contract +
  assumes reduce_total: "inv s \<Longrightarrow> m_reduce m s i \<noteq> None"
begin

lemma runner_stable_quiet: "runner_stable m (quiet inv)"
  using runner_stable_inv by (auto simp: runner_stable_def quiet_def)

lemma apply_total: "quiet inv r \<Longrightarrow> \<not> is_Panic (apply_input_with_role m i role r)"
  using reduce_total [of "rn_state r" i]
  by (auto simp: apply_input_with_role_eq quiet_def state_inv_def observer_panics_def split: option.splits)

lemma finish_total:
  assumes "quiet inv r"
  shows "\<not> is_Panic (finish_effect m force j (join_next j r))"
proof -
  have total: "m_reduce m (rn_state r) i \<noteq> None" for i
    using assms reduce_total [of "rn_state r" i] by (simp add: quiet_def state_inv_def)
  have "\<not> observer_panics r"
    using assms by (simp add: quiet_def observer_panics_def)
  then show ?thesis
    by (auto simp: finish_effect_eq Let_def total split: option.split dest: total [THEN notE])
qed

lemma drain_until_total: "quiet inv r \<Longrightarrow> \<not> is_Drain_Panicked (drain_until m force ws r oc)"
proof (induction ws arbitrary: r oc)
  case (Cons w ws)
  show ?case
  proof (cases w)
    case (Wake j)
    obtain d r1 where f: "finish_effect m force j (join_next j r) = Turned d r1"
      using finish_total [OF Cons.prems, of force j]
      by (cases "finish_effect m force j (join_next j r)") simp_all
    show ?thesis
      using Wake f Cons.IH [OF runner_stableD(2) [OF runner_stable_quiet Cons.prems f]] by simp
  qed simp
qed simp

lemma drain_total:
  assumes "quiet inv r"
  shows "\<not> is_Drain_Panicked (drain m ws r)"
proof -
  let ?oc = "\<lparr>do_terminal = Drain_Completed, do_last_disposition = None\<rparr>"
  have first: "\<not> is_Drain_Panicked (drain_until m False ws r ?oc)"
    by (rule drain_until_total [OF assms])
  show ?thesis
  proof (cases "drain_until m False ws r ?oc")
    case (Drain_Returned b r1 oc1 ws1)
    have "quiet inv r1"
      using drain_until_stable [OF runner_stable_quiet assms, of False ws ?oc] Drain_Returned by simp
    then have "\<not> is_Drain_Panicked (drain_until m True ws1 (abort_owned r1)
        (oc1\<lparr>do_terminal := Drain_Forced ShutdownDeadlineExceeded\<rparr>))"
      by (intro drain_until_total runner_stableD(4) [OF runner_stable_quiet])
    then show ?thesis
      using Drain_Returned by (auto simp: drain_def split: bool.splits drain_result.splits)
  qed (use first in \<open>simp_all add: drain_def\<close>)
qed

lemma complete_shutdown_total:
  assumes "quiet inv r"
  shows "\<not> is_Shutdown_Panicked (complete_shutdown m ws r)"
proof (cases "apply_shutdown m r")
  case (Panic r1)
  then show ?thesis
    using apply_total [OF assms, of "m_shutdown m" Operation] by (simp add: apply_shutdown_def apply_input_def)
next
  case (Turned res r1)
  moreover have "quiet inv r1"
    using Turned apply_input_stable [OF runner_stable_quiet assms]
    by (auto simp: apply_shutdown_def apply_input_def)
  ultimately show ?thesis
    using drain_total [of r1 ws]
    by (auto simp: complete_shutdown_def Let_def split: drain_result.splits)
qed

lemma step_never_panics:
  assumes "quiet inv (kn_runner k)" and "kn_actor k \<noteq> Dead AF_Panicked"
    and "kernel_step m capacity command answer k k'"
  shows "kn_actor k' \<noteq> Dead AF_Panicked"
  using assms(3)
proof cases
  case (joined j)
  then show ?thesis
    using assms(2) finish_total [OF assms(1), of False j] by (auto simp: actor_join_def split: turn.splits)
next
  case received
  then show ?thesis
    using assms(2) apply_total [OF assms(1), of _ Operation]
    by (auto simp: actor_receive_def apply_input_def split: turn.splits list.splits)
      (metis turn.disc(1))
next
  case (retired ws)
  then show ?thesis
    using assms(2) complete_shutdown_total [OF assms(1), of ws]
    by (auto simp: actor_shutdown_def split: shutdown_result.splits)
qed (use assms(2) in \<open>auto simp: try_admit_def request_shutdown_def abort_for_process_termination_def
      abort_in_shutdown_def split: shutdown_result.splits\<close>)

lemma actor_never_panics:
  assumes "inv s0" and "kernel_reach m capacity command answer s0 k"
    and "rn_observer (kn_runner k) = None"
  shows "kn_actor k \<noteq> Dead AF_Panicked"
  using assms(2,3)
proof (induction rule: kernel_reach.induct)
  case start
  then show ?case by (simp add: spawn_runner_def)
next
  case (step k k')
  have "runner_stable m (\<lambda>r. rn_observer r \<noteq> None)"
    using finish_effect_observer by (auto simp: runner_stable_def)
  from kernel_step_stable [OF this _ step.hyps(2)] have "rn_observer (kn_runner k) = None"
    using step.prems by blast
  moreover from this have "quiet inv (kn_runner k)"
    using reachable_inv [OF assms(1) step.hyps(1)] by (simp add: quiet_def)
  ultimately show ?case
    using step_never_panics step by blast
qed

end

text \<open>
  A machine for which the failure of an effect that is no longer current is not an event:
  the reducer retires it. Then the kernel never lets a superseded task touch the state.
\<close>

locale stale_inert = machine_contract +
  assumes stale_retired:
    "inv s \<Longrightarrow> \<not> m_effect_is_current m s c \<Longrightarrow> m_reduce m s (m_task_failed m c f) = Some T_Retired"
begin

lemma stale_completion_inert:
  assumes "state_inv inv r" and "map_of (rn_owned r) (joined_id j) = Some task"
    and "\<not> m_effect_is_current m (rn_state r) (oe_correlation task)" and "\<not> observer_panics r"
  obtains r' where "finish_effect m force j (join_next j r) = Turned D_Retired r'"
    "rn_state r' = rn_state r"
    "rn_tasks r' = AList.delete (joined_id j) (rn_tasks r)"
    "rn_owned r' = AList.delete (joined_id j) (rn_owned r)"
proof -
  have inv: "inv (rn_state r)"
    using assms(1) by (simp add: state_inv_def)
  have "\<exists>f. fst (completion_input m force (rn_state r) task j) = m_task_failed m (oe_correlation task) f"
    using assms(3) by (cases j) (auto simp: completion_input_def)
  then have "m_reduce m (rn_state r) (fst (completion_input m force (rn_state r) task j)) = Some T_Retired"
    using stale_retired [OF inv assms(3)] by fastforce
  then show thesis
    using that assms(2,4) by (simp add: finish_effect_eq)
qed

lemma stale_completion_turned:
  assumes "state_inv inv r" and "map_of (rn_owned r) (joined_id j) = Some task"
    and "\<not> m_effect_is_current m (rn_state r) (oe_correlation task)"
    and "finish_effect m force j (join_next j r) = Turned d r'"
  shows "d = D_Retired" and "rn_state r' = rn_state r"
    and "rn_owned r' = AList.delete (joined_id j) (rn_owned r)"
proof -
  have "\<not> observer_panics r"
    using assms(2,4) by (auto simp: finish_effect_eq Let_def split: option.splits if_splits)
  from stale_completion_inert [OF assms(1-3) this, of force] assms(4)
  show "d = D_Retired" and "rn_state r' = rn_state r"
    and "rn_owned r' = AList.delete (joined_id j) (rn_owned r)"
    by (metis turn.inject(2))+
qed

end

subsection \<open>Invariants under a cooperating environment\<close>

text \<open>
  A fact about the runner that holds as long as callers admit \<open>command\<close>s and the executor gives
  \<open>answer\<close>s: it has to survive the turn of a command and the settlement of an answered task.
\<close>

lemma commands_pending:
  assumes "kernel_reach m capacity command answer s0 k" and "(n, i) \<in> set (kn_inbox k)"
  shows "command i"
  using assms
proof (induction arbitrary: n i rule: kernel_reach.induct)
  case start
  then show ?case by (simp add: spawn_runner_def)
next
  case (step k k')
  from step.hyps(2) show ?case
  proof cases
    case (admit input)
    then show ?thesis using step by (auto simp: try_admit_def split: if_splits)
  next
    case received
    then show ?thesis
      using step
      by (auto simp: actor_receive_def split: list.splits turn.splits prod.splits)
  qed (use step in \<open>auto simp: request_shutdown_def actor_join_def actor_shutdown_def abort_in_shutdown_def
        abort_for_process_termination_def split: turn.splits shutdown_result.splits if_splits\<close>)
qed

definition environment_stable ::
  "('s, 'i, 'e, 'err) machine \<Rightarrow> ('i \<Rightarrow> bool) \<Rightarrow> ('e \<Rightarrow> 'i \<Rightarrow> bool)
     \<Rightarrow> (('s, 'i, 'e) runner \<Rightarrow> bool) \<Rightarrow> bool" where
  "environment_stable m command answer P \<longleftrightarrow>
     (\<forall>r i t. tracked m r \<longrightarrow> P r \<longrightarrow> command i \<longrightarrow> m_reduce m (rn_state r) i = Some t \<longrightarrow>
        P (run_effects m Operation (emitted t) (published i t r)))
     \<and> (\<forall>r j d r'. tracked m r \<longrightarrow> P r \<longrightarrow> answers answer (rn_tasks r) j \<longrightarrow>
        finish_effect m False j (join_next j r) = Turned d r' \<longrightarrow> P r')
     \<and> (\<forall>r. P r \<longrightarrow> P (store_snapshot r))"

lemma environment_stableI:
  assumes "\<And>r i t. tracked m r \<Longrightarrow> P r \<Longrightarrow> command i \<Longrightarrow> m_reduce m (rn_state r) i = Some t \<Longrightarrow>
      P (run_effects m Operation (emitted t) (published i t r))"
    and "\<And>r j d r'. tracked m r \<Longrightarrow> P r \<Longrightarrow> answers answer (rn_tasks r) j \<Longrightarrow>
      finish_effect m False j (join_next j r) = Turned d r' \<Longrightarrow> P r'"
    and "\<And>r. P r \<Longrightarrow> P (store_snapshot r)"
  shows "environment_stable m command answer P"
  unfolding environment_stable_def using assms by blast

lemma running_environment_stable:
  assumes stable: "environment_stable m command answer P" and init: "\<And>observer. P (initial_runner observer s0)"
    and reach: "kernel_reach m capacity command answer s0 k" and run: "kn_actor k = Running"
  shows "P (kn_runner k)"
  using reach run
proof (induction rule: kernel_reach.induct)
  case start
  then show ?case using init by (simp add: spawn_runner_def)
next
  case (step k k')
  have tr: "tracked m (kn_runner k)"
    by (rule kernel_reach_stable [OF runner_stable_tracked _ step.hyps(1)]) simp
  from step.hyps(2) show ?case
  proof cases
    case (joined j)
    then show ?thesis
      using step stable tr
      by (auto simp: environment_stable_def actor_join_def split: turn.splits)
  next
    case received
    then obtain n i rest where inbox: "kn_inbox k = (n, i) # rest"
      by (metis neq_Nil_conv surj_pair)
    then have c: "command i"
      using commands_pending [OF step.hyps(1), of n i] by simp
    show ?thesis
      using received step inbox c stable tr
      by (auto simp: environment_stable_def actor_receive_def apply_input_def apply_input_with_role_eq
          split: option.splits if_splits)
  qed (use step in \<open>auto simp: try_admit_def request_shutdown_def actor_shutdown_def abort_in_shutdown_def
        abort_for_process_termination_def split: shutdown_result.splits if_splits\<close>)
qed

subsection \<open>No busy state is left without its task\<close>

definition owned_correlations :: "('s, 'i, 'e) runner \<Rightarrow> correlation set" where
  "owned_correlations r = (oe_correlation \<circ> snd) ` set (rn_owned r)"

definition spawns_current :: "('s, 'i, 'e, 'err) machine \<Rightarrow> 's \<Rightarrow> ('s, 'e, 'err) transition \<Rightarrow> bool" where
  "spawns_current m s t \<longleftrightarrow>
     (\<exists>e \<in> set (emitted t).
        m_mode m e = Spawn \<and> m_effect_is_current m (next_state s t) (m_correlation m e))"

definition supervised :: "('s, 'i, 'e, 'err) machine \<Rightarrow> ('s \<Rightarrow> bool) \<Rightarrow> ('s, 'i, 'e) runner \<Rightarrow> bool" where
  "supervised m busy r \<longleftrightarrow>
     (busy (rn_state r) \<longrightarrow> (\<exists>c \<in> owned_correlations r. m_effect_is_current m (rn_state r) c))"

lemma owned_correlations_cancel [simp]:
  "owned_correlations (r\<lparr>rn_owned := cancel_matching c os\<rparr>) = owned_correlations (r\<lparr>rn_owned := os\<rparr>)"
  by (force simp: owned_correlations_def cancel_matching_def image_iff)

lemma owned_correlations_run_effect:
  "owned_correlations (run_effect m role e r) =
     owned_correlations r \<union> (if m_mode m e = Spawn then {m_correlation m e} else {})"
proof (cases "m_mode m e")
  case Spawn
  then show ?thesis by (simp add: run_effect_def owned_correlations_def)
next
  case Cancel
  then show ?thesis
    using owned_correlations_cancel [where r = r and c = "m_correlation m e" and os = "rn_owned r"] by (simp add: run_effect_def)
qed

lemma owned_correlations_run_effects:
  "owned_correlations (run_effects m role es r) =
     owned_correlations r \<union> m_correlation m ` {e \<in> set es. m_mode m e = Spawn}"
  by (induction es arbitrary: r) (auto simp: owned_correlations_run_effect)

lemma owned_correlations_published [simp]:
  "owned_correlations (published i t r) = owned_correlations r"
  by (simp add: owned_correlations_def)

lemma supervised_spawned:
  assumes "spawns_current m (rn_state r) t"
  shows "supervised m busy (run_effects m role (emitted t) (published i t r))"
  using assms by (auto simp: supervised_def spawns_current_def owned_correlations_run_effects)

definition all_spawned :: "('s, 'i, 'e, 'err) machine \<Rightarrow> ('s, 'i, 'e) runner \<Rightarrow> bool" where
  "all_spawned m r \<longleftrightarrow> (\<forall>(i, e) \<in> set (rn_tasks r). m_mode m e = Spawn)"

lemma all_spawned_run_effect: "all_spawned m r \<Longrightarrow> all_spawned m (run_effect m role e r)"
  by (auto simp: all_spawned_def run_effect_def split: effect_mode.split)

lemma all_spawned_run_effects: "all_spawned m r \<Longrightarrow> all_spawned m (run_effects m role es r)"
  by (induction es arbitrary: r) (simp_all add: all_spawned_run_effect)

lemma all_spawned_published: "all_spawned m (published i t r) = all_spawned m r"
  by (simp add: all_spawned_def)

lemma runner_stable_all_spawned: "runner_stable m (all_spawned m)"
proof -
  have join: "all_spawned m ((join_next j r)\<lparr>rn_owned := os\<rparr>)" "all_spawned m (join_next j r)"
    if "all_spawned m r" for j r os
    using that by (auto simp: all_spawned_def set_delete_iff)
  have "all_spawned m (turn_runner (finish_effect m force j (join_next j r)))"
    if r: "all_spawned m r" for force j r
    by (cases rule: finish_effect_runner_cases [where m = m and force = force and j = j and r = "join_next j r"])
      (use join [OF r] in \<open>simp_all add: all_spawned_run_effects all_spawned_published\<close>)
  then show ?thesis
    by (auto simp: runner_stable_def all_spawned_run_effects all_spawned_published)
      (auto simp: all_spawned_def)
qed

lemma tracked_task_owned:
  assumes "tracked m r" and "map_of (rn_tasks r) n = Some e"
  obtains task where "map_of (rn_owned r) n = Some task" "oe_correlation task = m_correlation m e"
proof -
  have eq: "map_of (map (\<lambda>(i, e). (i, m_correlation m e)) (rn_tasks r))
      = map_of (map (\<lambda>(i, t). (i, oe_correlation t)) (rn_owned r))"
    using assms(1) by (simp add: tracked_def)
  have "map_option (m_correlation m) (map_of (rn_tasks r) n)
      = map_option oe_correlation (map_of (rn_owned r) n)"
    using fun_cong [OF eq, of n] by (simp add: map_of_map)
  then show thesis
    using that assms(2) by (cases "map_of (rn_owned r) n") auto
qed

text \<open>
  The environment of a supervised machine: callers admit commands, and an effect answers
  with an outcome of its own kind. Under these the machine never waits for nothing: a
  busy state always has a running task whose completion it still accepts.
\<close>

locale supervised_machine = stale_inert +
  fixes busy :: "'s \<Rightarrow> bool"
    and command :: "'i \<Rightarrow> bool"
    and answer :: "'e \<Rightarrow> 'i \<Rightarrow> bool"
  assumes command_law:
      "inv s \<Longrightarrow> command i \<Longrightarrow> m_reduce m s i = Some t \<Longrightarrow> busy (next_state s t) \<Longrightarrow>
         spawns_current m s t
         \<or> (busy s \<and> (\<forall>c. m_effect_is_current m s c \<longrightarrow> m_effect_is_current m (next_state s t) c))"
    and answer_law:
      "inv s \<Longrightarrow> answer e i \<Longrightarrow> m_mode m e = Spawn \<Longrightarrow>
         m_input_correlation m s i = Some (m_correlation m e) \<Longrightarrow>
         m_effect_is_current m s (m_correlation m e) \<Longrightarrow>
         m_reduce m s i = Some t \<Longrightarrow> busy (next_state s t) \<Longrightarrow> spawns_current m s t"
    and failure_law:
      "inv s \<Longrightarrow> m_effect_is_current m s c \<Longrightarrow> m_reduce m s (m_task_failed m c f) = Some t \<Longrightarrow>
         busy (next_state s t) \<Longrightarrow> spawns_current m s t"
begin

lemma supervised_command:
  assumes "state_inv inv r" and "supervised m busy r" and "command i"
    and "m_reduce m (rn_state r) i = Some t"
  shows "supervised m busy (run_effects m role (emitted t) (published i t r))"
proof (cases "spawns_current m (rn_state r) t")
  case True
  then show ?thesis by (rule supervised_spawned)
next
  case False
  have "inv (rn_state r)"
    using assms(1) by (simp add: state_inv_def)
  then show ?thesis
    using False command_law [OF _ assms(3,4)] assms(2)
    by (auto simp: supervised_def owned_correlations_run_effects)
qed

lemma supervised_settled:
  assumes inv: "state_inv inv r" and tr: "tracked m r" and sp: "all_spawned m r"
    and sup: "supervised m busy r" and ans: "answers answer (rn_tasks r) j"
    and fin: "finish_effect m False j (join_next j r) = Turned d r'"
  shows "supervised m busy r'"
proof -
  obtain e where e: "map_of (rn_tasks r) (joined_id j) = Some e"
    using ans by (auto simp: answers_def split: option.splits)
  obtain task where task: "map_of (rn_owned r) (joined_id j) = Some task"
    and corr: "oe_correlation task = m_correlation m e"
    using tracked_task_owned [OF tr e] by blast
  have I: "inv (rn_state r)"
    using inv by (simp add: state_inv_def)
  show ?thesis
  proof (cases "m_effect_is_current m (rn_state r) (oe_correlation task)")
    case True
    let ?ci = "completion_input m False (rn_state r) task j"
    obtain t where red: "m_reduce m (rn_state r) (fst ?ci) = Some t"
      and r': "r' = run_effects m (snd ?ci) (emitted t)
        (published (fst ?ci) t ((join_next j r)\<lparr>rn_owned := AList.delete (joined_id j) (rn_owned r)\<rparr>))"
      using fin task by (auto simp: finish_effect_eq Let_def split: option.splits if_splits)
    have mode: "m_mode m e = Spawn"
      using sp map_of_SomeD [OF e] by (auto simp: all_spawned_def)
    have "spawns_current m (rn_state r) t" if b: "busy (next_state (rn_state r) t)"
    proof (cases "\<exists>f. fst ?ci = m_task_failed m (oe_correlation task) f")
      case True
      then show ?thesis
        using failure_law [OF I \<open>m_effect_is_current m (rn_state r) (oe_correlation task)\<close>] red b by metis
    next
      case False
      then obtain i where j: "j = Join_Ok (joined_id j) i" and ci: "fst ?ci = i"
        and "m_input_correlation m (rn_state r) i = Some (m_correlation m e)"
        using corr by (cases j) (auto simp: completion_input_def split: if_splits)
      moreover have "answer e i"
        using ans e j by (metis (mono_tags, lifting) answers_def joined.simps(5) option.simps(5))
      ultimately show ?thesis
        using answer_law [OF I _ mode] True corr red b by metis
    qed
    then show ?thesis
      using supervised_spawned [of m "(join_next j r)\<lparr>rn_owned := AList.delete (joined_id j) (rn_owned r)\<rparr>"]
      by (cases "busy (next_state (rn_state r) t)") (auto simp: r' supervised_def)
  next
    case False
    note r1 = stale_completion_turned [OF inv task False fin]
    have "c \<in> owned_correlations r'"
      if "c \<in> owned_correlations r" "m_effect_is_current m (rn_state r) c" for c
    proof -
      obtain n t where nt: "(n, t) \<in> set (rn_owned r)" "oe_correlation t = c"
        using \<open>c \<in> owned_correlations r\<close> by (auto simp: owned_correlations_def)
      have "map_of (rn_owned r) n = Some t"
        using nt(1) tr by (simp add: tracked_def)
      then have "n \<noteq> joined_id j"
        using nt(2) task False that(2) by auto
      then show ?thesis
        using nt r1(3) by (force simp: owned_correlations_def set_delete_iff)
    qed
    then show ?thesis
      using sup r1 fin by (auto simp: supervised_def)
  qed
qed

lemma supervision_stable:
  "environment_stable m command answer
     (\<lambda>r. state_inv inv r \<and> all_spawned m r \<and> supervised m busy r)"
proof (rule environment_stableI, goal_cases)
  case (1 r i t)
  then have r: "state_inv inv r" "all_spawned m r" "supervised m busy r"
    by simp_all
  show ?case
    by (intro conjI runner_stableD(1) [OF runner_stable_inv r(1) 1(4)]
        runner_stableD(1) [OF runner_stable_all_spawned r(2) 1(4)] supervised_command [OF r(1,3) 1(3,4)])
next
  case (2 r j d r')
  then have r: "state_inv inv r" "all_spawned m r" "supervised m busy r"
    by simp_all
  show ?case
    by (intro conjI runner_stableD(2) [OF runner_stable_inv r(1) 2(4)]
        runner_stableD(2) [OF runner_stable_all_spawned r(2) 2(4)]
        supervised_settled [OF r(1) 2(1) r(2,3) 2(3,4)])
next
  case (3 r)
  then show ?case
    by (simp add: state_inv_def all_spawned_def supervised_def owned_correlations_def)
qed

lemma running_supervised:
  assumes "inv s0" and "\<not> busy s0" and "kernel_reach m capacity command answer s0 k"
    and "kn_actor k = Running"
  shows "supervised m busy (kn_runner k)"
  using running_environment_stable [OF supervision_stable _ assms(3,4)] assms(1,2)
  by (simp add: state_inv_def all_spawned_def supervised_def initial_runner_def)

end

text \<open>
  The usual way to be supervised: whatever is spawned is current at once, so a reducer
  only has to say which of its inputs spawn.
\<close>

locale disciplined_machine = stale_inert +
  fixes busy :: "'s \<Rightarrow> bool"
    and command :: "'i \<Rightarrow> bool"
    and answer :: "'e \<Rightarrow> 'i \<Rightarrow> bool"
  assumes spawn_current:
      "inv s \<Longrightarrow> m_reduce m s i = Some t \<Longrightarrow> e \<in> set (emitted t) \<Longrightarrow> m_mode m e = Spawn \<Longrightarrow>
         m_effect_is_current m (next_state s t) (m_correlation m e)"
    and command_keeps:
      "inv s \<Longrightarrow> command i \<Longrightarrow> m_reduce m s i = Some t \<Longrightarrow> busy (next_state s t) \<Longrightarrow>
         \<forall>e \<in> set (emitted t). m_mode m e \<noteq> Spawn \<Longrightarrow>
         busy s \<and> (m_effect_is_current m s c \<longrightarrow> m_effect_is_current m (next_state s t) c)"
    and answer_spawns:
      "inv s \<Longrightarrow> answer e i \<Longrightarrow> m_input_correlation m s i = Some (m_correlation m e) \<Longrightarrow>
         m_effect_is_current m s (m_correlation m e) \<Longrightarrow> m_reduce m s i = Some t \<Longrightarrow>
         busy (next_state s t) \<Longrightarrow> \<exists>e \<in> set (emitted t). m_mode m e = Spawn"
    and failure_spawns:
      "inv s \<Longrightarrow> m_effect_is_current m s c \<Longrightarrow> m_reduce m s (m_task_failed m c f) = Some t \<Longrightarrow>
         busy (next_state s t) \<Longrightarrow> \<exists>e \<in> set (emitted t). m_mode m e = Spawn"
begin

lemma spawns_current_iff:
  assumes "inv s" and "m_reduce m s i = Some t"
  shows "spawns_current m s t \<longleftrightarrow> (\<exists>e \<in> set (emitted t). m_mode m e = Spawn)"
  using spawn_current [OF assms] by (auto simp: spawns_current_def)

end

sublocale disciplined_machine \<subseteq> supervised_machine m inv busy command answer
proof unfold_locales
  fix s i t
  assume s: "inv s" and i: "command i" and t: "m_reduce m s i = Some t" and b: "busy (next_state s t)"
  show "spawns_current m s t
      \<or> busy s \<and> (\<forall>c. m_effect_is_current m s c \<longrightarrow> m_effect_is_current m (next_state s t) c)"
    using command_keeps [OF s i t b] spawns_current_iff [OF s t] by blast
next
  fix s e i t
  assume s: "inv s" and "answer e i" "m_input_correlation m s i = Some (m_correlation m e)"
    "m_effect_is_current m s (m_correlation m e)" and t: "m_reduce m s i = Some t"
    and "busy (next_state s t)"
  then show "spawns_current m s t"
    using answer_spawns spawns_current_iff [OF s t] by blast
next
  fix s c f t
  assume s: "inv s" and "m_effect_is_current m s c"
    and t: "m_reduce m s (m_task_failed m c f) = Some t" and "busy (next_state s t)"
  then show "spawns_current m s t"
    using failure_spawns spawns_current_iff [OF s t] by blast
qed

section \<open>Runs of a reducer\<close>

text \<open>The state after a list of inputs, \<open>None\<close> if the reducer panics on the way.\<close>

fun after :: "('s, 'i, 'e, 'err) machine \<Rightarrow> 's \<Rightarrow> 'i list \<Rightarrow> 's option" where
  "after m s [] = Some s"
| "after m s (i # is) =
     (case m_reduce m s i of None \<Rightarrow> None | Some t \<Rightarrow> after m (next_state s t) is)"

lemma after_invariant:
  assumes "\<And>s i t. P s \<Longrightarrow> i \<in> set is \<Longrightarrow> m_reduce m s i = Some t \<Longrightarrow> P (next_state s t)"
    and "P s" and "after m s is = Some s'"
  shows "P s'"
  using assms by (induction "is" arbitrary: s) (auto split: option.splits)

section \<open>Executable schedules\<close>

text \<open>
  A schedule is a list of the events the environment chooses; running it makes the
  steps of \<open>kernel_step\<close> one by one and is undefined when an event is not enabled.
\<close>

datatype 'i event =
    Ev_Admit 'i
  | Ev_Shutdown
  | Ev_Join "'i joined"
  | Ev_Receive
  | Ev_Retire "'i wake list"
  | Ev_Abort

fun run_event ::
  "('s, 'i, 'e, 'err) machine \<Rightarrow> nat \<Rightarrow> ('i \<Rightarrow> bool) \<Rightarrow> ('e \<Rightarrow> 'i \<Rightarrow> bool)
     \<Rightarrow> 'i event \<Rightarrow> ('s, 'i, 'e, 'err) kernel \<Rightarrow> ('s, 'i, 'e, 'err) kernel option" where
  "run_event m capacity command answer (Ev_Admit i) k =
     (if command i then Some (snd (try_admit capacity i k)) else None)"
| "run_event m capacity command answer Ev_Shutdown k = Some (snd (request_shutdown k))"
| "run_event m capacity command answer (Ev_Join j) k =
     (if kn_actor k = Running \<and> \<not> kn_shutdown k \<and> rn_owned (kn_runner k) \<noteq> []
         \<and> answers answer (rn_tasks (kn_runner k)) j
      then Some (actor_join m j k) else None)"
| "run_event m capacity command answer Ev_Receive k =
     (if kn_actor k = Running \<and> \<not> kn_shutdown k \<and> kn_inbox k \<noteq> []
      then Some (actor_receive m k) else None)"
| "run_event m capacity command answer (Ev_Retire ws) k =
     (if kn_actor k = Running \<and> kn_shutdown k then Some (actor_shutdown m ws k) else None)"
| "run_event m capacity command answer Ev_Abort k = Some (abort_for_process_termination k)"

fun run_events ::
  "('s, 'i, 'e, 'err) machine \<Rightarrow> nat \<Rightarrow> ('i \<Rightarrow> bool) \<Rightarrow> ('e \<Rightarrow> 'i \<Rightarrow> bool)
     \<Rightarrow> 'i event list \<Rightarrow> ('s, 'i, 'e, 'err) kernel \<Rightarrow> ('s, 'i, 'e, 'err) kernel option" where
  "run_events m capacity command answer [] k = Some k"
| "run_events m capacity command answer (ev # evs) k =
     (case run_event m capacity command answer ev k of
        None \<Rightarrow> None
      | Some k' \<Rightarrow> run_events m capacity command answer evs k')"

lemma run_event_step:
  "run_event m capacity command answer ev k = Some k' \<Longrightarrow> kernel_step m capacity command answer k k'"
  by (cases ev) (auto intro: kernel_step.intros split: if_splits)

lemma run_events_reach_from:
  "kernel_reach m capacity command answer s0 k \<Longrightarrow>
     run_events m capacity command answer evs k = Some k' \<Longrightarrow>
     kernel_reach m capacity command answer s0 k'"
proof (induction evs arbitrary: k)
  case (Cons ev evs)
  then obtain k1 where k1: "run_event m capacity command answer ev k = Some k1"
    and rest: "run_events m capacity command answer evs k1 = Some k'"
    by (auto split: option.splits)
  show ?case
    by (rule Cons.IH [OF kernel_reach.step [OF Cons.prems(1) run_event_step [OF k1]] rest])
qed simp

text \<open>An executor that gives fewer answers reaches fewer kernels.\<close>

lemma kernel_reach_answer_mono:
  assumes "kernel_reach m capacity command answer s0 k"
    and mono: "\<And>e i. answer e i \<Longrightarrow> answer' e i"
  shows "kernel_reach m capacity command answer' s0 k"
  using assms(1)
proof (induction rule: kernel_reach.induct)
  case (start observer)
  show ?case by (rule kernel_reach.start)
next
  case (step k k')
  have ans: "answers answer tasks j \<Longrightarrow> answers answer' tasks j" for tasks j
    using mono by (auto simp: answers_def split: option.splits joined.splits)
  from step.hyps(2) have "kernel_step m capacity command answer' k k'"
    by cases (auto intro: kernel_step.intros ans)
  then show ?case
    by (rule kernel_reach.step [OF step.IH])
qed

lemma run_events_reach:
  "run_events m capacity command answer evs (spawn_runner observer s0) = Some k \<Longrightarrow>
     kernel_reach m capacity command answer s0 k"
  by (rule run_events_reach_from [OF kernel_reach.start])

end
