(* ===== verification/Updater_Types.thy ===== *)
theory Updater_Types
  imports Mish_Prelude
begin

text \<open>
  The data the updater's machines share: channels, phases, verified metadata, candidate
  identities and the closed error vocabularies with their wire codes
  (\<^verbatim>\<open>crates/updater/src/lib.rs\<close>, \<^verbatim>\<open>crates/updater/src/service.rs\<close>). The SHA-256 digest of the
  external \<^verbatim>\<open>sha2\<close> crate is the parameter \<open>digest\<close>.
\<close>

datatype update_channel = Alpha | Stable_Channel

fun metadata_name :: "update_channel \<Rightarrow> string" where
  "metadata_name Alpha = ''mish-alpha.json''"
| "metadata_name Stable_Channel = ''mish-stable.json''"

datatype update_phase =
    Ph_Idle
  | Ph_Checking
  | Ph_Available
  | Ph_Downloading
  | Ph_Verifying
  | Ph_Ready
  | Ph_PreparingMaintenance
  | Ph_InstallingIntent
  | Ph_Relaunching
  | Ph_Recovering
  | Ph_Completed
  | Ph_Failed
  | Ph_Cancelled

record update_progress =
  downloaded_bytes :: u64
  total_bytes :: u64

record update_candidate_identity =
  ci_artifact_name :: string
  ci_artifact_sha256 :: string
  ci_artifact_signature_sha256 :: string
  ci_artifact_size :: u64
  ci_channel :: update_channel
  ci_metadata_sha256 :: string
  ci_source_sha :: string
  ci_version :: string

record verified_metadata =
  vm_artifact_name :: string
  vm_artifact_sha256 :: string
  vm_artifact_signature :: string
  vm_artifact_size :: u64
  vm_artifact_url :: string
  vm_channel :: update_channel
  vm_channel_switch :: bool
  vm_metadata_sha256 :: string
  vm_skipped_version :: bool
  vm_source_sha :: string
  vm_version :: string

definition from_verified :: "(string \<Rightarrow> string) \<Rightarrow> verified_metadata \<Rightarrow> update_candidate_identity" where
  "from_verified digest metadata =
     \<lparr>ci_artifact_name = vm_artifact_name metadata,
      ci_artifact_sha256 = vm_artifact_sha256 metadata,
      ci_artifact_signature_sha256 = digest (vm_artifact_signature metadata),
      ci_artifact_size = vm_artifact_size metadata,
      ci_channel = vm_channel metadata,
      ci_metadata_sha256 = vm_metadata_sha256 metadata,
      ci_source_sha = vm_source_sha metadata,
      ci_version = vm_version metadata\<rparr>"

record authenticated_release_asset =
  ra_id :: u64
  ra_name :: string

record authenticated_release_record =
  rr_assets :: "authenticated_release_asset list"
  rr_channel :: update_channel
  rr_id :: u64
  rr_published_at :: string
  rr_tag :: string
  rr_version :: string

definition release_asset_list_limit :: nat where
  "release_asset_list_limit = 64"

text \<open>
  The \<^verbatim>\<open>all\<close> over the assets inserts each id and name into a \<^verbatim>\<open>BTreeSet\<close> and stops at the
  first asset that fails a test; \<open>ids\<close> and \<open>names\<close> are what has been inserted so far.
\<close>

fun release_assets_valid :: "u64 list \<Rightarrow> string list \<Rightarrow> authenticated_release_asset list \<Rightarrow> bool" where
  "release_assets_valid ids names [] = True"
| "release_assets_valid ids names (a # assets) =
     (ra_id a \<noteq> 0 \<and> ra_name a \<noteq> [] \<and> ra_id a \<notin> set ids \<and> ra_name a \<notin> set names
      \<and> release_assets_valid (ra_id a # ids) (ra_name a # names) assets)"

definition validates :: "authenticated_release_record \<Rightarrow> update_channel \<Rightarrow> string \<Rightarrow> bool" where
  "validates self channel version =
     (if rr_id self = 0 \<or> rr_channel self \<noteq> channel \<or> rr_version self \<noteq> version
         \<or> rr_tag self \<noteq> ''v'' @ version \<or> rr_published_at self = []
         \<or> release_asset_list_limit < length (rr_assets self)
      then False
      else release_assets_valid [] [] (rr_assets self))"

record available_candidate =
  ac_metadata :: verified_metadata
  ac_metadata_bytes :: "8 word list"
  ac_metadata_signature :: string
  ac_release :: authenticated_release_record

definition candidate_identity :: "(string \<Rightarrow> string) \<Rightarrow> available_candidate \<Rightarrow> update_candidate_identity" where
  "candidate_identity digest self = from_verified digest (ac_metadata self)"

datatype discovery_outcome = Discovery_Available available_candidate | Discovery_Unchanged

datatype updater_error =
    ArtifactDigestMismatch
  | ArtifactIdentityMismatch
  | ArtifactSignatureInvalid
  | ArtifactSignatureMismatch
  | ArtifactSizeMismatch
  | ChannelMismatch
  | DowngradeRejected
  | EqualVersionRejected
  | InvalidArtifactUrl
  | InvalidMetadata
  | InvalidPublicKey
  | InvalidSourceIdentity
  | MalformedInstalledVersion
  | MalformedUpdateVersion
  | MetadataReplay
  | MetadataSignatureInvalid
  | MissingArtifactSignature
  | MissingMetadataSignature
  | VersionDigestConflict
  | WrongChannelVersion

fun updater_error_code :: "updater_error \<Rightarrow> string" where
  "updater_error_code ArtifactDigestMismatch = ''artifact-digest-mismatch''"
| "updater_error_code ArtifactIdentityMismatch = ''artifact-identity-mismatch''"
| "updater_error_code ArtifactSignatureInvalid = ''artifact-signature-invalid''"
| "updater_error_code ArtifactSignatureMismatch = ''artifact-signature-mismatch''"
| "updater_error_code ArtifactSizeMismatch = ''artifact-size-mismatch''"
| "updater_error_code ChannelMismatch = ''channel-mismatch''"
| "updater_error_code DowngradeRejected = ''downgrade-rejected''"
| "updater_error_code EqualVersionRejected = ''equal-version-rejected''"
| "updater_error_code InvalidArtifactUrl = ''invalid-artifact-url''"
| "updater_error_code InvalidMetadata = ''invalid-metadata''"
| "updater_error_code InvalidPublicKey = ''invalid-public-key''"
| "updater_error_code InvalidSourceIdentity = ''invalid-source-identity''"
| "updater_error_code MalformedInstalledVersion = ''malformed-installed-version''"
| "updater_error_code MalformedUpdateVersion = ''malformed-update-version''"
| "updater_error_code MetadataReplay = ''metadata-replay''"
| "updater_error_code MetadataSignatureInvalid = ''metadata-signature-invalid''"
| "updater_error_code MissingArtifactSignature = ''missing-artifact-signature''"
| "updater_error_code MissingMetadataSignature = ''missing-metadata-signature''"
| "updater_error_code VersionDigestConflict = ''version-digest-conflict''"
| "updater_error_code WrongChannelVersion = ''wrong-channel-version''"

datatype update_operation_error =
    E_Busy
  | E_Cancelled
  | E_InvalidOperationKey
  | E_InvalidResponse
  | E_Network
  | E_NotConfigured
  | E_OperationMismatch
  | E_OversizedMetadata
  | E_OversizedPayload
  | E_RangeMismatch
  | E_RedirectRejected
  | E_StoreIo
  | E_StoreUnsafe
  | E_Timeout
  | E_Verification updater_error

fun operation_error_code :: "update_operation_error \<Rightarrow> string" where
  "operation_error_code E_Busy = ''busy''"
| "operation_error_code E_Cancelled = ''cancelled''"
| "operation_error_code E_InvalidOperationKey = ''invalid-operation-key''"
| "operation_error_code E_InvalidResponse = ''invalid-response''"
| "operation_error_code E_Network = ''network''"
| "operation_error_code E_NotConfigured = ''not-configured''"
| "operation_error_code E_OperationMismatch = ''operation-mismatch''"
| "operation_error_code E_OversizedMetadata = ''oversized-metadata''"
| "operation_error_code E_OversizedPayload = ''oversized-payload''"
| "operation_error_code E_RangeMismatch = ''range-mismatch''"
| "operation_error_code E_RedirectRejected = ''redirect-rejected''"
| "operation_error_code E_StoreIo = ''store-io''"
| "operation_error_code E_StoreUnsafe = ''store-unsafe''"
| "operation_error_code E_Timeout = ''timeout''"
| "operation_error_code (E_Verification err) = updater_error_code err"

end
