(* ===== verification/Check_Machine.thy ===== *)
theory Check_Machine
  imports Kernel_Laws Updater_Types
begin

text \<open>
  The updater's Check machine, \<^verbatim>\<open>crates/updater/src/service/check_machine.rs\<close>: one discovery
  of a release, its cancellation, the commit of an available candidate and the retirement
  of the machine. \<open>reduce\<close> and \<open>reduce_completion\<close> are the free functions of the file,
  \<open>check_machine\<close> the \<^verbatim>\<open>impl Machine for CheckMachine\<close>.
\<close>

section \<open>State, inputs, effects\<close>

definition DISCOVER_EFFECT_ID :: u64 where
  "DISCOVER_EFFECT_ID = 1"

definition COMMIT_AVAILABLE_EFFECT_ID :: u64 where
  "COMMIT_AVAILABLE_EFFECT_ID = 2"

record check_projection =
  cp_phase :: update_phase
  cp_operation_id :: "string option"
  cp_channel :: "update_channel option"
  cp_candidate :: "update_candidate_identity option"
  cp_progress :: "update_progress option"
  cp_resumable :: bool
  cp_terminal_reason :: "string option"

record check_operation =
  co_machine_authority :: string
  co_scope_epoch :: u64
  co_operation_id :: string
  co_admitted_revision :: u64
  co_channel :: update_channel
  co_baseline :: check_projection

definition op_correlation :: "check_operation \<Rightarrow> u64 \<Rightarrow> correlation" where
  "op_correlation self eid =
     \<lparr>machine_authority = co_machine_authority self, scope_epoch = co_scope_epoch self,
      operation_id = co_operation_id self, admitted_revision = co_admitted_revision self,
      effect_id = eid\<rparr>"

definition op_accepts :: "check_operation \<Rightarrow> correlation \<Rightarrow> u64 \<Rightarrow> bool" where
  "op_accepts self c eid \<longleftrightarrow>
     machine_authority c = co_machine_authority self
     \<and> scope_epoch c = co_scope_epoch self
     \<and> operation_id c = co_operation_id self
     \<and> admitted_revision c = co_admitted_revision self
     \<and> effect_id c = eid"

datatype check_task_failure = CT_Aborted | CT_CompletionConflict | CT_Panicked

fun task_failure_code :: "check_task_failure \<Rightarrow> string" where
  "task_failure_code CT_Aborted = ''effect-aborted''"
| "task_failure_code CT_CompletionConflict = ''effect-completion-conflict''"
| "task_failure_code CT_Panicked = ''effect-panicked''"

datatype check_failure = CF_Operation update_operation_error | CF_Task check_task_failure

fun check_failure_code :: "check_failure \<Rightarrow> string" where
  "check_failure_code (CF_Operation err) = operation_error_code err"
| "check_failure_code (CF_Task err) = task_failure_code err"

datatype retired_terminal =
    RT_Available available_candidate
  | RT_Baseline check_projection
  | RT_Cancelled
  | RT_Failed check_failure
  | RT_Stable

datatype check_state =
    Stable "(check_operation \<times> available_candidate) option"
  | Checking check_operation bool bool  \<comment> \<open>cancel requested, shutdown requested\<close>
  | CommittingAvailable check_operation available_candidate bool
  | NoUpdate check_operation update_operation_error
  | Unchanged check_operation
  | Failed check_operation check_failure
  | Cancelled check_operation
  | Retired "check_operation option" retired_terminal

definition idle :: check_state where
  "idle = Stable None"

fun state_operation :: "check_state \<Rightarrow> check_operation option" where
  "state_operation (Stable (Some (operation, _))) = Some operation"
| "state_operation (Stable None) = None"
| "state_operation (Checking operation _ _) = Some operation"
| "state_operation (CommittingAvailable operation _ _) = Some operation"
| "state_operation (NoUpdate operation _) = Some operation"
| "state_operation (Unchanged operation) = Some operation"
| "state_operation (Failed operation _) = Some operation"
| "state_operation (Cancelled operation) = Some operation"
| "state_operation (Retired operation _) = operation"

fun state_label :: "check_state \<Rightarrow> string" where
  "state_label (Stable (Some _)) = ''stable-available''"
| "state_label (Stable None) = ''stable-idle''"
| "state_label (Checking _ True _) = ''checking-cancel-requested''"
| "state_label (Checking _ False _) = ''checking''"
| "state_label (CommittingAvailable _ _ _) = ''committing-available''"
| "state_label (NoUpdate _ _) = ''no-update''"
| "state_label (Unchanged _) = ''unchanged''"
| "state_label (Failed _ _) = ''failed''"
| "state_label (Cancelled _) = ''cancelled''"
| "state_label (Retired _ _) = ''retired''"

definition projection_idle :: check_projection where
  "projection_idle =
     \<lparr>cp_phase = Ph_Idle, cp_operation_id = None, cp_channel = None, cp_candidate = None,
      cp_progress = None, cp_resumable = False, cp_terminal_reason = None\<rparr>"

definition projection_checking :: "check_operation \<Rightarrow> check_projection" where
  "projection_checking operation =
     \<lparr>cp_phase = Ph_Checking, cp_operation_id = Some (co_operation_id operation),
      cp_channel = Some (co_channel operation), cp_candidate = None,
      cp_progress = None, cp_resumable = False, cp_terminal_reason = None\<rparr>"

definition projection_available ::
  "(string \<Rightarrow> string) \<Rightarrow> check_operation \<Rightarrow> available_candidate \<Rightarrow> check_projection" where
  "projection_available digest operation candidate =
     \<lparr>cp_phase = Ph_Available, cp_operation_id = Some (co_operation_id operation),
      cp_channel = Some (co_channel operation),
      cp_candidate = Some (candidate_identity digest candidate),
      cp_progress = None, cp_resumable = False, cp_terminal_reason = None\<rparr>"

definition projection_failed :: "check_operation \<Rightarrow> string \<Rightarrow> check_projection" where
  "projection_failed operation reason =
     \<lparr>cp_phase = Ph_Failed, cp_operation_id = Some (co_operation_id operation),
      cp_channel = Some (co_channel operation), cp_candidate = None,
      cp_progress = None, cp_resumable = False, cp_terminal_reason = Some reason\<rparr>"

definition projection_cancelled :: "check_operation \<Rightarrow> check_projection" where
  "projection_cancelled operation =
     \<lparr>cp_phase = Ph_Cancelled, cp_operation_id = Some (co_operation_id operation),
      cp_channel = Some (co_channel operation), cp_candidate = None,
      cp_progress = None, cp_resumable = False,
      cp_terminal_reason = Some (operation_error_code E_Cancelled)\<rparr>"

text \<open>\<open>CheckState::projection\<close>; an \<^verbatim>\<open>expect\<close> on a missing operation is \<open>None\<close>.\<close>

fun projection :: "(string \<Rightarrow> string) \<Rightarrow> check_state \<Rightarrow> check_projection option" where
  "projection digest (Stable (Some (operation, candidate))) =
     Some (projection_available digest operation candidate)"
| "projection digest (Stable None) = Some projection_idle"
| "projection digest (Checking operation _ _) = Some (projection_checking operation)"
| "projection digest (CommittingAvailable operation _ _) = Some (projection_checking operation)"
| "projection digest (NoUpdate operation reason) =
     Some (projection_failed operation (operation_error_code reason))"
| "projection digest (Unchanged operation) = Some (co_baseline operation)"
| "projection digest (Failed operation failure) =
     Some (projection_failed operation (check_failure_code failure))"
| "projection digest (Cancelled operation) = Some (projection_cancelled operation)"
| "projection digest (Retired operation (RT_Available candidate)) =
     map_option (\<lambda>op. projection_available digest op candidate) operation"
| "projection digest (Retired operation (RT_Baseline proj)) = Some proj"
| "projection digest (Retired operation RT_Cancelled) = map_option projection_cancelled operation"
| "projection digest (Retired operation (RT_Failed failure)) =
     map_option (\<lambda>op. projection_failed op (check_failure_code failure)) operation"
| "projection digest (Retired operation RT_Stable) = Some projection_idle"

datatype check_effect =
    Discover correlation update_channel
  | CommitAvailable correlation available_candidate
  | CancelEffect correlation

fun effect_correlation :: "check_effect \<Rightarrow> correlation" where
  "effect_correlation (Discover c _) = c"
| "effect_correlation (CommitAvailable c _) = c"
| "effect_correlation (CancelEffect c) = c"

fun effect_mode_of :: "check_effect \<Rightarrow> effect_mode" where
  "effect_mode_of (CancelEffect _) = Cancel"
| "effect_mode_of (Discover _ _) = Spawn"
| "effect_mode_of (CommitAvailable _ _) = Spawn"

datatype check_effect_outcome =
    Discovery "update_operation_error + discovery_outcome"
  | Commit "update_operation_error + unit"
  | TaskFailed check_task_failure

record check_completion =
  cc_correlation :: correlation
  cc_outcome :: check_effect_outcome

datatype check_input =
    CheckRequested check_operation update_phase "string option" "update_channel option"
  | CancelRequested string
  | EffectCompleted check_completion
  | ShutdownRequested

fun input_label :: "check_input \<Rightarrow> string" where
  "input_label (CheckRequested _ _ _ _) = ''check-requested''"
| "input_label (CancelRequested _) = ''cancel-requested''"
| "input_label (EffectCompleted completion) =
     (case cc_outcome completion of
        Discovery (Inr _) \<Rightarrow> ''discovery-succeeded''
      | Discovery (Inl _) \<Rightarrow> ''discovery-failed''
      | Commit (Inr _) \<Rightarrow> ''commit-succeeded''
      | Commit (Inl _) \<Rightarrow> ''commit-failed''
      | TaskFailed CT_Aborted \<Rightarrow> ''effect-aborted''
      | TaskFailed CT_CompletionConflict \<Rightarrow> ''effect-completion-conflict''
      | TaskFailed CT_Panicked \<Rightarrow> ''effect-panicked'')"
| "input_label ShutdownRequested = ''shutdown-requested''"

datatype decision_disposition = Applied | CancelTooLate | Duplicate | RetiredCompletion

record check_decision =
  cd_next :: check_state
  cd_effects :: "check_effect list"
  cd_disposition :: decision_disposition

definition applied :: "check_state \<Rightarrow> check_effect list \<Rightarrow> check_decision" where
  "applied next effects = \<lparr>cd_next = next, cd_effects = effects, cd_disposition = Applied\<rparr>"

definition unchanged :: "check_state \<Rightarrow> decision_disposition \<Rightarrow> check_decision" where
  "unchanged state d = \<lparr>cd_next = state, cd_effects = [], cd_disposition = d\<rparr>"

section \<open>The reducer\<close>

definition is_no_update :: "update_operation_error \<Rightarrow> bool" where
  "is_no_update err \<longleftrightarrow>
     err \<in> {E_Verification EqualVersionRejected, E_Verification MetadataReplay}"

fun in_flight :: "check_state \<Rightarrow> bool" where
  "in_flight (Checking _ _ _) = True"
| "in_flight (CommittingAvailable _ _ _) = True"
| "in_flight _ = False"

fun failed_or_cancelled :: "check_state \<Rightarrow> bool" where
  "failed_or_cancelled (Failed _ _) = True"
| "failed_or_cancelled (Cancelled _) = True"
| "failed_or_cancelled _ = False"

text \<open>The baseline a new operation inherits from a failed or cancelled one that had a candidate.\<close>

definition inherit_baseline :: "check_state \<Rightarrow> check_operation \<Rightarrow> check_operation" where
  "inherit_baseline state operation =
     (case state_operation state of
        Some previous \<Rightarrow>
          (if failed_or_cancelled state \<and> cp_candidate (co_baseline previous) \<noteq> None
           then operation\<lparr>co_baseline := co_baseline previous\<rparr> else operation)
      | None \<Rightarrow> operation)"

definition reduce_check_requested ::
  "check_state \<Rightarrow> check_operation \<Rightarrow> update_phase \<Rightarrow> string option \<Rightarrow> update_channel option
     \<Rightarrow> update_operation_error + check_decision" where
  "reduce_check_requested state operation outer_phase outer_operation_id outer_channel =
     (if outer_operation_id = Some (co_operation_id operation) \<and> outer_phase \<noteq> Ph_Idle
      then (if outer_channel = Some (co_channel operation)
            then Inr (unchanged state Duplicate) else Inl E_OperationMismatch)
      else if in_flight state \<or> outer_phase \<in> {Ph_Checking, Ph_Downloading, Ph_Verifying}
      then Inl E_Busy
      else (let operation' = inherit_baseline state operation in
            Inr (applied (Checking operation' False False)
                   [Discover (op_correlation operation' DISCOVER_EFFECT_ID) (co_channel operation')])))"

definition reduce_cancel_requested ::
  "check_state \<Rightarrow> string \<Rightarrow> update_operation_error + check_decision" where
  "reduce_cancel_requested state oid =
     (case state_operation state of
        None \<Rightarrow> Inl E_OperationMismatch
      | Some operation \<Rightarrow>
          (if co_operation_id operation \<noteq> oid then Inl E_OperationMismatch
           else case state of
             Checking op cancel shutdown \<Rightarrow>
               (if cancel then Inr (unchanged state Duplicate)
                else Inr (applied (Checking op True shutdown)
                            [CancelEffect (op_correlation op DISCOVER_EFFECT_ID)]))
           | CommittingAvailable _ _ _ \<Rightarrow> Inr (unchanged state CancelTooLate)
           | _ \<Rightarrow> Inr (unchanged state Duplicate)))"

fun reduce_shutdown :: "check_state \<Rightarrow> check_decision" where
  "reduce_shutdown (Checking operation cancel _) =
     applied (Checking operation True True)
       (if cancel then [] else [CancelEffect (op_correlation operation DISCOVER_EFFECT_ID)])"
| "reduce_shutdown (CommittingAvailable operation candidate _) =
     applied (CommittingAvailable operation candidate True) []"
| "reduce_shutdown (Stable (Some (operation, candidate))) =
     applied (Retired (Some operation) (RT_Available candidate)) []"
| "reduce_shutdown (NoUpdate operation reason) =
     applied (Retired (Some operation) (RT_Failed (CF_Operation reason))) []"
| "reduce_shutdown (Unchanged operation) =
     applied (Retired (Some operation) (RT_Baseline (co_baseline operation))) []"
| "reduce_shutdown (Failed operation failure) =
     applied (Retired (Some operation) (RT_Failed failure)) []"
| "reduce_shutdown (Cancelled operation) = applied (Retired (Some operation) RT_Cancelled) []"
| "reduce_shutdown (Stable None) = applied (Retired None RT_Stable) []"
| "reduce_shutdown (Retired operation terminal) = unchanged (Retired operation terminal) Duplicate"

definition complete_checking ::
  "check_operation \<Rightarrow> bool \<Rightarrow> bool \<Rightarrow> check_effect_outcome \<Rightarrow> check_decision" where
  "complete_checking operation cancel shutdown outcome =
     (if cancel
      then applied (if shutdown then Retired (Some operation) RT_Cancelled else Cancelled operation) []
      else case outcome of
        TaskFailed failure \<Rightarrow> applied (Failed operation (CF_Task failure)) []
      | Commit _ \<Rightarrow> unchanged (Checking operation cancel shutdown) RetiredCompletion
      | Discovery (Inr (Discovery_Available candidate)) \<Rightarrow>
          applied (CommittingAvailable operation candidate False)
            [CommitAvailable (op_correlation operation COMMIT_AVAILABLE_EFFECT_ID) candidate]
      | Discovery (Inr Discovery_Unchanged) \<Rightarrow> applied (Unchanged operation) []
      | Discovery (Inl reason) \<Rightarrow>
          applied (if is_no_update reason then NoUpdate operation reason
                   else Failed operation (CF_Operation reason)) [])"

definition complete_committing ::
  "check_operation \<Rightarrow> available_candidate \<Rightarrow> bool \<Rightarrow> check_effect_outcome \<Rightarrow> check_decision" where
  "complete_committing operation candidate shutdown outcome =
     (case outcome of
        Commit (Inr _) \<Rightarrow>
          applied (if shutdown then Retired (Some operation) (RT_Available candidate)
                   else Stable (Some (operation, candidate))) []
      | Commit (Inl reason) \<Rightarrow>
          applied (if shutdown then Retired (Some operation) (RT_Failed (CF_Operation reason))
                   else Failed operation (CF_Operation reason)) []
      | TaskFailed failure \<Rightarrow>
          applied (if shutdown then Retired (Some operation) (RT_Failed (CF_Task failure))
                   else Failed operation (CF_Task failure)) []
      | Discovery _ \<Rightarrow> unchanged (CommittingAvailable operation candidate shutdown) RetiredCompletion)"

fun reduce_completion :: "check_state \<Rightarrow> check_completion \<Rightarrow> check_decision" where
  "reduce_completion (Checking operation cancel shutdown) completion =
     (if \<not> op_accepts operation (cc_correlation completion) DISCOVER_EFFECT_ID
      then unchanged (Checking operation cancel shutdown) RetiredCompletion
      else complete_checking operation cancel shutdown (cc_outcome completion))"
| "reduce_completion (CommittingAvailable operation candidate shutdown) completion =
     (if \<not> op_accepts operation (cc_correlation completion) COMMIT_AVAILABLE_EFFECT_ID
      then unchanged (CommittingAvailable operation candidate shutdown) RetiredCompletion
      else complete_committing operation candidate shutdown (cc_outcome completion))"
| "reduce_completion state completion = unchanged state RetiredCompletion"

fun reduce :: "check_state \<Rightarrow> check_input \<Rightarrow> update_operation_error + check_decision" where
  "reduce state (CheckRequested operation outer_phase outer_operation_id outer_channel) =
     reduce_check_requested state operation outer_phase outer_operation_id outer_channel"
| "reduce state (CancelRequested oid) = reduce_cancel_requested state oid"
| "reduce state (EffectCompleted completion) = Inr (reduce_completion state completion)"
| "reduce state ShutdownRequested = Inr (reduce_shutdown state)"

fun applied_transition ::
  "check_state \<Rightarrow> (check_state, check_effect, update_operation_error) transition" where
  "applied_transition (Stable (Some p)) = T_Committed (Stable (Some p))"
| "applied_transition (Cancelled op) = T_Cancelled (Cancelled op)"
| "applied_transition (Retired op RT_Cancelled) = T_Cancelled (Retired op RT_Cancelled)"
| "applied_transition (Failed op f) = T_Failed (Failed op f)"
| "applied_transition (NoUpdate op r) = T_Failed (NoUpdate op r)"
| "applied_transition (Retired op (RT_Failed f)) = T_Failed (Retired op (RT_Failed f))"
| "applied_transition s = T_Accepted s"

definition machine_reduce ::
  "check_state \<Rightarrow> check_input \<Rightarrow> (check_state, check_effect, update_operation_error) transition" where
  "machine_reduce state input =
     (case reduce state input of
        Inl err \<Rightarrow> T_Rejected err
      | Inr decision \<Rightarrow>
          (case cd_disposition decision of
             Duplicate \<Rightarrow> T_Unchanged
           | CancelTooLate \<Rightarrow> T_Unchanged
           | RetiredCompletion \<Rightarrow> T_Retired
           | Applied \<Rightarrow>
               (case cd_effects decision of
                  e # es \<Rightarrow> T_EffectEmitting (cd_next decision) (batch_from_first e es)
                | [] \<Rightarrow> applied_transition (cd_next decision))))"

fun input_correlation :: "check_state \<Rightarrow> check_input \<Rightarrow> correlation option" where
  "input_correlation state (CheckRequested operation _ _ _) =
     Some (op_correlation operation DISCOVER_EFFECT_ID)"
| "input_correlation state (EffectCompleted completion) = Some (cc_correlation completion)"
| "input_correlation state (CancelRequested _) =
     map_option (\<lambda>operation. op_correlation operation 0) (state_operation state)"
| "input_correlation state ShutdownRequested =
     map_option (\<lambda>operation. op_correlation operation 0) (state_operation state)"

fun effect_is_current :: "check_state \<Rightarrow> correlation \<Rightarrow> bool" where
  "effect_is_current (Checking operation _ _) c = op_accepts operation c DISCOVER_EFFECT_ID"
| "effect_is_current (CommittingAvailable operation _ _) c =
     op_accepts operation c COMMIT_AVAILABLE_EFFECT_ID"
| "effect_is_current _ c = False"

fun check_task_failure_of :: "task_failure \<Rightarrow> check_task_failure" where
  "check_task_failure_of Aborted = CT_Aborted"
| "check_task_failure_of CompletionConflict = CT_CompletionConflict"
| "check_task_failure_of Panicked = CT_Panicked"

definition task_failed :: "correlation \<Rightarrow> task_failure \<Rightarrow> check_input" where
  "task_failed c failure =
     EffectCompleted \<lparr>cc_correlation = c, cc_outcome = TaskFailed (check_task_failure_of failure)\<rparr>"

definition check_machine ::
  "(check_state, check_input, check_effect, update_operation_error) machine" where
  "check_machine =
     \<lparr>m_reduce = (\<lambda>state input. Some (machine_reduce state input)),
      m_input_correlation = input_correlation,
      m_effect_is_current = effect_is_current,
      m_task_failed = task_failed,
      m_shutdown = ShutdownRequested,
      m_unavailable = E_Busy,
      m_correlation = effect_correlation,
      m_mode = effect_mode_of\<rparr>"

section \<open>Invariant\<close>

lemma check_machine_sel [machine_simps]:
  "m_reduce check_machine s i = Some (machine_reduce s i)"
  "m_input_correlation check_machine s i = input_correlation s i"
  "m_effect_is_current check_machine s c = effect_is_current s c"
  "m_task_failed check_machine c f = task_failed c f"
  "m_shutdown check_machine = ShutdownRequested"
  "m_correlation check_machine e = effect_correlation e"
  "m_mode check_machine e = effect_mode_of e"
  by (simp_all add: check_machine_def)

lemmas decision_simps = applied_def unchanged_def

text \<open>
  A shutdown marks the running discovery as cancelled, and every retired state whose
  projection names an operation has one.
\<close>

fun check_inv :: "check_state \<Rightarrow> bool" where
  "check_inv (Checking _ cancel shutdown) \<longleftrightarrow> (shutdown \<longrightarrow> cancel)"
| "check_inv (Retired operation terminal) \<longleftrightarrow>
     (operation = None \<longrightarrow> terminal = RT_Stable)"
| "check_inv _ \<longleftrightarrow> True"

lemma op_accepts_correlation [simp]: "op_accepts op (op_correlation op n) n' \<longleftrightarrow> n = n'"
  by (auto simp: op_accepts_def op_correlation_def)

lemma op_accepts_iff: "op_accepts op c n \<longleftrightarrow> c = op_correlation op n"
  by (cases c) (auto simp: op_accepts_def op_correlation_def)

lemma next_state_applied [simp]: "next_state s (applied_transition s') = s'"
  by (cases s' rule: applied_transition.cases) auto

lemma emitted_applied [simp]: "emitted (applied_transition s') = []"
  by (cases s' rule: applied_transition.cases) auto

lemma machine_reduce_next:
  "next_state s (machine_reduce s i) =
     (case reduce s i of
        Inr d \<Rightarrow> if cd_disposition d = Applied then cd_next d else s
      | Inl _ \<Rightarrow> s)"
  by (simp add: machine_reduce_def split: sum.split decision_disposition.split list.split)

lemma machine_reduce_emitted:
  "emitted (machine_reduce s i) =
     (case reduce s i of
        Inr d \<Rightarrow> if cd_disposition d = Applied then cd_effects d else []
      | Inl _ \<Rightarrow> [])"
  by (simp add: machine_reduce_def batch_into_iter_def batch_from_first_def
      split: sum.split decision_disposition.split list.split)

lemma complete_checking_inv: "(sh \<longrightarrow> c) \<Longrightarrow> check_inv (cd_next (complete_checking op c sh oc))"
  by (auto simp: complete_checking_def decision_simps
      split: check_effect_outcome.splits sum.splits discovery_outcome.splits)

lemma complete_committing_inv: "check_inv (cd_next (complete_committing op cand sh oc))"
  by (auto simp: complete_committing_def decision_simps split: check_effect_outcome.splits sum.splits)

lemma reduce_shutdown_inv: "check_inv s \<Longrightarrow> check_inv (cd_next (reduce_shutdown s))"
  by (cases s rule: reduce_shutdown.cases) (simp_all add: decision_simps)

lemma reduce_completion_inv: "check_inv s \<Longrightarrow> check_inv (cd_next (reduce_completion s cmpl))"
  by (cases "(s, cmpl)" rule: reduce_completion.cases)
    (simp_all add: complete_checking_inv complete_committing_inv, simp_all add: decision_simps)

lemma reduce_cancel_requested_inv:
  "check_inv s \<Longrightarrow> reduce_cancel_requested s oid = Inr d \<Longrightarrow> check_inv (cd_next d)"
  by (cases s) (auto simp: reduce_cancel_requested_def decision_simps split: option.splits if_splits)

lemma reduce_check_requested_inv:
  "check_inv s \<Longrightarrow> reduce_check_requested s op ph oid ch = Inr d \<Longrightarrow> check_inv (cd_next d)"
  by (auto simp: reduce_check_requested_def decision_simps Let_def split: if_splits)

lemma machine_reduce_inv: "check_inv s \<Longrightarrow> check_inv (next_state s (machine_reduce s i))"
  by (cases i)
    (auto simp: machine_reduce_next reduce_shutdown_inv reduce_completion_inv
      dest: reduce_cancel_requested_inv reduce_check_requested_inv split: sum.splits)

section \<open>The machine meets its kernel contracts\<close>

text \<open>Callers check and cancel; an executor answers an effect id with an outcome of its kind.\<close>

fun check_command :: "check_input \<Rightarrow> bool" where
  "check_command (CheckRequested _ _ _ _) = True"
| "check_command (CancelRequested _) = True"
| "check_command _ = False"

fun outcome_matches :: "u64 \<Rightarrow> check_effect_outcome \<Rightarrow> bool" where
  "outcome_matches eid (Discovery _) \<longleftrightarrow> eid = DISCOVER_EFFECT_ID"
| "outcome_matches eid (Commit _) \<longleftrightarrow> eid = COMMIT_AVAILABLE_EFFECT_ID"
| "outcome_matches eid (TaskFailed _) \<longleftrightarrow> True"

fun check_answer :: "check_effect \<Rightarrow> check_input \<Rightarrow> bool" where
  "check_answer e (EffectCompleted completion) \<longleftrightarrow>
     cc_correlation completion = effect_correlation e
     \<and> outcome_matches (effect_id (effect_correlation e)) (cc_outcome completion)"
| "check_answer e _ \<longleftrightarrow> False"

lemma effect_ids_distinct [simp]:
  "DISCOVER_EFFECT_ID \<noteq> COMMIT_AVAILABLE_EFFECT_ID" "COMMIT_AVAILABLE_EFFECT_ID \<noteq> DISCOVER_EFFECT_ID"
  by (simp_all add: DISCOVER_EFFECT_ID_def COMMIT_AVAILABLE_EFFECT_ID_def)

lemma effect_id_op_correlation [simp]: "effect_id (op_correlation op n) = n"
  by (simp add: op_correlation_def)

lemma check_stale_retired:
  "\<not> effect_is_current s c \<Longrightarrow> machine_reduce s (task_failed c f) = T_Retired"
  by (cases s) (auto simp: machine_reduce_def task_failed_def decision_simps)

lemma reduce_shutdown_spawns_nothing:
  "e \<in> set (cd_effects (reduce_shutdown s)) \<Longrightarrow> effect_mode_of e = Cancel"
  by (cases s rule: reduce_shutdown.cases) (auto simp: decision_simps split: if_splits)

lemma check_spawn_current:
  assumes "reduce s i = Inr d" and "e \<in> set (cd_effects d)" and "effect_mode_of e = Spawn"
  shows "effect_is_current (cd_next d) (effect_correlation e)"
proof (cases i)
  case (CheckRequested op ph oid ch)
  then show ?thesis
    using assms by (auto simp: reduce_check_requested_def decision_simps Let_def split: if_splits)
next
  case (CancelRequested oid)
  then show ?thesis
    using assms by (cases s) (auto simp: reduce_cancel_requested_def decision_simps split: if_splits option.splits)
next
  case (EffectCompleted cmpl)
  then show ?thesis
    using assms
    by (cases s)
      (auto simp: complete_checking_def complete_committing_def decision_simps
        split: if_splits check_effect_outcome.splits sum.splits discovery_outcome.splits)
next
  case ShutdownRequested
  then show ?thesis
    using assms reduce_shutdown_spawns_nothing by fastforce
qed

lemma check_answer_law:
  assumes "check_inv s" and "check_answer e i" and "effect_is_current s (effect_correlation e)"
    and "in_flight (next_state s (machine_reduce s i))"
  shows "\<exists>e \<in> set (emitted (machine_reduce s i)). effect_mode_of e = Spawn"
proof -
  obtain cmpl where i: "i = EffectCompleted cmpl"
    using assms(2) by (cases i) auto
  show ?thesis
    using assms i
    by (cases s)
      (auto simp: machine_reduce_next machine_reduce_emitted complete_checking_def complete_committing_def
        decision_simps op_accepts_iff
        split: if_splits check_effect_outcome.splits sum.splits discovery_outcome.splits)
qed

lemma check_failure_law:
  assumes "effect_is_current s c" and "in_flight (next_state s (machine_reduce s (task_failed c f)))"
  shows False
  using assms
  by (cases s)
    (auto simp: machine_reduce_next task_failed_def complete_checking_def complete_committing_def
      decision_simps split: if_splits)

lemma check_command_law:
  assumes "check_command i" and "in_flight (next_state s (machine_reduce s i))"
    and "\<forall>e \<in> set (emitted (machine_reduce s i)). effect_mode_of e \<noteq> Spawn"
  shows "in_flight s \<and> (effect_is_current s c \<longrightarrow> effect_is_current (next_state s (machine_reduce s i)) c)"
proof (cases i)
  case (CheckRequested op ph oid ch)
  then show ?thesis
    using assms
    by (auto simp: machine_reduce_next machine_reduce_emitted reduce_check_requested_def decision_simps
        Let_def split: if_splits)
next
  case (CancelRequested oid)
  then show ?thesis
    using assms
    by (cases s) (auto simp: machine_reduce_next machine_reduce_emitted reduce_cancel_requested_def
        decision_simps split: if_splits option.splits)
qed (use assms(1) in simp_all)

lemma check_emitted_current:
  "e \<in> set (emitted (machine_reduce s i)) \<Longrightarrow> effect_mode_of e = Spawn \<Longrightarrow>
     effect_is_current (next_state s (machine_reduce s i)) (effect_correlation e)"
  using check_spawn_current
  by (auto simp: machine_reduce_next machine_reduce_emitted split: sum.splits if_splits)

interpretation check: total_machine check_machine check_inv
  by unfold_locales (auto simp: machine_simps machine_reduce_inv)

interpretation check: disciplined_machine check_machine check_inv in_flight check_command check_answer
proof (unfold_locales, goal_cases)
  case (1 s c f)
  then show ?case by (simp add: machine_simps check_stale_retired)
next
  case (2 s i t e)
  then show ?case by (auto simp: machine_simps check_emitted_current)
next
  case (3 s i t c)
  then show ?case using check_command_law [of i s c] by (simp add: machine_simps)
next
  case (4 s e i t)
  then show ?case using check_answer_law [of s e i] by (simp add: machine_simps)
next
  case (5 s c f t)
  then show ?case using check_failure_law [of s c f] by (simp add: machine_simps)
qed

end
