(* ===== verification/Check_Properties.thy ===== *)
theory Check_Properties
  imports Check_Machine
begin

text \<open>
  What the updater's Check machine guarantees to its callers, on every run of the kernel
  that hosts it: it projects a status in every state, it never loses the discovery it waits
  for, an available candidate is only ever published after its verified discovery and its
  durable commit, and a cancelled check stays cancelled.
\<close>

section \<open>Lemmas\<close>

text \<open>What the machine must have consumed to hold a committed candidate.\<close>

definition discovered :: "check_operation \<Rightarrow> available_candidate \<Rightarrow> check_input" where
  "discovered op c =
     EffectCompleted \<lparr>cc_correlation = op_correlation op DISCOVER_EFFECT_ID,
                      cc_outcome = Discovery (Inr (Discovery_Available c))\<rparr>"

definition commit_finished :: "check_operation \<Rightarrow> check_input" where
  "commit_finished op =
     EffectCompleted \<lparr>cc_correlation = op_correlation op COMMIT_AVAILABLE_EFFECT_ID,
                      cc_outcome = Commit (Inr ())\<rparr>"

fun check_evidence :: "check_state \<Rightarrow> check_input list" where
  "check_evidence (CommittingAvailable op c _) = [discovered op c]"
| "check_evidence (Stable (Some (op, c))) = [discovered op c, commit_finished op]"
| "check_evidence (Retired (Some op) (RT_Available c)) = [discovered op c, commit_finished op]"
| "check_evidence _ = []"

lemma evidence_complete_checking:
  "op_accepts op (cc_correlation cmpl) DISCOVER_EFFECT_ID \<Longrightarrow>
     cd_disposition (complete_checking op b sh (cc_outcome cmpl)) = Applied \<Longrightarrow>
     subseq (check_evidence (cd_next (complete_checking op b sh (cc_outcome cmpl)))) [EffectCompleted cmpl]"
  by (auto simp: complete_checking_def decision_simps discovered_def op_accepts_iff
      split: check_effect_outcome.splits sum.splits discovery_outcome.splits if_splits)

lemma evidence_complete_committing:
  "op_accepts op (cc_correlation cmpl) COMMIT_AVAILABLE_EFFECT_ID \<Longrightarrow>
     cd_disposition (complete_committing op c sh (cc_outcome cmpl)) = Applied \<Longrightarrow>
     subseq (check_evidence (cd_next (complete_committing op c sh (cc_outcome cmpl))))
       [discovered op c, EffectCompleted cmpl]"
  by (auto simp: complete_committing_def decision_simps commit_finished_def op_accepts_iff
      split: check_effect_outcome.splits sum.splits if_splits)

lemma evidence_completion:
  assumes "cd_disposition (reduce_completion s cmpl) = Applied"
  shows "subseq (check_evidence (cd_next (reduce_completion s cmpl)))
           (check_evidence s @ [EffectCompleted cmpl])"
proof (cases s)
  case (Checking op b sh)
  then show ?thesis
    using assms evidence_complete_checking [of op cmpl b sh] by (auto simp: decision_simps)
next
  case (CommittingAvailable op c sh)
  then show ?thesis
    using assms evidence_complete_committing [of op cmpl c sh] by (auto simp: decision_simps)
qed (use assms in \<open>simp_all add: decision_simps\<close>)

lemma evidence_cancel:
  assumes "reduce_cancel_requested s oid = Inr d" and "cd_disposition d = Applied"
  shows "check_evidence (cd_next d) = []"
  using assms
  by (cases s) (auto simp: reduce_cancel_requested_def decision_simps split: option.splits if_splits)

lemma evidence_shutdown: "check_evidence (cd_next (reduce_shutdown s)) = check_evidence s"
  by (cases s rule: reduce_shutdown.cases) (simp_all add: decision_simps)

lemma evidence_requested:
  assumes "reduce_check_requested s op ph oid ch = Inr d" and "cd_disposition d = Applied"
  shows "check_evidence (cd_next d) = []"
  using assms by (auto simp: reduce_check_requested_def decision_simps Let_def split: if_splits)

lemma check_evidence_law: "evidence_law check_machine id check_inv check_evidence"
proof -
  have "subseq (check_evidence (next_state s (machine_reduce s i))) (check_evidence s @ [i])" for s i
    by (cases i)
      (auto simp: machine_reduce_next evidence_completion evidence_shutdown evidence_cancel
        evidence_requested list_emb_append2 split: sum.splits)
  then show ?thesis
    by (simp add: evidence_law_def machine_simps machine_reduce_inv)
qed

text \<open>Once cancellation is recorded, only the cancelled outcomes are left.\<close>

definition cancelling :: "check_operation \<Rightarrow> check_state \<Rightarrow> bool" where
  "cancelling op s \<longleftrightarrow>
     s \<in> {Checking op True False, Checking op True True, Cancelled op, Retired (Some op) RT_Cancelled}"

lemma cancelling_kept:
  assumes "cancelling op s" and "\<nexists>op' ph oid ch. i = CheckRequested op' ph oid ch"
  shows "cancelling op (next_state s (machine_reduce s i))"
  using assms
  by (cases i)
    (auto simp: cancelling_def machine_reduce_next reduce_cancel_requested_def complete_checking_def
      decision_simps split: sum.splits if_splits)

lemma projection_total: "check_inv s \<Longrightarrow> \<exists>p. projection digest s = Some p"
  by (cases "(digest, s)" rule: projection.cases) auto

section \<open>Properties\<close>

text \<open>A concrete check with a candidate, for the witnesses.\<close>

definition demo_operation :: check_operation where
  "demo_operation =
     \<lparr>co_machine_authority = ''updater-check'', co_scope_epoch = 1, co_operation_id = ''op-1'',
      co_admitted_revision = 7, co_channel = Alpha, co_baseline = projection_idle\<rparr>"

definition demo_metadata :: verified_metadata where
  "demo_metadata =
     \<lparr>vm_artifact_name = ''Mish.dmg'', vm_artifact_sha256 = ''aa'', vm_artifact_signature = ''sig'',
      vm_artifact_size = 42, vm_artifact_url = ''https://example.test/Mish.dmg'', vm_channel = Alpha,
      vm_channel_switch = False, vm_metadata_sha256 = ''bb'', vm_skipped_version = False, vm_source_sha = ''cc'',
      vm_version = ''0.2.0-alpha.1''\<rparr>"

definition demo_candidate :: available_candidate where
  "demo_candidate =
     \<lparr>ac_metadata = demo_metadata, ac_metadata_bytes = [1, 2], ac_metadata_signature = ''msig'',
      ac_release = \<lparr>rr_assets = [\<lparr>ra_id = 1, ra_name = ''Mish.dmg''\<rparr>], rr_channel = Alpha, rr_id = 9,
        rr_published_at = ''2026-01-01'', rr_tag = ''v0.2.0-alpha.1'', rr_version = ''0.2.0-alpha.1''\<rparr>\<rparr>"

definition demo_started :: "check_input event list" where
  "demo_started = [Ev_Admit (CheckRequested demo_operation Ph_Idle None None), Ev_Receive]"

definition demo_committed :: "check_input event list" where
  "demo_committed =
     demo_started @
     [Ev_Join (Join_Ok 0 (discovered demo_operation demo_candidate)),
      Ev_Join (Join_Ok 1 (commit_finished demo_operation))]"

definition demo_kernel ::
  "check_input event list \<Rightarrow> (check_state, check_input, check_effect, update_operation_error) kernel" where
  "demo_kernel evs =
     (case run_events check_machine 4 check_command check_answer evs (spawn_runner None idle) of
        Some k \<Rightarrow> k | None \<Rightarrow> spawn_runner None idle)"

lemma demo_kernel_reach: "kernel_reach check_machine 4 check_command check_answer idle (demo_kernel evs)"
  by (auto simp: demo_kernel_def intro: kernel_reach.start run_events_reach split: option.splits)

lemma demo_committed_state:
  "rn_state (kn_runner (demo_kernel demo_committed)) = Stable (Some (demo_operation, demo_candidate))"
  by code_simp

text \<open>
  The actor of the Check machine never panics unless its observer does, whatever its callers and
  its executor do, and every state it reaches has a status projection: no \<^verbatim>\<open>expect\<close> of
  \<open>CheckState::projection\<close> can fail.
\<close>

theorem check_always_projects:
  assumes "kernel_reach check_machine capacity command answer idle k"
  shows "(rn_observer (kn_runner k) = None \<longrightarrow> kn_actor k \<noteq> Dead AF_Panicked) \<and> (\<exists>p. projection digest (rn_state (kn_runner k)) = Some p)"
proof
  have idle: "check_inv idle"
    by (simp add: idle_def)
  show "rn_observer (kn_runner k) = None \<longrightarrow> kn_actor k \<noteq> Dead AF_Panicked"
    using check.actor_never_panics [OF idle assms] by blast
  show "\<exists>p. projection digest (rn_state (kn_runner k)) = Some p"
    using check.reachable_inv [OF idle assms] by (simp add: state_inv_def projection_total)
qed

text \<open>
  C5: an available candidate is held, live or in the retired state, only after the machine
  consumed, in this order, the successful discovery of exactly that candidate and the
  successful commit of it, both under the exact correlation of the operation that holds it.
\<close>

theorem check_candidate_evidence:
  assumes "kernel_reach check_machine capacity command answer idle k"
    and "rn_state (kn_runner k) \<in> {Stable (Some (op, c)), Retired (Some op) (RT_Available c)}"
  shows "subseq [discovered op c, commit_finished op] (consumed (kn_runner k))"
proof -
  have "check_evidence idle = []" and "check_inv idle"
    by (simp_all add: idle_def)
  then have "subseq (check_evidence (rn_state (kn_runner k))) (map id (consumed (kn_runner k)))"
    using reached_tags_on_record [OF check_evidence_law _ _ assms(1)] by blast
  then show ?thesis
    using assms(2) by auto
qed

theorem check_candidate_evidence_witness:
  "subseq [discovered demo_operation demo_candidate, commit_finished demo_operation]
     (consumed (kn_runner (demo_kernel demo_committed)))"
  by (rule check_candidate_evidence [OF demo_kernel_reach]) (simp add: demo_committed_state)

text \<open>
  A cancelled check stays cancelled. Once the cancellation is recorded, no input short of
  a new check request, in any number and order, leads anywhere but to the waiting, cancelled
  or retired-as-cancelled state of the same operation; and the completion of the discovery it
  waits for, whatever its outcome, settles it.
\<close>

theorem check_cancel_final:
  assumes "\<forall>i \<in> set is. \<nexists>op' ph oid ch. i = CheckRequested op' ph oid ch"
    and "after check_machine (Checking op True sh) is = Some s"
  shows "s \<in> {Checking op True False, Checking op True True, Cancelled op, Retired (Some op) RT_Cancelled}
     \<and> (\<forall>oc sh'. s = Checking op True sh' \<longrightarrow>
          next_state s (machine_reduce s (EffectCompleted
              \<lparr>cc_correlation = op_correlation op DISCOVER_EFFECT_ID, cc_outcome = oc\<rparr>))
            = (if sh' then Retired (Some op) RT_Cancelled else Cancelled op))"
proof
  have start: "cancelling op (Checking op True sh)"
    by (cases sh) (simp_all add: cancelling_def)
  have "cancelling op s"
  proof (rule after_invariant [where P = "cancelling op", OF _ start assms(2)])
    fix s i t
    assume "cancelling op s" "i \<in> set is" "m_reduce check_machine s i = Some t"
    then show "cancelling op (next_state s t)"
      using cancelling_kept [of op s i] assms(1) by (auto simp: machine_simps)
  qed
  then show "s \<in> {Checking op True False, Checking op True True, Cancelled op,
      Retired (Some op) RT_Cancelled}"
    by (simp add: cancelling_def)
qed (auto simp: machine_reduce_next complete_checking_def decision_simps)

text \<open>
  The Check machine never waits for nothing. As long as its actor runs, callers only
  check and cancel and the executor answers an effect with an outcome of its kind, a state
  that waits for an effect owns a running task whose exact completion the state still accepts.
\<close>

theorem check_never_orphaned:
  assumes "kernel_reach check_machine capacity check_command check_answer idle k"
    and "kn_actor k = Running" and "in_flight (rn_state (kn_runner k))"
  shows "\<exists>(n, task) \<in> set (rn_owned (kn_runner k)).
           effect_is_current (rn_state (kn_runner k)) (oe_correlation task)"
proof -
  have "check_inv idle" and "\<not> in_flight idle"
    by (simp_all add: idle_def)
  then have "supervised check_machine in_flight (kn_runner k)"
    using check.running_supervised assms(1,2) by blast
  then show ?thesis
    using assms(3) by (force simp: supervised_def owned_correlations_def machine_simps)
qed

end
