(* ===== verification/Kernel_Properties.thy ===== *)
theory Kernel_Properties
  imports Check_Properties
begin

text \<open>
  What the kernel guarantees of every machine it hosts, for any reducer, any callers and
  any executor. The witnesses run the updater's Check machine on the kernel.
\<close>

section \<open>Lemmas\<close>

lemma finish_effect_settles:
  assumes tr: "tracked m r" and owned: "joined_id j \<in> fst ` set (rn_owned r)"
    and fin: "finish_effect m force j (join_next j r) = Turned d r'"
  shows "joined_id j \<notin> fst ` set (rn_owned r') \<and> joined_id j \<notin> fst ` set (rn_tasks r')"
proof -
  have new: "joined_id j < rn_next r"
    using tr owned by (auto simp: tracked_def)
  have fresh: "joined_id j \<notin> fst ` set (rn_owned (run_effects m role es q))"
      "joined_id j \<notin> fst ` set (rn_tasks (run_effects m role es q))"
    if "joined_id j < rn_next q" "joined_id j \<notin> fst ` set (rn_owned q)"
      "joined_id j \<notin> fst ` set (rn_tasks q)" for role es and q :: "('a, 'b, 'c) runner"
    using that
    by (induction es arbitrary: q) (auto simp: run_effect_def split: effect_mode.splits)
  show ?thesis
    using fin
  proof (cases rule: finish_effect_TurnedE)
    case unowned
    then show ?thesis using owned by (auto simp: map_of_eq_None_iff)
  next
    case (owned task i role t)
    show ?thesis
      unfolding owned(5) by (intro conjI fresh) (use new in \<open>auto simp: set_delete_iff\<close>)
  qed
qed

lemma finish_effect_unowned:
  "joined_id j \<notin> fst ` set (rn_owned r) \<Longrightarrow> finish_effect m force j r = Turned D_Retired r"
  by (simp add: finish_effect_eq flip: map_of_eq_None_iff)

text \<open>
  Replies are given in the order of admission, what is not answered when the actor ends is
  dropped, and the inbox never outgrows its capacity.
\<close>

definition inbox_ok :: "nat \<Rightarrow> ('s, 'i, 'e, 'err) kernel \<Rightarrow> bool" where
  "inbox_ok capacity k \<longleftrightarrow>
     length (kn_inbox k) \<le> capacity
     \<and> map fst (kn_replies k) @ kn_dropped k @ map fst (kn_inbox k) = [0..<kn_next_reply k]
     \<and> (if kn_actor k = Running then kn_dropped k = [] else kn_inbox k = [])"

lemma inbox_ok_end:
  assumes "inbox_ok capacity k" and "kn_actor k = Running" and "status \<noteq> Running"
    and "kn_replies k' = kn_replies k" and "kn_next_reply k' = kn_next_reply k"
    and "kn_dropped k' = kn_dropped k" and "pending @ map fst (kn_inbox k') = map fst (kn_inbox k)"
  shows "inbox_ok capacity (end_actor status pending k')"
  using assms by (auto simp: inbox_ok_def)

lemma inbox_ok_step:
  assumes ok: "inbox_ok capacity k" and "kernel_step m capacity command answer k k'"
  shows "inbox_ok capacity k'"
  using assms(2)
proof cases
  case (admit input)
  then show ?thesis using ok by (auto simp: inbox_ok_def try_admit_def)
next
  case received
  then obtain n i rest where "kn_inbox k = (n, i) # rest"
    by (metis neq_Nil_conv surj_pair)
  then show ?thesis
    using received ok
    by (cases "apply_input m i (kn_runner k)")
      (simp_all add: actor_receive_def inbox_ok_end [OF ok], auto simp: inbox_ok_def)
next
  case (joined j)
  then show ?thesis
    using ok
    by (cases "finish_effect m False j (join_next j (kn_runner k))")
      (simp_all add: actor_join_def inbox_ok_end [OF ok], auto simp: inbox_ok_def)
next
  case (retired ws)
  then show ?thesis
    using ok
    by (cases "complete_shutdown m ws (kn_runner k)") (simp_all add: actor_shutdown_def inbox_ok_end [OF ok])
next
  case (aborted_draining ws)
  then show ?thesis
    using ok
    by (cases "complete_shutdown m ws (kn_runner k)")
      (simp_all add: abort_in_shutdown_def abort_for_process_termination_def inbox_ok_end [OF ok])
next
  case aborted
  then show ?thesis
    using ok by (simp add: abort_for_process_termination_def inbox_ok_end [OF ok])
qed (use ok in \<open>auto simp: inbox_ok_def request_shutdown_def\<close>)

lemma inbox_ok_reach: "kernel_reach m capacity command answer s0 k \<Longrightarrow> inbox_ok capacity k"
proof (induction rule: kernel_reach.induct)
  case start
  then show ?case by (simp add: inbox_ok_def spawn_runner_def)
next
  case (step k k')
  then show ?case using inbox_ok_step by blast
qed

text \<open>An actor that has ended is out of the reach of every task and every caller.\<close>

lemma ended_step:
  assumes "kn_actor k \<noteq> Running" and "kernel_step m capacity command answer k k'"
  shows "kn_runner k' = kn_runner k \<and> kn_replies k' = kn_replies k \<and> kn_actor k' = kn_actor k
     \<and> kn_retirement k' = kn_retirement k"
  using assms(2) assms(1)
  by cases (auto simp: try_admit_def request_shutdown_def abort_for_process_termination_def)

lemma ended_steps:
  assumes "(kernel_step m capacity command answer)\<^sup>*\<^sup>* k k'" and "kn_actor k \<noteq> Running"
  shows "kn_runner k' = kn_runner k \<and> kn_replies k' = kn_replies k \<and> kn_actor k' = kn_actor k
     \<and> kn_retirement k' = kn_retirement k"
  using assms(1)
proof (induction rule: rtranclp_induct)
  case (step k1 k2)
  then show ?case using ended_step [of k1 m capacity command answer k2] assms(2) by auto
qed simp

text \<open>A retirement reply describes the runner the actor left behind.\<close>

definition retirement_ok :: "('s, 'i, 'e, 'err) kernel \<Rightarrow> bool" where
  "retirement_ok k \<longleftrightarrow>
     (kn_actor k = Running \<longrightarrow> rn_released (kn_runner k) = [])
     \<and> (\<forall>rep. kn_retirement k = Some rep \<longrightarrow>
        kn_actor k = Finished \<and> rn_tasks (kn_runner k) = [] \<and> rn_owned (kn_runner k) = []
        \<and> (do_terminal (sr_drain rep) \<noteq> Drain_Forced FinalizerDeadlineExceeded \<longrightarrow> rn_released (kn_runner k) = [])
        \<and> (\<forall>a. sr_result rep = Inr a \<longrightarrow> adm_state a = rn_state (kn_runner k)))"

lemma complete_shutdown_leaves_nothing:
  assumes "tracked m r" and "complete_shutdown m ws r = Shutdown_Replied rep r'"
  shows "rn_tasks r' = [] \<and> rn_owned r' = [] \<and> (\<forall>a. sr_result rep = Inr a \<longrightarrow> adm_state a = rn_state r')
     \<and> (do_terminal (sr_drain rep) \<noteq> Drain_Forced FinalizerDeadlineExceeded \<longrightarrow> rn_released r' = rn_released r)"
  using assms(2)
proof (rule complete_shutdown_RepliedE)
  fix res r1 b r2 oc ws'
  assume 1: "apply_shutdown m r = Turned res r1" and 2: "drain m ws r1 = Drain_Returned b r2 oc ws'"
    and 3: "r' = store_snapshot r2" "sr_drain rep = oc"
      "sr_result rep = map_sum id (\<lambda>a. a\<lparr>adm_state := rn_state r2\<rparr>) res"
  have "tracked m r1"
    using apply_input_stable [OF runner_stable_tracked assms(1)] 1
    by (auto simp: apply_shutdown_def apply_input_def)
  moreover have "rn_released r1 = rn_released r"
    using 1 apply_input_released [of m "m_shutdown m" Operation r] by (simp add: apply_shutdown_def apply_input_def)
  ultimately show ?thesis
    using drain_nothing_owned [OF _ 2] drain_tasks_Nil [OF 2] drain_released [OF 2] 3
    by (cases res) auto
qed

lemma released_join:
  assumes "rn_released (kn_runner k) = []" and "kn_actor (actor_join m j k) = Running"
  shows "rn_released (kn_runner (actor_join m j k)) = []"
  using assms finish_effect_released [where m = m and force = False and j = j and r = "join_next j (kn_runner k)"]
  by (auto simp: actor_join_def split: turn.splits)

lemma released_receive:
  assumes "rn_released (kn_runner k) = []" and "kn_actor (actor_receive m k) = Running"
  shows "rn_released (kn_runner (actor_receive m k)) = []"
proof (cases "kn_inbox k")
  case (Cons x rest)
  then show ?thesis
    using assms apply_input_released [where m = m and i = "snd x" and role = Operation and r = "kn_runner k"]
    by (cases x) (auto simp: actor_receive_def apply_input_def split: turn.splits)
qed (use assms in \<open>simp add: actor_receive_def\<close>)

lemma retirement_ok_step:
  assumes ok: "retirement_ok k" and tr: "tracked m (kn_runner k)"
    and step: "kernel_step m capacity command answer k k'"
  shows "retirement_ok k'"
  using step
proof cases
  case (retired ws)
  show ?thesis
  proof (cases "complete_shutdown m ws (kn_runner k)")
    case (Shutdown_Replied rep r)
    then show ?thesis
      using ok retired complete_shutdown_leaves_nothing [OF tr Shutdown_Replied]
      by (auto simp: retirement_ok_def actor_shutdown_def)
  qed (use ok retired in \<open>auto simp: retirement_ok_def actor_shutdown_def\<close>)
next
  case (joined j)
  then have "kn_retirement k = None"
    using ok by (auto simp: retirement_ok_def)
  then show ?thesis
    using ok joined released_join [of k m j]
    by (auto simp: retirement_ok_def actor_join_def split: turn.splits)
next
  case received
  then have "kn_retirement k = None"
    using ok by (auto simp: retirement_ok_def)
  then have "kn_retirement (actor_receive m k) = None"
    by (auto simp: actor_receive_def split: list.splits turn.splits)
  then show ?thesis
    using ok received released_receive [of k m] by (simp add: retirement_ok_def)
next
  case (aborted_draining ws)
  then show ?thesis
    using ok by (auto simp: retirement_ok_def abort_in_shutdown_def abort_for_process_termination_def
        split: shutdown_result.splits)
qed (use ok in \<open>auto simp: retirement_ok_def try_admit_def request_shutdown_def
      abort_for_process_termination_def\<close>)

lemma tracked_reach: "kernel_reach m capacity command answer s0 k \<Longrightarrow> tracked m (kn_runner k)"
  by (rule kernel_reach_stable [OF runner_stable_tracked]) simp_all

lemma snapshot_fresh_reach: "kernel_reach m capacity command answer s0 k \<Longrightarrow> snapshot_fresh (kn_runner k)"
  by (rule kernel_reach_stable [OF runner_stable_snapshot_fresh]) simp_all

lemma retirement_ok_reach: "kernel_reach m capacity command answer s0 k \<Longrightarrow> retirement_ok k"
proof (induction rule: kernel_reach.induct)
  case start
  then show ?case by (simp add: retirement_ok_def spawn_runner_def initial_runner_def)
next
  case (step k k')
  show ?case
    by (rule retirement_ok_step [OF step.IH tracked_reach [OF step.hyps(1)] step.hyps(2)])
qed

lemma actor_shutdown_ends:
  assumes "2 \<le> deadlines ws" and "kn_actor k = Running"
  shows "kn_actor (actor_shutdown m ws k) \<in> {Finished, Dead AF_Panicked}"
proof (cases "apply_shutdown m (kn_runner k)")
  case (Turned res r1)
  then show ?thesis
    using drain_ends [OF assms(1), of m r1] assms(2)
    by (cases "drain m ws r1") (simp_all add: actor_shutdown_def complete_shutdown_def Let_def)
qed (simp add: actor_shutdown_def complete_shutdown_def)

section \<open>Properties\<close>

text \<open>A check in flight with a second request queued behind a shutdown, for the witnesses.\<close>

definition demo_retired :: "check_input event list" where
  "demo_retired =
     demo_started @
     [Ev_Admit (CheckRequested demo_operation Ph_Idle None None), Ev_Shutdown, Ev_Retire [Elapsed, Elapsed]]"

text \<open>
  C1: state is published before anyone is told. On every run, whenever the transition
  observer is called, the shared snapshot already holds the state the call reports, and
  between the turns of the actor the snapshot is the state of the reducer.
\<close>

theorem snapshot_published_first:
  assumes "kernel_reach m capacity command answer s0 k"
  shows "rn_snapshot (kn_runner k) = rn_state (kn_runner k)
     \<and> (\<forall>(previous, input, current, disposition, snapshot) \<in> set (rn_observed (kn_runner k)).
          snapshot = current)"
  using snapshot_fresh_reach [OF assms] by (simp add: snapshot_fresh_def)

theorem snapshot_published_first_witness:
  "rn_snapshot (kn_runner (demo_kernel demo_committed))
     = Stable (Some (demo_operation, demo_candidate))"
  using snapshot_published_first [OF demo_kernel_reach [of demo_committed]]
  by (simp add: demo_committed_state)

text \<open>
  C2: exactly the spawned and unsettled effects are owned. On every run the join set and the
  table of owned effects name the same tasks in the same order, each with the correlation of
  the effect it executes, and no task id is used twice.
\<close>

theorem effects_exactly_owned:
  assumes "kernel_reach m capacity command answer s0 k"
  shows "map (\<lambda>(n, e). (n, m_correlation m e)) (rn_tasks (kn_runner k))
       = map (\<lambda>(n, task). (n, oe_correlation task)) (rn_owned (kn_runner k))
     \<and> distinct (map fst (rn_owned (kn_runner k)))
     \<and> (\<forall>n \<in> fst ` set (rn_owned (kn_runner k)). n < rn_next (kn_runner k))"
  using tracked_reach [OF assms] by (simp add: tracked_def)

theorem effects_exactly_owned_witness:
  "distinct (map fst (rn_owned (kn_runner (demo_kernel demo_started))))
   \<and> map (\<lambda>(n, e). (n, effect_correlation e)) (rn_tasks (kn_runner (demo_kernel demo_started)))
       = map (\<lambda>(n, task). (n, oe_correlation task)) (rn_owned (kn_runner (demo_kernel demo_started)))"
  using effects_exactly_owned [OF demo_kernel_reach [of demo_started]]
  by (simp add: machine_simps)

text \<open>
  An effect is settled at most once. After the actor has taken the result of an owned
  task, a second result under the same task id, whatever it claims, is retired and changes
  nothing at all, on the normal path and in both phases of the drain.
\<close>

theorem effect_settled_once:
  assumes "kernel_reach m capacity command answer s0 k"
    and "joined_id j \<in> fst ` set (rn_owned (kn_runner k))"
    and "finish_effect m force j (join_next j (kn_runner k)) = Turned d r"
    and "joined_id j' = joined_id j"
  shows "finish_effect m force' j' r = Turned D_Retired r"
  using finish_effect_settles [OF tracked_reach [OF assms(1)] assms(2,3)] assms(4)
  by (simp add: finish_effect_unowned)





text \<open>
  A retirement is only reported as applied when it was. The terminal \<open>Applied\<close> means
  that the actor ended by itself after admitting the shutdown, that the drain completed
  before its deadline with nothing left running, that the last settlement was no rejection,
  failure or recovery, and that the reported state is the one the actor left behind.
\<close>

theorem retirement_applied_sound:
  assumes "kernel_reach m capacity command answer s0 k"
    and "rt_terminal (retirement_of k) = RT_Applied"
  shows "kn_actor k = Finished \<and> rn_tasks (kn_runner k) = [] \<and> rn_owned (kn_runner k) = []
     \<and> rt_state (retirement_of k) = rn_state (kn_runner k)
     \<and> (\<exists>rep a. kn_retirement k = Some rep \<and> sr_result rep = Inr a
          \<and> do_terminal (sr_drain rep) = Drain_Completed
          \<and> \<not> cleanup_failing (unwrap_or (do_last_disposition (sr_drain rep)) (adm_disposition a)))"
proof -
  obtain rep a where rep: "kn_retirement k = Some rep" "sr_result rep = Inr a"
      "do_terminal (sr_drain rep) = Drain_Completed"
      "\<not> cleanup_failing (unwrap_or (do_last_disposition (sr_drain rep)) (adm_disposition a))"
      "rt_state (retirement_of k) = adm_state a"
    using assms(2)
    by (auto simp: retirement_of_def retirement_report_def settlement_def Let_def
        split: option.splits sum.splits drain_terminal.splits if_splits actor_status.splits)
  then show ?thesis
    using retirement_ok_reach [OF assms(1)] by (auto simp: retirement_ok_def)
qed

end
