(* ===== verification/Package_Machine.thy ===== *)
theory Package_Machine
  imports Kernel_Laws
begin

text \<open>
  The Internal TUN Alpha package machine,
  \<^verbatim>\<open>crates/platform-macos/src/internal_tun_package_machine.rs\<close>: install, repair and uninstall of
  the helper package through staging, authorization, receipt, start and verification, with
  rollback of a failed mutation.
\<close>

section \<open>State, inputs, effects\<close>

definition STAGE_EFFECT_ID :: u64 where
  "STAGE_EFFECT_ID = 1"

definition AUTHORIZE_EFFECT_ID :: u64 where
  "AUTHORIZE_EFFECT_ID = 2"

definition COMMIT_EFFECT_ID :: u64 where
  "COMMIT_EFFECT_ID = 3"

definition START_EFFECT_ID :: u64 where
  "START_EFFECT_ID = 4"

definition VERIFY_EFFECT_ID :: u64 where
  "VERIFY_EFFECT_ID = 5"

definition ROLLBACK_EFFECT_ID :: u64 where
  "ROLLBACK_EFFECT_ID = 6"

definition FINALIZE_UNINSTALL_EFFECT_ID :: u64 where
  "FINALIZE_UNINSTALL_EFFECT_ID = 7"

lemmas effect_id_defs =
  STAGE_EFFECT_ID_def AUTHORIZE_EFFECT_ID_def COMMIT_EFFECT_ID_def START_EFFECT_ID_def
  VERIFY_EFFECT_ID_def ROLLBACK_EFFECT_ID_def FINALIZE_UNINSTALL_EFFECT_ID_def

datatype package_operation_kind = Install | Repair | Uninstall

datatype observed_package_state = OP_Absent | OP_HealthyDisabled | OP_RepairRequired

record package_operation =
  po_correlation :: correlation
  po_initial :: observed_package_state
  po_kind :: package_operation_kind

definition po_effect :: "package_operation \<Rightarrow> u64 \<Rightarrow> correlation" where
  "po_effect self eid = with_effect (po_correlation self) eid"

definition po_accepts :: "package_operation \<Rightarrow> correlation \<Rightarrow> u64 \<Rightarrow> bool" where
  "po_accepts self c eid \<longleftrightarrow> same_operation (po_correlation self) c \<and> effect_id c = eid"

record package_success =
  generation :: u64
  installation_id :: string
  key_id :: string

record package_failure =
  pf_code :: string
  pf_recovery_required :: bool

definition failure_clean :: "string \<Rightarrow> package_failure" where
  "failure_clean code = \<lparr>pf_code = code, pf_recovery_required = False\<rparr>"

definition failure_recovery_required :: "string \<Rightarrow> package_failure" where
  "failure_recovery_required code = \<lparr>pf_code = code, pf_recovery_required = True\<rparr>"

datatype package_state =
    Absent "package_failure option"
  | Staging package_operation
  | AwaitingAuthorization package_operation
  | Installing package_operation
  | Starting package_operation
  | Verifying package_operation package_success
  | HealthyDisabled package_operation package_success
  | ObservedHealthyDisabled
  | RollingBack package_operation package_failure
  | RepairRequired "package_operation option" package_failure
  | Uninstalling package_operation
  | Retired

datatype package_projection =
    PP_InFlight string
  | PP_Absent
  | PP_HealthyDisabled package_success
  | PP_Failed package_failure
  | PP_Retired

fun initial :: "observed_package_state \<Rightarrow> package_state" where
  "initial OP_Absent = Absent None"
| "initial OP_HealthyDisabled = ObservedHealthyDisabled"
| "initial OP_RepairRequired =
     RepairRequired None (failure_recovery_required ''observed-repair-required'')"

fun state_label :: "package_state \<Rightarrow> string" where
  "state_label (Absent _) = ''absent''"
| "state_label (Staging _) = ''staging''"
| "state_label (AwaitingAuthorization _) = ''awaiting-authorization''"
| "state_label (Installing _) = ''installing''"
| "state_label (Starting _) = ''starting''"
| "state_label (Verifying _ _) = ''verifying''"
| "state_label (HealthyDisabled _ _) = ''healthy-disabled''"
| "state_label ObservedHealthyDisabled = ''healthy-disabled''"
| "state_label (RollingBack _ _) = ''rolling-back''"
| "state_label (RepairRequired _ _) = ''repair-required''"
| "state_label (Uninstalling _) = ''uninstalling''"
| "state_label Retired = ''retired''"

fun projection :: "package_state \<Rightarrow> package_projection" where
  "projection (Absent None) = PP_Absent"
| "projection (Absent (Some failure)) = PP_Failed failure"
| "projection (RepairRequired _ failure) = PP_Failed failure"
| "projection (HealthyDisabled _ result) = PP_HealthyDisabled result"
| "projection Retired = PP_Retired"
| "projection s = PP_InFlight (state_label s)"

fun observed :: "package_state \<Rightarrow> observed_package_state option" where
  "observed (Absent _) = Some OP_Absent"
| "observed (HealthyDisabled _ _) = Some OP_HealthyDisabled"
| "observed ObservedHealthyDisabled = Some OP_HealthyDisabled"
| "observed (RepairRequired _ _) = Some OP_RepairRequired"
| "observed _ = None"

fun state_operation :: "package_state \<Rightarrow> package_operation option" where
  "state_operation (Staging operation) = Some operation"
| "state_operation (AwaitingAuthorization operation) = Some operation"
| "state_operation (Installing operation) = Some operation"
| "state_operation (Starting operation) = Some operation"
| "state_operation (Verifying operation _) = Some operation"
| "state_operation (HealthyDisabled operation _) = Some operation"
| "state_operation (RollingBack operation _) = Some operation"
| "state_operation (Uninstalling operation) = Some operation"
| "state_operation (RepairRequired operation _) = operation"
| "state_operation (Absent _) = None"
| "state_operation ObservedHealthyDisabled = None"
| "state_operation Retired = None"

datatype package_effect =
    Stage correlation
  | Authorize correlation
  | CommitReceipt correlation
  | AwaitReady correlation
  | Verify correlation
  | Rollback correlation
  | FinalizeUninstall correlation

fun effect_correlation :: "package_effect \<Rightarrow> correlation" where
  "effect_correlation (Stage c) = c"
| "effect_correlation (Authorize c) = c"
| "effect_correlation (CommitReceipt c) = c"
| "effect_correlation (AwaitReady c) = c"
| "effect_correlation (Verify c) = c"
| "effect_correlation (Rollback c) = c"
| "effect_correlation (FinalizeUninstall c) = c"

datatype package_effect_outcome =
    Staged
  | Authorized
  | ReceiptCommitted
  | Ready package_success
  | Verified package_success
  | RolledBack
  | UninstallFinalized
  | OutcomeFailed package_failure

datatype package_input =
    Begin package_operation
  | EffectCompleted correlation package_effect_outcome
  | Shutdown

datatype package_machine_error = Busy | OperationMismatch

type_synonym package_transition = "(package_state, package_effect, package_machine_error) transition"

section \<open>The reducer\<close>

fun in_flight :: "package_state \<Rightarrow> bool" where
  "in_flight (Staging _) = True"
| "in_flight (AwaitingAuthorization _) = True"
| "in_flight (Installing _) = True"
| "in_flight (Starting _) = True"
| "in_flight (Verifying _ _) = True"
| "in_flight (RollingBack _ _) = True"
| "in_flight (Uninstalling _) = True"
| "in_flight _ = False"

fun expected_effect :: "package_state \<Rightarrow> u64 option" where
  "expected_effect (Staging _) = Some STAGE_EFFECT_ID"
| "expected_effect (AwaitingAuthorization _) = Some AUTHORIZE_EFFECT_ID"
| "expected_effect (Installing _) = Some COMMIT_EFFECT_ID"
| "expected_effect (Starting _) = Some START_EFFECT_ID"
| "expected_effect (Verifying _ _) = Some VERIFY_EFFECT_ID"
| "expected_effect (RollingBack _ _) = Some ROLLBACK_EFFECT_ID"
| "expected_effect (Uninstalling _) = Some FINALIZE_UNINSTALL_EFFECT_ID"
| "expected_effect _ = None"

fun mutating :: "package_state \<Rightarrow> bool" where
  "mutating (Installing _) = True"
| "mutating (Starting _) = True"
| "mutating (Verifying _ _) = True"
| "mutating _ = False"

definition failure_transition ::
  "package_operation \<Rightarrow> package_state \<Rightarrow> package_failure \<Rightarrow> package_transition" where
  "failure_transition operation state failure =
     (if pf_recovery_required failure
      then T_RecoveryRequired (RepairRequired (Some operation) failure)
      else if mutating state
      then T_EffectEmitting (RollingBack operation failure)
             (batch_one (Rollback (po_effect operation ROLLBACK_EFFECT_ID)))
      else T_Failed
        (if po_initial operation = OP_Absent then Absent (Some failure)
         else RepairRequired (Some operation) failure))"

definition advance :: "package_operation \<Rightarrow> package_state \<Rightarrow> package_effect_outcome \<Rightarrow> package_transition" where
  "advance operation state outcome =
     (case (state, outcome) of
        (Staging _, Staged) \<Rightarrow>
          T_EffectEmitting (AwaitingAuthorization operation)
            (batch_one (Authorize (po_effect operation AUTHORIZE_EFFECT_ID)))
      | (AwaitingAuthorization _, Authorized) \<Rightarrow>
          (if po_kind operation = Uninstall
           then T_EffectEmitting (Uninstalling operation)
                  (batch_one (FinalizeUninstall (po_effect operation FINALIZE_UNINSTALL_EFFECT_ID)))
           else T_EffectEmitting (Installing operation)
                  (batch_one (CommitReceipt (po_effect operation COMMIT_EFFECT_ID))))
      | (Installing _, ReceiptCommitted) \<Rightarrow>
          T_EffectEmitting (Starting operation)
            (batch_one (AwaitReady (po_effect operation START_EFFECT_ID)))
      | (Starting _, Ready candidate) \<Rightarrow>
          T_EffectEmitting (Verifying operation candidate)
            (batch_one (Verify (po_effect operation VERIFY_EFFECT_ID)))
      | (Verifying _ _, Verified result) \<Rightarrow> T_Committed (HealthyDisabled operation result)
      | (RollingBack _ failure, RolledBack) \<Rightarrow>
          (if po_initial operation = OP_Absent then T_Failed (Absent (Some failure))
           else T_RecoveryRequired (RepairRequired (Some operation) failure))
      | (Uninstalling _, UninstallFinalized) \<Rightarrow> T_Committed (Absent None)
      | _ \<Rightarrow> T_Retired)"

definition reduce_completion ::
  "package_state \<Rightarrow> correlation \<Rightarrow> package_effect_outcome \<Rightarrow> package_transition" where
  "reduce_completion state c outcome =
     (case state_operation state of
        None \<Rightarrow> T_Retired
      | Some operation \<Rightarrow>
          (case expected_effect state of
             None \<Rightarrow> T_Retired
           | Some expected \<Rightarrow>
               (if \<not> po_accepts operation c expected then T_Retired
                else case outcome of
                  OutcomeFailed failure \<Rightarrow> failure_transition operation state failure
                | _ \<Rightarrow> advance operation state outcome)))"

definition reduce_begin :: "package_state \<Rightarrow> package_operation \<Rightarrow> package_transition" where
  "reduce_begin state operation =
     (if is_some_and (state_operation state)
           (\<lambda>active. same_operation (po_correlation active) (po_correlation operation))
      then T_Unchanged
      else if is_some_and (observed state) (\<lambda>obs. obs \<noteq> po_initial operation)
      then T_Rejected OperationMismatch
      else if in_flight state then T_Rejected Busy
      else T_EffectEmitting (Staging operation)
             (batch_one (Stage (po_effect operation STAGE_EFFECT_ID))))"

definition reduce_shutdown :: "package_state \<Rightarrow> package_transition" where
  "reduce_shutdown state =
     (case state_operation state of
        Some operation \<Rightarrow>
          (if in_flight state
           then T_RecoveryRequired
             (RepairRequired (Some operation) (failure_recovery_required ''shutdown-during-lifecycle''))
           else T_Accepted Retired)
      | None \<Rightarrow> T_Accepted Retired)"

fun machine_reduce :: "package_state \<Rightarrow> package_input \<Rightarrow> package_transition" where
  "machine_reduce state (Begin operation) = reduce_begin state operation"
| "machine_reduce state (EffectCompleted c outcome) = reduce_completion state c outcome"
| "machine_reduce state Shutdown = reduce_shutdown state"

fun input_correlation :: "package_state \<Rightarrow> package_input \<Rightarrow> correlation option" where
  "input_correlation state (Begin operation) = Some (po_correlation operation)"
| "input_correlation state (EffectCompleted c _) = Some c"
| "input_correlation state Shutdown = map_option po_correlation (state_operation state)"

fun effect_is_current :: "package_state \<Rightarrow> correlation \<Rightarrow> bool" where
  "effect_is_current (Staging operation) c = po_accepts operation c STAGE_EFFECT_ID"
| "effect_is_current (AwaitingAuthorization operation) c = po_accepts operation c AUTHORIZE_EFFECT_ID"
| "effect_is_current (Installing operation) c = po_accepts operation c COMMIT_EFFECT_ID"
| "effect_is_current (Starting operation) c = po_accepts operation c START_EFFECT_ID"
| "effect_is_current (Verifying operation _) c = po_accepts operation c VERIFY_EFFECT_ID"
| "effect_is_current (RollingBack operation _) c = po_accepts operation c ROLLBACK_EFFECT_ID"
| "effect_is_current (Uninstalling operation) c = po_accepts operation c FINALIZE_UNINSTALL_EFFECT_ID"
| "effect_is_current _ c = False"

fun failure_code :: "task_failure \<Rightarrow> string" where
  "failure_code Aborted = ''effect-aborted''"
| "failure_code CompletionConflict = ''effect-completion-conflict''"
| "failure_code Panicked = ''effect-panicked''"

definition task_failed :: "correlation \<Rightarrow> task_failure \<Rightarrow> package_input" where
  "task_failed c failure =
     EffectCompleted c (OutcomeFailed (failure_recovery_required (failure_code failure)))"

definition package_machine ::
  "(package_state, package_input, package_effect, package_machine_error) machine" where
  "package_machine =
     \<lparr>m_reduce = (\<lambda>state input. Some (machine_reduce state input)),
      m_input_correlation = input_correlation,
      m_effect_is_current = effect_is_current,
      m_task_failed = task_failed,
      m_shutdown = Shutdown,
      m_unavailable = Busy,
      m_correlation = effect_correlation,
      m_mode = (\<lambda>_. Spawn)\<rparr>"

section \<open>The machine meets its kernel contracts\<close>

lemma package_machine_sel [machine_simps]:
  "m_reduce package_machine s i = Some (machine_reduce s i)"
  "m_input_correlation package_machine s i = input_correlation s i"
  "m_effect_is_current package_machine s c = effect_is_current s c"
  "m_task_failed package_machine c f = task_failed c f"
  "m_shutdown package_machine = Shutdown"
  "m_correlation package_machine e = effect_correlation e"
  "m_mode package_machine e = Spawn"
  by (simp_all add: package_machine_def)

lemma po_accepts_effect [simp]: "po_accepts op (po_effect op n) n' \<longleftrightarrow> n = n'"
  by (simp add: po_accepts_def po_effect_def)

lemma effect_id_po_effect [simp]: "effect_id (po_effect op n) = n"
  by (simp add: po_effect_def)

lemma po_accepts_iff: "po_accepts op c n \<longleftrightarrow> c = po_effect op n"
  using same_operation_effect_eq by (auto simp: po_accepts_def po_effect_def)

lemma in_flight_operation: "in_flight s \<Longrightarrow> \<exists>op n. state_operation s = Some op \<and> expected_effect s = Some n"
  by (cases s) simp_all

lemma effect_is_current_iff:
  "effect_is_current s c \<longleftrightarrow>
     (\<exists>op n. state_operation s = Some op \<and> expected_effect s = Some n \<and> c = po_effect op n)"
  by (cases s) (simp_all add: po_accepts_iff)

lemma effect_is_current_in_flight: "effect_is_current s c \<Longrightarrow> in_flight s"
  by (cases s) simp_all

lemma reduce_completion_current:
  assumes "effect_is_current s c"
  obtains op where "state_operation s = Some op"
    "reduce_completion s c outcome =
       (case outcome of OutcomeFailed failure \<Rightarrow> failure_transition op s failure
        | _ \<Rightarrow> advance op s outcome)"
  using assms by (auto simp: effect_is_current_iff reduce_completion_def)

lemma reduce_completion_stale: "\<not> effect_is_current s c \<Longrightarrow> reduce_completion s c outcome = T_Retired"
  by (auto simp: effect_is_current_iff reduce_completion_def po_accepts_iff split: option.splits)

lemma failure_transition_next:
  "next_state s (failure_transition op s f) =
     (if pf_recovery_required f then RepairRequired (Some op) f
      else if mutating s then RollingBack op f
      else if po_initial op = OP_Absent then Absent (Some f) else RepairRequired (Some op) f)"
  by (simp add: failure_transition_def)

text \<open>A receipt is only committed for an installation, and only an uninstall finalizes one.\<close>

fun package_inv :: "package_state \<Rightarrow> bool" where
  "package_inv (Installing op) \<longleftrightarrow> po_kind op \<noteq> Uninstall"
| "package_inv (Starting op) \<longleftrightarrow> po_kind op \<noteq> Uninstall"
| "package_inv (Verifying op _) \<longleftrightarrow> po_kind op \<noteq> Uninstall"
| "package_inv (HealthyDisabled op _) \<longleftrightarrow> po_kind op \<noteq> Uninstall"
| "package_inv (RollingBack op _) \<longleftrightarrow> po_kind op \<noteq> Uninstall"
| "package_inv (Uninstalling op) \<longleftrightarrow> po_kind op = Uninstall"
| "package_inv _ \<longleftrightarrow> True"

lemma package_reduce_inv:
  assumes "package_inv s"
  shows "package_inv (next_state s (machine_reduce s i))"
proof (cases i)
  case (EffectCompleted c oc)
  show ?thesis
  proof (cases "effect_is_current s c")
    case True
    obtain op where "state_operation s = Some op" "reduce_completion s c oc =
        (case oc of OutcomeFailed f \<Rightarrow> failure_transition op s f | _ \<Rightarrow> advance op s oc)"
      using reduce_completion_current [OF True] .
    then show ?thesis
      using EffectCompleted assms
      by (cases s; cases oc) (simp_all add: failure_transition_def advance_def)
  qed (use EffectCompleted assms in \<open>simp add: reduce_completion_stale\<close>)
qed (use assms in \<open>auto simp: reduce_begin_def reduce_shutdown_def split: option.splits\<close>)

text \<open>Callers begin operations; an executor answers an effect id with an outcome of its kind.\<close>

fun package_command :: "package_input \<Rightarrow> bool" where
  "package_command (Begin _) = True"
| "package_command _ = False"

fun outcome_effect :: "package_effect_outcome \<Rightarrow> u64 option" where
  "outcome_effect Staged = Some STAGE_EFFECT_ID"
| "outcome_effect Authorized = Some AUTHORIZE_EFFECT_ID"
| "outcome_effect ReceiptCommitted = Some COMMIT_EFFECT_ID"
| "outcome_effect (Ready _) = Some START_EFFECT_ID"
| "outcome_effect (Verified _) = Some VERIFY_EFFECT_ID"
| "outcome_effect RolledBack = Some ROLLBACK_EFFECT_ID"
| "outcome_effect UninstallFinalized = Some FINALIZE_UNINSTALL_EFFECT_ID"
| "outcome_effect (OutcomeFailed _) = None"

fun package_answer :: "package_effect \<Rightarrow> package_input \<Rightarrow> bool" where
  "package_answer e (EffectCompleted c outcome) \<longleftrightarrow>
     c = effect_correlation e
     \<and> outcome_effect outcome \<in> {None, Some (effect_id (effect_correlation e))}"
| "package_answer e _ \<longleftrightarrow> False"

lemma advance_in_flight_emits:
  "in_flight s \<Longrightarrow> expected_effect s = outcome_effect oc \<Longrightarrow>
     in_flight (next_state s (advance op s oc)) \<Longrightarrow> emitted (advance op s oc) \<noteq> []"
  by (cases s; cases oc) (simp_all add: advance_def effect_id_defs batch_one_def batch_into_iter_def split: if_splits)

lemma failure_in_flight_emits:
  "in_flight (next_state s (failure_transition op s f)) \<Longrightarrow> emitted (failure_transition op s f) \<noteq> []"
  by (auto simp: failure_transition_def batch_into_iter_def split: if_splits)

lemma package_emitted_current:
  "e \<in> set (emitted (machine_reduce s i)) \<Longrightarrow>
     effect_is_current (next_state s (machine_reduce s i)) (effect_correlation e)"
proof (cases i)
  case (Begin op)
  moreover assume "e \<in> set (emitted (machine_reduce s i))"
  ultimately show ?thesis
    by (auto simp: reduce_begin_def batch_one_def batch_into_iter_def split: if_splits)
next
  case (EffectCompleted c oc)
  moreover assume e: "e \<in> set (emitted (machine_reduce s i))"
  ultimately have cur: "effect_is_current s c"
    using reduce_completion_stale [of s c oc] by fastforce
  obtain op where "reduce_completion s c oc =
      (case oc of OutcomeFailed f \<Rightarrow> failure_transition op s f | _ \<Rightarrow> advance op s oc)"
    using reduce_completion_current [OF cur] .
  then show ?thesis
    using e EffectCompleted
    by (cases s; cases oc)
      (auto simp: failure_transition_def advance_def batch_one_def batch_into_iter_def split: if_splits)
next
  case Shutdown
  moreover assume "e \<in> set (emitted (machine_reduce s i))"
  ultimately show ?thesis
    by (auto simp: reduce_shutdown_def split: option.splits if_splits)
qed

lemma package_answer_law:
  assumes "package_answer e i" and "effect_is_current s (effect_correlation e)"
    and "in_flight (next_state s (machine_reduce s i))"
  shows "emitted (machine_reduce s i) \<noteq> []"
proof -
  obtain oc where i: "i = EffectCompleted (effect_correlation e) oc"
    and oc: "outcome_effect oc \<in> {None, Some (effect_id (effect_correlation e))}"
    using assms(1) by (cases i) auto
  obtain op n where op: "state_operation s = Some op" "expected_effect s = Some n"
      "effect_correlation e = po_effect op n"
    using assms(2) by (auto simp: effect_is_current_iff)
  show ?thesis
  proof (cases oc)
    case (OutcomeFailed f)
    then show ?thesis
      using i op assms(3) failure_in_flight_emits [of s op f] by (simp add: reduce_completion_def)
  qed (use i oc op assms(3) effect_is_current_in_flight [OF assms(2)]
      advance_in_flight_emits [of s oc op] in \<open>simp_all add: reduce_completion_def\<close>)
qed

lemma package_failure_law:
  "effect_is_current s c \<Longrightarrow> machine_reduce s (task_failed c f) =
     T_RecoveryRequired (RepairRequired (state_operation s) (failure_recovery_required (failure_code f)))"
  by (auto simp: effect_is_current_iff task_failed_def reduce_completion_def failure_transition_def
      failure_recovery_required_def)

interpretation package: total_machine package_machine package_inv
  by unfold_locales (auto simp: machine_simps package_reduce_inv)

interpretation package: disciplined_machine package_machine package_inv in_flight package_command package_answer
proof (unfold_locales, goal_cases)
  case (1 s c f)
  then show ?case by (simp add: machine_simps task_failed_def reduce_completion_stale)
next
  case (2 s i t e)
  then show ?case by (auto simp: machine_simps package_emitted_current)
next
  case (3 s i t c)
  then show ?case
    by (cases i) (auto simp: machine_simps reduce_begin_def batch_into_iter_def split: if_splits)
next
  case (4 s e i t)
  then show ?case using package_answer_law [of e i s] by (auto simp: machine_simps neq_Nil_conv)
next
  case (5 s c f t)
  then show ?case using package_failure_law [of s c f] by (auto simp: machine_simps)
qed

end
