(* ===== verification/Package_Properties.thy ===== *)
theory Package_Properties
  imports Package_Machine
begin

text \<open>
  What the package machine guarantees: a package counts as installed only after every stage
  of the installation reported in order, an interrupted lifecycle fails closed into repair, a
  failed mutation is rolled back with its cause kept, a lifecycle takes at most six effects
  and never waits for an effect that is not running.
\<close>

section \<open>Lemmas\<close>

text \<open>The candidate a \<open>Ready\<close> reports is not kept by a committed state; it is erased from the record.\<close>

definition some_success :: package_success where
  "some_success = \<lparr>generation = 0, installation_id = [], key_id = []\<rparr>"

fun package_tag :: "package_input \<Rightarrow> package_input" where
  "package_tag (EffectCompleted c (Ready _)) = EffectCompleted c (Ready some_success)"
| "package_tag i = i"

definition stages :: "package_operation \<Rightarrow> package_success \<Rightarrow> package_input list" where
  "stages op candidate =
     [EffectCompleted (po_effect op STAGE_EFFECT_ID) Staged,
      EffectCompleted (po_effect op AUTHORIZE_EFFECT_ID) Authorized,
      EffectCompleted (po_effect op COMMIT_EFFECT_ID) ReceiptCommitted,
      EffectCompleted (po_effect op START_EFFECT_ID) (Ready candidate)]"

definition verified_stage :: "package_operation \<Rightarrow> package_success \<Rightarrow> package_input" where
  "verified_stage op result = EffectCompleted (po_effect op VERIFY_EFFECT_ID) (Verified result)"

fun package_evidence :: "package_state \<Rightarrow> package_input list" where
  "package_evidence (AwaitingAuthorization op) = take 1 (stages op some_success)"
| "package_evidence (Installing op) = take 2 (stages op some_success)"
| "package_evidence (Uninstalling op) = take 2 (stages op some_success)"
| "package_evidence (RollingBack op _) = take 2 (stages op some_success)"
| "package_evidence (Starting op) = take 3 (stages op some_success)"
| "package_evidence (Verifying op _) = stages op some_success"
| "package_evidence (HealthyDisabled op result) = stages op some_success @ [verified_stage op result]"
| "package_evidence _ = []"

lemmas evidence_simps = stages_def verified_stage_def

lemma evidence_failure:
  "state_operation s = Some op \<Longrightarrow>
     subseq (package_evidence (next_state s (failure_transition op s f))) (package_evidence s @ [i])"
  by (cases s) (auto simp: failure_transition_next evidence_simps)

lemma evidence_advance:
  assumes "state_operation s = Some op" and "expected_effect s = Some n"
  shows "subseq (package_evidence (next_state s (advance op s oc)))
           (package_evidence s @ [package_tag (EffectCompleted (po_effect op n) oc)])"
  using assms by (cases s; cases oc) (auto simp: advance_def evidence_simps)

lemma package_evidence_law: "evidence_law package_machine package_tag package_inv package_evidence"
proof -
  have "subseq (package_evidence (next_state s (machine_reduce s i))) (package_evidence s @ [package_tag i])"
    for s i
  proof (cases i)
    case (EffectCompleted c oc)
    show ?thesis
    proof (cases "effect_is_current s c")
      case True
      then obtain op n where s: "state_operation s = Some op" "expected_effect s = Some n"
        and c: "c = po_effect op n"
        by (auto simp: effect_is_current_iff)
      show ?thesis
        using s c EffectCompleted evidence_failure [OF s(1)] evidence_advance [OF s, of oc]
        by (cases oc) (simp_all add: reduce_completion_def)
    qed (use EffectCompleted in \<open>simp add: reduce_completion_stale\<close>)
  next
    case (Begin op)
    then show ?thesis by (simp add: reduce_begin_def)
  next
    case Shutdown
    then show ?thesis by (auto simp: reduce_shutdown_def split: option.split)
  qed
  then show ?thesis
    by (simp add: evidence_law_def machine_simps package_reduce_inv)
qed

lemma package_tag_eq_iff:
  "package_tag i = EffectCompleted c (Ready some_success) \<longleftrightarrow> (\<exists>cand. i = EffectCompleted c (Ready cand))"
  "\<nexists>cand. oc = Ready cand \<Longrightarrow> package_tag i = EffectCompleted c oc \<longleftrightarrow> i = EffectCompleted c oc"
  by (cases i rule: package_tag.cases; auto)+

lemma untag_install:
  assumes "map package_tag is = stages op some_success @ [verified_stage op result]"
  shows "\<exists>cand. is = stages op cand @ [verified_stage op result]"
  using assms by (auto simp: evidence_simps Cons_eq_map_conv map_eq_Cons_conv package_tag_eq_iff)

text \<open>How far a lifecycle still is from its end.\<close>

fun stages_left :: "package_state \<Rightarrow> nat" where
  "stages_left (Staging _) = 6"
| "stages_left (AwaitingAuthorization _) = 5"
| "stages_left (Installing _) = 4"
| "stages_left (Starting _) = 3"
| "stages_left (Verifying _ _) = 2"
| "stages_left (RollingBack _ _) = 1"
| "stages_left (Uninstalling _) = 1"
| "stages_left _ = 0"

lemma stages_left_le: "stages_left s \<le> 6"
  by (cases s) simp_all

text \<open>Successive completions, each a matching answer to an effect that is current at its time.\<close>

fun answered :: "package_state \<Rightarrow> (package_effect \<times> package_input) list \<Rightarrow> bool" where
  "answered s [] = True"
| "answered s ((e, i) # rest) \<longleftrightarrow>
     effect_is_current s (effect_correlation e) \<and> package_answer e i
     \<and> answered (next_state s (machine_reduce s i)) rest"

lemma answer_progress:
  assumes "effect_is_current s (effect_correlation e)" and "package_answer e i"
  shows "stages_left (next_state s (machine_reduce s i)) < stages_left s"
proof -
  obtain oc where i: "i = EffectCompleted (effect_correlation e) oc"
    and oc: "outcome_effect oc \<in> {None, Some (effect_id (effect_correlation e))}"
    using assms(2) by (cases i) auto
  obtain op n where op: "state_operation s = Some op" "expected_effect s = Some n"
      "effect_correlation e = po_effect op n"
    using assms(1) by (auto simp: effect_is_current_iff)
  show ?thesis
    using i oc op
    by (cases s; cases oc)
      (auto simp: reduce_completion_def failure_transition_def advance_def effect_id_defs)
qed

lemma answered_bound: "answered s xs \<Longrightarrow> length xs \<le> stages_left s"
proof (induction xs arbitrary: s)
  case (Cons x xs)
  then show ?case using answer_progress [of s "fst x" "snd x"] by (cases x) fastforce
qed simp

lemma answered_leftover:
  "answered s xs \<Longrightarrow> after package_machine s (map snd xs) = Some s' \<Longrightarrow>
     length xs + stages_left s' \<le> stages_left s"
proof (induction xs arbitrary: s)
  case (Cons x xs)
  then show ?case
    using answer_progress [of s "fst x" "snd x"]
    by (cases x) (fastforce simp: machine_simps)
qed simp

lemma in_flight_stages_left: "in_flight s \<longleftrightarrow> 0 < stages_left s"
  by (cases s) simp_all

lemma interrupted_join:
  assumes "map_of (rn_owned (kn_runner k)) n = Some task"
    and "effect_is_current (rn_state (kn_runner k)) (oe_correlation task)"
  shows "rn_state (kn_runner (actor_join package_machine (Join_Err n b) k))
     = RepairRequired (state_operation (rn_state (kn_runner k)))
         (failure_recovery_required (if b then ''effect-panicked'' else ''effect-aborted''))"
  using assms package_failure_law [OF assms(2)]
  by (simp add: actor_join_def finish_effect_eq completion_input_def machine_simps Let_def)

section \<open>Properties\<close>

text \<open>A concrete installation, for the witnesses.\<close>

definition demo_install :: package_operation where
  "demo_install =
     \<lparr>po_correlation = \<lparr>machine_authority = ''package'', scope_epoch = 1, operation_id = ''install-1'',
        admitted_revision = 1, effect_id = 0\<rparr>,
      po_initial = OP_Absent, po_kind = Install\<rparr>"

definition demo_success :: package_success where
  "demo_success = \<lparr>generation = 3, installation_id = ''i'', key_id = ''k''\<rparr>"

definition demo_begun :: "package_input event list" where
  "demo_begun = [Ev_Admit (Begin demo_install), Ev_Receive]"

definition demo_installed :: "package_input event list" where
  "demo_installed =
     demo_begun @
     map (\<lambda>(n, i). Ev_Join (Join_Ok n i))
       (zip [0..<5] (stages demo_install demo_success @ [verified_stage demo_install demo_success]))"

definition demo_package ::
  "package_input event list \<Rightarrow> (package_state, package_input, package_effect, package_machine_error) kernel"
  where
  "demo_package evs =
     (case run_events package_machine 4 package_command package_answer evs (spawn_runner None (initial OP_Absent)) of
        Some k \<Rightarrow> k | None \<Rightarrow> spawn_runner None Retired)"

lemma demo_package_reach:
  "run_events package_machine 4 package_command package_answer evs (spawn_runner None (initial OP_Absent)) \<noteq> None
     \<Longrightarrow> kernel_reach package_machine 4 package_command package_answer (initial OP_Absent) (demo_package evs)"
  by (auto simp: demo_package_def intro: run_events_reach)

lemma demo_installed_state:
  "run_events package_machine 4 package_command package_answer demo_installed
     (spawn_runner None (initial OP_Absent)) \<noteq> None"
  "rn_state (kn_runner (demo_package demo_installed)) = HealthyDisabled demo_install demo_success"
  by code_simp+

text \<open>
  C6: the package counts as installed and healthy only for an operation that is not an
  uninstall, and only after the machine consumed, in this order and under the exact
  correlation of that operation, the staged payload, the granted authorization, the
  committed receipt, the readiness report and the verification that names the result.
\<close>

theorem package_install_evidence:
  assumes "kernel_reach package_machine capacity command answer (initial obs) k"
    and "rn_state (kn_runner k) = HealthyDisabled op result"
  shows "po_kind op \<noteq> Uninstall
     \<and> (\<exists>candidate. subseq
          [EffectCompleted (po_effect op STAGE_EFFECT_ID) Staged,
           EffectCompleted (po_effect op AUTHORIZE_EFFECT_ID) Authorized,
           EffectCompleted (po_effect op COMMIT_EFFECT_ID) ReceiptCommitted,
           EffectCompleted (po_effect op START_EFFECT_ID) (Ready candidate),
           EffectCompleted (po_effect op VERIFY_EFFECT_ID) (Verified result)]
          (consumed (kn_runner k)))"
proof
  have start: "package_inv (initial obs)" "package_evidence (initial obs) = []"
    by (cases obs; simp)+
  show "po_kind op \<noteq> Uninstall"
    using package.reachable_inv [OF start(1) assms(1)] assms(2) by (simp add: state_inv_def)
  obtain "is" where "subseq is (consumed (kn_runner k))"
    and "map package_tag is = stages op some_success @ [verified_stage op result]"
    using reached_on_record [OF package_evidence_law start assms(1)] assms(2) by auto
  then show "\<exists>candidate. subseq
          [EffectCompleted (po_effect op STAGE_EFFECT_ID) Staged,
           EffectCompleted (po_effect op AUTHORIZE_EFFECT_ID) Authorized,
           EffectCompleted (po_effect op COMMIT_EFFECT_ID) ReceiptCommitted,
           EffectCompleted (po_effect op START_EFFECT_ID) (Ready candidate),
           EffectCompleted (po_effect op VERIFY_EFFECT_ID) (Verified result)]
          (consumed (kn_runner k))"
    using untag_install by (fastforce simp: evidence_simps)
qed

theorem package_install_evidence_witness:
  "po_kind demo_install \<noteq> Uninstall
   \<and> (\<exists>candidate. subseq (stages demo_install candidate @ [verified_stage demo_install demo_success])
        (consumed (kn_runner (demo_package demo_installed))))"
  using package_install_evidence [OF demo_package_reach demo_installed_state(2)] demo_installed_state(1)
  by (simp add: evidence_simps)

text \<open>
  An interrupted lifecycle fails closed. If the task of the effect a state waits for
  panics or is aborted, or the machine is shut down while it waits, the next state asks for
  repair of exactly that operation and names the interruption; nothing is reported installed
  or absent.
\<close>

theorem package_interruption_fails_closed:
  assumes "map_of (rn_owned (kn_runner k)) n = Some task"
    and "effect_is_current (rn_state (kn_runner k)) (oe_correlation task)"
  shows "rn_state (kn_runner (actor_join package_machine (Join_Err n b) k))
      = RepairRequired (state_operation (rn_state (kn_runner k)))
          (failure_recovery_required (if b then ''effect-panicked'' else ''effect-aborted''))
    \<and> (\<exists>op. state_operation (rn_state (kn_runner k)) = Some op
         \<and> machine_reduce (rn_state (kn_runner k)) Shutdown
             = T_RecoveryRequired (RepairRequired (Some op)
                 (failure_recovery_required ''shutdown-during-lifecycle'')))"
  using interrupted_join [OF assms] in_flight_operation [OF effect_is_current_in_flight [OF assms(2)]]
    effect_is_current_in_flight [OF assms(2)]
  by (auto simp: reduce_shutdown_def)

text \<open>
  A clean failure after the receipt may have been committed is rolled back and keeps
  its cause: from the installing, starting or verifying state the machine first emits the
  rollback, and once it is done the package is absent again if it was absent before, and
  needs repair otherwise, in both cases with the failure that started the rollback. Before
  the receipt, the same failure settles at once without a rollback.
\<close>

theorem package_failure_rolls_back:
  assumes "effect_is_current s c" and "state_operation s = Some op" and "\<not> pf_recovery_required f"
    and "\<nexists>op' f'. s = RollingBack op' f'"
  shows "(let t = machine_reduce s (EffectCompleted c (OutcomeFailed f));
              settled = (if po_initial op = OP_Absent then Absent (Some f) else RepairRequired (Some op) f)
          in if mutating s
             then emitted t = [Rollback (po_effect op ROLLBACK_EFFECT_ID)]
               \<and> after package_machine s
                   [EffectCompleted c (OutcomeFailed f),
                    EffectCompleted (po_effect op ROLLBACK_EFFECT_ID) RolledBack] = Some settled
             else emitted t = [] \<and> next_state s t = settled)"
  using assms
  by (auto simp: effect_is_current_iff reduce_completion_def failure_transition_def machine_simps
      advance_def batch_one_def batch_into_iter_def)

text \<open>
  A lifecycle ends. Whatever the executor reports, as long as each report answers an
  effect the machine waits for with an outcome of its kind, no more than six reports are
  taken, rollback included, and no state waits for an effect after them.
\<close>

theorem package_lifecycle_bounded:
  assumes "answered s reports"
  shows "length reports \<le> 6
     \<and> (length reports = 6 \<longrightarrow>
          (\<forall>s'. after package_machine s (map snd reports) = Some s' \<longrightarrow> \<not> in_flight s'))"
proof
  show "length reports \<le> 6"
    using answered_bound [OF assms] stages_left_le [of s] by simp
  show "length reports = 6 \<longrightarrow>
      (\<forall>s'. after package_machine s (map snd reports) = Some s' \<longrightarrow> \<not> in_flight s')"
    using answered_leftover [OF assms] stages_left_le [of s] in_flight_stages_left by fastforce
qed

text \<open>
  The package machine never waits for nothing. As long as its actor runs, callers only
  begin operations and the executor answers an effect with an outcome of its kind, a state
  in the middle of a lifecycle owns a running task whose exact completion it still accepts.
\<close>

theorem package_never_orphaned:
  assumes "kernel_reach package_machine capacity package_command package_answer (initial obs) k"
    and "kn_actor k = Running" and "in_flight (rn_state (kn_runner k))"
  shows "\<exists>(n, task) \<in> set (rn_owned (kn_runner k)).
           effect_is_current (rn_state (kn_runner k)) (oe_correlation task)"
proof -
  have "package_inv (initial obs)" and "\<not> in_flight (initial obs)"
    by (cases obs; simp)+
  then have "supervised package_machine in_flight (kn_runner k)"
    using package.running_supervised assms(1,2) by blast
  then show ?thesis
    using assms(3) by (force simp: supervised_def owned_correlations_def machine_simps)
qed

end
