(* ===== verification/Tun_Lifecycle.thy ===== *)
theory Tun_Lifecycle
  imports Kernel_Laws
begin

text \<open>
  The lifecycle machine of the privileged TUN service,
  \<^verbatim>\<open>crates/platform-macos/src/tun_service/lifecycle_machine.rs\<close>, with the wire types and the
  observation classifier of \<^verbatim>\<open>tun_service.rs\<close> and the network observation of
  \<^verbatim>\<open>crates/runtime/src/tun_helper.rs\<close>. The response of the privileged operation and the wall
  clock come from outside: they are arguments.
\<close>

section \<open>Network observation\<close>

definition TUN_OBSERVATION_SCHEMA_VERSION :: "16 word" where
  "TUN_OBSERVATION_SCHEMA_VERSION = 1"

definition TUN_OBSERVATION_MAX_AGE_MILLISECONDS :: u64 where
  "TUN_OBSERVATION_MAX_AGE_MILLISECONDS = 10000"

datatype component_state = CS_Absent | CS_Confirmed | CS_Foreign | CS_Partial | CS_Unknown

record tun_network_observation =
  no_core :: component_state
  no_dns :: component_state
  no_interface :: component_state
  no_observed_at :: u64
  no_routes :: component_state
  no_schema_version :: "16 word"

definition observation_new ::
  "component_state \<Rightarrow> component_state \<Rightarrow> component_state \<Rightarrow> component_state \<Rightarrow> u64
     \<Rightarrow> tun_network_observation" where
  "observation_new core interface routes dns observed_at =
     \<lparr>no_core = core, no_dns = dns, no_interface = interface, no_observed_at = observed_at,
      no_routes = routes, no_schema_version = TUN_OBSERVATION_SCHEMA_VERSION\<rparr>"

definition observation_unknown :: "u64 \<Rightarrow> tun_network_observation" where
  "observation_unknown observed_at =
     observation_new CS_Unknown CS_Unknown CS_Unknown CS_Unknown observed_at"

definition observation_disabled :: "u64 \<Rightarrow> tun_network_observation" where
  "observation_disabled observed_at =
     observation_new CS_Absent CS_Absent CS_Absent CS_Absent observed_at"

definition observation_enabled :: "u64 \<Rightarrow> tun_network_observation" where
  "observation_enabled observed_at =
     observation_new CS_Confirmed CS_Confirmed CS_Confirmed CS_Confirmed observed_at"

definition is_fresh_at :: "tun_network_observation \<Rightarrow> u64 \<Rightarrow> bool" where
  "is_fresh_at self now \<longleftrightarrow>
     no_schema_version self = TUN_OBSERVATION_SCHEMA_VERSION
     \<and> no_observed_at self \<le> saturating_add now 1000
     \<and> saturating_sub now (no_observed_at self) \<le> TUN_OBSERVATION_MAX_AGE_MILLISECONDS"

definition confirms_enabled_at :: "tun_network_observation \<Rightarrow> u64 \<Rightarrow> bool" where
  "confirms_enabled_at self now \<longleftrightarrow>
     is_fresh_at self now \<and> no_core self = CS_Confirmed \<and> no_interface self = CS_Confirmed
     \<and> no_routes self = CS_Confirmed \<and> no_dns self = CS_Confirmed"

definition confirms_disabled_at :: "tun_network_observation \<Rightarrow> u64 \<Rightarrow> bool" where
  "confirms_disabled_at self now \<longleftrightarrow>
     is_fresh_at self now \<and> no_interface self = CS_Absent
     \<and> no_routes self = CS_Absent \<and> no_dns self = CS_Absent"

definition confirms_removal_safe_at :: "tun_network_observation \<Rightarrow> u64 \<Rightarrow> bool" where
  "confirms_removal_safe_at self now \<longleftrightarrow> confirms_disabled_at self now \<and> no_core self = CS_Absent"

section \<open>Service commands and responses\<close>

datatype service_command =
    Health
  | Status
  | Observe string
  | OwnsListener string string "16 word"
  | Start string string string string string
  | Enable
  | Stop string
  | Disable
  | StopAll

fun command_operation :: "service_command \<Rightarrow> string" where
  "command_operation Health = ''health''"
| "command_operation Status = ''status''"
| "command_operation (Observe _) = ''observe''"
| "command_operation (OwnsListener _ _ _) = ''owns-listener''"
| "command_operation (Start _ _ _ _ _) = ''start''"
| "command_operation Enable = ''enable''"
| "command_operation (Stop _) = ''stop''"
| "command_operation Disable = ''disable''"
| "command_operation StopAll = ''stop-all''"

datatype service_diagnostic_code =
    AlreadyOwned
  | AuthenticationRejected
  | ChallengeExpired
  | CoreDigestMismatch
  | CoreVersionMismatch
  | InvalidRequest
  | OwnerMismatch
  | PathRejected
  | ReplayRejected
  | SpawnFailed
  | StaleRequest
  | StopFailed
  | TunForbidden

record service_core_status =
  sc_launch_token :: string
  sc_pid :: "32 word"

record service_status =
  ss_core :: "service_core_status option"
  ss_helper_version :: string
  ss_installation_id :: string
  ss_observation :: tun_network_observation

record service_response =
  sr_diagnostic :: "service_diagnostic_code option"
  sr_ok :: bool
  sr_request_id :: string
  sr_status :: service_status

definition TUN_HELPER_EXPECTED_VERSION :: string where
  "TUN_HELPER_EXPECTED_VERSION = ''6''"

definition response_ok ::
  "service_core_status option \<Rightarrow> tun_network_observation \<Rightarrow> string \<Rightarrow> service_response" where
  "response_ok core observation installation_id =
     \<lparr>sr_diagnostic = None, sr_ok = True, sr_request_id = [],
      sr_status = \<lparr>ss_core = core, ss_helper_version = TUN_HELPER_EXPECTED_VERSION,
        ss_installation_id = installation_id, ss_observation = observation\<rparr>\<rparr>"

definition response_error ::
  "service_diagnostic_code \<Rightarrow> service_core_status option \<Rightarrow> tun_network_observation \<Rightarrow> string
     \<Rightarrow> service_response" where
  "response_error diagnostic core observation installation_id =
     \<lparr>sr_diagnostic = Some diagnostic, sr_ok = False, sr_request_id = [],
      sr_status = \<lparr>ss_core = core, ss_helper_version = TUN_HELPER_EXPECTED_VERSION,
        ss_installation_id = installation_id, ss_observation = observation\<rparr>\<rparr>"

section \<open>The lifecycle machine\<close>

definition EXECUTE_EFFECT_ID :: u64 where
  "EXECUTE_EFFECT_ID = 1"

definition VERIFY_EFFECT_ID :: u64 where
  "VERIFY_EFFECT_ID = 2"

datatype observed_lifecycle = OL_Disabled bool | OL_Enabled | OL_RecoveryRequired

datatype desired_lifecycle = DL_Disabled | DL_PreparedDisabled | DL_Enabled | DL_Current | DL_StopObserved

fun desired_accepts :: "desired_lifecycle \<Rightarrow> observed_lifecycle \<Rightarrow> bool" where
  "desired_accepts DL_Disabled observed \<longleftrightarrow> observed = OL_Disabled False"
| "desired_accepts DL_PreparedDisabled observed \<longleftrightarrow> observed \<in> {OL_Disabled True, OL_Enabled}"
| "desired_accepts DL_Enabled observed \<longleftrightarrow> observed = OL_Enabled"
| "desired_accepts DL_Current observed \<longleftrightarrow> observed \<noteq> OL_RecoveryRequired"
| "desired_accepts DL_StopObserved observed \<longleftrightarrow> True"

record lifecycle_operation =
  lo_correlation :: correlation
  lo_command :: service_command
  lo_peer_pid :: "32 word"
  lo_request_id :: string

definition lo_effect :: "lifecycle_operation \<Rightarrow> u64 \<Rightarrow> correlation" where
  "lo_effect self eid = with_effect (lo_correlation self) eid"

fun command_desired :: "service_command \<Rightarrow> desired_lifecycle" where
  "command_desired (Start _ _ _ _ _) = DL_PreparedDisabled"
| "command_desired Enable = DL_Enabled"
| "command_desired (Stop _) = DL_StopObserved"
| "command_desired Disable = DL_Disabled"
| "command_desired StopAll = DL_Disabled"
| "command_desired Health = DL_Current"
| "command_desired Status = DL_Current"
| "command_desired (Observe _) = DL_Current"
| "command_desired (OwnsListener _ _ _) = DL_Current"

definition lo_desired :: "lifecycle_operation \<Rightarrow> desired_lifecycle" where
  "lo_desired self = command_desired (lo_command self)"

record lifecycle_terminal =
  lt_operation :: lifecycle_operation
  lt_response :: service_response

datatype tun_state =
    Disabled bool "lifecycle_terminal option"
  | Starting lifecycle_operation
  | Applying lifecycle_operation
  | Verifying lifecycle_operation service_response
  | Observing lifecycle_operation
  | Enabled "lifecycle_terminal option"
  | Restoring lifecycle_operation
  | RecoveryRequired "lifecycle_terminal option"
  | Retired

definition initial :: "bool \<Rightarrow> tun_state" where
  "initial recovery_required = (if recovery_required then RecoveryRequired None else Disabled False None)"

text \<open>The terminal a settled state still has to hand over, if any.\<close>

fun state_terminal :: "tun_state \<Rightarrow> lifecycle_terminal option" where
  "state_terminal (Disabled _ terminal) = terminal"
| "state_terminal (Enabled terminal) = terminal"
| "state_terminal (RecoveryRequired terminal) = terminal"
| "state_terminal _ = None"

definition terminal_projection :: "tun_state \<Rightarrow> string \<Rightarrow> service_response option" where
  "terminal_projection self oid =
     (case state_terminal self of
        None \<Rightarrow> None
      | Some terminal \<Rightarrow>
          (if operation_id (lo_correlation (lt_operation terminal)) = oid
           then Some (lt_response terminal) else None))"

fun active :: "tun_state \<Rightarrow> lifecycle_operation option" where
  "active (Starting operation) = Some operation"
| "active (Applying operation) = Some operation"
| "active (Verifying operation _) = Some operation"
| "active (Observing operation) = Some operation"
| "active (Restoring operation) = Some operation"
| "active _ = None"

definition terminal_operation :: "tun_state \<Rightarrow> lifecycle_operation option" where
  "terminal_operation self = map_option lt_operation (state_terminal self)"

datatype tun_effect =
    Execute correlation service_command "32 word" string
  | Verify correlation desired_lifecycle observed_lifecycle service_response

fun effect_correlation :: "tun_effect \<Rightarrow> correlation" where
  "effect_correlation (Execute c _ _ _) = c"
| "effect_correlation (Verify c _ _ _) = c"

datatype tun_outcome =
    Executed observed_lifecycle service_response
  | Verified desired_lifecycle observed_lifecycle service_response
  | OutcomeFailed service_response

datatype tun_input =
    Command lifecycle_operation
  | EffectCompleted correlation tun_outcome
  | Acknowledge string
  | Shutdown

datatype tun_error = Busy

type_synonym tun_transition = "(tun_state, tun_effect, tun_error) transition"

fun command_state :: "lifecycle_operation \<Rightarrow> service_command \<Rightarrow> tun_state" where
  "command_state operation (Start _ _ _ _ _) = Starting operation"
| "command_state operation Enable = Applying operation"
| "command_state operation (Stop _) = Restoring operation"
| "command_state operation Disable = Restoring operation"
| "command_state operation StopAll = Restoring operation"
| "command_state operation Health = Observing operation"
| "command_state operation Status = Observing operation"
| "command_state operation (Observe _) = Observing operation"
| "command_state operation (OwnsListener _ _ _) = Observing operation"

definition reduce_command :: "tun_state \<Rightarrow> lifecycle_operation \<Rightarrow> tun_transition" where
  "reduce_command state operation =
     (if is_some_and (or_else (active state) (terminal_operation state))
           (\<lambda>current. same_operation (lo_correlation current) (lo_correlation operation))
      then T_Unchanged
      else if active state \<noteq> None \<or> terminal_operation state \<noteq> None then T_Rejected Busy
      else T_EffectEmitting (command_state operation (lo_command operation))
             (batch_one (Execute (lo_effect operation EXECUTE_EFFECT_ID) (lo_command operation)
                (lo_peer_pid operation) (lo_request_id operation))))"

fun terminal_transition ::
  "lifecycle_operation \<Rightarrow> service_response \<Rightarrow> observed_lifecycle \<Rightarrow> tun_transition" where
  "terminal_transition operation response (OL_Disabled core_running) =
     (let state = Disabled core_running (Some \<lparr>lt_operation = operation, lt_response = response\<rparr>)
      in if \<not> sr_ok response then T_Failed state else T_Committed state)"
| "terminal_transition operation response OL_Enabled =
     (let state = Enabled (Some \<lparr>lt_operation = operation, lt_response = response\<rparr>)
      in if \<not> sr_ok response then T_Failed state else T_Committed state)"
| "terminal_transition operation response OL_RecoveryRequired =
     T_RecoveryRequired (RecoveryRequired (Some \<lparr>lt_operation = operation, lt_response = response\<rparr>))"

fun is_read_only :: "service_command \<Rightarrow> bool" where
  "is_read_only Status = True"
| "is_read_only (Observe _) = True"
| "is_read_only (OwnsListener _ _ _) = True"
| "is_read_only _ = False"

fun expected_effect :: "tun_state \<Rightarrow> u64" where
  "expected_effect (Verifying _ _) = VERIFY_EFFECT_ID"
| "expected_effect _ = EXECUTE_EFFECT_ID"

text \<open>The arms of \<open>reduce_completion\<close> once the completion is known to be the expected one.\<close>

fun complete_active :: "tun_state \<Rightarrow> lifecycle_operation \<Rightarrow> tun_outcome \<Rightarrow> tun_transition" where
  "complete_active state operation (OutcomeFailed response) =
     terminal_transition operation response OL_RecoveryRequired"
| "complete_active state operation (Executed observed response) =
     (if \<not> sr_ok response \<or> is_read_only (lo_command operation)
      then terminal_transition operation response observed
      else T_EffectEmitting (Verifying operation response)
             (batch_one (Verify (lo_effect operation VERIFY_EFFECT_ID) (lo_desired operation)
                observed response)))"
| "complete_active state operation (Verified desired observed response) =
     terminal_transition operation
       (case state of
          Verifying _ preliminary \<Rightarrow> if sr_ok response then preliminary else response
        | _ \<Rightarrow> response)
       (if desired_accepts desired observed then observed else OL_RecoveryRequired)"

definition reduce_completion :: "tun_state \<Rightarrow> correlation \<Rightarrow> tun_outcome \<Rightarrow> tun_transition" where
  "reduce_completion state c outcome =
     (case active state of
        None \<Rightarrow> T_Retired
      | Some operation \<Rightarrow>
          (if \<not> same_operation (lo_correlation operation) c \<or> effect_id c \<noteq> expected_effect state
           then T_Retired
           else complete_active state operation outcome))"

definition acknowledge :: "tun_state \<Rightarrow> string \<Rightarrow> tun_transition" where
  "acknowledge state oid =
     (let matches = (\<lambda>terminal. operation_id (lo_correlation (lt_operation terminal)) = oid)
      in case state of
           Disabled core_running (Some terminal) \<Rightarrow>
             (if matches terminal then T_Accepted (Disabled core_running None) else T_Retired)
         | Enabled (Some terminal) \<Rightarrow>
             (if matches terminal then T_Accepted (Enabled None) else T_Retired)
         | RecoveryRequired (Some terminal) \<Rightarrow>
             (if matches terminal then T_Accepted (RecoveryRequired None) else T_Retired)
         | _ \<Rightarrow> T_Retired)"

fun machine_reduce :: "tun_state \<Rightarrow> tun_input \<Rightarrow> tun_transition" where
  "machine_reduce state (Command operation) = reduce_command state operation"
| "machine_reduce state (EffectCompleted c outcome) = reduce_completion state c outcome"
| "machine_reduce state (Acknowledge oid) = acknowledge state oid"
| "machine_reduce state Shutdown =
     (if active state \<noteq> None then T_RecoveryRequired (RecoveryRequired None) else T_Accepted Retired)"

fun input_correlation :: "tun_state \<Rightarrow> tun_input \<Rightarrow> correlation option" where
  "input_correlation state (Command operation) = Some (lo_correlation operation)"
| "input_correlation state (EffectCompleted c _) = Some c"
| "input_correlation state (Acknowledge _) = map_option lo_correlation (active state)"
| "input_correlation state Shutdown = map_option lo_correlation (active state)"

definition effect_is_current :: "tun_state \<Rightarrow> correlation \<Rightarrow> bool" where
  "effect_is_current state c =
     (case active state of
        None \<Rightarrow> False
      | Some operation \<Rightarrow>
          same_operation (lo_correlation operation) c \<and> effect_id c = expected_effect state)"

text \<open>
  \<open>clock\<close> gives the wall-clock reading taken when the failure of an effect is turned into an
  input; a task fails at most once, so a function of its correlation covers every sequence of
  readings.
\<close>

definition task_failed :: "(correlation \<Rightarrow> u64) \<Rightarrow> correlation \<Rightarrow> task_failure \<Rightarrow> tun_input" where
  "task_failed clock c failure =
     EffectCompleted c (OutcomeFailed (response_error StopFailed None (observation_unknown (clock c)) []))"

definition tun_machine :: "(correlation \<Rightarrow> u64) \<Rightarrow> (tun_state, tun_input, tun_effect, tun_error) machine" where
  "tun_machine clock =
     \<lparr>m_reduce = (\<lambda>state input. Some (machine_reduce state input)),
      m_input_correlation = input_correlation,
      m_effect_is_current = effect_is_current,
      m_task_failed = task_failed clock,
      m_shutdown = Shutdown,
      m_unavailable = Busy,
      m_correlation = effect_correlation,
      m_mode = (\<lambda>_. Spawn)\<rparr>"

section \<open>The executor\<close>

definition classify_lifecycle_observation ::
  "u64 \<Rightarrow> service_command \<Rightarrow> service_response \<Rightarrow> observed_lifecycle" where
  "classify_lifecycle_observation now command response =
     (if confirms_enabled_at (ss_observation (sr_status response)) now then OL_Enabled
      else if confirms_disabled_at (ss_observation (sr_status response)) now
      then OL_Disabled (ss_core (sr_status response) \<noteq> None)
      else if sr_ok response \<and> ss_core (sr_status response) \<noteq> None
        \<and> (case command of Start _ _ _ _ _ \<Rightarrow> True | Status \<Rightarrow> True | _ \<Rightarrow> False)
      then OL_Disabled True
      else OL_RecoveryRequired)"

text \<open>
  \<open>TunLifecycleExecutor::execute\<close>; \<open>response\<close> is what \<^verbatim>\<open>execute_request_effect\<close> returned and
  \<open>now\<close> the clock reading of the classification.
\<close>

fun execute :: "u64 \<Rightarrow> service_response \<Rightarrow> tun_effect \<Rightarrow> tun_input" where
  "execute now response (Execute c command peer_pid request_id) =
     EffectCompleted c (Executed (classify_lifecycle_observation now command response) response)"
| "execute now response (Verify c desired observed verified) =
     EffectCompleted c (Verified desired observed verified)"

section \<open>The machine meets its kernel contracts\<close>

lemma tun_machine_sel [machine_simps]:
  "m_reduce (tun_machine clock) s i = Some (machine_reduce s i)"
  "m_input_correlation (tun_machine clock) s i = input_correlation s i"
  "m_effect_is_current (tun_machine clock) s c = effect_is_current s c"
  "m_task_failed (tun_machine clock) c f = task_failed clock c f"
  "m_shutdown (tun_machine clock) = Shutdown"
  "m_correlation (tun_machine clock) e = effect_correlation e"
  "m_mode (tun_machine clock) e = Spawn"
  by (simp_all add: tun_machine_def)

lemma tun_effect_ids_distinct [simp]:
  "EXECUTE_EFFECT_ID \<noteq> VERIFY_EFFECT_ID" "VERIFY_EFFECT_ID \<noteq> EXECUTE_EFFECT_ID"
  by (simp_all add: EXECUTE_EFFECT_ID_def VERIFY_EFFECT_ID_def)

lemma tun_current_iff:
  "effect_is_current s c \<longleftrightarrow> (\<exists>op. active s = Some op \<and> c = lo_effect op (expected_effect s))"
  by (cases "active s")
    (auto simp: effect_is_current_def lo_effect_def dest: same_operation_effect_eq)

lemma tun_completion_current:
  "active s = Some op \<Longrightarrow>
     reduce_completion s (lo_effect op (expected_effect s)) oc = complete_active s op oc"
  by (simp add: reduce_completion_def lo_effect_def)

lemma tun_completion_stale: "\<not> effect_is_current s c \<Longrightarrow> reduce_completion s c oc = T_Retired"
  by (auto simp: reduce_completion_def effect_is_current_def split: option.splits)

lemma terminal_transition_next [simp]:
  "next_state s (terminal_transition op resp obs) =
     (let terminal = Some \<lparr>lt_operation = op, lt_response = resp\<rparr>
      in case obs of
           OL_Disabled core_running \<Rightarrow> Disabled core_running terminal
         | OL_Enabled \<Rightarrow> Enabled terminal
         | OL_RecoveryRequired \<Rightarrow> RecoveryRequired terminal)"
  "emitted (terminal_transition op resp obs) = []"
  by (cases obs; simp add: Let_def)+

lemma terminal_transition_inactive [simp]: "active (next_state s (terminal_transition op resp obs)) = None"
  by (cases obs) (simp_all add: Let_def)

lemma active_command_state [simp]:
  "active (command_state op cmd) = Some op" "expected_effect (command_state op cmd) = EXECUTE_EFFECT_ID"
  by (cases cmd; simp)+

text \<open>Only a successful response to a command that changes something is verified.\<close>

fun tun_inv :: "tun_state \<Rightarrow> bool" where
  "tun_inv (Verifying op preliminary) \<longleftrightarrow> sr_ok preliminary \<and> \<not> is_read_only (lo_command op)"
| "tun_inv _ \<longleftrightarrow> True"

lemma tun_inv_inactive: "active s = None \<Longrightarrow> tun_inv s"
  by (cases s) simp_all

lemma tun_inv_command_state [simp]: "tun_inv (command_state op cmd)"
  by (cases cmd) simp_all

lemma tun_complete_inv: "tun_inv (next_state s (complete_active s op oc))"
  by (cases oc) (simp_all add: tun_inv_inactive del: terminal_transition_next)

lemma tun_acknowledge_next: "active (next_state s (acknowledge s oid)) = active s"
  by (cases s) (auto simp: acknowledge_def Let_def split: option.split)

lemma tun_acknowledge_inv: "tun_inv s \<Longrightarrow> tun_inv (next_state s (acknowledge s oid))"
  by (cases s) (auto simp: acknowledge_def Let_def split: option.splits)

lemma tun_acknowledge_active: "active s \<noteq> None \<Longrightarrow> acknowledge s oid = T_Retired"
  by (cases s) (simp_all add: acknowledge_def Let_def)

lemma tun_reduce_inv: "tun_inv s \<Longrightarrow> tun_inv (next_state s (machine_reduce s i))"
  by (cases i)
    (auto simp: reduce_command_def reduce_completion_def tun_complete_inv tun_acknowledge_inv
      split: option.splits)

text \<open>
  The environment: callers send commands and acknowledge terminals; the executor answers with
  what \<open>execute\<close> can produce. \<open>evidenced\<close> is what a classification says about the response.
\<close>

fun tun_command :: "tun_input \<Rightarrow> bool" where
  "tun_command (Command _) = True"
| "tun_command (Acknowledge _) = True"
| "tun_command _ = False"

fun evidenced :: "service_command \<Rightarrow> service_response \<Rightarrow> observed_lifecycle \<Rightarrow> bool" where
  "evidenced command response OL_Enabled \<longleftrightarrow>
     (let obs = ss_observation (sr_status response) in
      no_core obs = CS_Confirmed \<and> no_interface obs = CS_Confirmed \<and> no_routes obs = CS_Confirmed
      \<and> no_dns obs = CS_Confirmed)"
| "evidenced command response (OL_Disabled core_running) \<longleftrightarrow>
     (let obs = ss_observation (sr_status response) in
      core_running = (ss_core (sr_status response) \<noteq> None)
      \<and> (no_interface obs = CS_Absent \<and> no_routes obs = CS_Absent \<and> no_dns obs = CS_Absent
         \<or> sr_ok response \<and> core_running
           \<and> (case command of Start _ _ _ _ _ \<Rightarrow> True | Status \<Rightarrow> True | _ \<Rightarrow> False)))"
| "evidenced command response OL_RecoveryRequired \<longleftrightarrow> True"

fun tun_answer :: "tun_effect \<Rightarrow> tun_input \<Rightarrow> bool" where
  "tun_answer (Execute c command _ _) (EffectCompleted c' (Executed observed response)) \<longleftrightarrow>
     c' = c \<and> evidenced command response observed"
| "tun_answer (Verify c desired observed response) i \<longleftrightarrow>
     i = EffectCompleted c (Verified desired observed response)"
| "tun_answer _ _ \<longleftrightarrow> False"

lemma classify_evidenced: "evidenced command response (classify_lifecycle_observation now command response)"
  by (auto simp: classify_lifecycle_observation_def confirms_enabled_at_def confirms_disabled_at_def Let_def
      split: service_command.splits)

lemma execute_answers: "tun_answer e (execute now response e)"
  by (cases e) (simp_all add: classify_evidenced)

definition tun_busy :: "tun_state \<Rightarrow> bool" where
  "tun_busy s \<longleftrightarrow> active s \<noteq> None"

lemma tun_emitted_current:
  assumes "e \<in> set (emitted (machine_reduce s i))"
  shows "effect_is_current (next_state s (machine_reduce s i)) (effect_correlation e)"
proof (cases i)
  case (EffectCompleted c oc)
  then obtain op where "active s = Some op" "machine_reduce s i = complete_active s op oc"
    using assms by (auto simp: reduce_completion_def split: option.splits if_splits)
  then show ?thesis
    using assms by (cases oc) (auto simp: tun_current_iff split: if_splits)
qed (use assms in \<open>auto simp: reduce_command_def acknowledge_def Let_def tun_current_iff
      split: if_splits tun_state.splits option.splits\<close>)

lemma tun_complete_busy:
  "active (next_state s (complete_active s op oc)) \<noteq> None \<Longrightarrow> emitted (complete_active s op oc) \<noteq> []"
  by (cases oc) (simp_all split: if_splits del: terminal_transition_next(1))

interpretation tun: total_machine "tun_machine clock" tun_inv for clock
  by unfold_locales (auto simp: machine_simps tun_reduce_inv)

interpretation tun: disciplined_machine "tun_machine clock" tun_inv tun_busy tun_command tun_answer for clock
proof (unfold_locales, goal_cases)
  case (1 s c f)
  then show ?case by (simp add: machine_simps task_failed_def tun_completion_stale)
next
  case (2 s i t e)
  then show ?case by (auto simp: machine_simps tun_emitted_current)
next
  case (3 s i t c)
  then show ?case
    by (cases i)
      (auto simp: machine_simps tun_busy_def reduce_command_def tun_acknowledge_next tun_current_iff
        tun_acknowledge_active split: if_splits)
next
  case (4 s e i t)
  then obtain op where "active s = Some op" "effect_correlation e = lo_effect op (expected_effect s)"
    by (auto simp: machine_simps tun_current_iff)
  moreover obtain oc where "i = EffectCompleted (effect_correlation e) oc"
    using 4 by (cases "(e, i)" rule: tun_answer.cases) auto
  ultimately show ?case
    using 4 tun_complete_busy [of s op oc]
    by (auto simp: machine_simps tun_completion_current tun_busy_def neq_Nil_conv)
next
  case (5 s c f t)
  then obtain op where "active s = Some op" "c = lo_effect op (expected_effect s)"
    by (auto simp: machine_simps tun_current_iff)
  then show ?case
    using 5 by (auto simp: machine_simps task_failed_def tun_completion_current tun_busy_def
        simp del: terminal_transition_next(1))
qed

end
