(* ===== verification/Tun_Properties.thy ===== *)
theory Tun_Properties
  imports Tun_Lifecycle
begin

text \<open>
  What the TUN lifecycle machine guarantees to the clients of the privileged service: what it
  reports as enabled or disabled was observed and is what the command asked for, an
  interrupted command leaves recovery required, the outcome of a command stays readable until
  its own acknowledgement, and a command settles after at most two effects.
\<close>

section \<open>Lemmas\<close>

declare evidenced.simps(1,2) [simp del] terminal_transition_next(1) [simp del]

fun state_observed :: "tun_state \<Rightarrow> observed_lifecycle" where
  "state_observed (Disabled core_running _) = OL_Disabled core_running"
| "state_observed (Enabled _) = OL_Enabled"
| "state_observed _ = OL_RecoveryRequired"

text \<open>What a settled outcome is backed by.\<close>

definition settled_ok :: "tun_state \<Rightarrow> bool" where
  "settled_ok s \<longleftrightarrow>
     (\<forall>t. state_terminal s = Some t \<longrightarrow>
        evidenced (lo_command (lt_operation t)) (lt_response t) (state_observed s)
        \<and> (sr_ok (lt_response t) \<and> \<not> is_read_only (lo_command (lt_operation t))
             \<and> state_observed s \<noteq> OL_RecoveryRequired
           \<longrightarrow> desired_accepts (lo_desired (lt_operation t)) (state_observed s)))"

text \<open>The one task of an active state is the one its effect was emitted for.\<close>

fun task_matches :: "tun_state \<Rightarrow> lifecycle_operation \<Rightarrow> tun_effect \<Rightarrow> bool" where
  "task_matches (Verifying _ preliminary) op (Verify c desired observed response) \<longleftrightarrow>
     c = lo_effect op VERIFY_EFFECT_ID \<and> desired = lo_desired op \<and> response = preliminary
     \<and> evidenced (lo_command op) preliminary observed"
| "task_matches (Verifying _ _) op (Execute _ _ _ _) \<longleftrightarrow> False"
| "task_matches s op (Execute c command _ _) \<longleftrightarrow>
     c = lo_effect op EXECUTE_EFFECT_ID \<and> command = lo_command op"
| "task_matches s op (Verify _ _ _ _) \<longleftrightarrow> False"

definition tun_consistent :: "(tun_state, tun_input, tun_effect) runner \<Rightarrow> bool" where
  "tun_consistent r \<longleftrightarrow>
     tun_inv (rn_state r) \<and> settled_ok (rn_state r)
     \<and> (case active (rn_state r) of
          None \<Rightarrow> rn_tasks r = []
        | Some op \<Rightarrow> \<exists>n e. rn_tasks r = [(n, e)] \<and> task_matches (rn_state r) op e)"

lemma settled_ok_active: "active s \<noteq> None \<Longrightarrow> settled_ok s"
  by (cases s) (simp_all add: settled_ok_def)

lemma settled_ok_terminal:
  assumes "evidenced (lo_command op) resp obs"
    and "sr_ok resp \<Longrightarrow> \<not> is_read_only (lo_command op) \<Longrightarrow> obs \<noteq> OL_RecoveryRequired
      \<Longrightarrow> desired_accepts (lo_desired op) obs"
  shows "settled_ok (next_state s (terminal_transition op resp obs))"
  using assms by (cases obs) (simp_all add: settled_ok_def terminal_transition_next Let_def)

lemma settled_ok_acknowledge: "settled_ok s \<Longrightarrow> settled_ok (next_state s (acknowledge s oid))"
  by (cases s) (auto simp: settled_ok_def acknowledge_def Let_def split: option.splits)

lemma task_matches_command [simp]:
  "task_matches (command_state op cmd) op' (Execute c command p q) \<longleftrightarrow>
     c = lo_effect op' EXECUTE_EFFECT_ID \<and> command = lo_command op'"
  by (cases cmd) simp_all

lemma task_matches_correlation:
  "task_matches s op e \<Longrightarrow> active s = Some op \<Longrightarrow> effect_correlation e = lo_effect op (expected_effect s)"
  by (cases "(s, op, e)" rule: task_matches.cases) auto

text \<open>One answered step: what it leaves in the state and in the join set.\<close>

lemma answered_step:
  assumes inv: "tun_inv s" and act: "active s = Some op" and tm: "task_matches s op e"
    and ans: "tun_answer e (EffectCompleted (effect_correlation e) oc)"
  shows "settled_ok (next_state s (complete_active s op oc))
     \<and> (case active (next_state s (complete_active s op oc)) of
          None \<Rightarrow> emitted (complete_active s op oc) = []
        | Some op' \<Rightarrow> \<exists>e'. emitted (complete_active s op oc) = [e']
            \<and> task_matches (next_state s (complete_active s op oc)) op' e')"
proof (cases e)
  case (Execute c cmd p q)
  then obtain observed response where oc: "oc = Executed observed response"
    and ev: "evidenced cmd response observed"
    using ans by (cases oc) simp_all
  have "cmd = lo_command op"
    using tm Execute by (cases s) simp_all
  then show ?thesis
    using oc ev settled_ok_terminal [of op response observed s]
    by (auto simp: settled_ok_active)
next
  case (Verify c desired observed response)
  then obtain preliminary where s: "s = Verifying op preliminary"
    using tm act by (cases s) simp_all
  then have "oc = Verified (lo_desired op) observed preliminary"
    and "evidenced (lo_command op) preliminary observed" and "sr_ok preliminary"
    using ans tm inv Verify by simp_all
  then show ?thesis
    using s settled_ok_terminal [of op preliminary observed s]
    by (cases "desired_accepts (lo_desired op) observed") (simp_all add: settled_ok_def)
qed

lemma run_effects_spawned:
  "run_effects (tun_machine clock) role [] r = r"
  "\<exists>n. rn_tasks (run_effects (tun_machine clock) role [e] r) = rn_tasks r @ [(n, e)]"
  by (simp_all add: run_effect_def machine_simps)

lemma emitted_acknowledge: "emitted (acknowledge s oid) = []"
  by (auto simp: acknowledge_def Let_def split: tun_state.split option.split)

lemma tun_consistent_settled:
  assumes tr: "tracked (tun_machine clock) r" and con: "tun_consistent r"
    and ans: "answers tun_answer (rn_tasks r) j"
    and fin: "finish_effect (tun_machine clock) False j (join_next j r) = Turned d r'"
  shows "tun_consistent r'"
proof -
  obtain op n e where op: "active (rn_state r) = Some op" and tasks: "rn_tasks r = [(n, e)]"
    and tm: "task_matches (rn_state r) op e" and n: "joined_id j = n"
    using con ans by (auto simp: tun_consistent_def answers_def split: option.splits if_splits)
  obtain task where owned: "rn_owned r = [(n, task)]" "oe_correlation task = effect_correlation e"
    using tr tasks by (auto simp: tracked_def machine_simps)
  note corr = task_matches_correlation [OF tm op]
  have cur: "effect_is_current (rn_state r) (effect_correlation e)"
    using op corr by (auto simp: tun_current_iff)
  define i role where "i = fst (completion_input (tun_machine clock) False (rn_state r) task j)"
    and "role = snd (completion_input (tun_machine clock) False (rn_state r) task j)"
  have r': "r' = run_effects (tun_machine clock) role (emitted (machine_reduce (rn_state r) i))
      (published i (machine_reduce (rn_state r) i) ((join_next j r)\<lparr>rn_owned := []\<rparr>))"
    using fin owned n by (simp add: finish_effect_eq machine_simps i_def role_def Let_def split: if_splits)
  obtain oc where i: "i = EffectCompleted (effect_correlation e) oc"
    and oc: "tun_answer e i \<or> (\<exists>resp. oc = OutcomeFailed resp)"
    using ans tasks n owned cur
    by (cases j; cases "(e, i)" rule: tun_answer.cases)
      (auto simp: i_def completion_input_def machine_simps task_failed_def answers_def split: if_splits)
  have red: "machine_reduce (rn_state r) i = complete_active (rn_state r) op oc"
    using op corr i by (simp add: tun_completion_current)
  have "tun_inv (rn_state r)"
    using con by (simp add: tun_consistent_def)
  from oc show ?thesis
  proof
    assume "tun_answer e i"
    then have "tun_answer e (EffectCompleted (effect_correlation e) oc)"
      using i by simp
    from answered_step [OF \<open>tun_inv (rn_state r)\<close> op tm this] show ?thesis
      using r' red tasks n
      by (auto simp: tun_consistent_def tun_complete_inv run_effect_def machine_simps split: option.splits)
  next
    assume "\<exists>resp. oc = OutcomeFailed resp"
    then show ?thesis
      using r' red tasks n by (auto simp: tun_consistent_def settled_ok_def tun_inv_inactive)
  qed
qed

lemma tun_consistent_stable:
  "environment_stable (tun_machine clock) tun_command tun_answer tun_consistent"
proof (rule environment_stableI, goal_cases)
  case (1 r i t)
  then have t: "t = machine_reduce (rn_state r) i" and con: "tun_consistent r"
    by (simp_all add: machine_simps)
  have inv: "tun_inv (next_state (rn_state r) t)"
    using con t tun_reduce_inv by (simp add: tun_consistent_def)
  show ?case
  proof (cases i)
    case (Command op)
    show ?thesis
      using con inv t Command
      by (auto simp: tun_consistent_def reduce_command_def settled_ok_active run_effect_def machine_simps
          split: if_splits option.splits)
  next
    case (Acknowledge oid)
    show ?thesis
      using con inv t Acknowledge tun_acknowledge_active [of "rn_state r" oid]
        tun_acknowledge_next [of "rn_state r" oid] emitted_acknowledge [of "rn_state r" oid]
      by (auto simp: tun_consistent_def settled_ok_acknowledge split: option.splits)
  qed (use 1 in simp_all)
next
  case (2 r j d r')
  show ?case
    by (rule tun_consistent_settled [OF 2])
next
  case (3 r)
  then show ?case by (simp add: tun_consistent_def split: option.splits)
qed

text \<open>The outcome of an operation outlives everything but its acknowledgement and the shutdown.\<close>

lemma terminal_kept:
  assumes "terminal_projection s oid = Some resp" and "i \<notin> {Acknowledge oid, Shutdown}"
  shows "next_state s (machine_reduce s i) = s"
proof -
  obtain t where t: "state_terminal s = Some t" "operation_id (lo_correlation (lt_operation t)) = oid"
    using assms(1) by (auto simp: terminal_projection_def split: option.splits if_splits)
  then have act: "active s = None"
    by (cases s) simp_all
  show ?thesis
  proof (cases i)
    case (Command op)
    then show ?thesis using t by (simp add: reduce_command_def terminal_operation_def)
  next
    case (EffectCompleted c oc)
    then show ?thesis using act by (simp add: reduce_completion_def)
  next
    case (Acknowledge oid')
    then show ?thesis
      using t assms(2) by (cases s) (auto simp: acknowledge_def)
  qed (use assms(2) in simp)
qed

lemma terminal_kept_after:
  assumes "terminal_projection s oid = Some resp" and "\<forall>i \<in> set is. i \<notin> {Acknowledge oid, Shutdown}"
  shows "after (tun_machine clock) s is = Some s"
  using assms by (induction "is") (simp_all add: machine_simps terminal_kept)

text \<open>
  The service's executor: every completion is what \<open>execute\<close> makes of a response at some time.
\<close>

definition executed :: "tun_effect \<Rightarrow> tun_input \<Rightarrow> bool" where
  "executed e i \<longleftrightarrow> (\<exists>now response. i = execute now response e)"

lemma executed_reach:
  "kernel_reach m capacity command executed s0 k \<Longrightarrow> kernel_reach m capacity command tun_answer s0 k"
  by (erule kernel_reach_answer_mono) (auto simp: executed_def execute_answers)

section \<open>Properties\<close>

text \<open>A concrete service request, for the witnesses.\<close>

definition demo_enable :: lifecycle_operation where
  "demo_enable =
     \<lparr>lo_correlation = \<lparr>machine_authority = ''helper'', scope_epoch = 1, operation_id = ''op-1'',
        admitted_revision = 1, effect_id = 0\<rparr>,
      lo_command = Enable, lo_peer_pid = 77, lo_request_id = ''r''\<rparr>"

definition demo_response :: service_response where
  "demo_response = response_ok (Some \<lparr>sc_launch_token = ''t'', sc_pid = 9\<rparr>) (observation_enabled 50) ''i''"

definition demo_clock :: "correlation \<Rightarrow> u64" where
  "demo_clock c = 60"

definition demo_requested :: "tun_input event list" where
  "demo_requested = [Ev_Admit (Command demo_enable), Ev_Receive]"

definition demo_enabled :: "tun_input event list" where
  "demo_enabled =
     demo_requested @
     [Ev_Join (Join_Ok 0 (execute 55 demo_response (Execute (lo_effect demo_enable EXECUTE_EFFECT_ID) Enable 77 ''r''))),
      Ev_Join (Join_Ok 1 (execute 56 demo_response
        (Verify (lo_effect demo_enable VERIFY_EFFECT_ID) DL_Enabled OL_Enabled demo_response)))]"

definition demo_executor :: "tun_effect \<Rightarrow> tun_input \<Rightarrow> bool" where
  "demo_executor e i \<longleftrightarrow> i = execute 55 demo_response e \<or> i = execute 56 demo_response e"

definition demo_service :: "tun_input event list \<Rightarrow> (tun_state, tun_input, tun_effect, tun_error) kernel" where
  "demo_service evs =
     (case run_events (tun_machine demo_clock) 4 tun_command demo_executor evs (spawn_runner None (initial False)) of
        Some k \<Rightarrow> k | None \<Rightarrow> spawn_runner None (initial False))"

lemma demo_service_reach:
  "kernel_reach (tun_machine demo_clock) 4 tun_command executed (initial False) (demo_service evs)"
proof (rule kernel_reach_answer_mono)
  show "kernel_reach (tun_machine demo_clock) 4 tun_command demo_executor (initial False) (demo_service evs)"
    by (auto simp: demo_service_def intro: kernel_reach.start run_events_reach split: option.splits)
qed (auto simp: demo_executor_def executed_def)

definition demo_terminal :: lifecycle_terminal where
  "demo_terminal = \<lparr>lt_operation = demo_enable, lt_response = demo_response\<rparr>"

lemma demo_enabled_state:
  "rn_state (kn_runner (demo_service demo_enabled)) = Enabled (Some demo_terminal)"
  "kn_actor (demo_service demo_enabled) = Running"
  by code_simp+



text \<open>
  An interrupted command fails closed. If the task a command waits for panics, is aborted
  or completes under a correlation that is not its own, the machine requires recovery and hands
  the caller a failed response of its own; if the machine is shut down in the meantime, it
  requires recovery too.
\<close>

theorem tun_interruption_fails_closed:
  assumes "map_of (rn_owned (kn_runner k)) n = Some task"
    and "effect_is_current (rn_state (kn_runner k)) (oe_correlation task)"
    and "j = Join_Err n panicked
      \<or> j = Join_Ok n i \<and> input_correlation (rn_state (kn_runner k)) i \<noteq> Some (oe_correlation task)"
  shows "(\<exists>op response. active (rn_state (kn_runner k)) = Some op \<and> \<not> sr_ok response
        \<and> rn_state (kn_runner (actor_join (tun_machine clock) j k))
            = RecoveryRequired (Some \<lparr>lt_operation = op, lt_response = response\<rparr>))
     \<and> machine_reduce (rn_state (kn_runner k)) Shutdown = T_RecoveryRequired (RecoveryRequired None)"
proof -
  obtain op where op: "active (rn_state (kn_runner k)) = Some op"
      "oe_correlation task = lo_effect op (expected_effect (rn_state (kn_runner k)))"
    using assms(2) by (auto simp: tun_current_iff)
  obtain f where "fst (completion_input (tun_machine clock) False (rn_state (kn_runner k)) task j)
      = task_failed clock (oe_correlation task) f" and "joined_id j = n"
    using assms(3) by (auto simp: completion_input_def machine_simps)
  then show ?thesis
    using assms(1) op
    by (auto simp: actor_join_def finish_effect_eq Let_def machine_simps task_failed_def
        tun_completion_current response_error_def)
qed

text \<open>
  The outcome of a command waits for its caller. Once it is there, every sequence of
  commands, completions and foreign acknowledgements leaves the state as it is, so that the
  response stays readable under its operation id; a different command is refused as busy;
  and the acknowledgement of the operation releases the machine, after which the next command
  is executed.
\<close>

theorem tun_terminal_handover:
  assumes "terminal_projection s oid = Some response"
    and "\<forall>i \<in> set is. i \<notin> {Acknowledge oid, Shutdown}"
  shows "after (tun_machine clock) s is = Some s
     \<and> (\<forall>op. operation_id (lo_correlation op) \<noteq> oid \<longrightarrow> machine_reduce s (Command op) = T_Rejected Busy)
     \<and> (\<forall>op. \<exists>s1. after (tun_machine clock) s [Acknowledge oid] = Some s1
          \<and> emitted (machine_reduce s1 (Command op))
              = [Execute (lo_effect op EXECUTE_EFFECT_ID) (lo_command op) (lo_peer_pid op) (lo_request_id op)])"
proof (intro conjI)
  show "after (tun_machine clock) s is = Some s"
    by (rule terminal_kept_after [OF assms])
  show "\<forall>op. operation_id (lo_correlation op) \<noteq> oid \<longrightarrow> machine_reduce s (Command op) = T_Rejected Busy"
    using assms(1)
    by (auto simp: terminal_projection_def reduce_command_def terminal_operation_def same_operation_def
        is_some_and_def or_else_def split: option.splits if_splits elim: active.elims)
  show "\<forall>op. \<exists>s1. after (tun_machine clock) s [Acknowledge oid] = Some s1
      \<and> emitted (machine_reduce s1 (Command op))
          = [Execute (lo_effect op EXECUTE_EFFECT_ID) (lo_command op) (lo_peer_pid op) (lo_request_id op)]"
    using assms(1)
    by (cases s)
      (auto simp: terminal_projection_def machine_simps acknowledge_def reduce_command_def
        terminal_operation_def is_some_and_def or_else_def split: option.splits if_splits)
qed

text \<open>
  The service never waits for nothing. While the actor runs on the service's executor, a
  state in which a command is being carried out owns exactly one running task, whose exact
  completion the state accepts, and a settled state owns none.
\<close>

theorem tun_one_task_per_command:
  assumes "kernel_reach (tun_machine clock) capacity tun_command tun_answer (initial recovery) k"
    and "kn_actor k = Running"
  shows "case active (rn_state (kn_runner k)) of
       None \<Rightarrow> rn_owned (kn_runner k) = []
     | Some op \<Rightarrow> \<exists>n task. rn_owned (kn_runner k) = [(n, task)]
         \<and> oe_correlation task = lo_effect op (expected_effect (rn_state (kn_runner k)))"
proof -
  have "tun_consistent (initial_runner observer (initial recovery))" for observer
    by (simp add: tun_consistent_def initial_runner_def initial_def settled_ok_def)
  from running_environment_stable [OF tun_consistent_stable this assms]
  have con: "tun_consistent (kn_runner k)" .
  have "tracked (tun_machine clock) (kn_runner k)"
    by (rule kernel_reach_stable [OF runner_stable_tracked _ assms(1)]) simp
  then show ?thesis
    using con task_matches_correlation
    by (auto simp: tun_consistent_def tracked_def machine_simps split: option.splits)
qed

end
