(* ===== verification/Traffic_Source.thy ===== *)
theory Traffic_Source
  imports Kernel_Laws
begin

text \<open>
  The traffic source machine of the desktop bridge,
  \<^verbatim>\<open>crates/desktop-bridge/src/traffic_source_machine.rs\<close>: which controller session is the live
  source of traffic observations, the one connection command in flight against it, the bounded
  ledger of finished commands and the bounded evidence of the observer. Types of commands
  and executions are those of \<^verbatim>\<open>crates/runtime/src/traffic.rs\<close>. The \<^verbatim>\<open>expect\<close> on an exhausted
  revision is the value \<open>None\<close>.
\<close>

section \<open>Commands\<close>

datatype evidence_phase = EP_Binding | EP_Live | EP_Replacing | EP_Ended | EP_FailedReconciling | EP_Retired

datatype transition_evidence_disposition =
    TD_Accepted | TD_Rejected | TD_Unchanged | TD_EffectEmitting | TD_Committed
  | TD_Cancelled | TD_Failed | TD_Retired | TD_RecoveryRequired

record command_authority =
  ca_profile_id :: string
  ca_sequence :: u64
  ca_session_id :: string

datatype command_operation = CloseConnection | CloseFilteredVisible | CloseAllActive

datatype command_failure_kind =
    FK_Unsupported
  | FK_InvalidRequest
  | FK_Conflict
  | FK_StaleSnapshot
  | FK_StaleConnection
  | FK_Timeout
  | FK_Disconnected
  | FK_VersionDrift
  | FK_ControllerRejected
  | FK_RuntimeReplaced
  | FK_PartialRemaining
  | FK_InconsistentObservation

record command_execution =
  ce_failure :: "command_failure_kind option"
  ce_operation :: command_operation
  ce_remaining_connection_ids :: "string list"
  ce_target_count :: nat

definition execution_success :: "command_operation \<Rightarrow> nat \<Rightarrow> command_execution" where
  "execution_success operation target_count =
     \<lparr>ce_failure = None, ce_operation = operation, ce_remaining_connection_ids = [],
      ce_target_count = target_count\<rparr>"

definition execution_failure ::
  "command_operation \<Rightarrow> command_failure_kind \<Rightarrow> nat \<Rightarrow> string list \<Rightarrow> command_execution" where
  "execution_failure operation failure target_count remaining =
     \<lparr>ce_failure = Some failure, ce_operation = operation, ce_remaining_connection_ids = remaining,
      ce_target_count = target_count\<rparr>"

section \<open>State\<close>

definition TRAFFIC_COMMAND_LEDGER_LIMIT :: nat where
  "TRAFFIC_COMMAND_LEDGER_LIMIT = 32"

definition TRAFFIC_TRANSITION_EVIDENCE_LIMIT :: nat where
  "TRAFFIC_TRANSITION_EVIDENCE_LIMIT = 64"

record source_context =
  sx_capture_id :: "string option"
  sx_controller_generation :: u64
  sx_profile_id :: string
  sx_runtime_id :: string

record source_stamp =
  st_context :: source_context
  st_sequence :: u64
  st_session_id :: string

definition same_session :: "source_stamp \<Rightarrow> source_stamp \<Rightarrow> bool" where
  "same_session self other \<longleftrightarrow>
     st_context self = st_context other \<and> st_session_id self = st_session_id other"

definition matches_command_authority :: "source_stamp \<Rightarrow> command_authority \<Rightarrow> bool" where
  "matches_command_authority self authority \<longleftrightarrow>
     sx_profile_id (st_context self) = ca_profile_id authority
     \<and> st_session_id self = ca_session_id authority
     \<and> st_sequence self = ca_sequence authority"

definition matches_session_authority :: "source_stamp \<Rightarrow> command_authority \<Rightarrow> bool" where
  "matches_session_authority self authority \<longleftrightarrow>
     sx_profile_id (st_context self) = ca_profile_id authority
     \<and> st_session_id self = ca_session_id authority"

datatype end_reason = CoreExited | NetworkChanged | EndShutdown

datatype gap_reason =
    GapCancelled | GapCompletionConflict | ObservationFailed | GapPanicked | SequenceGap | Sleep

datatype source_authority =
    Binding source_context
  | Live source_stamp
  | Replacing source_context "source_stamp option"
  | Ended "source_stamp option" end_reason
  | FailedReconciling source_context "source_stamp option" gap_reason
  | Retired "source_stamp option" end_reason

fun authority_live :: "source_authority \<Rightarrow> source_stamp option" where
  "authority_live (Live stamp) = Some stamp"
| "authority_live _ = None"

fun authority_last :: "source_authority \<Rightarrow> source_stamp option" where
  "authority_last (Live stamp) = Some stamp"
| "authority_last (Replacing _ retired) = retired"
| "authority_last (Ended stamp _) = stamp"
| "authority_last (FailedReconciling _ stamp _) = stamp"
| "authority_last (Retired stamp _) = stamp"
| "authority_last (Binding _) = None"

fun current_context :: "source_authority \<Rightarrow> source_context option" where
  "current_context (Binding context) = Some context"
| "current_context (Replacing candidate _) = Some candidate"
| "current_context (FailedReconciling context _ _) = Some context"
| "current_context (Live stamp) = Some (st_context stamp)"
| "current_context (Ended _ _) = None"
| "current_context (Retired _ _) = None"

fun authority_phase :: "source_authority \<Rightarrow> evidence_phase" where
  "authority_phase (Binding _) = EP_Binding"
| "authority_phase (Live _) = EP_Live"
| "authority_phase (Replacing _ _) = EP_Replacing"
| "authority_phase (Ended _ _) = EP_Ended"
| "authority_phase (FailedReconciling _ _ _) = EP_FailedReconciling"
| "authority_phase (Retired _ _) = EP_Retired"

record command_request =
  rq_admitted_target_count :: nat
  rq_authority :: command_authority
  rq_operation :: command_operation
  rq_operation_id :: string
  rq_requested_ids :: "string list option"

record command_record =
  cr_execution :: command_execution
  cr_request :: command_request

record pending_command =
  pc_correlation :: correlation
  pc_request :: command_request
  pc_source :: source_stamp

record traffic_state =
  ts_authority :: source_authority
  ts_machine_authority :: string
  ts_pending :: "pending_command option"
  ts_completed :: "command_record list"
  ts_revision :: u64

definition binding_state :: "string \<Rightarrow> source_context \<Rightarrow> traffic_state" where
  "binding_state authority context =
     \<lparr>ts_authority = Binding context, ts_machine_authority = authority, ts_pending = None,
      ts_completed = [], ts_revision = 0\<rparr>"

definition find_record :: "traffic_state \<Rightarrow> string \<Rightarrow> command_record option" where
  "find_record self oid = find (\<lambda>record. rq_operation_id (cr_request record) = oid) (ts_completed self)"

definition command_result :: "traffic_state \<Rightarrow> string \<Rightarrow> command_execution option" where
  "command_result self oid = map_option cr_execution (find_record self oid)"

definition command_is_pending :: "traffic_state \<Rightarrow> string \<Rightarrow> bool" where
  "command_is_pending self oid =
     is_some_and (ts_pending self) (\<lambda>pending. rq_operation_id (pc_request pending) = oid)"

definition effect_is_current_for_source :: "traffic_state \<Rightarrow> correlation \<Rightarrow> source_stamp \<Rightarrow> bool" where
  "effect_is_current_for_source self c source =
     is_some_and (ts_pending self) (\<lambda>pending.
       pc_correlation pending = c \<and> same_session (pc_source pending) source
       \<and> is_some_and (authority_live (ts_authority self)) (\<lambda>current. same_session current source))"

definition next_revision :: "traffic_state \<Rightarrow> u64 option" where
  "next_revision self = checked_add (ts_revision self) 1"

definition with_authority :: "traffic_state \<Rightarrow> source_authority \<Rightarrow> traffic_state option" where
  "with_authority self authority =
     map_option (\<lambda>revision. self\<lparr>ts_authority := authority, ts_revision := revision\<rparr>) (next_revision self)"

definition finish :: "traffic_state \<Rightarrow> command_request \<Rightarrow> command_execution \<Rightarrow> traffic_state option" where
  "finish self request execution =
     map_option (\<lambda>revision.
       self\<lparr>ts_pending := None, ts_revision := revision,
            ts_completed := pop_front_while_over TRAFFIC_COMMAND_LEDGER_LIMIT
              (ts_completed self @ [\<lparr>cr_execution = execution, cr_request = request\<rparr>])\<rparr>)
       (next_revision self)"

record command_effect =
  cf_correlation :: correlation
  cf_request :: command_request
  cf_source :: source_stamp

datatype traffic_effect = Execute command_effect | CancelEffect correlation

definition pending_failure :: "pending_command \<Rightarrow> command_failure_kind \<Rightarrow> command_execution" where
  "pending_failure pending failure =
     execution_failure (rq_operation (pc_request pending)) failure
       (rq_admitted_target_count (pc_request pending))
       (unwrap_or (rq_requested_ids (pc_request pending)) [])"

definition fail_pending ::
  "traffic_state \<Rightarrow> command_failure_kind \<Rightarrow> (traffic_state \<times> traffic_effect option) option" where
  "fail_pending self failure =
     (case ts_pending self of
        None \<Rightarrow> Some (self, None)
      | Some pending \<Rightarrow>
          map_option (\<lambda>next. (next, Some (CancelEffect (pc_correlation pending))))
            (finish self (pc_request pending) (pending_failure pending failure)))"

datatype traffic_input =
    BeginBinding source_context
  | Baseline source_stamp
  | Observation source_stamp
  | Gap source_context gap_reason
  | End end_reason
  | Request command_request
  | Completed correlation command_execution source_stamp
  | EffectFailed correlation task_failure
  | Shutdown

fun effect_correlation :: "traffic_effect \<Rightarrow> correlation" where
  "effect_correlation (Execute effect) = cf_correlation effect"
| "effect_correlation (CancelEffect c) = c"

fun effect_mode_of :: "traffic_effect \<Rightarrow> effect_mode" where
  "effect_mode_of (CancelEffect _) = Cancel"
| "effect_mode_of (Execute _) = Spawn"

datatype traffic_error = ConflictError | InvalidAuthority | RetiredError

section \<open>The reducer\<close>

type_synonym traffic_transition = "(traffic_state, traffic_effect, traffic_error) transition"

text \<open>The common end of \<open>transition_authority\<close> and of the shutdown arm.\<close>

definition replace_authority ::
  "traffic_state \<Rightarrow> source_authority \<Rightarrow> command_failure_kind \<Rightarrow> traffic_transition option" where
  "replace_authority state authority failure =
     (case fail_pending state failure of
        None \<Rightarrow> None
      | Some (failed, cancel) \<Rightarrow>
          (let next = failed\<lparr>ts_authority := authority\<rparr> in
           case (if ts_revision next = ts_revision state
                 then map_option (\<lambda>revision. next\<lparr>ts_revision := revision\<rparr>) (next_revision state)
                 else Some next) of
             None \<Rightarrow> None
           | Some next \<Rightarrow>
               Some (case cancel of
                       Some effect \<Rightarrow> T_EffectEmitting next (batch_one effect)
                     | None \<Rightarrow> T_Committed next)))"

fun baseline_matches :: "source_authority \<Rightarrow> source_stamp \<Rightarrow> bool" where
  "baseline_matches (Binding context) stamp = (context = st_context stamp)"
| "baseline_matches (Replacing candidate _) stamp = (candidate = st_context stamp)"
| "baseline_matches (FailedReconciling context _ _) stamp = (context = st_context stamp)"
| "baseline_matches (Live current) stamp = same_session current stamp"
| "baseline_matches (Ended _ _) stamp = False"
| "baseline_matches (Retired _ _) stamp = False"

definition reduce_begin_binding :: "traffic_state \<Rightarrow> source_context \<Rightarrow> traffic_transition option" where
  "reduce_begin_binding state context =
     (if ts_authority state = Binding context then Some T_Unchanged
      else replace_authority state (Replacing context (authority_last (ts_authority state))) FK_RuntimeReplaced)"

definition reduce_baseline :: "traffic_state \<Rightarrow> source_stamp \<Rightarrow> traffic_transition option" where
  "reduce_baseline state stamp =
     (if \<not> baseline_matches (ts_authority state) stamp \<or> st_sequence stamp = 0 \<or> st_session_id stamp = []
      then Some (T_Rejected InvalidAuthority)
      else if is_some_and (authority_live (ts_authority state)) (\<lambda>current. current = stamp)
      then Some T_Unchanged
      else if is_some_and (authority_live (ts_authority state)) (\<lambda>current. st_sequence stamp < st_sequence current)
      then Some T_Retired
      else map_option T_Committed (with_authority state (Live stamp)))"

definition reduce_observation :: "traffic_state \<Rightarrow> source_stamp \<Rightarrow> traffic_transition option" where
  "reduce_observation state stamp =
     (case authority_live (ts_authority state) of
        None \<Rightarrow> Some T_Retired
      | Some current \<Rightarrow>
          (if \<not> same_session current stamp \<or> st_sequence stamp < st_sequence current then Some T_Retired
           else if st_sequence stamp = st_sequence current then Some T_Unchanged
           else if st_sequence stamp \<noteq> saturating_add (st_sequence current) 1
           then replace_authority state
                  (FailedReconciling (st_context stamp) (Some current) SequenceGap) FK_InconsistentObservation
           else map_option T_Committed (with_authority state (Live stamp))))"

definition reduce_gap :: "traffic_state \<Rightarrow> source_context \<Rightarrow> gap_reason \<Rightarrow> traffic_transition option" where
  "reduce_gap state context reason =
     (if current_context (ts_authority state) \<noteq> Some context then Some T_Retired
      else replace_authority state
             (FailedReconciling context (authority_last (ts_authority state)) reason) FK_Disconnected)"

definition reduce_end :: "traffic_state \<Rightarrow> end_reason \<Rightarrow> traffic_transition option" where
  "reduce_end state reason =
     replace_authority state (Ended (authority_last (ts_authority state)) reason) FK_RuntimeReplaced"

definition authority_matches :: "source_stamp \<Rightarrow> command_request \<Rightarrow> bool" where
  "authority_matches source request =
     (case rq_operation request of
        CloseFilteredVisible \<Rightarrow> matches_session_authority source (rq_authority request)
      | CloseConnection \<Rightarrow> matches_command_authority source (rq_authority request)
      | CloseAllActive \<Rightarrow> matches_command_authority source (rq_authority request))"

definition command_correlation :: "traffic_state \<Rightarrow> u64 \<Rightarrow> command_request \<Rightarrow> source_stamp \<Rightarrow> correlation" where
  "command_correlation state revision request source =
     \<lparr>machine_authority = ts_machine_authority state,
      scope_epoch = sx_controller_generation (st_context source),
      operation_id = rq_operation_id request, admitted_revision = revision, effect_id = 1\<rparr>"

definition admit_command :: "traffic_state \<Rightarrow> command_request \<Rightarrow> source_stamp \<Rightarrow> traffic_transition option" where
  "admit_command state request source =
     (case next_revision state of
        None \<Rightarrow> None
      | Some revision \<Rightarrow>
          (let c = command_correlation state revision request source in
           Some (T_EffectEmitting
             (state\<lparr>ts_revision := revision,
                    ts_pending := Some \<lparr>pc_correlation = c, pc_request = request, pc_source = source\<rparr>\<rparr>)
             (batch_one (Execute \<lparr>cf_correlation = c, cf_request = request, cf_source = source\<rparr>)))))"

definition reduce_request :: "traffic_state \<Rightarrow> command_request \<Rightarrow> traffic_transition option" where
  "reduce_request state request =
     (case find_record state (rq_operation_id request) of
        Some record \<Rightarrow>
          Some (if cr_request record = request then T_Unchanged else T_Rejected ConflictError)
      | None \<Rightarrow>
          (case ts_pending state of
             Some pending \<Rightarrow>
               Some (if pc_request pending = request then T_Unchanged else T_Rejected ConflictError)
           | None \<Rightarrow>
               (case authority_live (ts_authority state) of
                  None \<Rightarrow> Some (T_Rejected InvalidAuthority)
                | Some source \<Rightarrow>
                    (if \<not> authority_matches source request then Some (T_Rejected InvalidAuthority)
                     else admit_command state request source))))"

definition reduce_completed ::
  "traffic_state \<Rightarrow> correlation \<Rightarrow> command_execution \<Rightarrow> source_stamp \<Rightarrow> traffic_transition option" where
  "reduce_completed state c execution source =
     (case ts_pending state of
        None \<Rightarrow> Some T_Retired
      | Some pending \<Rightarrow>
          (if pc_correlation pending \<noteq> c \<or> \<not> same_session (pc_source pending) source
              \<or> \<not> is_some_and (authority_live (ts_authority state)) (\<lambda>current. same_session current source)
           then Some T_Retired
           else map_option T_Committed (finish state (pc_request pending) execution)))"

fun failure_gap :: "task_failure \<Rightarrow> gap_reason" where
  "failure_gap Aborted = GapCancelled"
| "failure_gap CompletionConflict = GapCompletionConflict"
| "failure_gap Panicked = GapPanicked"

definition reduce_effect_failed ::
  "traffic_state \<Rightarrow> correlation \<Rightarrow> task_failure \<Rightarrow> traffic_transition option" where
  "reduce_effect_failed state c failure =
     (case ts_pending state of
        None \<Rightarrow> Some T_Retired
      | Some pending \<Rightarrow>
          (if pc_correlation pending \<noteq> c then Some T_Retired
           else map_option (\<lambda>next. T_RecoveryRequired
                  (next\<lparr>ts_authority := FailedReconciling (st_context (pc_source pending))
                     (Some (pc_source pending)) (failure_gap failure)\<rparr>))
                  (finish state (pc_request pending) (pending_failure pending FK_InconsistentObservation))))"

definition reduce_shutdown :: "traffic_state \<Rightarrow> traffic_transition option" where
  "reduce_shutdown state =
     replace_authority state (Retired (authority_last (ts_authority state)) EndShutdown) FK_Disconnected"

fun reduce_retired :: "traffic_input \<Rightarrow> traffic_transition option" where
  "reduce_retired Shutdown = Some T_Unchanged"
| "reduce_retired (Request _) = Some (T_Rejected RetiredError)"
| "reduce_retired _ = Some T_Retired"

fun is_retired :: "source_authority \<Rightarrow> bool" where
  "is_retired (Retired _ _) = True"
| "is_retired _ = False"

fun reduce_input :: "traffic_state \<Rightarrow> traffic_input \<Rightarrow> traffic_transition option" where
  "reduce_input state (BeginBinding context) = reduce_begin_binding state context"
| "reduce_input state (Baseline stamp) = reduce_baseline state stamp"
| "reduce_input state (Observation stamp) = reduce_observation state stamp"
| "reduce_input state (Gap context reason) = reduce_gap state context reason"
| "reduce_input state (End reason) = reduce_end state reason"
| "reduce_input state (Request request) = reduce_request state request"
| "reduce_input state (Completed c execution source) = reduce_completed state c execution source"
| "reduce_input state (EffectFailed c failure) = reduce_effect_failed state c failure"
| "reduce_input state Shutdown = reduce_shutdown state"

definition machine_reduce :: "traffic_state \<Rightarrow> traffic_input \<Rightarrow> traffic_transition option" where
  "machine_reduce state input =
     (if is_retired (ts_authority state) then reduce_retired input else reduce_input state input)"

fun input_correlation :: "traffic_state \<Rightarrow> traffic_input \<Rightarrow> correlation option" where
  "input_correlation state (Completed c _ _) = Some c"
| "input_correlation state (EffectFailed c _) = Some c"
| "input_correlation state _ = None"

definition effect_is_current :: "traffic_state \<Rightarrow> correlation \<Rightarrow> bool" where
  "effect_is_current state c = is_some_and (ts_pending state) (\<lambda>pending. pc_correlation pending = c)"

definition task_failed :: "correlation \<Rightarrow> task_failure \<Rightarrow> traffic_input" where
  "task_failed c failure = EffectFailed c failure"

definition traffic_machine :: "(traffic_state, traffic_input, traffic_effect, traffic_error) machine" where
  "traffic_machine =
     \<lparr>m_reduce = machine_reduce,
      m_input_correlation = input_correlation,
      m_effect_is_current = effect_is_current,
      m_task_failed = task_failed,
      m_shutdown = Shutdown,
      m_unavailable = RetiredError,
      m_correlation = effect_correlation,
      m_mode = effect_mode_of\<rparr>"

section \<open>The observer's evidence\<close>

record transition_evidence =
  te_disposition :: transition_evidence_disposition
  te_effect_sequence :: "u64 option"
  te_failure :: "command_failure_kind option"
  te_operation :: "command_operation option"
  te_phase :: evidence_phase
  te_revision :: u64
  te_target_count :: "nat option"

fun evidence_disposition :: "disposition \<Rightarrow> transition_evidence_disposition" where
  "evidence_disposition D_Accepted = TD_Accepted"
| "evidence_disposition D_Rejected = TD_Rejected"
| "evidence_disposition D_Unchanged = TD_Unchanged"
| "evidence_disposition D_EffectEmitting = TD_EffectEmitting"
| "evidence_disposition D_Committed = TD_Committed"
| "evidence_disposition D_Cancelled = TD_Cancelled"
| "evidence_disposition D_Failed = TD_Failed"
| "evidence_disposition D_Retired = TD_Retired"
| "evidence_disposition D_RecoveryRequired = TD_RecoveryRequired"

fun evidence_fields ::
  "traffic_input \<Rightarrow> traffic_state
     \<Rightarrow> command_operation option \<times> u64 option \<times> nat option \<times> command_failure_kind option" where
  "evidence_fields (Request request) current =
     (Some (rq_operation request),
      map_option (\<lambda>pending. effect_id (pc_correlation pending)) (ts_pending current),
      Some (rq_admitted_target_count request), None)"
| "evidence_fields (Completed _ execution _) current =
     (Some (ce_operation execution), Some 1, Some (ce_target_count execution), ce_failure execution)"
| "evidence_fields (EffectFailed _ _) current = (None, Some 1, None, Some FK_InconsistentObservation)"
| "evidence_fields _ current = (None, None, None, None)"

definition transitioned ::
  "traffic_input \<Rightarrow> traffic_state \<Rightarrow> disposition \<Rightarrow> transition_evidence list \<Rightarrow> transition_evidence list" where
  "transitioned input current d records =
     (let (operation, sequence, targets, failure) = evidence_fields input current
      in pop_front_while_over TRAFFIC_TRANSITION_EVIDENCE_LIMIT
           (records @ [\<lparr>te_disposition = evidence_disposition d, te_effect_sequence = sequence,
              te_failure = failure, te_operation = operation,
              te_phase = authority_phase (ts_authority current), te_revision = ts_revision current,
              te_target_count = targets\<rparr>]))"

section \<open>Invariant\<close>

lemma traffic_machine_sel [machine_simps]:
  "m_reduce traffic_machine s i = machine_reduce s i"
  "m_input_correlation traffic_machine s i = input_correlation s i"
  "m_effect_is_current traffic_machine s c = effect_is_current s c"
  "m_task_failed traffic_machine c f = task_failed c f"
  "m_shutdown traffic_machine = Shutdown"
  "m_correlation traffic_machine e = effect_correlation e"
  "m_mode traffic_machine e = effect_mode_of e"
  by (simp_all add: traffic_machine_def)

lemma same_session_simps [simp]: "same_session s s" "same_session a b \<Longrightarrow> same_session b c \<Longrightarrow> same_session a c"
  by (simp_all add: same_session_def)

lemma same_session_sym: "same_session a b \<longleftrightarrow> same_session b a"
  by (auto simp: same_session_def)

definition ledger_ids :: "traffic_state \<Rightarrow> string list" where
  "ledger_ids s = map (\<lambda>record. rq_operation_id (cr_request record)) (ts_completed s)"

text \<open>
  The command in flight was admitted for a source of the session that is live now, under a
  correlation of its own revision, and is not in the ledger; the ledger is bounded and has
  one record per operation.
\<close>

definition pending_ok :: "traffic_state \<Rightarrow> pending_command \<Rightarrow> bool" where
  "pending_ok s p \<longleftrightarrow>
     (\<exists>current. ts_authority s = Live current \<and> same_session (pc_source p) current)
     \<and> authority_matches (pc_source p) (pc_request p)
     \<and> pc_correlation p
         = command_correlation s (admitted_revision (pc_correlation p)) (pc_request p) (pc_source p)
     \<and> admitted_revision (pc_correlation p) \<le> ts_revision s
     \<and> rq_operation_id (pc_request p) \<notin> set (ledger_ids s)"

definition ledger_ok :: "traffic_state \<Rightarrow> bool" where
  "ledger_ok s \<longleftrightarrow> length (ts_completed s) \<le> TRAFFIC_COMMAND_LEDGER_LIMIT \<and> distinct (ledger_ids s)"

definition traffic_inv :: "traffic_state \<Rightarrow> bool" where
  "traffic_inv s \<longleftrightarrow> ledger_ok s \<and> (\<forall>p. ts_pending s = Some p \<longrightarrow> pending_ok s p)"

lemma find_record_None_iff: "find_record s oid = None \<longleftrightarrow> oid \<notin> set (ledger_ids s)"
  by (auto simp: find_record_def ledger_ids_def find_None_iff)

lemma finish_SomeE:
  assumes "finish s rq ex = Some s'"
  obtains "next_revision s = Some (ts_revision s')" "ts_pending s' = None"
    "ts_completed s' = pop_front_while_over TRAFFIC_COMMAND_LEDGER_LIMIT
       (ts_completed s @ [\<lparr>cr_execution = ex, cr_request = rq\<rparr>])"
    "ts_authority s' = ts_authority s" "ts_machine_authority s' = ts_machine_authority s"
  using assms by (auto simp: finish_def)

lemma ledger_ok_finish:
  assumes "finish s rq ex = Some s'" and "ledger_ok s" and "rq_operation_id rq \<notin> set (ledger_ids s)"
  shows "ledger_ok s'"
proof -
  from assms(1) have completed: "ts_completed s' = pop_front_while_over TRAFFIC_COMMAND_LEDGER_LIMIT
      (ts_completed s @ [\<lparr>cr_execution = ex, cr_request = rq\<rparr>])"
    by (rule finish_SomeE)
  have "distinct (map (\<lambda>record. rq_operation_id (cr_request record))
      (ts_completed s @ [\<lparr>cr_execution = ex, cr_request = rq\<rparr>]))"
    using assms(2,3) by (simp add: ledger_ok_def ledger_ids_def)
  then have "distinct (ledger_ids s')"
    by (simp add: ledger_ids_def completed pop_front_while_over_eq drop_map [symmetric]
        del: map_append drop_append)
  then show ?thesis
    by (simp add: ledger_ok_def completed length_pop_front_while_over)
qed

lemma fail_pending_SomeE:
  assumes "fail_pending s f = Some (s', cancel)" and "traffic_inv s"
  obtains (none) "ts_pending s = None" "s' = s" "cancel = None"
  | (failed) p where "ts_pending s = Some p" "cancel = Some (CancelEffect (pc_correlation p))"
      "finish s (pc_request p) (pending_failure p f) = Some s'"
  using assms by (auto simp: fail_pending_def split: option.splits)

lemma replace_authority_SomeE:
  assumes "replace_authority s a f = Some t" and "traffic_inv s"
  obtains s' where "next_state s t = s'" "ledger_ok s'" "ts_pending s' = None" "ts_authority s' = a"
    "next_revision s = Some (ts_revision s')"
    "\<forall>e \<in> set (emitted t). \<exists>p. ts_pending s = Some p \<and> e = CancelEffect (pc_correlation p)"
proof -
  obtain s1 cancel where f: "fail_pending s f = Some (s1, cancel)"
    using assms(1) by (auto simp: replace_authority_def split: option.splits)
  from f assms(2) show thesis
  proof (cases rule: fail_pending_SomeE)
    case none
    then show thesis
      using assms f that by (auto simp: replace_authority_def ledger_ok_def ledger_ids_def traffic_inv_def
          split: option.splits)
  next
    case (failed p)
    have "ledger_ok s1"
      using ledger_ok_finish [OF failed(3)] assms(2) failed(1) by (simp add: traffic_inv_def pending_ok_def)
    moreover have rev: "next_revision s = Some (ts_revision s1)" and "ts_pending s1 = None"
      using failed(3) by (auto elim: finish_SomeE)
    moreover have "ts_revision s1 \<noteq> ts_revision s"
      using rev checked_add_1_less by (fastforce simp: next_revision_def)
    ultimately show thesis
      using assms f failed that
      by (auto simp: replace_authority_def ledger_ok_def ledger_ids_def)
  qed
qed

text \<open>How a reducer turn may change the state.\<close>

lemma with_authority_SomeE:
  assumes "with_authority s a = Some s'"
  obtains n where "next_revision s = Some n" "s' = s\<lparr>ts_authority := a, ts_revision := n\<rparr>"
  using assms by (auto simp: with_authority_def)

lemma next_revision_less: "next_revision s = Some n \<Longrightarrow> ts_revision s < n"
  by (simp add: next_revision_def checked_add_1_less)

lemma traffic_inv_live:
  assumes "traffic_inv s" and "with_authority s (Live stamp) = Some s'"
    and "\<forall>current. authority_live (ts_authority s) = Some current \<longrightarrow> same_session current stamp"
  shows "traffic_inv s'"
proof -
  obtain n where n: "next_revision s = Some n" and s': "s' = s\<lparr>ts_authority := Live stamp, ts_revision := n\<rparr>"
    using assms(2) by (rule with_authority_SomeE)
  have "ts_revision s \<le> n"
    using next_revision_less [OF n] by simp
  then show ?thesis
    using assms(1,3) s'
    by (auto simp: traffic_inv_def ledger_ok_def ledger_ids_def pending_ok_def command_correlation_def
        intro: same_session_simps(2) order_trans)
qed

lemma traffic_inv_no_pending: "ledger_ok s \<Longrightarrow> ts_pending s = None \<Longrightarrow> traffic_inv s"
  by (simp add: traffic_inv_def)

lemma traffic_inv_replace:
  assumes "replace_authority s a f = Some t" and "traffic_inv s"
  shows "traffic_inv (next_state s t)"
  using assms by (rule replace_authority_SomeE) (auto intro: traffic_inv_no_pending)

lemma traffic_inv_finish:
  assumes "finish s (pc_request p) ex = Some s'" and "traffic_inv s" and "ts_pending s = Some p"
  shows "traffic_inv s'" and "traffic_inv (s'\<lparr>ts_authority := a\<rparr>)"
proof -
  have "ledger_ok s'" and "ts_pending s' = None"
    using ledger_ok_finish [OF assms(1)] assms by (auto simp: traffic_inv_def pending_ok_def elim: finish_SomeE)
  then show "traffic_inv s'" and "traffic_inv (s'\<lparr>ts_authority := a\<rparr>)"
    by (simp_all add: traffic_inv_def ledger_ok_def ledger_ids_def)
qed

lemma traffic_inv_admit:
  assumes "admit_command s request source = Some t" and "traffic_inv s"
    and "ts_authority s = Live source" and "authority_matches source request"
    and "find_record s (rq_operation_id request) = None"
  shows "traffic_inv (next_state s t)"
  using assms
  by (auto simp: admit_command_def traffic_inv_def ledger_ok_def ledger_ids_def pending_ok_def
      command_correlation_def find_record_None_iff Let_def split: option.splits)

lemma authority_live_Some: "authority_live a = Some stamp \<longleftrightarrow> a = Live stamp"
  by (cases a) simp_all

lemma traffic_inv_input:
  assumes "traffic_inv s" and "reduce_input s i = Some t"
  shows "traffic_inv (next_state s t)"
proof (cases i)
  case (Baseline stamp)
  then show ?thesis
    using assms traffic_inv_live [OF assms(1)]
    by (cases "ts_authority s") (auto simp: reduce_baseline_def split: if_splits)
next
  case (Observation stamp)
  then show ?thesis
    using assms traffic_inv_live [OF assms(1)] traffic_inv_replace [OF _ assms(1)]
    by (auto simp: reduce_observation_def split: option.splits if_splits)
next
  case (Request request)
  then show ?thesis
    using assms traffic_inv_admit [OF _ assms(1)]
    by (auto simp: reduce_request_def authority_live_Some split: option.splits if_splits)
next
  case (Completed c execution source)
  then show ?thesis
    using assms traffic_inv_finish(1) [OF _ assms(1)]
    by (auto simp: reduce_completed_def split: option.splits if_splits)
next
  case (EffectFailed c failure)
  then show ?thesis
    using assms traffic_inv_finish(2) [OF _ assms(1)]
    by (auto simp: reduce_effect_failed_def split: option.splits if_splits)
qed (use assms traffic_inv_replace [OF _ assms(1)] in
    \<open>auto simp: reduce_begin_binding_def reduce_gap_def reduce_end_def reduce_shutdown_def split: if_splits\<close>)

lemma traffic_reduce_inv:
  "traffic_inv s \<Longrightarrow> machine_reduce s i = Some t \<Longrightarrow> traffic_inv (next_state s t)"
proof (cases "is_retired (ts_authority s)")
  case True
  assume "traffic_inv s" "machine_reduce s i = Some t"
  then show ?thesis using True by (cases i) (auto simp: machine_reduce_def)
qed (simp add: machine_reduce_def traffic_inv_input)

lemma traffic_stale_retired: "\<not> effect_is_current s c \<Longrightarrow> machine_reduce s (task_failed c f) = Some T_Retired"
  by (auto simp: machine_reduce_def task_failed_def reduce_effect_failed_def effect_is_current_def
      split: option.splits)

interpretation traffic: stale_inert traffic_machine traffic_inv
  by unfold_locales (auto simp: machine_simps traffic_stale_retired intro: traffic_reduce_inv)

end
