(* ===== verification/Traffic_Properties.thy ===== *)
theory Traffic_Properties
  imports Traffic_Source
begin

text \<open>
  What the traffic source machine guarantees: a connection command runs at most once, only
  with authority over the live session, and its result is only booked for that session; a
  superseded command cannot touch the state; the live sequence never goes back; the revision
  counts the changes one by one; and a pending command always has its task.
\<close>

section \<open>Lemmas\<close>

definition pending_effect :: "pending_command \<Rightarrow> traffic_effect" where
  "pending_effect p =
     Execute \<lparr>cf_correlation = pc_correlation p, cf_request = pc_request p, cf_source = pc_source p\<rparr>"

lemma pending_effect_sel [simp]:
  "effect_correlation (pending_effect p) = pc_correlation p" "effect_mode_of (pending_effect p) = Spawn"
  by (simp_all add: pending_effect_def)

text \<open>The three ways a turn of the reducer can go.\<close>

definition turn_idle :: "traffic_state \<Rightarrow> traffic_transition \<Rightarrow> bool" where
  "turn_idle s t \<longleftrightarrow> next_state s t = s \<and> emitted t = []"

definition turn_moved :: "traffic_state \<Rightarrow> traffic_transition \<Rightarrow> bool" where
  "turn_moved s t \<longleftrightarrow>
     next_revision s = Some (ts_revision (next_state s t))
     \<and> ts_pending (next_state s t) \<in> {None, ts_pending s}
     \<and> (\<forall>e \<in> set (emitted t). effect_mode_of e = Cancel)"

definition turn_admitted :: "traffic_state \<Rightarrow> traffic_input \<Rightarrow> traffic_transition \<Rightarrow> bool" where
  "turn_admitted s i t \<longleftrightarrow>
     (\<exists>p. i = Request (pc_request p) \<and> ts_pending s = None \<and> ts_authority s = Live (pc_source p)
        \<and> authority_matches (pc_source p) (pc_request p)
        \<and> find_record s (rq_operation_id (pc_request p)) = None
        \<and> next_revision s = Some (admitted_revision (pc_correlation p))
        \<and> pc_correlation p
            = command_correlation s (admitted_revision (pc_correlation p)) (pc_request p) (pc_source p)
        \<and> next_state s t
            = s\<lparr>ts_revision := admitted_revision (pc_correlation p), ts_pending := Some p\<rparr>
        \<and> emitted t = [pending_effect p])"

lemma turn_replace: "replace_authority s a f = Some t \<Longrightarrow> traffic_inv s \<Longrightarrow> turn_moved s t"
  by (erule (1) replace_authority_SomeE) (auto simp: turn_moved_def)

lemma turn_live: "with_authority s a = Some s' \<Longrightarrow> turn_moved s (T_Committed s')"
  by (erule with_authority_SomeE) (simp add: turn_moved_def)

lemma turn_finish: "finish s rq ex = Some s' \<Longrightarrow> turn_moved s (T_Committed s')"
  by (erule finish_SomeE) (simp add: turn_moved_def)

lemma turn_admit:
  assumes "admit_command s rq source = Some t" and "ts_authority s = Live source" and "ts_pending s = None"
    and "authority_matches source rq" and "find_record s (rq_operation_id rq) = None"
  shows "turn_admitted s (Request rq) t"
proof -
  obtain n where n: "next_revision s = Some n"
    and t: "t = T_EffectEmitting
      (s\<lparr>ts_revision := n, ts_pending := Some \<lparr>pc_correlation = command_correlation s n rq source,
         pc_request = rq, pc_source = source\<rparr>\<rparr>)
      (batch_one (Execute \<lparr>cf_correlation = command_correlation s n rq source, cf_request = rq,
         cf_source = source\<rparr>))"
    using assms(1) by (auto simp: admit_command_def Let_def split: option.splits)
  let ?p = "\<lparr>pc_correlation = command_correlation s n rq source, pc_request = rq, pc_source = source\<rparr>"
  show ?thesis
    unfolding turn_admitted_def
    by (rule exI [of _ ?p]) (use n t assms in \<open>simp add: command_correlation_def pending_effect_def\<close>)
qed

lemma traffic_turn_input:
  assumes "traffic_inv s" and "reduce_input s i = Some t"
  shows "turn_idle s t \<or> turn_moved s t \<or> turn_admitted s i t"
proof (cases i)
  case (Request rq)
  then show ?thesis
    using assms turn_admit [of s rq]
    by (auto simp: reduce_request_def authority_live_Some turn_idle_def split: option.splits if_splits)
next
  case (EffectFailed c failure)
  then show ?thesis
    using assms by (auto simp: reduce_effect_failed_def turn_idle_def turn_moved_def
        split: option.splits if_splits elim!: finish_SomeE)
qed (use assms turn_replace [OF _ assms(1)] turn_live turn_finish in
    \<open>auto simp: reduce_begin_binding_def reduce_baseline_def reduce_observation_def reduce_gap_def
      reduce_end_def reduce_shutdown_def reduce_completed_def turn_idle_def
      split: option.splits if_splits\<close>)

lemma traffic_turn:
  assumes "traffic_inv s" and "machine_reduce s i = Some t"
  shows "turn_idle s t \<or> turn_moved s t \<or> turn_admitted s i t"
proof (cases "is_retired (ts_authority s)")
  case True
  then show ?thesis
    using assms by (cases i) (auto simp: machine_reduce_def turn_idle_def)
qed (use assms traffic_turn_input in \<open>simp add: machine_reduce_def\<close>)

text \<open>
  The environment: callers send everything but effect results, the executor completes an
  effect under its own correlation and source.
\<close>

fun traffic_command :: "traffic_input \<Rightarrow> bool" where
  "traffic_command (Completed _ _ _) = False"
| "traffic_command (EffectFailed _ _) = False"
| "traffic_command Shutdown = False"
| "traffic_command _ = True"

fun traffic_answer :: "traffic_effect \<Rightarrow> traffic_input \<Rightarrow> bool" where
  "traffic_answer (Execute effect) (Completed c _ source) \<longleftrightarrow>
     c = cf_correlation effect \<and> source = cf_source effect"
| "traffic_answer _ _ \<longleftrightarrow> False"

definition traffic_consistent :: "(traffic_state, traffic_input, traffic_effect) runner \<Rightarrow> bool" where
  "traffic_consistent r \<longleftrightarrow>
     traffic_inv (rn_state r)
     \<and> distinct (map (\<lambda>(n, e). effect_correlation e) (rn_tasks r))
     \<and> (\<forall>(n, e) \<in> set (rn_tasks r). admitted_revision (effect_correlation e) \<le> ts_revision (rn_state r))
     \<and> (\<forall>p. ts_pending (rn_state r) = Some p \<longrightarrow> (\<exists>n. (n, pending_effect p) \<in> set (rn_tasks r)))"

lemma run_effects_cancel_tasks:
  "\<forall>e \<in> set es. effect_mode_of e = Cancel \<Longrightarrow> rn_tasks (run_effects traffic_machine role es r) = rn_tasks r"
  by (induction es arbitrary: r) (simp_all add: run_effect_def machine_simps)

text \<open>A turn that spawns nothing and leaves the pending command alone or settles it.\<close>

lemma traffic_consistent_shrink:
  assumes con: "traffic_consistent r" and inv: "traffic_inv (rn_state r')"
    and rev: "ts_revision (rn_state r) \<le> ts_revision (rn_state r')"
    and tasks: "subseq (rn_tasks r') (rn_tasks r)"
    and pend: "\<And>p. ts_pending (rn_state r') = Some p \<Longrightarrow> \<exists>n. (n, pending_effect p) \<in> set (rn_tasks r')"
  shows "traffic_consistent r'"
proof -
  have "distinct (map (\<lambda>(n, e). effect_correlation e) (rn_tasks r'))"
    using con subseq_map [OF tasks] by (auto simp: traffic_consistent_def intro: distinct_subseq)
  moreover have sub: "set (rn_tasks r') \<subseteq> set (rn_tasks r)"
    using tasks by (auto dest: list_emb_set)
  moreover have "admitted_revision (effect_correlation e) \<le> ts_revision (rn_state r')"
    if "(n, e) \<in> set (rn_tasks r')" for n e
    using con rev sub that by (fastforce simp: traffic_consistent_def)
  ultimately show ?thesis
    using inv pend by (auto simp: traffic_consistent_def)
qed

lemma moved_revision: "turn_moved s t \<Longrightarrow> ts_revision s \<le> ts_revision (next_state s t)"
  using next_revision_less [of s "ts_revision (next_state s t)"] by (simp add: turn_moved_def)

lemma traffic_consistent_command:
  assumes con: "traffic_consistent r" and red: "machine_reduce (rn_state r) i = Some t"
  shows "traffic_consistent (run_effects traffic_machine role (emitted t) (published i t r))"
proof -
  have inv: "traffic_inv (rn_state r)" "traffic_inv (next_state (rn_state r) t)"
    using con red traffic_reduce_inv by (auto simp: traffic_consistent_def)
  from traffic_turn [OF inv(1) red] consider "turn_idle (rn_state r) t" | "turn_moved (rn_state r) t"
    | "turn_admitted (rn_state r) i t" by blast
  then show ?thesis
  proof cases
    case 1
    then show ?thesis using con by (simp add: turn_idle_def traffic_consistent_def)
  next
    case 2
    show ?thesis
      by (rule traffic_consistent_shrink [OF con])
        (use 2 con inv moved_revision [OF 2] in
          \<open>auto simp: turn_moved_def run_effects_cancel_tasks traffic_consistent_def\<close>)
  next
    case 3
    then obtain p where p: "next_revision (rn_state r) = Some (admitted_revision (pc_correlation p))"
        "next_state (rn_state r) t
          = (rn_state r)\<lparr>ts_revision := admitted_revision (pc_correlation p), ts_pending := Some p\<rparr>"
        "emitted t = [pending_effect p]"
      by (auto simp: turn_admitted_def)
    have lt: "ts_revision (rn_state r) < admitted_revision (pc_correlation p)"
      using next_revision_less [OF p(1)] .
    have old: "admitted_revision (effect_correlation e) \<le> ts_revision (rn_state r)"
      if "(n, e) \<in> set (rn_tasks r)" for n e
      using con that by (auto simp: traffic_consistent_def)
    have "pc_correlation p \<noteq> effect_correlation e" if "(n, e) \<in> set (rn_tasks r)" for n e
      using old [OF that] lt by auto
    then show ?thesis
      using con inv(2) p(2,3) lt old
      by (fastforce simp: traffic_consistent_def run_effect_def machine_simps)
  qed
qed

text \<open>The result of the pending command, and its failure, settle it.\<close>

lemma pending_unique:
  assumes con: "traffic_consistent r" and e: "(n, e) \<in> set (rn_tasks r)"
    and p: "ts_pending (rn_state r) = Some p" "effect_correlation e = pc_correlation p"
  shows "e = pending_effect p"
proof -
  obtain n' where n': "(n', pending_effect p) \<in> set (rn_tasks r)"
    using con p by (auto simp: traffic_consistent_def)
  have "inj_on (\<lambda>(n, e). effect_correlation e) (set (rn_tasks r))"
    using con by (simp add: traffic_consistent_def distinct_map)
  from inj_onD [OF this _ n' e] show ?thesis
    using p(2) by simp
qed

lemma pending_not_retired: "traffic_inv s \<Longrightarrow> ts_pending s = Some p \<Longrightarrow> \<not> is_retired (ts_authority s)"
  by (auto simp: traffic_inv_def pending_ok_def)

lemma result_settles:
  assumes "traffic_inv s" and "ts_pending s = Some p"
    and "i = EffectFailed (pc_correlation p) f \<or> i = Completed (pc_correlation p) ex (pc_source p)"
    and "machine_reduce s i = Some t"
  shows "ts_pending (next_state s t) = None \<and> turn_moved s t"
proof -
  obtain current where "ts_authority s = Live current" "same_session current (pc_source p)"
    using assms(1,2) same_session_sym by (auto simp: traffic_inv_def pending_ok_def)
  then show ?thesis
    using assms pending_not_retired [OF assms(1,2)]
    by (auto simp: machine_reduce_def reduce_effect_failed_def reduce_completed_def turn_moved_def
        elim!: finish_SomeE)
qed

lemma settled_input:
  assumes "answers traffic_answer (rn_tasks r) j" and "map_of (rn_tasks r) (joined_id j) = Some (pending_effect p)"
    and "oe_correlation task = pc_correlation p"
  shows "(\<exists>f. fst (completion_input traffic_machine False s task j) = EffectFailed (pc_correlation p) f)
     \<or> (\<exists>ex. fst (completion_input traffic_machine False s task j) = Completed (pc_correlation p) ex (pc_source p))"
proof (cases j)
  case (Join_Ok n i)
  then have "traffic_answer (pending_effect p) i"
    using assms(1,2) by (simp add: answers_def)
  then obtain ex where "i = Completed (pc_correlation p) ex (pc_source p)"
    by (cases i) (simp_all add: pending_effect_def)
  then show ?thesis
    using Join_Ok assms(3) by (simp add: completion_input_def machine_simps task_failed_def)
next
  case (Join_Err n b)
  then show ?thesis
    using assms(3) by (simp add: completion_input_def machine_simps task_failed_def)
qed

lemma stale_input:
  assumes "\<not> effect_is_current s (oe_correlation task)"
  shows "machine_reduce s (fst (completion_input traffic_machine False s task j)) = Some T_Retired"
  using assms by (cases j) (auto simp: completion_input_def machine_simps traffic_stale_retired)

lemma traffic_consistent_settled:
  assumes tr: "tracked traffic_machine r" and con: "traffic_consistent r"
    and ans: "answers traffic_answer (rn_tasks r) j"
    and fin: "finish_effect traffic_machine False j (join_next j r) = Turned d r'"
  shows "traffic_consistent r'"
proof -
  obtain e where e: "map_of (rn_tasks r) (joined_id j) = Some e"
    using ans by (auto simp: answers_def split: option.splits)
  obtain task where task: "map_of (rn_owned r) (joined_id j) = Some task"
    and corr: "oe_correlation task = effect_correlation e"
    using tracked_task_owned [OF tr e] by (auto simp: machine_simps)
  have inv: "traffic_inv (rn_state r)"
    using con by (simp add: traffic_consistent_def)
  define i where "i = fst (completion_input traffic_machine False (rn_state r) task j)"
  obtain t role where red: "machine_reduce (rn_state r) i = Some t"
    and r': "r' = run_effects traffic_machine role (emitted t)
      (published i t ((join_next j r)\<lparr>rn_owned := AList.delete (joined_id j) (rn_owned r)\<rparr>))"
    using fin task by (auto simp: finish_effect_eq Let_def machine_simps i_def split: option.splits if_splits)
  have sub: "subseq (AList.delete (joined_id j) (rn_tasks r)) (rn_tasks r)"
    by (simp add: AList.delete_eq)
  show ?thesis
  proof (cases "effect_is_current (rn_state r) (oe_correlation task)")
    case True
    then obtain p where p: "ts_pending (rn_state r) = Some p" "pc_correlation p = effect_correlation e"
      using corr by (auto simp: effect_is_current_def is_some_and_iff)
    have pe: "e = pending_effect p"
      using pending_unique [OF con map_of_SomeD [OF e] p(1)] p(2) by simp
    then have "(\<exists>f. i = EffectFailed (pc_correlation p) f) \<or> (\<exists>ex. i = Completed (pc_correlation p) ex (pc_source p))"
      unfolding i_def using settled_input [OF ans, of p task] e corr by simp
    then have settled: "ts_pending (next_state (rn_state r) t) = None" "turn_moved (rn_state r) t"
      using result_settles [OF inv p(1) _ red] by blast+
    show ?thesis
      by (rule traffic_consistent_shrink [OF con])
        (use settled traffic_reduce_inv [OF inv red] moved_revision [OF settled(2)] sub in
          \<open>simp_all add: r' turn_moved_def run_effects_cancel_tasks\<close>)
  next
    case False
    then have t: "t = T_Retired"
      using red stale_input [OF False] by (simp add: i_def)
    have "\<exists>n. (n, pending_effect p) \<in> set (AList.delete (joined_id j) (rn_tasks r))"
      if p: "ts_pending (rn_state r) = Some p" for p
    proof -
      obtain n where n: "(n, pending_effect p) \<in> set (rn_tasks r)"
        using con p by (auto simp: traffic_consistent_def)
      have "map_of (rn_tasks r) n = Some (pending_effect p)"
        using n tracked_distinct_tasks [OF tr] by simp
      then have "n \<noteq> joined_id j"
        using e corr False p by (auto simp: effect_is_current_def)
      then show ?thesis
        using n by (auto simp: set_delete_iff)
    qed
    then show ?thesis
      by (intro traffic_consistent_shrink [OF con]) (use inv sub in \<open>simp_all add: r' t\<close>)
  qed
qed

lemma traffic_consistent_stable:
  "environment_stable traffic_machine traffic_command traffic_answer traffic_consistent"
proof (rule environment_stableI, goal_cases)
  case (1 r i t)
  then show ?case using traffic_consistent_command by (simp add: machine_simps)
next
  case (2 r j d r')
  then show ?case by (rule traffic_consistent_settled)
next
  case (3 r)
  then show ?case by (simp add: traffic_consistent_def)
qed

lemma traffic_inv_binding: "traffic_inv (binding_state a c)"
  by (simp add: traffic_inv_def binding_state_def ledger_ok_def ledger_ids_def)

lemma traffic_inv_reach:
  "kernel_reach traffic_machine capacity command answer (binding_state a c) k \<Longrightarrow>
     traffic_inv (rn_state (kn_runner k))"
  using traffic.reachable_inv [OF traffic_inv_binding] by (simp add: state_inv_def)

text \<open>Only the exhausted revision makes the reducer panic, and every change counts it up by one.\<close>

lemma replace_authority_None: "replace_authority s a f = None \<Longrightarrow> next_revision s = None"
  by (auto simp: replace_authority_def fail_pending_def finish_def Let_def split: option.splits if_splits)

lemma traffic_panic: "machine_reduce s i = None \<Longrightarrow> next_revision s = None"
  by (cases i)
    (auto simp: machine_reduce_def reduce_begin_binding_def reduce_baseline_def reduce_observation_def
      reduce_gap_def reduce_end_def reduce_shutdown_def reduce_request_def admit_command_def Let_def
      reduce_completed_def reduce_effect_failed_def with_authority_def finish_def
      dest!: replace_authority_None split: option.splits if_splits)

lemma next_revision_unat: "next_revision s = Some n \<Longrightarrow> unat n = Suc (unat (ts_revision s))"
  by (drule checked_add_unat [of "ts_revision s" 1, folded next_revision_def]) simp

lemma traffic_revision_step:
  assumes "traffic_inv s" and "machine_reduce s i = Some t"
  shows "next_state s t = s \<or> unat (ts_revision (next_state s t)) = Suc (unat (ts_revision s))"
  using traffic_turn [OF assms] next_revision_unat
  by (auto simp: turn_idle_def turn_moved_def turn_admitted_def)

definition revision_marks :: "traffic_state \<Rightarrow> unit list" where
  "revision_marks s = replicate (unat (ts_revision s)) ()"

lemma subseq_units: "length xs \<le> length ys \<Longrightarrow> subseq xs (ys :: unit list)"
proof (induction xs arbitrary: ys)
  case (Cons x xs)
  then show ?case by (cases ys) auto
qed simp

lemma revision_evidence: "evidence_law traffic_machine (\<lambda>_. ()) traffic_inv revision_marks"
proof -
  have "subseq (revision_marks (next_state s t)) (revision_marks s @ [()])"
    if "traffic_inv s" "machine_reduce s i = Some t" for s i t
    using traffic_revision_step [OF that] by (intro subseq_units) (auto simp: revision_marks_def)
  then show ?thesis
    by (auto simp: evidence_law_def machine_simps intro: traffic_reduce_inv)
qed

lemma replace_authority_authority: "replace_authority s a f = Some t \<Longrightarrow> ts_authority (next_state s t) = a"
  by (auto simp: replace_authority_def Let_def split: option.splits if_splits)

lemma finish_authority: "finish s rq ex = Some s' \<Longrightarrow> ts_authority s' = ts_authority s"
  by (erule finish_SomeE)

lemma consecutive:
  assumes "saturating_add a 1 \<noteq> a"
  shows "a \<le> saturating_add a 1" and "unat (saturating_add a 1) = Suc (unat a)"
proof -
  have "a \<noteq> - 1"
    using assms by (auto simp: saturating_add_1_eq)
  then obtain b where b: "checked_add a 1 = Some b"
    using checked_add_1_None_iff [of a] by (cases "checked_add a 1") auto
  then show "a \<le> saturating_add a 1" and "unat (saturating_add a 1) = Suc (unat a)"
    using checked_add_unat [OF b] checked_add_1_less [OF b] by (simp_all add: saturating_add_def)
qed

lemma traffic_live_input:
  assumes "reduce_input s i = Some t" and "ts_authority (next_state s t) = Live stamp"
  shows "(\<forall>current. ts_authority s = Live current \<longrightarrow>
            same_session current stamp \<and> st_sequence current \<le> st_sequence stamp)
     \<and> (ts_authority s = Live stamp \<or> i = Baseline stamp
        \<or> (\<exists>current. i = Observation stamp \<and> ts_authority s = Live current
             \<and> unat (st_sequence stamp) = Suc (unat (st_sequence current))))"
proof (cases i)
  case (Baseline stamp')
  then show ?thesis
    using assms
    by (cases "ts_authority s")
      (auto simp: reduce_baseline_def not_less split: if_splits elim!: with_authority_SomeE)
next
  case (Observation stamp')
  then show ?thesis
    using assms
    by (auto simp: reduce_observation_def authority_live_Some consecutive
        dest!: replace_authority_authority split: option.splits if_splits elim!: with_authority_SomeE)
next
  case (Request rq)
  then show ?thesis
    using assms
    by (auto simp: reduce_request_def admit_command_def Let_def split: option.splits if_splits)
next
  case (Completed c ex source)
  then show ?thesis
    using assms
    by (auto simp: reduce_completed_def dest!: finish_authority split: option.splits if_splits)
next
  case (EffectFailed c f)
  then show ?thesis
    using assms by (auto simp: reduce_effect_failed_def split: option.splits if_splits)
qed (use assms in \<open>auto simp: reduce_begin_binding_def reduce_gap_def reduce_end_def reduce_shutdown_def
      dest!: replace_authority_authority split: if_splits\<close>)

section \<open>Properties\<close>

text \<open>A concrete source with a command against it, for the witnesses.\<close>

definition demo_context :: source_context where
  "demo_context = \<lparr>sx_capture_id = None, sx_controller_generation = 1, sx_profile_id = ''p'', sx_runtime_id = ''r''\<rparr>"

definition demo_stamp :: source_stamp where
  "demo_stamp = \<lparr>st_context = demo_context, st_sequence = 5, st_session_id = ''s''\<rparr>"

definition demo_request :: command_request where
  "demo_request =
     \<lparr>rq_admitted_target_count = 1,
      rq_authority = \<lparr>ca_profile_id = ''p'', ca_sequence = 5, ca_session_id = ''s''\<rparr>,
      rq_operation = CloseConnection, rq_operation_id = ''close-1'', rq_requested_ids = Some [''c1'']\<rparr>"

definition demo_pending :: pending_command where
  "demo_pending =
     \<lparr>pc_correlation = \<lparr>machine_authority = ''m'', scope_epoch = 1, operation_id = ''close-1'',
        admitted_revision = 2, effect_id = 1\<rparr>,
      pc_request = demo_request, pc_source = demo_stamp\<rparr>"

definition demo_sent :: "traffic_input event list" where
  "demo_sent =
     [Ev_Admit (Baseline demo_stamp), Ev_Receive, Ev_Admit (Request demo_request), Ev_Receive]"

definition demo_source :: "traffic_input event list \<Rightarrow> (traffic_state, traffic_input, traffic_effect, traffic_error) kernel" where
  "demo_source evs =
     (case run_events traffic_machine 4 traffic_command traffic_answer evs
             (spawn_runner None (binding_state ''m'' demo_context)) of
        Some k \<Rightarrow> k | None \<Rightarrow> spawn_runner None (binding_state ''m'' demo_context))"

lemma demo_source_reach:
  "kernel_reach traffic_machine 4 traffic_command traffic_answer (binding_state ''m'' demo_context) (demo_source evs)"
  by (auto simp: demo_source_def intro: kernel_reach.start run_events_reach split: option.splits)

definition demo_live :: "u64 \<Rightarrow> pending_command option \<Rightarrow> traffic_state" where
  "demo_live revision pending =
     \<lparr>ts_authority = Live demo_stamp, ts_machine_authority = ''m'', ts_pending = pending,
      ts_completed = [], ts_revision = revision\<rparr>"

lemma demo_sent_state:
  "rn_state (kn_runner (demo_source demo_sent)) = demo_live 2 (Some demo_pending)"
  "kn_actor (demo_source demo_sent) = Running"
  "rn_state (kn_runner (demo_source (take 2 demo_sent))) = demo_live 1 None"
  by code_simp+

text \<open>
  C8: a connection command is carried out at most once. On every run the ledger of finished
  commands holds at most 32 records, one per operation id, and a request whose id is in the
  ledger or belongs to the command in flight, however it differs, changes nothing and starts
  nothing.
\<close>

theorem traffic_command_at_most_once:
  assumes "kernel_reach traffic_machine capacity command answer (binding_state a c) k"
    and "s = rn_state (kn_runner k)"
    and "rq_operation_id request \<in> set (ledger_ids s) \<or> command_is_pending s (rq_operation_id request)"
  shows "length (ts_completed s) \<le> 32 \<and> distinct (ledger_ids s)
     \<and> (\<exists>t. machine_reduce s (Request request) = Some t \<and> next_state s t = s \<and> emitted t = [])"
proof -
  have "traffic_inv s"
    using traffic_inv_reach [OF assms(1)] assms(2) by simp
  moreover have "\<exists>t. machine_reduce s (Request request) = Some t \<and> next_state s t = s \<and> emitted t = []"
  proof (cases "find_record s (rq_operation_id request)")
    case None
    then obtain p where "ts_pending s = Some p"
      using assms(3) by (auto simp: find_record_None_iff command_is_pending_def is_some_and_iff)
    then show ?thesis
      using None by (simp add: machine_reduce_def reduce_request_def)
  qed (simp add: machine_reduce_def reduce_request_def)
  ultimately show ?thesis
    by (simp add: traffic_inv_def ledger_ok_def TRAFFIC_COMMAND_LEDGER_LIMIT_def)
qed

theorem traffic_command_at_most_once_witness:
  "\<exists>t. machine_reduce (demo_live 2 (Some demo_pending)) (Request demo_request) = Some t \<and> emitted t = []"
proof -
  have "command_is_pending (demo_live 2 (Some demo_pending)) (rq_operation_id demo_request)"
    by (simp add: command_is_pending_def demo_live_def demo_pending_def)
  then show ?thesis
    using traffic_command_at_most_once [OF demo_source_reach demo_sent_state(1) [symmetric]] by blast
qed

text \<open>
  A command is only carried out with authority over the live source. Whenever a turn
  hands an execution to the executor, the input was exactly that request, nothing was in
  flight, the id was not in the ledger, the source it names is the live one and the request
  carries the authority its operation needs (the exact sequence for closing one or all
  connections, the session for the visible ones), and its correlation has a revision no earlier
  command had.
\<close>

theorem traffic_execution_authorised:
  assumes "kernel_reach traffic_machine capacity command answer (binding_state a c) k"
    and "s = rn_state (kn_runner k)"
    and "machine_reduce s i = Some t" and "Execute effect \<in> set (emitted t)"
  shows "i = Request (cf_request effect) \<and> ts_pending s = None
     \<and> rq_operation_id (cf_request effect) \<notin> set (ledger_ids s)
     \<and> ts_authority s = Live (cf_source effect)
     \<and> sx_profile_id (st_context (cf_source effect)) = ca_profile_id (rq_authority (cf_request effect))
     \<and> st_session_id (cf_source effect) = ca_session_id (rq_authority (cf_request effect))
     \<and> (rq_operation (cf_request effect) \<noteq> CloseFilteredVisible \<longrightarrow>
          st_sequence (cf_source effect) = ca_sequence (rq_authority (cf_request effect)))
     \<and> ts_revision s < admitted_revision (cf_correlation effect)"
proof -
  have inv: "traffic_inv s"
    using traffic_inv_reach [OF assms(1)] assms(2) by simp
  have "turn_admitted s i t"
    using traffic_turn [OF inv assms(3)] assms(4) by (force simp: turn_idle_def turn_moved_def)
  then obtain p where p: "i = Request (pc_request p)" "ts_pending s = None" "ts_authority s = Live (pc_source p)"
      "authority_matches (pc_source p) (pc_request p)" "find_record s (rq_operation_id (pc_request p)) = None"
      "next_revision s = Some (admitted_revision (pc_correlation p))" "emitted t = [pending_effect p]"
    by (auto simp: turn_admitted_def)
  have eff: "effect = \<lparr>cf_correlation = pc_correlation p, cf_request = pc_request p, cf_source = pc_source p\<rparr>"
    using p(7) assms(4) by (simp add: pending_effect_def)
  show ?thesis
    using p eff next_revision_less [OF p(6)]
    by (cases "rq_operation (pc_request p)")
      (auto simp: authority_matches_def matches_command_authority_def matches_session_authority_def
        find_record_None_iff)
qed

text \<open>
  A superseded command cannot touch the state. On every run, when the task of a command
  that is no longer the pending one ends, whatever it reports, the state stays as it is, no
  effect is started and only that task disappears from the books, unless the observer panics on
  the news and takes the actor down.
\<close>

theorem traffic_superseded_inert:
  assumes "kernel_reach traffic_machine capacity command answer (binding_state a c) k"
    and "map_of (rn_owned (kn_runner k)) (joined_id j) = Some task"
    and "\<not> effect_is_current (rn_state (kn_runner k)) (oe_correlation task)"
    and "\<not> observer_panics (kn_runner k)"
  shows "rn_state (kn_runner (actor_join traffic_machine j k)) = rn_state (kn_runner k)
     \<and> rn_owned (kn_runner (actor_join traffic_machine j k)) = AList.delete (joined_id j) (rn_owned (kn_runner k))
     \<and> kn_actor (actor_join traffic_machine j k) = kn_actor k"
proof -
  have inv: "state_inv traffic_inv (kn_runner k)"
    by (rule traffic.reachable_inv [OF traffic_inv_binding assms(1)])
  have "\<not> m_effect_is_current traffic_machine (rn_state (kn_runner k)) (oe_correlation task)"
    using assms(3) by (simp add: machine_simps)
  then obtain r where "finish_effect traffic_machine False j (join_next j (kn_runner k)) = Turned D_Retired r"
      "rn_state r = rn_state (kn_runner k)"
      "rn_owned r = AList.delete (joined_id j) (rn_owned (kn_runner k))"
    by (rule traffic.stale_completion_inert [OF inv assms(2) _ assms(4)])
  then show ?thesis
    by (simp add: actor_join_def)
qed

text \<open>
  The result of a command is only booked for the session it was admitted in. If a
  completion changes the state, then the command in flight has exactly that correlation, the
  source it was admitted for and the source that is live now are of one session, and the
  change is one ledger record with that request and result.
\<close>

theorem traffic_result_booked:
  assumes "kernel_reach traffic_machine capacity command answer (binding_state a c) k"
    and "s = rn_state (kn_runner k)"
    and "machine_reduce s (Completed corr execution source) = Some t" and "next_state s t \<noteq> s"
  shows "\<exists>p current. ts_pending s = Some p \<and> pc_correlation p = corr
     \<and> ts_authority s = Live current \<and> same_session (pc_source p) current \<and> same_session current source
     \<and> ts_pending (next_state s t) = None
     \<and> (\<exists>older. ts_completed (next_state s t)
          = older @ [\<lparr>cr_execution = execution, cr_request = pc_request p\<rparr>])"
proof -
  have inv: "traffic_inv s"
    using traffic_inv_reach [OF assms(1)] assms(2) by simp
  have "\<not> is_retired (ts_authority s)"
    using assms(3,4) by (auto simp: machine_reduce_def)
  then obtain p current s' where p: "ts_pending s = Some p" "pc_correlation p = corr"
      "authority_live (ts_authority s) = Some current" "same_session current source"
      "finish s (pc_request p) execution = Some s'" "t = T_Committed s'"
    using assms(3,4)
    by (auto simp: machine_reduce_def reduce_completed_def is_some_and_iff split: option.splits if_splits)
  moreover have "same_session (pc_source p) current"
    using inv p(1,3) by (auto simp: traffic_inv_def pending_ok_def)
  moreover have "ts_pending s' = None" and "\<exists>older. ts_completed s'
      = older @ [\<lparr>cr_execution = execution, cr_request = pc_request p\<rparr>]"
    using p(5) pop_front_while_over_snoc [of TRAFFIC_COMMAND_LEDGER_LIMIT]
    by (auto simp: TRAFFIC_COMMAND_LEDGER_LIMIT_def elim!: finish_SomeE)
  ultimately show ?thesis
    by (auto simp: authority_live_Some)
qed

text \<open>
  A command in flight has its task. While the actor runs and the executor completes an
  effect under its own correlation and source, the pending command of the state has a running
  task that executes exactly it, and no other task shares its correlation.
\<close>

theorem traffic_pending_has_task:
  assumes "kernel_reach traffic_machine capacity traffic_command traffic_answer (binding_state a c) k"
    and "kn_actor k = Running" and "ts_pending (rn_state (kn_runner k)) = Some p"
  shows "(\<exists>n. (n, pending_effect p) \<in> set (rn_tasks (kn_runner k)))
     \<and> distinct (map (\<lambda>(n, e). effect_correlation e) (rn_tasks (kn_runner k)))"
proof -
  have "traffic_consistent (initial_runner observer (binding_state a c))" for observer
    using traffic_inv_binding by (simp add: traffic_consistent_def initial_runner_def binding_state_def)
  from running_environment_stable [OF traffic_consistent_stable this assms(1,2)] show ?thesis
    using assms(3) by (simp add: traffic_consistent_def)
qed

text \<open>
  The live source only moves forward. If a turn leads from one live stamp to another,
  both belong to one session and the sequence does not decrease; and whenever a stamp becomes
  live, it was either a complete baseline or the observation right after the stamp that was
  live before, so that a session or a gap is only ever crossed by a new baseline.
\<close>

theorem traffic_live_monotone:
  assumes "machine_reduce s i = Some t" and "ts_authority (next_state s t) = Live stamp"
  shows "(\<forall>current. ts_authority s = Live current \<longrightarrow>
            same_session current stamp \<and> st_sequence current \<le> st_sequence stamp)
     \<and> (ts_authority s = Live stamp \<or> i = Baseline stamp
        \<or> (\<exists>current. i = Observation stamp \<and> ts_authority s = Live current
             \<and> unat (st_sequence stamp) = Suc (unat (st_sequence current))))"
proof (cases "is_retired (ts_authority s)")
  case True
  then show ?thesis
    using assms by (cases i; cases "ts_authority s") (auto simp: machine_reduce_def)
next
  case False
  then show ?thesis
    using assms traffic_live_input [of s i t stamp] by (simp add: machine_reduce_def)
qed

text \<open>
  The revision counts changes. A turn either leaves the state as it is or raises the
  revision by exactly one; so after \<open>n\<close> observed transitions it is at most \<open>n\<close>, and the panic
  on an exhausted revision takes at least \<open>2\<^sup>6\<^sup>4 - 1\<close> of them.
\<close>

theorem traffic_revision_counts:
  assumes "kernel_reach traffic_machine capacity command answer (binding_state a c) k"
    and "s = rn_state (kn_runner k)"
  shows "unat (ts_revision s) \<le> length (rn_observed (kn_runner k))
     \<and> (\<forall>i t. machine_reduce s i = Some t \<longrightarrow>
          next_state s t = s \<or> unat (ts_revision (next_state s t)) = Suc (unat (ts_revision s)))
     \<and> (\<forall>i. machine_reduce s i = None \<longrightarrow> 2 ^ 64 - 1 \<le> length (rn_observed (kn_runner k)))"
proof -
  have inv: "traffic_inv s"
    using traffic_inv_reach [OF assms(1)] assms(2) by simp
  have "revision_marks (binding_state a c) = []"
    by (simp add: revision_marks_def binding_state_def)
  from reached_tags_on_record [OF revision_evidence traffic_inv_binding this assms(1)]
  have len: "unat (ts_revision s) \<le> length (rn_observed (kn_runner k))"
    using assms(2) by (auto simp: revision_marks_def consumed_def dest: list_emb_length)
  moreover have "2 ^ 64 - 1 \<le> length (rn_observed (kn_runner k))" if "machine_reduce s i = None" for i
    using len traffic_panic [OF that] by (simp add: next_revision_def checked_add_None_iff)
  ultimately show ?thesis
    using traffic_revision_step [OF inv] by blast
qed

end
