(* ===== verification/Capture_Types.thy ===== *)
theory Capture_Types
  imports Tun_Lifecycle
begin

text \<open>
  The data of the Capture component, \<^verbatim>\<open>crates/runtime/src/capture.rs\<close>: what is selected
  (\<^verbatim>\<open>CaptureSelection\<close> of \<^verbatim>\<open>status.rs\<close>), the status of the System Proxy, of TUN and of the
  running operation, the request and the token of a reserved operation, and the error a
  transition carries. The preflight token is kept with the journal and the platform state it
  was read from; the machine only passes it on.
\<close>

section \<open>Failures\<close>

datatype capture_failure_kind =
    CF_ApplyFailed
  | CF_CapabilityUnavailable
  | CF_ConfirmationFailed
  | CF_ConfigurationRequired
  | CF_CoreUnhealthy
  | CF_ExternalDrift
  | CF_InvalidRecovery
  | CF_ListenerUnavailable
  | CF_ObservationFailed
  | CF_PermissionDenied
  | CF_PersistenceFailed
  | CF_RollbackFailed
  | CF_RuntimeTransition
  | CF_TakeoverRejected
  | CF_UnsafeExistingConfiguration
  | CF_UnsupportedSelection

datatype observation_stage = DefaultRoute | NetworkServiceOrder | NetworkServiceResolution | ProxyConfiguration

datatype takeover_rejection =
    TR_AuthenticatedProxy
  | TR_IncompleteObservation
  | TR_InvalidState
  | TR_ProtectedAutoDiscovery
  | TR_ProtectedPac
  | TR_UnrecoverableState

record capture_error =
  er_kind :: capture_failure_kind
  er_message :: string
  er_observation_stage :: "observation_stage option"
  er_takeover_rejection :: "takeover_rejection option"

definition error_new :: "capture_failure_kind \<Rightarrow> string \<Rightarrow> capture_error" where
  "error_new kind message =
     \<lparr>er_kind = kind, er_message = message, er_observation_stage = None, er_takeover_rejection = None\<rparr>"

definition runtime_transition_error :: capture_error where
  "runtime_transition_error =
     error_new CF_RuntimeTransition ''System Proxy is unavailable while the managed core is switching''"

section \<open>Requests\<close>

record capture_selection =
  cs_system_proxy :: bool
  cs_tun :: bool

record capture_request =
  cq_active :: bool
  cq_selection :: capture_selection

record manual_proxy_state =
  mp_authenticated :: bool
  mp_enabled :: bool
  mp_host :: string
  mp_port :: "16 word"

record network_service_proxy_state =
  np_auto_discovery_enabled :: bool
  np_bypass_domains :: "string list"
  np_http :: manual_proxy_state
  np_https :: manual_proxy_state
  np_pac_enabled :: bool
  np_pac_url :: string
  np_service_id :: string
  np_socks :: manual_proxy_state

record capture_journal =
  cj_prior :: network_service_proxy_state

record system_proxy_preflight =
  sp_journal :: "capture_journal option"
  sp_observed :: network_service_proxy_state

record capture_preflight =
  cp_reconciler_id :: u64
  cp_system_proxy :: "system_proxy_preflight option"

datatype audit_reason = CoreHealthChanged | AR_NetworkChanged | Periodic | Restart

datatype recovery_action = RepairAction | LeaveAsIs

section \<open>Status\<close>

datatype system_proxy_phase = SP_Off | SP_Pending | SP_Applied | SP_Failed | SP_Drift

datatype system_proxy_observed = SO_Disabled | SO_Mish | SO_Other | SO_Unknown

record system_proxy_status =
  ps_desired :: bool
  ps_failure :: "capture_failure_kind option"
  ps_observed :: system_proxy_observed
  ps_phase :: system_proxy_phase
  ps_recovery_actions :: "recovery_action list"

datatype operation_phase = OP_Idle | OP_Pending | OP_Finalizing | OP_Applied | OP_Failed | OP_RecoveryRequired

record operation_status =
  os_failure :: "capture_failure_kind option"
  os_operation_id :: "string option"
  os_phase :: operation_phase
  os_scope_epoch :: string

definition operation_idle :: "string \<Rightarrow> operation_status" where
  "operation_idle epoch =
     \<lparr>os_failure = None, os_operation_id = None, os_phase = OP_Idle, os_scope_epoch = epoch\<rparr>"

definition operation_detached :: operation_status where
  "operation_detached = operation_idle ''detached''"

definition is_busy :: "operation_status \<Rightarrow> bool" where
  "is_busy self \<longleftrightarrow> os_phase self = OP_Pending \<or> os_phase self = OP_Finalizing"

datatype tun_phase = TP_Off | TP_Pending | TP_Applied | TP_Failed | TP_Drift

datatype tun_observed_state = TO_Disabled | TO_Enabled | TO_Foreign | TO_Partial | TO_Stale | TO_Unknown

datatype tun_failure_kind =
    TF_CapabilityUnavailable
  | TF_ConfirmationFailed
  | TF_CoreUnhealthy
  | TF_HelperConnectionFailed
  | TF_HelperIdentityRejected
  | TF_HelperInvalidSignature
  | TF_HelperOperationFailed
  | TF_HelperPermissionDenied
  | TF_HelperProtocolMismatch
  | TF_HelperVersionMismatch
  | TF_ObservationForeign
  | TF_ObservationPartial
  | TF_ObservationStale
  | TF_RollbackFailed
  | TF_RuntimeTransition

record tun_status =
  tn_desired :: bool
  tn_failure :: "tun_failure_kind option"
  tn_observation :: "tun_network_observation option"
  tn_observed :: tun_observed_state
  tn_phase :: tun_phase

definition tun_off :: tun_status where
  "tun_off =
     \<lparr>tn_desired = False, tn_failure = None, tn_observation = None, tn_observed = TO_Unknown,
      tn_phase = TP_Off\<rparr>"

record capture_status =
  cu_capture_operation :: operation_status
  cu_capture_selection :: capture_selection
  cu_system_proxy :: system_proxy_status
  cu_system_proxy_enabled :: bool
  cu_tun :: tun_status
  cu_tun_enabled :: bool

definition capture_off :: capture_status where
  "capture_off =
     \<lparr>cu_capture_operation = operation_detached,
      cu_capture_selection = \<lparr>cs_system_proxy = False, cs_tun = False\<rparr>,
      cu_system_proxy =
        \<lparr>ps_desired = False, ps_failure = None, ps_observed = SO_Unknown, ps_phase = SP_Off,
         ps_recovery_actions = []\<rparr>,
      cu_system_proxy_enabled = False, cu_tun = tun_off, cu_tun_enabled = False\<rparr>"

abbreviation status_phase :: "capture_status \<Rightarrow> operation_phase" where
  "status_phase status \<equiv> os_phase (cu_capture_operation status)"

section \<open>The token of a reserved operation\<close>

record capture_operation =
  co_correlation :: correlation
  co_previous :: capture_status
  co_public_operation_id :: string
  co_request :: capture_request

end
