(* ===== verification/Capture_Machine.thy ===== *)
theory Capture_Machine
  imports Capture_Types
begin

text \<open>
  The Capture state machine, \<^verbatim>\<open>crates/runtime/src/capture/machine.rs\<close>: it serialises every
  change of the System Proxy and of TUN through preflight, mutation, observation and, when an
  effect is lost, finalization, and retires through a shutdown effect. A panic of the reducer
  (the \<^verbatim>\<open>expect\<close> of the preflight arm, a subtraction below zero) is the value \<open>None\<close>. Cancellation
  tokens and reply channels are handles the machine passes on; they are numbers here.
\<close>

section \<open>State\<close>

definition MUTATION_EFFECT_ID :: u64 where "MUTATION_EFFECT_ID = 1"
definition OBSERVATION_EFFECT_ID :: u64 where "OBSERVATION_EFFECT_ID = 2"
definition AUDIT_EFFECT_ID :: u64 where "AUDIT_EFFECT_ID = 3"
definition RECOVERY_EFFECT_ID :: u64 where "RECOVERY_EFFECT_ID = 4"
definition FINALIZER_EFFECT_ID :: u64 where "FINALIZER_EFFECT_ID = 5"
definition SHUTDOWN_EFFECT_ID :: u64 where "SHUTDOWN_EFFECT_ID = 6"
definition AUDIT_COMMIT_EFFECT_ID :: u64 where "AUDIT_COMMIT_EFFECT_ID = 7"
definition PREFLIGHT_EFFECT_ID :: u64 where "PREFLIGHT_EFFECT_ID = 8"

type_synonym cancellation_token = nat
type_synonym preflight_reply = nat

datatype transition_mode = Ordinary | Prepared | RuntimeReplacement

record stable_capture =
  sc_last_error :: "capture_error option"
  sc_projection :: capture_status
  sc_next_operation_id :: u64
  sc_revision :: u64

record active_operation =
  ao_correlation :: correlation
  ao_mode :: transition_mode
  ao_pending :: capture_status
  ao_public_pending :: capture_status
  ao_previous :: capture_status
  ao_public_operation_id :: string
  ao_request :: capture_request

definition public_operation :: "active_operation \<Rightarrow> capture_operation" where
  "public_operation self =
     \<lparr>co_correlation = ao_correlation self, co_previous = ao_previous self,
      co_public_operation_id = ao_public_operation_id self, co_request = ao_request self\<rparr>"

definition token_matches :: "capture_operation \<Rightarrow> active_operation \<Rightarrow> bool" where
  "token_matches self operation = same_operation (co_correlation self) (ao_correlation operation)"

datatype transition_stage = Reserved | Preflighting | Mutating | Finalizing

record transitioning_capture =
  tc_deferred_failure :: "capture_error option"
  tc_operation :: active_operation
  tc_stable :: stable_capture
  tc_stage :: transition_stage

record reconciling_capture =
  rc_operation :: active_operation
  rc_stable :: stable_capture

record recovery_required_capture =
  rr_error :: "capture_error option"
  rr_next_operation_id :: u64
  rr_projection :: capture_status
  rr_revision :: u64

record shutting_down_capture =
  sd_correlation :: correlation
  sd_projection :: capture_status

record retired_capture =
  rt_error :: "capture_error option"
  rt_projection :: capture_status

datatype capture_state =
    Stable stable_capture
  | Transitioning transitioning_capture
  | Reconciling reconciling_capture
  | RecoveryRequired recovery_required_capture
  | ShuttingDown shutting_down_capture
  | RetiredCapture retired_capture

fun projection :: "capture_state \<Rightarrow> capture_status" where
  "projection (Stable state) = sc_projection state"
| "projection (Transitioning state) = ao_pending (tc_operation state)"
| "projection (Reconciling state) = ao_pending (rc_operation state)"
| "projection (RecoveryRequired state) = rr_projection state"
| "projection (ShuttingDown state) = sd_projection state"
| "projection (RetiredCapture state) = rt_projection state"

fun confirmed_projection :: "capture_state \<Rightarrow> capture_status" where
  "confirmed_projection (Transitioning state) = ao_previous (tc_operation state)"
| "confirmed_projection (Reconciling state) = ao_previous (rc_operation state)"
| "confirmed_projection self = projection self"

fun active_operation_of :: "capture_state \<Rightarrow> active_operation option" where
  "active_operation_of (Transitioning state) = Some (tc_operation state)"
| "active_operation_of (Reconciling state) = Some (rc_operation state)"
| "active_operation_of _ = None"

definition operation_of :: "capture_state \<Rightarrow> capture_operation option" where
  "operation_of self = map_option public_operation (active_operation_of self)"

fun revision :: "capture_state \<Rightarrow> u64" where
  "revision (Stable state) = sc_revision state"
| "revision (Transitioning state) = admitted_revision (ao_correlation (tc_operation state))"
| "revision (Reconciling state) = admitted_revision (ao_correlation (rc_operation state))"
| "revision (RecoveryRequired state) = rr_revision state"
| "revision (ShuttingDown state) = admitted_revision (sd_correlation state)"
| "revision (RetiredCapture _) = 0"

fun last_error :: "capture_state \<Rightarrow> capture_error option" where
  "last_error (Stable state) = sc_last_error state"
| "last_error (RecoveryRequired state) = rr_error state"
| "last_error (RetiredCapture state) = rt_error state"
| "last_error _ = None"

fun base :: "capture_state \<Rightarrow> stable_capture option" where
  "base (Stable state) =
     (if \<not> is_busy (cu_capture_operation (sc_projection state)) then Some state else None)"
| "base (RecoveryRequired state) =
     Some \<lparr>sc_last_error = rr_error state, sc_projection = rr_projection state,
           sc_next_operation_id = rr_next_operation_id state, sc_revision = rr_revision state\<rparr>"
| "base _ = None"

section \<open>Inputs and effects\<close>

record audit_outcome =
  ax_error :: "capture_error option"
  ax_mutated :: bool
  ax_status :: capture_status

record effect_outcome =
  ex_error :: "capture_error option"
  ex_status :: capture_status

datatype capture_input =
    Preflight cancellation_token preflight_reply capture_request
  | PreflightFinished correlation
  | Reserve capture_request transition_mode
  | Start bool transition_mode "string option" "capture_preflight option" capture_request
  | ExecuteReserved bool capture_operation "capture_preflight option" capture_request
  | FailReserved capture_error capture_operation
  | MarkFinalizing capture_error capture_operation
  | MutationFinished correlation effect_outcome
  | ObservationFinished correlation effect_outcome
  | Audit bool audit_reason
  | AuditFinished correlation audit_outcome
  | AuditCommitted correlation audit_outcome
  | Recover recovery_action bool
  | RecoveryFinished correlation effect_outcome
  | Finalized correlation effect_outcome
  | TaskFailed correlation task_failure
  | TaskCancelled correlation
  | CaptureShutdown
  | ShutdownFinished correlation "capture_error + capture_status"

datatype capture_effect =
    PreflightEffect cancellation_token correlation preflight_reply capture_request
  | MutateEffect bool correlation "capture_preflight option" capture_status capture_request
  | ObserveEffect bool correlation capture_request
  | AuditEffect bool correlation capture_status audit_reason
  | CommitAuditEffect correlation audit_outcome
  | RecoverEffect recovery_action bool correlation capture_request
  | FinalizeEffect bool correlation capture_request
  | CancelEffect correlation
  | ShutdownEffect correlation capture_status

fun effect_correlation :: "capture_effect \<Rightarrow> correlation" where
  "effect_correlation (PreflightEffect _ c _ _) = c"
| "effect_correlation (MutateEffect _ c _ _ _) = c"
| "effect_correlation (ObserveEffect _ c _) = c"
| "effect_correlation (AuditEffect _ c _ _) = c"
| "effect_correlation (CommitAuditEffect c _) = c"
| "effect_correlation (RecoverEffect _ _ c _) = c"
| "effect_correlation (FinalizeEffect _ c _) = c"
| "effect_correlation (CancelEffect c) = c"
| "effect_correlation (ShutdownEffect c _) = c"

definition effect_mode_of :: "capture_effect \<Rightarrow> effect_mode" where
  "effect_mode_of self = (case self of CancelEffect _ \<Rightarrow> Cancel | _ \<Rightarrow> Spawn)"

text \<open>
  \<^verbatim>\<open>CaptureExecutor::execute\<close>: the inputs an effect may complete with. What \<^verbatim>\<open>CaptureEffects\<close>
  returns and whether the cancellation wins the \<^verbatim>\<open>select!\<close> is free; the constructor and the
  correlation of the input are not, and an audit commit hands its own outcome back.
\<close>

fun execute :: "capture_effect \<Rightarrow> capture_input \<Rightarrow> bool" where
  "execute (PreflightEffect _ c _ _) i \<longleftrightarrow> i = PreflightFinished c"
| "execute (MutateEffect _ c _ _ _) i \<longleftrightarrow>
     (case i of MutationFinished c' _ \<Rightarrow> c' = c | TaskCancelled c' \<Rightarrow> c' = c | _ \<Rightarrow> False)"
| "execute (ObserveEffect _ c _) i \<longleftrightarrow>
     (case i of ObservationFinished c' _ \<Rightarrow> c' = c | TaskCancelled c' \<Rightarrow> c' = c | _ \<Rightarrow> False)"
| "execute (AuditEffect _ c _ _) i \<longleftrightarrow>
     (case i of AuditFinished c' _ \<Rightarrow> c' = c | TaskCancelled c' \<Rightarrow> c' = c | _ \<Rightarrow> False)"
| "execute (CommitAuditEffect c outcome) i \<longleftrightarrow> i = AuditCommitted c outcome"
| "execute (RecoverEffect _ _ c _) i \<longleftrightarrow>
     (case i of RecoveryFinished c' _ \<Rightarrow> c' = c | TaskCancelled c' \<Rightarrow> c' = c | _ \<Rightarrow> False)"
| "execute (FinalizeEffect _ c _) i \<longleftrightarrow> (case i of Finalized c' _ \<Rightarrow> c' = c | _ \<Rightarrow> False)"
| "execute (ShutdownEffect c _) i \<longleftrightarrow> (case i of ShutdownFinished c' _ \<Rightarrow> c' = c | _ \<Rightarrow> False)"
| "execute (CancelEffect c) i \<longleftrightarrow> i = TaskCancelled c"

section \<open>The machine\<close>

record capture_machine =
  cm_machine_authority :: string
  cm_scope_epoch :: u64

type_synonym capture_transition = "(capture_state, capture_effect, capture_error) transition"

definition pending_status :: "capture_machine \<Rightarrow> stable_capture \<Rightarrow> capture_request \<Rightarrow> string \<Rightarrow> capture_status" where
  "pending_status self settled request public_operation_id =
     (let before = sc_projection settled;
          pending = before
            \<lparr>cu_capture_operation :=
               \<lparr>os_failure = None, os_operation_id = Some public_operation_id, os_phase = OP_Pending,
                os_scope_epoch = cm_machine_authority self\<rparr>,
             cu_capture_selection := cq_selection request\<rparr>;
          system_proxy_involved =
            cs_system_proxy (cq_selection request) \<or> cs_system_proxy (cu_capture_selection before)
            \<or> ps_desired (cu_system_proxy before) \<or> cu_system_proxy_enabled before;
          pending =
            (if system_proxy_involved
             then pending\<lparr>cu_system_proxy := (cu_system_proxy pending)
                    \<lparr>ps_desired := cq_active request \<and> cs_system_proxy (cq_selection request),
                     ps_failure := None, ps_phase := SP_Pending\<rparr>\<rparr>
             else pending);
          tun_involved =
            cs_tun (cq_selection request) \<or> cs_tun (cu_capture_selection before)
            \<or> tn_desired (cu_tun before) \<or> cu_tun_enabled before
      in if tun_involved
         then pending\<lparr>cu_tun := (cu_tun pending)
                \<lparr>tn_desired := cq_active request \<and> cs_tun (cq_selection request),
                 tn_failure := None, tn_phase := TP_Pending\<rparr>\<rparr>
         else pending)"

definition machine_operation ::
  "capture_machine \<Rightarrow> stable_capture \<Rightarrow> capture_request \<Rightarrow> transition_mode \<Rightarrow> string option
     \<Rightarrow> capture_error + (stable_capture \<times> active_operation)" where
  "machine_operation self settled request mode operation_prefix =
     (let operation_number = sc_next_operation_id settled in
      case checked_add operation_number 1 of
        None \<Rightarrow> Inl runtime_transition_error
      | Some next_operation_id \<Rightarrow>
          (case checked_add (sc_revision settled) 1 of
             None \<Rightarrow> Inl runtime_transition_error
           | Some admitted \<Rightarrow>
               (let public_operation_id = u64_to_string operation_number;
                    c = \<lparr>machine_authority = cm_machine_authority self, scope_epoch = cm_scope_epoch self,
                         operation_id =
                           (case operation_prefix of
                              None \<Rightarrow> public_operation_id
                            | Some label \<Rightarrow> label @ ''-'' @ public_operation_id),
                         admitted_revision = admitted, effect_id = 0\<rparr>;
                    pending = pending_status self settled request public_operation_id
                in Inr
                  (\<lparr>sc_last_error = sc_last_error settled, sc_projection = sc_projection settled,
                    sc_next_operation_id = next_operation_id, sc_revision = admitted\<rparr>,
                   \<lparr>ao_correlation = c, ao_mode = mode, ao_pending = pending, ao_public_pending = pending,
                    ao_previous = sc_projection settled, ao_public_operation_id = public_operation_id,
                    ao_request = request\<rparr>))))"

definition finished_operation ::
  "active_operation \<Rightarrow> capture_failure_kind option \<Rightarrow> operation_phase \<Rightarrow> operation_status" where
  "finished_operation operation failure phase =
     \<lparr>os_failure = failure, os_operation_id = Some (ao_public_operation_id operation), os_phase = phase,
      os_scope_epoch = os_scope_epoch (cu_capture_operation (ao_pending operation))\<rparr>"

definition finish ::
  "stable_capture \<Rightarrow> active_operation \<Rightarrow> capture_status \<Rightarrow> operation_phase \<Rightarrow> capture_state" where
  "finish settled operation status phase =
     (let status = status\<lparr>cu_capture_operation := finished_operation operation None phase\<rparr> in
      if phase = OP_RecoveryRequired
      then RecoveryRequired
             \<lparr>rr_error = None, rr_next_operation_id = sc_next_operation_id settled, rr_projection = status,
              rr_revision = sc_revision settled\<rparr>
      else Stable (settled\<lparr>sc_last_error := None, sc_projection := status\<rparr>))"

definition recovery ::
  "stable_capture \<Rightarrow> active_operation \<Rightarrow> capture_status \<Rightarrow> capture_error \<Rightarrow> capture_state" where
  "recovery settled operation status error =
     (if ao_mode operation = Prepared
      then Stable (settled
             \<lparr>sc_last_error := Some error,
              sc_projection := status
                \<lparr>cu_capture_operation := finished_operation operation (Some (er_kind error)) OP_Finalizing\<rparr>\<rparr>)
      else RecoveryRequired
             \<lparr>rr_error = Some error, rr_next_operation_id = sc_next_operation_id settled,
              rr_projection = status
                \<lparr>cu_capture_operation :=
                   finished_operation operation (Some (er_kind error)) OP_RecoveryRequired\<rparr>,
              rr_revision = sc_revision settled\<rparr>)"

definition failed ::
  "stable_capture \<Rightarrow> active_operation \<Rightarrow> capture_status \<Rightarrow> capture_error \<Rightarrow> capture_state" where
  "failed settled operation status error =
     Stable (settled
       \<lparr>sc_last_error := Some error,
        sc_projection := status
          \<lparr>cu_capture_operation :=
             finished_operation operation (Some (er_kind error))
               (if ao_mode operation = Prepared then OP_Finalizing else OP_Failed)\<rparr>\<rparr>)"

definition matching :: "active_operation \<Rightarrow> correlation \<Rightarrow> u64 \<Rightarrow> bool" where
  "matching operation c eid \<longleftrightarrow> same_operation (ao_correlation operation) c \<and> effect_id c = eid"

definition operation_marked_finalizing :: "active_operation \<Rightarrow> capture_error \<Rightarrow> active_operation" where
  "operation_marked_finalizing operation error =
     (let pending = ao_pending operation in
      operation\<lparr>ao_pending := pending
        \<lparr>cu_capture_operation := (cu_capture_operation pending)
           \<lparr>os_failure := Some (er_kind error), os_phase := OP_Finalizing\<rparr>\<rparr>\<rparr>)"

definition finalizer :: "stable_capture \<Rightarrow> active_operation \<Rightarrow> capture_error \<Rightarrow> capture_transition" where
  "finalizer settled operation error =
     T_EffectEmitting
       (Transitioning
          \<lparr>tc_deferred_failure = None, tc_operation = operation_marked_finalizing operation error,
           tc_stable = settled, tc_stage = Finalizing\<rparr>)
       (batch_one (FinalizeEffect False (with_effect (ao_correlation operation) FINALIZER_EFFECT_ID)
          (ao_request operation)))"

definition task_failure_error :: "task_failure \<Rightarrow> capture_error" where
  "task_failure_error failure =
     error_new CF_RuntimeTransition
       (case failure of
          Aborted \<Rightarrow> ''Capture operation was aborted before completion''
        | CompletionConflict \<Rightarrow> ''Capture operation completion was retired after its authority changed''
        | Panicked \<Rightarrow> ''Capture operation panicked before completion'')"

section \<open>The reducer\<close>

text \<open>The failure branch shared by the arms that end a transition with its previous projection.\<close>

definition end_failed ::
  "stable_capture \<Rightarrow> active_operation \<Rightarrow> capture_status \<Rightarrow> capture_error \<Rightarrow> capture_transition" where
  "end_failed settled operation status error =
     (if er_kind error = CF_RollbackFailed
      then T_RecoveryRequired (recovery settled operation status error)
      else T_Failed (failed settled operation status error))"

definition reduce_preflight ::
  "capture_machine \<Rightarrow> capture_state \<Rightarrow> cancellation_token \<Rightarrow> preflight_reply \<Rightarrow> capture_request
     \<Rightarrow> capture_transition option" where
  "reduce_preflight self state cancellation reply request =
     (let from_base =
        (case base state of
           None \<Rightarrow> None
         | Some b \<Rightarrow>
             Some (case machine_operation self b request Ordinary (Some ''preflight'') of
                     Inl _ \<Rightarrow> T_Rejected runtime_transition_error
                   | Inr (settled, operation) \<Rightarrow>
                       (let operation = operation\<lparr>ao_pending := ao_previous operation\<rparr> in
                        T_EffectEmitting
                          (Reconciling \<lparr>rc_operation = operation, rc_stable = settled\<rparr>)
                          (batch_one (PreflightEffect cancellation
                             (with_effect (ao_correlation operation) PREFLIGHT_EFFECT_ID) reply request)))))
      in case state of
           Stable _ \<Rightarrow> from_base
         | RecoveryRequired _ \<Rightarrow> from_base
         | Transitioning current \<Rightarrow>
             Some (if tc_stage current = Reserved \<and> ao_request (tc_operation current) = request
                   then T_EffectEmitting
                          (Transitioning (current\<lparr>tc_deferred_failure := None, tc_stage := Preflighting\<rparr>))
                          (batch_one (PreflightEffect cancellation
                             (with_effect (ao_correlation (tc_operation current)) PREFLIGHT_EFFECT_ID)
                             reply request))
                   else T_Rejected runtime_transition_error)
         | _ \<Rightarrow> Some (T_Rejected runtime_transition_error))"

text \<open>The projection and the counters from before an operation that changed nothing.\<close>

definition withdraw :: "reconciling_capture \<Rightarrow> capture_transition option" where
  "withdraw current =
     (case checked_sub (sc_next_operation_id (rc_stable current)) 1 of
        None \<Rightarrow> None
      | Some next_operation_id \<Rightarrow>
          (case checked_sub (sc_revision (rc_stable current)) 1 of
             None \<Rightarrow> None
           | Some previous_revision \<Rightarrow>
               Some (T_Accepted (Stable
                 \<lparr>sc_last_error = None, sc_projection = ao_previous (rc_operation current),
                  sc_next_operation_id = next_operation_id, sc_revision = previous_revision\<rparr>))))"

definition reduce_preflight_finished :: "capture_state \<Rightarrow> correlation \<Rightarrow> capture_transition option" where
  "reduce_preflight_finished state c =
     (case state of
        Reconciling current \<Rightarrow>
          (if matching (rc_operation current) c PREFLIGHT_EFFECT_ID then withdraw current else Some T_Retired)
      | Transitioning current \<Rightarrow>
          Some (if tc_stage current = Preflighting \<and> matching (tc_operation current) c PREFLIGHT_EFFECT_ID
                then (case tc_deferred_failure current of
                        Some error \<Rightarrow>
                          end_failed (tc_stable current) (tc_operation current)
                            (ao_previous (tc_operation current)) error
                      | None \<Rightarrow>
                          T_Accepted (Transitioning
                            (current\<lparr>tc_deferred_failure := None, tc_stage := Reserved\<rparr>)))
                else T_Retired)
      | _ \<Rightarrow> Some T_Retired)"

definition reduce_reserve :: "capture_machine \<Rightarrow> capture_state \<Rightarrow> capture_request \<Rightarrow> transition_mode \<Rightarrow> capture_transition" where
  "reduce_reserve self state request mode =
     (case base state of
        None \<Rightarrow> T_Rejected runtime_transition_error
      | Some b \<Rightarrow>
          (case machine_operation self b request mode None of
             Inl _ \<Rightarrow> T_Rejected runtime_transition_error
           | Inr (settled, operation) \<Rightarrow>
               T_Accepted (Transitioning
                 \<lparr>tc_deferred_failure = None, tc_operation = operation, tc_stable = settled,
                  tc_stage = Reserved\<rparr>)))"

definition reduce_start ::
  "capture_machine \<Rightarrow> capture_state \<Rightarrow> bool \<Rightarrow> transition_mode \<Rightarrow> string option \<Rightarrow> capture_preflight option
     \<Rightarrow> capture_request \<Rightarrow> capture_transition" where
  "reduce_start self state core_healthy mode operation_prefix preflight request =
     (case base state of
        None \<Rightarrow> T_Rejected runtime_transition_error
      | Some b \<Rightarrow>
          (case machine_operation self b request mode operation_prefix of
             Inl _ \<Rightarrow> T_Rejected runtime_transition_error
           | Inr (settled, operation) \<Rightarrow>
               T_EffectEmitting
                 (Transitioning
                    \<lparr>tc_deferred_failure = None, tc_operation = operation, tc_stable = settled,
                     tc_stage = Mutating\<rparr>)
                 (batch_one (MutateEffect core_healthy
                    (with_effect (ao_correlation operation) MUTATION_EFFECT_ID) preflight
                    (ao_previous operation) request))))"

definition reduce_execute_reserved ::
  "capture_state \<Rightarrow> bool \<Rightarrow> capture_operation \<Rightarrow> capture_preflight option \<Rightarrow> capture_request
     \<Rightarrow> capture_transition" where
  "reduce_execute_reserved state core_healthy token preflight request =
     (case state of
        Transitioning current \<Rightarrow>
          (if tc_stage current \<noteq> Reserved
              \<or> \<not> same_operation (ao_correlation (tc_operation current)) (co_correlation token)
              \<or> ao_request (tc_operation current) \<noteq> request
              \<or> co_request token \<noteq> request
           then T_Retired
           else T_EffectEmitting
                  (Transitioning (current\<lparr>tc_deferred_failure := None, tc_stage := Mutating\<rparr>))
                  (batch_one (MutateEffect core_healthy
                     (with_effect (ao_correlation (tc_operation current)) MUTATION_EFFECT_ID) preflight
                     (ao_previous (tc_operation current)) request)))
      | _ \<Rightarrow> T_Retired)"

text \<open>The projection of the state names the operation of a token.\<close>

definition names_token :: "capture_status \<Rightarrow> capture_operation \<Rightarrow> bool" where
  "names_token status token \<longleftrightarrow>
     os_scope_epoch (cu_capture_operation status) = machine_authority (co_correlation token)
     \<and> os_operation_id (cu_capture_operation status) = Some (co_public_operation_id token)"

definition failed_token :: "capture_operation \<Rightarrow> capture_error \<Rightarrow> capture_status" where
  "failed_token token error =
     (co_previous token)
       \<lparr>cu_capture_operation :=
          \<lparr>os_failure = Some (er_kind error), os_operation_id = Some (co_public_operation_id token),
           os_phase = OP_Failed, os_scope_epoch = machine_authority (co_correlation token)\<rparr>\<rparr>"

text \<open>The first branch of \<^verbatim>\<open>FailReserved\<close>: the operation is already being finalized.\<close>

definition fail_finalizing :: "capture_state \<Rightarrow> capture_error \<Rightarrow> capture_operation \<Rightarrow> capture_transition" where
  "fail_finalizing state error token =
     (let terminal = projection state;
          settled_of =
            (case state of
               Stable current \<Rightarrow> Some current
             | Transitioning current \<Rightarrow> Some (tc_stable current)
             | Reconciling current \<Rightarrow> Some (rc_stable current)
             | _ \<Rightarrow> None)
      in case settled_of of
           None \<Rightarrow> T_Retired
         | Some settled \<Rightarrow>
             (if er_kind error = CF_RollbackFailed
              then T_RecoveryRequired (RecoveryRequired
                     \<lparr>rr_error = Some error, rr_next_operation_id = sc_next_operation_id settled,
                      rr_projection = terminal
                        \<lparr>cu_capture_operation := (cu_capture_operation terminal)
                           \<lparr>os_failure := Some (er_kind error), os_phase := OP_RecoveryRequired\<rparr>\<rparr>,
                      rr_revision = sc_revision settled\<rparr>)
              else T_Failed (Stable (settled
                     \<lparr>sc_last_error := Some error, sc_projection := failed_token token error\<rparr>))))"

text \<open>The second branch: the operation has already settled and its outer cleanup fails.\<close>

definition fail_terminal ::
  "capture_state \<Rightarrow> u64 \<Rightarrow> u64 \<Rightarrow> capture_error \<Rightarrow> capture_operation \<Rightarrow> capture_transition" where
  "fail_terminal state next_operation_id current_revision error token =
     (let terminal = projection state in
      if er_kind error = CF_RollbackFailed
      then T_RecoveryRequired (RecoveryRequired
             \<lparr>rr_error = Some error, rr_next_operation_id = next_operation_id,
              rr_projection = terminal
                \<lparr>cu_capture_operation := (cu_capture_operation terminal)
                   \<lparr>os_phase := OP_RecoveryRequired\<rparr>\<rparr>,
              rr_revision = current_revision\<rparr>)
      else T_Failed (Stable
             \<lparr>sc_last_error = Some error, sc_projection = failed_token token error,
              sc_next_operation_id = next_operation_id, sc_revision = current_revision\<rparr>))"

text \<open>The last branch: the operation is still reserved or in its preflight.\<close>

definition fail_reserved :: "capture_state \<Rightarrow> capture_error \<Rightarrow> capture_operation \<Rightarrow> capture_transition" where
  "fail_reserved state error token =
     (case state of
        Transitioning current \<Rightarrow>
          (if \<not> same_operation (ao_correlation (tc_operation current)) (co_correlation token) then T_Retired
           else if tc_stage current = Preflighting
           then (if tc_deferred_failure current \<noteq> None then T_Unchanged
                 else T_EffectEmitting
                        (Transitioning (current\<lparr>tc_deferred_failure := Some error\<rparr>))
                        (batch_one (CancelEffect
                           (with_effect (ao_correlation (tc_operation current)) PREFLIGHT_EFFECT_ID))))
           else if tc_stage current \<noteq> Reserved then T_Retired
           else end_failed (tc_stable current) ((tc_operation current)\<lparr>ao_mode := Ordinary\<rparr>)
                  (ao_previous (tc_operation current)) error)
      | _ \<Rightarrow> T_Retired)"

definition reduce_fail_reserved ::
  "capture_state \<Rightarrow> capture_error \<Rightarrow> capture_operation \<Rightarrow> capture_transition" where
  "reduce_fail_reserved state error token =
     (let terminal = projection state in
      if names_token terminal token \<and> status_phase terminal = OP_Finalizing
      then fail_finalizing state error token
      else
        (let matches_terminal = names_token terminal token \<and> status_phase terminal \<noteq> OP_Pending in
         case state of
           Stable current \<Rightarrow>
             (if matches_terminal
              then fail_terminal state (sc_next_operation_id current) (sc_revision current) error token
              else fail_reserved state error token)
         | RecoveryRequired current \<Rightarrow>
             (if matches_terminal
              then fail_terminal state (rr_next_operation_id current) (rr_revision current) error token
              else fail_reserved state error token)
         | _ \<Rightarrow> fail_reserved state error token))"

definition reduce_mark_finalizing ::
  "capture_state \<Rightarrow> capture_error \<Rightarrow> capture_operation \<Rightarrow> capture_transition" where
  "reduce_mark_finalizing state error token =
     (case state of
        Transitioning current \<Rightarrow>
          (if token_matches token (tc_operation current)
           then T_Accepted (Transitioning
                  (current\<lparr>tc_operation := operation_marked_finalizing (tc_operation current) error\<rparr>))
           else T_Retired)
      | Reconciling current \<Rightarrow>
          (if token_matches token (rc_operation current)
           then T_Accepted (Reconciling
                  (current\<lparr>rc_operation := operation_marked_finalizing (rc_operation current) error\<rparr>))
           else T_Retired)
      | Stable current \<Rightarrow>
          (if names_token (sc_projection current) token \<and> status_phase (sc_projection current) = OP_Finalizing
           then T_Accepted (Stable (current
                  \<lparr>sc_last_error := Some error,
                   sc_projection := (sc_projection current)
                     \<lparr>cu_capture_operation := (cu_capture_operation (sc_projection current))
                        \<lparr>os_failure := Some (er_kind error)\<rparr>\<rparr>\<rparr>))
           else T_Retired)
      | _ \<Rightarrow> T_Retired)"

text \<open>\<open>is_recovery\<close> tells \<^verbatim>\<open>RecoveryFinished\<close> from \<^verbatim>\<open>MutationFinished\<close>, which share the arm.\<close>

definition reduce_mutation_finished ::
  "capture_state \<Rightarrow> bool \<Rightarrow> correlation \<Rightarrow> effect_outcome \<Rightarrow> capture_transition" where
  "reduce_mutation_finished state is_recovery c outcome =
     (case state of
        Transitioning current \<Rightarrow>
          (if \<not> matching (tc_operation current) c (if is_recovery then RECOVERY_EFFECT_ID else MUTATION_EFFECT_ID)
           then T_Retired
           else case ex_error outcome of
             None \<Rightarrow>
               (let operation =
                  (if is_recovery
                   then (tc_operation current)\<lparr>ao_request :=
                          \<lparr>cq_active = ps_desired (cu_system_proxy (ex_status outcome))
                             \<or> tn_desired (cu_tun (ex_status outcome)),
                           cq_selection = cu_capture_selection (ex_status outcome)\<rparr>\<rparr>
                   else tc_operation current)
                in T_EffectEmitting
                     (Reconciling \<lparr>rc_operation = operation, rc_stable = tc_stable current\<rparr>)
                     (batch_one (ObserveEffect True
                        (with_effect (ao_correlation (tc_operation current)) OBSERVATION_EFFECT_ID)
                        (ao_request operation))))
           | Some error \<Rightarrow>
               end_failed (tc_stable current) (tc_operation current) (ex_status outcome) error)
      | _ \<Rightarrow> T_Retired)"

definition reduce_observation_finished ::
  "capture_state \<Rightarrow> correlation \<Rightarrow> effect_outcome \<Rightarrow> capture_transition" where
  "reduce_observation_finished state c outcome =
     (case state of
        Reconciling current \<Rightarrow>
          (if \<not> matching (rc_operation current) c OBSERVATION_EFFECT_ID then T_Retired
           else case ex_error outcome of
             None \<Rightarrow>
               T_Committed (finish (rc_stable current) (rc_operation current) (ex_status outcome) OP_Applied)
           | Some error \<Rightarrow>
               T_RecoveryRequired
                 (recovery (rc_stable current) (rc_operation current) (ex_status outcome) error))
      | _ \<Rightarrow> T_Retired)"

text \<open>The request an audit or a recovery derives from the confirmed projection.\<close>

definition confirmed_request :: "stable_capture \<Rightarrow> capture_request" where
  "confirmed_request b =
     \<lparr>cq_active = ps_desired (cu_system_proxy (sc_projection b)) \<or> tn_desired (cu_tun (sc_projection b)),
      cq_selection = cu_capture_selection (sc_projection b)\<rparr>"

definition reduce_audit :: "capture_machine \<Rightarrow> capture_state \<Rightarrow> bool \<Rightarrow> audit_reason \<Rightarrow> capture_transition" where
  "reduce_audit self state core_healthy reason =
     (case base state of
        None \<Rightarrow> T_Unchanged
      | Some b \<Rightarrow>
          (case machine_operation self b (confirmed_request b) Ordinary (Some ''audit'') of
             Inl _ \<Rightarrow> T_Rejected runtime_transition_error
           | Inr (settled, operation) \<Rightarrow>
               (let operation = operation\<lparr>ao_pending := ao_previous operation\<rparr> in
                T_EffectEmitting
                  (Reconciling \<lparr>rc_operation = operation, rc_stable = settled\<rparr>)
                  (batch_one (AuditEffect core_healthy
                     (with_effect (ao_correlation operation) AUDIT_EFFECT_ID) (sc_projection b) reason)))))"

definition reduce_audit_finished ::
  "capture_state \<Rightarrow> correlation \<Rightarrow> audit_outcome \<Rightarrow> capture_transition option" where
  "reduce_audit_finished state c outcome =
     (case state of
        Reconciling current \<Rightarrow>
          (if \<not> matching (rc_operation current) c AUDIT_EFFECT_ID then Some T_Retired
           else if \<not> (ax_mutated outcome \<or> ax_error outcome \<noteq> None) then withdraw current
           else
             (let operation = (rc_operation current)\<lparr>ao_pending := ao_public_pending (rc_operation current)\<rparr> in
              Some (T_EffectEmitting
                (Transitioning
                   \<lparr>tc_deferred_failure = None, tc_operation = operation, tc_stable = rc_stable current,
                    tc_stage = Mutating\<rparr>)
                (batch_one (CommitAuditEffect
                   (with_effect (ao_correlation operation) AUDIT_COMMIT_EFFECT_ID) outcome)))))
      | _ \<Rightarrow> Some T_Retired)"

definition reduce_audit_committed ::
  "capture_state \<Rightarrow> correlation \<Rightarrow> audit_outcome \<Rightarrow> capture_transition" where
  "reduce_audit_committed state c outcome =
     (case state of
        Transitioning current \<Rightarrow>
          (if \<not> matching (tc_operation current) c AUDIT_COMMIT_EFFECT_ID then T_Retired
           else case ax_error outcome of
             Some error \<Rightarrow>
               T_RecoveryRequired
                 (recovery (tc_stable current) (tc_operation current) (ax_status outcome) error)
           | None \<Rightarrow>
               (let phase =
                  (if ps_phase (cu_system_proxy (ax_status outcome)) = SP_Drift
                      \<or> tn_phase (cu_tun (ax_status outcome)) = TP_Drift
                   then OP_RecoveryRequired else OP_Applied);
                    next = finish (tc_stable current) (tc_operation current) (ax_status outcome) phase
                in if phase = OP_RecoveryRequired then T_RecoveryRequired next else T_Committed next))
      | _ \<Rightarrow> T_Retired)"

definition reduce_recover ::
  "capture_machine \<Rightarrow> capture_state \<Rightarrow> recovery_action \<Rightarrow> bool \<Rightarrow> capture_transition" where
  "reduce_recover self state action core_healthy =
     (case base state of
        None \<Rightarrow> T_Rejected runtime_transition_error
      | Some b \<Rightarrow>
          (case machine_operation self b (confirmed_request b) Ordinary None of
             Inl _ \<Rightarrow> T_Rejected runtime_transition_error
           | Inr (settled, operation) \<Rightarrow>
               T_EffectEmitting
                 (Transitioning
                    \<lparr>tc_deferred_failure = None, tc_operation = operation, tc_stable = settled,
                     tc_stage = Mutating\<rparr>)
                 (batch_one (RecoverEffect action core_healthy
                    (with_effect (ao_correlation operation) RECOVERY_EFFECT_ID) (confirmed_request b)))))"

text \<open>The end of an effect that will not report, common to \<^verbatim>\<open>TaskFailed\<close> and \<^verbatim>\<open>TaskCancelled\<close>.\<close>

definition lost_effect :: "capture_state \<Rightarrow> correlation \<Rightarrow> capture_error \<Rightarrow> capture_transition" where
  "lost_effect state c lost =
     (case state of
        Transitioning current \<Rightarrow>
          (if \<not> same_operation (ao_correlation (tc_operation current)) c then T_Retired
           else case tc_deferred_failure current of
             None \<Rightarrow> finalizer (tc_stable current) (tc_operation current) lost
           | Some error \<Rightarrow>
               (if tc_stage current = Preflighting \<and> effect_id c = PREFLIGHT_EFFECT_ID
                then end_failed (tc_stable current) (tc_operation current)
                       (ao_previous (tc_operation current)) error
                else finalizer (tc_stable current) (tc_operation current) lost))
      | Reconciling current \<Rightarrow>
          (if \<not> same_operation (ao_correlation (rc_operation current)) c then T_Retired
           else finalizer (rc_stable current) (rc_operation current) lost)
      | _ \<Rightarrow> T_Retired)"

definition reduce_task_failed :: "capture_state \<Rightarrow> correlation \<Rightarrow> task_failure \<Rightarrow> capture_transition" where
  "reduce_task_failed state c failure =
     (if operation_id c = ''shutdown''
      then (case state of
              ShuttingDown current \<Rightarrow>
                (if sd_correlation current \<noteq> c then T_Retired
                 else T_Failed (RetiredCapture
                        \<lparr>rt_error = Some (task_failure_error failure), rt_projection = sd_projection current\<rparr>))
            | _ \<Rightarrow> T_Retired)
      else lost_effect state c (task_failure_error failure))"

definition reduce_task_cancelled :: "capture_state \<Rightarrow> correlation \<Rightarrow> capture_transition" where
  "reduce_task_cancelled state c =
     lost_effect state c
       (error_new CF_RuntimeTransition ''Capture operation was cancelled before completion'')"

definition reduce_finalized :: "capture_state \<Rightarrow> correlation \<Rightarrow> effect_outcome \<Rightarrow> capture_transition" where
  "reduce_finalized state c outcome =
     (case state of
        Transitioning current \<Rightarrow>
          (if tc_stage current \<noteq> Finalizing \<or> \<not> matching (tc_operation current) c FINALIZER_EFFECT_ID
           then T_Retired
           else T_RecoveryRequired
                  (recovery (tc_stable current) (tc_operation current) (ex_status outcome)
                     (unwrap_or (ex_error outcome)
                        (error_new CF_RuntimeTransition
                           ''Capture effect was cancelled or terminated before completion''))))
      | _ \<Rightarrow> T_Retired)"

text \<open>The correlation the shutdown arm cancels.\<close>

definition shutdown_target :: "capture_state \<Rightarrow> correlation option" where
  "shutdown_target state =
     (case state of
        Transitioning current \<Rightarrow>
          (let c = ao_correlation (tc_operation current) in
           Some (case tc_stage current of
                   Reserved \<Rightarrow> c
                 | Preflighting \<Rightarrow> with_effect c PREFLIGHT_EFFECT_ID
                 | Mutating \<Rightarrow> with_effect c MUTATION_EFFECT_ID
                 | Finalizing \<Rightarrow> with_effect c FINALIZER_EFFECT_ID))
      | Reconciling current \<Rightarrow> Some (with_effect (ao_correlation (rc_operation current)) OBSERVATION_EFFECT_ID)
      | _ \<Rightarrow> None)"

definition shutdown_correlation :: "capture_machine \<Rightarrow> capture_state \<Rightarrow> correlation" where
  "shutdown_correlation self state =
     \<lparr>machine_authority = cm_machine_authority self, scope_epoch = cm_scope_epoch self,
      operation_id = ''shutdown'', admitted_revision = saturating_add (revision state) 1,
      effect_id = SHUTDOWN_EFFECT_ID\<rparr>"

definition reduce_shutdown :: "capture_machine \<Rightarrow> capture_state \<Rightarrow> capture_transition" where
  "reduce_shutdown self state =
     (let status = confirmed_projection state;
          c = shutdown_correlation self state;
          shutdown = ShutdownEffect c status
      in T_EffectEmitting
           (ShuttingDown \<lparr>sd_correlation = c, sd_projection = status\<rparr>)
           (case shutdown_target state of
              Some target \<Rightarrow> batch_from_first (CancelEffect target) [shutdown]
            | None \<Rightarrow> batch_one shutdown))"

definition reduce_shutdown_finished ::
  "capture_state \<Rightarrow> correlation \<Rightarrow> capture_error + capture_status \<Rightarrow> capture_transition" where
  "reduce_shutdown_finished state c result =
     (case state of
        ShuttingDown current \<Rightarrow>
          (if sd_correlation current \<noteq> c then T_Retired
           else case result of
             Inr status \<Rightarrow> T_Cancelled (RetiredCapture \<lparr>rt_error = None, rt_projection = status\<rparr>)
           | Inl error \<Rightarrow>
               T_Failed (RetiredCapture \<lparr>rt_error = Some error, rt_projection = sd_projection current\<rparr>))
      | _ \<Rightarrow> T_Retired)"

primrec machine_reduce ::
  "capture_machine \<Rightarrow> capture_state \<Rightarrow> capture_input \<Rightarrow> capture_transition option" where
  "machine_reduce self state (Preflight cancellation reply request) =
     reduce_preflight self state cancellation reply request"
| "machine_reduce self state (PreflightFinished c) = reduce_preflight_finished state c"
| "machine_reduce self state (Reserve request mode) = Some (reduce_reserve self state request mode)"
| "machine_reduce self state (Start core_healthy mode operation_prefix preflight request) =
     Some (reduce_start self state core_healthy mode operation_prefix preflight request)"
| "machine_reduce self state (ExecuteReserved core_healthy token preflight request) =
     Some (reduce_execute_reserved state core_healthy token preflight request)"
| "machine_reduce self state (FailReserved error token) = Some (reduce_fail_reserved state error token)"
| "machine_reduce self state (MarkFinalizing error token) = Some (reduce_mark_finalizing state error token)"
| "machine_reduce self state (MutationFinished c outcome) =
     Some (reduce_mutation_finished state False c outcome)"
| "machine_reduce self state (ObservationFinished c outcome) =
     Some (reduce_observation_finished state c outcome)"
| "machine_reduce self state (Audit core_healthy reason) = Some (reduce_audit self state core_healthy reason)"
| "machine_reduce self state (AuditFinished c outcome) = reduce_audit_finished state c outcome"
| "machine_reduce self state (AuditCommitted c outcome) = Some (reduce_audit_committed state c outcome)"
| "machine_reduce self state (Recover action core_healthy) =
     Some (reduce_recover self state action core_healthy)"
| "machine_reduce self state (RecoveryFinished c outcome) =
     Some (reduce_mutation_finished state True c outcome)"
| "machine_reduce self state (Finalized c outcome) = Some (reduce_finalized state c outcome)"
| "machine_reduce self state (TaskFailed c failure) = Some (reduce_task_failed state c failure)"
| "machine_reduce self state (TaskCancelled c) = Some (reduce_task_cancelled state c)"
| "machine_reduce self state CaptureShutdown = Some (reduce_shutdown self state)"
| "machine_reduce self state (ShutdownFinished c result) = Some (reduce_shutdown_finished state c result)"

section \<open>The rest of the interface\<close>

definition input_correlation :: "capture_state \<Rightarrow> capture_input \<Rightarrow> correlation option" where
  "input_correlation state i =
     (case i of
        PreflightFinished c \<Rightarrow> Some c
      | ExecuteReserved _ token _ _ \<Rightarrow> Some (co_correlation token)
      | FailReserved _ token \<Rightarrow> Some (co_correlation token)
      | MarkFinalizing _ token \<Rightarrow> Some (co_correlation token)
      | MutationFinished c _ \<Rightarrow> Some c
      | ObservationFinished c _ \<Rightarrow> Some c
      | AuditFinished c _ \<Rightarrow> Some c
      | AuditCommitted c _ \<Rightarrow> Some c
      | RecoveryFinished c _ \<Rightarrow> Some c
      | Finalized c _ \<Rightarrow> Some c
      | TaskFailed c _ \<Rightarrow> Some c
      | TaskCancelled c \<Rightarrow> Some c
      | ShutdownFinished c _ \<Rightarrow> Some c
      | _ \<Rightarrow> None)"

definition effect_is_current :: "capture_state \<Rightarrow> correlation \<Rightarrow> bool" where
  "effect_is_current state c =
     (case state of
        Transitioning current \<Rightarrow>
          (case tc_stage current of
             Reserved \<Rightarrow> False
           | Preflighting \<Rightarrow> effect_id c = PREFLIGHT_EFFECT_ID
           | Mutating \<Rightarrow>
               effect_id c = MUTATION_EFFECT_ID \<or> effect_id c = RECOVERY_EFFECT_ID
               \<or> effect_id c = AUDIT_COMMIT_EFFECT_ID
           | Finalizing \<Rightarrow> effect_id c = FINALIZER_EFFECT_ID)
          \<and> same_operation (ao_correlation (tc_operation current)) c
      | Reconciling current \<Rightarrow>
          (effect_id c = PREFLIGHT_EFFECT_ID \<or> effect_id c = OBSERVATION_EFFECT_ID
           \<or> effect_id c = AUDIT_EFFECT_ID)
          \<and> same_operation (ao_correlation (rc_operation current)) c
      | ShuttingDown current \<Rightarrow> sd_correlation current = c
      | _ \<Rightarrow> False)"

definition capture :: "capture_machine \<Rightarrow> (capture_state, capture_input, capture_effect, capture_error) machine" where
  "capture self =
     \<lparr>m_reduce = machine_reduce self, m_input_correlation = input_correlation,
      m_effect_is_current = effect_is_current, m_task_failed = TaskFailed, m_shutdown = CaptureShutdown,
      m_unavailable = runtime_transition_error, m_correlation = effect_correlation, m_mode = effect_mode_of\<rparr>"

text \<open>
  \<^verbatim>\<open>CaptureProjectionObserver::transitioned\<close> outside its test feature: the new revision of the
  update counter, the status handed to the confirmed observer and the status broadcast.
\<close>

definition observer_transitioned ::
  "capture_state \<Rightarrow> capture_state \<Rightarrow> u64 \<Rightarrow> u64 \<times> capture_status option \<times> capture_status option" where
  "observer_transitioned previous current updates =
     (let before = projection previous; after = projection current in
      (saturating_add updates 1,
       if before = after then None
       else if \<not> (status_phase after = OP_Pending \<or> status_phase after = OP_Finalizing)
          \<and> (case current of ShuttingDown _ \<Rightarrow> False | RetiredCapture _ \<Rightarrow> False | _ \<Rightarrow> True)
       then Some after else None,
       if before = after then None else Some after))"

section \<open>The handle\<close>

text \<open>The state a reconciler starts its machine in: idle under the authority of the machine.\<close>

definition capture_initial :: "capture_machine \<Rightarrow> capture_status \<Rightarrow> capture_state" where
  "capture_initial self status =
     Stable \<lparr>sc_last_error = None,
             sc_projection = status\<lparr>cu_capture_operation := operation_idle (cm_machine_authority self)\<rparr>,
             sc_next_operation_id = 1, sc_revision = 0\<rparr>"

text \<open>
  One turn of the loop of \<^verbatim>\<open>wait_for_operation\<close> on the snapshot it reads: \<open>None\<close> while the
  operation is active, otherwise what the waiting caller is told.
\<close>

definition wait_for_operation ::
  "capture_operation \<Rightarrow> capture_state \<Rightarrow> (capture_error + capture_status) option" where
  "wait_for_operation operation state =
     (if is_some_and (active_operation_of state) (token_matches operation) then None
      else Some (case last_error state of
                   Some error \<Rightarrow> Inl error
                 | None \<Rightarrow> Inr (projection state)))"

definition has_pending_operation :: "capture_state \<Rightarrow> bool" where
  "has_pending_operation state \<longleftrightarrow>
     active_operation_of state \<noteq> None \<or> is_busy (cu_capture_operation (projection state))"

text \<open>
  The inputs the handle admits: \<^verbatim>\<open>preflight_cancellable\<close>, \<^verbatim>\<open>admit_operation\<close>,
  \<^verbatim>\<open>start_and_wait\<close>, \<^verbatim>\<open>reconcile_admitted_with_preflight\<close>, \<^verbatim>\<open>finish_operation_failure\<close>,
  \<^verbatim>\<open>mark_operation_finalizing\<close>, \<^verbatim>\<open>audit\<close> and \<^verbatim>\<open>recover\<close>.
\<close>

definition capture_command :: "capture_input \<Rightarrow> bool" where
  "capture_command i =
     (case i of
        Preflight _ _ _ \<Rightarrow> True
      | Reserve _ _ \<Rightarrow> True
      | Start _ _ _ _ _ \<Rightarrow> True
      | ExecuteReserved _ _ _ _ \<Rightarrow> True
      | FailReserved _ _ \<Rightarrow> True
      | MarkFinalizing _ _ \<Rightarrow> True
      | Audit _ _ \<Rightarrow> True
      | Recover _ _ \<Rightarrow> True
      | _ \<Rightarrow> False)"

section \<open>Lemmas\<close>

lemma capture_sel [machine_simps]:
  "m_reduce (capture self) = machine_reduce self"
  "m_input_correlation (capture self) = input_correlation"
  "m_effect_is_current (capture self) = effect_is_current"
  "m_task_failed (capture self) = TaskFailed"
  "m_shutdown (capture self) = CaptureShutdown"
  "m_correlation (capture self) = effect_correlation"
  "m_mode (capture self) = effect_mode_of"
  by (simp_all add: capture_def)

lemma effect_mode_simps [simp]:
  "effect_mode_of (PreflightEffect token c reply q) = Spawn"
  "effect_mode_of (MutateEffect h c pre status q) = Spawn"
  "effect_mode_of (ObserveEffect h c q) = Spawn"
  "effect_mode_of (AuditEffect h c status reason) = Spawn"
  "effect_mode_of (CommitAuditEffect c oc) = Spawn"
  "effect_mode_of (RecoverEffect action h c q) = Spawn"
  "effect_mode_of (FinalizeEffect h c q) = Spawn"
  "effect_mode_of (CancelEffect c) = Cancel"
  "effect_mode_of (ShutdownEffect c status) = Spawn"
  by (simp_all add: effect_mode_of_def)

lemmas capture_ids = MUTATION_EFFECT_ID_def OBSERVATION_EFFECT_ID_def AUDIT_EFFECT_ID_def
  RECOVERY_EFFECT_ID_def FINALIZER_EFFECT_ID_def SHUTDOWN_EFFECT_ID_def AUDIT_COMMIT_EFFECT_ID_def
  PREFLIGHT_EFFECT_ID_def

text \<open>The counters of an active operation are those of its admission.\<close>

definition operation_ok :: "active_operation \<Rightarrow> stable_capture \<Rightarrow> bool" where
  "operation_ok operation settled \<longleftrightarrow>
     1 \<le> sc_next_operation_id settled \<and> 1 \<le> sc_revision settled
     \<and> admitted_revision (ao_correlation operation) = sc_revision settled
     \<and> operation_id (ao_correlation operation) \<noteq> ''shutdown''"

fun capture_inv :: "capture_state \<Rightarrow> bool" where
  "capture_inv (Transitioning current) = operation_ok (tc_operation current) (tc_stable current)"
| "capture_inv (Reconciling current) = operation_ok (rc_operation current) (rc_stable current)"
| "capture_inv _ = True"

lemma machine_operation_InrE:
  assumes "machine_operation self b request mode label = Inr (settled, operation)"
  obtains "operation_ok operation settled" and "effect_id (ao_correlation operation) = 0"
    and "checked_add (sc_next_operation_id b) 1 = Some (sc_next_operation_id settled)"
    and "checked_add (sc_revision b) 1 = Some (sc_revision settled)"
    and "ao_previous operation = sc_projection b" and "ao_mode operation = mode"
    and "ao_request operation = request"
    and "ao_public_operation_id operation = u64_to_string (sc_next_operation_id b)"
    and "sc_projection settled = sc_projection b"
proof -
  have "u64_to_string n \<noteq> ''shutdown''" and "l @ ''-'' @ u64_to_string n \<noteq> ''shutdown''" for n l
  proof -
    show "u64_to_string n \<noteq> ''shutdown''"
      by (rule u64_to_string_neq_word) simp
    have "CHR ''-'' \<in> set (l @ ''-'' @ u64_to_string n)" and "CHR ''-'' \<notin> set ''shutdown''"
      by simp_all
    then show "l @ ''-'' @ u64_to_string n \<noteq> ''shutdown''"
      by metis
  qed
  then show thesis
    using that assms
    by (auto simp: machine_operation_def Let_def operation_ok_def checked_add_1_ge_1
        split: option.splits)
qed

lemma settled_states [simp]:
  "capture_inv (finish st op status phase)"
  "capture_inv (recovery st op status err)"
  "capture_inv (failed st op status err)"
  "active_operation_of (finish st op status phase) = None"
  "active_operation_of (recovery st op status err) = None"
  "active_operation_of (failed st op status err) = None"
  by (simp_all add: finish_def recovery_def failed_def Let_def)

lemma operation_marked_sel [simp]:
  "ao_correlation (operation_marked_finalizing op err) = ao_correlation op"
  "ao_mode (operation_marked_finalizing op err) = ao_mode op"
  "ao_previous (operation_marked_finalizing op err) = ao_previous op"
  "ao_public_pending (operation_marked_finalizing op err) = ao_public_pending op"
  "ao_public_operation_id (operation_marked_finalizing op err) = ao_public_operation_id op"
  "ao_request (operation_marked_finalizing op err) = ao_request op"
  "operation_ok (operation_marked_finalizing op err) st = operation_ok op st"
  by (simp_all add: operation_marked_finalizing_def Let_def operation_ok_def)

lemma operation_ok_update [simp]:
  "operation_ok (op\<lparr>ao_pending := p\<rparr>) st = operation_ok op st"
  "operation_ok (op\<lparr>ao_request := q\<rparr>) st = operation_ok op st"
  by (simp_all add: operation_ok_def)

lemma end_failed_next [simp]:
  "next_state s (end_failed st op status err) =
     (if er_kind err = CF_RollbackFailed then recovery st op status err else failed st op status err)"
  "emitted (end_failed st op status err) = []"
  "capture_inv (next_state s (end_failed st op status err))"
  by (simp_all add: end_failed_def)

lemma finalizer_next [simp]:
  "next_state s (finalizer st op err) =
     Transitioning \<lparr>tc_deferred_failure = None, tc_operation = operation_marked_finalizing op err,
       tc_stable = st, tc_stage = Finalizing\<rparr>"
  "emitted (finalizer st op err) =
     [FinalizeEffect False (with_effect (ao_correlation op) FINALIZER_EFFECT_ID) (ao_request op)]"
  by (simp_all add: finalizer_def)

lemma withdraw_ok:
  assumes "operation_ok (rc_operation current) (rc_stable current)"
  shows "withdraw current = Some (T_Accepted (Stable
     \<lparr>sc_last_error = None, sc_projection = ao_previous (rc_operation current),
      sc_next_operation_id = sc_next_operation_id (rc_stable current) - 1,
      sc_revision = sc_revision (rc_stable current) - 1\<rparr>))"
  using assms by (simp add: withdraw_def operation_ok_def checked_sub_def)

lemma base_inactive: "base s = Some b \<Longrightarrow> active_operation_of s = None"
  by (cases s) simp_all

text \<open>Every arm keeps the counters of an active operation positive.\<close>

lemma reduce_preflight_inv:
  "reduce_preflight self s tok reply q = Some t \<Longrightarrow> capture_inv s \<Longrightarrow> capture_inv (next_state s t)"
  by (cases s) (auto simp: reduce_preflight_def Let_def elim!: machine_operation_InrE
      split: option.splits sum.splits if_splits)

lemma reduce_preflight_finished_inv:
  "reduce_preflight_finished s c = Some t \<Longrightarrow> capture_inv s \<Longrightarrow> capture_inv (next_state s t)"
  by (cases s) (auto simp: reduce_preflight_finished_def withdraw_ok split: option.splits if_splits)

lemma reduce_admission_inv:
  "capture_inv s \<Longrightarrow> capture_inv (next_state s (reduce_reserve self s q mode))"
  "capture_inv s \<Longrightarrow> capture_inv (next_state s (reduce_start self s h mode label pre q))"
  "capture_inv s \<Longrightarrow> capture_inv (next_state s (reduce_audit self s h reason))"
  "capture_inv s \<Longrightarrow> capture_inv (next_state s (reduce_recover self s action h))"
  by (auto simp: reduce_reserve_def reduce_start_def reduce_audit_def reduce_recover_def Let_def
      elim!: machine_operation_InrE split: option.split sum.split)

lemma reduce_token_inv:
  "capture_inv s \<Longrightarrow> capture_inv (next_state s (reduce_execute_reserved s h token pre q))"
  "capture_inv s \<Longrightarrow> capture_inv (next_state s (reduce_fail_reserved s err token))"
  "capture_inv s \<Longrightarrow> capture_inv (next_state s (reduce_mark_finalizing s err token))"
  by (cases s; simp add: reduce_execute_reserved_def reduce_fail_reserved_def fail_finalizing_def
      fail_terminal_def fail_reserved_def reduce_mark_finalizing_def Let_def)+

lemma reduce_report_inv:
  "capture_inv s \<Longrightarrow> capture_inv (next_state s (reduce_mutation_finished s is_recovery c oc))"
  "capture_inv s \<Longrightarrow> capture_inv (next_state s (reduce_observation_finished s c oc))"
  "capture_inv s \<Longrightarrow> capture_inv (next_state s (reduce_audit_committed s c ax))"
  "capture_inv s \<Longrightarrow> capture_inv (next_state s (reduce_finalized s c oc))"
  "capture_inv s \<Longrightarrow> capture_inv (next_state s (reduce_shutdown_finished s c result))"
  "capture_inv s \<Longrightarrow> capture_inv (next_state s (lost_effect s c err))"
  by (cases s; simp add: reduce_mutation_finished_def reduce_observation_finished_def
      reduce_audit_committed_def reduce_finalized_def reduce_shutdown_finished_def lost_effect_def Let_def
      split: option.split sum.split)+

lemma reduce_audit_finished_inv:
  "reduce_audit_finished s c oc = Some t \<Longrightarrow> capture_inv s \<Longrightarrow> capture_inv (next_state s t)"
  by (cases s) (auto simp: reduce_audit_finished_def withdraw_ok Let_def split: if_splits)

lemma capture_reduce_inv:
  assumes "capture_inv s" and "machine_reduce self s i = Some t"
  shows "capture_inv (next_state s t)"
proof (cases i)
  case (TaskFailed c f)
  then show ?thesis
    using assms reduce_report_inv(6)
    by (cases s) (auto simp: reduce_task_failed_def split: if_splits)
next
  case CaptureShutdown
  then show ?thesis using assms by (auto simp: reduce_shutdown_def Let_def)
next
  case (TaskCancelled c)
  then show ?thesis using assms reduce_report_inv(6) by (auto simp: reduce_task_cancelled_def)
qed (use assms in \<open>auto intro: reduce_preflight_inv reduce_preflight_finished_inv reduce_admission_inv
      reduce_token_inv reduce_report_inv reduce_audit_finished_inv\<close>)

interpretation cap: machine_contract "capture self" capture_inv for self
  by unfold_locales (simp add: machine_simps capture_reduce_inv)

text \<open>The only state and input on which the reducer panics.\<close>

lemma capture_panic_iff:
  assumes "capture_inv s"
  shows "machine_reduce self s i = None \<longleftrightarrow>
    (\<exists>st token reply q. s = Stable st \<and> is_busy (cu_capture_operation (sc_projection st))
       \<and> i = Preflight token reply q)"
proof (cases i)
  case (Preflight token reply q)
  then show ?thesis
    by (cases s) (auto simp: reduce_preflight_def Let_def split: option.split)
next
  case (PreflightFinished c)
  then show ?thesis
    using assms by (cases s) (auto simp: reduce_preflight_finished_def withdraw_ok)
next
  case (AuditFinished c oc)
  then show ?thesis
    using assms by (cases s) (auto simp: reduce_audit_finished_def withdraw_ok Let_def)
qed simp_all

end
