(* ===== verification/Kernel_Settlement.thy ===== *)
theory Kernel_Settlement
  imports Kernel_Laws "HOL-Library.Multiset"
begin

text \<open>
  The tasks of a runner as a multiset of effects: what a command adds to it, and what the
  settlement of an answered task takes from it and adds to it. For machines that keep more
  than one task in flight, invariants over all tasks are stated on this multiset.
\<close>

definition effects_in_flight :: "('s, 'i, 'e) runner \<Rightarrow> 'e multiset" where
  "effects_in_flight r = mset (map snd (rn_tasks r))"

definition spawned :: "('s, 'i, 'e, 'err) machine \<Rightarrow> ('s, 'e, 'err) transition \<Rightarrow> 'e multiset" where
  "spawned m t = mset (filter (\<lambda>e. m_mode m e = Spawn) (emitted t))"

lemma effects_in_flight_simps [simp]:
  "effects_in_flight (initial_runner observer s) = {#}"
  "effects_in_flight (store_snapshot r) = effects_in_flight r"
  "effects_in_flight (published i t r) = effects_in_flight r"
  by (simp_all add: effects_in_flight_def initial_runner_def)

lemma effects_in_flight_run_effects:
  "effects_in_flight (run_effects m role es r) =
     effects_in_flight r + mset (filter (\<lambda>e. m_mode m e = Spawn) es)"
proof (induction es arbitrary: r)
  case (Cons e es)
  then show ?case
    by (cases "m_mode m e") (simp_all add: run_effect_def effects_in_flight_def)
qed simp

lemma mset_delete:
  "distinct (map fst xs) \<Longrightarrow> map_of xs n = Some e \<Longrightarrow>
     mset (map snd xs) = add_mset e (mset (map snd (AList.delete n xs)))"
proof (induction xs)
  case (Cons x xs)
  then show ?case
    by (cases x) (auto simp: delete_notin_dom [unfolded comp_def] image_iff dest: map_of_SomeD)
qed simp

text \<open>What a settled task leaves behind, in the terms of the machine.\<close>

lemma settled_task:
  assumes tr: "tracked m r" and ans: "answers answer (rn_tasks r) j"
    and fin: "finish_effect m False j (join_next j r) = Turned d r'"
  obtains e M i t where "effects_in_flight r = add_mset e M"
    and "m_reduce m (rn_state r) i = Some t"
    and "(answer e i \<and> m_effect_is_current m (rn_state r) (m_correlation m e))
       \<or> (\<exists>f. i = m_task_failed m (m_correlation m e) f)"
    and "rn_state r' = next_state (rn_state r) t"
    and "effects_in_flight r' = M + spawned m t"
    and "consumed r' = consumed r @ [i]"
proof -
  obtain e where e: "map_of (rn_tasks r) (joined_id j) = Some e"
    and good: "\<And>n i. j = Join_Ok n i \<Longrightarrow> answer e i"
    using ans by (auto simp: answers_def split: option.splits joined.splits)
  obtain task where task: "map_of (rn_owned r) (joined_id j) = Some task"
      "oe_correlation task = m_correlation m e"
    using tracked_task_owned [OF tr e] .
  define i role where "i = fst (completion_input m False (rn_state r) task j)"
    and "role = snd (completion_input m False (rn_state r) task j)"
  have i: "(answer e i \<and> m_effect_is_current m (rn_state r) (m_correlation m e))
       \<or> (\<exists>f. i = m_task_failed m (m_correlation m e) f)"
    using good task(2) by (cases j) (auto simp: i_def completion_input_def)
  have fin': "\<exists>t. m_reduce m (rn_state r) i = Some t \<and>
      r' = run_effects m role (emitted t)
        (published i t ((join_next j r)\<lparr>rn_owned := AList.delete (joined_id j) (rn_owned r)\<rparr>))"
    using fin task(1) by (auto simp: finish_effect_eq i_def role_def Let_def split: option.splits if_splits)
  then obtain t where t: "m_reduce m (rn_state r) i = Some t"
    and r': "r' = run_effects m role (emitted t)
        (published i t ((join_next j r)\<lparr>rn_owned := AList.delete (joined_id j) (rn_owned r)\<rparr>))"
    by blast
  have "effects_in_flight r = add_mset e (mset (map snd (AList.delete (joined_id j) (rn_tasks r))))"
    using mset_delete [OF tracked_distinct_tasks [OF tr] e] by (simp add: effects_in_flight_def)
  then show thesis
    using t i
    by (rule that)
      (simp_all add: r' effects_in_flight_run_effects spawned_def consumed_def,
        simp add: effects_in_flight_def)
qed

text \<open>A fact about the state and the calls on the observer only has to survive a published transition.\<close>

lemma runner_stable_published:
  assumes frame: "\<And>r r'. rn_state r' = rn_state r \<Longrightarrow> rn_observed r' = rn_observed r \<Longrightarrow> P r \<Longrightarrow> P r'"
    and pub: "\<And>r i t. P r \<Longrightarrow> m_reduce m (rn_state r) i = Some t \<Longrightarrow> P (published i t r)"
  shows "runner_stable m P"
proof -
  have run: "P (run_effects m role es r)" if "P r" for role es r
    by (rule frame [OF _ _ that]) simp_all
  have settle: "P (turn_runner (finish_effect m force j (join_next j r)))" if r: "P r" for force j r
  proof -
    let ?r = "(join_next j r)\<lparr>rn_owned := AList.delete (joined_id j) (rn_owned r)\<rparr>"
    have "P (join_next j r)" "P ?r"
      by (rule frame [OF _ _ r]; simp)+
    then show ?thesis
      by (cases rule: finish_effect_runner_cases [where m = m and force = force and j = j and r = "join_next j r"])
        (simp_all add: run pub)
  qed
  show ?thesis
    unfolding runner_stable_def
    by (intro conjI allI impI) (simp_all add: run pub settle, (erule frame [rotated 2]; simp)+)
qed

text \<open>
  A machine that keeps a relation between its state, the effects in flight and the inputs
  consumed so far, on every command and on every answered or lost effect.
\<close>

locale flight_contract =
  fixes m :: "('s, 'i, 'e, 'err) machine"
    and command :: "'i \<Rightarrow> bool"
    and answer :: "'e \<Rightarrow> 'i \<Rightarrow> bool"
    and flight :: "'s \<Rightarrow> 'e multiset \<Rightarrow> 'i list \<Rightarrow> bool"
  assumes command_flight:
      "flight s M h \<Longrightarrow> command i \<Longrightarrow> m_reduce m s i = Some t \<Longrightarrow>
         flight (next_state s t) (M + spawned m t) (h @ [i])"
    and settled_flight:
      "flight s (add_mset e M) h \<Longrightarrow>
         (answer e i \<and> m_effect_is_current m s (m_correlation m e))
         \<or> (\<exists>f. i = m_task_failed m (m_correlation m e) f) \<Longrightarrow>
         m_reduce m s i = Some t \<Longrightarrow>
         flight (next_state s t) (M + spawned m t) (h @ [i])"
begin

definition flying :: "('s, 'i, 'e) runner \<Rightarrow> bool" where
  "flying r \<longleftrightarrow> flight (rn_state r) (effects_in_flight r) (consumed r)"

lemma flying_stable: "environment_stable m command answer flying"
proof (rule environment_stableI, goal_cases)
  case (1 r i t)
  then show ?case
    using command_flight [of "rn_state r" "effects_in_flight r" "consumed r" i t]
    by (simp add: flying_def effects_in_flight_run_effects spawned_def)
next
  case (2 r j d r')
  obtain e M i t where "effects_in_flight r = add_mset e M"
    and "m_reduce m (rn_state r) i = Some t"
    and "(answer e i \<and> m_effect_is_current m (rn_state r) (m_correlation m e))
       \<or> (\<exists>f. i = m_task_failed m (m_correlation m e) f)"
    and "rn_state r' = next_state (rn_state r) t"
    and "effects_in_flight r' = M + spawned m t"
    and "consumed r' = consumed r @ [i]"
    by (rule settled_task [OF 2(1,3,4)])
  then show ?case
    using 2(2) settled_flight [of "rn_state r" e M "consumed r" i t] by (simp add: flying_def)
next
  case (3 r)
  then show ?case by (simp add: flying_def consumed_def)
qed

lemma running_flight:
  assumes "flight s0 {#} []" and "kernel_reach m capacity command answer s0 k" and "kn_actor k = Running"
  shows "flight (rn_state (kn_runner k)) (effects_in_flight (kn_runner k)) (consumed (kn_runner k))"
proof -
  have "flying (initial_runner observer s0)" for observer
    using assms(1) by (simp add: flying_def consumed_def initial_runner_def effects_in_flight_def)
  from running_environment_stable [OF flying_stable this assms(2,3)] show ?thesis
    by (simp add: flying_def)
qed

end

end
