(* ===== verification/Capture_Flight.thy ===== *)
theory Capture_Flight
  imports Capture_Machine Kernel_Settlement
begin

text \<open>
  The Capture machine together with the tasks the kernel runs for it: which effects are in
  flight in which state, what a command and the end of a task do to them, and which inputs
  back an applied status. The relation \<open>capture_flight\<close> is the machine's contract with its
  tasks; it is discharged for the model by the interpretation \<open>flights\<close>.
\<close>

section \<open>Tasks of the machine\<close>

abbreviation effect_revision :: "capture_effect \<Rightarrow> u64" where
  "effect_revision e \<equiv> admitted_revision (effect_correlation e)"

fun effect_number :: "capture_effect \<Rightarrow> u64" where
  "effect_number (PreflightEffect _ _ _ _) = PREFLIGHT_EFFECT_ID"
| "effect_number (MutateEffect _ _ _ _ _) = MUTATION_EFFECT_ID"
| "effect_number (ObserveEffect _ _ _) = OBSERVATION_EFFECT_ID"
| "effect_number (AuditEffect _ _ _ _) = AUDIT_EFFECT_ID"
| "effect_number (CommitAuditEffect _ _) = AUDIT_COMMIT_EFFECT_ID"
| "effect_number (RecoverEffect _ _ _ _) = RECOVERY_EFFECT_ID"
| "effect_number (FinalizeEffect _ _ _) = FINALIZER_EFFECT_ID"
| "effect_number (CancelEffect _) = 0"
| "effect_number (ShutdownEffect _ _) = SHUTDOWN_EFFECT_ID"

definition effect_wf :: "capture_effect \<Rightarrow> bool" where
  "effect_wf e \<longleftrightarrow> effect_id (effect_correlation e) = effect_number e"

text \<open>The states that wait for an effect.\<close>

fun waiting :: "capture_state \<Rightarrow> bool" where
  "waiting (Transitioning current) \<longleftrightarrow> tc_stage current \<noteq> Reserved"
| "waiting (Reconciling _) \<longleftrightarrow> True"
| "waiting _ \<longleftrightarrow> False"

fun retiring :: "capture_state \<Rightarrow> bool" where
  "retiring (ShuttingDown _) = True"
| "retiring (RetiredCapture _) = True"
| "retiring _ = False"

definition tasks_ok :: "capture_state \<Rightarrow> capture_effect multiset \<Rightarrow> bool" where
  "tasks_ok s M \<longleftrightarrow>
     capture_inv s \<and> \<not> retiring s
     \<and> (\<forall>e \<in># M. effect_wf e \<and> effect_revision e \<le> revision s)
     \<and> (active_operation_of s \<noteq> None \<longrightarrow>
          (if waiting s
           then \<exists>e. {#x \<in># M. effect_revision x = revision s#} = {#e#}
              \<and> effect_is_current s (effect_correlation e)
           else {#x \<in># M. effect_revision x = revision s#} = {#}))"

text \<open>
  How a step of the active operation moves on: it settles, possibly giving its number back,
  it starts its next effect, or it goes back to being reserved.
\<close>

definition moves :: "capture_state \<Rightarrow> capture_state \<Rightarrow> capture_effect list \<Rightarrow> bool" where
  "moves s s' es \<longleftrightarrow>
     capture_inv s' \<and> \<not> retiring s'
     \<and> (if active_operation_of s' = None
        then es = [] \<and> (revision s' = revision s \<or> revision s' = revision s - 1)
        else revision s' = revision s
          \<and> (if waiting s'
             then \<exists>e. es = [e] \<and> effect_wf e \<and> effect_revision e = revision s
                \<and> effect_is_current s' (effect_correlation e)
             else es = []))"

lemma current_revision:
  "effect_is_current s c \<Longrightarrow> \<not> retiring s \<Longrightarrow> waiting s \<and> active_operation_of s \<noteq> None \<and> admitted_revision c = revision s"
  by (cases s) (auto simp: effect_is_current_def same_operation_def split: transition_stage.splits)

lemma less_imp_le_minus_1:
  assumes "(a :: u64) < b"
  shows "a \<le> b - 1"
proof -
  have "1 \<le> b" and "unat a < unat b"
    using assms by (simp_all add: word_less_nat_alt word_le_nat_alt)
  then show ?thesis
    by (simp add: word_le_nat_alt unat_sub)
qed

lemma tasks_moved:
  assumes ok: "tasks_ok s (add_mset e M)" and cur: "effect_is_current s (effect_correlation e)"
    and moves: "moves s s' es"
  shows "tasks_ok s' (M + mset es)"
proof -
  have act: "waiting s" "active_operation_of s \<noteq> None" "effect_revision e = revision s"
    using current_revision [OF cur] ok by (simp_all add: tasks_ok_def)
  then have "{#x \<in># M. effect_revision x = revision s#} = {#}"
    using ok by (auto simp: tasks_ok_def)
  then have old: "\<forall>x \<in># M. effect_wf x \<and> effect_revision x < revision s"
    using ok by (auto simp: tasks_ok_def filter_mset_eq_mempty_iff order_le_less)
  then have none: "{#x \<in># M. effect_revision x = revision s#} = {#}"
    by auto
  show ?thesis
  proof (cases "active_operation_of s' = None")
    case True
    then show ?thesis
      using moves old less_imp_le_minus_1 by (fastforce simp: moves_def tasks_ok_def)
  next
    case False
    then show ?thesis
      using moves old none by (auto simp: moves_def tasks_ok_def order_le_less split: if_splits)
  qed
qed

abbreviation spawns :: "capture_transition \<Rightarrow> capture_effect list" where
  "spawns t \<equiv> filter (\<lambda>e. effect_mode_of e = Spawn) (emitted t)"

lemma same_operation_revision: "same_operation a b \<Longrightarrow> admitted_revision a = admitted_revision b"
  by (simp add: same_operation_def)

text \<open>Settled states keep the revision of the fallback they were built from.\<close>

lemma settled_state_facts [simp]:
  "revision (finish st op status phase) = sc_revision st"
  "revision (recovery st op status err) = sc_revision st"
  "revision (failed st op status err) = sc_revision st"
  "\<not> retiring (finish st op status phase)"
  "\<not> retiring (recovery st op status err)"
  "\<not> retiring (failed st op status err)"
  by (simp_all add: finish_def recovery_def failed_def Let_def)

lemma moves_settled:
  assumes "capture_inv s'" and "active_operation_of s' = None" and "\<not> retiring s'"
    and "revision s' = revision s \<or> revision s' = revision s - 1"
  shows "moves s s' []"
  using assms by (simp add: moves_def)

lemma moves_end_failed:
  assumes "sc_revision st = revision s"
  shows "moves s (next_state s (end_failed st op status err)) (spawns (end_failed st op status err))"
  using assms by (auto intro!: moves_settled)

lemma moves_finalizer:
  assumes "operation_ok op st" and "sc_revision st = revision s"
  shows "moves s (next_state s (finalizer st op err)) (spawns (finalizer st op err))"
  using assms by (simp add: moves_def effect_wf_def effect_is_current_def) (simp add: operation_ok_def)

lemma inv_revision:
  "capture_inv (Transitioning tc) \<Longrightarrow> sc_revision (tc_stable tc) = revision (Transitioning tc)"
  "capture_inv (Reconciling rc) \<Longrightarrow> sc_revision (rc_stable rc) = revision (Reconciling rc)"
  by (simp_all add: operation_ok_def)

lemma lost_effect_moves:
  assumes "capture_inv s" and "effect_is_current s c" and "\<not> retiring s"
  shows "moves s (next_state s (lost_effect s c err)) (spawns (lost_effect s c err))"
proof (cases s)
  case (Transitioning tc)
  then show ?thesis
    using assms moves_end_failed [of "tc_stable tc" s] moves_finalizer [of "tc_operation tc" "tc_stable tc" s]
      inv_revision(1) [of tc]
    by (auto simp: lost_effect_def effect_is_current_def simp del: end_failed_next finalizer_next
        split: option.splits)
next
  case (Reconciling rc)
  then show ?thesis
    using assms moves_finalizer [of "rc_operation rc" "rc_stable rc" s] inv_revision(2) [of rc]
    by (auto simp: lost_effect_def effect_is_current_def simp del: end_failed_next finalizer_next)
qed (use assms in \<open>simp_all add: effect_is_current_def\<close>)

lemma task_failed_moves:
  assumes "capture_inv s" and "effect_is_current s c" and "\<not> retiring s"
    and "machine_reduce self s (TaskFailed c f) = Some t"
  shows "moves s (next_state s t) (spawns t)"
proof -
  have "operation_id c \<noteq> ''shutdown''"
    using assms(1-3) by (cases s) (auto simp: effect_is_current_def operation_ok_def same_operation_def)
  then show ?thesis
    using assms lost_effect_moves [OF assms(1-3)] by (auto simp: reduce_task_failed_def)
qed

lemma withdraw_moves:
  assumes "capture_inv (Reconciling rc)" and "withdraw rc = Some t"
  shows "moves (Reconciling rc) (next_state (Reconciling rc) t) (spawns t)"
  using assms by (auto simp: withdraw_ok operation_ok_def intro!: moves_settled)

text \<open>A current effect pins the kind of state that waits for it.\<close>

lemma current_cases:
  assumes "effect_is_current s c" and "\<not> retiring s"
  obtains (transitioning) tc where "s = Transitioning tc" "same_operation (ao_correlation (tc_operation tc)) c"
      "(tc_stage tc = Preflighting \<and> effect_id c = PREFLIGHT_EFFECT_ID)
       \<or> (tc_stage tc = Mutating \<and> effect_id c \<in> {MUTATION_EFFECT_ID, RECOVERY_EFFECT_ID, AUDIT_COMMIT_EFFECT_ID})
       \<or> (tc_stage tc = Finalizing \<and> effect_id c = FINALIZER_EFFECT_ID)"
  | (reconciling) rc where "s = Reconciling rc" "same_operation (ao_correlation (rc_operation rc)) c"
      "effect_id c \<in> {PREFLIGHT_EFFECT_ID, OBSERVATION_EFFECT_ID, AUDIT_EFFECT_ID}"
  using assms
  by (cases s) (auto simp: effect_is_current_def split: transition_stage.splits)

lemma preflight_answer_moves:
  assumes inv: "capture_inv s" "\<not> retiring s" and cur: "effect_is_current s c"
    and id: "effect_id c = PREFLIGHT_EFFECT_ID"
    and red: "machine_reduce self s (PreflightFinished c) = Some t"
  shows "moves s (next_state s t) (spawns t)"
  using cur inv(2)
proof (cases rule: current_cases)
  case (transitioning tc)
  then have "tc_stage tc = Preflighting"
    using id by (auto simp: capture_ids)
  then show ?thesis
  proof (cases "tc_deferred_failure tc")
    case None
    then show ?thesis
      using \<open>tc_stage tc = Preflighting\<close> transitioning inv id red
      by (auto simp: reduce_preflight_finished_def matching_def moves_def)
  next
    case (Some err)
    then show ?thesis
      using \<open>tc_stage tc = Preflighting\<close> transitioning inv id red
        moves_end_failed [of "tc_stable tc" s] inv_revision(1) [of tc]
      by (auto simp: reduce_preflight_finished_def matching_def simp del: end_failed_next)
  qed
next
  case (reconciling rc)
  then show ?thesis
    using inv id red withdraw_moves [of rc]
    by (auto simp: reduce_preflight_finished_def matching_def)
qed

lemma mutation_answer_moves:
  assumes inv: "capture_inv s" "\<not> retiring s" and cur: "effect_is_current s c"
    and id: "effect_id c = (if is_recovery then RECOVERY_EFFECT_ID else MUTATION_EFFECT_ID)"
  shows "moves s (next_state s (reduce_mutation_finished s is_recovery c oc))
     (spawns (reduce_mutation_finished s is_recovery c oc))"
  using cur inv(2)
proof (cases rule: current_cases)
  case (transitioning tc)
  show ?thesis
  proof (cases "ex_error oc")
    case None
    then show ?thesis
      using transitioning inv id
      by (auto simp: reduce_mutation_finished_def matching_def moves_def effect_wf_def
          effect_is_current_def Let_def)
  next
    case (Some err)
    then show ?thesis
      using transitioning inv id moves_end_failed [of "tc_stable tc" s] inv_revision(1) [of tc]
      by (auto simp: reduce_mutation_finished_def matching_def simp del: end_failed_next)
  qed
next
  case (reconciling rc)
  then show ?thesis using id by (auto simp: capture_ids split: if_splits)
qed

lemma observation_answer_moves:
  assumes inv: "capture_inv s" "\<not> retiring s" and cur: "effect_is_current s c"
    and id: "effect_id c = OBSERVATION_EFFECT_ID"
  shows "moves s (next_state s (reduce_observation_finished s c oc)) (spawns (reduce_observation_finished s c oc))"
  using cur inv(2)
proof (cases rule: current_cases)
  case (reconciling rc)
  then show ?thesis
    using inv id inv_revision(2) [of rc]
    by (auto simp: reduce_observation_finished_def matching_def intro!: moves_settled split: option.split)
qed (use id in \<open>auto simp: capture_ids\<close>)

lemma audit_answer_moves:
  assumes inv: "capture_inv s" "\<not> retiring s" and cur: "effect_is_current s c"
    and id: "effect_id c = AUDIT_EFFECT_ID"
    and red: "machine_reduce self s (AuditFinished c oc) = Some t"
  shows "moves s (next_state s t) (spawns t)"
  using cur inv(2)
proof (cases rule: current_cases)
  case (reconciling rc)
  then show ?thesis
    using inv id red withdraw_moves [of rc]
    by (auto simp: reduce_audit_finished_def matching_def moves_def effect_wf_def effect_is_current_def
        Let_def split: if_splits)
qed (use id in \<open>auto simp: capture_ids\<close>)

lemma commit_answer_moves:
  assumes inv: "capture_inv s" "\<not> retiring s" and cur: "effect_is_current s c"
    and id: "effect_id c = AUDIT_COMMIT_EFFECT_ID"
  shows "moves s (next_state s (reduce_audit_committed s c oc)) (spawns (reduce_audit_committed s c oc))"
  using cur inv(2)
proof (cases rule: current_cases)
  case (transitioning tc)
  then show ?thesis
    using inv id inv_revision(1) [of tc]
    by (auto simp: reduce_audit_committed_def matching_def Let_def intro!: moves_settled
        split: option.split)
qed (use id in \<open>auto simp: capture_ids\<close>)

lemma finalized_answer_moves:
  assumes inv: "capture_inv s" "\<not> retiring s" and cur: "effect_is_current s c"
    and id: "effect_id c = FINALIZER_EFFECT_ID"
  shows "moves s (next_state s (reduce_finalized s c oc)) (spawns (reduce_finalized s c oc))"
  using cur inv(2)
proof (cases rule: current_cases)
  case (transitioning tc)
  then show ?thesis
    using inv id inv_revision(1) [of tc]
    by (auto simp: reduce_finalized_def matching_def capture_ids intro!: moves_settled)
qed (use id in \<open>auto simp: capture_ids\<close>)

lemma execute_cases:
  assumes "execute e i" and "effect_mode_of e = Spawn"
  obtains (cancelled) "i = TaskCancelled (effect_correlation e)"
  | (preflight) "effect_number e = PREFLIGHT_EFFECT_ID" "i = PreflightFinished (effect_correlation e)"
  | (mutation) oc where "effect_number e = MUTATION_EFFECT_ID" "i = MutationFinished (effect_correlation e) oc"
  | (observation) h q oc where "e = ObserveEffect h (effect_correlation e) q"
      "i = ObservationFinished (effect_correlation e) oc"
  | (audit) oc where "effect_number e = AUDIT_EFFECT_ID" "i = AuditFinished (effect_correlation e) oc"
  | (commit) oc where "e = CommitAuditEffect (effect_correlation e) oc"
      "i = AuditCommitted (effect_correlation e) oc"
  | (recovery) oc where "effect_number e = RECOVERY_EFFECT_ID" "i = RecoveryFinished (effect_correlation e) oc"
  | (finalized) oc where "effect_number e = FINALIZER_EFFECT_ID" "i = Finalized (effect_correlation e) oc"
  | (shutdown) result where "effect_number e = SHUTDOWN_EFFECT_ID"
      "i = ShutdownFinished (effect_correlation e) result"
  using assms by (cases e) (auto split: capture_input.splits)

lemma answer_moves:
  assumes inv: "capture_inv s" "\<not> retiring s" and wf: "effect_wf e" and spawn: "effect_mode_of e = Spawn"
    and cur: "effect_is_current s (effect_correlation e)" and ans: "execute e i"
    and red: "machine_reduce self s i = Some t"
  shows "moves s (next_state s t) (spawns t)"
  using ans spawn
proof (cases rule: execute_cases)
  case cancelled
  then show ?thesis
    using red lost_effect_moves [OF inv(1) cur inv(2)] by (auto simp: reduce_task_cancelled_def)
next
  case preflight
  then show ?thesis
    using wf red preflight_answer_moves [OF inv cur] by (simp add: effect_wf_def)
next
  case (mutation oc)
  then show ?thesis
    using wf red mutation_answer_moves [OF inv cur, of False oc] by (simp add: effect_wf_def)
next
  case (observation h q oc)
  then have "effect_id (effect_correlation e) = OBSERVATION_EFFECT_ID"
    using wf by (metis effect_number.simps(3) effect_wf_def)
  then show ?thesis
    using observation(2) red observation_answer_moves [OF inv cur, of oc] by simp
next
  case (audit oc)
  then show ?thesis
    using wf red audit_answer_moves [OF inv cur, of self oc] by (simp add: effect_wf_def)
next
  case (commit oc)
  then have "effect_id (effect_correlation e) = AUDIT_COMMIT_EFFECT_ID"
    using wf by (metis effect_number.simps(5) effect_wf_def)
  then show ?thesis
    using commit(2) red commit_answer_moves [OF inv cur, of oc] by simp
next
  case (recovery oc)
  then show ?thesis
    using wf red mutation_answer_moves [OF inv cur, of True oc] by (simp add: effect_wf_def)
next
  case (finalized oc)
  then show ?thesis
    using wf red finalized_answer_moves [OF inv cur, of oc] by (simp add: effect_wf_def)
next
  case (shutdown result)
  then show ?thesis
    using cur wf inv(2) by (auto simp: effect_wf_def capture_ids elim: current_cases)
qed

text \<open>The end of a task the machine no longer waits for is not an event.\<close>

lemma stale_task_revision:
  assumes ok: "tasks_ok s (add_mset e M)" and stale: "\<not> effect_is_current s (effect_correlation e)"
    and op: "active_operation_of s = Some op"
  shows "effect_revision e \<noteq> revision s"
    and "\<not> same_operation (ao_correlation op) (effect_correlation e)"
proof -
  show rev: "effect_revision e \<noteq> revision s"
  proof
    assume "effect_revision e = revision s"
    then have "{#x \<in># add_mset e M. effect_revision x = revision s#}
        = add_mset e {#x \<in># M. effect_revision x = revision s#}"
      by simp
    then show False
      using ok op stale by (auto simp: tasks_ok_def split: if_splits)
  qed
  show "\<not> same_operation (ao_correlation op) (effect_correlation e)"
    using rev op by (cases s) (auto dest: same_operation_revision)
qed

lemma stale_task_failed:
  assumes ok: "tasks_ok s (add_mset e M)" and stale: "\<not> effect_is_current s (effect_correlation e)"
  shows "machine_reduce self s (TaskFailed (effect_correlation e) f) = Some T_Retired \<and> tasks_ok s M"
proof (cases "active_operation_of s")
  case None
  then show ?thesis
    using ok by (cases s) (auto simp: tasks_ok_def reduce_task_failed_def lost_effect_def)
next
  case (Some op)
  note rev = stale_task_revision(1) [OF ok stale Some]
  have "\<not> same_operation (ao_correlation op) (effect_correlation e)"
    by (rule stale_task_revision(2) [OF ok stale Some])
  moreover have "tasks_ok s M"
    using ok rev by (auto simp: tasks_ok_def split: if_splits)
  ultimately show ?thesis
    using Some ok by (cases s) (auto simp: tasks_ok_def reduce_task_failed_def lost_effect_def)
qed

text \<open>A new operation has a revision above every task in flight.\<close>

lemma base_revision: "base s = Some b \<Longrightarrow> sc_revision b = revision s \<and> \<not> retiring s"
  by (cases s) (auto split: if_splits)

lemma operation_fresh:
  assumes "tasks_ok s M" and "base s = Some b"
    and "machine_operation self b q mode label = Inr (st, op)"
  shows "operation_ok op st \<and> {#x \<in># M. effect_revision x = admitted_revision (ao_correlation op)#} = {#}
     \<and> (\<forall>x \<in># M. effect_wf x \<and> effect_revision x \<le> admitted_revision (ao_correlation op))"
proof -
  have ok: "operation_ok op st" and rev: "checked_add (sc_revision b) 1 = Some (sc_revision st)"
    using assms(3) by (auto elim: machine_operation_InrE)
  then have "sc_revision b < admitted_revision (ao_correlation op)"
    using checked_add_1_less [OF rev] by (simp add: operation_ok_def)
  then show ?thesis
    using ok assms(1) base_revision [OF assms(2)] by (fastforce simp: tasks_ok_def)
qed

lemma tasks_started:
  assumes "tasks_ok s M" and "base s = Some b"
    and "machine_operation self b q mode label = Inr (st, op)"
    and "ao_correlation op' = ao_correlation op" and "effect_correlation e = with_effect (ao_correlation op) n"
    and "effect_number e = n"
  shows "n \<in> {MUTATION_EFFECT_ID, RECOVERY_EFFECT_ID} \<Longrightarrow>
      tasks_ok (Transitioning \<lparr>tc_deferred_failure = None, tc_operation = op', tc_stable = st, tc_stage = Mutating\<rparr>)
        (add_mset e M)"
    and "n \<in> {PREFLIGHT_EFFECT_ID, AUDIT_EFFECT_ID} \<Longrightarrow>
      tasks_ok (Reconciling \<lparr>rc_operation = op', rc_stable = st\<rparr>) (add_mset e M)"
  using operation_fresh [OF assms(1-3)] assms(4-)
  by (auto simp: tasks_ok_def effect_wf_def effect_is_current_def operation_ok_def)

lemma tasks_reserved:
  assumes "tasks_ok s M"
  shows "tasks_ok (next_state s (reduce_reserve self s q mode)) (M + mset (spawns (reduce_reserve self s q mode)))"
proof (cases "base s")
  case (Some b)
  show ?thesis
  proof (cases "machine_operation self b q mode None")
    case (Inr p)
    then show ?thesis
      using Some operation_fresh [OF assms Some, of self q mode None] assms
      by (cases p) (auto simp: reduce_reserve_def tasks_ok_def)
  qed (use Some assms in \<open>simp add: reduce_reserve_def\<close>)
qed (use assms in \<open>simp add: reduce_reserve_def\<close>)

lemma tasks_mutating:
  assumes "tasks_ok s M"
  shows "tasks_ok (next_state s (reduce_start self s h mode label pre q))
      (M + mset (spawns (reduce_start self s h mode label pre q)))" (is ?start)
    and "tasks_ok (next_state s (reduce_recover self s action h))
      (M + mset (spawns (reduce_recover self s action h)))" (is ?recover)
proof -
  show ?start
  proof (cases "base s")
    case (Some b)
    then show ?thesis
      using assms tasks_started(1) [OF assms Some]
      by (auto simp: reduce_start_def split: sum.split)
  qed (use assms in \<open>simp add: reduce_start_def\<close>)
  show ?recover
  proof (cases "base s")
    case (Some b)
    then show ?thesis
      using assms tasks_started(1) [OF assms Some]
      by (auto simp: reduce_recover_def split: sum.split)
  qed (use assms in \<open>simp add: reduce_recover_def\<close>)
qed

lemma tasks_probing:
  assumes "tasks_ok s M"
  shows "tasks_ok (next_state s (reduce_audit self s h reason)) (M + mset (spawns (reduce_audit self s h reason)))"
    and "base s = Some b \<Longrightarrow> machine_operation self b q Ordinary (Some ''preflight'') = Inr (st, op) \<Longrightarrow>
      tasks_ok (Reconciling \<lparr>rc_operation = op\<lparr>ao_pending := ao_previous op\<rparr>, rc_stable = st\<rparr>)
        (add_mset (PreflightEffect tok (with_effect (ao_correlation op) PREFLIGHT_EFFECT_ID) reply q) M)"
proof -
  show "tasks_ok (next_state s (reduce_audit self s h reason)) (M + mset (spawns (reduce_audit self s h reason)))"
  proof (cases "base s")
    case (Some b)
    then show ?thesis
      using assms tasks_started(2) [OF assms Some]
      by (auto simp: reduce_audit_def Let_def split: sum.split)
  qed (use assms in \<open>simp add: reduce_audit_def\<close>)
qed (rule tasks_started(2) [OF assms, where op = op and n = PREFLIGHT_EFFECT_ID], auto)

text \<open>Commands on the token of the active operation keep its one task.\<close>

lemma tasks_same_operation:
  assumes "tasks_ok s M" and "capture_inv s'" and "\<not> retiring s'" and "revision s' = revision s"
    and "active_operation_of s' \<noteq> None \<Longrightarrow>
      active_operation_of s \<noteq> None \<and> waiting s' = waiting s \<and> effect_is_current s' = effect_is_current s"
  shows "tasks_ok s' M"
  using assms by (auto simp: tasks_ok_def split: if_splits)

lemma tasks_next_effect:
  assumes "tasks_ok (Transitioning tc) M" and "tc_stage tc = Reserved"
    and "effect_correlation e = with_effect (ao_correlation (tc_operation tc)) (effect_number e)"
    and "(stage = Preflighting \<and> effect_number e = PREFLIGHT_EFFECT_ID)
      \<or> (stage = Mutating \<and> effect_number e = MUTATION_EFFECT_ID)"
  shows "tasks_ok (Transitioning (tc\<lparr>tc_deferred_failure := None, tc_stage := stage\<rparr>)) (add_mset e M)"
  using assms by (auto simp: tasks_ok_def effect_wf_def effect_is_current_def)

lemma tasks_preflight:
  assumes "tasks_ok s M" and "reduce_preflight self s tok reply q = Some t"
  shows "tasks_ok (next_state s t) (M + mset (spawns t))"
proof (cases s)
  case (Transitioning tc)
  then show ?thesis
    using assms tasks_next_effect [of tc M _ Preflighting]
    by (auto simp: reduce_preflight_def split: if_splits)
next
  case (Stable st)
  then show ?thesis
    using assms tasks_probing(2) [OF assms(1)]
    by (auto simp: reduce_preflight_def Let_def split: if_splits sum.splits)
next
  case (RecoveryRequired rr)
  then show ?thesis
    using assms tasks_probing(2) [OF assms(1)]
    by (auto simp: reduce_preflight_def Let_def split: sum.splits)
qed (use assms in \<open>auto simp: reduce_preflight_def\<close>)

lemma tasks_execute:
  assumes "tasks_ok s M"
  shows "tasks_ok (next_state s (reduce_execute_reserved s h token pre q))
     (M + mset (spawns (reduce_execute_reserved s h token pre q)))"
proof (cases s)
  case (Transitioning tc)
  then show ?thesis
    using assms tasks_next_effect [of tc M _ Mutating]
    by (auto simp: reduce_execute_reserved_def)
qed (use assms in \<open>simp_all add: reduce_execute_reserved_def\<close>)

lemma spawns_token [simp]:
  "spawns (reduce_fail_reserved s err token) = []"
  "spawns (reduce_mark_finalizing s err token) = []"
  by (cases s; simp add: reduce_fail_reserved_def fail_finalizing_def fail_terminal_def fail_reserved_def
      reduce_mark_finalizing_def Let_def)+

lemma tasks_fail_reserved:
  assumes "tasks_ok s M"
  shows "tasks_ok (next_state s (reduce_fail_reserved s err token)) M"
  using assms
proof (rule tasks_same_operation)
  have inv: "capture_inv s" "\<not> retiring s"
    using assms by (simp_all add: tasks_ok_def)
  show "capture_inv (next_state s (reduce_fail_reserved s err token))"
    by (rule reduce_token_inv [OF inv(1)])
  show "\<not> retiring (next_state s (reduce_fail_reserved s err token))"
    and "revision (next_state s (reduce_fail_reserved s err token)) = revision s"
    using inv by (cases s; simp add: reduce_fail_reserved_def fail_finalizing_def fail_terminal_def
      fail_reserved_def operation_ok_def Let_def)+
  show "active_operation_of s \<noteq> None \<and> waiting (next_state s (reduce_fail_reserved s err token)) = waiting s
      \<and> effect_is_current (next_state s (reduce_fail_reserved s err token)) = effect_is_current s"
    if "active_operation_of (next_state s (reduce_fail_reserved s err token)) \<noteq> None"
    using inv that by (cases s; simp add: reduce_fail_reserved_def fail_finalizing_def fail_terminal_def
      fail_reserved_def effect_is_current_def fun_eq_iff Let_def split: if_splits)
qed

lemma tasks_mark_finalizing:
  assumes "tasks_ok s M"
  shows "tasks_ok (next_state s (reduce_mark_finalizing s err token)) M"
  using assms
proof (rule tasks_same_operation)
  have inv: "capture_inv s" "\<not> retiring s"
    using assms by (simp_all add: tasks_ok_def)
  show "capture_inv (next_state s (reduce_mark_finalizing s err token))"
    by (rule reduce_token_inv [OF inv(1)])
  show "\<not> retiring (next_state s (reduce_mark_finalizing s err token))"
    and "revision (next_state s (reduce_mark_finalizing s err token)) = revision s"
    using inv by (cases s; simp add: reduce_mark_finalizing_def)+
  show "active_operation_of s \<noteq> None \<and> waiting (next_state s (reduce_mark_finalizing s err token)) = waiting s
      \<and> effect_is_current (next_state s (reduce_mark_finalizing s err token)) = effect_is_current s"
    if "active_operation_of (next_state s (reduce_mark_finalizing s err token)) \<noteq> None"
    using inv that by (cases s; simp add: reduce_mark_finalizing_def effect_is_current_def fun_eq_iff
      split: if_splits)
qed

lemma command_tasks:
  assumes "tasks_ok s M" and "capture_command i" and "machine_reduce self s i = Some t"
  shows "tasks_ok (next_state s t) (M + mset (spawns t))"
  using assms tasks_preflight [OF assms(1)] tasks_reserved [OF assms(1)] tasks_mutating [OF assms(1)]
    tasks_probing(1) [OF assms(1)] tasks_execute [OF assms(1)] tasks_fail_reserved [OF assms(1)]
    tasks_mark_finalizing [OF assms(1)]
  by (cases i) (auto simp: capture_command_def simp del: mset_filter)

lemma settled_tasks:
  assumes ok: "tasks_ok s (add_mset e M)" and spawn: "effect_mode_of e = Spawn"
    and ans: "(execute e i \<and> effect_is_current s (effect_correlation e))
      \<or> (\<exists>f. i = TaskFailed (effect_correlation e) f)"
    and red: "machine_reduce self s i = Some t"
  shows "tasks_ok (next_state s t) (M + mset (spawns t))"
proof (cases "effect_is_current s (effect_correlation e)")
  case True
  then have "moves s (next_state s t) (spawns t)"
    using ok spawn ans red answer_moves [of s e i self t] task_failed_moves [of s "effect_correlation e" self _ t]
    by (auto simp: tasks_ok_def)
  then show ?thesis
    by (rule tasks_moved [OF ok True])
next
  case False
  then show ?thesis
    using ans red stale_task_failed [OF ok False, of self] by auto
qed

section \<open>Evidence of an applied status\<close>

text \<open>A mutation or a recovery of the operation that reported success.\<close>

definition changed_ok :: "correlation \<Rightarrow> capture_input \<Rightarrow> bool" where
  "changed_ok c i \<longleftrightarrow>
     (\<exists>outcome. ex_error outcome = None
        \<and> (i = MutationFinished (with_effect c MUTATION_EFFECT_ID) outcome
         \<or> i = RecoveryFinished (with_effect c RECOVERY_EFFECT_ID) outcome))"

text \<open>The status reported by an effect, under the operation status the machine gave it.\<close>

definition reported :: "capture_status \<Rightarrow> capture_status \<Rightarrow> bool" where
  "reported status report \<longleftrightarrow>
     status = report\<lparr>cu_capture_operation := cu_capture_operation status\<rparr>"

definition observed_applied :: "capture_status \<Rightarrow> capture_input list \<Rightarrow> bool" where
  "observed_applied status h \<longleftrightarrow>
     (\<exists>c change outcome. changed_ok c change \<and> ex_error outcome = None
        \<and> reported status (ex_status outcome)
        \<and> subseq [change, ObservationFinished (with_effect c OBSERVATION_EFFECT_ID) outcome] h)"

definition audited_applied :: "capture_status \<Rightarrow> capture_input list \<Rightarrow> bool" where
  "audited_applied status h \<longleftrightarrow>
     (\<exists>c outcome. ax_error outcome = None \<and> reported status (ax_status outcome)
        \<and> subseq [AuditFinished (with_effect c AUDIT_EFFECT_ID) outcome,
                  AuditCommitted (with_effect c AUDIT_COMMIT_EFFECT_ID) outcome] h)"

fun task_backed :: "capture_input list \<Rightarrow> capture_effect \<Rightarrow> bool" where
  "task_backed h (ObserveEffect _ c _) \<longleftrightarrow> (\<exists>change \<in> set h. changed_ok c change)"
| "task_backed h (CommitAuditEffect c outcome) \<longleftrightarrow>
     AuditFinished (with_effect c AUDIT_EFFECT_ID) outcome \<in> set h"
| "task_backed h _ \<longleftrightarrow> True"

definition backed :: "capture_state \<Rightarrow> capture_effect multiset \<Rightarrow> capture_input list \<Rightarrow> bool" where
  "backed s M h \<longleftrightarrow>
     (status_phase (confirmed_projection s) = OP_Applied \<longrightarrow>
        observed_applied (confirmed_projection s) h \<or> audited_applied (confirmed_projection s) h)
     \<and> (\<forall>e \<in># M. task_backed h e)"

lemma changed_ok_with_effect [simp]: "changed_ok (with_effect c n) = changed_ok c"
  by (simp add: changed_ok_def fun_eq_iff with_effect_def)

lemma task_backed_append: "task_backed h e \<Longrightarrow> task_backed (h @ [i]) e"
  by (cases e) auto

lemma applied_append:
  "observed_applied status h \<Longrightarrow> observed_applied status (h @ [i])"
  "audited_applied status h \<Longrightarrow> audited_applied status (h @ [i])"
  unfolding observed_applied_def audited_applied_def by (meson subseq_order.trans subseq_append_self)+

lemma subseq_pair_append: "a \<in> set h \<Longrightarrow> subseq [a, b] (h @ [b])"
  by (metis append_Cons append_Nil list_emb_append_mono subseq_order.order_refl subseq_singleton_left)

text \<open>
  The shape of a step that keeps the evidence: the confirmed projection stays, or it is not
  an applied one, or this very input is the evidence; and the effects it starts are backed.
\<close>

lemma backed_step:
  assumes "backed s (M' + M) h" and "\<forall>e \<in># N. task_backed (h @ [i]) e"
    and "confirmed_projection s' = confirmed_projection s
      \<or> status_phase (confirmed_projection s') \<noteq> OP_Applied
      \<or> observed_applied (confirmed_projection s') (h @ [i])
      \<or> audited_applied (confirmed_projection s') (h @ [i])"
  shows "backed s' (M + N) (h @ [i])"
  using assms by (auto simp: backed_def intro: task_backed_append applied_append)

lemma settled_phases [simp]:
  "status_phase (confirmed_projection (recovery st op status err)) \<noteq> OP_Applied"
  "status_phase (confirmed_projection (failed st op status err)) \<noteq> OP_Applied"
  by (simp_all add: recovery_def failed_def finished_operation_def)

lemma base_projection: "base s = Some b \<Longrightarrow> sc_projection b = confirmed_projection s"
  by (cases s) (auto split: if_splits)

lemma machine_operation_previous:
  "base s = Some b \<Longrightarrow> machine_operation self b q mode label = Inr (st, op) \<Longrightarrow>
     ao_previous op = confirmed_projection s"
  by (auto elim!: machine_operation_InrE simp: base_projection)

lemma command_backed:
  assumes "backed s M h" and "capture_command i" and "machine_reduce self s i = Some t"
  shows "backed (next_state s t) (M + mset (spawns t)) (h @ [i])"
proof (rule backed_step [of s "{#}" M])
  show "backed s ({#} + M) h"
    using assms(1) by simp
  have "\<forall>e \<in> set (spawns t). task_backed (h @ [i]) e"
    using assms(2,3)
    by (cases i) (auto simp: capture_command_def reduce_preflight_def reduce_reserve_def reduce_start_def
        reduce_execute_reserved_def reduce_audit_def reduce_recover_def Let_def simp flip: set_filter
        split: option.splits sum.splits if_splits capture_state.splits)
  then show "\<forall>e \<in># mset (spawns t). task_backed (h @ [i]) e"
    by simp
  have "confirmed_projection (next_state s t) = confirmed_projection s
      \<or> status_phase (confirmed_projection (next_state s t)) \<noteq> OP_Applied"
  proof (cases "base s")
    case None
    then show ?thesis
      using assms(2,3)
      by (cases i; cases s) (auto simp: capture_command_def reduce_preflight_def reduce_reserve_def
          reduce_start_def reduce_execute_reserved_def reduce_audit_def reduce_recover_def
          reduce_fail_reserved_def fail_finalizing_def fail_terminal_def fail_reserved_def failed_token_def
          reduce_mark_finalizing_def Let_def split: if_splits)
  next
    case (Some b)
    then show ?thesis
      using assms(2,3) machine_operation_previous [OF Some]
      by (cases i; cases s) (auto simp: capture_command_def reduce_preflight_def reduce_reserve_def
          reduce_start_def reduce_execute_reserved_def reduce_audit_def reduce_recover_def
          reduce_fail_reserved_def fail_finalizing_def fail_terminal_def fail_reserved_def failed_token_def
          reduce_mark_finalizing_def Let_def split: if_splits sum.splits)
  qed
  then show "confirmed_projection (next_state s t) = confirmed_projection s
      \<or> status_phase (confirmed_projection (next_state s t)) \<noteq> OP_Applied
      \<or> observed_applied (confirmed_projection (next_state s t)) (h @ [i])
      \<or> audited_applied (confirmed_projection (next_state s t)) (h @ [i])"
    by blast
qed

lemma matching_iff: "matching op c n \<longleftrightarrow> c = with_effect (ao_correlation op) n"
  using same_operation_effect_eq [of "ao_correlation op" c] by (auto simp: matching_def)

lemma end_failed_phase [simp]:
  "status_phase (confirmed_projection (next_state s (end_failed st op status err))) \<noteq> OP_Applied"
  by (simp del: confirmed_projection.simps)

lemma lost_effect_confirmed:
  "confirmed_projection (next_state s (lost_effect s c err)) = confirmed_projection s
   \<or> status_phase (confirmed_projection (next_state s (lost_effect s c err))) \<noteq> OP_Applied"
  by (cases s) (simp_all add: lost_effect_def del: end_failed_next(1) split: option.split)

lemma lost_effect_spawns:
  "e \<in> set (emitted (lost_effect s c err)) \<Longrightarrow> task_backed h e"
  by (cases s) (auto simp: lost_effect_def split: option.splits if_splits)

lemma withdraw_confirmed:
  "withdraw rc = Some t \<Longrightarrow> confirmed_projection (next_state s t) = ao_previous (rc_operation rc) \<and> emitted t = []"
  by (auto simp: withdraw_def split: option.splits)

lemma finish_applied:
  "confirmed_projection (finish st op status OP_Applied) =
     status\<lparr>cu_capture_operation := finished_operation op None OP_Applied\<rparr>"
  "status_phase (confirmed_projection (finish st op status OP_RecoveryRequired)) \<noteq> OP_Applied"
  by (simp_all add: finish_def Let_def finished_operation_def)

lemma observation_applied:
  assumes "task_backed h (ObserveEffect b (with_effect c OBSERVATION_EFFECT_ID) q)" and "ex_error oc = None"
  shows "observed_applied ((ex_status oc)\<lparr>cu_capture_operation := x\<rparr>)
     (h @ [ObservationFinished (with_effect c OBSERVATION_EFFECT_ID) oc])"
  using assms by (auto simp: observed_applied_def reported_def intro: subseq_pair_append)

lemma audit_applied:
  assumes "task_backed h (CommitAuditEffect (with_effect c AUDIT_COMMIT_EFFECT_ID) oc)" and "ax_error oc = None"
  shows "audited_applied ((ax_status oc)\<lparr>cu_capture_operation := x\<rparr>)
     (h @ [AuditCommitted (with_effect c AUDIT_COMMIT_EFFECT_ID) oc])"
proof -
  have "subseq [AuditFinished (with_effect c AUDIT_EFFECT_ID) oc,
      AuditCommitted (with_effect c AUDIT_COMMIT_EFFECT_ID) oc]
     (h @ [AuditCommitted (with_effect c AUDIT_COMMIT_EFFECT_ID) oc])"
    using assms(1) by (intro subseq_pair_append) (simp add: with_effect_def)
  then show ?thesis
    using assms(2) by (auto simp: audited_applied_def reported_def)
qed

text \<open>What an answered effect leaves in the confirmed projection and in the join set.\<close>

definition keeps_evidence :: "capture_state \<Rightarrow> capture_input list \<Rightarrow> capture_transition \<Rightarrow> bool" where
  "keeps_evidence s h t \<longleftrightarrow>
     (\<forall>e \<in> set (emitted t). task_backed h e)
     \<and> (let status = confirmed_projection (next_state s t) in
        status = confirmed_projection s \<or> status_phase status \<noteq> OP_Applied
        \<or> observed_applied status h \<or> audited_applied status h)"

lemma keeps_lost_effect: "keeps_evidence s h (lost_effect s c err)"
  using lost_effect_confirmed lost_effect_spawns by (auto simp: keeps_evidence_def Let_def)

lemma keeps_retired [simp]: "keeps_evidence s h T_Retired"
  by (simp add: keeps_evidence_def)

lemma keeps_end_failed [simp]: "keeps_evidence s h (end_failed st op status err)"
  by (simp add: keeps_evidence_def Let_def del: end_failed_next(1))

lemma keeps_withdraw: "withdraw rc = Some t \<Longrightarrow> keeps_evidence (Reconciling rc) h t"
  using withdraw_confirmed [of rc t "Reconciling rc"] by (simp add: keeps_evidence_def)

lemma keeps_preflight:
  assumes "machine_reduce self s (PreflightFinished c) = Some t"
  shows "keeps_evidence s h t"
proof (cases s)
  case (Reconciling rc)
  then show ?thesis
    using assms keeps_withdraw [of rc t] by (auto simp: reduce_preflight_finished_def split: if_splits)
next
  case (Transitioning tc)
  then show ?thesis
    using assms
    by (cases "tc_deferred_failure tc") (auto simp: reduce_preflight_finished_def keeps_evidence_def
        simp del: end_failed_next(1) split: if_splits)
qed (use assms in \<open>auto simp: reduce_preflight_finished_def\<close>)

lemma keeps_mutation:
  "keeps_evidence s (h @ [if b then RecoveryFinished c oc else MutationFinished c oc])
     (reduce_mutation_finished s b c oc)"
  by (cases s) (auto simp: reduce_mutation_finished_def matching_iff Let_def keeps_evidence_def changed_ok_def
      with_effect_def simp del: end_failed_next(1) split: option.split)

lemma keeps_observation:
  assumes "task_backed h (ObserveEffect b c q)"
  shows "keeps_evidence s (h @ [ObservationFinished c oc]) (reduce_observation_finished s c oc)"
  using assms observation_applied [of h b _ q oc]
  by (cases s) (auto simp: reduce_observation_finished_def matching_iff keeps_evidence_def finish_applied Let_def
      simp del: confirmed_projection.simps task_backed.simps split: option.split)

lemma keeps_audit:
  assumes "machine_reduce self s (AuditFinished c oc) = Some t"
  shows "keeps_evidence s (h @ [AuditFinished c oc]) t"
proof (cases s)
  case (Reconciling rc)
  then show ?thesis
    using assms keeps_withdraw [of rc t]
    by (auto simp: reduce_audit_finished_def matching_iff Let_def keeps_evidence_def with_effect_def split: if_splits)
qed (use assms in \<open>auto simp: reduce_audit_finished_def\<close>)

lemma keeps_commit:
  assumes "task_backed h (CommitAuditEffect c oc)"
  shows "keeps_evidence s (h @ [AuditCommitted c oc]) (reduce_audit_committed s c oc)"
  using assms audit_applied [of h _ oc]
  by (cases s) (auto simp: reduce_audit_committed_def matching_iff keeps_evidence_def finish_applied Let_def
      simp del: confirmed_projection.simps task_backed.simps split: option.split)

lemma keeps_finalized: "keeps_evidence s h (reduce_finalized s c oc)"
  by (cases s) (simp_all add: reduce_finalized_def keeps_evidence_def Let_def del: confirmed_projection.simps)

lemma keeps_answer:
  assumes ans: "execute e i" and task: "task_backed h e" and spawn: "effect_mode_of e = Spawn"
    and ret: "\<not> retiring s" and red: "machine_reduce self s i = Some t"
  shows "keeps_evidence s (h @ [i]) t"
  using ans spawn
proof (cases rule: execute_cases)
  case cancelled
  then show ?thesis using red keeps_lost_effect by (auto simp: reduce_task_cancelled_def)
next
  case preflight
  then show ?thesis using red keeps_preflight by simp
next
  case (mutation oc)
  then show ?thesis using red keeps_mutation [of s h False _ oc] by auto
next
  case (observation b q oc)
  then show ?thesis using red task keeps_observation by (metis machine_reduce.simps(9) option.sel)
next
  case (audit oc)
  then show ?thesis using red keeps_audit by simp
next
  case (commit oc)
  then show ?thesis using red task keeps_commit by (metis machine_reduce.simps(12) option.sel)
next
  case (recovery oc)
  then show ?thesis using red keeps_mutation [of s h True _ oc] by auto
next
  case (finalized oc)
  then show ?thesis using red keeps_finalized by auto
next
  case (shutdown result)
  then show ?thesis using red ret by (cases s) (auto simp: reduce_shutdown_finished_def)
qed

text \<open>Both relations together are the contract of the machine with its tasks.\<close>

definition capture_flight :: "capture_state \<Rightarrow> capture_effect multiset \<Rightarrow> capture_input list \<Rightarrow> bool" where
  "capture_flight s M h \<longleftrightarrow> tasks_ok s M \<and> backed s M h \<and> (\<forall>e \<in># M. effect_mode_of e = Spawn)"

lemma spawned_capture: "spawned (capture self) t = mset (spawns t)"
  by (simp add: spawned_def machine_simps)

lemma settled_backed:
  assumes ok: "capture_flight s (add_mset e M) h"
    and ans: "(execute e i \<and> effect_is_current s (effect_correlation e))
      \<or> (\<exists>f. i = TaskFailed (effect_correlation e) f)"
    and red: "machine_reduce self s i = Some t"
  shows "backed (next_state s t) (M + mset (spawns t)) (h @ [i])"
proof -
  have keeps: "keeps_evidence s (h @ [i]) t"
  proof (cases "execute e i")
    case True
    then show ?thesis
      using ok red keeps_answer [of e i h s self t] by (simp add: capture_flight_def backed_def tasks_ok_def)
  next
    case False
    then obtain f where "i = TaskFailed (effect_correlation e) f"
      using ans by blast
    then show ?thesis
      using ok red keeps_lost_effect [of s "h @ [i]"]
      by (cases s) (auto simp: capture_flight_def tasks_ok_def reduce_task_failed_def split: if_splits)
  qed
  show ?thesis
  proof (rule backed_step)
    show "backed s ({#e#} + M) h"
      using ok by (simp add: capture_flight_def)
    show "\<forall>x \<in># mset (spawns t). task_backed (h @ [i]) x"
      using keeps by (auto simp: keeps_evidence_def)
  qed (use keeps in \<open>auto simp: keeps_evidence_def Let_def\<close>)
qed

interpretation flights: flight_contract "capture self" capture_command execute capture_flight for self
proof (unfold_locales, goal_cases)
  case (1 s M h i t)
  then show ?case
    using command_tasks [of s M i self t] command_backed [of s M h i self t]
    by (auto simp: capture_flight_def machine_simps spawned_capture simp del: mset_filter)
next
  case (2 s e M h i t)
  then have ok: "tasks_ok s (add_mset e M)" "effect_mode_of e = Spawn" and fl: "capture_flight s (add_mset e M) h"
    by (simp_all add: capture_flight_def)
  from 2 have ans: "(execute e i \<and> effect_is_current s (effect_correlation e))
      \<or> (\<exists>f. i = TaskFailed (effect_correlation e) f)" and red: "machine_reduce self s i = Some t"
    by (simp_all add: machine_simps)
  show ?case
    using settled_tasks [OF ok ans red] settled_backed [OF fl ans red] fl
    by (auto simp: capture_flight_def machine_simps spawned_capture simp del: mset_filter)
qed

lemma capture_flight_initial: "capture_flight (capture_initial self status) {#} []"
  by (simp add: capture_flight_def tasks_ok_def backed_def capture_initial_def operation_idle_def)

lemmas running_capture = flights.running_flight [OF capture_flight_initial]

section \<open>What observers see\<close>

text \<open>The statuses the observer broadcast, in order, over the transitions it was notified of.\<close>

definition broadcasts :: "(capture_state, capture_input, capture_effect) runner \<Rightarrow> capture_status list" where
  "broadcasts r =
     List.map_filter (\<lambda>(previous, i, current, d, snap). snd (snd (observer_transitioned previous current 0)))
       (rn_observed r)"

definition confirmations :: "(capture_state, capture_input, capture_effect) runner \<Rightarrow> capture_status list" where
  "confirmations r =
     List.map_filter (\<lambda>(previous, i, current, d, snap). fst (snd (observer_transitioned previous current 0)))
       (rn_observed r)"

definition broadcast_current :: "capture_status \<Rightarrow> (capture_state, capture_input, capture_effect) runner \<Rightarrow> bool" where
  "broadcast_current start r \<longleftrightarrow> last (start # broadcasts r) = projection (rn_state r)"

lemma broadcasts_published [simp]:
  "broadcasts (published i t r) =
     broadcasts r @ (if projection (rn_state r) = projection (next_state (rn_state r) t) then []
                     else [projection (next_state (rn_state r) t)])"
  by (simp add: broadcasts_def observer_transitioned_def Let_def map_filter_def)

lemma broadcast_current_stable: "runner_stable (capture self) (broadcast_current start)"
proof (rule runner_stable_published, goal_cases)
  case (1 r r')
  then show ?case by (simp add: broadcast_current_def broadcasts_def)
next
  case (2 r i t)
  then show ?case by (auto simp: broadcast_current_def)
qed

end
