(* ===== verification/Capture_Properties.thy ===== *)
theory Capture_Properties
  imports Capture_Flight
begin

text \<open>
  What the Capture machine guarantees to the reconciler that owns it: the one input on which
  its reducer panics, that an active operation always has exactly one task, that an applied
  status was observed, how failures of prepared operations settle, what a shutdown cancels,
  and what observers and waiting callers are told.
\<close>

section \<open>Lemmas\<close>

lemma one_task_filter:
  assumes ok: "tasks_ok s M" and op: "active_operation_of s = Some op"
  shows "{#e \<in># M. same_operation (ao_correlation op) (effect_correlation e)#}
     = {#e \<in># M. effect_revision e = revision s#}"
proof (rule filter_mset_cong [OF refl])
  fix e
  assume e: "e \<in># M"
  have rev: "revision s = admitted_revision (ao_correlation op)"
    using op by (cases s) simp_all
  show "same_operation (ao_correlation op) (effect_correlation e) \<longleftrightarrow> effect_revision e = revision s"
  proof
    assume "effect_revision e = revision s"
    then have "e \<in># {#x \<in># M. effect_revision x = revision s#}"
      using e by simp
    then have "effect_is_current s (effect_correlation e)"
      using ok op by (auto simp: tasks_ok_def simp del: set_mset_filter filter_mset_eq_mempty_iff split: if_splits)
    then show "same_operation (ao_correlation op) (effect_correlation e)"
      using op by (cases s) (auto simp: effect_is_current_def)
  qed (auto simp: rev same_operation_revision)
qed

lemma shutdown_effects:
  "emitted (reduce_shutdown self s) =
     (case shutdown_target s of None \<Rightarrow> [] | Some c \<Rightarrow> [CancelEffect c])
     @ [ShutdownEffect (shutdown_correlation self s) (confirmed_projection s)]"
  by (simp add: reduce_shutdown_def Let_def batch_from_first_def batch_into_iter_def batch_one_def split: option.split)

lemma with_effect_eq_conv: "with_effect c n = d \<longleftrightarrow> same_operation c d \<and> effect_id d = n"
  using same_operation_effect_eq by auto

lemma set_map_filter: "x \<in> set (List.map_filter f xs) \<longleftrightarrow> (\<exists>y \<in> set xs. f y = Some x)"
  by (force simp: List.map_filter_def)

lemma confirmed_broadcast:
  "fst (snd (observer_transitioned previous current n)) = Some status \<Longrightarrow>
     snd (snd (observer_transitioned previous current n)) = Some status
     \<and> \<not> is_busy (cu_capture_operation status)"
  by (auto simp: observer_transitioned_def Let_def is_busy_def split: if_splits)

text \<open>The table entry of a task after the shutdown arm ran.\<close>

lemma shutdown_owned:
  assumes tr: "tracked (capture self) r" and own: "map_of (rn_owned r) n = Some task"
    and app: "apply_shutdown (capture self) r = Turned res r'"
  shows "map_of (rn_owned r') n =
     Some (if shutdown_target (rn_state r) = Some (oe_correlation task) then task\<lparr>oe_cancelled := True\<rparr> else task)"
proof -
  have n: "n \<noteq> rn_next r"
  proof -
    have "n \<in> fst ` set (rn_owned r)"
      using map_of_SomeD [OF own] by (metis fst_conv image_eqI)
    then show ?thesis
      using tr by (auto simp: tracked_def)
  qed
  have cancel: "map_of (cancel_matching c xs) n =
      map_option (\<lambda>t. if oe_correlation t = c then t\<lparr>oe_cancelled := True\<rparr> else t) (map_of xs n)" for c xs
    by (simp add: cancel_matching_def map_of_map)
  have r': "r' = run_effects (capture self) Operation (emitted (reduce_shutdown self (rn_state r)))
      (published CaptureShutdown (reduce_shutdown self (rn_state r)) r)"
    using app
    by (simp add: apply_shutdown_def apply_input_def apply_input_with_role_eq machine_simps split: if_splits)
  show ?thesis
    using own n
    by (cases "shutdown_target (rn_state r)")
      (simp_all add: r' shutdown_effects run_effect_def machine_simps cancel map_add_def)
qed

text \<open>The shutdown never aims at a task of an operation that is no longer the active one.\<close>

lemma shutdown_target_operation:
  "shutdown_target s = Some c \<Longrightarrow> \<exists>op. active_operation_of s = Some op \<and> same_operation (ao_correlation op) c"
  by (cases s) (auto simp: shutdown_target_def Let_def split: transition_stage.splits)

lemma shutdown_spares_stale:
  assumes tr: "tracked (capture self) r" and ok: "tasks_ok (rn_state r) (effects_in_flight r)"
    and own: "map_of (rn_owned r) n = Some task"
    and stale: "\<not> effect_is_current (rn_state r) (oe_correlation task)"
  shows "shutdown_target (rn_state r) \<noteq> Some (oe_correlation task)"
proof
  assume target: "shutdown_target (rn_state r) = Some (oe_correlation task)"
  have "(n, oe_correlation task) \<in> set (map (\<lambda>(i, e). (i, effect_correlation e)) (rn_tasks r))"
    using map_of_SomeD [OF own] tr by (force simp: tracked_def machine_simps)
  then obtain e where e: "e \<in># effects_in_flight r" "effect_correlation e = oe_correlation task"
    by (force simp: effects_in_flight_def)
  then obtain M where M: "effects_in_flight r = add_mset e M"
    by (meson multi_member_split)
  obtain op where "active_operation_of (rn_state r) = Some op" "same_operation (ao_correlation op) (oe_correlation task)"
    using shutdown_target_operation [OF target] by blast
  then show False
    using stale_task_revision(2) [of "rn_state r" e M op] ok stale M e(2) by simp
qed

text \<open>The operation a caller waits for ends in exactly these ways.\<close>

lemma settled_status:
  "projection (recovery st op status err) = status\<lparr>cu_capture_operation :=
     finished_operation op (Some (er_kind err)) (if ao_mode op = Prepared then OP_Finalizing else OP_RecoveryRequired)\<rparr>"
  "last_error (recovery st op status err) = Some err"
  "projection (failed st op status err) = status\<lparr>cu_capture_operation :=
     finished_operation op (Some (er_kind err)) (if ao_mode op = Prepared then OP_Finalizing else OP_Failed)\<rparr>"
  "last_error (failed st op status err) = Some err"
  "projection (finish st op status phase) =
     status\<lparr>cu_capture_operation := finished_operation op None phase\<rparr>"
  "last_error (finish st op status phase) = None"
  by (simp_all add: recovery_def failed_def finish_def Let_def)

lemmas wait_defs = wait_for_operation_def token_matches_def public_operation_def settled_status finished_operation_def

lemmas active_reduce_defs = reduce_preflight_def reduce_preflight_finished_def reduce_reserve_def reduce_start_def
  reduce_execute_reserved_def reduce_fail_reserved_def fail_finalizing_def fail_reserved_def failed_token_def
  reduce_mark_finalizing_def reduce_mutation_finished_def reduce_observation_finished_def
  reduce_audit_def reduce_audit_finished_def reduce_audit_committed_def reduce_recover_def
  reduce_finalized_def reduce_task_failed_def reduce_task_cancelled_def lost_effect_def
  reduce_shutdown_def reduce_shutdown_finished_def end_failed_def Let_def

lemma wait_settled:
  assumes op: "active_operation_of s = Some op" and inv: "capture_inv s"
    and red: "machine_reduce self s i = Some t"
    and wait: "wait_for_operation (public_operation op) (next_state s t) = Some (Inr st)"
  shows "(status_phase st = OP_Applied
       \<and> ((\<exists>c oc. i = ObservationFinished c oc \<and> ex_error oc = None) \<or> (\<exists>c ax. i = AuditCommitted c ax \<and> ax_error ax = None)))
    \<or> (status_phase st = OP_RecoveryRequired \<and> (\<exists>c ax. i = AuditCommitted c ax \<and> ax_error ax = None))
    \<or> (st = ao_previous op \<and> ((\<exists>c. i = PreflightFinished c)
         \<or> (\<exists>c ax. i = AuditFinished c ax \<and> \<not> ax_mutated ax \<and> ax_error ax = None) \<or> i = CaptureShutdown))"
proof (cases s)
  case (Transitioning tc)
  then show ?thesis
    using op inv red wait
    by (cases i) (auto simp: wait_defs active_reduce_defs split: if_splits option.splits)
next
  case (Reconciling rc)
  then show ?thesis
    using op inv red wait withdraw_ok [of rc]
    by (cases i) (auto simp: wait_defs active_reduce_defs split: if_splits option.splits)
qed (use op in simp_all)

lemma wait_failed:
  assumes op: "active_operation_of s = Some op" and inv: "capture_inv s"
    and red: "machine_reduce self s i = Some t"
    and wait: "wait_for_operation (public_operation op) (next_state s t) = Some (Inl err)"
  shows "os_failure (cu_capture_operation (projection (next_state s t))) = Some (er_kind err)"
proof (cases s)
  case (Transitioning tc)
  then show ?thesis
    using op inv red wait
    by (cases i) (auto simp: wait_defs active_reduce_defs split: if_splits option.splits)
next
  case (Reconciling rc)
  then show ?thesis
    using op inv red wait withdraw_ok [of rc]
    by (cases i) (auto simp: wait_defs active_reduce_defs split: if_splits option.splits)
qed (use op in simp_all)

section \<open>Properties\<close>

text \<open>A concrete reconciler and its reports, for the witnesses.\<close>

definition demo_self :: capture_machine where
  "demo_self = \<lparr>cm_machine_authority = ''auth'', cm_scope_epoch = 7\<rparr>"

definition demo_request :: capture_request where
  "demo_request = \<lparr>cq_active = True, cq_selection = \<lparr>cs_system_proxy = True, cs_tun = False\<rparr>\<rparr>"

definition demo_on :: capture_status where
  "demo_on = capture_off
     \<lparr>cu_capture_selection := cq_selection demo_request, cu_system_proxy_enabled := True,
      cu_system_proxy := \<lparr>ps_desired = True, ps_failure = None, ps_observed = SO_Mish, ps_phase = SP_Applied,
        ps_recovery_actions = []\<rparr>\<rparr>"

definition demo_ok :: effect_outcome where
  "demo_ok = \<lparr>ex_error = None, ex_status = demo_on\<rparr>"

definition demo_bad :: effect_outcome where
  "demo_bad = \<lparr>ex_error = Some (error_new CF_ApplyFailed ''no''), ex_status = capture_off\<rparr>"

definition demo_corr :: correlation where
  "demo_corr = \<lparr>machine_authority = ''auth'', scope_epoch = 7, operation_id = ''1'', admitted_revision = 1,
     effect_id = 0\<rparr>"

definition demo_token :: capture_operation where
  "demo_token =
     \<lparr>co_correlation = demo_corr,
      co_previous = capture_off\<lparr>cu_capture_operation := operation_idle ''auth''\<rparr>,
      co_public_operation_id = ''1'', co_request = demo_request\<rparr>"

text \<open>An ordinary operation up to its mutation, then to its observation.\<close>

definition demo_mutating :: "capture_input event list" where
  "demo_mutating = [Ev_Admit (Start True Ordinary None None demo_request), Ev_Receive]"

definition demo_applied :: "capture_input event list" where
  "demo_applied = demo_mutating @
     [Ev_Join (Join_Ok 0 (MutationFinished (with_effect demo_corr MUTATION_EFFECT_ID) demo_ok)),
      Ev_Join (Join_Ok 1 (ObservationFinished (with_effect demo_corr OBSERVATION_EFFECT_ID) demo_ok))]"

text \<open>A recovery in flight.\<close>

definition demo_recovering :: "capture_input event list" where
  "demo_recovering = [Ev_Admit (Recover RepairAction True), Ev_Receive]"

text \<open>A prepared operation whose mutation fails, and a preflight that arrives before its cleanup.\<close>

definition demo_prepared_failure :: "capture_input event list" where
  "demo_prepared_failure =
     [Ev_Admit (Reserve demo_request Prepared), Ev_Receive,
      Ev_Admit (ExecuteReserved True demo_token None demo_request), Ev_Receive,
      Ev_Join (Join_Ok 0 (MutationFinished (with_effect demo_corr MUTATION_EFFECT_ID) demo_bad))]"

definition demo_preflight :: "capture_input event list" where
  "demo_preflight = [Ev_Admit (Preflight 0 0 demo_request), Ev_Receive]"

definition demo_capture ::
  "capture_input event list \<Rightarrow> (capture_state, capture_input, capture_effect, capture_error) kernel" where
  "demo_capture evs =
     (case run_events (capture demo_self) 4 capture_command execute evs
             (spawn_runner None (capture_initial demo_self capture_off)) of
        Some k \<Rightarrow> k
      | None \<Rightarrow> spawn_runner None (RetiredCapture \<lparr>rt_error = None, rt_projection = capture_off\<rparr>))"

lemma demo_capture_reach:
  "run_events (capture demo_self) 4 capture_command execute evs
     (spawn_runner None (capture_initial demo_self capture_off)) \<noteq> None
   \<Longrightarrow> kernel_reach (capture demo_self) 4 capture_command execute (capture_initial demo_self capture_off)
         (demo_capture evs)"
  by (auto simp: demo_capture_def intro: run_events_reach)

lemma demo_capture_runs:
  "run_events (capture demo_self) 4 capture_command execute demo_mutating
     (spawn_runner None (capture_initial demo_self capture_off)) \<noteq> None"
  "run_events (capture demo_self) 4 capture_command execute demo_applied
     (spawn_runner None (capture_initial demo_self capture_off)) \<noteq> None"
  "run_events (capture demo_self) 4 capture_command execute demo_recovering
     (spawn_runner None (capture_initial demo_self capture_off)) \<noteq> None"
  "run_events (capture demo_self) 4 capture_command execute demo_prepared_failure
     (spawn_runner None (capture_initial demo_self capture_off)) \<noteq> None"
  by code_simp+

text \<open>
  C11: on every run, whatever is admitted and whatever the effects report, the Capture reducer
  panics on exactly one kind of input: a preflight admitted while a settled state still shows
  a busy operation, which is how a failed prepared operation is left until its cleanup is
  reported. In particular the numbers an unchanged audit or a preflight gives back never
  underflow.
\<close>

theorem capture_panics_on_busy_preflight:
  assumes "kernel_reach (capture self) capacity command answer (capture_initial self status) k"
  shows "machine_reduce self (rn_state (kn_runner k)) i = None \<longleftrightarrow>
    (\<exists>st cancellation reply request.
       rn_state (kn_runner k) = Stable st \<and> is_busy (cu_capture_operation (sc_projection st))
       \<and> i = Preflight cancellation reply request)"
proof -
  have "capture_inv (capture_initial self status)"
    by (simp add: capture_initial_def)
  from cap.reachable_inv [OF this assms] have "capture_inv (rn_state (kn_runner k))"
    by (simp add: state_inv_def)
  then show ?thesis
    by (rule capture_panic_iff)
qed

theorem capture_panics_on_busy_preflight_witness:
  "machine_reduce demo_self (rn_state (kn_runner (demo_capture demo_prepared_failure))) (Preflight 0 0 demo_request)
     = None
   \<and> kn_actor (demo_capture (demo_prepared_failure @ demo_preflight)) = Dead AF_Panicked"
proof -
  have "(case rn_state (kn_runner (demo_capture demo_prepared_failure)) of
      Stable st \<Rightarrow> is_busy (cu_capture_operation (sc_projection st)) | _ \<Rightarrow> False)"
    by code_simp
  moreover have "kn_actor (demo_capture (demo_prepared_failure @ demo_preflight)) = Dead AF_Panicked"
    by code_simp
  ultimately show ?thesis
    using capture_panics_on_busy_preflight [OF demo_capture_reach [OF demo_capture_runs(4)],
        of "Preflight 0 0 demo_request"]
    by (auto split: capture_state.splits)
qed

text \<open>
  C10: as long as the Capture actor runs under its handle and its executor, an active operation
  owns exactly one task while it waits, that task is the one whose completion the state
  accepts, and none while it is merely reserved. Tasks of operations given up before are
  never counted as tasks of the active one.
\<close>

theorem capture_one_task_per_operation:
  assumes "kernel_reach (capture self) capacity capture_command execute (capture_initial self status) k"
    and "kn_actor k = Running" and "active_operation_of (rn_state (kn_runner k)) = Some op"
  shows "(let tasks = filter (\<lambda>(n, e). same_operation (ao_correlation op) (effect_correlation e))
                       (rn_tasks (kn_runner k))
          in if waiting (rn_state (kn_runner k))
             then length tasks = 1
               \<and> (\<forall>(n, e) \<in> set tasks. effect_is_current (rn_state (kn_runner k)) (effect_correlation e))
             else tasks = [])"
proof -
  let ?s = "rn_state (kn_runner k)" and ?T = "rn_tasks (kn_runner k)"
  let ?tasks = "filter (\<lambda>(n, e). same_operation (ao_correlation op) (effect_correlation e)) ?T"
  have ok: "tasks_ok ?s (effects_in_flight (kn_runner k))"
    using running_capture [OF assms(1,2)] by (simp add: capture_flight_def)
  have snd: "mset (map snd ?tasks) = {#e \<in># effects_in_flight (kn_runner k). effect_revision e = revision ?s#}"
    unfolding one_task_filter [OF ok assms(3), symmetric]
    by (simp add: effects_in_flight_def filter_mset_image_mset case_prod_beta')
  show ?thesis
  proof (cases "waiting ?s")
    case True
    then obtain e where e: "mset (map snd ?tasks) = {#e#}" "effect_is_current ?s (effect_correlation e)"
      using ok assms(3) snd by (auto simp: tasks_ok_def)
    then have "map snd ?tasks = [e]"
      by (simp only: mset_single_iff)
    then obtain n where "?tasks = [(n, e)]"
      by (simp only: map_eq_Cons_conv list.map_disc_iff) auto
    then show ?thesis
      using True e(2) by (simp add: Let_def)
  next
    case False
    then have "mset (map snd ?tasks) = {#}"
      using ok assms(3) snd by (simp add: tasks_ok_def)
    then show ?thesis
      using False by (simp only: mset_zero_iff list.map_disc_iff Let_def if_False)
  qed
qed

theorem capture_one_task_per_operation_witness:
  "\<exists>op. active_operation_of (rn_state (kn_runner (demo_capture demo_mutating))) = Some op
     \<and> length (filter (\<lambda>(n, e). same_operation (ao_correlation op) (effect_correlation e))
          (rn_tasks (kn_runner (demo_capture demo_mutating)))) = 1"
proof -
  have run: "kn_actor (demo_capture demo_mutating) = Running"
      "waiting (rn_state (kn_runner (demo_capture demo_mutating)))"
      "active_operation_of (rn_state (kn_runner (demo_capture demo_mutating))) \<noteq> None"
    by code_simp+
  then obtain op where op: "active_operation_of (rn_state (kn_runner (demo_capture demo_mutating))) = Some op"
    by blast
  show ?thesis
    using capture_one_task_per_operation [OF demo_capture_reach [OF demo_capture_runs(1)] run(1) op] run(2) op
    by (simp add: Let_def)
qed

text \<open>
  C9: a confirmed Capture status that says applied was observed. Either the executor reported
  a successful mutation or recovery of some operation and after it, under the same
  correlation, a successful observation, or it reported an audit that was then committed, and
  in both cases the published status is the reported one, apart from the operation status the
  machine itself writes.
\<close>

theorem capture_applied_observed:
  assumes "kernel_reach (capture self) capacity capture_command execute (capture_initial self status) k"
    and "kn_actor k = Running"
    and "status_phase (confirmed_projection (rn_state (kn_runner k))) = OP_Applied"
  shows "observed_applied (confirmed_projection (rn_state (kn_runner k))) (consumed (kn_runner k))
     \<or> audited_applied (confirmed_projection (rn_state (kn_runner k))) (consumed (kn_runner k))"
  using running_capture [OF assms(1,2)] assms(3) by (simp add: capture_flight_def backed_def)

theorem capture_applied_observed_witness:
  "observed_applied (confirmed_projection (rn_state (kn_runner (demo_capture demo_applied))))
     (consumed (kn_runner (demo_capture demo_applied)))
   \<or> audited_applied (confirmed_projection (rn_state (kn_runner (demo_capture demo_applied))))
     (consumed (kn_runner (demo_capture demo_applied)))"
  by (rule capture_applied_observed [OF demo_capture_reach [OF demo_capture_runs(2)]]) code_simp+

text \<open>
  A prepared operation whose mutation fails stays owned by its caller until the caller has
  cleaned up. From any settled state, after it has been reserved, executed and its mutation
  reported an error, no operation is active, yet no other operation, audit or recovery is
  admitted, and the reported error is kept; the failure the caller then reports under its
  token decides: the projection from before the operation comes back marked failed, or, when
  the rollback failed, recovery is required and the reported status stays published.
\<close>

theorem capture_prepared_failure_settles:
  assumes "base s = Some b" and "machine_operation self b request Prepared None = Inr (settled, operation)"
    and "ex_error outcome = Some error"
  shows "(let token = public_operation operation;
              history = [Reserve request Prepared, ExecuteReserved core_healthy token preflight request,
                MutationFinished (with_effect (ao_correlation operation) MUTATION_EFFECT_ID) outcome]
          in (\<exists>s1. after (capture self) s history = Some s1
               \<and> active_operation_of s1 = None \<and> base s1 = None \<and> last_error s1 = Some error
               \<and> reported (projection s1) (ex_status outcome))
           \<and> (\<exists>s2. after (capture self) s (history @ [FailReserved cleanup token]) = Some s2
               \<and> base s2 \<noteq> None \<and> last_error s2 = Some cleanup
               \<and> (if er_kind cleanup = CF_RollbackFailed
                  then status_phase (projection s2) = OP_RecoveryRequired
                    \<and> reported (projection s2) (ex_status outcome)
                  else status_phase (projection s2) = OP_Failed
                    \<and> reported (projection s2) (sc_projection b))))"
proof -
  have op: "ao_mode operation = Prepared" "ao_request operation = request" "ao_previous operation = sc_projection b"
    using assms(2) by (auto elim: machine_operation_InrE)
  have pending: "os_scope_epoch (cu_capture_operation (ao_pending operation))
      = machine_authority (ao_correlation operation)"
    using assms(2)
    by (auto simp: machine_operation_def pending_status_def Let_def split: option.splits)
  show ?thesis
    using assms op pending
    by (auto simp: machine_simps Let_def reduce_reserve_def reduce_execute_reserved_def public_operation_def
        reduce_mutation_finished_def matching_def end_failed_def recovery_def failed_def finished_operation_def
        is_busy_def reduce_fail_reserved_def names_token_def fail_finalizing_def failed_token_def reported_def)
qed



text \<open>
  Subscribers are never behind. On every run the last Capture status broadcast, or the
  initial one when none was, is the projection of the current state, and every status handed to
  the confirmed observer is one of the broadcast ones whose operation is neither pending nor
  finalizing.
\<close>

theorem capture_broadcast_current:
  assumes "kernel_reach (capture self) capacity command answer (capture_initial self status) k"
  shows "last (projection (capture_initial self status) # broadcasts (kn_runner k))
       = projection (rn_state (kn_runner k))
     \<and> set (confirmations (kn_runner k)) \<subseteq> set (broadcasts (kn_runner k))
     \<and> (\<forall>published \<in> set (confirmations (kn_runner k)). \<not> is_busy (cu_capture_operation published))"
proof -
  have "broadcast_current (projection (capture_initial self status)) (kn_runner k)"
    by (rule kernel_reach_stable [OF broadcast_current_stable _ assms])
      (simp add: broadcast_current_def broadcasts_def initial_runner_def map_filter_def)
  moreover have "set (confirmations r) \<subseteq> set (broadcasts r)"
      "\<forall>x \<in> set (confirmations r). \<not> is_busy (cu_capture_operation x)" for r
    using confirmed_broadcast
    by (fastforce simp: confirmations_def broadcasts_def set_map_filter case_prod_beta')+
  ultimately show ?thesis
    by (simp add: broadcast_current_def)
qed



end
