(* ===== verification/State_Wp.thy ===== *)
theory State_Wp
  imports Mish_Prelude "HOL-Library.State_Monad"
begin

text \<open>
  Reasoning about code that threads a state: the operations are programs of the library's
  state monad, and \<open>wp f Q s\<close> says that running \<open>f\<close> in state \<open>s\<close> returns a value and a state
  that satisfy \<open>Q\<close>. The rules in \<open>wp_rules\<close> take a program apart along its statements;
  a component adds one rule for each operation it has proved.
\<close>

named_theorems wp_rules "introduction rules of the weakest precondition calculus"

definition wp :: "('s, 'a) state \<Rightarrow> ('a \<Rightarrow> 's \<Rightarrow> bool) \<Rightarrow> 's \<Rightarrow> bool" where
  "wp f Q s \<longleftrightarrow> (case run_state f s of (r, s') \<Rightarrow> Q r s')"

lemma wp_run: "wp f Q s \<Longrightarrow> run_state f s = (r, s') \<Longrightarrow> Q r s'"
  by (simp add: wp_def)

lemma wp_iff: "wp f Q s \<longleftrightarrow> Q (fst (run_state f s)) (snd (run_state f s))"
  by (simp add: wp_def split_beta)

lemma wp_mono: "wp f Q s \<Longrightarrow> (\<And>r s'. Q r s' \<Longrightarrow> Q' r s') \<Longrightarrow> wp f Q' s"
  by (auto simp: wp_iff)

lemma wp_conj: "wp f Q s \<Longrightarrow> wp f Q' s \<Longrightarrow> wp f (\<lambda>r s'. Q r s' \<and> Q' r s') s"
  by (simp add: wp_iff)

lemma wp_return [wp_rules]: "Q x s \<Longrightarrow> wp (State_Monad.return x) Q s"
  by (simp add: wp_def)

lemma wp_return_eq: "wp (State_Monad.return x) Q = Q x"
  by (simp add: fun_eq_iff wp_def)

lemma wp_bind [wp_rules]: "wp f (\<lambda>r. wp (g r) Q) s \<Longrightarrow> wp (State_Monad.bind f g) Q s"
  by (simp add: wp_def split_beta)

lemma wp_get [wp_rules]: "Q s s \<Longrightarrow> wp State_Monad.get Q s"
  by (simp add: wp_def)

lemma wp_update [wp_rules]: "Q () (f s) \<Longrightarrow> wp (State_Monad.update f) Q s"
  by (simp add: wp_def State_Monad.update_def)

lemma wp_Let [wp_rules]: "wp (f t) Q s \<Longrightarrow> wp (Let t f) Q s"
  by simp

lemma wp_if [wp_rules]:
  "(c \<Longrightarrow> wp f Q s) \<Longrightarrow> (\<not> c \<Longrightarrow> wp g Q s) \<Longrightarrow> wp (if c then f else g) Q s"
  by simp

lemma wp_case_sum [wp_rules]:
  "(\<And>e. x = Inl e \<Longrightarrow> wp (f e) Q s) \<Longrightarrow> (\<And>v. x = Inr v \<Longrightarrow> wp (g v) Q s)
     \<Longrightarrow> wp (case x of Inl e \<Rightarrow> f e | Inr v \<Rightarrow> g v) Q s"
  by (cases x) simp_all

lemma wp_case_option [wp_rules]:
  "(x = None \<Longrightarrow> wp f Q s) \<Longrightarrow> (\<And>v. x = Some v \<Longrightarrow> wp (g v) Q s)
     \<Longrightarrow> wp (case x of None \<Rightarrow> f | Some v \<Rightarrow> g v) Q s"
  by (cases x) simp_all

lemma wp_case_prod [wp_rules]:
  "(\<And>a b. x = (a, b) \<Longrightarrow> wp (f a b) Q s) \<Longrightarrow> wp (case x of (a, b) \<Rightarrow> f a b) Q s"
  by (cases x) simp_all

end
