(* ===== verification/Tun_Helper.thy ===== *)
theory Tun_Helper
  imports Tun_Lifecycle State_Wp
begin

text \<open>
  \<^verbatim>\<open>TunHelperController\<close> of \<^verbatim>\<open>crates/runtime/src/tun_helper.rs\<close>: it installs, repairs and removes the
  privileged TUN helper and switches TUN through it. The platform trait is a record of state
  programs over its world, the wall clock among them; the controller's snapshot and its session
  failure are the state, and the operation lock serialises the calls.
\<close>

section \<open>Data\<close>

datatype helper_availability =
    HA_Available
  | HA_PermissionRequired
  | HA_RecoveryRequired
  | HA_RepairRequired
  | HA_Unpackaged
  | HA_UnsignedApp
  | HA_UnsupportedSystem
  | HA_Unavailable

datatype helper_health =
    HH_Healthy
  | HH_InvalidSignature
  | HH_NotInstalled
  | HH_Unknown
  | HH_Unreachable
  | HH_VersionMismatch

datatype helper_phase = HP_Failed | HP_Idle | HP_Installing | HP_Removing | HP_Repairing

datatype removal_capability = RC_Available | RC_MaintenancePending | RC_NotInstalled | RC_Unavailable

datatype helper_failure_kind =
    HF_AuthorizationCancelled
  | HF_ConfirmationFailed
  | HF_ConnectionFailed
  | HF_IdentityRejected
  | HF_InstallationFailed
  | HF_InstallerUnavailable
  | HF_InvalidSignature
  | HF_MessageTooLarge
  | HF_OperationFailed
  | HF_ObservationForeign
  | HF_ObservationPartial
  | HF_ObservationStale
  | HF_PermissionDenied
  | HF_PreparationFailed
  | HF_ProtocolMismatch
  | HF_RegistrationFailed
  | HF_RegistrationRequiresApproval
  | HF_Unpackaged
  | HF_UnsignedApp
  | HF_UnsupportedSystem
  | HF_VersionMismatch

definition failure_kind_at :: "tun_network_observation \<Rightarrow> u64 \<Rightarrow> helper_failure_kind" where
  "failure_kind_at self now =
     (if \<not> is_fresh_at self now then HF_ObservationStale
      else if CS_Foreign \<in> set [no_core self, no_interface self, no_routes self, no_dns self]
      then HF_ObservationForeign
      else HF_ObservationPartial)"

record helper_snapshot =
  hs_availability :: helper_availability
  hs_expected_version :: string
  hs_health :: helper_health
  hs_installation_id :: "string option"
  hs_installed_version :: "string option"
  hs_last_failure :: "helper_failure_kind option"
  hs_phase :: helper_phase
  hs_removal :: removal_capability

definition has_healthy_identity :: "helper_snapshot \<Rightarrow> bool" where
  "has_healthy_identity self \<longleftrightarrow>
     hs_availability self = HA_Available \<and> hs_health self = HH_Healthy
     \<and> hs_installed_version self = Some (hs_expected_version self)"

definition is_healthy :: "helper_snapshot \<Rightarrow> bool" where
  "is_healthy self \<longleftrightarrow> has_healthy_identity self \<and> hs_phase self = HP_Idle \<and> hs_last_failure self = None"

definition removal_available :: "helper_snapshot \<Rightarrow> bool" where
  "removal_available self \<longleftrightarrow> hs_removal self = RC_Available"

definition mark_removal_maintenance_pending :: "helper_snapshot \<Rightarrow> helper_snapshot" where
  "mark_removal_maintenance_pending self =
     (if hs_removal self = RC_Available then self\<lparr>hs_removal := RC_MaintenancePending\<rparr> else self)"

definition authoritatively_installed :: "helper_snapshot \<Rightarrow> bool" where
  "authoritatively_installed self \<longleftrightarrow>
     hs_availability self = HA_Available \<or> hs_availability self = HA_RepairRequired
     \<or> (hs_health self \<noteq> HH_NotInstalled
        \<and> (hs_installation_id self \<noteq> None \<or> hs_installed_version self \<noteq> None))"

definition removal_of :: "helper_snapshot \<Rightarrow> removal_capability" where
  "removal_of self =
     (if authoritatively_installed self
      then (if hs_phase self = HP_Installing \<or> hs_phase self = HP_Removing \<or> hs_phase self = HP_Repairing
            then RC_MaintenancePending else RC_Available)
      else if hs_health self = HH_NotInstalled \<and> hs_installation_id self = None \<and> hs_installed_version self = None
      then RC_NotInstalled
      else RC_Unavailable)"

definition refresh_removal_capability :: "helper_snapshot \<Rightarrow> helper_snapshot" where
  "refresh_removal_capability self = self\<lparr>hs_removal := removal_of self\<rparr>"

definition snapshot_unavailable ::
  "helper_availability \<Rightarrow> helper_health \<Rightarrow> helper_failure_kind \<Rightarrow> helper_snapshot" where
  "snapshot_unavailable availability health failure =
     refresh_removal_capability
       \<lparr>hs_availability = availability, hs_expected_version = TUN_HELPER_EXPECTED_VERSION, hs_health = health,
        hs_installation_id = None, hs_installed_version = None, hs_last_failure = Some failure,
        hs_phase = HP_Idle, hs_removal = RC_Unavailable\<rparr>"

definition browser_unavailable :: helper_snapshot where
  "browser_unavailable =
     \<lparr>hs_availability = HA_Unavailable, hs_expected_version = TUN_HELPER_EXPECTED_VERSION,
      hs_health = HH_NotInstalled, hs_installation_id = None, hs_installed_version = None,
      hs_last_failure = None, hs_phase = HP_Idle, hs_removal = RC_Unavailable\<rparr>"

record helper_observation =
  ho_availability :: helper_availability
  ho_health :: helper_health
  ho_installation_id :: "string option"
  ho_installed_version :: "string option"
  ho_last_failure :: "helper_failure_kind option"

definition observation_not_installed :: helper_observation where
  "observation_not_installed =
     \<lparr>ho_availability = HA_PermissionRequired, ho_health = HH_NotInstalled, ho_installation_id = None,
      ho_installed_version = None, ho_last_failure = None\<rparr>"

definition observation_healthy :: "string \<Rightarrow> helper_observation" where
  "observation_healthy version =
     \<lparr>ho_availability = HA_Available, ho_health = HH_Healthy, ho_installation_id = None,
      ho_installed_version = Some version, ho_last_failure = None\<rparr>"

definition observation_healthy_installation :: "string \<Rightarrow> string \<Rightarrow> helper_observation" where
  "observation_healthy_installation version installation_id =
     \<lparr>ho_availability = HA_Available, ho_health = HH_Healthy, ho_installation_id = Some installation_id,
      ho_installed_version = Some version, ho_last_failure = None\<rparr>"

definition availability_failure :: "helper_availability \<Rightarrow> helper_failure_kind option" where
  "availability_failure availability =
     (case availability of
        HA_Unpackaged \<Rightarrow> Some HF_Unpackaged
      | HA_UnsignedApp \<Rightarrow> Some HF_UnsignedApp
      | HA_UnsupportedSystem \<Rightarrow> Some HF_UnsupportedSystem
      | _ \<Rightarrow> None)"

definition snapshot_from_observation :: "helper_observation \<Rightarrow> helper_snapshot" where
  "snapshot_from_observation observation =
     (let snapshot =
        \<lparr>hs_availability = ho_availability observation, hs_expected_version = TUN_HELPER_EXPECTED_VERSION,
         hs_health = ho_health observation, hs_installation_id = ho_installation_id observation,
         hs_installed_version = ho_installed_version observation, hs_last_failure = ho_last_failure observation,
         hs_phase = HP_Idle, hs_removal = RC_Unavailable\<rparr>
      in refresh_removal_capability
           (if hs_health snapshot = HH_Healthy
               \<and> ho_installed_version observation \<noteq> Some TUN_HELPER_EXPECTED_VERSION
            then snapshot\<lparr>hs_availability := HA_RepairRequired, hs_health := HH_VersionMismatch,
                          hs_last_failure := Some HF_VersionMismatch\<rparr>
            else if hs_last_failure snapshot = None
            then snapshot\<lparr>hs_last_failure := availability_failure (hs_availability snapshot)\<rparr>
            else snapshot))"

datatype lifecycle_operation = LO_Install | LO_Remove | LO_Repair

record lifecycle_correlation =
  lc_admitted_revision :: u64
  lc_operation_id :: string

record helper_error =
  he_kind :: helper_failure_kind
  he_message :: string

type_synonym 'a helped = "helper_error + 'a"

section \<open>The platform and the controller\<close>

text \<open>\<open>tp_now\<close> is \<^verbatim>\<open>tun_observation_now\<close>; a lifecycle without a correlation is \<^verbatim>\<open>run_lifecycle\<close>.\<close>

record 'w helper_platform =
  tp_now :: "('w, u64) state"
  tp_observe_helper :: "('w, helper_observation helped) state"
  tp_run_lifecycle :: "lifecycle_operation \<Rightarrow> lifecycle_correlation option \<Rightarrow> ('w, unit helped) state"
  tp_observe_tun :: "('w, tun_network_observation helped) state"
  tp_set_tun_enabled :: "bool \<Rightarrow> ('w, unit helped) state"

record 'w helper_state =
  hc_runtime_failure :: "helper_failure_kind option"
  hc_snapshot :: helper_snapshot
  hc_world :: 'w

definition helper_new :: "helper_snapshot \<Rightarrow> 'w \<Rightarrow> 'w helper_state" where
  "helper_new initial_snapshot w =
     \<lparr>hc_runtime_failure = None, hc_snapshot = initial_snapshot, hc_world = w\<rparr>"

definition ask :: "('w, 'a) state \<Rightarrow> ('w helper_state, 'a) state" where
  "ask f = State (\<lambda>s. case run_state f (hc_world s) of (r, w) \<Rightarrow> (r, s\<lparr>hc_world := w\<rparr>))"

definition snapshot_now :: "('w helper_state, helper_snapshot) state" where
  "snapshot_now = do { s \<leftarrow> State_Monad.get; State_Monad.return (hc_snapshot s) }"

definition mark_runtime_unavailable :: "helper_failure_kind \<Rightarrow> ('w helper_state, unit) state" where
  "mark_runtime_unavailable failure =
     State_Monad.update (\<lambda>s. s\<lparr>hc_runtime_failure := Some failure,
       hc_snapshot := refresh_removal_capability
         ((hc_snapshot s)\<lparr>hs_availability := HA_Unavailable, hs_phase := HP_Failed, hs_last_failure := Some failure\<rparr>)\<rparr>)"

definition set_phase :: "helper_phase \<Rightarrow> ('w helper_state, unit) state" where
  "set_phase phase =
     State_Monad.update (\<lambda>s. s\<lparr>hc_snapshot :=
       refresh_removal_capability ((hc_snapshot s)\<lparr>hs_phase := phase, hs_last_failure := None\<rparr>)\<rparr>)"

definition helper_record_failure :: "helper_failure_kind \<Rightarrow> ('w helper_state, unit) state" where
  "helper_record_failure failure =
     State_Monad.update (\<lambda>s. s\<lparr>hc_snapshot :=
       refresh_removal_capability
         ((hc_snapshot s)\<lparr>hs_phase := HP_Failed,
                           hs_last_failure := Some (case hc_runtime_failure s of Some f \<Rightarrow> f | None \<Rightarrow> failure)\<rparr>)\<rparr>)"

definition clear_failure :: "('w helper_state, unit) state" where
  "clear_failure =
     State_Monad.update (\<lambda>s. s\<lparr>hc_snapshot :=
       refresh_removal_capability ((hc_snapshot s)\<lparr>hs_phase := HP_Idle, hs_last_failure := None\<rparr>)\<rparr>)"

definition observed_snapshot ::
  "helper_observation \<Rightarrow> helper_failure_kind option \<Rightarrow> helper_failure_kind option \<Rightarrow> helper_snapshot" where
  "observed_snapshot observation runtime_failure operation_failure =
     (let snapshot = snapshot_from_observation observation in
      refresh_removal_capability
        (case runtime_failure of
           Some failure \<Rightarrow>
             snapshot\<lparr>hs_availability := HA_Unavailable, hs_phase := HP_Failed, hs_last_failure := Some failure\<rparr>
         | None \<Rightarrow>
             (case operation_failure of
                Some failure \<Rightarrow> snapshot\<lparr>hs_phase := HP_Failed, hs_last_failure := Some failure\<rparr>
              | None \<Rightarrow> snapshot)))"

definition apply_observation ::
  "helper_observation \<Rightarrow> helper_failure_kind option \<Rightarrow> ('w helper_state, helper_snapshot) state" where
  "apply_observation observation operation_failure =
     do { s \<leftarrow> State_Monad.get;
          let snapshot = observed_snapshot observation (hc_runtime_failure s) operation_failure in
          do { State_Monad.update (\<lambda>s. s\<lparr>hc_snapshot := snapshot\<rparr>);
               State_Monad.return snapshot } }"

definition refresh_locked ::
  "'w helper_platform \<Rightarrow> helper_failure_kind option \<Rightarrow> ('w helper_state, helper_snapshot) state" where
  "refresh_locked p operation_failure =
     do { observation \<leftarrow> ask (tp_observe_helper p);
          case observation of
            Inr observation \<Rightarrow> apply_observation observation operation_failure
          | Inl error \<Rightarrow>
              do { helper_record_failure (case operation_failure of Some f \<Rightarrow> f | None \<Rightarrow> he_kind error);
                   snapshot_now } }"

definition refresh_admission_locked :: "'w helper_platform \<Rightarrow> ('w helper_state, helper_snapshot helped) state" where
  "refresh_admission_locked p =
     do { observation \<leftarrow> ask (tp_observe_helper p);
          case observation of
            Inr observation \<Rightarrow>
              do { snapshot \<leftarrow> apply_observation observation None; State_Monad.return (Inr snapshot) }
          | Inl error \<Rightarrow>
              do { helper_record_failure (he_kind error); State_Monad.return (Inl error) } }"

definition refresh :: "'w helper_platform \<Rightarrow> ('w helper_state, helper_snapshot) state" where
  "refresh p = refresh_locked p None"

section \<open>Observing and switching TUN\<close>

definition unhealthy_helper :: helper_error where
  "unhealthy_helper = \<lparr>he_kind = HF_ConnectionFailed, he_message = ''The TUN helper is not healthy''\<rparr>"

definition observe_tun :: "'w helper_platform \<Rightarrow> ('w helper_state, tun_network_observation helped) state" where
  "observe_tun p =
     do { snapshot \<leftarrow> snapshot_now;
          if \<not> has_healthy_identity snapshot then State_Monad.return (Inl unhealthy_helper)
          else ask (tp_observe_tun p) }"

definition set_tun_enabled ::
  "'w helper_platform \<Rightarrow> bool \<Rightarrow> ('w helper_state, tun_network_observation helped) state" where
  "set_tun_enabled p enabled =
     do { snapshot \<leftarrow> snapshot_now;
          if \<not> has_healthy_identity snapshot then State_Monad.return (Inl unhealthy_helper)
          else do {
            switched \<leftarrow> ask (tp_set_tun_enabled p enabled);
            case switched of
              Inl error \<Rightarrow> State_Monad.return (Inl error)
            | Inr _ \<Rightarrow>
                do { observation \<leftarrow> observe_tun p;
                     case observation of
                       Inl error \<Rightarrow> State_Monad.return (Inl error)
                     | Inr observed \<Rightarrow>
                         do { now \<leftarrow> ask (tp_now p);
                              if \<not> (if enabled then confirms_enabled_at observed now
                                    else confirms_disabled_at observed now)
                              then do {
                                later \<leftarrow> ask (tp_now p);
                                State_Monad.return
                                  (Inl \<lparr>he_kind = failure_kind_at observed later,
                                        he_message = ''The TUN helper did not confirm the requested state''\<rparr>) }
                              else do {
                                clear_failure;
                                State_Monad.return (Inr observed) } } } } }"

text \<open>
  An observation that has to satisfy a test: otherwise the failure is recorded. Four places of the
  controller ask for one.
\<close>

definition require_observation ::
  "'w helper_platform \<Rightarrow> ('w helper_state, tun_network_observation helped) state
     \<Rightarrow> (tun_network_observation \<Rightarrow> u64 \<Rightarrow> bool) \<Rightarrow> string \<Rightarrow> ('w helper_state, tun_network_observation helped) state" where
  "require_observation p observe test message =
     do { observation \<leftarrow> observe;
          case observation of
            Inl error \<Rightarrow> do { helper_record_failure (he_kind error); State_Monad.return (Inl error) }
          | Inr observed \<Rightarrow>
              do { now \<leftarrow> ask (tp_now p);
                   if test observed now then State_Monad.return (Inr observed)
                   else do {
                     later \<leftarrow> ask (tp_now p);
                     helper_record_failure (failure_kind_at observed later);
                     State_Monad.return (Inl \<lparr>he_kind = failure_kind_at observed later, he_message = message\<rparr>) } } }"

definition not_removable :: helper_error where
  "not_removable =
     \<lparr>he_kind = HF_ConfirmationFailed,
      he_message = ''The TUN helper installation is not available for removal''\<rparr>"

definition confirm_removal_safe :: "'w helper_platform \<Rightarrow> ('w helper_state, tun_network_observation helped) state" where
  "confirm_removal_safe p =
     do { admitted \<leftarrow> refresh_locked p None;
          if \<not> removal_available admitted then State_Monad.return (Inl not_removable)
          else require_observation p (ask (tp_observe_tun p)) confirms_removal_safe_at
                 ''TUN cleanup could not be confirmed before helper removal'' }"

section \<open>Installing, repairing and removing the helper\<close>

definition installs :: "lifecycle_operation \<Rightarrow> bool" where
  "installs operation \<longleftrightarrow> operation = LO_Install \<or> operation = LO_Repair"

definition admission_refused :: "lifecycle_operation \<Rightarrow> helper_snapshot \<Rightarrow> helper_error option" where
  "admission_refused operation admitted =
     (if installs operation
         \<and> (hs_last_failure admitted = Some HF_ObservationForeign \<or> hs_last_failure admitted = Some HF_ObservationPartial)
      then Some \<lparr>he_kind = the (hs_last_failure admitted),
                 he_message = ''The TUN network ownership observation requires manual recovery''\<rparr>
      else if installs operation \<and> hs_availability admitted = HA_RecoveryRequired
      then Some \<lparr>he_kind = (case hs_last_failure admitted of Some f \<Rightarrow> f | None \<Rightarrow> HF_IdentityRejected),
                 he_message = ''The TUN helper installation identity requires manual recovery''\<rparr>
      else None)"

text \<open>TUN is handed off, or seen to be gone, before the helper is touched.\<close>

definition lifecycle_handoff ::
  "'w helper_platform \<Rightarrow> lifecycle_operation \<Rightarrow> helper_snapshot \<Rightarrow> ('w helper_state, unit helped) state" where
  "lifecycle_handoff p operation admitted =
     (if installs operation \<and> has_healthy_identity admitted
      then do {
        switched \<leftarrow> ask (tp_set_tun_enabled p False);
        case switched of
          Inl error \<Rightarrow> do { helper_record_failure (he_kind error); State_Monad.return (Inl error) }
        | Inr _ \<Rightarrow>
            do { observed \<leftarrow> require_observation p (ask (tp_observe_tun p)) confirms_disabled_at
                   ''TUN remained enabled before the helper lifecycle operation'';
                 State_Monad.return (map_sum id (\<lambda>_. ()) observed) } }
      else if operation = LO_Remove
      then (if \<not> removal_available admitted
            then do { helper_record_failure HF_ConfirmationFailed; State_Monad.return (Inl not_removable) }
            else do {
              observed \<leftarrow> require_observation p (ask (tp_observe_tun p)) confirms_removal_safe_at
                ''TUN cleanup could not be confirmed before helper removal'';
              State_Monad.return (map_sum id (\<lambda>_. ()) observed) })
      else State_Monad.return (Inr ()))"

definition lifecycle_phase :: "lifecycle_operation \<Rightarrow> helper_phase" where
  "lifecycle_phase operation =
     (case operation of LO_Install \<Rightarrow> HP_Installing | LO_Repair \<Rightarrow> HP_Repairing | LO_Remove \<Rightarrow> HP_Removing)"

definition lifecycle_confirmed :: "lifecycle_operation \<Rightarrow> helper_snapshot \<Rightarrow> bool" where
  "lifecycle_confirmed operation observed \<longleftrightarrow>
     (if operation = LO_Remove then hs_health observed = HH_NotInstalled \<and> hs_installed_version observed = None
      else is_healthy observed)"

definition confirmation_failed :: "string \<Rightarrow> helper_error" where
  "confirmation_failed message = \<lparr>he_kind = HF_ConfirmationFailed, he_message = message\<rparr>"

definition finish_removal :: "'w helper_platform \<Rightarrow> ('w helper_state, helper_snapshot helped) state" where
  "finish_removal p =
     do { State_Monad.update (\<lambda>s. s\<lparr>hc_runtime_failure := None\<rparr>);
          unblocked \<leftarrow> refresh_locked p None;
          if hs_health unblocked \<noteq> HH_NotInstalled \<or> hs_installed_version unblocked \<noteq> None
             \<or> hs_installation_id unblocked \<noteq> None \<or> hs_availability unblocked = HA_Unavailable
          then do {
            helper_record_failure HF_ConfirmationFailed;
            State_Monad.return
              (Inl (confirmation_failed ''The TUN helper removal could not be confirmed after recovery cleared'')) }
          else State_Monad.return (Inr unblocked) }"

definition finish_install ::
  "'w helper_platform \<Rightarrow> helper_snapshot \<Rightarrow> ('w helper_state, helper_snapshot helped) state" where
  "finish_install p observed =
     do { network \<leftarrow> require_observation p (observe_tun p) confirms_disabled_at
            ''The helper lifecycle left a non-disabled TUN observation'';
          State_Monad.return (map_sum id (\<lambda>_. observed) network) }"

definition lifecycle_unconfirmed ::
  "lifecycle_operation \<Rightarrow> helper_snapshot \<Rightarrow> ('w helper_state, helper_snapshot helped) state" where
  "lifecycle_unconfirmed operation observed =
     do { s \<leftarrow> State_Monad.get;
          if installs operation \<and> hs_health observed = HH_Healthy
             \<and> hs_installed_version observed = Some TUN_HELPER_EXPECTED_VERSION \<and> hc_runtime_failure s \<noteq> None
          then State_Monad.return
                 (Inl \<lparr>he_kind = the (hc_runtime_failure s),
                       he_message = ''The helper was repaired, but this application session remains unavailable''\<rparr>)
          else do {
            helper_record_failure HF_ConfirmationFailed;
            State_Monad.return (Inl (confirmation_failed ''The TUN helper lifecycle result could not be confirmed'')) } }"

definition lifecycle_admitted ::
  "'w helper_platform \<Rightarrow> lifecycle_operation \<Rightarrow> lifecycle_correlation option \<Rightarrow> helper_snapshot
     \<Rightarrow> ('w helper_state, helper_snapshot helped) state" where
  "lifecycle_admitted p operation correlation admitted =
     (case admission_refused operation admitted of
        Some error \<Rightarrow> State_Monad.return (Inl error)
      | None \<Rightarrow>
          do { handoff \<leftarrow> lifecycle_handoff p operation admitted;
               case handoff of
                 Inl error \<Rightarrow> State_Monad.return (Inl error)
               | Inr _ \<Rightarrow>
                   do { set_phase (lifecycle_phase operation);
                        result \<leftarrow> ask (tp_run_lifecycle p operation correlation);
                        observed \<leftarrow> refresh_locked p (case result of Inl error \<Rightarrow> Some (he_kind error) | Inr _ \<Rightarrow> None);
                        case result of
                          Inl error \<Rightarrow> State_Monad.return (Inl error)
                        | Inr _ \<Rightarrow>
                            if \<not> lifecycle_confirmed operation observed then lifecycle_unconfirmed operation observed
                            else if operation = LO_Remove then finish_removal p
                            else finish_install p observed } })"

definition run_lifecycle_inner ::
  "'w helper_platform \<Rightarrow> lifecycle_operation \<Rightarrow> lifecycle_correlation option
     \<Rightarrow> ('w helper_state, helper_snapshot helped) state" where
  "run_lifecycle_inner p operation correlation =
     (if installs operation
      then do {
        admitted \<leftarrow> refresh_admission_locked p;
        case admitted of
          Inl error \<Rightarrow> State_Monad.return (Inl error)
        | Inr admitted \<Rightarrow> lifecycle_admitted p operation correlation admitted }
      else do {
        admitted \<leftarrow> refresh_locked p None;
        lifecycle_admitted p operation correlation admitted })"

section \<open>The wire\<close>

definition TUN_HELPER_MAX_MESSAGE_BYTES :: nat where
  "TUN_HELPER_MAX_MESSAGE_BYTES = 16 * 1024"

definition TUN_HELPER_PROTOCOL_VERSION :: "16 word" where
  "TUN_HELPER_PROTOCOL_VERSION = 3"

definition TUN_APP_SIGNING_IDENTIFIER :: string where
  "TUN_APP_SIGNING_IDENTIFIER = ''com.asuka109.mish''"

definition TUN_HELPER_SIGNING_IDENTIFIER :: string where
  "TUN_HELPER_SIGNING_IDENTIFIER = ''com.asuka109.mish.tun-helper''"

record peer_identity =
  pi_signed :: bool
  pi_signing_identifier :: string
  pi_team_identifier :: "string option"

datatype wire_command = WC_DisableTun | WC_EnableTun | WC_Health

record wire_request =
  wr_command :: wire_command
  wr_protocol_version :: "16 word"

definition validate_peer_identity :: "peer_identity \<Rightarrow> string \<Rightarrow> string \<Rightarrow> unit helped" where
  "validate_peer_identity peer expected_signing_identifier expected_team_identifier =
     (if \<not> pi_signed peer \<or> pi_signing_identifier peer \<noteq> expected_signing_identifier
         \<or> pi_team_identifier peer \<noteq> Some expected_team_identifier
      then Inl \<lparr>he_kind = HF_IdentityRejected, he_message = ''The TUN helper peer identity was rejected''\<rparr>
      else Inr ())"

definition validate_tun_helper_peer :: "peer_identity \<Rightarrow> string \<Rightarrow> unit helped" where
  "validate_tun_helper_peer peer expected_team_identifier =
     validate_peer_identity peer TUN_HELPER_SIGNING_IDENTIFIER expected_team_identifier"

text \<open>\<open>from_slice\<close> is the JSON reader of the message type.\<close>

definition decode_tun_helper_request ::
  "(string \<Rightarrow> wire_request option) \<Rightarrow> string \<Rightarrow> peer_identity \<Rightarrow> string \<Rightarrow> wire_request helped" where
  "decode_tun_helper_request from_slice bytes peer expected_team_identifier =
     (if TUN_HELPER_MAX_MESSAGE_BYTES < length bytes
      then Inl \<lparr>he_kind = HF_MessageTooLarge, he_message = ''The TUN helper message exceeded the fixed size limit''\<rparr>
      else case validate_peer_identity peer TUN_APP_SIGNING_IDENTIFIER expected_team_identifier of
             Inl error \<Rightarrow> Inl error
           | Inr _ \<Rightarrow>
               (case from_slice bytes of
                  None \<Rightarrow>
                    Inl \<lparr>he_kind = HF_ProtocolMismatch,
                         he_message = ''The TUN helper message did not match the closed protocol''\<rparr>
                | Some request \<Rightarrow>
                    if wr_protocol_version request \<noteq> TUN_HELPER_PROTOCOL_VERSION
                    then Inl \<lparr>he_kind = HF_ProtocolMismatch,
                              he_message = ''The TUN helper protocol version did not match''\<rparr>
                    else Inr request))"

end
