(* ===== verification/Tun_Helper_Laws.thy ===== *)
theory Tun_Helper_Laws
  imports Tun_Helper
begin

text \<open>
  Laws of the helper controller on any platform. \<open>helper_recording\<close> logs every platform call
  and every reading of the clock, newest first, as evidence for what a privileged lifecycle operation and a
  confirmed switch rest on.
\<close>

section \<open>Sequences of calls\<close>

datatype helper_call =
    HC_Refresh
  | HC_MarkRuntimeUnavailable helper_failure_kind
  | HC_ConfirmRemovalSafe
  | HC_ObserveTun
  | HC_SetTunEnabled bool
  | HC_Lifecycle lifecycle_operation "lifecycle_correlation option"

fun helper_perform :: "'w helper_platform \<Rightarrow> helper_call \<Rightarrow> 'w helper_state \<Rightarrow> 'w helper_state" where
  "helper_perform p HC_Refresh s = snd (run_state (refresh p) s)"
| "helper_perform p (HC_MarkRuntimeUnavailable failure) s = snd (run_state (mark_runtime_unavailable failure) s)"
| "helper_perform p HC_ConfirmRemovalSafe s = snd (run_state (confirm_removal_safe p) s)"
| "helper_perform p HC_ObserveTun s = snd (run_state (observe_tun p) s)"
| "helper_perform p (HC_SetTunEnabled enabled) s = snd (run_state (set_tun_enabled p enabled) s)"
| "helper_perform p (HC_Lifecycle operation correlation) s =
     snd (run_state (run_lifecycle_inner p operation correlation) s)"

definition helper_run :: "'w helper_platform \<Rightarrow> helper_call list \<Rightarrow> 'w helper_state \<Rightarrow> 'w helper_state" where
  "helper_run p cs s = fold (helper_perform p) cs s"

fun removes :: "helper_call \<Rightarrow> bool" where
  "removes (HC_Lifecycle operation _) = (operation = LO_Remove)"
| "removes _ = False"

section \<open>Rules\<close>

lemma wp_ask_any: "(\<And>r w. Q r (s\<lparr>hc_world := w\<rparr>)) \<Longrightarrow> wp (ask f) Q s"
  by (simp add: wp_def ask_def split: prod.splits)

lemma wp_snapshot_now [wp_rules]: "Q (hc_snapshot s) s \<Longrightarrow> wp snapshot_now Q s"
  by (simp add: wp_def snapshot_now_def)

lemma refresh_removal_sel [simp]:
  "hs_availability (refresh_removal_capability x) = hs_availability x"
  "hs_expected_version (refresh_removal_capability x) = hs_expected_version x"
  "hs_health (refresh_removal_capability x) = hs_health x"
  "hs_installation_id (refresh_removal_capability x) = hs_installation_id x"
  "hs_installed_version (refresh_removal_capability x) = hs_installed_version x"
  "hs_last_failure (refresh_removal_capability x) = hs_last_failure x"
  "hs_phase (refresh_removal_capability x) = hs_phase x"
  by (simp_all add: refresh_removal_capability_def)

lemma has_healthy_identity_refresh [simp]:
  "has_healthy_identity (refresh_removal_capability x) = has_healthy_identity x"
  by (simp add: has_healthy_identity_def)

section \<open>The snapshot\<close>

text \<open>
  The snapshot is of this build, its removal capability is the one its fields give, and a session that has failed
  shows the helper as unavailable: it is fail closed.
\<close>

definition snapshot_ok :: "helper_failure_kind option \<Rightarrow> helper_snapshot \<Rightarrow> bool" where
  "snapshot_ok runtime_failure snapshot \<longleftrightarrow>
     hs_removal snapshot = removal_of snapshot
     \<and> hs_expected_version snapshot = TUN_HELPER_EXPECTED_VERSION
     \<and> (runtime_failure \<noteq> None \<longrightarrow> hs_availability snapshot = HA_Unavailable)"

abbreviation helper_ok :: "'w helper_state \<Rightarrow> bool" where
  "helper_ok s \<equiv> snapshot_ok (hc_runtime_failure s) (hc_snapshot s)"

lemma removal_of_refresh [simp]: "removal_of (refresh_removal_capability x) = removal_of x"
  by (simp add: refresh_removal_capability_def removal_of_def authoritatively_installed_def)

lemma snapshot_ok_refresh:
  "snapshot_ok rf (refresh_removal_capability x) \<longleftrightarrow>
     hs_expected_version x = TUN_HELPER_EXPECTED_VERSION \<and> (rf \<noteq> None \<longrightarrow> hs_availability x = HA_Unavailable)"
  by (simp add: snapshot_ok_def) (simp add: refresh_removal_capability_def)

lemma snapshot_ok_version: "snapshot_ok rf x \<Longrightarrow> hs_expected_version x = TUN_HELPER_EXPECTED_VERSION"
  by (simp add: snapshot_ok_def)

lemma expected_version_from_observation [simp]:
  "hs_expected_version (snapshot_from_observation ob) = TUN_HELPER_EXPECTED_VERSION"
  by (simp add: snapshot_from_observation_def Let_def)

lemma snapshot_ok_observed [simp]: "snapshot_ok rf (observed_snapshot ob rf failure)"
  by (auto simp: observed_snapshot_def Let_def snapshot_ok_refresh split: option.splits)

lemma snapshot_ok_phase [simp]:
  "snapshot_ok rf x \<Longrightarrow>
     snapshot_ok rf (refresh_removal_capability (x\<lparr>hs_phase := ph, hs_last_failure := f\<rparr>))"
  by (simp add: snapshot_ok_refresh) (simp add: snapshot_ok_def)

lemma wp_snapshot_writers:
  assumes "helper_ok s" "\<And>s'. helper_ok s' \<Longrightarrow> hc_runtime_failure s' = hc_runtime_failure s \<Longrightarrow> Q () s'"
  shows "wp (helper_record_failure f) Q s" "wp (set_phase ph) Q s" "wp clear_failure Q s"
  unfolding helper_record_failure_def set_phase_def clear_failure_def
  by (intro wp_rules assms(2); use assms(1) in simp)+

lemma apply_observation_ok:
  assumes "\<And>r s'. helper_ok s' \<Longrightarrow> hc_runtime_failure s' = hc_runtime_failure s \<Longrightarrow> hc_snapshot s' = r \<Longrightarrow> Q r s'"
  shows "wp (apply_observation ob failure) Q s"
  unfolding apply_observation_def by (intro wp_rules assms) simp_all

lemma refresh_locked_ok:
  assumes "helper_ok s"
    "\<And>r s'. helper_ok s' \<Longrightarrow> hc_runtime_failure s' = hc_runtime_failure s \<Longrightarrow> hc_snapshot s' = r \<Longrightarrow> Q r s'"
  shows "wp (refresh_locked p failure) Q s"
  unfolding refresh_locked_def
  by (intro wp_rules wp_ask_any wp_snapshot_writers apply_observation_ok assms(2)) (use assms(1) in simp_all)

lemma observe_tun_ok:
  assumes "helper_ok s" "\<And>r s'. helper_ok s' \<Longrightarrow> hc_runtime_failure s' = hc_runtime_failure s \<Longrightarrow> Q r s'"
  shows "wp (observe_tun p) Q s"
  unfolding observe_tun_def by (intro wp_rules wp_ask_any assms(2)) (use assms(1) in simp_all)

lemma require_observation_ok:
  assumes "helper_ok s"
    "\<And>Q'. (\<And>r s'. helper_ok s' \<Longrightarrow> hc_runtime_failure s' = hc_runtime_failure s \<Longrightarrow> Q' r s') \<Longrightarrow> wp observe Q' s"
    "\<And>r s'. helper_ok s' \<Longrightarrow> hc_runtime_failure s' = hc_runtime_failure s \<Longrightarrow> Q r s'"
  shows "wp (require_observation p observe test message) Q s"
  unfolding require_observation_def
  by (intro wp_rules wp_ask_any wp_snapshot_writers assms(2,3)) simp_all

lemma require_asked_ok:
  assumes "helper_ok s" "\<And>r s'. helper_ok s' \<Longrightarrow> hc_runtime_failure s' = hc_runtime_failure s \<Longrightarrow> Q r s'"
  shows "wp (require_observation p (ask (tp_observe_tun p)) test message) Q s"
  by (rule require_observation_ok [OF assms(1) _ assms(2)]) (use assms(1) in \<open>auto intro: wp_ask_any\<close>)

lemma require_observed_ok:
  assumes "helper_ok s" "\<And>r s'. helper_ok s' \<Longrightarrow> hc_runtime_failure s' = hc_runtime_failure s \<Longrightarrow> Q r s'"
  shows "wp (require_observation p (observe_tun p) test message) Q s"
  by (rule require_observation_ok [OF assms(1) _ assms(2)]) (auto intro: observe_tun_ok [OF assms(1)])

text \<open>
  A session failure ends only with a confirmed removal: the call has then been told that the helper is gone, once with
  the failure in place.
\<close>

lemma lifecycle_admitted_ok:
  assumes "helper_ok s"
    "\<And>r s'. helper_ok s' \<Longrightarrow> (operation \<noteq> LO_Remove \<Longrightarrow> hc_runtime_failure s' = hc_runtime_failure s) \<Longrightarrow> Q r s'"
  shows "wp (lifecycle_admitted p operation correlation admitted) Q s"
  unfolding lifecycle_admitted_def lifecycle_handoff_def finish_removal_def finish_install_def lifecycle_unconfirmed_def
  by (intro wp_rules wp_ask_any wp_snapshot_writers refresh_locked_ok require_asked_ok require_observed_ok assms(2))
    (use assms(1) in \<open>auto simp: snapshot_ok_def\<close>)

lemma perform_helper_ok:
  assumes "helper_ok s"
  shows "helper_ok (helper_perform p c s)"
proof -
  have "wp (run_lifecycle_inner p operation correlation) (\<lambda>r. helper_ok) s" for operation correlation
    unfolding run_lifecycle_inner_def refresh_admission_locked_def
    by (intro wp_rules wp_ask_any wp_snapshot_writers apply_observation_ok refresh_locked_ok lifecycle_admitted_ok)
      (use assms in simp_all)
  moreover have "wp (set_tun_enabled p enabled) (\<lambda>r. helper_ok) s" for enabled
    unfolding set_tun_enabled_def
    by (intro wp_rules wp_ask_any wp_snapshot_writers observe_tun_ok) (use assms in simp_all)
  moreover have "wp (confirm_removal_safe p) (\<lambda>r. helper_ok) s"
    unfolding confirm_removal_safe_def
    by (intro wp_rules refresh_locked_ok require_asked_ok) (use assms in simp_all)
  moreover have "wp (refresh p) (\<lambda>r. helper_ok) s" "wp (observe_tun p) (\<lambda>r. helper_ok) s"
    unfolding refresh_def by (intro refresh_locked_ok observe_tun_ok; use assms in simp)+
  moreover have "wp (mark_runtime_unavailable failure) (\<lambda>r. helper_ok) s" for failure
    unfolding mark_runtime_unavailable_def
    by (intro wp_rules) (use snapshot_ok_version [OF assms] in \<open>simp add: snapshot_ok_refresh\<close>)
  ultimately show ?thesis
    by (cases c) (simp_all add: wp_iff)
qed

text \<open>What a failed session keeps, whatever is called short of a removal.\<close>

lemma perform_session_failure:
  assumes "helper_ok s" "hc_runtime_failure s \<noteq> None" "\<not> removes c"
  shows "hc_runtime_failure (helper_perform p c s) \<noteq> None"
proof -
  let ?failed = "\<lambda>s'. hc_runtime_failure s' \<noteq> None"
  have "operation \<noteq> LO_Remove \<Longrightarrow> wp (run_lifecycle_inner p operation correlation) (\<lambda>r. ?failed) s"
    for operation correlation
    unfolding run_lifecycle_inner_def refresh_admission_locked_def
    by (intro wp_rules wp_ask_any wp_snapshot_writers apply_observation_ok refresh_locked_ok lifecycle_admitted_ok)
      (use assms(1,2) in simp_all)
  moreover have "wp (set_tun_enabled p enabled) (\<lambda>r. ?failed) s" for enabled
    unfolding set_tun_enabled_def
    by (intro wp_rules wp_ask_any wp_snapshot_writers observe_tun_ok) (use assms(1,2) in simp_all)
  moreover have "wp (confirm_removal_safe p) (\<lambda>r. ?failed) s"
    unfolding confirm_removal_safe_def
    by (intro wp_rules refresh_locked_ok require_asked_ok) (use assms(1,2) in simp_all)
  moreover have "wp (refresh p) (\<lambda>r. ?failed) s" "wp (observe_tun p) (\<lambda>r. ?failed) s"
    unfolding refresh_def by (intro refresh_locked_ok observe_tun_ok; use assms(1,2) in simp)+
  moreover have "wp (mark_runtime_unavailable failure) (\<lambda>r. ?failed) s" for failure
    unfolding mark_runtime_unavailable_def by (intro wp_rules) simp
  ultimately show ?thesis
    using assms(3) by (cases c) (auto simp: wp_iff)
qed

lemma run_helper_ok: "helper_ok s \<Longrightarrow> helper_ok (helper_run p cs s)"
  unfolding helper_run_def by (induction cs arbitrary: s) (simp_all add: perform_helper_ok)

lemma run_session_failure:
  "helper_ok s \<Longrightarrow> hc_runtime_failure s \<noteq> None \<Longrightarrow> list_all (\<lambda>c. \<not> removes c) cs
     \<Longrightarrow> hc_runtime_failure (helper_run p cs s) \<noteq> None"
  unfolding helper_run_def
  by (induction cs arbitrary: s) (simp_all add: perform_helper_ok perform_session_failure del: not_None_eq)

section \<open>The log\<close>

datatype helper_event =
    HE_Helper "helper_observation helped"
  | HE_Lifecycle lifecycle_operation "unit helped"
  | HE_Tun "tun_network_observation helped"
  | HE_Switch bool "unit helped"
  | HE_Now u64

definition helper_recorded ::
  "('w, 'a) state \<Rightarrow> ('a \<Rightarrow> helper_event) \<Rightarrow> ('w \<times> helper_event list, 'a) state" where
  "helper_recorded f event =
     State (\<lambda>(w, log). case run_state f w of (r, w') \<Rightarrow> (r, (w', event r # log)))"

definition helper_recording :: "'w helper_platform \<Rightarrow> ('w \<times> helper_event list) helper_platform" where
  "helper_recording p =
     \<lparr>tp_now = helper_recorded (tp_now p) HE_Now,
      tp_observe_helper = helper_recorded (tp_observe_helper p) HE_Helper,
      tp_run_lifecycle = (\<lambda>operation correlation.
        helper_recorded (tp_run_lifecycle p operation correlation) (HE_Lifecycle operation)),
      tp_observe_tun = helper_recorded (tp_observe_tun p) HE_Tun,
      tp_set_tun_enabled = (\<lambda>enabled. helper_recorded (tp_set_tun_enabled p enabled) (HE_Switch enabled))\<rparr>"

text \<open>
  What a privileged lifecycle call rests on. A removal directly follows an observation that showed core,
  interface, routes and DNS gone, fresh at the clock reading in between. An installation or repair directly
  follows the helper observation it was admitted by, unless that showed a healthy helper of this build in an intact
  session; then TUN was switched off and seen off, freshly, in between.
\<close>

definition removal_justified :: "helper_event list \<Rightarrow> bool" where
  "removal_justified log =
     (case log of
        HE_Now now # HE_Tun (Inr observed) # HE_Helper _ # _ \<Rightarrow> confirms_removal_safe_at observed now
      | _ \<Rightarrow> False)"

definition handoff_justified :: "helper_event list \<Rightarrow> bool" where
  "handoff_justified log =
     (case log of
        HE_Now now # HE_Tun (Inr observed) # HE_Switch False (Inr _) # HE_Helper (Inr _) # _ \<Rightarrow>
          confirms_disabled_at observed now
      | _ \<Rightarrow> False)"

definition admission_justified :: "bool \<Rightarrow> helper_event list \<Rightarrow> bool" where
  "admission_justified failed log =
     (case log of
        HE_Helper (Inr observation) # _ \<Rightarrow>
          failed \<or> \<not> has_healthy_identity (snapshot_from_observation observation)
      | _ \<Rightarrow> False)"

definition lifecycle_justified :: "bool \<Rightarrow> lifecycle_operation \<Rightarrow> helper_event list \<Rightarrow> bool" where
  "lifecycle_justified failed operation log =
     (if operation = LO_Remove then removal_justified log
      else handoff_justified log \<or> admission_justified failed log)"

fun lifecycles_justified :: "bool \<Rightarrow> helper_event list \<Rightarrow> bool" where
  "lifecycles_justified failed [] = True"
| "lifecycles_justified failed (HE_Lifecycle operation r # log) =
     (lifecycle_justified failed operation log \<and> lifecycles_justified failed log)"
| "lifecycles_justified failed (_ # log) = lifecycles_justified failed log"

fun lifecycles :: "helper_event list \<Rightarrow> lifecycle_operation list" where
  "lifecycles [] = []"
| "lifecycles (HE_Lifecycle operation r # log) = operation # lifecycles log"
| "lifecycles (_ # log) = lifecycles log"

text \<open>
  What a successful lifecycle rests on. An installation or repair has been acknowledged, the helper has then been
  observed and TUN been seen off at a clock reading after that; a removal has been acknowledged.
\<close>

definition install_shown :: "lifecycle_operation \<Rightarrow> helper_snapshot \<Rightarrow> helper_event list \<Rightarrow> bool" where
  "install_shown operation snapshot log =
     (case log of
        HE_Now now # HE_Tun (Inr network) # HE_Helper (Inr observation) # HE_Lifecycle operation' (Inr _) # _ \<Rightarrow>
          operation' = operation \<and> confirms_disabled_at network now
          \<and> snapshot = snapshot_from_observation observation
      | _ \<Rightarrow> False)"

definition removal_shown :: "helper_event list \<Rightarrow> bool" where
  "removal_shown log =
     (case log of HE_Helper _ # HE_Helper _ # HE_Lifecycle LO_Remove (Inr _) # _ \<Rightarrow> True | _ \<Rightarrow> False)"

abbreviation helper_log :: "('w \<times> helper_event list) helper_state \<Rightarrow> helper_event list" where
  "helper_log s \<equiv> snd (hc_world s)"

lemma wp_ask_recorded:
  "(\<And>r w. Q r (s\<lparr>hc_world := (w, event r # helper_log s)\<rparr>)) \<Longrightarrow> wp (ask (helper_recorded f event)) Q s"
  by (cases "hc_world s") (simp add: wp_def ask_def helper_recorded_def split: prod.splits)

lemma helper_recording_sel [simp]:
  "tp_now (helper_recording p) = helper_recorded (tp_now p) HE_Now"
  "tp_observe_helper (helper_recording p) = helper_recorded (tp_observe_helper p) HE_Helper"
  "tp_run_lifecycle (helper_recording p) operation correlation =
     helper_recorded (tp_run_lifecycle p operation correlation) (HE_Lifecycle operation)"
  "tp_observe_tun (helper_recording p) = helper_recorded (tp_observe_tun p) HE_Tun"
  "tp_set_tun_enabled (helper_recording p) enabled =
     helper_recorded (tp_set_tun_enabled p enabled) (HE_Switch enabled)"
  by (simp_all add: helper_recording_def)

lemma wp_log_kept:
  assumes "\<And>s'. helper_log s' = helper_log s \<Longrightarrow> hc_runtime_failure s' = hc_runtime_failure s
             \<Longrightarrow> hs_last_failure (hc_snapshot s') \<noteq> None \<Longrightarrow> Q () s'"
  shows "wp (helper_record_failure f) Q s"
  unfolding helper_record_failure_def by (intro wp_rules assms) simp_all

lemma wp_phase_log:
  assumes "\<And>s'. helper_log s' = helper_log s \<Longrightarrow> hc_runtime_failure s' = hc_runtime_failure s \<Longrightarrow> Q () s'"
  shows "wp (set_phase ph) Q s" "wp clear_failure Q s"
  unfolding set_phase_def clear_failure_def by (intro wp_rules assms; simp)+

lemma wp_observed:
  assumes "\<And>s'. helper_log s' = helper_log s \<Longrightarrow> hc_runtime_failure s' = hc_runtime_failure s
             \<Longrightarrow> hc_snapshot s' = observed_snapshot ob (hc_runtime_failure s) failure
             \<Longrightarrow> Q (hc_snapshot s') s'"
  shows "wp (apply_observation ob failure) Q s"
  unfolding apply_observation_def
  by (intro wp_rules) (use assms [of "s\<lparr>hc_snapshot := observed_snapshot ob (hc_runtime_failure s) failure\<rparr>"] in simp)

lemma refresh_locked_log:
  assumes "\<And>s' e. helper_log s' = HE_Helper (Inl e) # helper_log s \<Longrightarrow> hc_runtime_failure s' = hc_runtime_failure s
             \<Longrightarrow> hs_last_failure (hc_snapshot s') \<noteq> None \<Longrightarrow> Q (hc_snapshot s') s'"
    and "\<And>s' ob. helper_log s' = HE_Helper (Inr ob) # helper_log s \<Longrightarrow> hc_runtime_failure s' = hc_runtime_failure s
             \<Longrightarrow> hc_snapshot s' = observed_snapshot ob (hc_runtime_failure s) failure \<Longrightarrow> Q (hc_snapshot s') s'"
  shows "wp (refresh_locked (helper_recording p) failure) Q s"
  unfolding refresh_locked_def helper_recording_sel
  by (intro wp_rules wp_ask_recorded wp_log_kept wp_observed; ((rule assms(1); simp; fail) | (rule assms(2); simp; fail)))

lemma identity_observed:
  "has_healthy_identity (observed_snapshot ob rf None) \<longleftrightarrow>
     rf = None \<and> has_healthy_identity (snapshot_from_observation ob)"
  by (auto simp: observed_snapshot_def has_healthy_identity_def Let_def split: option.splits)

lemma require_observation_log:
  assumes "\<And>ob now s'. test ob now \<Longrightarrow> helper_log s' = HE_Now now # HE_Tun (Inr ob) # helper_log s
             \<Longrightarrow> hc_runtime_failure s' = hc_runtime_failure s \<Longrightarrow> Q (Inr ob) s'"
    and "\<And>e s'. lifecycles_justified failed (helper_log s') = lifecycles_justified failed (helper_log s)
             \<Longrightarrow> lifecycles (helper_log s') = lifecycles (helper_log s) \<Longrightarrow> Q (Inl e) s'"
  shows "wp (require_observation (helper_recording p) (ask (tp_observe_tun (helper_recording p))) test m) Q s"
  unfolding require_observation_def helper_recording_sel
  by (intro wp_rules wp_ask_recorded wp_log_kept; ((rule assms(1); simp; fail) | (rule assms(2); simp; fail)))

lemma installs_iff: "installs operation \<longleftrightarrow> operation \<noteq> LO_Remove"
  by (cases operation) (simp_all add: installs_def)

lemma handoff_log:
  assumes "helper_log s = HE_Helper ob # []" "hc_runtime_failure s = rf"
    "installs operation \<Longrightarrow> \<exists>observation. ob = Inr observation \<and> admitted = observed_snapshot observation rf None"
    and ok: "\<And>s'. lifecycle_justified (rf \<noteq> None) operation (helper_log s')
             \<Longrightarrow> lifecycles_justified (rf \<noteq> None) (helper_log s')
             \<Longrightarrow> lifecycles (helper_log s') = [] \<Longrightarrow> hc_runtime_failure s' = rf \<Longrightarrow> Q (Inr ()) s'"
    and error: "\<And>e s'. lifecycles_justified (rf \<noteq> None) (helper_log s')
             \<Longrightarrow> lifecycles (helper_log s') = [] \<Longrightarrow> Q (Inl e) s'"
  shows "wp (lifecycle_handoff (helper_recording p) operation admitted) Q s"
  unfolding lifecycle_handoff_def helper_recording_sel(5)
  by (intro wp_rules wp_ask_recorded require_observation_log [where failed = "rf \<noteq> None"] wp_log_kept)
    (use assms(1-3) in \<open>auto simp: identity_observed lifecycle_justified_def removal_justified_def
      handoff_justified_def admission_justified_def installs_iff intro!: ok error\<close>)

lemma refresh_idem [simp]:
  "refresh_removal_capability (refresh_removal_capability x) = refresh_removal_capability x"
  by (simp add: refresh_removal_capability_def removal_of_def authoritatively_installed_def)

lemma refresh_from_observation [simp]:
  "refresh_removal_capability (snapshot_from_observation ob) = snapshot_from_observation ob"
  by (simp add: snapshot_from_observation_def Let_def)

lemma is_healthy_observed:
  "is_healthy (observed_snapshot ob rf failure) \<Longrightarrow> observed_snapshot ob rf failure = snapshot_from_observation ob"
  by (cases rf; cases failure) (simp_all add: observed_snapshot_def is_healthy_def has_healthy_identity_def Let_def)

lemma finish_install_log:
  assumes "lifecycles_justified failed (helper_log s)" "lifecycles (helper_log s) = [operation]"
    and ok: "\<And>network now s'. confirms_disabled_at network now
             \<Longrightarrow> helper_log s' = HE_Now now # HE_Tun (Inr network) # helper_log s \<Longrightarrow> Q (Inr observed) s'"
    and error: "\<And>e s'. lifecycles_justified failed (helper_log s')
             \<Longrightarrow> lifecycles (helper_log s') = [operation] \<Longrightarrow> Q (Inl e) s'"
  shows "wp (finish_install (helper_recording p) observed) Q s"
  unfolding finish_install_def require_observation_def observe_tun_def helper_recording_sel
  by (intro wp_rules wp_ask_recorded wp_log_kept) (use assms(1,2) in \<open>auto intro!: ok error\<close>)

definition removed_snapshot :: "helper_snapshot \<Rightarrow> bool" where
  "removed_snapshot snapshot \<longleftrightarrow>
     hs_health snapshot = HH_NotInstalled \<and> hs_installed_version snapshot = None
     \<and> hs_installation_id snapshot = None \<and> hs_availability snapshot \<noteq> HA_Unavailable"

lemma finish_removal_log:
  assumes "lifecycles_justified failed (helper_log s)" "lifecycles (helper_log s) = [LO_Remove]"
    and ok: "\<And>ob r s'. removed_snapshot r \<Longrightarrow> hc_runtime_failure s' = None
             \<Longrightarrow> helper_log s' = HE_Helper ob # helper_log s \<Longrightarrow> Q (Inr r) s'"
    and error: "\<And>e s'. lifecycles_justified failed (helper_log s')
             \<Longrightarrow> lifecycles (helper_log s') = [LO_Remove] \<Longrightarrow> Q (Inl e) s'"
  shows "wp (finish_removal (helper_recording p)) Q s"
  unfolding finish_removal_def
  by (intro wp_rules refresh_locked_log wp_log_kept)
    (use assms(1,2) in \<open>auto simp: removed_snapshot_def intro!: ok error\<close>)

text \<open>What a lifecycle call leaves behind, by the log of its own platform calls.\<close>

definition lifecycle_shown ::
  "lifecycle_operation \<Rightarrow> helper_snapshot helped \<Rightarrow> ('w \<times> helper_event list) helper_state \<Rightarrow> bool" where
  "lifecycle_shown operation r s \<longleftrightarrow>
     (case r of
        Inl _ \<Rightarrow> True
      | Inr snapshot \<Rightarrow>
          if operation = LO_Remove
          then removed_snapshot snapshot \<and> hc_runtime_failure s = None \<and> removal_shown (helper_log s)
          else is_healthy snapshot \<and> install_shown operation snapshot (helper_log s))"

lemma lifecycle_admitted_log:
  assumes "helper_log s = HE_Helper ob # []" "hc_runtime_failure s = rf"
    "installs operation \<Longrightarrow> \<exists>observation. ob = Inr observation \<and> admitted = observed_snapshot observation rf None"
  shows "wp (lifecycle_admitted (helper_recording p) operation correlation admitted)
     (\<lambda>r s'. lifecycles_justified (rf \<noteq> None) (helper_log s') \<and> lifecycles (helper_log s') \<in> {[], [operation]}
        \<and> lifecycle_shown operation r s') s"
  unfolding lifecycle_admitted_def lifecycle_unconfirmed_def helper_recording_sel(3)
  by (intro wp_rules wp_ask_recorded handoff_log [OF assms] wp_phase_log refresh_locked_log wp_log_kept
      finish_install_log [where operation = operation and failed = "rf \<noteq> None"]
      finish_removal_log [where failed = "rf \<noteq> None"])
    (use assms(1,2) in \<open>auto simp: lifecycle_shown_def removal_shown_def install_shown_def lifecycle_confirmed_def
       is_healthy_def intro: is_healthy_observed\<close>)

end
