(* ===== verification/System_Proxy.thy ===== *)
theory System_Proxy
  imports Capture_Types
begin

text \<open>
  The proxy configuration of a network service and the decisions Mish takes on it,
  \<^verbatim>\<open>crates/runtime/src/capture.rs\<close>: which existing configurations may be taken over, the
  configuration Mish writes, when an observed configuration counts as the expected one, and
  when it is still a mixture of the prior and the written one. A Rust string is its list of
  UTF-8 bytes, so \<^verbatim>\<open>len\<close> is the length of the list; control characters and white space
  outside ASCII are recognised by their encodings.
\<close>

section \<open>Strings\<close>

text \<open>\<^verbatim>\<open>chars().any(char::is_control)\<close>: below U+0020, or U+007F to U+009F (encoded C2 80 to C2 9F).\<close>

fun has_control :: "string \<Rightarrow> bool" where
  "has_control [] = False"
| "has_control (c # cs) =
     (of_char c < (32 :: nat) \<or> of_char c = (127 :: nat)
      \<or> (of_char c = (194 :: nat)
         \<and> (case cs of [] \<Rightarrow> False | d # _ \<Rightarrow> (128 :: nat) \<le> of_char d \<and> of_char d \<le> (159 :: nat)))
      \<or> has_control cs)"

text \<open>
  \<^verbatim>\<open>trim().is_empty()\<close>: nothing but Unicode white space. The multi-byte white space is U+0085, U+00A0,
  U+1680, U+2000 to U+200A, U+2028, U+2029, U+202F, U+205F and U+3000.
\<close>

definition blank_ascii :: "nat \<Rightarrow> bool" where
  "blank_ascii a \<longleftrightarrow> (9 \<le> a \<and> a \<le> 13) \<or> a = 32"

definition blank_pair :: "nat \<Rightarrow> nat \<Rightarrow> bool" where
  "blank_pair a b \<longleftrightarrow> a = 194 \<and> (b = 133 \<or> b = 160)"

definition blank_triple :: "nat \<Rightarrow> nat \<Rightarrow> nat \<Rightarrow> bool" where
  "blank_triple a b c \<longleftrightarrow>
     (a = 225 \<and> b = 154 \<and> c = 128)
     \<or> (a = 226 \<and> b = 128 \<and> ((128 \<le> c \<and> c \<le> 138) \<or> c = 168 \<or> c = 169 \<or> c = 175))
     \<or> (a = 226 \<and> b = 129 \<and> c = 159)
     \<or> (a = 227 \<and> b = 128 \<and> c = 128)"

fun is_blank :: "string \<Rightarrow> bool" where
  "is_blank [] = True"
| "is_blank (a # cs) =
     (if blank_ascii (of_char a) then is_blank cs
      else case cs of
        b # d # ds \<Rightarrow>
          if blank_pair (of_char a) (of_char b) then is_blank (d # ds)
          else if blank_triple (of_char a) (of_char b) (of_char d) then is_blank ds
          else False
      | [b] \<Rightarrow> blank_pair (of_char a) (of_char b)
      | [] \<Rightarrow> False)"

text \<open>\<^verbatim>\<open>eq_ignore_ascii_case\<close>.\<close>

definition lower_byte :: "char \<Rightarrow> char" where
  "lower_byte c =
     (let n = of_char c :: nat in if 65 \<le> n \<and> n \<le> 90 then char_of (n + 32) else c)"

definition bypass_domain_equivalent :: "string \<Rightarrow> string \<Rightarrow> bool" where
  "bypass_domain_equivalent left right \<longleftrightarrow> map lower_byte left = map lower_byte right"

section \<open>The managed endpoint\<close>

text \<open>
  An address as \<^verbatim>\<open>str::parse::<IpAddr>\<close> reads it. \<^verbatim>\<open>LoopbackProxyEndpoint::new\<close> admits loopback
  addresses only, 127.0.0.0/8 and ::1, and a port other than zero; its host is therefore kept
  as one of these.
\<close>

datatype ip_addr = V4 "8 word" "8 word" "8 word" "8 word" | V6 "128 word"

datatype loopback_host = Loopback_V4 "8 word" "8 word" "8 word" | Loopback_V6

fun loopback_of :: "ip_addr \<Rightarrow> loopback_host option" where
  "loopback_of (V4 a b c d) = (if a = 127 then Some (Loopback_V4 b c d) else None)"
| "loopback_of (V6 a) = (if a = 1 then Some Loopback_V6 else None)"

record proxy_endpoint =
  ep_host :: loopback_host
  ep_port :: "16 word"

fun host_to_string :: "loopback_host \<Rightarrow> string" where
  "host_to_string (Loopback_V4 b c d) =
     ''127.'' @ nat_to_string (unat b) @ ''.'' @ nat_to_string (unat c) @ ''.'' @ nat_to_string (unat d)"
| "host_to_string Loopback_V6 = ''::1''"

definition endpoint_new :: "ip_addr option \<Rightarrow> 16 word \<Rightarrow> capture_error + proxy_endpoint" where
  "endpoint_new parsed port =
     (case parsed of
        None \<Rightarrow>
          Inl (error_new CF_UnsupportedSelection ''The managed proxy endpoint must be a loopback IP address'')
      | Some addr \<Rightarrow>
          (case loopback_of addr of
             Some host \<Rightarrow>
               (if port = 0
                then Inl (error_new CF_UnsupportedSelection
                            ''The managed proxy endpoint must be a loopback IP address and non-zero port'')
                else Inr \<lparr>ep_host = host, ep_port = port\<rparr>)
           | None \<Rightarrow>
               Inl (error_new CF_UnsupportedSelection
                      ''The managed proxy endpoint must be a loopback IP address and non-zero port'')))"

definition endpoint_managed :: proxy_endpoint where
  "endpoint_managed = \<lparr>ep_host = Loopback_V4 0 0 1, ep_port = 7890\<rparr>"

section \<open>One manual proxy\<close>

definition manual_disabled :: manual_proxy_state where
  "manual_disabled = \<lparr>mp_authenticated = False, mp_enabled = False, mp_host = [], mp_port = 0\<rparr>"

definition for_endpoint :: "proxy_endpoint \<Rightarrow> manual_proxy_state" where
  "for_endpoint endpoint =
     \<lparr>mp_authenticated = False, mp_enabled = True, mp_host = host_to_string (ep_host endpoint),
      mp_port = ep_port endpoint\<rparr>"

definition manual_takeover_rejection :: "manual_proxy_state \<Rightarrow> takeover_rejection option" where
  "manual_takeover_rejection self =
     (if mp_authenticated self then Some TR_AuthenticatedProxy
      else if has_control (mp_host self) then Some TR_InvalidState
      else if mp_enabled self \<and> (is_blank (mp_host self) \<or> mp_port self = 0) then Some TR_IncompleteObservation
      else None)"

definition manual_semantically_matches :: "manual_proxy_state \<Rightarrow> manual_proxy_state \<Rightarrow> bool" where
  "manual_semantically_matches self expected \<longleftrightarrow>
     mp_authenticated self = mp_authenticated expected
     \<and> mp_enabled self = mp_enabled expected
     \<and> (\<not> mp_enabled self \<or> (mp_host self = mp_host expected \<and> mp_port self = mp_port expected))"

definition manual_owned_between :: "manual_proxy_state \<Rightarrow> manual_proxy_state \<Rightarrow> manual_proxy_state \<Rightarrow> bool" where
  "manual_owned_between self prior target \<longleftrightarrow>
     (mp_authenticated self = mp_authenticated prior \<or> mp_authenticated self = mp_authenticated target)
     \<and> (mp_enabled self = mp_enabled prior \<or> mp_enabled self = mp_enabled target)
     \<and> (\<not> mp_enabled self
        \<or> ((mp_host self = mp_host prior \<or> mp_host self = mp_host target)
           \<and> (mp_port self = mp_port prior \<or> mp_port self = mp_port target)))"

section \<open>A network service\<close>

datatype takeover_policy = ProtectExisting | ReplaceReversiblePacOrAutoDiscovery

definition MANAGED_LOCAL_BYPASS_DOMAINS :: "string list" where
  "MANAGED_LOCAL_BYPASS_DOMAINS =
     [''localhost'', ''*.localhost'', ''*.local'', ''*.local.'', ''*.home.arpa'', ''*.home.arpa.'']"

definition MAX_BYPASS_DOMAINS :: nat where
  "MAX_BYPASS_DOMAINS = 64"

definition MAX_BYPASS_DOMAIN_LENGTH :: nat where
  "MAX_BYPASS_DOMAIN_LENGTH = 253"

definition is_reversible_bypass_domain :: "string \<Rightarrow> bool" where
  "is_reversible_bypass_domain domain \<longleftrightarrow>
     domain \<noteq> [] \<and> length domain \<le> MAX_BYPASS_DOMAIN_LENGTH \<and> \<not> has_control domain \<and> domain \<noteq> ''Empty''"

definition push_missing_domain :: "string \<Rightarrow> string list \<Rightarrow> string list" where
  "push_missing_domain required merged =
     (if \<not> list_ex (\<lambda>domain. bypass_domain_equivalent domain required) merged then merged @ [required] else merged)"

definition merged_managed_local_bypass_domains :: "string list \<Rightarrow> string list" where
  "merged_managed_local_bypass_domains existing = fold push_missing_domain MANAGED_LOCAL_BYPASS_DOMAINS existing"

text \<open>\<^verbatim>\<open>CaptureTransitionError::takeover_rejected\<close>.\<close>

definition takeover_rejected :: "takeover_rejection \<Rightarrow> capture_error" where
  "takeover_rejected rejection =
     \<lparr>er_kind = CF_TakeoverRejected,
      er_message = ''The existing System Proxy configuration was left unchanged'',
      er_observation_stage = None, er_takeover_rejection = Some rejection\<rparr>"

definition takeover_rejection_of ::
  "network_service_proxy_state \<Rightarrow> takeover_policy \<Rightarrow> takeover_rejection option" where
  "takeover_rejection_of self policy =
     (if is_blank (np_service_id self) \<or> has_control (np_service_id self) then Some TR_InvalidState
      else if has_control (np_pac_url self) then Some TR_InvalidState
      else if np_pac_enabled self \<and> (is_blank (np_pac_url self) \<or> np_pac_url self = ''(null)'')
      then Some TR_IncompleteObservation
      else if MAX_BYPASS_DOMAINS < length (np_bypass_domains self)
           \<or> \<not> list_all is_reversible_bypass_domain (np_bypass_domains self)
      then Some TR_InvalidState
      else case or_else (manual_takeover_rejection (np_http self))
                  (or_else (manual_takeover_rejection (np_https self)) (manual_takeover_rejection (np_socks self))) of
             Some reason \<Rightarrow> Some reason
           | None \<Rightarrow>
               (if policy = ProtectExisting
                then (if np_pac_enabled self then Some TR_ProtectedPac
                      else if np_auto_discovery_enabled self then Some TR_ProtectedAutoDiscovery
                      else None)
                else None))"

definition has_matching_manual_proxy_endpoint :: "network_service_proxy_state \<Rightarrow> proxy_endpoint \<Rightarrow> bool" where
  "has_matching_manual_proxy_endpoint self endpoint \<longleftrightarrow>
     np_http self = for_endpoint endpoint \<and> np_https self = for_endpoint endpoint
     \<and> np_socks self = for_endpoint endpoint"

definition has_managed_local_bypass :: "network_service_proxy_state \<Rightarrow> bool" where
  "has_managed_local_bypass self \<longleftrightarrow>
     list_all (\<lambda>required. list_ex (\<lambda>domain. bypass_domain_equivalent domain required) (np_bypass_domains self))
       MANAGED_LOCAL_BYPASS_DOMAINS"

definition is_mish_endpoint :: "network_service_proxy_state \<Rightarrow> proxy_endpoint \<Rightarrow> bool" where
  "is_mish_endpoint self endpoint \<longleftrightarrow>
     has_matching_manual_proxy_endpoint self endpoint \<and> has_managed_local_bypass self"

definition with_endpoint :: "network_service_proxy_state \<Rightarrow> proxy_endpoint \<Rightarrow> network_service_proxy_state" where
  "with_endpoint self endpoint =
     \<lparr>np_auto_discovery_enabled = False,
      np_bypass_domains = merged_managed_local_bypass_domains (np_bypass_domains self),
      np_http = for_endpoint endpoint, np_https = for_endpoint endpoint,
      np_pac_enabled = False, np_pac_url = np_pac_url self, np_service_id = np_service_id self,
      np_socks = for_endpoint endpoint\<rparr>"

definition is_reversible :: "network_service_proxy_state \<Rightarrow> bool" where
  "is_reversible self \<longleftrightarrow> takeover_rejection_of self ReplaceReversiblePacOrAutoDiscovery = None"

definition semantically_matches :: "network_service_proxy_state \<Rightarrow> network_service_proxy_state \<Rightarrow> bool" where
  "semantically_matches self expected \<longleftrightarrow>
     np_auto_discovery_enabled self = np_auto_discovery_enabled expected
     \<and> np_bypass_domains self = np_bypass_domains expected
     \<and> manual_semantically_matches (np_http self) (np_http expected)
     \<and> manual_semantically_matches (np_https self) (np_https expected)
     \<and> np_pac_enabled self = np_pac_enabled expected
     \<and> (\<not> np_pac_enabled self \<or> np_pac_url self = np_pac_url expected)
     \<and> np_service_id self = np_service_id expected
     \<and> manual_semantically_matches (np_socks self) (np_socks expected)"

definition is_transaction_owned_between ::
  "network_service_proxy_state \<Rightarrow> network_service_proxy_state \<Rightarrow> network_service_proxy_state \<Rightarrow> bool" where
  "is_transaction_owned_between self prior target \<longleftrightarrow>
     (np_auto_discovery_enabled self = np_auto_discovery_enabled prior
      \<or> np_auto_discovery_enabled self = np_auto_discovery_enabled target)
     \<and> (np_bypass_domains self = np_bypass_domains prior \<or> np_bypass_domains self = np_bypass_domains target)
     \<and> manual_owned_between (np_http self) (np_http prior) (np_http target)
     \<and> manual_owned_between (np_https self) (np_https prior) (np_https target)
     \<and> (np_pac_enabled self = np_pac_enabled prior \<or> np_pac_enabled self = np_pac_enabled target)
     \<and> (\<not> np_pac_enabled self \<or> np_pac_url self = np_pac_url prior \<or> np_pac_url self = np_pac_url target)
     \<and> (np_service_id self = np_service_id prior \<or> np_service_id self = np_service_id target)
     \<and> manual_owned_between (np_socks self) (np_socks prior) (np_socks target)"

definition is_valid_recovery_state :: "capture_journal \<Rightarrow> bool" where
  "is_valid_recovery_state self = is_reversible (cj_prior self)"

definition observed_state :: "network_service_proxy_state \<Rightarrow> proxy_endpoint \<Rightarrow> system_proxy_observed" where
  "observed_state state endpoint =
     (if is_mish_endpoint state endpoint then SO_Mish
      else if \<not> mp_enabled (np_http state) \<and> \<not> mp_enabled (np_https state) \<and> \<not> mp_enabled (np_socks state)
      then SO_Disabled else SO_Other)"

section \<open>Lemmas\<close>

lemma bypass_domain_equivalent_refl [simp]: "bypass_domain_equivalent d d"
  by (simp add: bypass_domain_equivalent_def)

lemma push_missing_domain_present:
  "list_ex (\<lambda>domain. bypass_domain_equivalent domain required) (push_missing_domain required merged)"
  "list_ex P merged \<Longrightarrow> list_ex P (push_missing_domain required merged)"
  by (auto simp: push_missing_domain_def)

lemma merged_keeps: "list_ex P xs \<Longrightarrow> list_ex P (fold push_missing_domain required xs)"
  by (induction required arbitrary: xs) (simp_all add: push_missing_domain_present)

lemma merged_present:
  "r \<in> set required \<Longrightarrow>
     list_ex (\<lambda>domain. bypass_domain_equivalent domain r) (fold push_missing_domain required xs)"
  by (induction required arbitrary: xs) (auto simp: merged_keeps push_missing_domain_present)

lemma with_endpoint_is_mish: "is_mish_endpoint (with_endpoint s e) e"
  by (auto simp: is_mish_endpoint_def has_matching_manual_proxy_endpoint_def with_endpoint_def
      has_managed_local_bypass_def merged_managed_local_bypass_domains_def list_all_iff merged_present)

lemma merged_id:
  "\<forall>r \<in> set required. list_ex (\<lambda>domain. bypass_domain_equivalent domain r) xs
     \<Longrightarrow> fold push_missing_domain required xs = xs"
  by (induction required) (simp_all add: push_missing_domain_def)

lemma with_endpoint_idem [simp]: "with_endpoint (with_endpoint s e) e = with_endpoint s e"
  by (simp add: with_endpoint_def merged_managed_local_bypass_domains_def merged_id merged_present)

lemma observed_state_with_endpoint [simp]: "observed_state (with_endpoint s e) e = SO_Mish"
  by (simp add: observed_state_def with_endpoint_is_mish)

lemma service_id_with_endpoint [simp]: "np_service_id (with_endpoint s e) = np_service_id s"
  by (simp add: with_endpoint_def)

lemma semantically_matches_refl [simp]: "semantically_matches s s"
  by (simp add: semantically_matches_def manual_semantically_matches_def)

text \<open>What may be taken over under any policy can be restored, so a saved journal is always valid.\<close>

lemma takeover_reversible: "takeover_rejection_of s policy = None \<Longrightarrow> is_reversible s"
  by (auto simp: takeover_rejection_of_def is_reversible_def split: if_splits option.splits)

text \<open>A service that is written field by field stays owned, whatever it was owned from.\<close>

lemma manual_owned_ends [simp]:
  "manual_owned_between prior prior target" "manual_owned_between target prior target"
  by (simp_all add: manual_owned_between_def)

lemma owned_ends [simp]:
  "is_transaction_owned_between prior prior target"
  "is_transaction_owned_between target prior target"
  by (simp_all add: is_transaction_owned_between_def)

end
