(* ===== verification/Proxy_Reconciler.thy ===== *)
theory Proxy_Reconciler
  imports System_Proxy State_Wp
begin

text \<open>
  \<^verbatim>\<open>SystemProxyReconciler\<close> of \<^verbatim>\<open>crates/runtime/src/capture.rs\<close>: it switches the System Proxy on
  and off, audits it and recovers from drift, over a platform and a recovery journal that are
  only known through their traits. A trait object is a record of state programs over the
  world it keeps, the reconciler's own mutable fields and that world are the state, and every
  method is a program over it. The operation lock is free when a method asks for it:
  the lock serialises the callers, so a run of the reconciler is a sequence of calls, and
  a transition that begins while a caller waits is one that begins before the call.
\<close>

section \<open>The platform and the journal\<close>

datatype capability_availability =
    CA_FixtureOnly
  | CA_RecoveryRequired
  | CA_RepairRequired
  | CA_Supported
  | CA_Unavailable
  | CA_PermissionRequired

type_synonym 'a outcome = "capture_error + 'a"

text \<open>Durations in milliseconds.\<close>

record confirmation_window =
  cw_maximum_duration :: nat
  cw_maximum_observations :: "8 word"
  cw_retry_interval :: nat

definition window_immediate :: confirmation_window where
  "window_immediate = \<lparr>cw_maximum_duration = 0, cw_maximum_observations = 1, cw_retry_interval = 0\<rparr>"

definition window_bounded :: "8 word \<Rightarrow> nat \<Rightarrow> nat \<Rightarrow> confirmation_window" where
  "window_bounded maximum_observations retry_interval maximum_duration =
     \<lparr>cw_maximum_duration = maximum_duration, cw_maximum_observations = maximum_observations,
      cw_retry_interval = retry_interval\<rparr>"

definition maximum_observations :: "confirmation_window \<Rightarrow> 8 word" where
  "maximum_observations self = max (cw_maximum_observations self) 1"

text \<open>
  \<open>pp_before_deadline\<close> is the answer of \<^verbatim>\<open>timeout_at\<close> for what it guards: false when the
  deadline passes first and the guarded future is dropped.
\<close>

record 'w proxy_platform =
  pp_availability :: "'w \<Rightarrow> capability_availability"
  pp_window :: confirmation_window
  pp_before_deadline :: "('w, bool) state"
  pp_preflight_observe_active :: "('w, network_service_proxy_state outcome) state"
  pp_observe_active :: "('w, network_service_proxy_state outcome) state"
  pp_observe_service :: "string \<Rightarrow> ('w, network_service_proxy_state outcome) state"
  pp_apply_service :: "network_service_proxy_state \<Rightarrow> ('w, unit outcome) state"
  pp_confirm_proxy_listener :: "proxy_endpoint \<Rightarrow> ('w, unit outcome) state"
  pp_load :: "('w, capture_journal option outcome) state"
  pp_save :: "capture_journal \<Rightarrow> ('w, unit outcome) state"
  pp_clear :: "('w, unit outcome) state"

section \<open>The reconciler\<close>

record 'w sp_self =
  sf_endpoint :: proxy_endpoint
  sf_platform :: "'w proxy_platform"

record 'w sp_state =
  rs_takeover_policy :: takeover_policy
  rs_status :: capture_status
  rs_runtime_transition :: bool
  rs_world :: 'w

definition sp_new :: "'w \<Rightarrow> 'w sp_state" where
  "sp_new w =
     \<lparr>rs_takeover_policy = ProtectExisting, rs_status = capture_off, rs_runtime_transition = False,
      rs_world = w\<rparr>"

text \<open>A call of a trait method acts on the world; a status written replaces the status.\<close>

definition call :: "('w, 'a) state \<Rightarrow> ('w sp_state, 'a) state" where
  "call f = State (\<lambda>s. case run_state f (rs_world s) of (r, w) \<Rightarrow> (r, s\<lparr>rs_world := w\<rparr>))"

definition status_now :: "('w sp_state, capture_status) state" where
  "status_now = do { s \<leftarrow> State_Monad.get; State_Monad.return (rs_status s) }"

definition put_status :: "capture_status \<Rightarrow> ('w sp_state, unit) state" where
  "put_status status = State_Monad.update (\<lambda>s. s\<lparr>rs_status := status\<rparr>)"

definition sp_availability :: "'w sp_self \<Rightarrow> ('w sp_state, capability_availability) state" where
  "sp_availability self =
     do { s \<leftarrow> State_Monad.get; State_Monad.return (pp_availability (sf_platform self) (rs_world s)) }"

definition runtime_transition_now :: "('w sp_state, bool) state" where
  "runtime_transition_now = do { s \<leftarrow> State_Monad.get; State_Monad.return (rs_runtime_transition s) }"

definition begin_runtime_transition :: "('w sp_state, unit outcome) state" where
  "begin_runtime_transition =
     do { running \<leftarrow> runtime_transition_now;
          if running then State_Monad.return (Inl runtime_transition_error)
          else do {
            State_Monad.update (\<lambda>s. s\<lparr>rs_runtime_transition := True\<rparr>);
            State_Monad.return (Inr ()) } }"

definition drop_runtime_transition :: "('w sp_state, unit) state" where
  "drop_runtime_transition = State_Monad.update (\<lambda>s. s\<lparr>rs_runtime_transition := False\<rparr>)"

definition set_takeover_policy :: "takeover_policy \<Rightarrow> ('w sp_state, unit) state" where
  "set_takeover_policy policy = State_Monad.update (\<lambda>s. s\<lparr>rs_takeover_policy := policy\<rparr>)"

definition takeover_error :: "network_service_proxy_state \<Rightarrow> ('w sp_state, capture_error option) state" where
  "takeover_error state =
     do { s \<leftarrow> State_Monad.get;
          State_Monad.return (map_option takeover_rejected (takeover_rejection_of state (rs_takeover_policy s))) }"

text \<open>The status literal of the sources: detached, with TUN off.\<close>

definition proxy_status ::
  "capture_selection \<Rightarrow> bool \<Rightarrow> capture_failure_kind option \<Rightarrow> system_proxy_observed \<Rightarrow> system_proxy_phase
     \<Rightarrow> recovery_action list \<Rightarrow> bool \<Rightarrow> capture_status" where
  "proxy_status selection desired failure observed phase actions enabled =
     \<lparr>cu_capture_operation = operation_detached, cu_capture_selection = selection,
      cu_system_proxy =
        \<lparr>ps_desired = desired, ps_failure = failure, ps_observed = observed, ps_phase = phase,
         ps_recovery_actions = actions\<rparr>,
      cu_system_proxy_enabled = enabled, cu_tun = tun_off, cu_tun_enabled = False\<rparr>"

lemma proxy_status_sel [simp]:
  "cu_system_proxy (proxy_status selection desired failure observed phase actions enabled) =
     \<lparr>ps_desired = desired, ps_failure = failure, ps_observed = observed, ps_phase = phase,
      ps_recovery_actions = actions\<rparr>"
  "cu_system_proxy_enabled (proxy_status selection desired failure observed phase actions enabled) = enabled"
  "cu_capture_selection (proxy_status selection desired failure observed phase actions enabled) = selection"
  by (simp_all add: proxy_status_def)

definition applied_status :: "capture_selection \<Rightarrow> capture_status" where
  "applied_status selection = proxy_status selection True None SO_Mish SP_Applied [] True"

lemma applied_status_sel [simp]:
  "cu_system_proxy (applied_status selection) =
     \<lparr>ps_desired = True, ps_failure = None, ps_observed = SO_Mish, ps_phase = SP_Applied,
      ps_recovery_actions = []\<rparr>"
  "cu_system_proxy_enabled (applied_status selection)"
  by (simp_all add: applied_status_def)

definition record_failure ::
  "'w sp_self \<Rightarrow> capture_selection \<Rightarrow> bool \<Rightarrow> capture_failure_kind \<Rightarrow> network_service_proxy_state option
     \<Rightarrow> ('w sp_state, unit) state" where
  "record_failure self selection desired failure observed =
     put_status
       (proxy_status selection desired (Some failure)
          (case observed of Some state \<Rightarrow> observed_state state (sf_endpoint self) | None \<Rightarrow> SO_Unknown)
          SP_Failed [] False)"

definition set_pending :: "capture_selection \<Rightarrow> bool \<Rightarrow> ('w sp_state, unit) state" where
  "set_pending selection desired =
     do { previous \<leftarrow> status_now;
          put_status
            (proxy_status selection desired None (ps_observed (cu_system_proxy previous)) SP_Pending []
               (cu_system_proxy_enabled previous)) }"

text \<open>The drift marks keep the rest of the status they are given.\<close>

definition drifted ::
  "capture_status \<Rightarrow> capture_failure_kind option \<Rightarrow> system_proxy_observed \<Rightarrow> capture_status" where
  "drifted status failure observed =
     status\<lparr>cu_system_proxy :=
              (cu_system_proxy status)\<lparr>ps_failure := failure, ps_observed := observed, ps_phase := SP_Drift,
                                       ps_recovery_actions := [RepairAction, LeaveAsIs]\<rparr>,
            cu_system_proxy_enabled := False\<rparr>"

definition mark_drift ::
  "'w sp_self \<Rightarrow> capture_status \<Rightarrow> network_service_proxy_state \<Rightarrow> capture_failure_kind option
     \<Rightarrow> ('w sp_state, capture_status) state" where
  "mark_drift self status observed failure =
     (let marked = drifted status failure (observed_state observed (sf_endpoint self)) in
      do { put_status marked; State_Monad.return marked })"

definition record_unknown_drift :: "capture_status \<Rightarrow> capture_failure_kind \<Rightarrow> ('w sp_state, unit) state" where
  "record_unknown_drift status failure = put_status (drifted status (Some failure) SO_Unknown)"

definition record_drift_failure :: "capture_status \<Rightarrow> capture_failure_kind \<Rightarrow> ('w sp_state, unit) state" where
  "record_drift_failure status failure =
     put_status (drifted status (Some failure) (ps_observed (cu_system_proxy status)))"

definition restrict_recovery_to_relinquish :: "('w sp_state, unit) state" where
  "restrict_recovery_to_relinquish =
     State_Monad.update (\<lambda>s. s\<lparr>rs_status := (rs_status s)\<lparr>cu_system_proxy :=
       (cu_system_proxy (rs_status s))\<lparr>ps_recovery_actions := [LeaveAsIs]\<rparr>\<rparr>\<rparr>)"

definition load_validated_journal :: "'w sp_self \<Rightarrow> ('w sp_state, capture_journal option outcome) state" where
  "load_validated_journal self =
     do { journal \<leftarrow> call (pp_load (sf_platform self));
          case journal of
            Inl error \<Rightarrow> State_Monad.return (Inl error)
          | Inr journal \<Rightarrow>
              if (case journal of None \<Rightarrow> False | Some j \<Rightarrow> \<not> is_valid_recovery_state j)
              then State_Monad.return
                     (Inl (error_new CF_InvalidRecovery ''The System Proxy recovery journal is invalid''))
              else State_Monad.return (Inr journal) }"

section \<open>Confirmation and restoration\<close>

definition drift_error :: capture_error where
  "drift_error = error_new CF_ExternalDrift ''System Proxy changed outside Mish and was left unchanged''"

definition unconfirmed_error :: capture_error where
  "unconfirmed_error =
     error_new CF_ConfirmationFailed ''System Proxy could not be confirmed after applying it''"

definition has_deadline :: "confirmation_window \<Rightarrow> bool" where
  "has_deadline window \<longleftrightarrow> 1 < maximum_observations window \<and> cw_maximum_duration window \<noteq> 0"

definition before_deadline :: "'w sp_self \<Rightarrow> ('w sp_state, bool) state" where
  "before_deadline self =
     (if has_deadline (pp_window (sf_platform self)) then call (pp_before_deadline (sf_platform self))
      else State_Monad.return True)"

definition confirm_observation ::
  "'w sp_self \<Rightarrow> string option \<Rightarrow> ('w sp_state, network_service_proxy_state outcome) state" where
  "confirm_observation self service_id =
     (case service_id of
        Some sid \<Rightarrow> call (pp_observe_service (sf_platform self) sid)
      | None \<Rightarrow> call (pp_observe_active (sf_platform self)))"

text \<open>The attempts that are left, the last one included.\<close>

fun confirm_attempts ::
  "'w sp_self \<Rightarrow> network_service_proxy_state \<Rightarrow> network_service_proxy_state \<Rightarrow> network_service_proxy_state
     \<Rightarrow> string option \<Rightarrow> nat \<Rightarrow> ('w sp_state, network_service_proxy_state outcome) state" where
  "confirm_attempts self prior transaction_target expected service_id 0 =
     State_Monad.return (Inl unconfirmed_error)"
| "confirm_attempts self prior transaction_target expected service_id (Suc attempts) =
     do { in_time \<leftarrow> before_deadline self;
          if \<not> in_time
          then State_Monad.return
                 (Inl (error_new CF_ConfirmationFailed
                         ''System Proxy confirmation exceeded its bounded propagation window''))
          else do {
            observation \<leftarrow> confirm_observation self service_id;
            case observation of
              Inl error \<Rightarrow> State_Monad.return (Inl error)
            | Inr observed \<Rightarrow>
                if semantically_matches observed expected then State_Monad.return (Inr observed)
                else if np_service_id observed \<noteq> np_service_id expected
                then State_Monad.return
                       (Inl (error_new CF_ExternalDrift
                               ''The network service changed during System Proxy confirmation''))
                else if \<not> is_transaction_owned_between observed prior transaction_target
                then State_Monad.return (Inl drift_error)
                else if attempts = 0 \<or> cw_retry_interval (pp_window (sf_platform self)) = 0
                then confirm_attempts self prior transaction_target expected service_id attempts
                else do {
                  slept \<leftarrow> before_deadline self;
                  if slept then confirm_attempts self prior transaction_target expected service_id attempts
                  else State_Monad.return (Inl unconfirmed_error) } } }"

definition confirm_target ::
  "'w sp_self \<Rightarrow> network_service_proxy_state \<Rightarrow> network_service_proxy_state \<Rightarrow> network_service_proxy_state
     \<Rightarrow> string option \<Rightarrow> ('w sp_state, network_service_proxy_state outcome) state" where
  "confirm_target self prior transaction_target expected service_id =
     confirm_attempts self prior transaction_target expected service_id
       (unat (maximum_observations (pp_window (sf_platform self))))"

definition confirm_active_target ::
  "'w sp_self \<Rightarrow> network_service_proxy_state \<Rightarrow> network_service_proxy_state
     \<Rightarrow> ('w sp_state, network_service_proxy_state outcome) state" where
  "confirm_active_target self prior target = confirm_target self prior target target None"

definition confirm_service_target ::
  "'w sp_self \<Rightarrow> network_service_proxy_state \<Rightarrow> network_service_proxy_state \<Rightarrow> network_service_proxy_state
     \<Rightarrow> ('w sp_state, network_service_proxy_state outcome) state" where
  "confirm_service_target self prior transaction_target expected =
     confirm_target self prior transaction_target expected (Some (np_service_id expected))"

definition restore_exact_prior ::
  "'w sp_self \<Rightarrow> network_service_proxy_state \<Rightarrow> ('w sp_state, network_service_proxy_state outcome) state" where
  "restore_exact_prior self prior =
     do { observation \<leftarrow> call (pp_observe_service (sf_platform self) (np_service_id prior));
          case observation of
            Inl _ \<Rightarrow>
              State_Monad.return
                (Inl (error_new CF_RollbackFailed
                        ''The current System Proxy state could not be observed before restoration''))
          | Inr observed \<Rightarrow>
              let target = with_endpoint prior (sf_endpoint self) in
              if \<not> is_transaction_owned_between observed prior target then State_Monad.return (Inl drift_error)
              else do {
                applied \<leftarrow> call (pp_apply_service (sf_platform self) prior);
                case applied of
                  Inl _ \<Rightarrow>
                    State_Monad.return
                      (Inl (error_new CF_RollbackFailed ''The prior System Proxy state could not be restored''))
                | Inr _ \<Rightarrow>
                    do { confirmed \<leftarrow> confirm_service_target self prior target prior;
                         case confirmed of
                           Inl _ \<Rightarrow>
                             State_Monad.return
                               (Inl (error_new CF_RollbackFailed
                                       ''The prior System Proxy state could not be confirmed''))
                         | Inr restored \<Rightarrow> State_Monad.return (Inr restored) } } }"

text \<open>The second half of \<^verbatim>\<open>restore\<close>, once the journaled service has been observed.\<close>

definition restore_owned ::
  "'w sp_self \<Rightarrow> capture_selection \<Rightarrow> capture_journal \<Rightarrow> network_service_proxy_state
     \<Rightarrow> ('w sp_state, capture_status outcome) state" where
  "restore_owned self selection journal owned =
     (let target = with_endpoint (cj_prior journal) (sf_endpoint self) in
      if \<not> is_transaction_owned_between owned (cj_prior journal) target
      then do {
        observation \<leftarrow> call (pp_observe_active (sf_platform self));
        status \<leftarrow> status_now;
        mark_drift self
          (status\<lparr>cu_capture_selection := selection,
                  cu_system_proxy := (cu_system_proxy status)\<lparr>ps_desired := False\<rparr>\<rparr>)
          (case observation of Inr observed \<Rightarrow> observed | Inl _ \<Rightarrow> owned) (Some CF_ExternalDrift);
        State_Monad.return (Inl drift_error) }
      else do {
        restoration \<leftarrow> restore_exact_prior self (cj_prior journal);
        case restoration of
          Inl error \<Rightarrow>
            do { observation \<leftarrow> call (pp_observe_service (sf_platform self) (np_service_id (cj_prior journal)));
                 status \<leftarrow> status_now;
                 mark_drift self
                   (status\<lparr>cu_capture_selection := selection,
                           cu_system_proxy := (cu_system_proxy status)\<lparr>ps_desired := False\<rparr>\<rparr>)
                   (case observation of Inr observed \<Rightarrow> observed | Inl _ \<Rightarrow> owned) (Some (er_kind error));
                 State_Monad.return (Inl error) }
        | Inr restored \<Rightarrow>
            do { cleared \<leftarrow> call (pp_clear (sf_platform self));
                 case cleared of
                   Inl error \<Rightarrow>
                     do { status \<leftarrow> status_now;
                          mark_drift self
                            (status\<lparr>cu_capture_selection := selection,
                                    cu_system_proxy := (cu_system_proxy status)\<lparr>ps_desired := False\<rparr>\<rparr>)
                            restored (Some (er_kind error));
                          State_Monad.return (Inl error) }
                 | Inr _ \<Rightarrow>
                     let status = proxy_status selection False None
                                    (observed_state restored (sf_endpoint self)) SP_Off [] False in
                     do { put_status status; State_Monad.return (Inr status) } } })"

definition restore :: "'w sp_self \<Rightarrow> capture_selection \<Rightarrow> ('w sp_state, capture_status outcome) state" where
  "restore self selection =
     do { loaded \<leftarrow> load_validated_journal self;
          case loaded of
            Inl error \<Rightarrow>
              do { status \<leftarrow> status_now;
                   record_unknown_drift
                     (status\<lparr>cu_capture_selection := selection,
                             cu_system_proxy := (cu_system_proxy status)\<lparr>ps_desired := False\<rparr>\<rparr>)
                     (er_kind error);
                   State_Monad.return (Inl error) }
          | Inr None \<Rightarrow>
              do { observation \<leftarrow> call (pp_observe_active (sf_platform self));
                   case observation of
                     Inl error \<Rightarrow>
                       do { record_failure self selection False (er_kind error) None;
                            State_Monad.return (Inl error) }
                   | Inr observed \<Rightarrow>
                       let status = proxy_status selection False None
                                      (observed_state observed (sf_endpoint self)) SP_Off [] False in
                       do { put_status status; State_Monad.return (Inr status) } }
          | Inr (Some journal) \<Rightarrow>
              do { observation \<leftarrow> call (pp_observe_service (sf_platform self) (np_service_id (cj_prior journal)));
                   case observation of
                     Inl error \<Rightarrow>
                       do { status \<leftarrow> status_now;
                            record_unknown_drift
                              (status\<lparr>cu_capture_selection := selection,
                                      cu_system_proxy := (cu_system_proxy status)\<lparr>ps_desired := False\<rparr>\<rparr>)
                              (er_kind error);
                            State_Monad.return (Inl error) }
                   | Inr owned \<Rightarrow> restore_owned self selection journal owned } }"

section \<open>Rollback\<close>

definition record_rollback_drift ::
  "'w sp_self \<Rightarrow> capture_selection \<Rightarrow> network_service_proxy_state \<Rightarrow> capture_failure_kind
     \<Rightarrow> ('w sp_state, capture_status outcome) state" where
  "record_rollback_drift self selection prior failure =
     do { observation \<leftarrow> call (pp_observe_service (sf_platform self) (np_service_id prior));
          put_status
            (proxy_status selection True (Some failure)
               (observed_state (case observation of Inr observed \<Rightarrow> observed | Inl _ \<Rightarrow> prior) (sf_endpoint self))
               SP_Drift [RepairAction, LeaveAsIs] False);
          State_Monad.return
            (Inl (error_new failure
                    (if failure = CF_ExternalDrift
                     then ''System Proxy changed outside Mish and was left unchanged''
                     else ''System Proxy failed and its prior state could not be confirmed''))) }"

definition rollback_after_failure ::
  "'w sp_self \<Rightarrow> capture_selection \<Rightarrow> network_service_proxy_state \<Rightarrow> capture_error
     \<Rightarrow> ('w sp_state, capture_status outcome) state" where
  "rollback_after_failure self selection prior original =
     do { restoration \<leftarrow> restore_exact_prior self prior;
          case restoration of
            Inl error \<Rightarrow> record_rollback_drift self selection prior (er_kind error)
          | Inr _ \<Rightarrow>
              do { cleared \<leftarrow> call (pp_clear (sf_platform self));
                   case cleared of
                     Inl error \<Rightarrow>
                       do { status \<leftarrow> status_now;
                            mark_drift self (status\<lparr>cu_capture_selection := selection\<rparr>) prior (Some (er_kind error));
                            State_Monad.return (Inl error) }
                   | Inr _ \<Rightarrow>
                       do { put_status
                              (proxy_status selection True (Some (er_kind original))
                                 (observed_state prior (sf_endpoint self)) SP_Failed [] False);
                            State_Monad.return (Inl original) } } }"

text \<open>
  The common end of \<^verbatim>\<open>reconcile_locked_with_preflight\<close>, \<^verbatim>\<open>audit_with_mutation\<close> and \<^verbatim>\<open>recover\<close> once
  the journal holds the prior configuration: write the target, confirm it, or roll back.
\<close>

definition apply_journaled ::
  "'w sp_self \<Rightarrow> capture_selection \<Rightarrow> network_service_proxy_state \<Rightarrow> ('w sp_state, capture_status outcome) state" where
  "apply_journaled self selection prior =
     (let target = with_endpoint prior (sf_endpoint self) in
      do { applied \<leftarrow> call (pp_apply_service (sf_platform self) target);
           case applied of
             Inl error \<Rightarrow> rollback_after_failure self selection prior error
           | Inr _ \<Rightarrow>
               do { confirmed \<leftarrow> confirm_active_target self prior target;
                    case confirmed of
                      Inl error \<Rightarrow> rollback_after_failure self selection prior error
                    | Inr _ \<Rightarrow>
                        do { put_status (applied_status selection);
                             State_Monad.return (Inr (applied_status selection)) } } })"

section \<open>Preflight and reconciliation\<close>

definition capability_error :: "string \<Rightarrow> capture_error" where
  "capability_error message = error_new CF_CapabilityUnavailable message"

definition unowned_endpoint_error :: capture_error where
  "unowned_endpoint_error =
     error_new CF_ExternalDrift ''A matching System Proxy endpoint exists without Mish ownership''"

definition sp_preflight :: "'w sp_self \<Rightarrow> ('w sp_state, system_proxy_preflight outcome) state" where
  "sp_preflight self =
     do { availability \<leftarrow> sp_availability self;
          if availability \<noteq> CA_Supported
          then State_Monad.return (Inl (capability_error ''System Proxy is unavailable on this platform''))
          else do {
            loaded \<leftarrow> load_validated_journal self;
            case loaded of
              Inl error \<Rightarrow> State_Monad.return (Inl error)
            | Inr journal \<Rightarrow>
                do { observation \<leftarrow> call (pp_preflight_observe_active (sf_platform self));
                     case observation of
                       Inl error \<Rightarrow> State_Monad.return (Inl error)
                     | Inr observed \<Rightarrow>
                         (case journal of
                            Some j \<Rightarrow>
                              if np_service_id (cj_prior j) = np_service_id observed
                                 \<and> \<not> semantically_matches observed (with_endpoint (cj_prior j) (sf_endpoint self))
                              then State_Monad.return (Inl drift_error)
                              else State_Monad.return (Inr \<lparr>sp_journal = journal, sp_observed = observed\<rparr>)
                          | None \<Rightarrow>
                              if is_mish_endpoint observed (sf_endpoint self)
                              then State_Monad.return (Inl unowned_endpoint_error)
                              else do {
                                rejected \<leftarrow> takeover_error observed;
                                case rejected of
                                  Some error \<Rightarrow> State_Monad.return (Inl error)
                                | None \<Rightarrow>
                                    State_Monad.return (Inr \<lparr>sp_journal = journal, sp_observed = observed\<rparr>) }) } } }"

text \<open>From the point where no journal is held any more and \<open>prior\<close> is the active configuration.\<close>

definition take_over ::
  "'w sp_self \<Rightarrow> capture_selection \<Rightarrow> network_service_proxy_state \<Rightarrow> ('w sp_state, capture_status outcome) state" where
  "take_over self selection prior =
     (if has_matching_manual_proxy_endpoint prior (sf_endpoint self)
      then do {
        status \<leftarrow> status_now;
        mark_drift self (status\<lparr>cu_capture_selection := selection\<rparr>) prior (Some CF_ExternalDrift);
        State_Monad.return (Inl unowned_endpoint_error) }
      else do {
        rejected \<leftarrow> takeover_error prior;
        case rejected of
          Some error \<Rightarrow>
            do { record_failure self selection True (er_kind error) (Some prior);
                 State_Monad.return (Inl error) }
        | None \<Rightarrow>
            do { saved \<leftarrow> call (pp_save (sf_platform self) \<lparr>cj_prior = prior\<rparr>);
                 case saved of
                   Inl error \<Rightarrow>
                     do { record_failure self selection True (er_kind error) (Some prior);
                          State_Monad.return (Inl error) }
                 | Inr _ \<Rightarrow> apply_journaled self selection prior } })"

text \<open>From the authoritative observation on.\<close>

definition reconcile_observed ::
  "'w sp_self \<Rightarrow> capture_selection \<Rightarrow> system_proxy_preflight option \<Rightarrow> capture_journal option
     \<Rightarrow> network_service_proxy_state \<Rightarrow> ('w sp_state, capture_status outcome) state" where
  "reconcile_observed self selection preflight existing_journal prior =
     (if (case preflight of
            None \<Rightarrow> False
          | Some p \<Rightarrow> sp_journal p \<noteq> existing_journal \<or> sp_observed p \<noteq> prior)
      then do {
        status \<leftarrow> status_now;
        mark_drift self (status\<lparr>cu_capture_selection := selection\<rparr>) prior (Some CF_ExternalDrift);
        State_Monad.return
          (Inl (error_new CF_ExternalDrift
                  ''System Proxy changed during launch preparation and was left unchanged'')) }
      else case existing_journal of
        None \<Rightarrow> take_over self selection prior
      | Some journal \<Rightarrow>
          if np_service_id (cj_prior journal) = np_service_id prior
          then (if semantically_matches prior (with_endpoint (cj_prior journal) (sf_endpoint self))
                then do {
                  put_status (applied_status selection);
                  State_Monad.return (Inr (applied_status selection)) }
                else do {
                  status \<leftarrow> status_now;
                  mark_drift self (status\<lparr>cu_capture_selection := selection\<rparr>) prior (Some CF_ExternalDrift);
                  State_Monad.return (Inl drift_error) })
          else do {
            restored \<leftarrow> restore self selection;
            case restored of
              Inl error \<Rightarrow> State_Monad.return (Inl error)
            | Inr _ \<Rightarrow>
                do { set_pending selection True;
                     observation \<leftarrow> call (pp_observe_active (sf_platform self));
                     case observation of
                       Inl error \<Rightarrow>
                         do { record_failure self selection True (er_kind error) None;
                              State_Monad.return (Inl error) }
                     | Inr prior \<Rightarrow> take_over self selection prior } })"

text \<open>Restore what is owned, then fail with the error; both refusals of an unready core end so.\<close>

definition restore_then_fail ::
  "'w sp_self \<Rightarrow> capture_selection \<Rightarrow> capture_journal option \<Rightarrow> capture_error
     \<Rightarrow> ('w sp_state, capture_status outcome) state" where
  "restore_then_fail self selection existing_journal error =
     do { restored \<leftarrow> (case existing_journal of
            Some _ \<Rightarrow>
              do { r \<leftarrow> restore self selection;
                   State_Monad.return (case r of Inl e \<Rightarrow> Some e | Inr _ \<Rightarrow> None) }
          | None \<Rightarrow> State_Monad.return None);
          case restored of
            Some e \<Rightarrow> State_Monad.return (Inl e)
          | None \<Rightarrow>
              do { record_failure self selection True (er_kind error) None;
                   State_Monad.return (Inl error) } }"

definition reconcile_locked_with_preflight ::
  "'w sp_self \<Rightarrow> capture_request \<Rightarrow> bool \<Rightarrow> system_proxy_preflight option
     \<Rightarrow> ('w sp_state, capture_status outcome) state" where
  "reconcile_locked_with_preflight self request core_healthy preflight =
     (let selection = cq_selection request; desired = cq_active request \<and> cs_system_proxy selection in
      do { availability \<leftarrow> sp_availability self;
           if availability \<noteq> CA_Supported
           then do {
             record_failure self selection desired CF_CapabilityUnavailable None;
             State_Monad.return (Inl (capability_error ''System Proxy is unavailable on this platform'')) }
           else if cs_tun selection
           then State_Monad.return (Inl (error_new CF_UnsupportedSelection ''TUN capture is unavailable''))
           else do {
             set_pending selection desired;
             if \<not> desired then restore self selection
             else do {
               loaded \<leftarrow> load_validated_journal self;
               case loaded of
                 Inl error \<Rightarrow>
                   do { status \<leftarrow> status_now;
                        record_unknown_drift status (er_kind error);
                        State_Monad.return (Inl error) }
               | Inr existing_journal \<Rightarrow>
                   if \<not> core_healthy
                   then restore_then_fail self selection existing_journal
                          (error_new CF_CoreUnhealthy ''System Proxy requires a healthy Mihomo core'')
                   else do {
                     listening \<leftarrow> call (pp_confirm_proxy_listener (sf_platform self) (sf_endpoint self));
                     case listening of
                       Inl error \<Rightarrow> restore_then_fail self selection existing_journal error
                     | Inr _ \<Rightarrow>
                         do { observation \<leftarrow> call (pp_observe_active (sf_platform self));
                              case observation of
                                Inl error \<Rightarrow>
                                  (case existing_journal of
                                     Some _ \<Rightarrow>
                                       do { status \<leftarrow> status_now;
                                            record_unknown_drift status (er_kind error);
                                            State_Monad.return (Inl error) }
                                   | None \<Rightarrow>
                                       do { record_failure self selection True (er_kind error) None;
                                            State_Monad.return (Inl error) })
                              | Inr prior \<Rightarrow>
                                  reconcile_observed self selection preflight existing_journal prior } } } } })"

definition reconcile_with_preflight ::
  "'w sp_self \<Rightarrow> capture_request \<Rightarrow> bool \<Rightarrow> system_proxy_preflight option
     \<Rightarrow> ('w sp_state, capture_status outcome) state" where
  "reconcile_with_preflight self request core_healthy preflight =
     do { transition \<leftarrow> runtime_transition_now;
          if transition then State_Monad.return (Inl runtime_transition_error)
          else reconcile_locked_with_preflight self request core_healthy preflight }"

definition sp_reconcile :: "'w sp_self \<Rightarrow> capture_request \<Rightarrow> bool \<Rightarrow> ('w sp_state, capture_status outcome) state" where
  "sp_reconcile self request core_healthy = reconcile_with_preflight self request core_healthy None"

text \<open>\<open>same\<close>: the transition guard belongs to this reconciler.\<close>

definition reconcile_runtime_transition ::
  "'w sp_self \<Rightarrow> bool \<Rightarrow> capture_request \<Rightarrow> bool \<Rightarrow> ('w sp_state, capture_status outcome) state" where
  "reconcile_runtime_transition self same request core_healthy =
     do { transition \<leftarrow> runtime_transition_now;
          if \<not> same \<or> \<not> transition then State_Monad.return (Inl runtime_transition_error)
          else reconcile_locked_with_preflight self request core_healthy None }"

section \<open>Audit\<close>

text \<open>
  The active service is no longer the journaled one: the old service is restored, the journal
  moves to the new one. The returned flag says that the configuration was written.
\<close>

definition audit_service_changed ::
  "'w sp_self \<Rightarrow> capture_status \<Rightarrow> capture_journal \<Rightarrow> network_service_proxy_state
     \<Rightarrow> ('w sp_state, (capture_status \<times> bool) outcome) state" where
  "audit_service_changed self current journal observed =
     do { restoration \<leftarrow> restore_exact_prior self (cj_prior journal);
          case restoration of
            Inl error \<Rightarrow>
              do { status \<leftarrow> mark_drift self current observed (Some (er_kind error));
                   State_Monad.return (Inr (status, True)) }
          | Inr _ \<Rightarrow>
              do { cleared \<leftarrow> call (pp_clear (sf_platform self));
                   case cleared of
                     Inl error \<Rightarrow>
                       do { mark_drift self current observed (Some (er_kind error));
                            State_Monad.return (Inl error) }
                   | Inr _ \<Rightarrow>
                       do { rejected \<leftarrow> takeover_error observed;
                            case rejected of
                              Some error \<Rightarrow>
                                do { record_failure self (cu_capture_selection current) True (er_kind error)
                                       (Some observed);
                                     State_Monad.return (Inl error) }
                            | None \<Rightarrow>
                                do { saved \<leftarrow> call (pp_save (sf_platform self) \<lparr>cj_prior = observed\<rparr>);
                                     case saved of
                                       Inl error \<Rightarrow>
                                         do { record_failure self (cu_capture_selection current) True
                                                (er_kind error) (Some observed);
                                              State_Monad.return (Inl error) }
                                     | Inr _ \<Rightarrow>
                                         do { applied \<leftarrow> apply_journaled self (cu_capture_selection current) observed;
                                              State_Monad.return (map_sum id (\<lambda>status. (status, True)) applied) } } } } }"

definition audit_observed ::
  "'w sp_self \<Rightarrow> capture_status \<Rightarrow> capture_journal option \<Rightarrow> network_service_proxy_state
     \<Rightarrow> ('w sp_state, (capture_status \<times> bool) outcome) state" where
  "audit_observed self current journal observed =
     (if journal = None \<and> ps_phase (cu_system_proxy current) = SP_Failed
         \<and> \<not> has_matching_manual_proxy_endpoint observed (sf_endpoint self)
      then let failed = current\<lparr>cu_system_proxy :=
                          (cu_system_proxy current)\<lparr>ps_observed := observed_state observed (sf_endpoint self),
                                                    ps_recovery_actions := []\<rparr>,
                          cu_system_proxy_enabled := False\<rparr> in
           do { put_status failed; State_Monad.return (Inr (failed, False)) }
      else if ps_desired (cu_system_proxy current)
              \<and> (case journal of
                   None \<Rightarrow> False
                 | Some j \<Rightarrow> semantically_matches observed (with_endpoint (cj_prior j) (sf_endpoint self)))
      then let confirmed = current\<lparr>cu_system_proxy :=
                             (cu_system_proxy current)\<lparr>ps_failure := None, ps_observed := SO_Mish,
                                                       ps_phase := SP_Applied, ps_recovery_actions := []\<rparr>,
                             cu_system_proxy_enabled := True\<rparr> in
           do { put_status confirmed; State_Monad.return (Inr (confirmed, False)) }
      else if ps_desired (cu_system_proxy current)
      then (case journal of
              Some j \<Rightarrow>
                if np_service_id (cj_prior j) \<noteq> np_service_id observed
                then audit_service_changed self current j observed
                else do { status \<leftarrow> mark_drift self current observed None;
                          State_Monad.return (Inr (status, False)) }
            | None \<Rightarrow>
                do { status \<leftarrow> mark_drift self current observed None;
                     State_Monad.return (Inr (status, False)) })
      else let confirmed = current\<lparr>cu_system_proxy :=
                             (cu_system_proxy current)\<lparr>ps_failure := None,
                                                       ps_observed := observed_state observed (sf_endpoint self),
                                                       ps_phase := SP_Off, ps_recovery_actions := []\<rparr>,
                             cu_system_proxy_enabled := False\<rparr> in
           do { put_status confirmed; State_Monad.return (Inr (confirmed, False)) })"

definition audit_locked ::
  "'w sp_self \<Rightarrow> bool \<Rightarrow> ('w sp_state, (capture_status \<times> bool) outcome) state" where
  "audit_locked self core_healthy =
     do { current \<leftarrow> status_now;
          loaded \<leftarrow> load_validated_journal self;
          case loaded of
            Inl error \<Rightarrow>
              do { record_unknown_drift current (er_kind error);
                   (if er_kind error = CF_InvalidRecovery then restrict_recovery_to_relinquish
                    else State_Monad.return ());
                   State_Monad.return (Inl error) }
          | Inr journal \<Rightarrow>
              do { availability \<leftarrow> sp_availability self;
                   if availability \<noteq> CA_Supported
                   then (if journal \<noteq> None
                         then do {
                           record_unknown_drift current CF_CapabilityUnavailable;
                           State_Monad.return
                             (Inl (capability_error ''System Proxy ownership cannot be audited on this platform'')) }
                         else State_Monad.return (Inr (current, False)))
                   else do {
                     listening \<leftarrow>
                       (if journal \<noteq> None \<and> ps_desired (cu_system_proxy current) \<and> core_healthy
                        then call (pp_confirm_proxy_listener (sf_platform self) (sf_endpoint self))
                        else State_Monad.return (Inr ()));
                     case listening of
                       Inl error \<Rightarrow>
                         do { restored \<leftarrow> restore self (cu_capture_selection current);
                              case restored of
                                Inl e \<Rightarrow> State_Monad.return (Inl e)
                              | Inr _ \<Rightarrow>
                                  do { record_failure self (cu_capture_selection current) True (er_kind error) None;
                                       State_Monad.return (Inl error) } }
                     | Inr _ \<Rightarrow>
                         if journal \<noteq> None \<and> (\<not> core_healthy \<or> \<not> ps_desired (cu_system_proxy current))
                         then do {
                           restored \<leftarrow> restore self (cu_capture_selection current);
                           State_Monad.return (map_sum id (\<lambda>status. (status, True)) restored) }
                         else do {
                           observation \<leftarrow> call (pp_observe_active (sf_platform self));
                           case observation of
                             Inl error \<Rightarrow>
                               do { (if ps_desired (cu_system_proxy current) \<or> journal \<noteq> None
                                     then record_unknown_drift current (er_kind error)
                                     else State_Monad.return ());
                                    State_Monad.return (Inl error) }
                           | Inr observed \<Rightarrow> audit_observed self current journal observed } } } }"

definition audit_with_mutation ::
  "'w sp_self \<Rightarrow> bool \<Rightarrow> ('w sp_state, (capture_status \<times> bool) outcome) state" where
  "audit_with_mutation self core_healthy =
     do { transition \<leftarrow> runtime_transition_now;
          if transition
          then do { status \<leftarrow> status_now; State_Monad.return (Inr (status, False)) }
          else audit_locked self core_healthy }"

definition sp_audit :: "'w sp_self \<Rightarrow> bool \<Rightarrow> ('w sp_state, capture_status outcome) state" where
  "sp_audit self core_healthy =
     do { audited \<leftarrow> audit_with_mutation self core_healthy;
          State_Monad.return (map_sum id fst audited) }"

section \<open>Recovery\<close>

definition recover_repair ::
  "'w sp_self \<Rightarrow> capture_status \<Rightarrow> network_service_proxy_state \<Rightarrow> ('w sp_state, capture_status outcome) state" where
  "recover_repair self current observed =
     do { rejected \<leftarrow> takeover_error observed;
          case rejected of
            Some error \<Rightarrow>
              do { mark_drift self current observed (Some (er_kind error));
                   State_Monad.return (Inl error) }
          | None \<Rightarrow>
              do { saved \<leftarrow> call (pp_save (sf_platform self) \<lparr>cj_prior = observed\<rparr>);
                   case saved of
                     Inl error \<Rightarrow>
                       do { mark_drift self current observed (Some (er_kind error));
                            State_Monad.return (Inl error) }
                   | Inr _ \<Rightarrow> apply_journaled self (cu_capture_selection current) observed } }"

definition recover_leave ::
  "'w sp_self \<Rightarrow> capture_status \<Rightarrow> bool \<Rightarrow> network_service_proxy_state
     \<Rightarrow> ('w sp_state, capture_status outcome) state" where
  "recover_leave self current invalid_recovery observed =
     do { cleared \<leftarrow> call (pp_clear (sf_platform self));
          case cleared of
            Inl error \<Rightarrow>
              do { mark_drift self current observed
                     (Some (if invalid_recovery then CF_InvalidRecovery else er_kind error));
                   (if invalid_recovery then restrict_recovery_to_relinquish else State_Monad.return ());
                   State_Monad.return (Inl error) }
          | Inr _ \<Rightarrow>
              let status = proxy_status (cu_capture_selection current) False None
                             (observed_state observed (sf_endpoint self)) SP_Off [] False in
              do { put_status status; State_Monad.return (Inr status) } }"

definition recover_locked ::
  "'w sp_self \<Rightarrow> recovery_action \<Rightarrow> bool \<Rightarrow> ('w sp_state, capture_status outcome) state" where
  "recover_locked self action core_healthy =
     do { current \<leftarrow> status_now;
          if ps_phase (cu_system_proxy current) \<noteq> SP_Drift
          then State_Monad.return
                 (Inl (error_new CF_InvalidRecovery
                         ''System Proxy recovery is available only while drift is observed''))
          else
            let invalid_recovery = (ps_failure (cu_system_proxy current) = Some CF_InvalidRecovery) in
            if action = RepairAction \<and> invalid_recovery
            then State_Monad.return
                   (Inl (error_new CF_InvalidRecovery
                           ''An invalid System Proxy recovery record can only be relinquished''))
            else if action = RepairAction \<and> \<not> core_healthy
            then do {
              record_drift_failure current CF_CoreUnhealthy;
              State_Monad.return
                (Inl (error_new CF_CoreUnhealthy ''System Proxy repair requires a healthy Mihomo core'')) }
            else do {
              listening \<leftarrow>
                (if action = RepairAction
                 then call (pp_confirm_proxy_listener (sf_platform self) (sf_endpoint self))
                 else State_Monad.return (Inr ()));
              case listening of
                Inl error \<Rightarrow>
                  do { record_drift_failure current (er_kind error);
                       State_Monad.return (Inl error) }
              | Inr _ \<Rightarrow>
                  do { set_pending (cu_capture_selection current) (action = RepairAction);
                       observation \<leftarrow> call (pp_observe_active (sf_platform self));
                       case observation of
                         Inl error \<Rightarrow>
                           do { record_unknown_drift current
                                  (if invalid_recovery then CF_InvalidRecovery else er_kind error);
                                (if invalid_recovery then restrict_recovery_to_relinquish
                                 else State_Monad.return ());
                                State_Monad.return (Inl error) }
                       | Inr observed \<Rightarrow>
                           if action = RepairAction then recover_repair self current observed
                           else recover_leave self current invalid_recovery observed } } }"

definition recover :: "'w sp_self \<Rightarrow> recovery_action \<Rightarrow> bool \<Rightarrow> ('w sp_state, capture_status outcome) state" where
  "recover self action core_healthy =
     do { transition \<leftarrow> runtime_transition_now;
          if transition then State_Monad.return (Inl runtime_transition_error)
          else recover_locked self action core_healthy }"

section \<open>Sequences of calls\<close>

datatype sp_call =
    SC_Preflight
  | SC_Reconcile capture_request bool "system_proxy_preflight option"
  | SC_ReconcileTransition capture_request bool
  | SC_Audit bool
  | SC_Recover recovery_action bool
  | SC_SetPolicy takeover_policy
  | SC_BeginTransition
  | SC_EndTransition

fun sp_perform :: "'w sp_self \<Rightarrow> sp_call \<Rightarrow> 'w sp_state \<Rightarrow> 'w sp_state" where
  "sp_perform self SC_Preflight s = snd (run_state (sp_preflight self) s)"
| "sp_perform self (SC_Reconcile request healthy pre) s =
     snd (run_state (reconcile_with_preflight self request healthy pre) s)"
| "sp_perform self (SC_ReconcileTransition request healthy) s =
     snd (run_state (reconcile_runtime_transition self True request healthy) s)"
| "sp_perform self (SC_Audit healthy) s = snd (run_state (audit_with_mutation self healthy) s)"
| "sp_perform self (SC_Recover action healthy) s = snd (run_state (recover self action healthy) s)"
| "sp_perform self (SC_SetPolicy policy) s = snd (run_state (set_takeover_policy policy) s)"
| "sp_perform self SC_BeginTransition s = snd (run_state begin_runtime_transition s)"
| "sp_perform self SC_EndTransition s = snd (run_state drop_runtime_transition s)"

definition sp_run :: "'w sp_self \<Rightarrow> sp_call list \<Rightarrow> 'w sp_state \<Rightarrow> 'w sp_state" where
  "sp_run self cs s = fold (sp_perform self) cs s"

lemma sp_run_invariant:
  assumes "I s" and "\<And>c s. I s \<Longrightarrow> I (sp_perform self c s)"
  shows "I (sp_run self cs s)"
  using assms(1) unfolding sp_run_def
  by (induction cs arbitrary: s) (simp_all add: assms(2))

end
