(* ===== verification/Tun_Reconciler.thy ===== *)
theory Tun_Reconciler
  imports Tun_Helper_Laws Proxy_Reconciler
begin

text \<open>
  \<^verbatim>\<open>TunReconciler\<close> of \<^verbatim>\<open>crates/runtime/src/capture.rs\<close>: it keeps the TUN part of the Capture status, asks the
  helper controller to switch TUN and audits what the helper observes. Its state is that status and the
  controller's state; the wall clock is the helper platform's \<open>tp_now\<close>.
\<close>

section \<open>Failures\<close>

definition map_helper_failure :: "helper_failure_kind \<Rightarrow> tun_failure_kind" where
  "map_helper_failure failure =
     (case failure of
        HF_ConfirmationFailed \<Rightarrow> TF_ConfirmationFailed
      | HF_IdentityRejected \<Rightarrow> TF_HelperIdentityRejected
      | HF_InvalidSignature \<Rightarrow> TF_HelperInvalidSignature
      | HF_UnsignedApp \<Rightarrow> TF_HelperInvalidSignature
      | HF_AuthorizationCancelled \<Rightarrow> TF_HelperPermissionDenied
      | HF_PermissionDenied \<Rightarrow> TF_HelperPermissionDenied
      | HF_RegistrationRequiresApproval \<Rightarrow> TF_HelperPermissionDenied
      | HF_ProtocolMismatch \<Rightarrow> TF_HelperProtocolMismatch
      | HF_MessageTooLarge \<Rightarrow> TF_HelperProtocolMismatch
      | HF_VersionMismatch \<Rightarrow> TF_HelperVersionMismatch
      | HF_ObservationForeign \<Rightarrow> TF_ObservationForeign
      | HF_ObservationPartial \<Rightarrow> TF_ObservationPartial
      | HF_ObservationStale \<Rightarrow> TF_ObservationStale
      | HF_InstallationFailed \<Rightarrow> TF_HelperOperationFailed
      | HF_InstallerUnavailable \<Rightarrow> TF_HelperOperationFailed
      | HF_OperationFailed \<Rightarrow> TF_HelperOperationFailed
      | HF_PreparationFailed \<Rightarrow> TF_HelperOperationFailed
      | HF_ConnectionFailed \<Rightarrow> TF_HelperConnectionFailed
      | HF_RegistrationFailed \<Rightarrow> TF_HelperConnectionFailed
      | HF_Unpackaged \<Rightarrow> TF_HelperConnectionFailed
      | HF_UnsupportedSystem \<Rightarrow> TF_HelperConnectionFailed)"

definition helper_snapshot_failure :: "helper_snapshot \<Rightarrow> tun_failure_kind" where
  "helper_snapshot_failure snapshot =
     (if hs_health snapshot = HH_VersionMismatch then TF_HelperVersionMismatch
      else if hs_health snapshot = HH_InvalidSignature then TF_HelperInvalidSignature
      else case hs_last_failure snapshot of
             Some failure \<Rightarrow> map_helper_failure failure
           | None \<Rightarrow> TF_CapabilityUnavailable)"

definition capture_error_from_tun_failure :: "tun_failure_kind \<Rightarrow> capture_error" where
  "capture_error_from_tun_failure failure =
     error_new
       (case failure of
          TF_HelperPermissionDenied \<Rightarrow> CF_PermissionDenied
        | TF_ConfirmationFailed \<Rightarrow> CF_ConfirmationFailed
        | TF_CoreUnhealthy \<Rightarrow> CF_CoreUnhealthy
        | TF_RollbackFailed \<Rightarrow> CF_RollbackFailed
        | TF_RuntimeTransition \<Rightarrow> CF_RuntimeTransition
        | TF_ObservationForeign \<Rightarrow> CF_ExternalDrift
        | TF_ObservationPartial \<Rightarrow> CF_ConfirmationFailed
        | TF_ObservationStale \<Rightarrow> CF_ObservationFailed
        | TF_HelperOperationFailed \<Rightarrow> CF_ApplyFailed
        | TF_CapabilityUnavailable \<Rightarrow> CF_CapabilityUnavailable
        | TF_HelperConnectionFailed \<Rightarrow> CF_CapabilityUnavailable
        | TF_HelperIdentityRejected \<Rightarrow> CF_CapabilityUnavailable
        | TF_HelperInvalidSignature \<Rightarrow> CF_CapabilityUnavailable
        | TF_HelperProtocolMismatch \<Rightarrow> CF_CapabilityUnavailable
        | TF_HelperVersionMismatch \<Rightarrow> CF_CapabilityUnavailable)
       ''TUN reconciliation failed''"

section \<open>The reconciler\<close>

record 'w tun_state =
  ts_status :: tun_status
  ts_helper :: "'w helper_state"

definition tun_new :: "'w helper_state \<Rightarrow> 'w tun_state" where
  "tun_new helper = \<lparr>ts_status = tun_off, ts_helper = helper\<rparr>"

text \<open>A call of the controller, a reading of the clock, and the status read and written.\<close>

definition on_helper :: "('w helper_state, 'a) state \<Rightarrow> ('w tun_state, 'a) state" where
  "on_helper f = State (\<lambda>s. case run_state f (ts_helper s) of (r, h) \<Rightarrow> (r, s\<lparr>ts_helper := h\<rparr>))"

definition clock :: "'w helper_platform \<Rightarrow> ('w tun_state, u64) state" where
  "clock p = on_helper (ask (tp_now p))"

definition tun_status_now :: "('w tun_state, tun_status) state" where
  "tun_status_now = do { s \<leftarrow> State_Monad.get; State_Monad.return (ts_status s) }"

definition put_tun :: "tun_status \<Rightarrow> ('w tun_state, unit) state" where
  "put_tun status = State_Monad.update (\<lambda>s. s\<lparr>ts_status := status\<rparr>)"

definition helper_availability_of :: "helper_snapshot \<Rightarrow> capability_availability" where
  "helper_availability_of snapshot =
     (case hs_availability snapshot of
        HA_Available \<Rightarrow> if is_healthy snapshot then CA_Supported else CA_Unavailable
      | HA_PermissionRequired \<Rightarrow> CA_PermissionRequired
      | HA_RecoveryRequired \<Rightarrow> CA_RecoveryRequired
      | HA_RepairRequired \<Rightarrow> CA_RepairRequired
      | _ \<Rightarrow> CA_Unavailable)"

definition tun_availability_now :: "('w tun_state, capability_availability) state" where
  "tun_availability_now =
     do { snapshot \<leftarrow> on_helper snapshot_now; State_Monad.return (helper_availability_of snapshot) }"

definition observed_state_at :: "tun_network_observation \<Rightarrow> u64 \<Rightarrow> tun_observed_state" where
  "observed_state_at observation now =
     (if \<not> is_fresh_at observation now then TO_Stale
      else if confirms_enabled_at observation now then TO_Enabled
      else if confirms_disabled_at observation now then TO_Disabled
      else if CS_Foreign \<in> set [no_core observation, no_interface observation, no_routes observation,
                                no_dns observation]
      then TO_Foreign
      else TO_Partial)"

definition tun_observed_state_now ::
  "'w helper_platform \<Rightarrow> tun_network_observation \<Rightarrow> ('w tun_state, tun_observed_state) state" where
  "tun_observed_state_now p observation =
     do { now \<leftarrow> clock p; State_Monad.return (observed_state_at observation now) }"

definition is_converged :: "tun_status \<Rightarrow> bool \<Rightarrow> bool" where
  "is_converged current desired =
     (if desired then tn_desired current \<and> tn_phase current = TP_Applied \<and> tn_observed current = TO_Enabled
      else \<not> tn_desired current \<and> tn_phase current = TP_Off)"

definition tun_set_pending :: "bool \<Rightarrow> ('w tun_state, unit) state" where
  "tun_set_pending desired =
     do { previous \<leftarrow> tun_status_now;
          put_tun \<lparr>tn_desired = desired, tn_failure = None, tn_observation = tn_observation previous,
                   tn_observed = tn_observed previous, tn_phase = TP_Pending\<rparr> }"

definition tun_record_failure ::
  "bool \<Rightarrow> tun_failure_kind \<Rightarrow> tun_observed_state \<Rightarrow> tun_network_observation option
     \<Rightarrow> ('w tun_state, unit) state" where
  "tun_record_failure desired failure observed observation =
     put_tun \<lparr>tn_desired = desired, tn_failure = Some failure, tn_observation = observation,
              tn_observed = observed, tn_phase = TP_Failed\<rparr>"

definition tun_record_drift :: "tun_failure_kind \<Rightarrow> ('w tun_state, unit) state" where
  "tun_record_drift failure =
     do { status \<leftarrow> tun_status_now;
          put_tun (status\<lparr>tn_failure := Some failure, tn_phase := TP_Drift, tn_observed := TO_Unknown,
                          tn_observation := None\<rparr>) }"

definition tun_record_observed_drift ::
  "'w helper_platform \<Rightarrow> tun_failure_kind \<Rightarrow> tun_network_observation \<Rightarrow> ('w tun_state, unit) state" where
  "tun_record_observed_drift p failure observation =
     do { status \<leftarrow> tun_status_now;
          observed \<leftarrow> tun_observed_state_now p observation;
          put_tun (status\<lparr>tn_failure := Some failure, tn_phase := TP_Drift, tn_observed := observed,
                          tn_observation := Some observation\<rparr>) }"

text \<open>The status of an observation that agrees with what is desired; two methods end with it.\<close>

definition put_observed ::
  "'w helper_platform \<Rightarrow> bool \<Rightarrow> tun_network_observation \<Rightarrow> ('w tun_state, tun_status) state" where
  "put_observed p desired observation =
     do { observed \<leftarrow> tun_observed_state_now p observation;
          let status = \<lparr>tn_desired = desired, tn_failure = None, tn_observation = Some observation,
                        tn_observed = observed,
                        tn_phase = (if observed = TO_Enabled then TP_Applied else TP_Off)\<rparr> in
          do { put_tun status; State_Monad.return status } }"

section \<open>Switching\<close>

definition tun_reconcile ::
  "'w helper_platform \<Rightarrow> bool \<Rightarrow> bool \<Rightarrow> ('w tun_state, tun_status outcome) state" where
  "tun_reconcile p desired core_healthy =
     do { previous \<leftarrow> tun_status_now;
          if is_converged previous desired then State_Monad.return (Inr previous)
          else do {
            availability \<leftarrow> tun_availability_now;
            if desired \<and> availability \<noteq> CA_Supported
            then do {
              snapshot \<leftarrow> on_helper snapshot_now;
              tun_record_failure True (helper_snapshot_failure snapshot) (tn_observed previous)
                (tn_observation previous);
              State_Monad.return (Inl (capture_error_from_tun_failure (helper_snapshot_failure snapshot))) }
            else if desired \<and> \<not> core_healthy
            then do {
              tun_record_failure True TF_CoreUnhealthy (tn_observed previous) (tn_observation previous);
              State_Monad.return
                (Inl (error_new CF_CoreUnhealthy ''TUN capture requires a healthy Mihomo core'')) }
            else do {
              tun_set_pending desired;
              switched \<leftarrow> on_helper (set_tun_enabled p desired);
              case switched of
                Inr observation \<Rightarrow>
                  do { status \<leftarrow> put_observed p desired observation;
                       State_Monad.return (Inr status) }
              | Inl error \<Rightarrow>
                  let failure = map_helper_failure (he_kind error) in
                  do { observation \<leftarrow> on_helper (observe_tun p);
                       observed \<leftarrow> (case observation of
                           Inl _ \<Rightarrow> State_Monad.return TO_Unknown
                         | Inr observed \<Rightarrow> tun_observed_state_now p observed);
                       tun_record_failure desired failure observed
                         (case observation of Inl _ \<Rightarrow> None | Inr observed \<Rightarrow> Some observed);
                       State_Monad.return (Inl (capture_error_from_tun_failure failure)) } } } }"

section \<open>Audit\<close>

definition audit_unhealthy_core ::
  "'w helper_platform \<Rightarrow> ('w tun_state, (tun_status \<times> bool) outcome) state" where
  "audit_unhealthy_core p =
     do { switched \<leftarrow> tun_reconcile p False False;
          case switched of
            Inl error \<Rightarrow> State_Monad.return (Inl error)
          | Inr status \<Rightarrow>
              let failed = status\<lparr>tn_desired := True, tn_failure := Some TF_CoreUnhealthy, tn_phase := TP_Failed\<rparr> in
              do { put_tun failed; State_Monad.return (Inr (failed, True)) } }"

definition tun_audit ::
  "'w helper_platform \<Rightarrow> bool \<Rightarrow> ('w tun_state, (tun_status \<times> bool) outcome) state" where
  "tun_audit p core_healthy =
     do { current \<leftarrow> tun_status_now;
          if tn_desired current \<and> \<not> core_healthy then audit_unhealthy_core p
          else do {
            availability \<leftarrow> tun_availability_now;
            if availability \<noteq> CA_Supported
            then (if tn_desired current \<or> tn_observed current = TO_Enabled
                  then do {
                    snapshot \<leftarrow> on_helper snapshot_now;
                    tun_record_drift (helper_snapshot_failure snapshot);
                    State_Monad.return (Inl (capture_error_from_tun_failure (helper_snapshot_failure snapshot))) }
                  else State_Monad.return (Inr (current, False)))
            else do {
              observation \<leftarrow> on_helper (observe_tun p);
              case observation of
                Inl error \<Rightarrow>
                  let failure = map_helper_failure (he_kind error) in
                  do { tun_record_drift failure;
                       State_Monad.return (Inl (capture_error_from_tun_failure failure)) }
              | Inr observed \<Rightarrow>
                  do { now \<leftarrow> clock p;
                       if (if tn_desired current then confirms_enabled_at observed now
                           else confirms_disabled_at observed now)
                       then do {
                         status \<leftarrow> put_observed p (tn_desired current) observed;
                         State_Monad.return (Inr (status, False)) }
                       else do {
                         later \<leftarrow> clock p;
                         tun_record_observed_drift p (map_helper_failure (failure_kind_at observed later)) observed;
                         State_Monad.return
                           (Inl (error_new CF_ExternalDrift ''TUN state changed outside Mish'')) } } } } }"

section \<open>Laws\<close>

lemma wp_on_helper: "wp f (\<lambda>r h. Q r (s\<lparr>ts_helper := h\<rparr>)) (ts_helper s) \<Longrightarrow> wp (on_helper f) Q s"
  by (simp add: wp_def on_helper_def split: prod.splits)

lemma wp_on_helper_any: "(\<And>r h. Q r (s\<lparr>ts_helper := h\<rparr>)) \<Longrightarrow> wp (on_helper f) Q s"
  by (simp add: wp_def on_helper_def split: prod.splits)

lemma wp_tun_status_now [wp_rules]: "Q (ts_status s) s \<Longrightarrow> wp tun_status_now Q s"
  by (simp add: wp_def tun_status_now_def)

lemma wp_put_tun [wp_rules]: "Q () (s\<lparr>ts_status := status\<rparr>) \<Longrightarrow> wp (put_tun status) Q s"
  by (simp add: wp_def put_tun_def State_Monad.update_def)

lemma wp_tun_availability [wp_rules]:
  "Q (helper_availability_of (hc_snapshot (ts_helper s))) s \<Longrightarrow> wp tun_availability_now Q s"
  unfolding tun_availability_now_def by (intro wp_rules wp_on_helper) simp

text \<open>
  The status is well formed: applied exactly as desired and observed as enabled, with the observation; a
  failure exactly when failed or drifted; pending only inside a call.
\<close>

definition tun_coherent :: "tun_status \<Rightarrow> bool" where
  "tun_coherent status \<longleftrightarrow>
     tn_phase status \<noteq> TP_Pending
     \<and> (tn_failure status \<noteq> None \<longleftrightarrow> tn_phase status = TP_Failed \<or> tn_phase status = TP_Drift)
     \<and> (tn_phase status = TP_Applied \<longrightarrow>
          tn_desired status \<and> tn_observed status = TO_Enabled \<and> tn_observation status \<noteq> None)
     \<and> (tn_observed status = TO_Enabled \<longrightarrow> tn_phase status \<noteq> TP_Off)"

lemma tun_coherent_off [simp]: "tun_coherent tun_off"
  by (simp add: tun_coherent_def tun_off_def)

lemma enabled_not_disabled: "confirms_enabled_at ob now \<Longrightarrow> \<not> confirms_disabled_at ob later"
  by (auto simp: confirms_enabled_at_def confirms_disabled_at_def)

lemma observed_enabled_iff: "observed_state_at ob now = TO_Enabled \<longleftrightarrow> confirms_enabled_at ob now"
  by (auto simp: observed_state_at_def confirms_enabled_at_def)

lemma wp_clock: "(\<And>now h. Q now (s\<lparr>ts_helper := h\<rparr>)) \<Longrightarrow> wp (clock p) Q s"
  unfolding clock_def by (intro wp_on_helper_any)

lemma set_tun_enabled_confirmed:
  assumes "\<And>r h. (\<forall>ob. r = Inr ob \<longrightarrow>
      (\<exists>now. if enabled then confirms_enabled_at ob now else confirms_disabled_at ob now)) \<Longrightarrow> Q r h"
  shows "wp (set_tun_enabled p enabled) Q h"
  unfolding set_tun_enabled_def observe_tun_def clear_failure_def
  by (intro wp_rules wp_ask_any assms) (auto split: if_splits)

lemma wp_switch:
  assumes "\<And>r h. (\<forall>ob. r = Inr ob \<longrightarrow>
      (\<exists>now. if enabled then confirms_enabled_at ob now else confirms_disabled_at ob now))
      \<Longrightarrow> Q r (s\<lparr>ts_helper := h\<rparr>)"
  shows "wp (on_helper (set_tun_enabled p enabled)) Q s"
  by (intro wp_on_helper set_tun_enabled_confirmed assms)

lemma wp_helper_snapshot [wp_rules]:
  "Q (hc_snapshot (ts_helper s)) s \<Longrightarrow> wp (on_helper snapshot_now) Q s"
  by (intro wp_on_helper wp_rules) simp

lemma wp_observe_tun: "(\<And>r h. Q r (s\<lparr>ts_helper := h\<rparr>)) \<Longrightarrow> wp (on_helper (observe_tun p)) Q s"
  by (rule wp_on_helper_any)

lemmas wp_tun_calls = wp_clock wp_switch wp_observe_tun

lemma put_observed_coherent:
  assumes "\<exists>now. if desired then confirms_enabled_at ob now else confirms_disabled_at ob now"
    and "\<And>r s'. tun_coherent r \<Longrightarrow> ts_status s' = r \<Longrightarrow> tn_desired r = desired
      \<Longrightarrow> tn_phase r = TP_Applied \<or> tn_phase r = TP_Off \<Longrightarrow> Q r s'"
  shows "wp (put_observed p desired ob) Q s"
  unfolding put_observed_def tun_observed_state_now_def
  by (intro wp_rules wp_clock assms(2))
    (use assms(1) in \<open>auto simp: tun_coherent_def observed_enabled_iff dest: enabled_not_disabled split: if_splits\<close>)

text \<open>What a switch leaves: a well-formed status, the desired one if it is returned, a failure otherwise.\<close>

lemma tun_reconcile_coherent:
  assumes "tun_coherent (ts_status s)"
    and "\<And>r s'. tun_coherent (ts_status s') \<Longrightarrow> tn_desired (ts_status s') = desired
      \<Longrightarrow> (case r of Inl _ \<Rightarrow> tn_phase (ts_status s') = TP_Failed
           | Inr st \<Rightarrow> ts_status s' = st \<and> (tn_phase st = TP_Applied \<or> tn_phase st = TP_Off)) \<Longrightarrow> Q r s'"
  shows "wp (tun_reconcile p desired healthy) Q s"
  unfolding tun_reconcile_def tun_record_failure_def tun_set_pending_def tun_observed_state_now_def
  by (intro wp_rules wp_tun_calls put_observed_coherent assms(2))
    (use assms(1) in \<open>auto simp: tun_coherent_def is_converged_def split: if_splits\<close>)

text \<open>
  What an audit leaves. A returned status is the one before, of a helper that is not in service, or the
  core is unhealthy and the failure stands, or the helper's observation agreed with what is desired.
\<close>

lemma tun_audit_coherent:
  assumes "tun_coherent (ts_status s)"
    and "\<And>r s'. tun_coherent (ts_status s')
      \<Longrightarrow> (\<forall>st mutated. r = Inr (st, mutated) \<longrightarrow> ts_status s' = st) \<Longrightarrow> Q r s'"
  shows "wp (tun_audit p healthy) Q s"
  unfolding tun_audit_def audit_unhealthy_core_def tun_record_drift_def tun_record_observed_drift_def
    tun_observed_state_now_def
  by (intro wp_rules wp_tun_calls put_observed_coherent tun_reconcile_coherent assms(2))
    (use assms(1) in \<open>auto simp: tun_coherent_def split: if_splits\<close>)

end
