(* ===== verification/Proxy_Trace.thy ===== *)
theory Proxy_Trace
  imports Proxy_Reconciler
begin

text \<open>
  What the reconciler asks of its platform. \<open>recording\<close> wraps any platform and logs every
  call with its answer, newest first; nothing else about the platform is assumed, so it
  may fail at any call and answer anything. The log shows which observation and which journal
  entry a write rests on.
\<close>

section \<open>The log\<close>

datatype platform_event =
    Ev_Loaded "capture_journal option outcome"
  | Ev_Saved capture_journal "unit outcome"
  | Ev_Cleared "unit outcome"
  | Ev_Preflight "network_service_proxy_state outcome"
  | Ev_Active "network_service_proxy_state outcome"
  | Ev_Service string "network_service_proxy_state outcome"
  | Ev_Wrote network_service_proxy_state "unit outcome"
  | Ev_Listener "unit outcome"

definition recorded ::
  "('w, 'a) state \<Rightarrow> ('a \<Rightarrow> platform_event) \<Rightarrow> ('w \<times> platform_event list, 'a) state" where
  "recorded f event =
     State (\<lambda>(w, log). case run_state f w of (r, w') \<Rightarrow> (r, (w', event r # log)))"

definition unrecorded :: "('w, 'a) state \<Rightarrow> ('w \<times> platform_event list, 'a) state" where
  "unrecorded f = State (\<lambda>(w, log). case run_state f w of (r, w') \<Rightarrow> (r, (w', log)))"

definition recording :: "'w proxy_platform \<Rightarrow> ('w \<times> platform_event list) proxy_platform" where
  "recording p =
     \<lparr>pp_availability = pp_availability p \<circ> fst,
      pp_window = pp_window p,
      pp_before_deadline = unrecorded (pp_before_deadline p),
      pp_preflight_observe_active = recorded (pp_preflight_observe_active p) Ev_Preflight,
      pp_observe_active = recorded (pp_observe_active p) Ev_Active,
      pp_observe_service = (\<lambda>sid. recorded (pp_observe_service p sid) (Ev_Service sid)),
      pp_apply_service = (\<lambda>target. recorded (pp_apply_service p target) (Ev_Wrote target)),
      pp_confirm_proxy_listener = (\<lambda>endpoint. recorded (pp_confirm_proxy_listener p endpoint) Ev_Listener),
      pp_load = recorded (pp_load p) Ev_Loaded,
      pp_save = (\<lambda>journal. recorded (pp_save p journal) (Ev_Saved journal)),
      pp_clear = recorded (pp_clear p) Ev_Cleared\<rparr>"

text \<open>The answer to the latest question for the active configuration, and the journaled prior.\<close>

fun last_active :: "platform_event list \<Rightarrow> network_service_proxy_state option" where
  "last_active [] = None"
| "last_active (Ev_Active (Inr state) # log) = Some state"
| "last_active (Ev_Active (Inl _) # log) = None"
| "last_active (_ # log) = last_active log"

fun last_journal :: "platform_event list \<Rightarrow> network_service_proxy_state option" where
  "last_journal [] = None"
| "last_journal (Ev_Loaded (Inr journal) # log) = map_option cj_prior journal"
| "last_journal (Ev_Saved journal (Inr _) # log) = Some (cj_prior journal)"
| "last_journal (Ev_Cleared (Inr _) # log) = None"
| "last_journal (_ # log) = last_journal log"

text \<open>
  A write is justified by what was logged before it: either it is Mish's configuration of the
  service that was last observed active, which could be taken over and has just been saved in the
  journal; or it is the journaled prior configuration itself, and its service has just been
  observed in a state between that prior and what Mish writes.
\<close>

definition takeover_justified ::
  "proxy_endpoint \<Rightarrow> network_service_proxy_state \<Rightarrow> platform_event list \<Rightarrow> bool" where
  "takeover_justified endpoint written log \<longleftrightarrow>
     (case last_active log of
        None \<Rightarrow> False
      | Some prior \<Rightarrow>
          written = with_endpoint prior endpoint \<and> is_reversible prior
          \<and> (case log of [] \<Rightarrow> False | latest # _ \<Rightarrow> latest = Ev_Saved \<lparr>cj_prior = prior\<rparr> (Inr ())))"

definition restore_justified ::
  "proxy_endpoint \<Rightarrow> network_service_proxy_state \<Rightarrow> platform_event list \<Rightarrow> bool" where
  "restore_justified endpoint written log \<longleftrightarrow>
     last_journal log = Some written \<and> is_reversible written
     \<and> (case log of
          Ev_Service sid (Inr observed) # _ \<Rightarrow>
            sid = np_service_id written
            \<and> is_transaction_owned_between observed written (with_endpoint written endpoint)
        | _ \<Rightarrow> False)"

fun writes_justified :: "proxy_endpoint \<Rightarrow> platform_event list \<Rightarrow> bool" where
  "writes_justified endpoint [] = True"
| "writes_justified endpoint (Ev_Wrote written r # log) =
     ((takeover_justified endpoint written log \<or> restore_justified endpoint written log)
      \<and> writes_justified endpoint log)"
| "writes_justified endpoint (_ # log) = writes_justified endpoint log"

text \<open>The active configuration was last seen as the one Mish writes over the journaled prior.\<close>

definition confirmed_active :: "proxy_endpoint \<Rightarrow> platform_event list \<Rightarrow> bool" where
  "confirmed_active endpoint log \<longleftrightarrow>
     (case (last_active log, last_journal log) of
        (Some observed, Some prior) \<Rightarrow> semantically_matches observed (with_endpoint prior endpoint)
      | _ \<Rightarrow> False)"

abbreviation log_of :: "('w \<times> platform_event list) sp_state \<Rightarrow> platform_event list" where
  "log_of s \<equiv> snd (rs_world s)"

section \<open>Rules for the calls\<close>

lemma wp_call: "wp f (\<lambda>r w. Q r (s\<lparr>rs_world := w\<rparr>)) (rs_world s) \<Longrightarrow> wp (call f) Q s"
  by (simp add: wp_def call_def split: prod.splits)

lemma wp_recorded: "(\<And>r w'. Q r (w', event r # snd w)) \<Longrightarrow> wp (recorded f event) Q w"
  by (cases w) (simp add: wp_def recorded_def split: prod.splits)

lemma wp_unrecorded: "(\<And>r w'. Q r (w', snd w)) \<Longrightarrow> wp (unrecorded f) Q w"
  by (cases w) (simp add: wp_def unrecorded_def split: prod.splits)

lemma wp_status_now [wp_rules]: "Q (rs_status s) s \<Longrightarrow> wp status_now Q s"
  by (simp add: wp_def status_now_def)

lemma wp_put_status [wp_rules]: "Q () (s\<lparr>rs_status := status\<rparr>) \<Longrightarrow> wp (put_status status) Q s"
  by (simp add: wp_def put_status_def State_Monad.update_def)

lemma wp_availability [wp_rules]:
  "Q (pp_availability (sf_platform self) (rs_world s)) s \<Longrightarrow> wp (sp_availability self) Q s"
  by (simp add: wp_def sp_availability_def)

lemma wp_runtime_transition_now [wp_rules]: "Q (rs_runtime_transition s) s \<Longrightarrow> wp runtime_transition_now Q s"
  by (simp add: wp_def runtime_transition_now_def)

lemma wp_takeover_error [wp_rules]:
  "(\<And>rejection. takeover_rejection_of state (rs_takeover_policy s) = Some rejection
      \<Longrightarrow> Q (Some (takeover_rejected rejection)) s)
   \<Longrightarrow> (takeover_rejection_of state (rs_takeover_policy s) = None \<Longrightarrow> Q None s)
   \<Longrightarrow> wp (takeover_error state) Q s"
  by (cases "takeover_rejection_of state (rs_takeover_policy s)") (simp_all add: wp_def takeover_error_def)

text \<open>What only touches the status leaves the world alone.\<close>

definition only_status :: "('w sp_state, 'a) state \<Rightarrow> bool" where
  "only_status f \<longleftrightarrow> (\<forall>s. \<exists>status. snd (run_state f s) = s\<lparr>rs_status := status\<rparr>)"

lemma only_statusE:
  assumes "only_status f"
  obtains status where "run_state f s = (fst (run_state f s), s\<lparr>rs_status := status\<rparr>)"
  using assms unfolding only_status_def by (metis prod.collapse)

lemma wp_only_status:
  assumes "only_status f" "\<And>r status. Q r (s\<lparr>rs_status := status\<rparr>)"
  shows "wp f Q s"
proof -
  obtain status where "run_state f s = (fst (run_state f s), s\<lparr>rs_status := status\<rparr>)"
    using assms(1) by (rule only_statusE)
  then show ?thesis
    using assms(2) by (metis wp_def case_prod_conv)
qed

lemma only_status_ops:
  "only_status (record_failure self selection desired failure observed)"
  "only_status (set_pending selection desired)"
  "only_status (mark_drift self status state reason)"
  "only_status (record_unknown_drift status kind)"
  "only_status (record_drift_failure status kind)"
  "only_status restrict_recovery_to_relinquish"
  by (auto simp: only_status_def record_failure_def set_pending_def mark_drift_def record_unknown_drift_def
      record_drift_failure_def restrict_recovery_to_relinquish_def put_status_def status_now_def
      State_Monad.update_def Let_def)

lemma map_sum_Inr_iff [simp]: "map_sum id f r = Inr y \<longleftrightarrow> (\<exists>x. r = Inr x \<and> f x = y)"
  by (cases r) auto

section \<open>The reconciler on a recorded platform\<close>

locale recorded_reconciler =
  fixes self :: "('w \<times> platform_event list) sp_self" and p :: "'w proxy_platform"
  assumes platform: "sf_platform self = recording p"
begin

lemma wp_observe_active:
  "(\<And>r w. Q r (s\<lparr>rs_world := (w, Ev_Active r # log_of s)\<rparr>))
     \<Longrightarrow> wp (call (pp_observe_active (sf_platform self))) Q s"
  by (intro wp_call) (simp add: platform recording_def wp_recorded)

lemma wp_preflight_observe_active:
  "(\<And>r w. Q r (s\<lparr>rs_world := (w, Ev_Preflight r # log_of s)\<rparr>))
     \<Longrightarrow> wp (call (pp_preflight_observe_active (sf_platform self))) Q s"
  by (intro wp_call) (simp add: platform recording_def wp_recorded)

lemma wp_observe_service:
  "(\<And>r w. Q r (s\<lparr>rs_world := (w, Ev_Service sid r # log_of s)\<rparr>))
     \<Longrightarrow> wp (call (pp_observe_service (sf_platform self) sid)) Q s"
  by (intro wp_call) (simp add: platform recording_def wp_recorded)

lemma wp_apply_service:
  "(\<And>r w. Q r (s\<lparr>rs_world := (w, Ev_Wrote target r # log_of s)\<rparr>))
     \<Longrightarrow> wp (call (pp_apply_service (sf_platform self) target)) Q s"
  by (intro wp_call) (simp add: platform recording_def wp_recorded)

lemma wp_confirm_proxy_listener:
  "(\<And>r w. Q r (s\<lparr>rs_world := (w, Ev_Listener r # log_of s)\<rparr>))
     \<Longrightarrow> wp (call (pp_confirm_proxy_listener (sf_platform self) endpoint)) Q s"
  by (intro wp_call) (simp add: platform recording_def wp_recorded)

lemma wp_load:
  "(\<And>r w. Q r (s\<lparr>rs_world := (w, Ev_Loaded r # log_of s)\<rparr>))
     \<Longrightarrow> wp (call (pp_load (sf_platform self))) Q s"
  by (intro wp_call) (simp add: platform recording_def wp_recorded)

lemma wp_save:
  "(\<And>r w. Q r (s\<lparr>rs_world := (w, Ev_Saved journal r # log_of s)\<rparr>))
     \<Longrightarrow> wp (call (pp_save (sf_platform self) journal)) Q s"
  by (intro wp_call) (simp add: platform recording_def wp_recorded)

lemma wp_clear:
  "(\<And>r w. Q r (s\<lparr>rs_world := (w, Ev_Cleared r # log_of s)\<rparr>))
     \<Longrightarrow> wp (call (pp_clear (sf_platform self))) Q s"
  by (intro wp_call) (simp add: platform recording_def wp_recorded)

lemma wp_before_deadline:
  "(\<And>r w. Q r (s\<lparr>rs_world := (w, log_of s)\<rparr>)) \<Longrightarrow> wp (before_deadline self) Q s"
  unfolding before_deadline_def
  by (intro wp_rules wp_call) (simp_all add: platform recording_def wp_unrecorded, metis prod.collapse sp_state.surjective sp_state.update_convs(4))

lemmas wp_calls = wp_observe_active wp_preflight_observe_active wp_observe_service wp_apply_service
  wp_confirm_proxy_listener wp_load wp_save wp_clear wp_before_deadline

lemmas wp_status_ops = only_status_ops [THEN wp_only_status]

abbreviation justified :: "('w \<times> platform_event list) sp_state \<Rightarrow> bool" where
  "justified s \<equiv> writes_justified (sf_endpoint self) (log_of s)"

lemma load_validated_journal_log:
  assumes "justified s"
    and "\<And>r s'. justified s' \<Longrightarrow> last_active (log_of s') = last_active (log_of s)
      \<Longrightarrow> (\<And>j. r = Inr j \<Longrightarrow> last_journal (log_of s') = map_option cj_prior j
             \<and> (\<forall>k. j = Some k \<longrightarrow> is_reversible (cj_prior k))) \<Longrightarrow> Q r s'"
  shows "wp (load_validated_journal self) Q s"
  unfolding load_validated_journal_def
  by (intro wp_rules wp_calls assms(2))
    (use assms(1) in \<open>auto simp: is_valid_recovery_state_def split: option.splits\<close>)

lemma confirm_service_log:
  assumes "justified s"
    and "\<And>r s'. justified s' \<Longrightarrow> last_active (log_of s') = last_active (log_of s)
      \<Longrightarrow> last_journal (log_of s') = last_journal (log_of s) \<Longrightarrow> Q r s'"
  shows "wp (confirm_attempts self prior target expected (Some sid) n) Q s"
  using assms
proof (induction n arbitrary: s)
  case 0
  show ?case
    unfolding confirm_attempts.simps by (intro wp_rules 0(2)) (use 0(1) in simp_all)
next
  case (Suc n)
  show ?case
    unfolding confirm_attempts.simps confirm_observation_def option.case
    by (intro wp_rules wp_calls Suc.IH Suc.prems(2)) (use Suc.prems(1) in simp_all)
qed

lemma confirm_active_log:
  assumes "justified s"
    and "\<And>r s'. justified s' \<Longrightarrow> last_journal (log_of s') = last_journal (log_of s)
      \<Longrightarrow> (\<And>observed. r = Inr observed \<Longrightarrow> last_active (log_of s') = Some observed
             \<and> semantically_matches observed expected) \<Longrightarrow> Q r s'"
  shows "wp (confirm_attempts self prior target expected None n) Q s"
  using assms
proof (induction n arbitrary: s)
  case 0
  show ?case
    unfolding confirm_attempts.simps by (intro wp_rules 0(2)) (use 0(1) in simp_all)
next
  case (Suc n)
  show ?case
    unfolding confirm_attempts.simps confirm_observation_def option.case
    by (intro wp_rules wp_calls Suc.IH Suc.prems(2)) (use Suc.prems(1) in simp_all)
qed

lemma restore_exact_prior_log:
  assumes "justified s" "last_journal (log_of s) = Some prior" "is_reversible prior"
    and "\<And>r s'. justified s' \<Longrightarrow> last_active (log_of s') = last_active (log_of s)
      \<Longrightarrow> last_journal (log_of s') = Some prior \<Longrightarrow> Q r s'"
  shows "wp (restore_exact_prior self prior) Q s"
  unfolding restore_exact_prior_def confirm_service_target_def confirm_target_def
  by (intro wp_rules wp_calls confirm_service_log assms(4))
    (use assms(1-3) in \<open>simp_all add: restore_justified_def\<close>)

lemma restore_log:
  assumes "justified s"
    and "\<And>r s'. justified s' \<Longrightarrow> (\<And>status. r = Inr status \<Longrightarrow> ps_phase (cu_system_proxy status) = SP_Off)
      \<Longrightarrow> Q r s'"
  shows "wp (restore self selection) Q s"
  unfolding restore_def restore_owned_def
  by (intro wp_rules wp_calls wp_status_ops load_validated_journal_log restore_exact_prior_log assms(2))
    (use assms(1) in auto)

lemma rollback_after_failure_log:
  assumes "justified s" "last_journal (log_of s) = Some prior" "is_reversible prior"
    and "\<And>r s'. justified s' \<Longrightarrow> isl r \<Longrightarrow> Q r s'"
  shows "wp (rollback_after_failure self selection prior original) Q s"
  unfolding rollback_after_failure_def record_rollback_drift_def
  by (intro wp_rules wp_calls wp_status_ops restore_exact_prior_log assms(4)) (use assms(1-3) in simp_all)

lemma apply_journaled_log:
  assumes "justified s" "last_active (log_of s) = Some prior" "is_reversible prior"
    "log_of s = Ev_Saved \<lparr>cj_prior = prior\<rparr> (Inr ()) # earlier"
    and "\<And>r s'. justified s'
      \<Longrightarrow> (\<And>status. r = Inr status \<Longrightarrow> confirmed_active (sf_endpoint self) (log_of s')) \<Longrightarrow> Q r s'"
  shows "wp (apply_journaled self selection prior) Q s"
  unfolding apply_journaled_def confirm_active_target_def confirm_target_def
  by (intro wp_rules wp_calls confirm_active_log rollback_after_failure_log assms(5))
    (use assms(1-4) in \<open>simp_all add: takeover_justified_def confirmed_active_def\<close>)

lemma take_over_log:
  assumes "justified s" "last_active (log_of s) = Some prior"
    and "\<And>r s'. justified s'
      \<Longrightarrow> (\<And>status. r = Inr status \<Longrightarrow> confirmed_active (sf_endpoint self) (log_of s')) \<Longrightarrow> Q r s'"
  shows "wp (take_over self selection prior) Q s"
  unfolding take_over_def
  by (intro wp_rules wp_calls wp_status_ops apply_journaled_log assms(3))
    (use assms(1-2) in \<open>simp_all add: takeover_reversible\<close>)

abbreviation applied_confirmed :: "capture_status outcome \<Rightarrow> ('w \<times> platform_event list) sp_state \<Rightarrow> bool" where
  "applied_confirmed r s \<equiv>
     (\<forall>status. r = Inr status \<longrightarrow> ps_phase (cu_system_proxy status) = SP_Applied
        \<longrightarrow> confirmed_active (sf_endpoint self) (log_of s))"

lemma reconcile_observed_log:
  assumes "justified s" "last_active (log_of s) = Some prior"
    "last_journal (log_of s) = map_option cj_prior journal"
    and "\<And>r s'. justified s' \<Longrightarrow> applied_confirmed r s' \<Longrightarrow> Q r s'"
  shows "wp (reconcile_observed self selection pre journal prior) Q s"
  unfolding reconcile_observed_def
  by (intro wp_rules wp_calls wp_status_ops restore_log take_over_log assms(4))
    (use assms(1-3) in \<open>auto simp: confirmed_active_def\<close>)

lemma restore_then_fail_log:
  assumes "justified s" and "\<And>r s'. justified s' \<Longrightarrow> isl r \<Longrightarrow> Q r s'"
  shows "wp (restore_then_fail self selection journal error) Q s"
  unfolding restore_then_fail_def
  by (intro wp_rules wp_calls wp_status_ops restore_log assms(2)) (use assms(1) in simp_all)

lemma reconcile_locked_log:
  assumes "justified s" and "\<And>r s'. justified s' \<Longrightarrow> applied_confirmed r s' \<Longrightarrow> Q r s'"
  shows "wp (reconcile_locked_with_preflight self request healthy pre) Q s"
  unfolding reconcile_locked_with_preflight_def
  by (intro wp_rules wp_calls wp_status_ops load_validated_journal_log restore_log restore_then_fail_log
        reconcile_observed_log assms(2))
    (use assms(1) in auto)

lemma audit_service_changed_log:
  assumes "justified s" "last_active (log_of s) = Some observed"
    "last_journal (log_of s) = Some (cj_prior journal)" "is_reversible (cj_prior journal)"
    and "\<And>r s'. justified s' \<Longrightarrow> applied_confirmed (map_sum id fst r) s' \<Longrightarrow> Q r s'"
  shows "wp (audit_service_changed self current journal observed) Q s"
  unfolding audit_service_changed_def mark_drift_def
  by (intro wp_rules wp_calls wp_status_ops restore_exact_prior_log apply_journaled_log assms(5))
    (use assms(1-4) in \<open>auto simp: takeover_reversible drifted_def\<close>)

lemma audit_observed_log:
  assumes "justified s" "last_active (log_of s) = Some observed"
    "last_journal (log_of s) = map_option cj_prior journal" "\<And>j. journal = Some j \<Longrightarrow> is_reversible (cj_prior j)"
    and "\<And>r s'. justified s' \<Longrightarrow> applied_confirmed (map_sum id fst r) s' \<Longrightarrow> Q r s'"
  shows "wp (audit_observed self current journal observed) Q s"
  unfolding audit_observed_def mark_drift_def
  by (intro wp_rules wp_calls wp_status_ops audit_service_changed_log assms(5))
    (use assms(1-4) in \<open>auto simp: confirmed_active_def drifted_def split: option.splits\<close>)

lemma audit_locked_log:
  assumes "justified s"
    and "\<And>r s'. justified s'
      \<Longrightarrow> (pp_availability p (fst (rs_world s')) = CA_Supported \<Longrightarrow> applied_confirmed (map_sum id fst r) s') \<Longrightarrow> Q r s'"
  shows "wp (audit_locked self healthy) Q s"
  unfolding audit_locked_def
  by (intro wp_rules wp_calls wp_status_ops load_validated_journal_log restore_log
        audit_observed_log assms(2))
    (use assms(1) in \<open>auto simp: platform recording_def\<close>)

lemma preflight_log:
  assumes "justified s" and "\<And>r s'. justified s' \<Longrightarrow> Q r s'"
  shows "wp (sp_preflight self) Q s"
  unfolding sp_preflight_def
  by (intro wp_rules wp_calls load_validated_journal_log assms(2)) (use assms(1) in simp_all)

lemma recover_log:
  assumes "justified s" and "\<And>r s'. justified s' \<Longrightarrow> applied_confirmed r s' \<Longrightarrow> Q r s'"
  shows "wp (recover_locked self action healthy) Q s"
  unfolding recover_locked_def recover_repair_def recover_leave_def
  by (intro wp_rules wp_calls wp_status_ops apply_journaled_log assms(2))
    (use assms(1) in \<open>auto simp: takeover_reversible\<close>)

end

end
