(* ===== verification/Proxy_Status.thy ===== *)
theory Proxy_Status
  imports Proxy_Trace
begin

text \<open>
  The status the reconciler shows between two calls, on any platform: the phase, the enabled
  flag, the failure, the observation and the offered recovery actions agree with each other, no
  call leaves the phase pending, and what a call returns is the status it leaves.
\<close>

definition status_shell :: "capture_status \<Rightarrow> bool" where
  "status_shell st \<longleftrightarrow>
     cu_capture_operation st = operation_detached \<and> cu_tun st = tun_off \<and> \<not> cu_tun_enabled st"

definition status_coherent :: "capture_status \<Rightarrow> bool" where
  "status_coherent st \<longleftrightarrow>
     (let p = cu_system_proxy st in
        status_shell st
        \<and> ps_phase p \<noteq> SP_Pending
        \<and> (cu_system_proxy_enabled st \<longleftrightarrow> ps_phase p = SP_Applied)
        \<and> (ps_phase p = SP_Applied \<longrightarrow> ps_desired p \<and> ps_observed p = SO_Mish \<and> ps_failure p = None)
        \<and> (ps_phase p = SP_Off \<longrightarrow> \<not> ps_desired p \<and> ps_failure p = None)
        \<and> (ps_phase p = SP_Failed \<longrightarrow> ps_failure p \<noteq> None)
        \<and> (if ps_phase p = SP_Drift then LeaveAsIs \<in> set (ps_recovery_actions p)
           else ps_recovery_actions p = []))"

lemma status_coherent_shell: "status_coherent st \<Longrightarrow> status_shell st"
  by (simp add: status_coherent_def Let_def)

lemma coherent_off [simp]: "status_coherent capture_off"
  by (simp add: status_coherent_def status_shell_def capture_off_def)

lemma shell_proxy_status [simp]: "status_shell (proxy_status sel d f ob ph acts en)"
  by (simp add: status_shell_def proxy_status_def)

lemma coherent_proxy_status [simp]:
  "status_coherent (proxy_status sel True None SO_Mish SP_Applied [] True)"
  "status_coherent (proxy_status sel False None ob SP_Off [] False)"
  "status_coherent (proxy_status sel d (Some f) ob SP_Failed [] False)"
  "status_coherent (proxy_status sel d g ob SP_Drift [RepairAction, LeaveAsIs] False)"
  "status_coherent (applied_status sel)"
  by (simp_all add: status_coherent_def applied_status_def)

lemma coherent_drifted [simp]: "status_shell st \<Longrightarrow> status_coherent (drifted st f ob)"
  by (simp add: status_coherent_def status_shell_def drifted_def)

lemma shell_update [simp]:
  "status_shell (st\<lparr>cu_capture_selection := sel\<rparr>) = status_shell st"
  "status_shell (st\<lparr>cu_system_proxy := sp\<rparr>) = status_shell st"
  "status_shell (st\<lparr>cu_system_proxy_enabled := en\<rparr>) = status_shell st"
  by (simp_all add: status_shell_def)

lemma shell_drifted [simp]: "status_shell (drifted st f ob) = status_shell st"
  by (simp add: drifted_def)

section \<open>Rules\<close>

lemma wp_call_any: "(\<And>r w. Q r (s\<lparr>rs_world := w\<rparr>)) \<Longrightarrow> wp (call f) Q s"
  by (intro wp_call) (simp add: wp_iff)

lemma wp_record_failure:
  "(\<And>ob. Q () (s\<lparr>rs_status := proxy_status sel d (Some f) ob SP_Failed [] False\<rparr>))
     \<Longrightarrow> wp (record_failure self sel d f observed) Q s"
  unfolding record_failure_def by (intro wp_rules)

lemma wp_set_pending:
  "(\<And>ob en. Q () (s\<lparr>rs_status := proxy_status sel d None ob SP_Pending [] en\<rparr>))
     \<Longrightarrow> wp (set_pending sel d) Q s"
  unfolding set_pending_def by (intro wp_rules)

lemma wp_mark_drift:
  "(\<And>ob. Q (drifted st f ob) (s\<lparr>rs_status := drifted st f ob\<rparr>)) \<Longrightarrow> wp (mark_drift self st observed f) Q s"
  unfolding mark_drift_def by (intro wp_rules)

lemma wp_record_unknown_drift:
  "Q () (s\<lparr>rs_status := drifted st (Some f) SO_Unknown\<rparr>) \<Longrightarrow> wp (record_unknown_drift st f) Q s"
  unfolding record_unknown_drift_def by (intro wp_rules)

lemma wp_record_drift_failure:
  "(\<And>ob. Q () (s\<lparr>rs_status := drifted st (Some f) ob\<rparr>)) \<Longrightarrow> wp (record_drift_failure st f) Q s"
  unfolding record_drift_failure_def by (intro wp_rules)

lemma wp_restrict:
  "Q () (s\<lparr>rs_status := (rs_status s)\<lparr>cu_system_proxy :=
       (cu_system_proxy (rs_status s))\<lparr>ps_recovery_actions := [LeaveAsIs]\<rparr>\<rparr>\<rparr>)
     \<Longrightarrow> wp restrict_recovery_to_relinquish Q s"
  unfolding restrict_recovery_to_relinquish_def by (intro wp_rules)

lemma coherent_restricted_drift:
  "status_shell st \<Longrightarrow>
     status_coherent ((drifted st f ob)\<lparr>cu_system_proxy :=
       (cu_system_proxy (drifted st f ob))\<lparr>ps_recovery_actions := [LeaveAsIs]\<rparr>\<rparr>)"
  by (simp add: status_coherent_def status_shell_def drifted_def)

lemma coherent_audited:
  assumes "status_coherent st"
  shows "ps_phase (cu_system_proxy st) = SP_Failed \<Longrightarrow>
      status_coherent (st\<lparr>cu_system_proxy :=
        (cu_system_proxy st)\<lparr>ps_observed := ob, ps_recovery_actions := []\<rparr>, cu_system_proxy_enabled := False\<rparr>)"
    and "ps_desired (cu_system_proxy st) \<Longrightarrow>
      status_coherent (st\<lparr>cu_system_proxy :=
        (cu_system_proxy st)\<lparr>ps_failure := None, ps_observed := SO_Mish, ps_phase := SP_Applied,
                              ps_recovery_actions := []\<rparr>, cu_system_proxy_enabled := True\<rparr>)"
    and "\<not> ps_desired (cu_system_proxy st) \<Longrightarrow>
      status_coherent (st\<lparr>cu_system_proxy :=
        (cu_system_proxy st)\<lparr>ps_failure := None, ps_observed := ob, ps_phase := SP_Off,
                              ps_recovery_actions := []\<rparr>, cu_system_proxy_enabled := False\<rparr>)"
  using assms by (simp_all add: status_coherent_def Let_def)

lemmas wp_status_rules = wp_record_failure wp_set_pending wp_mark_drift wp_record_unknown_drift
  wp_record_drift_failure wp_restrict

section \<open>Every operation\<close>

abbreviation shell_in :: "'w sp_state \<Rightarrow> bool" where
  "shell_in s \<equiv> status_shell (rs_status s)"

abbreviation settled_status :: "capture_status outcome \<Rightarrow> 'w sp_state \<Rightarrow> bool" where
  "settled_status r s \<equiv> status_coherent (rs_status s) \<and> (\<forall>st. r = Inr st \<longrightarrow> st = rs_status s)"

lemma load_validated_journal_status:
  assumes "\<And>r w. Q r (s\<lparr>rs_world := w\<rparr>)"
  shows "wp (load_validated_journal self) Q s"
  unfolding load_validated_journal_def by (intro wp_rules wp_call_any assms)

lemma before_deadline_status:
  assumes "\<And>r w. Q r (s\<lparr>rs_world := w\<rparr>)"
  shows "wp (before_deadline self) Q s"
proof -
  have "Q True s"
    using assms [of True "rs_world s"] by simp
  then show ?thesis
    unfolding before_deadline_def by (intro wp_rules wp_call_any assms)
qed

lemma confirm_attempts_status:
  assumes "\<And>r w. Q r (s\<lparr>rs_world := w\<rparr>)"
  shows "wp (confirm_attempts self prior target expected sid n) Q s"
  using assms
proof (induction n arbitrary: s)
  case 0
  have "Q (Inl unconfirmed_error) s"
    using 0 [of "Inl unconfirmed_error" "rs_world s"] by simp
  then show ?case
    unfolding confirm_attempts.simps by (intro wp_rules)
next
  case (Suc n)
  show ?case
    unfolding confirm_attempts.simps confirm_observation_def
    by (intro wp_rules wp_call_any before_deadline_status Suc.IH) (use Suc.prems in simp_all)
qed

lemma restore_exact_prior_status:
  assumes "\<And>r w. Q r (s\<lparr>rs_world := w\<rparr>)"
  shows "wp (restore_exact_prior self prior) Q s"
  unfolding restore_exact_prior_def confirm_service_target_def confirm_target_def
  by (intro wp_rules wp_call_any confirm_attempts_status) (use assms in simp_all)

lemmas wp_world_rules = wp_call_any load_validated_journal_status confirm_attempts_status
  restore_exact_prior_status

lemma restore_status:
  assumes "shell_in s" "\<And>r s'. settled_status r s' \<Longrightarrow> Q r s'"
  shows "wp (restore self sel) Q s"
  unfolding restore_def restore_owned_def
  by (intro wp_rules wp_world_rules wp_status_rules assms(2)) (use assms(1) in simp_all)

lemma apply_journaled_status:
  assumes "shell_in s" "\<And>r s'. settled_status r s' \<Longrightarrow> Q r s'"
  shows "wp (apply_journaled self sel prior) Q s"
  unfolding apply_journaled_def confirm_active_target_def confirm_target_def rollback_after_failure_def
    record_rollback_drift_def
  by (intro wp_rules wp_world_rules wp_status_rules assms(2)) (use assms(1) in simp_all)

lemma take_over_status:
  assumes "shell_in s" "\<And>r s'. settled_status r s' \<Longrightarrow> Q r s'"
  shows "wp (take_over self sel prior) Q s"
  unfolding take_over_def
  by (intro wp_rules wp_world_rules wp_status_rules apply_journaled_status assms(2)) (use assms(1) in simp_all)

lemma reconcile_observed_status:
  assumes "shell_in s" "\<And>r s'. settled_status r s' \<Longrightarrow> Q r s'"
  shows "wp (reconcile_observed self sel pre journal prior) Q s"
  unfolding reconcile_observed_def
  by (intro wp_rules wp_world_rules wp_status_rules restore_status take_over_status assms(2))
    (use assms(1) in \<open>simp_all add: status_coherent_shell\<close>)

lemma restore_then_fail_status:
  assumes "shell_in s" "\<And>r s'. settled_status r s' \<Longrightarrow> Q r s'"
  shows "wp (restore_then_fail self sel journal error) Q s"
  unfolding restore_then_fail_def
  by (intro wp_rules wp_world_rules wp_status_rules restore_status assms(2)) (use assms(1) in simp_all)

lemma reconcile_locked_status:
  assumes "status_coherent (rs_status s)" "\<And>r s'. settled_status r s' \<Longrightarrow> Q r s'"
  shows "wp (reconcile_locked_with_preflight self request healthy pre) Q s"
  unfolding reconcile_locked_with_preflight_def
  by (intro wp_rules wp_world_rules wp_status_rules restore_status restore_then_fail_status
        reconcile_observed_status assms(2))
    (use assms(1) in simp_all)

lemma audit_service_changed_status:
  assumes "shell_in s" "status_shell current"
    "\<And>r s'. settled_status (map_sum id fst r) s' \<Longrightarrow> Q r s'"
  shows "wp (audit_service_changed self current journal observed) Q s"
  unfolding audit_service_changed_def
  by (intro wp_rules wp_world_rules wp_status_rules apply_journaled_status assms(3))
    (use assms(1,2) in auto)

lemma audit_observed_status:
  assumes "status_coherent current" "shell_in s"
    "\<And>r s'. settled_status (map_sum id fst r) s' \<Longrightarrow> Q r s'"
  shows "wp (audit_observed self current journal observed) Q s"
  unfolding audit_observed_def
  by (intro wp_rules wp_world_rules wp_status_rules audit_service_changed_status assms(3))
    (use assms(1,2) in \<open>auto simp: status_coherent_shell coherent_audited\<close>)

lemma audit_locked_status:
  assumes "status_coherent (rs_status s)"
    "\<And>r s'. settled_status (map_sum id fst r) s' \<Longrightarrow> Q r s'"
  shows "wp (audit_locked self healthy) Q s"
  unfolding audit_locked_def
  by (intro wp_rules wp_world_rules wp_status_rules restore_status audit_observed_status assms(2))
    (use assms(1) in \<open>auto simp: status_coherent_shell coherent_restricted_drift\<close>)

lemma recover_locked_status:
  assumes "status_coherent (rs_status s)" "\<And>r s'. settled_status r s' \<Longrightarrow> Q r s'"
  shows "wp (recover_locked self action healthy) Q s"
  unfolding recover_locked_def recover_repair_def recover_leave_def
  by (intro wp_rules wp_world_rules wp_status_rules apply_journaled_status assms(2))
    (use assms(1) in \<open>auto simp: status_coherent_shell coherent_restricted_drift\<close>)

section \<open>One call of a sequence\<close>

text \<open>An invariant of the locked operations that the policy and the transition flag do not touch.\<close>

lemma sp_perform_invariant:
  assumes "I s"
    and "\<And>policy. I (s\<lparr>rs_takeover_policy := policy\<rparr>)" "\<And>flag. I (s\<lparr>rs_runtime_transition := flag\<rparr>)"
    and "wp (sp_preflight self) (\<lambda>r. I) s"
    and "\<And>request healthy pre. wp (reconcile_locked_with_preflight self request healthy pre) (\<lambda>r. I) s"
    and "\<And>healthy. wp (audit_locked self healthy) (\<lambda>r. I) s"
    and "\<And>action healthy. c = SC_Recover action healthy \<Longrightarrow> wp (recover_locked self action healthy) (\<lambda>r. I) s"
  shows "I (sp_perform self c s)"
proof -
  have "wp (reconcile_with_preflight self request healthy pre) (\<lambda>r. I) s"
    "wp (reconcile_runtime_transition self True request healthy) (\<lambda>r. I) s" for request healthy pre
    unfolding reconcile_with_preflight_def reconcile_runtime_transition_def
    by (intro wp_rules assms)+
  moreover have "wp (audit_with_mutation self healthy) (\<lambda>r. I) s" for healthy
    unfolding audit_with_mutation_def by (intro wp_rules assms)
  moreover have "c = SC_Recover action healthy \<Longrightarrow> wp (recover self action healthy) (\<lambda>r. I) s" for action healthy
    unfolding recover_def by (intro wp_rules assms)
  ultimately show ?thesis
    using assms(1-4)
    by (cases c) (simp_all add: wp_iff set_takeover_policy_def begin_runtime_transition_def
        drop_runtime_transition_def runtime_transition_now_def State_Monad.update_def)
qed

lemma preflight_status:
  assumes "\<And>r w. Q r (s\<lparr>rs_world := w\<rparr>)"
  shows "wp (sp_preflight self) Q s"
proof -
  have "Q r s" for r
    using assms [of r "rs_world s"] by simp
  then show ?thesis
    unfolding sp_preflight_def by (intro wp_rules wp_world_rules assms) (use assms in simp_all)
qed

lemma perform_status:
  assumes "status_coherent (rs_status s)"
  shows "status_coherent (rs_status (sp_perform self c s))"
  by (rule sp_perform_invariant [where I = "\<lambda>s. status_coherent (rs_status s)"])
    (use assms in \<open>auto intro: preflight_status reconcile_locked_status audit_locked_status recover_locked_status\<close>)

end
