(* ===== verification/Capture_Effects.thy ===== *)
theory Capture_Effects
  imports Tun_Reconciler Proxy_Status Capture_Machine
begin

text \<open>
  \<^verbatim>\<open>CaptureEffectAdapter\<close> of \<^verbatim>\<open>crates/runtime/src/capture.rs\<close>: what the Capture machine's effects do. It
  composes the System Proxy reconciler and, where the platform has one, the TUN reconciler; its state is theirs.
\<close>

section \<open>The adapter\<close>

record ('v, 'w) capture_adapter =
  ad_identity :: u64
  ad_system_proxy :: "'v sp_self"
  ad_tun :: "'w helper_platform option"

record ('v, 'w) adapter_state =
  as_proxy :: "'v sp_state"
  as_tun :: "'w tun_state"

definition on_proxy :: "('v sp_state, 'a) state \<Rightarrow> (('v, 'w) adapter_state, 'a) state" where
  "on_proxy f = State (\<lambda>s. case run_state f (as_proxy s) of (r, x) \<Rightarrow> (r, s\<lparr>as_proxy := x\<rparr>))"

definition on_tun :: "('w tun_state, 'a) state \<Rightarrow> (('v, 'w) adapter_state, 'a) state" where
  "on_tun f = State (\<lambda>s. case run_state f (as_tun s) of (r, x) \<Rightarrow> (r, s\<lparr>as_tun := x\<rparr>))"

text \<open>A use of the optional TUN reconciler, with the value that stands for its absence.\<close>

definition with_tun ::
  "('v, 'w) capture_adapter \<Rightarrow> 'a \<Rightarrow> ('w helper_platform \<Rightarrow> ('w tun_state, 'a) state)
     \<Rightarrow> (('v, 'w) adapter_state, 'a) state" where
  "with_tun self absent f = (case ad_tun self of None \<Rightarrow> State_Monad.return absent | Some p \<Rightarrow> on_tun (f p))"

definition tun_availability ::
  "('v, 'w) capture_adapter \<Rightarrow> (('v, 'w) adapter_state, capability_availability) state" where
  "tun_availability self = with_tun self CA_Unavailable (\<lambda>_. tun_availability_now)"

definition adapter_preflight ::
  "('v, 'w) capture_adapter \<Rightarrow> capture_request \<Rightarrow> (('v, 'w) adapter_state, capture_preflight outcome) state" where
  "adapter_preflight self request =
     (if cq_active request \<and> cs_system_proxy (cq_selection request)
      then do {
        checked \<leftarrow> on_proxy (sp_preflight (ad_system_proxy self));
        State_Monad.return
          (map_sum id (\<lambda>p. \<lparr>cp_reconciler_id = ad_identity self, cp_system_proxy = Some p\<rparr>) checked) }
      else State_Monad.return (Inr \<lparr>cp_reconciler_id = ad_identity self, cp_system_proxy = None\<rparr>))"

definition combine :: "capture_selection \<Rightarrow> capture_status \<Rightarrow> tun_status \<Rightarrow> capture_status" where
  "combine selection system_proxy tun =
     \<lparr>cu_capture_operation = operation_detached, cu_capture_selection = selection,
      cu_system_proxy = cu_system_proxy system_proxy,
      cu_system_proxy_enabled = cu_system_proxy_enabled system_proxy, cu_tun = tun,
      cu_tun_enabled = (tn_phase tun = TP_Applied \<and> tn_observed tun = TO_Enabled)\<rparr>"

definition combined_status ::
  "('v, 'w) capture_adapter \<Rightarrow> capture_selection \<Rightarrow> (('v, 'w) adapter_state, capture_status) state" where
  "combined_status self selection =
     do { system_proxy \<leftarrow> on_proxy status_now;
          tun \<leftarrow> with_tun self tun_off (\<lambda>_. tun_status_now);
          State_Monad.return (combine selection system_proxy tun) }"

definition set_system_proxy ::
  "('v, 'w) capture_adapter \<Rightarrow> bool \<Rightarrow> capture_selection \<Rightarrow> bool \<Rightarrow> system_proxy_preflight option
     \<Rightarrow> (('v, 'w) adapter_state, unit outcome) state" where
  "set_system_proxy self enabled selection core_healthy preflight =
     do { result \<leftarrow> on_proxy (reconcile_with_preflight (ad_system_proxy self)
            \<lparr>cq_active = enabled,
             cq_selection = \<lparr>cs_system_proxy = cs_system_proxy selection, cs_tun = False\<rparr>\<rparr>
            core_healthy preflight);
          State_Monad.return (map_sum id (\<lambda>_. ()) result) }"

definition set_tun ::
  "('v, 'w) capture_adapter \<Rightarrow> bool \<Rightarrow> bool \<Rightarrow> (('v, 'w) adapter_state, unit outcome) state" where
  "set_tun self enabled core_healthy =
     (case ad_tun self of
        Some p \<Rightarrow>
          do { result \<leftarrow> on_tun (tun_reconcile p enabled core_healthy);
               State_Monad.return (map_sum id (\<lambda>_. ()) result) }
      | None \<Rightarrow>
          State_Monad.return
            (if enabled
             then Inl (error_new CF_CapabilityUnavailable ''TUN capture is unavailable in this runtime'')
             else Inr ()))"

section \<open>Transition\<close>

text \<open>What a request asks of either part.\<close>

definition system_proxy_desired :: "capture_request \<Rightarrow> bool" where
  "system_proxy_desired request \<longleftrightarrow> cq_active request \<and> cs_system_proxy (cq_selection request)"

definition tun_desired :: "capture_request \<Rightarrow> bool" where
  "tun_desired request \<longleftrightarrow> cq_active request \<and> cs_tun (cq_selection request)"

definition tun_refused :: "('v, 'w) capture_adapter \<Rightarrow> (('v, 'w) adapter_state, capture_status outcome) state" where
  "tun_refused self =
     do { failure \<leftarrow> with_tun self TF_CapabilityUnavailable
            (\<lambda>_. do { snapshot \<leftarrow> on_helper snapshot_now; State_Monad.return (helper_snapshot_failure snapshot) });
          with_tun self ()
            (\<lambda>_. do { previous \<leftarrow> tun_status_now;
                      tun_record_failure True failure (tn_observed previous) (tn_observation previous) });
          State_Monad.return (Inl (capture_error_from_tun_failure failure)) }"

definition tun_needs_disabling :: "('v, 'w) capture_adapter \<Rightarrow> (('v, 'w) adapter_state, bool) state" where
  "tun_needs_disabling self =
     with_tun self False (\<lambda>_. do { status \<leftarrow> tun_status_now; State_Monad.return (\<not> is_converged status False) })"

text \<open>The System Proxy failed: a TUN that was switched off for the request is switched on again.\<close>

definition undo_tun_off ::
  "('v, 'w) capture_adapter \<Rightarrow> bool \<Rightarrow> bool \<Rightarrow> capture_error
     \<Rightarrow> (('v, 'w) adapter_state, capture_status outcome) state" where
  "undo_tun_off self needed core_healthy error =
     (if needed
      then do {
        restored \<leftarrow> set_tun self True core_healthy;
        case restored of
          Inr _ \<Rightarrow> State_Monad.return (Inl error)
        | Inl _ \<Rightarrow>
            do { with_tun self () (\<lambda>_. tun_record_drift TF_RollbackFailed);
                 State_Monad.return
                   (Inl (error_new CF_RollbackFailed
                           ''Traffic capture failed and the prior TUN state could not be confirmed'')) } }
      else State_Monad.return (Inl error))"

text \<open>TUN failed: both parts go back to where they were.\<close>

definition undo_both ::
  "('v, 'w) capture_adapter \<Rightarrow> capture_status \<Rightarrow> bool \<Rightarrow> capture_error
     \<Rightarrow> (('v, 'w) adapter_state, capture_status outcome) state" where
  "undo_both self previous core_healthy original =
     do { original_tun_failure \<leftarrow> with_tun self None
            (\<lambda>_. do { status \<leftarrow> tun_status_now; State_Monad.return (tn_failure status) });
          rollback_system \<leftarrow> set_system_proxy self (cu_system_proxy_enabled previous)
            (cu_capture_selection previous) core_healthy None;
          rollback_tun \<leftarrow> set_tun self (cu_tun_enabled previous) core_healthy;
          if isl rollback_system \<or> isl rollback_tun
          then do {
            system \<leftarrow> on_proxy status_now;
            on_proxy (record_drift_failure system CF_RollbackFailed);
            with_tun self () (\<lambda>_. tun_record_drift TF_RollbackFailed);
            State_Monad.return
              (Inl (error_new CF_RollbackFailed
                      ''Traffic capture failed and the prior state could not be confirmed'')) }
          else do {
            (case original_tun_failure of
               None \<Rightarrow> State_Monad.return ()
             | Some failure \<Rightarrow>
                 with_tun self ()
                   (\<lambda>_. do { current \<leftarrow> tun_status_now;
                             tun_record_failure True failure (tn_observed current) (tn_observation current) }));
            State_Monad.return (Inl original) } }"

definition adapter_transition ::
  "('v, 'w) capture_adapter \<Rightarrow> capture_request \<Rightarrow> bool \<Rightarrow> capture_preflight option \<Rightarrow> capture_status
     \<Rightarrow> (('v, 'w) adapter_state, capture_status outcome) state" where
  "adapter_transition self request core_healthy preflight previous =
     do { availability \<leftarrow> tun_availability self;
          if tun_desired request \<and> availability \<noteq> CA_Supported then tun_refused self
          else do {
            needs_disabling \<leftarrow> tun_needs_disabling self;
            disabled \<leftarrow> (if \<not> tun_desired request \<and> needs_disabling then set_tun self False core_healthy
                         else State_Monad.return (Inr ()));
            case disabled of
              Inl error \<Rightarrow> State_Monad.return (Inl error)
            | Inr _ \<Rightarrow>
                do { switched \<leftarrow> set_system_proxy self (system_proxy_desired request) (cq_selection request)
                       core_healthy (case preflight of Some p \<Rightarrow> cp_system_proxy p | None \<Rightarrow> None);
                     case switched of
                       Inl error \<Rightarrow>
                         undo_tun_off self (cu_tun_enabled previous \<and> \<not> tun_desired request) core_healthy error
                     | Inr _ \<Rightarrow>
                         do { enabled \<leftarrow> (if tun_desired request then set_tun self True core_healthy
                                         else State_Monad.return (Inr ()));
                              case enabled of
                                Inl original \<Rightarrow> undo_both self previous core_healthy original
                              | Inr _ \<Rightarrow>
                                  do { status \<leftarrow> combined_status self (cq_selection request);
                                       State_Monad.return (Inr status) } } } } }"

section \<open>Observation and audit\<close>

definition tun_audit_of ::
  "('v, 'w) capture_adapter \<Rightarrow> bool \<Rightarrow> (('v, 'w) adapter_state, (tun_status \<times> bool) outcome) state" where
  "tun_audit_of self core_healthy = with_tun self (Inr (tun_off, False)) (\<lambda>p. tun_audit p core_healthy)"

definition first_error :: "'a outcome \<Rightarrow> 'b outcome \<Rightarrow> capture_error option" where
  "first_error a b = (case a of Inl error \<Rightarrow> Some error | Inr _ \<Rightarrow> (case b of Inl error \<Rightarrow> Some error | Inr _ \<Rightarrow> None))"

definition request_confirmed :: "capture_request \<Rightarrow> capture_status \<Rightarrow> bool" where
  "request_confirmed request status \<longleftrightarrow>
     (if system_proxy_desired request
      then cu_system_proxy_enabled status \<and> ps_phase (cu_system_proxy status) = SP_Applied
           \<and> ps_observed (cu_system_proxy status) = SO_Mish
      else \<not> cu_system_proxy_enabled status \<and> ps_phase (cu_system_proxy status) = SP_Off)
     \<and> (if tun_desired request
        then cu_tun_enabled status \<and> tn_phase (cu_tun status) = TP_Applied \<and> tn_observed (cu_tun status) = TO_Enabled
        else \<not> cu_tun_enabled status \<and> tn_phase (cu_tun status) = TP_Off)"

definition adapter_observe ::
  "('v, 'w) capture_adapter \<Rightarrow> capture_request \<Rightarrow> bool \<Rightarrow> (('v, 'w) adapter_state, capture_status outcome) state" where
  "adapter_observe self request core_healthy =
     do { system_result \<leftarrow> on_proxy (audit_with_mutation (ad_system_proxy self) core_healthy);
          tun_result \<leftarrow> tun_audit_of self core_healthy;
          status \<leftarrow> combined_status self (cq_selection request);
          State_Monad.return
            (case first_error system_result tun_result of
               Some error \<Rightarrow> Inl error
             | None \<Rightarrow>
                 if request_confirmed request status then Inr status
                 else Inl (error_new CF_ObservationFailed
                             ''Capture mutation could not be confirmed by authoritative platform observation'')) }"

definition same_tun_observation_state ::
  "tun_network_observation option \<Rightarrow> tun_network_observation option \<Rightarrow> bool" where
  "same_tun_observation_state left right =
     (case (left, right) of
        (None, None) \<Rightarrow> True
      | (Some l, Some r) \<Rightarrow>
          no_core l = no_core r \<and> no_dns l = no_dns r \<and> no_interface l = no_interface r
          \<and> no_routes l = no_routes r \<and> no_schema_version l = no_schema_version r
      | _ \<Rightarrow> False)"

definition same_authoritative_capture_state :: "capture_status \<Rightarrow> capture_status \<Rightarrow> bool" where
  "same_authoritative_capture_state left right \<longleftrightarrow>
     cu_capture_selection left = cu_capture_selection right
     \<and> cu_system_proxy left = cu_system_proxy right
     \<and> cu_system_proxy_enabled left = cu_system_proxy_enabled right
     \<and> tn_desired (cu_tun left) = tn_desired (cu_tun right)
     \<and> tn_failure (cu_tun left) = tn_failure (cu_tun right)
     \<and> tn_observed (cu_tun left) = tn_observed (cu_tun right)
     \<and> tn_phase (cu_tun left) = tn_phase (cu_tun right)
     \<and> same_tun_observation_state (tn_observation (cu_tun left)) (tn_observation (cu_tun right))
     \<and> cu_tun_enabled left = cu_tun_enabled right"

definition reports_mutation :: "('a \<times> bool) outcome \<Rightarrow> bool" where
  "reports_mutation r = (case r of Inr (_, mutated) \<Rightarrow> mutated | Inl _ \<Rightarrow> False)"

text \<open>The reason of an audit selects nothing in the reconcilers.\<close>

definition adapter_audit_outcome ::
  "('v, 'w) capture_adapter \<Rightarrow> audit_reason \<Rightarrow> bool \<Rightarrow> capture_status
     \<Rightarrow> (('v, 'w) adapter_state, audit_outcome) state" where
  "adapter_audit_outcome self reason core_healthy previous =
     do { system_result \<leftarrow> on_proxy (audit_with_mutation (ad_system_proxy self) core_healthy);
          tun_result \<leftarrow> tun_audit_of self core_healthy;
          status \<leftarrow> combined_status self (cu_capture_selection previous);
          State_Monad.return
            \<lparr>ax_error = first_error system_result tun_result,
             ax_mutated = (reports_mutation system_result \<or> reports_mutation tun_result
                           \<or> \<not> same_authoritative_capture_state previous status),
             ax_status = status\<rparr> }"

section \<open>Recovery and shutdown\<close>

definition adapter_recover ::
  "('v, 'w) capture_adapter \<Rightarrow> recovery_action \<Rightarrow> bool \<Rightarrow> capture_request
     \<Rightarrow> (('v, 'w) adapter_state, capture_status outcome) state" where
  "adapter_recover self action core_healthy request =
     do { recovered \<leftarrow> on_proxy (recover (ad_system_proxy self) action core_healthy);
          case recovered of
            Inl error \<Rightarrow> State_Monad.return (Inl error)
          | Inr _ \<Rightarrow>
              do { status \<leftarrow> combined_status self (cq_selection request);
                   State_Monad.return (Inr status) } }"

definition adapter_shutdown ::
  "('v, 'w) capture_adapter \<Rightarrow> capture_status \<Rightarrow> (('v, 'w) adapter_state, capture_status outcome) state" where
  "adapter_shutdown self previous =
     do { loaded \<leftarrow> on_proxy (load_validated_journal (ad_system_proxy self));
          case loaded of
            Inl error \<Rightarrow> State_Monad.return (Inl error)
          | Inr journal \<Rightarrow>
              let tun_may_be_active = (cu_tun_enabled previous \<or> tn_desired (cu_tun previous)
                                       \<or> tn_phase (cu_tun previous) \<noteq> TP_Off);
                  request = \<lparr>cq_active = False, cq_selection = cu_capture_selection previous\<rparr> in
              if journal = None \<and> \<not> tun_may_be_active then State_Monad.return (Inr previous)
              else do {
                transition \<leftarrow> adapter_transition self request False None previous;
                case transition of
                  Inl error \<Rightarrow> State_Monad.return (Inl error)
                | Inr _ \<Rightarrow> adapter_observe self request False } }"

section \<open>The effects of the machine\<close>

definition error_of :: "'a outcome \<Rightarrow> capture_error option" where
  "error_of r = (case r of Inl error \<Rightarrow> Some error | Inr _ \<Rightarrow> None)"

definition effect_mutate ::
  "('v, 'w) capture_adapter \<Rightarrow> capture_request \<Rightarrow> bool \<Rightarrow> capture_preflight option \<Rightarrow> capture_status
     \<Rightarrow> (('v, 'w) adapter_state, effect_outcome) state" where
  "effect_mutate self request core_healthy preflight previous =
     do { result \<leftarrow> adapter_transition self request core_healthy preflight previous;
          status \<leftarrow> combined_status self
            (if isl result then cu_capture_selection previous else cq_selection request);
          State_Monad.return \<lparr>ex_error = error_of result, ex_status = status\<rparr> }"

definition effect_observe ::
  "('v, 'w) capture_adapter \<Rightarrow> capture_request \<Rightarrow> bool \<Rightarrow> (('v, 'w) adapter_state, effect_outcome) state" where
  "effect_observe self request core_healthy =
     do { result \<leftarrow> adapter_observe self request core_healthy;
          status \<leftarrow> combined_status self (cq_selection request);
          State_Monad.return \<lparr>ex_error = error_of result, ex_status = status\<rparr> }"

definition effect_recover ::
  "('v, 'w) capture_adapter \<Rightarrow> recovery_action \<Rightarrow> bool \<Rightarrow> capture_request
     \<Rightarrow> (('v, 'w) adapter_state, effect_outcome) state" where
  "effect_recover self action core_healthy request =
     do { result \<leftarrow> adapter_recover self action core_healthy request;
          status \<leftarrow> combined_status self (cq_selection request);
          State_Monad.return \<lparr>ex_error = error_of result, ex_status = status\<rparr> }"

section \<open>Sequences of effects\<close>

datatype adapter_call =
    AC_Preflight capture_request
  | AC_Mutate capture_request bool "capture_preflight option" capture_status
  | AC_Observe capture_request bool
  | AC_Audit audit_reason bool capture_status
  | AC_Recover recovery_action bool capture_request
  | AC_Shutdown capture_status

fun adapter_perform ::
  "('v, 'w) capture_adapter \<Rightarrow> adapter_call \<Rightarrow> ('v, 'w) adapter_state \<Rightarrow> ('v, 'w) adapter_state" where
  "adapter_perform self (AC_Preflight request) s = snd (run_state (adapter_preflight self request) s)"
| "adapter_perform self (AC_Mutate request healthy pre previous) s =
     snd (run_state (effect_mutate self request healthy pre previous) s)"
| "adapter_perform self (AC_Observe request healthy) s = snd (run_state (effect_observe self request healthy) s)"
| "adapter_perform self (AC_Audit reason healthy previous) s =
     snd (run_state (adapter_audit_outcome self reason healthy previous) s)"
| "adapter_perform self (AC_Recover action healthy request) s =
     snd (run_state (effect_recover self action healthy request) s)"
| "adapter_perform self (AC_Shutdown previous) s = snd (run_state (adapter_shutdown self previous) s)"

definition adapter_run ::
  "('v, 'w) capture_adapter \<Rightarrow> adapter_call list \<Rightarrow> ('v, 'w) adapter_state \<Rightarrow> ('v, 'w) adapter_state" where
  "adapter_run self cs s = fold (adapter_perform self) cs s"

end
