(* ===== verification/Proxy_Recovery.thy ===== *)
theory Proxy_Recovery
  imports Proxy_Status
begin

text \<open>
  What the recovery journal is for: the user's own proxy configuration is never lost. The
  contract of a platform says what its calls do to the configuration of every network service
  and to the journal, failing calls included; the environment may move the active service at
  any time but does not edit the services behind Mish's back. \<open>remembering\<close> keeps the world
  after every call, so that the invariant is stated for a process that dies between any two
  of them.
\<close>

section \<open>Every world a run goes through\<close>

definition remembered :: "('w, 'a) state \<Rightarrow> ('w \<times> 'w list, 'a) state" where
  "remembered f = State (\<lambda>(w, past). case run_state f w of (r, w') \<Rightarrow> (r, (w', w # past)))"

definition remembering :: "'w proxy_platform \<Rightarrow> ('w \<times> 'w list) proxy_platform" where
  "remembering p =
     \<lparr>pp_availability = pp_availability p \<circ> fst,
      pp_window = pp_window p,
      pp_before_deadline = remembered (pp_before_deadline p),
      pp_preflight_observe_active = remembered (pp_preflight_observe_active p),
      pp_observe_active = remembered (pp_observe_active p),
      pp_observe_service = remembered \<circ> pp_observe_service p,
      pp_apply_service = remembered \<circ> pp_apply_service p,
      pp_confirm_proxy_listener = remembered \<circ> pp_confirm_proxy_listener p,
      pp_load = remembered (pp_load p),
      pp_save = remembered \<circ> pp_save p,
      pp_clear = remembered (pp_clear p)\<rparr>"

definition worlds :: "('w \<times> 'w list) sp_state \<Rightarrow> 'w list" where
  "worlds s = fst (rs_world s) # snd (rs_world s)"

section \<open>The original configuration is recoverable\<close>

text \<open>
  Every service is configured as it originally was, except the journaled one, whose
  journal entry is its original configuration and whose current configuration lies between that and
  what Mish writes.
\<close>

definition as_originally :: "network_service_proxy_state option \<Rightarrow> network_service_proxy_state option \<Rightarrow> bool" where
  "as_originally current original = rel_option semantically_matches current original"

definition recoverable ::
  "proxy_endpoint \<Rightarrow> (string \<rightharpoonup> network_service_proxy_state) \<Rightarrow> (string \<rightharpoonup> network_service_proxy_state)
     \<Rightarrow> capture_journal option \<Rightarrow> bool" where
  "recoverable endpoint original config journal \<longleftrightarrow>
     (case journal of
        None \<Rightarrow> (\<forall>sid. as_originally (config sid) (original sid))
      | Some j \<Rightarrow>
          (\<forall>sid. sid \<noteq> np_service_id (cj_prior j) \<longrightarrow> as_originally (config sid) (original sid))
          \<and> as_originally (Some (cj_prior j)) (original (np_service_id (cj_prior j)))
          \<and> (\<exists>current. config (np_service_id (cj_prior j)) = Some current
               \<and> is_transaction_owned_between current (cj_prior j) (with_endpoint (cj_prior j) endpoint)))"

lemma as_originally_refl [simp]: "as_originally c c"
  by (cases c) (simp_all add: as_originally_def)

lemma as_originally_Some: "as_originally (Some c) orig \<longleftrightarrow> (\<exists>d. orig = Some d \<and> semantically_matches c d)"
  by (cases orig) (simp_all add: as_originally_def)

lemma manual_semantically_matches_trans:
  "manual_semantically_matches a b \<Longrightarrow> manual_semantically_matches b c \<Longrightarrow> manual_semantically_matches a c"
  by (auto simp: manual_semantically_matches_def)

lemma semantically_matches_trans:
  "semantically_matches a b \<Longrightarrow> semantically_matches b c \<Longrightarrow> semantically_matches a c"
  unfolding semantically_matches_def using manual_semantically_matches_trans by metis

lemma semantically_matches_service: "semantically_matches a b \<Longrightarrow> np_service_id a = np_service_id b"
  by (simp add: semantically_matches_def)

lemma owned_service:
  "is_transaction_owned_between c prior (with_endpoint prior e) \<Longrightarrow> np_service_id c = np_service_id prior"
  by (simp add: is_transaction_owned_between_def)

text \<open>
  The same as an abstract specification: at most one service is owned, only the owned service is written,
  always between its original configuration and Mish's, and it is released only when it is configured as
  it originally was.
\<close>

type_synonym ownership = "string option \<times> (string \<rightharpoonup> network_service_proxy_state)"

inductive own_step ::
  "proxy_endpoint \<Rightarrow> (string \<rightharpoonup> network_service_proxy_state) \<Rightarrow> ownership \<Rightarrow> ownership \<Rightarrow> bool"
  for endpoint original where
  idle: "own_step endpoint original a a"
| take: "config sid = Some current \<Longrightarrow> own_step endpoint original (None, config) (Some sid, config)"
| configure: "as_originally (Some prior) (original sid) \<Longrightarrow> np_service_id prior = sid
    \<Longrightarrow> is_transaction_owned_between written prior (with_endpoint prior endpoint)
    \<Longrightarrow> own_step endpoint original (Some sid, config) (Some sid, config(sid \<mapsto> written))"
| release: "as_originally (config sid) (original sid)
    \<Longrightarrow> own_step endpoint original (Some sid, config) (None, config)"

definition ownership_of ::
  "('w \<Rightarrow> (string \<rightharpoonup> network_service_proxy_state)) \<Rightarrow> ('w \<Rightarrow> capture_journal option) \<Rightarrow> 'w \<Rightarrow> ownership" where
  "ownership_of config journal w = (map_option (\<lambda>j. np_service_id (cj_prior j)) (journal w), config w)"

text \<open>Every world of a run is recoverable, and every call is a step of the specification; newest first.\<close>

definition all_recoverable ::
  "proxy_endpoint \<Rightarrow> (string \<rightharpoonup> network_service_proxy_state) \<Rightarrow> ('w \<Rightarrow> (string \<rightharpoonup> network_service_proxy_state))
     \<Rightarrow> ('w \<Rightarrow> capture_journal option) \<Rightarrow> ('w \<times> 'w list) sp_state \<Rightarrow> bool" where
  "all_recoverable endpoint original config journal s \<longleftrightarrow>
     (\<forall>w \<in> set (worlds s). recoverable endpoint original (config w) (journal w))
     \<and> successively (\<lambda>w' w. own_step endpoint original (ownership_of config journal w) (ownership_of config journal w'))
         (worlds s)"

lemma all_recoverable_status [simp]:
  "all_recoverable endpoint original config journal (s\<lparr>rs_status := st\<rparr>) =
     all_recoverable endpoint original config journal s"
  by (simp add: all_recoverable_def worlds_def)

section \<open>The contract of a platform\<close>

text \<open>
  \<open>config\<close> is the configuration of every service the platform has, \<open>journal\<close> what the journal
  store holds, \<open>ok\<close> the platform's own invariant. A write that fails leaves the service
  between what it was between before and what was to be written; a journal operation that
  fails may or may not have taken effect.
\<close>

locale proxy_host =
  fixes p :: "'w proxy_platform"
    and config :: "'w \<Rightarrow> (string \<rightharpoonup> network_service_proxy_state)"
    and journal :: "'w \<Rightarrow> capture_journal option"
    and ok :: "'w \<Rightarrow> bool"
  assumes service_id: "ok w \<Longrightarrow> config w sid = Some c \<Longrightarrow> np_service_id c = sid"
    and observe_active: "ok w \<Longrightarrow> run_state (pp_observe_active p) w = (r, w') \<Longrightarrow>
      ok w' \<and> config w' = config w \<and> journal w' = journal w
      \<and> (\<forall>c. r = Inr c \<longrightarrow> config w (np_service_id c) = Some c)"
    and preflight_observe_active: "ok w \<Longrightarrow> run_state (pp_preflight_observe_active p) w = (r', w') \<Longrightarrow>
      ok w' \<and> config w' = config w \<and> journal w' = journal w"
    and observe_service: "ok w \<Longrightarrow> run_state (pp_observe_service p sid) w = (r, w') \<Longrightarrow>
      ok w' \<and> config w' = config w \<and> journal w' = journal w
      \<and> (\<forall>c. r = Inr c \<longrightarrow> config w (np_service_id c) = Some c)"
    and before_deadline: "ok w \<Longrightarrow> run_state (pp_before_deadline p) w = (in_time, w') \<Longrightarrow>
      ok w' \<and> config w' = config w \<and> journal w' = journal w"
    and confirm_proxy_listener: "ok w \<Longrightarrow> run_state (pp_confirm_proxy_listener p endpoint) w = (ru, w') \<Longrightarrow>
      ok w' \<and> config w' = config w \<and> journal w' = journal w"
    and apply_service: "ok w \<Longrightarrow> run_state (pp_apply_service p target) w = (ru, w') \<Longrightarrow>
      config w (np_service_id target) = Some c \<Longrightarrow>
      ok w' \<and> journal w' = journal w
      \<and> (\<forall>sid. sid \<noteq> np_service_id target \<longrightarrow> config w' sid = config w sid)
      \<and> (\<exists>c'. config w' (np_service_id target) = Some c'
           \<and> (\<forall>a b. target = a \<or> target = b \<longrightarrow> is_transaction_owned_between c a b
                \<longrightarrow> is_transaction_owned_between c' a b))"
    and load: "ok w \<Longrightarrow> run_state (pp_load p) w = (rl, w') \<Longrightarrow>
      ok w' \<and> config w' = config w \<and> journal w' = journal w \<and> (\<forall>j. rl = Inr j \<longrightarrow> journal w = j)"
    and save: "ok w \<Longrightarrow> run_state (pp_save p j) w = (ru, w') \<Longrightarrow>
      ok w' \<and> config w' = config w \<and> (journal w' = Some j \<or> isl ru \<and> journal w' = journal w)"
    and clear: "ok w \<Longrightarrow> run_state (pp_clear p) w = (ru, w') \<Longrightarrow>
      ok w' \<and> config w' = config w \<and> (journal w' = None \<or> isl ru \<and> journal w' = journal w)"

text \<open>A reconciler over such a platform, and the configuration that is to be kept.\<close>

locale hosted_reconciler = proxy_host p config journal ok
  for p :: "'w proxy_platform" and config and journal and ok +
  fixes self :: "('w \<times> 'w list) sp_self" and original :: "string \<rightharpoonup> network_service_proxy_state"
  assumes platform: "sf_platform self = remembering p"
begin

abbreviation cfg :: "('w \<times> 'w list) sp_state \<Rightarrow> (string \<rightharpoonup> network_service_proxy_state)" where
  "cfg s \<equiv> config (fst (rs_world s))"

abbreviation jrn :: "('w \<times> 'w list) sp_state \<Rightarrow> capture_journal option" where
  "jrn s \<equiv> journal (fst (rs_world s))"

abbreviation safe :: "('w \<times> 'w list) sp_state \<Rightarrow> bool" where
  "safe s \<equiv> ok (fst (rs_world s)) \<and> all_recoverable (sf_endpoint self) original config journal s"

lemma safe_recoverable: "safe s \<Longrightarrow> recoverable (sf_endpoint self) original (cfg s) (jrn s)"
  by (simp add: all_recoverable_def worlds_def)

text \<open>One call of the platform.\<close>

lemma wp_remembered:
  assumes "safe s"
    and "\<And>r w'. run_state f (fst (rs_world s)) = (r, w') \<Longrightarrow>
      ok w' \<and> recoverable (sf_endpoint self) original (config w') (journal w')
      \<and> own_step (sf_endpoint self) original (ownership_of config journal (fst (rs_world s))) (ownership_of config journal w')"
    and "\<And>r s'. safe s' \<Longrightarrow> run_state f (fst (rs_world s)) = (r, fst (rs_world s')) \<Longrightarrow> Q r s'"
  shows "wp (call (remembered f)) Q s"
proof (intro wp_call)
  obtain w past where s: "rs_world s = (w, past)" by (cases "rs_world s")
  obtain r w' where run: "run_state f w = (r, w')" by (cases "run_state f w")
  have "safe (s\<lparr>rs_world := (w', w # past)\<rparr>)"
    using assms(1) assms(2) [of r w'] run by (simp add: all_recoverable_def worlds_def s)
  then have "Q r (s\<lparr>rs_world := (w', w # past)\<rparr>)"
    by (rule assms(3)) (simp add: s run)
  then show "wp (remembered f) (\<lambda>r w. Q r (s\<lparr>rs_world := w\<rparr>)) (rs_world s)"
    by (simp add: wp_def remembered_def s run)
qed

lemma wp_unchanging:
  assumes "safe s"
    and "\<And>r w'. run_state f (fst (rs_world s)) = (r, w') \<Longrightarrow>
      ok w' \<and> config w' = cfg s \<and> journal w' = jrn s \<and> P r"
    and "\<And>r s'. safe s' \<Longrightarrow> cfg s' = cfg s \<Longrightarrow> jrn s' = jrn s \<Longrightarrow> P r \<Longrightarrow> Q r s'"
  shows "wp (call (remembered f)) Q s"
proof (rule wp_remembered [OF assms(1)])
  show "ok w' \<and> recoverable (sf_endpoint self) original (config w') (journal w')
      \<and> own_step (sf_endpoint self) original (ownership_of config journal (fst (rs_world s))) (ownership_of config journal w')"
    if "run_state f (fst (rs_world s)) = (r, w')" for r w'
    using assms(2) [OF that] safe_recoverable [OF assms(1)] by (simp add: ownership_of_def own_step.idle)
  show "Q r s'" if "safe s'" "run_state f (fst (rs_world s)) = (r, fst (rs_world s'))" for r s'
    using assms(2) [OF that(2)] that(1) by (intro assms(3)) simp_all
qed

lemma wp_observe_active:
  assumes "safe s"
    and "\<And>r s'. safe s' \<Longrightarrow> cfg s' = cfg s \<Longrightarrow> jrn s' = jrn s
      \<Longrightarrow> (\<forall>c. r = Inr c \<longrightarrow> cfg s (np_service_id c) = Some c) \<Longrightarrow> Q r s'"
  shows "wp (call (pp_observe_active (sf_platform self))) Q s"
  unfolding platform remembering_def proxy_platform.simps
  by (rule wp_unchanging [OF assms(1) _ assms(2)])
    (use observe_active [OF conjunct1 [OF assms(1)]] in simp_all)

lemma wp_observe_service:
  assumes "safe s"
    and "\<And>r s'. safe s' \<Longrightarrow> cfg s' = cfg s \<Longrightarrow> jrn s' = jrn s
      \<Longrightarrow> (\<forall>c. r = Inr c \<longrightarrow> cfg s (np_service_id c) = Some c) \<Longrightarrow> Q r s'"
  shows "wp (call (pp_observe_service (sf_platform self) sid)) Q s"
  unfolding platform remembering_def proxy_platform.simps o_apply
  by (rule wp_unchanging [OF assms(1) _ assms(2)])
    (use observe_service [OF conjunct1 [OF assms(1)]] in simp_all)

lemma wp_preflight_observe_active:
  assumes "safe s" and "\<And>r s'. safe s' \<Longrightarrow> cfg s' = cfg s \<Longrightarrow> jrn s' = jrn s \<Longrightarrow> Q r s'"
  shows "wp (call (pp_preflight_observe_active (sf_platform self))) Q s"
  unfolding platform remembering_def proxy_platform.simps
  by (rule wp_unchanging [where P = "\<lambda>_. True", OF assms(1) _ assms(2)])
    (use preflight_observe_active [OF conjunct1 [OF assms(1)]] in simp_all)

lemma wp_confirm_proxy_listener:
  assumes "safe s" and "\<And>r s'. safe s' \<Longrightarrow> cfg s' = cfg s \<Longrightarrow> jrn s' = jrn s \<Longrightarrow> Q r s'"
  shows "wp (call (pp_confirm_proxy_listener (sf_platform self) endpoint)) Q s"
  unfolding platform remembering_def proxy_platform.simps o_apply
  by (rule wp_unchanging [where P = "\<lambda>_. True", OF assms(1) _ assms(2)])
    (use confirm_proxy_listener [OF conjunct1 [OF assms(1)]] in simp_all)

lemma wp_before_deadline:
  assumes "safe s" and "\<And>r s'. safe s' \<Longrightarrow> cfg s' = cfg s \<Longrightarrow> jrn s' = jrn s \<Longrightarrow> Q r s'"
  shows "wp (before_deadline self) Q s"
proof -
  have "wp (call (pp_before_deadline (sf_platform self))) Q s"
    unfolding platform remembering_def proxy_platform.simps
    by (rule wp_unchanging [where P = "\<lambda>_. True", OF assms(1) _ assms(2)])
      (use before_deadline [OF conjunct1 [OF assms(1)]]
        in simp_all)
  then show ?thesis
    unfolding before_deadline_def by (intro wp_rules assms) simp_all
qed

lemma wp_load:
  assumes "safe s"
    and "\<And>r s'. safe s' \<Longrightarrow> cfg s' = cfg s \<Longrightarrow> jrn s' = jrn s
      \<Longrightarrow> (\<forall>j. r = Inr j \<longrightarrow> jrn s = j) \<Longrightarrow> Q r s'"
  shows "wp (call (pp_load (sf_platform self))) Q s"
  unfolding platform remembering_def proxy_platform.simps
  by (rule wp_unchanging [OF assms(1) _ assms(2)])
    (use load [OF conjunct1 [OF assms(1)]] in simp_all)

text \<open>The calls that write: each is only made where it keeps the original recoverable.\<close>

lemma wp_save:
  assumes "safe s" "jrn s = None" "cfg s (np_service_id prior) = Some prior"
    and "\<And>r s'. safe s' \<Longrightarrow> cfg s' = cfg s \<Longrightarrow> (r = Inr () \<Longrightarrow> jrn s' = Some \<lparr>cj_prior = prior\<rparr>) \<Longrightarrow> Q r s'"
  shows "wp (call (pp_save (sf_platform self) \<lparr>cj_prior = prior\<rparr>)) Q s"
  unfolding platform remembering_def proxy_platform.simps o_apply
proof (rule wp_remembered [OF assms(1)])
  fix r w'
  assume run: "run_state (pp_save p \<lparr>cj_prior = prior\<rparr>) (fst (rs_world s)) = (r, w')"
  have "recoverable (sf_endpoint self) original (cfg s) (Some \<lparr>cj_prior = prior\<rparr>)"
    using safe_recoverable [OF assms(1)] assms(2,3) by (auto simp: recoverable_def) metis
  then show "ok w' \<and> recoverable (sf_endpoint self) original (config w') (journal w')
      \<and> own_step (sf_endpoint self) original (ownership_of config journal (fst (rs_world s))) (ownership_of config journal w')"
    using save [OF conjunct1 [OF assms(1)] run] safe_recoverable [OF assms(1)] assms(2,3)
    by (auto simp: ownership_of_def intro: own_step.intros)
next
  fix r s'
  assume "safe s'" and run: "run_state (pp_save p \<lparr>cj_prior = prior\<rparr>) (fst (rs_world s)) = (r, fst (rs_world s'))"
  then show "Q r s'"
    using save [OF conjunct1 [OF assms(1)] run] by (intro assms(4)) auto
qed

lemma wp_clear:
  assumes "safe s"
    and "\<exists>j c. jrn s = Some j \<and> cfg s (np_service_id (cj_prior j)) = Some c \<and> semantically_matches c (cj_prior j)"
    and "\<And>r s'. safe s' \<Longrightarrow> cfg s' = cfg s \<Longrightarrow> (r = Inr () \<Longrightarrow> jrn s' = None) \<Longrightarrow> Q r s'"
  shows "wp (call (pp_clear (sf_platform self))) Q s"
  unfolding platform remembering_def proxy_platform.simps
proof (rule wp_remembered [OF assms(1)])
  obtain j c where j: "jrn s = Some j" "cfg s (np_service_id (cj_prior j)) = Some c"
    "semantically_matches c (cj_prior j)"
    using assms(2) by blast
  fix r w'
  assume run: "run_state (pp_clear p) (fst (rs_world s)) = (r, w')"
  have rec: "recoverable (sf_endpoint self) original (cfg s) (Some j)"
    using safe_recoverable [OF assms(1)] j(1) by simp
  then have returned: "as_originally (cfg s (np_service_id (cj_prior j))) (original (np_service_id (cj_prior j)))"
    using j(2,3) semantically_matches_trans by (auto simp: recoverable_def as_originally_Some)
  then have "recoverable (sf_endpoint self) original (cfg s) None"
    using rec unfolding recoverable_def option.case by metis
  then show "ok w' \<and> recoverable (sf_endpoint self) original (config w') (journal w')
      \<and> own_step (sf_endpoint self) original (ownership_of config journal (fst (rs_world s))) (ownership_of config journal w')"
    using clear [OF conjunct1 [OF assms(1)] run] safe_recoverable [OF assms(1)] j(1) returned
    by (auto simp: ownership_of_def intro: own_step.intros)
next
  fix r s'
  assume "safe s'" and run: "run_state (pp_clear p) (fst (rs_world s)) = (r, fst (rs_world s'))"
  then show "Q r s'"
    using clear [OF conjunct1 [OF assms(1)] run] by (intro assms(3)) auto
qed

lemma wp_apply_service:
  assumes "safe s"
    and "\<exists>j. jrn s = Some j \<and> (target = cj_prior j \<or> target = with_endpoint (cj_prior j) (sf_endpoint self))"
    and "\<And>r s'. safe s' \<Longrightarrow> jrn s' = jrn s
      \<Longrightarrow> (\<forall>sid. sid \<noteq> np_service_id target \<longrightarrow> cfg s' sid = cfg s sid) \<Longrightarrow> Q r s'"
  shows "wp (call (pp_apply_service (sf_platform self) target)) Q s"
  unfolding platform remembering_def proxy_platform.simps o_apply
proof (rule wp_remembered [OF assms(1)])
  obtain j where j: "jrn s = Some j" "target = cj_prior j \<or> target = with_endpoint (cj_prior j) (sf_endpoint self)"
    using assms(2) by blast
  have rec: "recoverable (sf_endpoint self) original (cfg s) (Some j)"
    using safe_recoverable [OF assms(1)] j(1) by simp
  have sid: "np_service_id target = np_service_id (cj_prior j)"
    using j(2) by auto
  obtain c where c: "cfg s (np_service_id target) = Some c"
    "is_transaction_owned_between c (cj_prior j) (with_endpoint (cj_prior j) (sf_endpoint self))"
    using rec by (auto simp: recoverable_def sid)
  {
    fix r w'
    assume run: "run_state (pp_apply_service p target) (fst (rs_world s)) = (r, w')"
    obtain c' where c': "config w' (np_service_id target) = Some c'"
      "is_transaction_owned_between c' (cj_prior j) (with_endpoint (cj_prior j) (sf_endpoint self))"
      using apply_service [OF conjunct1 [OF assms(1)] run c(1)] c(2) j(2) by blast
    have changed: "config w' = (cfg s)(np_service_id (cj_prior j) \<mapsto> c')"
      using apply_service [OF conjunct1 [OF assms(1)] run c(1)] c'(1) by (auto simp: fun_eq_iff sid)
    have "own_step (sf_endpoint self) original (ownership_of config journal (fst (rs_world s)))
        (ownership_of config journal w')"
      using apply_service [OF conjunct1 [OF assms(1)] run c(1)] rec j(1)
        own_step.configure [OF _ refl c'(2), where original = original]
      by (simp add: ownership_of_def recoverable_def changed)
    then show "ok w' \<and> recoverable (sf_endpoint self) original (config w') (journal w')
        \<and> own_step (sf_endpoint self) original (ownership_of config journal (fst (rs_world s)))
             (ownership_of config journal w')"
      using apply_service [OF conjunct1 [OF assms(1)] run c(1)] rec c' j(1)
      by (simp add: recoverable_def sid)
  next
    fix r s'
    assume "safe s'" and run: "run_state (pp_apply_service p target) (fst (rs_world s)) = (r, fst (rs_world s'))"
    then show "Q r s'"
      using apply_service [OF conjunct1 [OF assms(1)] run c(1)] by (intro assms(3)) auto
  }
qed

lemmas wp_host_calls = wp_observe_active wp_observe_service wp_preflight_observe_active
  wp_confirm_proxy_listener wp_before_deadline wp_load wp_save wp_clear wp_apply_service

section \<open>Every operation\<close>

lemma confirm_safe:
  assumes "safe s"
    and "\<And>r s'. safe s' \<Longrightarrow> cfg s' = cfg s \<Longrightarrow> jrn s' = jrn s
      \<Longrightarrow> (\<forall>c. r = Inr c \<longrightarrow> cfg s (np_service_id c) = Some c \<and> semantically_matches c expected) \<Longrightarrow> Q r s'"
  shows "wp (confirm_attempts self prior target expected sid n) Q s"
  using assms
proof (induction n arbitrary: s)
  case 0
  show ?case
    unfolding confirm_attempts.simps by (intro wp_rules 0(2)) (use 0(1) in simp_all)
next
  case (Suc n)
  show ?case
    unfolding confirm_attempts.simps confirm_observation_def
    by (intro wp_rules wp_host_calls Suc.IH Suc.prems(2)) (use Suc.prems(1) in simp_all)
qed

lemma load_validated_journal_safe:
  assumes "safe s"
    and "\<And>r s'. safe s' \<Longrightarrow> cfg s' = cfg s \<Longrightarrow> jrn s' = jrn s
      \<Longrightarrow> (\<forall>j. r = Inr j \<longrightarrow> jrn s = j) \<Longrightarrow> Q r s'"
  shows "wp (load_validated_journal self) Q s"
  unfolding load_validated_journal_def
  by (intro wp_rules wp_host_calls assms) simp_all

lemma restore_exact_prior_safe:
  assumes "safe s" "map_option cj_prior (jrn s) = Some prior"
    and "\<And>r s'. safe s' \<Longrightarrow> jrn s' = jrn s
      \<Longrightarrow> (\<forall>sid. sid \<noteq> np_service_id prior \<longrightarrow> cfg s' sid = cfg s sid)
      \<Longrightarrow> (\<forall>c. r = Inr c \<longrightarrow> cfg s' (np_service_id prior) = Some c \<and> semantically_matches c prior) \<Longrightarrow> Q r s'"
  shows "wp (restore_exact_prior self prior) Q s"
  unfolding restore_exact_prior_def confirm_service_target_def confirm_target_def
  by (intro wp_rules wp_host_calls confirm_safe assms(3))
    (use assms(1,2) in \<open>auto dest: semantically_matches_service\<close>)

lemma restore_safe:
  assumes "safe s"
    and "\<And>r s'. safe s' \<Longrightarrow> (\<forall>st. r = Inr st \<longrightarrow> jrn s' = None) \<Longrightarrow> Q r s'"
  shows "wp (restore self selection) Q s"
  unfolding restore_def restore_owned_def
  by (intro wp_rules wp_host_calls wp_status_rules load_validated_journal_safe restore_exact_prior_safe assms(2))
    (use assms(1) in auto)

lemma rollback_safe:
  assumes "safe s" "map_option cj_prior (jrn s) = Some prior"
    and "\<And>r s'. safe s' \<Longrightarrow> isl r \<Longrightarrow> Q r s'"
  shows "wp (rollback_after_failure self selection prior original_error) Q s"
  unfolding rollback_after_failure_def record_rollback_drift_def
  by (intro wp_rules wp_host_calls wp_status_rules restore_exact_prior_safe assms(3))
    (use assms(1,2) in auto)

lemma apply_journaled_safe:
  assumes "safe s" "map_option cj_prior (jrn s) = Some prior" and "\<And>r s'. safe s' \<Longrightarrow> Q r s'"
  shows "wp (apply_journaled self selection prior) Q s"
  unfolding apply_journaled_def confirm_active_target_def confirm_target_def
  by (intro wp_rules wp_host_calls confirm_safe rollback_safe assms(3)) (use assms(1,2) in auto)

lemma take_over_safe:
  assumes "safe s" "jrn s = None" "cfg s (np_service_id prior) = Some prior" and "\<And>r s'. safe s' \<Longrightarrow> Q r s'"
  shows "wp (take_over self selection prior) Q s"
  unfolding take_over_def
  by (intro wp_rules wp_host_calls wp_status_rules apply_journaled_safe assms(4)) (use assms(1-3) in auto)

lemma reconcile_observed_safe:
  assumes "safe s" "jrn s = j" "cfg s (np_service_id prior) = Some prior" and "\<And>r s'. safe s' \<Longrightarrow> Q r s'"
  shows "wp (reconcile_observed self selection pre j prior) Q s"
  unfolding reconcile_observed_def
  by (intro wp_rules wp_host_calls wp_status_rules restore_safe take_over_safe assms(4)) (use assms(1-3) in auto)

lemma restore_then_fail_safe:
  assumes "safe s" and "\<And>r s'. safe s' \<Longrightarrow> Q r s'"
  shows "wp (restore_then_fail self selection j error) Q s"
  unfolding restore_then_fail_def
  by (intro wp_rules wp_status_rules restore_safe assms(2)) (use assms(1) in auto)

text \<open>A request to switch off that returns a status has removed the journal.\<close>

lemma reconcile_locked_safe:
  assumes "safe s"
    and "\<And>r s'. safe s' \<Longrightarrow>
      (\<not> (cq_active request \<and> cs_system_proxy (cq_selection request)) \<longrightarrow> (\<forall>st. r = Inr st \<longrightarrow> jrn s' = None))
      \<Longrightarrow> Q r s'"
  shows "wp (reconcile_locked_with_preflight self request healthy pre) Q s"
  unfolding reconcile_locked_with_preflight_def
  by (intro wp_rules wp_host_calls wp_status_rules load_validated_journal_safe restore_safe
        restore_then_fail_safe reconcile_observed_safe assms(2))
    (use assms(1) in auto)

lemma audit_service_changed_safe:
  assumes "safe s" "jrn s = Some j" "cfg s (np_service_id observed) = Some observed"
    "np_service_id (cj_prior j) \<noteq> np_service_id observed"
    and "\<And>r s'. safe s' \<Longrightarrow> Q r s'"
  shows "wp (audit_service_changed self current j observed) Q s"
  unfolding audit_service_changed_def
  by (intro wp_rules wp_host_calls wp_status_rules restore_exact_prior_safe apply_journaled_safe assms(5))
    (use assms(1-4) in auto)

text \<open>An audit never takes over: with no journal before it there is none after it.\<close>

lemma audit_locked_safe:
  assumes "safe s" and "\<And>r s'. safe s' \<Longrightarrow> jrn s = None \<longrightarrow> jrn s' = None \<Longrightarrow> Q r s'"
  shows "wp (audit_locked self healthy) Q s"
  unfolding audit_locked_def audit_observed_def
  by (intro wp_rules wp_host_calls wp_status_rules load_validated_journal_safe restore_safe
        audit_service_changed_safe assms(2))
    (use assms(1) in auto)

lemma preflight_safe:
  assumes "safe s" and "\<And>r s'. safe s' \<Longrightarrow> Q r s'"
  shows "wp (sp_preflight self) Q s"
  unfolding sp_preflight_def
  by (intro wp_rules wp_host_calls load_validated_journal_safe assms(2)) (use assms(1) in auto)

lemma perform_safe:
  assumes "safe s" "\<And>action healthy. c \<noteq> SC_Recover action healthy"
  shows "safe (sp_perform self c s)"
  by (rule sp_perform_invariant [where I = safe])
    (use assms in \<open>auto simp: all_recoverable_def worlds_def
      intro: preflight_safe reconcile_locked_safe audit_locked_safe\<close>)

end

end
