(* ===== verification/Capture_Effects_Laws.thy ===== *)
theory Capture_Effects_Laws
  imports Capture_Effects Proxy_Recovery
begin

text \<open>
  Laws of the effect adapter: one rule for each of its operations, for the status it shows and for
  the configuration of the user.
\<close>

section \<open>Rules\<close>

lemma wp_on_proxy: "wp f (\<lambda>r x. Q r (s\<lparr>as_proxy := x\<rparr>)) (as_proxy s) \<Longrightarrow> wp (on_proxy f) Q s"
  by (simp add: wp_def on_proxy_def split: prod.splits)

lemma wp_on_tun: "wp f (\<lambda>r x. Q r (s\<lparr>as_tun := x\<rparr>)) (as_tun s) \<Longrightarrow> wp (on_tun f) Q s"
  by (simp add: wp_def on_tun_def split: prod.splits)

lemma wp_with_tun:
  assumes "ad_tun self = None \<Longrightarrow> Q absent s"
    and "\<And>p. ad_tun self = Some p \<Longrightarrow> wp (f p) (\<lambda>r x. Q r (s\<lparr>as_tun := x\<rparr>)) (as_tun s)"
  shows "wp (with_tun self absent f) Q s"
  unfolding with_tun_def by (intro wp_rules wp_on_tun assms)

text \<open>An outcome without a value leaves nothing to bind.\<close>

lemma wp_case_done:
  fixes x :: "'e + unit"
  assumes "\<And>e. x = Inl e \<Longrightarrow> wp (f e) Q s" and "x = Inr () \<Longrightarrow> wp (g ()) Q s"
  shows "wp (case x of Inl e \<Rightarrow> f e | Inr v \<Rightarrow> g v) Q s"
  using assms by (cases x) simp_all

lemma wp_proxy_status [wp_rules]: "Q (rs_status (as_proxy s)) s \<Longrightarrow> wp (on_proxy status_now) Q s"
  by (intro wp_on_proxy wp_rules) simp

definition shown_tun :: "('v, 'w) capture_adapter \<Rightarrow> ('v, 'w) adapter_state \<Rightarrow> tun_status" where
  "shown_tun self s = (if ad_tun self = None then tun_off else ts_status (as_tun s))"

definition shown ::
  "('v, 'w) capture_adapter \<Rightarrow> capture_selection \<Rightarrow> ('v, 'w) adapter_state \<Rightarrow> capture_status" where
  "shown self selection s = combine selection (rs_status (as_proxy s)) (shown_tun self s)"

lemma wp_combined_status [wp_rules]: "Q (shown self selection s) s \<Longrightarrow> wp (combined_status self selection) Q s"
  unfolding combined_status_def
  by (intro wp_rules wp_with_tun) (auto simp: shown_def shown_tun_def)

lemma wp_adapter_availability:
  "(\<And>r. r = CA_Supported \<longrightarrow> ad_tun self \<noteq> None \<Longrightarrow> Q r s) \<Longrightarrow> wp (tun_availability self) Q s"
  unfolding tun_availability_def by (intro wp_with_tun wp_rules) auto

lemma wp_needs_disabling:
  "Q (ad_tun self \<noteq> None \<and> \<not> is_converged (ts_status (as_tun s)) False) s \<Longrightarrow> wp (tun_needs_disabling self) Q s"
  unfolding tun_needs_disabling_def by (intro wp_with_tun wp_rules) simp_all

section \<open>The status\<close>

abbreviation adapter_ok :: "('v, 'w) adapter_state \<Rightarrow> bool" where
  "adapter_ok s \<equiv> status_coherent (rs_status (as_proxy s)) \<and> tun_coherent (ts_status (as_tun s))"

lemma set_tun_ok:
  assumes "adapter_ok s"
    and "\<And>r s'. adapter_ok s' \<Longrightarrow> as_proxy s' = as_proxy s
      \<Longrightarrow> (ad_tun self \<noteq> None \<longrightarrow> tn_desired (ts_status (as_tun s')) = enabled
            \<and> (if isl r then tn_phase (ts_status (as_tun s')) = TP_Failed
               else tn_phase (ts_status (as_tun s')) \<in> {TP_Applied, TP_Off})) \<Longrightarrow> Q r s'"
  shows "wp (set_tun self enabled healthy) Q s"
  unfolding set_tun_def
  by (intro wp_rules wp_on_tun tun_reconcile_coherent assms(2)) (use assms(1) in \<open>auto split: sum.splits\<close>)

lemma set_system_proxy_ok:
  assumes "adapter_ok s" "\<And>r s'. adapter_ok s' \<Longrightarrow> as_tun s' = as_tun s \<Longrightarrow> Q r s'"
  shows "wp (set_system_proxy self enabled selection healthy pre) Q s"
  unfolding set_system_proxy_def reconcile_with_preflight_def
  by (intro wp_rules wp_on_proxy reconcile_locked_status assms(2)) (use assms(1) in auto)

lemma wp_record_rollback:
  assumes "adapter_ok s" "\<And>s'. adapter_ok s' \<Longrightarrow> as_tun s' = as_tun s \<Longrightarrow> Q () s'"
  shows "wp (on_proxy (record_drift_failure (rs_status (as_proxy s)) f)) Q s"
  by (intro wp_on_proxy wp_status_rules assms(2)) (use assms(1) in \<open>auto simp: status_coherent_shell\<close>)

lemma wp_tun_drift:
  assumes "adapter_ok s"
    "\<And>s'. adapter_ok s' \<Longrightarrow> (ad_tun self \<noteq> None \<longrightarrow> tn_phase (ts_status (as_tun s')) = TP_Drift) \<Longrightarrow> Q () s'"
  shows "wp (with_tun self () (\<lambda>_. tun_record_drift f)) Q s"
  unfolding tun_record_drift_def
  by (intro wp_with_tun wp_rules assms(2)) (use assms(1) in \<open>auto simp: tun_coherent_def\<close>)

lemma wp_tun_failed:
  assumes "adapter_ok s"
    "\<And>s'. adapter_ok s' \<Longrightarrow> (ad_tun self \<noteq> None \<longrightarrow> tn_phase (ts_status (as_tun s')) = TP_Failed) \<Longrightarrow> Q () s'"
  shows "wp (with_tun self () (\<lambda>_. do { previous \<leftarrow> tun_status_now;
           tun_record_failure True f (tn_observed previous) (tn_observation previous) })) Q s"
  unfolding tun_record_failure_def
  by (intro wp_with_tun wp_rules assms(2)) (use assms(1) in \<open>auto simp: tun_coherent_def\<close>)

lemma tun_refused_ok:
  assumes "adapter_ok s"
    "\<And>e s'. adapter_ok s'
       \<Longrightarrow> (ad_tun self \<noteq> None \<longrightarrow> tn_phase (ts_status (as_tun s')) = TP_Failed) \<Longrightarrow> Q (Inl e) s'"
  shows "wp (tun_refused self) Q s"
  unfolding tun_refused_def
  by (intro wp_rules wp_with_tun [where absent = TF_CapabilityUnavailable] wp_tun_failed assms(2))
    (use assms(1) in simp_all)

lemma undo_tun_off_ok:
  assumes "adapter_ok s" "\<And>e s'. adapter_ok s' \<Longrightarrow> (\<not> needed \<longrightarrow> s' = s) \<Longrightarrow> Q (Inl e) s'"
  shows "wp (undo_tun_off self needed healthy error) Q s"
  unfolding undo_tun_off_def
  by (intro wp_rules set_tun_ok wp_tun_drift assms(2)) (use assms(1) in simp_all)

lemma undo_both_ok:
  assumes "adapter_ok s" "ad_tun self \<noteq> None \<longrightarrow> tn_phase (ts_status (as_tun s)) = TP_Failed"
    "\<And>e s'. adapter_ok s'
       \<Longrightarrow> (ad_tun self \<noteq> None \<longrightarrow> tn_phase (ts_status (as_tun s')) \<in> {TP_Failed, TP_Drift}) \<Longrightarrow> Q (Inl e) s'"
  shows "wp (undo_both self previous healthy original) Q s"
  unfolding undo_both_def
  by (intro wp_rules set_system_proxy_ok set_tun_ok wp_record_rollback wp_tun_drift wp_tun_failed
        wp_with_tun [where absent = None] assms(3))
    (use assms(1,2) in \<open>auto simp: tun_coherent_def\<close>)

text \<open>
  A transition that fails with TUN asked for shows TUN as failed or drifted, unless it failed at the System Proxy,
  with TUN not touched yet.
\<close>

definition tun_not_claimed ::
  "('v, 'w) capture_adapter \<Rightarrow> ('v, 'w) adapter_state \<Rightarrow> ('v, 'w) adapter_state \<Rightarrow> bool" where
  "tun_not_claimed self s s' \<longleftrightarrow>
     ad_tun self = None \<or> as_tun s' = as_tun s \<or> tn_phase (ts_status (as_tun s')) \<in> {TP_Failed, TP_Drift}"

definition transitioned ::
  "('v, 'w) capture_adapter \<Rightarrow> capture_request \<Rightarrow> ('v, 'w) adapter_state \<Rightarrow> capture_status outcome
     \<Rightarrow> ('v, 'w) adapter_state \<Rightarrow> bool" where
  "transitioned self request s r s' \<longleftrightarrow>
     adapter_ok s'
     \<and> (case r of
          Inl _ \<Rightarrow> tun_desired request \<longrightarrow> tun_not_claimed self s s'
        | Inr st \<Rightarrow> st = shown self (cq_selection request) s' \<and> tn_desired (shown_tun self s') = tun_desired request)"

lemma transitioned_error:
  "adapter_ok s' \<Longrightarrow> (tun_desired request \<Longrightarrow> tun_not_claimed self s s') \<Longrightarrow> transitioned self request s (Inl e) s'"
  by (simp add: transitioned_def)

lemma transitioned_shown:
  "adapter_ok s' \<Longrightarrow> tn_desired (shown_tun self s') = tun_desired request
     \<Longrightarrow> transitioned self request s (Inr (shown self (cq_selection request) s')) s'"
  by (simp add: transitioned_def)

lemma set_tun_off_ok:
  assumes "adapter_ok s"
    and "\<And>r s'. adapter_ok s' \<Longrightarrow> \<not> isl r \<longrightarrow> \<not> tn_desired (shown_tun self s') \<Longrightarrow> Q r s'"
  shows "wp (set_tun self False healthy) Q s"
  by (intro set_tun_ok assms) (auto simp: shown_tun_def tun_off_def)

lemma set_tun_on_ok:
  assumes "adapter_ok s" "ad_tun self \<noteq> None"
    and "\<And>r s'. adapter_ok s' \<Longrightarrow> tn_desired (shown_tun self s')
      \<Longrightarrow> isl r \<longrightarrow> tn_phase (ts_status (as_tun s')) = TP_Failed \<Longrightarrow> Q r s'"
  shows "wp (set_tun self True healthy) Q s"
  by (intro set_tun_ok assms) (use assms(2) in \<open>auto simp: shown_tun_def tun_off_def\<close>)

lemma adapter_transition_ok:
  assumes "adapter_ok s" and "\<And>r s'. transitioned self request s r s' \<Longrightarrow> Q r s'"
  shows "wp (adapter_transition self request healthy pre previous) Q s"
proof (cases "tun_desired request")
  case True
  then show ?thesis
    unfolding adapter_transition_def
    by (intro wp_bind wp_if wp_return wp_case_done wp_combined_status wp_adapter_availability wp_needs_disabling set_tun_on_ok set_system_proxy_ok tun_refused_ok
          undo_tun_off_ok undo_both_ok assms(2) transitioned_error transitioned_shown)
      (use assms(1) in \<open>auto simp: tun_not_claimed_def\<close>)
next
  case False
  then show ?thesis
    unfolding adapter_transition_def
    by (intro wp_bind wp_if wp_return wp_case_done wp_combined_status wp_adapter_availability wp_needs_disabling set_tun_off_ok set_system_proxy_ok tun_refused_ok
          undo_tun_off_ok undo_both_ok assms(2) transitioned_error transitioned_shown)
      (use assms(1) in \<open>auto simp: is_converged_def shown_tun_def tun_off_def\<close>)
qed

lemma tun_audit_of_ok:
  assumes "adapter_ok s" "\<And>r s'. adapter_ok s' \<Longrightarrow> as_proxy s' = as_proxy s \<Longrightarrow> Q r s'"
  shows "wp (tun_audit_of self healthy) Q s"
  unfolding tun_audit_of_def
  by (intro wp_with_tun tun_audit_coherent assms(2)) (use assms(1) in simp_all)

lemma proxy_audit_ok:
  assumes "adapter_ok s" "\<And>r s'. adapter_ok s' \<Longrightarrow> as_tun s' = as_tun s \<Longrightarrow> Q r s'"
  shows "wp (on_proxy (audit_with_mutation (ad_system_proxy self) healthy)) Q s"
  unfolding audit_with_mutation_def
  by (intro wp_on_proxy wp_rules audit_locked_status assms(2)) (use assms(1) in auto)

lemma adapter_observe_ok:
  assumes "adapter_ok s"
    and "\<And>r s'. adapter_ok s' \<Longrightarrow> (\<forall>st. r = Inr st \<longrightarrow> st = shown self (cq_selection request) s') \<Longrightarrow> Q r s'"
  shows "wp (adapter_observe self request healthy) Q s"
  unfolding adapter_observe_def
  by (intro wp_rules proxy_audit_ok tun_audit_of_ok assms(2)) (use assms(1) in \<open>auto split: option.splits if_splits\<close>)

lemma adapter_perform_ok:
  assumes "adapter_ok s"
  shows "adapter_ok (adapter_perform self c s)"
proof -
  have "wp (adapter_preflight self request) (\<lambda>r. adapter_ok) s" for request
    unfolding adapter_preflight_def by (intro wp_rules wp_on_proxy preflight_status) (use assms in simp_all)
  moreover have "wp (effect_mutate self request healthy pre previous) (\<lambda>r. adapter_ok) s" for request healthy pre previous
    unfolding effect_mutate_def
    by (intro wp_rules adapter_transition_ok) (use assms in \<open>simp_all add: transitioned_def\<close>)
  moreover have "wp (effect_observe self request healthy) (\<lambda>r. adapter_ok) s" for request healthy
    unfolding effect_observe_def by (intro wp_rules adapter_observe_ok) (use assms in simp_all)
  moreover have "wp (adapter_audit_outcome self reason healthy previous) (\<lambda>r. adapter_ok) s" for reason healthy previous
    unfolding adapter_audit_outcome_def by (intro wp_rules proxy_audit_ok tun_audit_of_ok) (use assms in simp_all)
  moreover have "wp (effect_recover self action healthy request) (\<lambda>r. adapter_ok) s" for action healthy request
    unfolding effect_recover_def adapter_recover_def recover_def
    by (intro wp_rules wp_on_proxy recover_locked_status) (use assms in simp_all)
  moreover have "wp (adapter_shutdown self previous) (\<lambda>r. adapter_ok) s" for previous
    unfolding adapter_shutdown_def
    by (intro wp_rules wp_on_proxy load_validated_journal_status adapter_transition_ok adapter_observe_ok)
      (use assms in \<open>simp_all add: transitioned_def\<close>)
  ultimately show ?thesis
    by (cases c) (simp_all add: wp_iff)
qed

lemma adapter_run_invariant:
  assumes "I s" and "\<And>c s. I s \<Longrightarrow> I (adapter_perform self c s)"
  shows "I (adapter_run self cs s)"
  using assms(1) unfolding adapter_run_def
  by (induction cs arbitrary: s) (simp_all add: assms(2))

section \<open>What a confirmation rests on\<close>

text \<open>
  The TUN observation of an audit, in the log of a recording platform: made in this very call, and
  agreeing with the requested state at the clock reading after it; enabled also at the one after that.
\<close>

definition tun_seen :: "bool \<Rightarrow> helper_event list \<Rightarrow> helper_event list \<Rightarrow> bool" where
  "tun_seen enabled old new \<longleftrightarrow>
     (\<exists>later now ob. new = [HE_Now later, HE_Now now, HE_Tun (Inr ob)] @ old
        \<and> (if enabled then confirms_enabled_at ob now \<and> confirms_enabled_at ob later
           else confirms_disabled_at ob now))"

lemma wp_clock_log:
  "(\<And>now w. Q now (s\<lparr>ts_helper := (ts_helper s)\<lparr>hc_world := (w, HE_Now now # helper_log (ts_helper s))\<rparr>\<rparr>))
     \<Longrightarrow> wp (clock (helper_recording p)) Q s"
  unfolding clock_def helper_recording_sel by (intro wp_on_helper wp_ask_recorded)

lemma wp_observe_tun_log:
  assumes "\<And>e h. Q (Inl e) (s\<lparr>ts_helper := h\<rparr>)"
    and "\<And>ob h. helper_log h = HE_Tun (Inr ob) # helper_log (ts_helper s) \<Longrightarrow> Q (Inr ob) (s\<lparr>ts_helper := h\<rparr>)"
  shows "wp (on_helper (observe_tun (helper_recording p))) Q s"
proof -
  have "Q r (s\<lparr>ts_helper := (ts_helper s)\<lparr>hc_world := (w, HE_Tun r # helper_log (ts_helper s))\<rparr>\<rparr>)" for r w
    by (cases r) (auto intro!: assms)
  moreover have "Q (Inl e) s" for e
    using assms(1) [of e "ts_helper s"] by simp
  ultimately show ?thesis
    unfolding observe_tun_def helper_recording_sel
    by (intro wp_on_helper wp_rules wp_ask_recorded) simp_all
qed

lemma tun_audit_log:
  assumes "tun_coherent (ts_status s)"
    and "\<And>r s'. tun_coherent (ts_status s')
      \<Longrightarrow> (\<forall>st mutated. r = Inr (st, mutated) \<longrightarrow> ts_status s' = st
          \<and> (tn_phase st = TP_Applied \<longrightarrow> tun_seen True (helper_log (ts_helper s)) (helper_log (ts_helper s')))
          \<and> (tn_phase st = TP_Off \<longrightarrow> \<not> tn_desired (ts_status s) \<longrightarrow>
               tun_seen False (helper_log (ts_helper s)) (helper_log (ts_helper s'))
               \<or> st = ts_status s \<and> helper_availability_of (hc_snapshot (ts_helper s)) \<noteq> CA_Supported)) \<Longrightarrow> Q r s'"
  shows "wp (tun_audit (helper_recording p) healthy) Q s"
  unfolding tun_audit_def audit_unhealthy_core_def tun_record_drift_def tun_record_observed_drift_def
    tun_observed_state_now_def put_observed_def
  by (intro wp_rules wp_clock_log wp_observe_tun_log tun_reconcile_coherent assms(2))
    (use assms(1) in \<open>auto simp: tun_coherent_def tun_seen_def observed_enabled_iff
       dest: enabled_not_disabled split: if_splits\<close>)

fun recovers :: "adapter_call \<Rightarrow> bool" where
  "recovers (AC_Recover _ _ _) = True"
| "recovers _ = False"

section \<open>The user's configuration\<close>

text \<open>Programs that leave the System Proxy alone.\<close>

definition keeps_proxy :: "(('v, 'w) adapter_state, 'a) state \<Rightarrow> bool" where
  "keeps_proxy f \<longleftrightarrow> (\<forall>s. as_proxy (snd (run_state f s)) = as_proxy s)"

lemma keeps_proxy_ops:
  "keeps_proxy (with_tun self absent g)"
  "keeps_proxy (set_tun self enabled healthy)"
  "keeps_proxy (tun_audit_of self healthy)"
  "keeps_proxy (tun_availability self)"
  "keeps_proxy (tun_needs_disabling self)"
proof -
  show optional: "keeps_proxy (with_tun self absent g)" for absent g
    by (simp add: keeps_proxy_def with_tun_def on_tun_def split: option.splits prod.splits)
  show "keeps_proxy (tun_audit_of self healthy)" "keeps_proxy (tun_availability self)"
    "keeps_proxy (tun_needs_disabling self)"
    unfolding tun_audit_of_def tun_availability_def tun_needs_disabling_def by (rule optional)+
  show "keeps_proxy (set_tun self enabled healthy)"
    by (simp add: keeps_proxy_def set_tun_def on_tun_def split: option.splits prod.splits)
qed

lemma not_isl_map_sum: "\<not> isl (map_sum f g r) \<longleftrightarrow> (\<exists>x. r = Inr x)"
  by (cases r) simp_all

lemma wp_keeps_proxy: "keeps_proxy f \<Longrightarrow> (\<And>r s'. as_proxy s' = as_proxy s \<Longrightarrow> Q r s') \<Longrightarrow> wp f Q s"
  by (simp add: wp_iff keeps_proxy_def)

lemmas wp_keeps = keeps_proxy_ops [THEN wp_keeps_proxy]

text \<open>
  What every operation of the System Proxy reconciler keeps, whatever its status, the adapter keeps.
\<close>

lemma adapter_perform_proxy:
  assumes "I (as_proxy s)"
    and perform: "\<And>c x. I x \<Longrightarrow> I (sp_perform (ad_system_proxy self) c x)"
    and status: "\<And>x st. I x \<Longrightarrow> I (x\<lparr>rs_status := st\<rparr>)"
    and load: "\<And>x. I x \<Longrightarrow> wp (load_validated_journal (ad_system_proxy self)) (\<lambda>r. I) x"
  shows "I (as_proxy (adapter_perform self c s))"
proof -
  have op: "wp (sp_preflight (ad_system_proxy self)) (\<lambda>r. I) x"
    "wp (reconcile_with_preflight (ad_system_proxy self) request healthy pre) (\<lambda>r. I) x"
    "wp (audit_with_mutation (ad_system_proxy self) healthy) (\<lambda>r. I) x"
    "wp (recover (ad_system_proxy self) action healthy) (\<lambda>r. I) x"
    if "I x" for request healthy pre action x
    using perform [OF that, of SC_Preflight] perform [OF that, of "SC_Reconcile request healthy pre"]
      perform [OF that, of "SC_Audit healthy"] perform [OF that, of "SC_Recover action healthy"]
    by (simp_all add: wp_iff)
  have lifted: "wp (on_proxy f) Q x" if "wp f (\<lambda>r. I) (as_proxy x)" "\<And>r x'. I (as_proxy x') \<Longrightarrow> Q r x'"
    for f :: "('a sp_state, 'c) state" and Q x
    by (intro wp_on_proxy) (rule wp_mono [OF that(1)], simp add: that(2))
  have proxy: "wp (set_system_proxy self enabled selection healthy pre) Q x"
    if "I (as_proxy x)" "\<And>r x'. I (as_proxy x') \<Longrightarrow> Q r x'" for enabled selection healthy pre Q x
    unfolding set_system_proxy_def by (intro wp_rules lifted op that)
  have undo: "wp (undo_both self previous healthy e) Q x" "wp (undo_tun_off self needed healthy e) Q x"
    if "I (as_proxy x)" "\<And>r x'. I (as_proxy x') \<Longrightarrow> Q r x'" for previous healthy e needed Q x
    unfolding undo_both_def undo_tun_off_def
    by (intro wp_rules wp_keeps proxy wp_on_proxy wp_status_rules that(2); use that(1) status in simp)+
  have transition: "wp (adapter_transition self request healthy pre previous) Q x"
    if "I (as_proxy x)" "\<And>r x'. I (as_proxy x') \<Longrightarrow> Q r x'" for request healthy pre previous Q x
    unfolding adapter_transition_def tun_refused_def
    by (intro wp_bind wp_if wp_return wp_case_done wp_combined_status wp_keeps proxy undo that(2))
      (use that(1) in simp_all)
  have observe: "wp (adapter_observe self request healthy) Q x"
    if "I (as_proxy x)" "\<And>r x'. I (as_proxy x') \<Longrightarrow> Q r x'" for request healthy Q x
    unfolding adapter_observe_def by (intro wp_rules lifted op wp_keeps that(2)) (use that(1) in simp_all)
  have "wp (adapter_preflight self request) (\<lambda>r s'. I (as_proxy s')) s"
    "wp (effect_mutate self request healthy pre previous) (\<lambda>r s'. I (as_proxy s')) s"
    "wp (effect_observe self request healthy) (\<lambda>r s'. I (as_proxy s')) s"
    "wp (adapter_audit_outcome self reason healthy previous) (\<lambda>r s'. I (as_proxy s')) s"
    "wp (effect_recover self action healthy request) (\<lambda>r s'. I (as_proxy s')) s"
    "wp (adapter_shutdown self previous) (\<lambda>r s'. I (as_proxy s')) s"
    for request healthy pre previous reason action
    unfolding adapter_preflight_def effect_mutate_def effect_observe_def adapter_audit_outcome_def effect_recover_def
      adapter_recover_def adapter_shutdown_def
    by (intro wp_rules transition observe lifted op load wp_keeps; use assms(1) in simp)+
  then show ?thesis
    by (cases c) (simp_all add: wp_iff)
qed

text \<open>An adapter whose System Proxy reconciler works on a platform that keeps the contract.\<close>

locale hosted_adapter = hosted_reconciler p config journal ok proxy original
  for p :: "'v proxy_platform" and config and journal and ok and proxy and original +
  fixes self :: "('v \<times> 'v list, 'w) capture_adapter"
  assumes proxy_of: "ad_system_proxy self = proxy"
begin

lemma set_system_proxy_safe:
  assumes "safe (as_proxy s)"
    and "\<And>r s'. safe (as_proxy s') \<Longrightarrow> \<not> enabled \<longrightarrow> \<not> isl r \<longrightarrow> jrn (as_proxy s') = None \<Longrightarrow> Q r s'"
  shows "wp (set_system_proxy self enabled selection healthy pre) Q s"
  unfolding set_system_proxy_def reconcile_with_preflight_def proxy_of
  by (intro wp_rules wp_on_proxy reconcile_locked_safe assms(2))
    (use assms(1) in \<open>auto simp: not_isl_map_sum\<close>)

lemma undo_safe:
  assumes "safe (as_proxy s)" and "\<And>e s'. safe (as_proxy s') \<Longrightarrow> Q (Inl e) s'"
  shows "wp (undo_both self previous healthy error) Q s" "wp (undo_tun_off self needed healthy error) Q s"
  unfolding undo_both_def undo_tun_off_def
  by (intro wp_rules wp_keeps set_system_proxy_safe wp_on_proxy wp_status_rules assms(2);
      use assms(1) in simp)+

lemma adapter_transition_safe:
  assumes "safe (as_proxy s)"
    and "\<And>r s'. safe (as_proxy s') \<Longrightarrow> \<not> system_proxy_desired request \<longrightarrow> \<not> isl r \<longrightarrow> jrn (as_proxy s') = None \<Longrightarrow> Q r s'"
  shows "wp (adapter_transition self request healthy pre previous) Q s"
  unfolding adapter_transition_def tun_refused_def
  by (intro wp_bind wp_if wp_return wp_case_done wp_combined_status wp_keeps set_system_proxy_safe undo_safe assms(2))
    (use assms(1) in simp_all)

lemma adapter_observe_safe:
  assumes "safe (as_proxy s)"
    and "\<And>r s'. safe (as_proxy s') \<Longrightarrow> jrn (as_proxy s) = None \<longrightarrow> jrn (as_proxy s') = None \<Longrightarrow> Q r s'"
  shows "wp (adapter_observe self request healthy) Q s"
  unfolding adapter_observe_def audit_with_mutation_def proxy_of
  by (intro wp_rules wp_on_proxy wp_keeps audit_locked_safe assms(2)) (use assms(1) in simp_all)

text \<open>A shutdown that succeeds leaves no journal behind.\<close>

lemma adapter_shutdown_safe:
  assumes "safe (as_proxy s)"
    and "\<And>r s'. safe (as_proxy s') \<Longrightarrow> \<not> isl r \<longrightarrow> jrn (as_proxy s') = None \<Longrightarrow> Q r s'"
  shows "wp (adapter_shutdown self previous) Q s"
  unfolding adapter_shutdown_def proxy_of
  by (intro wp_rules wp_on_proxy load_validated_journal_safe adapter_transition_safe adapter_observe_safe assms(2))
    (use assms(1) in \<open>auto simp: system_proxy_desired_def\<close>)

lemma adapter_perform_safe:
  assumes "safe (as_proxy s)" "\<not> recovers c"
  shows "safe (as_proxy (adapter_perform self c s))"
proof -
  have "wp (adapter_preflight self request) (\<lambda>r s'. safe (as_proxy s')) s" for request
    unfolding adapter_preflight_def proxy_of
    by (intro wp_rules wp_on_proxy preflight_safe) (use assms(1) in simp_all)
  moreover have "wp (effect_mutate self request healthy pre previous) (\<lambda>r s'. safe (as_proxy s')) s"
    for request healthy pre previous
    unfolding effect_mutate_def by (intro wp_rules adapter_transition_safe) (use assms(1) in simp_all)
  moreover have "wp (effect_observe self request healthy) (\<lambda>r s'. safe (as_proxy s')) s" for request healthy
    unfolding effect_observe_def by (intro wp_rules adapter_observe_safe) (use assms(1) in simp_all)
  moreover have "wp (adapter_audit_outcome self reason healthy previous) (\<lambda>r s'. safe (as_proxy s')) s"
    for reason healthy previous
    unfolding adapter_audit_outcome_def audit_with_mutation_def proxy_of
    by (intro wp_rules wp_on_proxy wp_keeps audit_locked_safe) (use assms(1) in simp_all)
  moreover have "wp (adapter_shutdown self previous) (\<lambda>r s'. safe (as_proxy s')) s" for previous
    by (intro adapter_shutdown_safe) (use assms(1) in simp_all)
  ultimately show ?thesis
    using assms(2) by (cases c) (simp_all add: wp_iff)
qed

end

end
