(* ===== verification/Simulated_Proxy.thy ===== *)
theory Simulated_Proxy
  imports Proxy_Recovery
begin

text \<open>
  The System Proxy and journal of \<^verbatim>\<open>crates/simulated-host/src/lib.rs\<close>: a host that writes a
  service field by field, may fail at every effect a scenario names, shows a write only after
  a propagation delay, and keeps the journal in memory. It implements the two traits the reconciler
  runs on. A wait for the logical clock ends at the first time the waited-for
  observation is visible; the correlation of a transcript event and the production platform
  that can be attached for the writes are left out.
\<close>

section \<open>Scenarios\<close>

text \<open>The effects of the proxy and of the journal; the other variants only fill the transcript.\<close>

datatype effect_kind =
    EK_CaptureApply
  | EK_CaptureConfirmListener
  | EK_CaptureObserve
  | EK_WriteAutoDiscovery
  | EK_WriteBypass
  | EK_WriteHttp
  | EK_WriteHttps
  | EK_WritePac
  | EK_WriteSocks
  | EK_JournalClear
  | EK_JournalLoad
  | EK_JournalSave
  | EK_Other nat

datatype injected_failure_kind = IF_Observation | IF_Operation

record injected_failure =
  if_after_effect :: "effect_kind option"
  if_effect :: effect_kind
  if_kind :: injected_failure_kind
  if_occurrence :: "8 word"

datatype host_failure =
    HF_InvalidScenario
  | HF_LogicalTimeRegression
  | HF_InjectedFailure effect_kind injected_failure_kind
  | HF_TranscriptOverflow
  | HF_UndeclaredEffect effect_kind

record host_scenario =
  sn_declared_effects :: "effect_kind list"
  sn_failures :: "injected_failure list"
  sn_propagation_delay :: u64
  sn_transcript_limit :: nat

record pending_proxy_observation =
  po_state :: network_service_proxy_state
  po_visible_at :: u64
  po_stale_observation_returned :: bool

record sim_model =
  sm_effect_occurrences :: "effect_kind \<Rightarrow> 8 word"
  sm_journal :: "capture_journal option"
  sm_logical_time :: u64
  sm_pending :: "pending_proxy_observation option"
  sm_proxy_state :: network_service_proxy_state
  sm_actual_revision :: u64
  sm_observed_revision :: u64
  sm_proxy_observation :: network_service_proxy_state
  sm_transcript :: "effect_kind list"

definition SYNTHETIC_SERVICE_ID :: string where
  "SYNTHETIC_SERVICE_ID = ''synthetic-primary-service''"

definition disabled_proxy_state :: network_service_proxy_state where
  "disabled_proxy_state =
     \<lparr>np_auto_discovery_enabled = False, np_bypass_domains = [], np_http = manual_disabled,
      np_https = manual_disabled, np_pac_enabled = False, np_pac_url = ''(null)'',
      np_service_id = SYNTHETIC_SERVICE_ID, np_socks = manual_disabled\<rparr>"

datatype synthetic_proxy_state =
    SY_Authenticated
  | SY_AutoDiscovery
  | SY_DisabledPopulated
  | SY_Disabled
  | SY_Manual
  | SY_Pac
  | SY_UnsafeIncomplete

definition populated :: "bool \<Rightarrow> bool \<Rightarrow> string \<Rightarrow> 16 word \<Rightarrow> manual_proxy_state" where
  "populated enabled authenticated name port =
     \<lparr>mp_authenticated = authenticated, mp_enabled = enabled, mp_host = name @ ''.proxy.invalid'', mp_port = port\<rparr>"

fun materialize :: "synthetic_proxy_state \<Rightarrow> network_service_proxy_state" where
  "materialize SY_Disabled = disabled_proxy_state"
| "materialize SY_Manual =
     \<lparr>np_auto_discovery_enabled = False, np_bypass_domains = [''internal.invalid'', ''*.test''],
      np_http = populated True False ''http'' 8080, np_https = populated True False ''https'' 8443,
      np_pac_enabled = False, np_pac_url = ''https://pac.invalid/manual.pac'',
      np_service_id = SYNTHETIC_SERVICE_ID, np_socks = populated True False ''socks'' 1080\<rparr>"
| "materialize SY_DisabledPopulated =
     \<lparr>np_auto_discovery_enabled = False, np_bypass_domains = [''internal.invalid'', ''*.test''],
      np_http = populated False False ''http'' 8080, np_https = populated False False ''https'' 8443,
      np_pac_enabled = False, np_pac_url = ''https://pac.invalid/disabled.pac'',
      np_service_id = SYNTHETIC_SERVICE_ID, np_socks = populated False False ''socks'' 1080\<rparr>"
| "materialize SY_Pac =
     disabled_proxy_state\<lparr>np_pac_enabled := True, np_pac_url := ''https://pac.invalid/config.pac'',
                           np_bypass_domains := [''internal.invalid'']\<rparr>"
| "materialize SY_AutoDiscovery =
     disabled_proxy_state\<lparr>np_auto_discovery_enabled := True, np_bypass_domains := [''*.test'']\<rparr>"
| "materialize SY_Authenticated =
     disabled_proxy_state\<lparr>np_http := populated True True ''authenticated'' 8080\<rparr>"
| "materialize SY_UnsafeIncomplete =
     disabled_proxy_state\<lparr>np_https := \<lparr>mp_authenticated = False, mp_enabled = True, mp_host = [], mp_port = 0\<rparr>\<rparr>"

definition sim_new :: "network_service_proxy_state \<Rightarrow> sim_model" where
  "sim_new start =
     \<lparr>sm_effect_occurrences = (\<lambda>_. 0), sm_journal = None, sm_logical_time = 0, sm_pending = None,
      sm_proxy_state = start, sm_actual_revision = 0, sm_observed_revision = 0,
      sm_proxy_observation = start, sm_transcript = []\<rparr>"

section \<open>Effects\<close>

text \<open>The events after the last one of a kind, if there is one.\<close>

definition after_last :: "effect_kind \<Rightarrow> effect_kind list \<Rightarrow> effect_kind list option" where
  "after_last effect transcript =
     (if effect \<in> set transcript then Some (rev (takeWhile (\<lambda>e. e \<noteq> effect) (rev transcript))) else None)"

definition failure_matches :: "injected_failure \<Rightarrow> effect_kind \<Rightarrow> 8 word \<Rightarrow> effect_kind list \<Rightarrow> bool" where
  "failure_matches failure effect_kind occurrence transcript \<longleftrightarrow>
     if_effect failure = effect_kind
     \<and> (case if_after_effect failure of
          None \<Rightarrow> if_occurrence failure = occurrence
        | Some after_effect \<Rightarrow>
            (case after_last after_effect transcript of
               None \<Rightarrow> False
             | Some later \<Rightarrow>
                 unat (if_occurrence failure) = length (filter (\<lambda>e. e = effect_kind) later) + 1))"

definition emit_failure ::
  "host_scenario \<Rightarrow> effect_kind \<Rightarrow> 8 word \<Rightarrow> effect_kind list \<Rightarrow> host_failure option" where
  "emit_failure scenario effect_kind occurrence transcript =
     (if effect_kind \<notin> set (sn_declared_effects scenario) then Some (HF_UndeclaredEffect effect_kind)
      else map_option (\<lambda>failure. HF_InjectedFailure effect_kind (if_kind failure))
             (find (\<lambda>failure. failure_matches failure effect_kind occurrence transcript) (sn_failures scenario)))"

definition sim_emit :: "host_scenario \<Rightarrow> effect_kind \<Rightarrow> (sim_model, host_failure option) state" where
  "sim_emit scenario effect_kind = State (\<lambda>m.
     let seen = sm_effect_occurrences m effect_kind;
         occurrence = (if seen = - 1 then seen else seen + 1);
         m = m\<lparr>sm_effect_occurrences := (sm_effect_occurrences m)(effect_kind := occurrence)\<rparr>;
         failure = emit_failure scenario effect_kind occurrence (sm_transcript m)
     in if length (sm_transcript m) = sn_transcript_limit scenario then (Some HF_TranscriptOverflow, m)
        else (failure, m\<lparr>sm_transcript := sm_transcript m @ [effect_kind]\<rparr>))"

definition sim_capture_error :: "host_failure \<Rightarrow> capture_error" where
  "sim_capture_error error =
     error_new (case error of HF_InjectedFailure _ IF_Observation \<Rightarrow> CF_ObservationFailed | _ \<Rightarrow> CF_ApplyFailed)
       ''The simulated host rejected an undeclared effect''"

text \<open>An effect that must be emitted before its answer is given.\<close>

definition after_emit :: "host_scenario \<Rightarrow> effect_kind \<Rightarrow> (sim_model, 'a) state \<Rightarrow> (sim_model, 'a outcome) state" where
  "after_emit scenario effect_kind f =
     do { failure \<leftarrow> sim_emit scenario effect_kind;
          case failure of
            Some error \<Rightarrow> State_Monad.return (Inl (sim_capture_error error))
          | None \<Rightarrow> do { r \<leftarrow> f; State_Monad.return (Inr r) } }"

section \<open>Observation\<close>

definition publish_visible :: "sim_model \<Rightarrow> sim_model" where
  "publish_visible m =
     (case sm_pending m of
        None \<Rightarrow> m
      | Some pending \<Rightarrow>
          if po_visible_at pending \<le> sm_logical_time m
          then m\<lparr>sm_pending := None, sm_proxy_observation := po_state pending,
                 sm_observed_revision := sm_actual_revision m\<rparr>
          else m)"

definition next_observation :: "sim_model \<Rightarrow> network_service_proxy_state \<times> sim_model" where
  "next_observation m =
     (let m = publish_visible m in
      case sm_pending m of
        None \<Rightarrow> (sm_proxy_observation m, m)
      | Some pending \<Rightarrow>
          if po_stale_observation_returned pending
          then let m = publish_visible (m\<lparr>sm_logical_time := po_visible_at pending\<rparr>) in (sm_proxy_observation m, m)
          else (sm_proxy_observation m,
                m\<lparr>sm_pending := Some (pending\<lparr>po_stale_observation_returned := True\<rparr>)\<rparr>))"

definition sim_observe :: "host_scenario \<Rightarrow> (sim_model, network_service_proxy_state outcome) state" where
  "sim_observe scenario =
     do { state \<leftarrow> State next_observation;
          after_emit scenario EK_CaptureObserve (State_Monad.return state) }"

section \<open>Writing\<close>

fun write_field :: "effect_kind \<Rightarrow> network_service_proxy_state \<Rightarrow> network_service_proxy_state \<Rightarrow> network_service_proxy_state" where
  "write_field EK_WriteAutoDiscovery target state =
     state\<lparr>np_auto_discovery_enabled := np_auto_discovery_enabled target\<rparr>"
| "write_field EK_WritePac target state =
     state\<lparr>np_pac_enabled := np_pac_enabled target, np_pac_url := np_pac_url target\<rparr>"
| "write_field EK_WriteHttp target state = state\<lparr>np_http := np_http target\<rparr>"
| "write_field EK_WriteHttps target state = state\<lparr>np_https := np_https target\<rparr>"
| "write_field EK_WriteSocks target state = state\<lparr>np_socks := np_socks target\<rparr>"
| "write_field EK_WriteBypass target state = state\<lparr>np_bypass_domains := np_bypass_domains target\<rparr>"
| "write_field _ target state = state"

definition proxy_writes :: "effect_kind list" where
  "proxy_writes =
     [EK_WriteAutoDiscovery, EK_WritePac, EK_WriteHttp, EK_WriteHttps, EK_WriteSocks, EK_WriteBypass]"

definition expose_partial_proxy_write :: "sim_model \<Rightarrow> sim_model" where
  "expose_partial_proxy_write m =
     m\<lparr>sm_proxy_observation := sm_proxy_state m, sm_observed_revision := sm_actual_revision m, sm_pending := None\<rparr>"

definition finish_proxy_application :: "host_scenario \<Rightarrow> sim_model \<Rightarrow> sim_model" where
  "finish_proxy_application scenario m =
     (if sn_propagation_delay scenario = 0
      then m\<lparr>sm_proxy_observation := sm_proxy_state m, sm_observed_revision := sm_actual_revision m, sm_pending := None\<rparr>
      else m\<lparr>sm_pending :=
               Some \<lparr>po_state = sm_proxy_state m,
                     po_visible_at = saturating_add (sm_logical_time m) (sn_propagation_delay scenario),
                     po_stale_observation_returned = False\<rparr>\<rparr>)"

fun sim_write_fields ::
  "host_scenario \<Rightarrow> network_service_proxy_state \<Rightarrow> effect_kind list \<Rightarrow> (sim_model, unit outcome) state" where
  "sim_write_fields scenario target [] =
     do { State_Monad.update (finish_proxy_application scenario); State_Monad.return (Inr ()) }"
| "sim_write_fields scenario target (effect # writes) =
     do { State_Monad.update (\<lambda>m. m\<lparr>sm_proxy_state := write_field effect target (sm_proxy_state m),
                                    sm_actual_revision := saturating_add (sm_actual_revision m) 1\<rparr>);
          failure \<leftarrow> sim_emit scenario effect;
          case failure of
            Some error \<Rightarrow>
              do { State_Monad.update expose_partial_proxy_write;
                   State_Monad.return (Inl (sim_capture_error error)) }
          | None \<Rightarrow> sim_write_fields scenario target writes }"

definition sim_apply_service :: "host_scenario \<Rightarrow> network_service_proxy_state \<Rightarrow> (sim_model, unit outcome) state" where
  "sim_apply_service scenario target =
     do { failure \<leftarrow> sim_emit scenario EK_CaptureApply;
          case failure of
            Some error \<Rightarrow> State_Monad.return (Inl (sim_capture_error error))
          | None \<Rightarrow> sim_write_fields scenario target proxy_writes }"

section \<open>The journal and the traits\<close>

definition sim_load :: "host_scenario \<Rightarrow> (sim_model, capture_journal option outcome) state" where
  "sim_load scenario =
     after_emit scenario EK_JournalLoad (do { m \<leftarrow> State_Monad.get; State_Monad.return (sm_journal m) })"

definition sim_save :: "host_scenario \<Rightarrow> capture_journal \<Rightarrow> (sim_model, unit outcome) state" where
  "sim_save scenario journal =
     after_emit scenario EK_JournalSave (State_Monad.update (\<lambda>m. m\<lparr>sm_journal := Some journal\<rparr>))"

definition sim_clear :: "host_scenario \<Rightarrow> (sim_model, unit outcome) state" where
  "sim_clear scenario =
     after_emit scenario EK_JournalClear (State_Monad.update (\<lambda>m. m\<lparr>sm_journal := None\<rparr>))"

definition sim_confirmation_window :: "host_scenario \<Rightarrow> confirmation_window" where
  "sim_confirmation_window scenario =
     (if sn_propagation_delay scenario = 0 then window_immediate else window_bounded 3 0 0)"

definition sim_platform :: "host_scenario \<Rightarrow> sim_model proxy_platform" where
  "sim_platform scenario =
     \<lparr>pp_availability = (\<lambda>_. CA_Supported),
      pp_window = sim_confirmation_window scenario,
      pp_before_deadline = State_Monad.return True,
      pp_preflight_observe_active = sim_observe scenario,
      pp_observe_active = sim_observe scenario,
      pp_observe_service = (\<lambda>_. sim_observe scenario),
      pp_apply_service = sim_apply_service scenario,
      pp_confirm_proxy_listener =
        (\<lambda>_. after_emit scenario EK_CaptureConfirmListener (State_Monad.return ())),
      pp_load = sim_load scenario,
      pp_save = sim_save scenario,
      pp_clear = sim_clear scenario\<rparr>"

section \<open>The contract\<close>

text \<open>Without a propagation delay an observation shows what was written, fully or in part.\<close>

definition sim_config :: "sim_model \<Rightarrow> (string \<rightharpoonup> network_service_proxy_state)" where
  "sim_config m = [np_service_id (sm_proxy_state m) \<mapsto> sm_proxy_state m]"

definition sim_wf :: "sim_model \<Rightarrow> bool" where
  "sim_wf m \<longleftrightarrow> sm_pending m = None \<and> sm_proxy_observation m = sm_proxy_state m"

definition undelayed :: "host_scenario \<Rightarrow> host_scenario" where
  "undelayed scenario = scenario\<lparr>sn_propagation_delay := 0\<rparr>"

lemma emit_fields:
  assumes "run_state (sim_emit sc k) m = (failure, m')"
  shows "sm_proxy_state m' = sm_proxy_state m" "sm_proxy_observation m' = sm_proxy_observation m"
    "sm_pending m' = sm_pending m" "sm_journal m' = sm_journal m"
  using assms by (auto simp: sim_emit_def Let_def split: if_splits)

lemma write_field_owned:
  assumes "target = a \<or> target = b" "is_transaction_owned_between st a b"
  shows "is_transaction_owned_between (write_field k target st) a b"
  using assms(1,2) by (elim disjE; cases k; simp add: is_transaction_owned_between_def)

lemma write_field_service [simp]: "np_service_id (write_field k target st) = np_service_id st"
  by (cases k) simp_all

lemma write_fields_contract:
  assumes "run_state (sim_write_fields (undelayed sc) target ks) m = (r, m')"
  shows "sim_wf m' \<and> sm_journal m' = sm_journal m
    \<and> np_service_id (sm_proxy_state m') = np_service_id (sm_proxy_state m)
    \<and> (\<forall>a b. target = a \<or> target = b \<longrightarrow> is_transaction_owned_between (sm_proxy_state m) a b
         \<longrightarrow> is_transaction_owned_between (sm_proxy_state m') a b)"
  using assms
proof (induction ks arbitrary: m)
  case Nil
  then show ?case
    by (auto simp: State_Monad.update_def finish_proxy_application_def undelayed_def sim_wf_def)
next
  case (Cons k ks)
  let ?m = "m\<lparr>sm_proxy_state := write_field k target (sm_proxy_state m),
              sm_actual_revision := saturating_add (sm_actual_revision m) 1\<rparr>"
  obtain failure m1 where emit: "run_state (sim_emit (undelayed sc) k) ?m = (failure, m1)"
    by (cases "run_state (sim_emit (undelayed sc) k) ?m")
  note fields = emit_fields [OF emit]
  show ?case
  proof (cases failure)
    case None
    then have "run_state (sim_write_fields (undelayed sc) target ks) m1 = (r, m')"
      using Cons.prems emit by (simp add: State_Monad.update_def)
    from Cons.IH [OF this] show ?thesis
      using fields write_field_owned [of target _ _ "sm_proxy_state m" k] by auto
  next
    case (Some e)
    then show ?thesis
      using Cons.prems emit fields write_field_owned [of target _ _ "sm_proxy_state m" k]
      by (auto simp: State_Monad.update_def expose_partial_proxy_write_def sim_wf_def)
  qed
qed

lemma after_emit_cases:
  assumes "run_state (after_emit sc k f) m = (r, m')"
  obtains m1 where "sm_proxy_state m1 = sm_proxy_state m" "sm_proxy_observation m1 = sm_proxy_observation m"
    "sm_pending m1 = sm_pending m" "sm_journal m1 = sm_journal m"
    "isl r \<and> m' = m1 \<or> (\<exists>x. r = Inr x \<and> run_state f m1 = (x, m'))"
proof -
  obtain failure m1 where emit: "run_state (sim_emit sc k) m = (failure, m1)"
    by (cases "run_state (sim_emit sc k) m")
  show ?thesis
    using assms emit emit_fields [OF emit] that [of m1]
    by (cases failure; cases "run_state f m1") (auto simp: after_emit_def)
qed

lemma observe_contract:
  assumes "sim_wf m" "run_state (sim_observe sc) m = (r, m')"
  shows "sim_wf m' \<and> sim_config m' = sim_config m \<and> sm_journal m' = sm_journal m
    \<and> (\<forall>c. r = Inr c \<longrightarrow> sim_config m (np_service_id c) = Some c)"
proof -
  have next_m: "next_observation m = (sm_proxy_state m, m)"
    using assms(1) by (simp add: next_observation_def publish_visible_def sim_wf_def)
  then have "run_state (after_emit sc EK_CaptureObserve (State_Monad.return (sm_proxy_state m))) m = (r, m')"
    using assms(2) by (simp add: sim_observe_def)
  then show ?thesis
    by (rule after_emit_cases) (use assms(1) in \<open>auto simp: sim_wf_def sim_config_def\<close>)
qed

lemma apply_contract:
  assumes "sim_wf m" "run_state (sim_apply_service (undelayed sc) target) m = (r, m')"
    "sim_config m (np_service_id target) = Some c"
  shows "sim_wf m' \<and> sm_journal m' = sm_journal m
    \<and> (\<forall>sid. sid \<noteq> np_service_id target \<longrightarrow> sim_config m' sid = sim_config m sid)
    \<and> (\<exists>c'. sim_config m' (np_service_id target) = Some c'
         \<and> (\<forall>a b. target = a \<or> target = b \<longrightarrow> is_transaction_owned_between c a b
              \<longrightarrow> is_transaction_owned_between c' a b))"
proof -
  obtain failure m1 where emit: "run_state (sim_emit (undelayed sc) EK_CaptureApply) m = (failure, m1)"
    by (cases "run_state (sim_emit (undelayed sc) EK_CaptureApply) m")
  note fields = emit_fields [OF emit]
  have c: "c = sm_proxy_state m" "np_service_id (sm_proxy_state m) = np_service_id target"
    using assms(3) by (auto simp: sim_config_def split: if_splits)
  show ?thesis
  proof (cases failure)
    case None
    then have "run_state (sim_write_fields (undelayed sc) target proxy_writes) m1 = (r, m')"
      using assms(2) emit by (simp add: sim_apply_service_def)
    from write_fields_contract [OF this] show ?thesis
      using c fields by (auto simp: sim_config_def)
  next
    case (Some e)
    then show ?thesis
      using assms(1,2) emit c fields by (auto simp: sim_apply_service_def sim_config_def sim_wf_def)
  qed
qed

lemma journal_contract:
  assumes "sim_wf m"
  shows "run_state (sim_load sc) m = (rl, m') \<Longrightarrow>
      sim_wf m' \<and> sim_config m' = sim_config m \<and> sm_journal m' = sm_journal m \<and> (\<forall>j. rl = Inr j \<longrightarrow> sm_journal m = j)"
    and "run_state (sim_save sc j) m = (ru, m') \<Longrightarrow>
      sim_wf m' \<and> sim_config m' = sim_config m \<and> (sm_journal m' = Some j \<or> isl ru \<and> sm_journal m' = sm_journal m)"
    and "run_state (sim_clear sc) m = (ru, m') \<Longrightarrow>
      sim_wf m' \<and> sim_config m' = sim_config m \<and> (sm_journal m' = None \<or> isl ru \<and> sm_journal m' = sm_journal m)"
    and "run_state (after_emit sc k (State_Monad.return ())) m = (ru, m') \<Longrightarrow>
      sim_wf m' \<and> sim_config m' = sim_config m \<and> sm_journal m' = sm_journal m"
  unfolding sim_load_def sim_save_def sim_clear_def
  by (erule after_emit_cases; use assms in \<open>auto simp: sim_wf_def sim_config_def State_Monad.update_def\<close>)+

interpretation sim: proxy_host "sim_platform (undelayed sc)" sim_config sm_journal sim_wf for sc
proof (unfold_locales, unfold sim_platform_def proxy_platform.simps, goal_cases)
  case (1 w sid c)
  then show ?case by (auto simp: sim_config_def split: if_splits)
next
  case (5 w in_time w')
  then show ?case by simp
next
  case (7 w target ru w' c)
  then show ?case by (rule apply_contract)
qed (use observe_contract journal_contract in metis)+

end
