(* ===== verification/Simulated_Roundtrip.thy ===== *)
theory Simulated_Roundtrip
  imports Simulated_Proxy
begin

text \<open>
  The reconciler on a simulated host whose effects all succeed, with any propagation delay:
  what an observation, a write and a confirmation then return. The transcript is the only
  resource that runs out, so its length is tracked.
\<close>

definition proxy_effects :: "effect_kind list" where
  "proxy_effects =
     [EK_CaptureApply, EK_CaptureConfirmListener, EK_CaptureObserve, EK_JournalClear, EK_JournalLoad,
      EK_JournalSave] @ proxy_writes"

definition faultless :: "host_scenario \<Rightarrow> bool" where
  "faultless sc \<longleftrightarrow> set proxy_effects \<subseteq> set (sn_declared_effects sc) \<and> sn_failures sc = []"

abbreviation used :: "sim_model \<Rightarrow> nat" where
  "used m \<equiv> length (sm_transcript m)"

lemma emit_faultless:
  assumes "faultless sc" "k \<in> set proxy_effects" "used m < sn_transcript_limit sc"
  shows "fst (run_state (sim_emit sc k) m) = None" "used (snd (run_state (sim_emit sc k) m)) = used m + 1"
  using assms by (auto simp: sim_emit_def emit_failure_def faultless_def Let_def)

lemma wp_emit:
  assumes "faultless sc" "k \<in> set proxy_effects" "used m < sn_transcript_limit sc"
    and "\<And>m'. sm_proxy_state m' = sm_proxy_state m \<Longrightarrow> sm_proxy_observation m' = sm_proxy_observation m
      \<Longrightarrow> sm_pending m' = sm_pending m \<Longrightarrow> sm_journal m' = sm_journal m \<Longrightarrow> used m' = used m + 1 \<Longrightarrow> Q None m'"
  shows "wp (sim_emit sc k) Q m"
proof -
  obtain failure m' where emit: "run_state (sim_emit sc k) m = (failure, m')"
    by (cases "run_state (sim_emit sc k) m")
  have "Q None m'"
    using emit_fields [OF emit] emit_faultless(2) [OF assms(1-3)] emit by (intro assms(4)) simp_all
  then show ?thesis
    using emit emit_faultless(1) [OF assms(1-3)] by (simp add: wp_def)
qed

text \<open>At rest: nothing pending, the observation is the configuration.\<close>

definition at_rest :: "network_service_proxy_state \<Rightarrow> sim_model \<Rightarrow> bool" where
  "at_rest st m \<longleftrightarrow> sm_pending m = None \<and> sm_proxy_observation m = st \<and> sm_proxy_state m = st"

text \<open>On its way: written, but an observation may still return the previous configuration once.\<close>

definition on_its_way :: "network_service_proxy_state \<Rightarrow> network_service_proxy_state \<Rightarrow> bool \<Rightarrow> sim_model \<Rightarrow> bool" where
  "on_its_way old new stale m \<longleftrightarrow>
     sm_proxy_state m = new \<and> sm_proxy_observation m = old
     \<and> (\<exists>po. sm_pending m = Some po \<and> po_state po = new \<and> po_stale_observation_returned po = stale)"

lemma wp_observe_at_rest:
  assumes "faultless sc" "used m < sn_transcript_limit sc" "at_rest st m"
    and "\<And>m'. at_rest st m' \<Longrightarrow> sm_journal m' = sm_journal m \<Longrightarrow> used m' = used m + 1 \<Longrightarrow> Q (Inr st) m'"
  shows "wp (sim_observe sc) Q m"
proof -
  have "next_observation m = (st, m)"
    using assms(3) by (simp add: next_observation_def publish_visible_def at_rest_def)
  then have "wp (State next_observation) (\<lambda>r. wp (after_emit sc EK_CaptureObserve (State_Monad.return r)) Q) m"
    unfolding wp_def [of "State next_observation"] after_emit_def
    by simp (intro wp_rules wp_emit assms(1,2,4); use assms(3) in \<open>simp add: proxy_effects_def at_rest_def\<close>)
  then show ?thesis
    unfolding sim_observe_def by (intro wp_rules)
qed

lemma next_observation_on_its_way:
  assumes "on_its_way old new stale m"
  obtains m' where "next_observation m = (new, m')" "at_rest new m'" "sm_journal m' = sm_journal m" "used m' = used m"
  | m' where "next_observation m = (old, m')" "\<not> stale" "on_its_way old new True m'"
      "sm_journal m' = sm_journal m" "used m' = used m"
proof -
  obtain po where po: "sm_pending m = Some po" "po_state po = new" "po_stale_observation_returned po = stale"
    and m: "sm_proxy_state m = new" "sm_proxy_observation m = old"
    using assms by (auto simp: on_its_way_def)
  show ?thesis
  proof (cases "po_visible_at po \<le> sm_logical_time m \<or> stale")
    case True
    have "next_observation m = (new, snd (next_observation m)) \<and> at_rest new (snd (next_observation m))
        \<and> sm_journal (snd (next_observation m)) = sm_journal m \<and> used (snd (next_observation m)) = used m"
      using True po m by (auto simp: next_observation_def publish_visible_def at_rest_def)
    then show ?thesis
      by (elim conjE) (rule that(1))
  next
    case False
    have "next_observation m = (old, snd (next_observation m)) \<and> on_its_way old new True (snd (next_observation m))
        \<and> sm_journal (snd (next_observation m)) = sm_journal m \<and> used (snd (next_observation m)) = used m"
      using False po m by (simp add: next_observation_def publish_visible_def on_its_way_def)
    then show ?thesis
      using False that(2) [of "snd (next_observation m)"] by auto
  qed
qed

lemma wp_observe_on_its_way:
  assumes "faultless sc" "used m < sn_transcript_limit sc" "on_its_way old new stale m"
    and "\<And>m'. at_rest new m' \<Longrightarrow> sm_journal m' = sm_journal m \<Longrightarrow> used m' = used m + 1 \<Longrightarrow> Q (Inr new) m'"
    and "\<And>m'. \<not> stale \<Longrightarrow> on_its_way old new True m' \<Longrightarrow> sm_journal m' = sm_journal m \<Longrightarrow> used m' = used m + 1
      \<Longrightarrow> Q (Inr old) m'"
  shows "wp (sim_observe sc) Q m"
  using next_observation_on_its_way [OF assms(3)]
proof cases
  case (1 m1)
  have "wp (after_emit sc EK_CaptureObserve (State_Monad.return new)) Q m1"
    unfolding after_emit_def
    by (intro wp_rules wp_emit assms(1,4)) (use 1 assms(2) in \<open>simp_all add: proxy_effects_def at_rest_def\<close>)
  then show ?thesis
    unfolding sim_observe_def using 1(1) by (intro wp_rules) (simp add: wp_def)
next
  case (2 m1)
  have "wp (after_emit sc EK_CaptureObserve (State_Monad.return old)) Q m1"
    unfolding after_emit_def
    by (intro wp_rules wp_emit assms(1,5)) (use 2 assms(2) in \<open>simp_all add: proxy_effects_def on_its_way_def\<close>)
  then show ?thesis
    unfolding sim_observe_def using 2(1) by (intro wp_rules) (simp add: wp_def)
qed

lemma wp_write_fields:
  assumes "faultless sc" "set ks \<subseteq> set proxy_writes" "used m + length ks \<le> sn_transcript_limit sc"
    and "sm_pending m = None" "sm_proxy_observation m = old"
    and "\<And>m'. at_rest new m' \<or> on_its_way old new False m' \<and> sn_propagation_delay sc \<noteq> 0 \<Longrightarrow> sm_journal m' = sm_journal m
      \<Longrightarrow> used m' = used m + length ks \<Longrightarrow> Q (Inr ()) m'"
    and "fold (\<lambda>k. write_field k target) ks (sm_proxy_state m) = new"
  shows "wp (sim_write_fields sc target ks) Q m"
  using assms(2-7)
proof (induction ks arbitrary: m)
  case Nil
  show ?case
    unfolding sim_write_fields.simps
    by (intro wp_rules Nil(5)) (use Nil(3,4,6) in
      \<open>auto simp: finish_proxy_application_def at_rest_def on_its_way_def\<close>)
next
  case (Cons k ks)
  show ?case
    unfolding sim_write_fields.simps
    by (intro wp_rules wp_emit assms(1) Cons.IH Cons.prems(5))
      (use Cons.prems(1-4,6) in \<open>auto simp: proxy_effects_def\<close>)
qed

lemma wp_apply:
  assumes "faultless sc" "used m + 7 \<le> sn_transcript_limit sc" "at_rest old m"
    "np_service_id target = np_service_id old"
    and "\<And>m'. at_rest target m' \<or> on_its_way old target False m' \<and> sn_propagation_delay sc \<noteq> 0 \<Longrightarrow> sm_journal m' = sm_journal m
      \<Longrightarrow> used m' = used m + 7 \<Longrightarrow> Q (Inr ()) m'"
  shows "wp (sim_apply_service sc target) Q m"
proof -
  have new: "fold (\<lambda>k. write_field k target) proxy_writes old = target"
    using assms(4) by (simp add: proxy_writes_def)
  show ?thesis
    unfolding sim_apply_service_def
    by (intro wp_rules wp_emit wp_write_fields [where old = old and new = target] assms(1,5))
      (use assms(2,3) new in \<open>simp_all add: proxy_effects_def at_rest_def proxy_writes_def\<close>)
qed

section \<open>The reconciler on such a host\<close>

definition sim_self :: "proxy_endpoint \<Rightarrow> host_scenario \<Rightarrow> sim_model sp_self" where
  "sim_self endpoint sc = \<lparr>sf_endpoint = endpoint, sf_platform = sim_platform sc\<rparr>"

lemma sim_self_sel [simp]:
  "sf_endpoint (sim_self e sc) = e"
  "pp_observe_active (sf_platform (sim_self e sc)) = sim_observe sc"
  "pp_observe_service (sf_platform (sim_self e sc)) sid = sim_observe sc"
  "pp_apply_service (sf_platform (sim_self e sc)) = sim_apply_service sc"
  "pp_window (sf_platform (sim_self e sc)) = sim_confirmation_window sc"
  "pp_load (sf_platform (sim_self e sc)) = sim_load sc"
  "pp_save (sf_platform (sim_self e sc)) = sim_save sc"
  "pp_clear (sf_platform (sim_self e sc)) = sim_clear sc"
  "pp_confirm_proxy_listener (sf_platform (sim_self e sc)) ep =
     after_emit sc EK_CaptureConfirmListener (State_Monad.return ())"
  "pp_availability (sf_platform (sim_self e sc)) w = CA_Supported"
  by (simp_all add: sim_self_def sim_platform_def)

lemma sim_no_deadline: "before_deadline (sim_self e sc) = State_Monad.return True"
  by (simp add: before_deadline_def has_deadline_def sim_confirmation_window_def window_immediate_def
      window_bounded_def maximum_observations_def)

text \<open>A host without delay is observed once, one with delay up to three times.\<close>

lemma sim_observations:
  "unat (maximum_observations (sim_confirmation_window sc)) = (if sn_propagation_delay sc = 0 then 1 else 3)"
  by (simp add: sim_confirmation_window_def maximum_observations_def window_immediate_def window_bounded_def)

lemma sim_no_interval: "cw_retry_interval (sim_confirmation_window sc) = 0"
  by (simp add: sim_confirmation_window_def window_immediate_def window_bounded_def)

lemma wp_sim_confirm_at_rest:
  assumes "faultless sc" "used (rs_world s) < sn_transcript_limit sc" "at_rest new (rs_world s)"
    and "\<And>m. at_rest new m \<Longrightarrow> sm_journal m = sm_journal (rs_world s)
      \<Longrightarrow> used m = used (rs_world s) + 1 \<Longrightarrow> Q (Inr new) (s\<lparr>rs_world := m\<rparr>)"
  shows "wp (confirm_attempts (sim_self e sc) prior target new sid (Suc n)) Q s"
proof -
  have observation: "confirm_observation (sim_self e sc) sid = call (sim_observe sc)"
    by (cases sid) (simp_all add: confirm_observation_def)
  show ?thesis
    unfolding confirm_attempts.simps sim_no_deadline observation
    by (intro wp_rules wp_call wp_observe_at_rest [where st = new] assms(1)) (use assms(2-4) in auto)
qed

lemma wp_sim_confirm_on_its_way:
  assumes "faultless sc" "used (rs_world s) + 2 \<le> sn_transcript_limit sc" "on_its_way old new False (rs_world s)"
    and "np_service_id old = np_service_id new" "is_transaction_owned_between old prior target"
      "\<not> semantically_matches old new"
    and "\<And>m. at_rest new m \<Longrightarrow> sm_journal m = sm_journal (rs_world s)
      \<Longrightarrow> used m \<le> used (rs_world s) + 2 \<Longrightarrow> Q (Inr new) (s\<lparr>rs_world := m\<rparr>)"
  shows "wp (confirm_attempts (sim_self e sc) prior target new sid (Suc (Suc n))) Q s"
proof -
  have observation: "confirm_observation (sim_self e sc) sid = call (sim_observe sc)"
    by (cases sid) (simp_all add: confirm_observation_def)
  have again: "wp (confirm_attempts (sim_self e sc) prior target new sid (Suc n)) Q (s\<lparr>rs_world := m\<rparr>)"
    if "on_its_way old new True m" "sm_journal m = sm_journal (rs_world s)" "used m = used (rs_world s) + 1" for m
    unfolding confirm_attempts.simps sim_no_deadline observation
    by (intro wp_rules wp_call wp_observe_on_its_way [where old = old and new = new and stale = True] assms(1))
      (use that assms(2,7) in auto)
  show ?thesis
    unfolding confirm_attempts.simps(2) [of _ _ _ _ _ "Suc n"] sim_no_deadline observation
    by (intro wp_rules wp_call wp_observe_on_its_way [where old = old and new = new and stale = False] assms(1))
      (use assms(2-7) again in \<open>auto simp: sim_no_interval\<close>)
qed

lemma wp_sim_confirm:
  assumes "faultless sc" "used (rs_world s) + 2 \<le> sn_transcript_limit sc"
    and "at_rest new (rs_world s) \<or> on_its_way old new False (rs_world s) \<and> sn_propagation_delay sc \<noteq> 0"
    and "np_service_id old = np_service_id new" "is_transaction_owned_between old prior target"
      "\<not> semantically_matches old new"
    and "\<And>m. at_rest new m \<Longrightarrow> sm_journal m = sm_journal (rs_world s)
      \<Longrightarrow> used m \<le> used (rs_world s) + 2 \<Longrightarrow> Q (Inr new) (s\<lparr>rs_world := m\<rparr>)"
  shows "wp (confirm_target (sim_self e sc) prior target new sid) Q s"
proof (cases "at_rest new (rs_world s)")
  case True
  obtain n where n: "unat (maximum_observations (sim_confirmation_window sc)) = Suc n"
    by (metis sim_observations One_nat_def numeral_3_eq_3)
  show ?thesis
    unfolding confirm_target_def sim_self_sel n
    by (intro wp_sim_confirm_at_rest assms(1)) (use True assms(2,7) in auto)
next
  case False
  then have n: "unat (maximum_observations (sim_confirmation_window sc)) = Suc (Suc 1)"
    using assms(3) by (simp add: sim_observations)
  show ?thesis
    unfolding confirm_target_def sim_self_sel n
    by (rule wp_sim_confirm_on_its_way [where old = old]) (use False assms in auto)
qed

lemma wp_after_emit:
  assumes "faultless sc" "k \<in> set proxy_effects" "used m < sn_transcript_limit sc"
    and "\<And>m'. sm_proxy_state m' = sm_proxy_state m \<Longrightarrow> sm_proxy_observation m' = sm_proxy_observation m
      \<Longrightarrow> sm_pending m' = sm_pending m \<Longrightarrow> sm_journal m' = sm_journal m \<Longrightarrow> used m' = used m + 1
      \<Longrightarrow> wp f (\<lambda>r. Q (Inr r)) m'"
  shows "wp (after_emit sc k f) Q m"
  unfolding after_emit_def
  by (intro wp_rules wp_emit assms(1-3)) (use assms(4) in \<open>auto simp: wp_return_eq\<close>)

lemma wp_sim_journal:
  assumes "faultless sc" "used m < sn_transcript_limit sc" "at_rest st m"
  shows "(\<And>m'. at_rest st m' \<Longrightarrow> sm_journal m' = sm_journal m \<Longrightarrow> used m' = used m + 1
      \<Longrightarrow> Q (Inr (sm_journal m)) m') \<Longrightarrow> wp (sim_load sc) Q m"
    and "(\<And>m'. at_rest st m' \<Longrightarrow> sm_journal m' = Some j \<Longrightarrow> used m' = used m + 1 \<Longrightarrow> Q' (Inr ()) m')
      \<Longrightarrow> wp (sim_save sc j) Q' m"
    and "(\<And>m'. at_rest st m' \<Longrightarrow> sm_journal m' = None \<Longrightarrow> used m' = used m + 1 \<Longrightarrow> Q' (Inr ()) m')
      \<Longrightarrow> wp (sim_clear sc) Q' m"
    and "(\<And>m'. at_rest st m' \<Longrightarrow> sm_journal m' = sm_journal m \<Longrightarrow> used m' = used m + 1 \<Longrightarrow> Q' (Inr ()) m')
      \<Longrightarrow> wp (after_emit sc EK_CaptureConfirmListener (State_Monad.return ())) Q' m"
  unfolding sim_load_def sim_save_def sim_clear_def
  by (intro wp_after_emit wp_rules assms(1,2); use assms(3) in \<open>auto simp: at_rest_def proxy_effects_def\<close>)+

lemma mish_not_matching:
  assumes "\<not> has_matching_manual_proxy_endpoint st e"
  shows "\<not> semantically_matches st (with_endpoint prior e)" "\<not> semantically_matches (with_endpoint prior e) st"
  using assms
  by (auto simp: has_matching_manual_proxy_endpoint_def semantically_matches_def manual_semantically_matches_def
      with_endpoint_def for_endpoint_def)

definition on_request :: "capture_selection \<Rightarrow> capture_request" where
  "on_request selection = \<lparr>cq_active = True, cq_selection = selection\<rparr>"

definition off_request :: "capture_selection \<Rightarrow> capture_request" where
  "off_request selection = \<lparr>cq_active = False, cq_selection = selection\<rparr>"

text \<open>Nothing fails, so only the successful branch of a result is followed.\<close>

lemma wp_case_Inr: "wp (g v) Q s \<Longrightarrow> wp (case Inr v of Inl e \<Rightarrow> f e | Inr x \<Rightarrow> g x) Q s"
  by simp

lemma wp_case_None: "wp f Q s \<Longrightarrow> wp (case None of None \<Rightarrow> f | Some x \<Rightarrow> g x) Q s"
  by simp

lemma wp_accepted:
  "takeover_rejection_of state (rs_takeover_policy s) = None \<Longrightarrow> Q None s \<Longrightarrow> wp (takeover_error state) Q s"
  by (simp add: wp_def takeover_error_def)

lemmas wp_success = wp_return wp_bind wp_Let wp_if wp_case_Inr wp_case_None wp_put_status wp_availability
  wp_runtime_transition_now wp_accepted

lemma wp_sim_apply_journaled:
  assumes "faultless sc" "used (rs_world s) + 9 \<le> sn_transcript_limit sc" "at_rest original (rs_world s)"
    "\<not> has_matching_manual_proxy_endpoint original e"
    and "\<And>m. at_rest (with_endpoint original e) m \<Longrightarrow> sm_journal m = sm_journal (rs_world s)
      \<Longrightarrow> used m \<le> used (rs_world s) + 9
      \<Longrightarrow> Q (Inr (applied_status selection)) (s\<lparr>rs_world := m, rs_status := applied_status selection\<rparr>)"
  shows "wp (apply_journaled (sim_self e sc) selection original) Q s"
  unfolding apply_journaled_def confirm_active_target_def sim_self_sel
  by (intro wp_success wp_call wp_apply [where old = original] wp_sim_confirm [where old = original] assms(1))
    (use assms(2-5) in \<open>simp_all add: mish_not_matching\<close>)

lemma wp_sim_take_over:
  assumes "faultless sc" "used (rs_world s) + 10 \<le> sn_transcript_limit sc" "at_rest original (rs_world s)"
    "\<not> has_matching_manual_proxy_endpoint original e"
    "takeover_rejection_of original (rs_takeover_policy s) = None"
    and "\<And>m. at_rest (with_endpoint original e) m \<Longrightarrow> sm_journal m = Some \<lparr>cj_prior = original\<rparr>
      \<Longrightarrow> used m \<le> used (rs_world s) + 10
      \<Longrightarrow> Q (Inr (applied_status selection)) (s\<lparr>rs_world := m, rs_status := applied_status selection\<rparr>)"
  shows "wp (take_over (sim_self e sc) selection original) Q s"
  unfolding take_over_def sim_self_sel
  by (intro wp_success wp_call wp_sim_journal(2) [where st = original] wp_sim_apply_journaled assms(1))
    (use assms(2-6) in simp_all)

lemma wp_sim_load_validated:
  assumes "faultless sc" "used (rs_world s) < sn_transcript_limit sc" "at_rest st (rs_world s)"
    "\<And>j. sm_journal (rs_world s) = Some j \<Longrightarrow> is_reversible (cj_prior j)"
    and "\<And>m. at_rest st m \<Longrightarrow> sm_journal m = sm_journal (rs_world s) \<Longrightarrow> used m = used (rs_world s) + 1
      \<Longrightarrow> Q (Inr (sm_journal (rs_world s))) (s\<lparr>rs_world := m\<rparr>)"
  shows "wp (load_validated_journal (sim_self e sc)) Q s"
  unfolding load_validated_journal_def sim_self_sel
  by (intro wp_success wp_call wp_sim_journal(1) [where st = st] assms(1))
    (use assms(2-5) in \<open>auto simp: is_valid_recovery_state_def split: option.splits\<close>)

lemma wp_sim_on:
  assumes "faultless sc" "used (rs_world s) + 20 \<le> sn_transcript_limit sc"
    and "at_rest original (rs_world s)" "sm_journal (rs_world s) = None" "\<not> rs_runtime_transition s"
    and "takeover_rejection_of original (rs_takeover_policy s) = None"
      "\<not> has_matching_manual_proxy_endpoint original e"
    and "cs_system_proxy selection" "\<not> cs_tun selection"
    and "\<And>s'. at_rest (with_endpoint original e) (rs_world s') \<Longrightarrow> sm_journal (rs_world s') = Some \<lparr>cj_prior = original\<rparr>
      \<Longrightarrow> used (rs_world s') \<le> used (rs_world s) + 20 \<Longrightarrow> \<not> rs_runtime_transition s'
      \<Longrightarrow> Q (Inr (applied_status selection)) s'"
  shows "wp (sp_reconcile (sim_self e sc) (on_request selection) True) Q s"
proof -
  have tail: "wp (reconcile_observed (sim_self e sc) selection None None original) Q s'"
    if "at_rest original (rs_world s')" "used (rs_world s') = used (rs_world s) + 3" "\<not> rs_runtime_transition s'"
      "rs_takeover_policy s' = rs_takeover_policy s" for s'
    unfolding reconcile_observed_def option.case if_False
    by (intro wp_sim_take_over assms(1)) (use that assms(2,6,7,10) in simp_all)
  show ?thesis
    unfolding sp_reconcile_def reconcile_with_preflight_def reconcile_locked_with_preflight_def sim_self_sel
    by (intro wp_success wp_set_pending wp_call wp_sim_load_validated [where st = original]
          wp_sim_journal(4) [where st = original] wp_observe_at_rest [where st = original] assms(1))
      (use assms(2-5,8,9) in \<open>simp_all add: on_request_def tail\<close>)
qed

lemma wp_sim_restore_exact_prior:
  assumes "faultless sc" "used (rs_world s) + 10 \<le> sn_transcript_limit sc"
    "at_rest (with_endpoint original e) (rs_world s)" "\<not> has_matching_manual_proxy_endpoint original e"
    and "\<And>m. at_rest original m \<Longrightarrow> sm_journal m = sm_journal (rs_world s)
      \<Longrightarrow> used m \<le> used (rs_world s) + 10 \<Longrightarrow> Q (Inr original) (s\<lparr>rs_world := m\<rparr>)"
  shows "wp (restore_exact_prior (sim_self e sc) original) Q s"
  unfolding restore_exact_prior_def confirm_service_target_def sim_self_sel
  by (intro wp_success wp_call wp_observe_at_rest [where st = "with_endpoint original e"]
        wp_apply [where old = "with_endpoint original e"] wp_sim_confirm [where old = "with_endpoint original e"]
        assms(1))
    (use assms(2-5) in \<open>simp_all add: mish_not_matching\<close>)

lemma wp_sim_off:
  assumes "faultless sc" "used (rs_world s) + 20 \<le> sn_transcript_limit sc"
    and "at_rest (with_endpoint original e) (rs_world s)" "sm_journal (rs_world s) = Some \<lparr>cj_prior = original\<rparr>"
      "\<not> rs_runtime_transition s"
    and "is_reversible original" "\<not> has_matching_manual_proxy_endpoint original e" "\<not> cs_tun selection"
    and "\<And>s'. at_rest original (rs_world s') \<Longrightarrow> sm_journal (rs_world s') = None
      \<Longrightarrow> Q (Inr (proxy_status selection False None (observed_state original e) SP_Off [] False)) s'"
  shows "wp (sp_reconcile (sim_self e sc) (off_request selection) healthy) Q s"
proof -
  have tail: "wp (restore_owned (sim_self e sc) selection \<lparr>cj_prior = original\<rparr> (with_endpoint original e)) Q s'"
    if "at_rest (with_endpoint original e) (rs_world s')" "used (rs_world s') = used (rs_world s) + 2" for s'
    unfolding restore_owned_def sim_self_sel
    by (intro wp_success wp_call wp_sim_restore_exact_prior wp_sim_journal(3) [where st = original] assms(1))
      (use that assms(2,7,9) in simp_all)
  show ?thesis
    unfolding sp_reconcile_def reconcile_with_preflight_def reconcile_locked_with_preflight_def sim_self_sel restore_def
    by (intro wp_success wp_set_pending wp_call wp_sim_load_validated [where st = "with_endpoint original e"] assms(1))
      (use assms(2-6,8) tail in \<open>auto simp: off_request_def
        intro!: wp_success wp_call wp_observe_at_rest [where st = "with_endpoint original e"] assms(1)\<close>)
qed

section \<open>Repairing a configuration that is already Mish's\<close>

text \<open>Without a delay, writing what is already there is confirmed at once.\<close>

lemma wp_sim_confirm_undelayed:
  assumes "faultless sc" "sn_propagation_delay sc = 0" "used (rs_world s) < sn_transcript_limit sc"
    "at_rest new (rs_world s)"
    and "\<And>m. at_rest new m \<Longrightarrow> sm_journal m = sm_journal (rs_world s)
      \<Longrightarrow> used m = used (rs_world s) + 1 \<Longrightarrow> Q (Inr new) (s\<lparr>rs_world := m\<rparr>)"
  shows "wp (confirm_target (sim_self e sc) prior target new sid) Q s"
  unfolding confirm_target_def sim_self_sel sim_observations
  using wp_sim_confirm_at_rest [where n = 0, OF assms(1,3,4)] assms(2,5) by simp

lemma wp_apply_undelayed:
  assumes "faultless sc" "sn_propagation_delay sc = 0" "used m + 7 \<le> sn_transcript_limit sc" "at_rest old m"
    "np_service_id target = np_service_id old"
    and "\<And>m'. at_rest target m' \<Longrightarrow> sm_journal m' = sm_journal m \<Longrightarrow> used m' = used m + 7 \<Longrightarrow> Q (Inr ()) m'"
  shows "wp (sim_apply_service sc target) Q m"
  by (rule wp_apply [OF assms(1,3,4,5)]) (use assms(2,6) in auto)

text \<open>\<open>mine\<close>: a configuration that taking over does not change.\<close>

lemma wp_mine_repair:
  assumes host: "faultless sc" "sn_propagation_delay sc = 0" and mine: "with_endpoint mine e = mine"
    and s: "used (rs_world s) + 11 \<le> sn_transcript_limit sc" "at_rest mine (rs_world s)"
    "takeover_rejection_of mine (rs_takeover_policy s) = None"
    "ps_phase (cu_system_proxy (rs_status s)) = SP_Drift"
    "ps_failure (cu_system_proxy (rs_status s)) \<noteq> Some CF_InvalidRecovery" "\<not> rs_runtime_transition s"
    and Q: "\<And>s'. at_rest mine (rs_world s') \<Longrightarrow> sm_journal (rs_world s') = Some \<lparr>cj_prior = mine\<rparr>
      \<Longrightarrow> used (rs_world s') = used (rs_world s) + 11 \<Longrightarrow> \<not> rs_runtime_transition s'
      \<Longrightarrow> Q (Inr (applied_status (cu_capture_selection (rs_status s)))) s'"
  shows "wp (recover (sim_self e sc) RepairAction True) Q s"
  unfolding recover_def recover_locked_def recover_repair_def apply_journaled_def confirm_active_target_def sim_self_sel
  by (intro wp_success wp_status_now wp_set_pending wp_call wp_sim_journal(2,4) [where st = mine]
        wp_observe_at_rest [where st = mine] wp_apply_undelayed [where old = mine]
        wp_sim_confirm_undelayed host)
    (use s Q mine in simp_all)

lemma wp_mine_off:
  assumes host: "faultless sc" "sn_propagation_delay sc = 0" and mine: "with_endpoint mine e = mine"
    and s: "used (rs_world s) + 12 \<le> sn_transcript_limit sc" "at_rest mine (rs_world s)"
    "sm_journal (rs_world s) = Some \<lparr>cj_prior = mine\<rparr>" "is_reversible mine" "\<not> rs_runtime_transition s"
    "\<not> cs_tun selection"
    and Q: "\<And>s'. at_rest mine (rs_world s') \<Longrightarrow> sm_journal (rs_world s') = None
      \<Longrightarrow> Q (Inr (proxy_status selection False None (observed_state mine e) SP_Off [] False)) s'"
  shows "wp (sp_reconcile (sim_self e sc) (off_request selection) healthy) Q s"
proof -
  have tail: "wp (restore_owned (sim_self e sc) selection \<lparr>cj_prior = mine\<rparr> mine) Q s'"
    if "at_rest mine (rs_world s')" "used (rs_world s') = used (rs_world s) + 2" for s'
    unfolding restore_owned_def restore_exact_prior_def confirm_service_target_def sim_self_sel
    by (intro wp_success wp_call wp_observe_at_rest [where st = mine] wp_apply_undelayed [where old = mine]
          wp_sim_confirm_undelayed wp_sim_journal(3) [where st = mine] host)
      (use that s Q mine in simp_all)
  show ?thesis
    unfolding sp_reconcile_def reconcile_with_preflight_def reconcile_locked_with_preflight_def sim_self_sel restore_def
    by (intro wp_success wp_set_pending wp_call wp_sim_load_validated [where st = mine] host)
      (use s tail in \<open>auto simp: off_request_def
        intro!: wp_success wp_call wp_observe_at_rest [where st = mine] host\<close>)
qed

lemma wp_sim_rollback_drift:
  assumes "faultless sc" "used (rs_world s) < sn_transcript_limit sc" "at_rest mine (rs_world s)"
    and "\<And>s'. at_rest mine (rs_world s') \<Longrightarrow> used (rs_world s') = used (rs_world s) + 1
      \<Longrightarrow> rs_takeover_policy s' = rs_takeover_policy s \<Longrightarrow> rs_runtime_transition s' = rs_runtime_transition s
      \<Longrightarrow> sm_journal (rs_world s') = sm_journal (rs_world s)
      \<Longrightarrow> rs_status s' = proxy_status selection True (Some failure) (observed_state mine e) SP_Drift
            [RepairAction, LeaveAsIs] False
      \<Longrightarrow> Q s'"
  shows "wp (record_rollback_drift (sim_self e sc) selection prior failure) (\<lambda>r. Q) s"
  unfolding record_rollback_drift_def sim_self_sel
  by (intro wp_success wp_call wp_observe_at_rest [where st = mine] assms(1)) (use assms(2-4) in simp_all)

end
