(* ===== verification/Proxy_Properties.thy ===== *)
theory Proxy_Properties
  imports Simulated_Roundtrip
begin

text \<open>
  The properties of the System Proxy reconciler: which writes it makes, when it reports the
  proxy as applied, that its status is well formed, that the user's configuration is recoverable after
  every single platform call, and that switching on and off is a round trip.
\<close>

section \<open>From the operations to sequences of calls\<close>

text \<open>The status a call returns, when it returns one.\<close>

definition status_of :: "capture_status outcome \<Rightarrow> capture_status option" where
  "status_of r = (case r of Inr status \<Rightarrow> Some status | Inl _ \<Rightarrow> None)"

fun sp_returns :: "'w sp_self \<Rightarrow> sp_call \<Rightarrow> 'w sp_state \<Rightarrow> capture_status option" where
  "sp_returns self (SC_Reconcile request healthy pre) s =
     status_of (fst (run_state (reconcile_with_preflight self request healthy pre) s))"
| "sp_returns self (SC_ReconcileTransition request healthy) s =
     status_of (fst (run_state (reconcile_runtime_transition self True request healthy) s))"
| "sp_returns self (SC_Audit healthy) s = status_of (fst (run_state (sp_audit self healthy) s))"
| "sp_returns self (SC_Recover action healthy) s = status_of (fst (run_state (recover self action healthy) s))"
| "sp_returns self _ s = None"

lemma status_of_Some [simp]: "status_of r = Some st \<longleftrightarrow> r = Inr st"
  by (cases r) (simp_all add: status_of_def)

definition recorded_self :: "proxy_endpoint \<Rightarrow> 'w proxy_platform \<Rightarrow> ('w \<times> platform_event list) sp_self" where
  "recorded_self endpoint p = \<lparr>sf_endpoint = endpoint, sf_platform = recording p\<rparr>"

interpretation rec: recorded_reconciler "recorded_self e p" p for e p
  by unfold_locales (simp add: recorded_self_def)

lemma recorded_endpoint [simp]: "sf_endpoint (recorded_self e p) = e"
  by (simp add: recorded_self_def)

lemma perform_log:
  assumes "writes_justified e (log_of s)"
  shows "writes_justified e (log_of (sp_perform (recorded_self e p) c s))"
  by (rule sp_perform_invariant [where I = "\<lambda>s. writes_justified e (log_of s)"])
    (use assms in \<open>auto intro: rec.preflight_log rec.reconcile_locked_log rec.audit_locked_log rec.recover_log\<close>)

lemma run_log: "writes_justified e (log_of (sp_run (recorded_self e p) cs (sp_new (w, []))))"
  by (rule sp_run_invariant) (simp_all add: sp_new_def perform_log)

section \<open>Demonstration scenarios\<close>

definition demo_selection :: capture_selection where
  "demo_selection = \<lparr>cs_system_proxy = True, cs_tun = False\<rparr>"

definition demo_original :: network_service_proxy_state where
  "demo_original = materialize SY_Manual"

definition demo_host :: "injected_failure list \<Rightarrow> u64 \<Rightarrow> host_scenario" where
  "demo_host failures delay =
     \<lparr>sn_declared_effects = proxy_effects, sn_failures = failures, sn_propagation_delay = delay,
      sn_transcript_limit = 64\<rparr>"

text \<open>The socks write of the first application fails, and so does the application that rolls back.\<close>

definition demo_failures :: "injected_failure list" where
  "demo_failures =
     [\<lparr>if_after_effect = None, if_effect = EK_WriteSocks, if_kind = IF_Operation, if_occurrence = 1\<rparr>,
      \<lparr>if_after_effect = None, if_effect = EK_CaptureApply, if_kind = IF_Operation, if_occurrence = 2\<rparr>]"

text \<open>A platform that was taken over by an earlier process and stays as it is.\<close>

definition still_platform :: "unit proxy_platform" where
  "still_platform =
     \<lparr>pp_availability = (\<lambda>_. CA_Supported), pp_window = window_immediate,
      pp_before_deadline = State_Monad.return True,
      pp_preflight_observe_active = State_Monad.return (Inr (with_endpoint demo_original endpoint_managed)),
      pp_observe_active = State_Monad.return (Inr (with_endpoint demo_original endpoint_managed)),
      pp_observe_service = (\<lambda>_. State_Monad.return (Inr (with_endpoint demo_original endpoint_managed))),
      pp_apply_service = (\<lambda>_. State_Monad.return (Inr ())),
      pp_confirm_proxy_listener = (\<lambda>_. State_Monad.return (Inr ())),
      pp_load = State_Monad.return (Inr (Some \<lparr>cj_prior = demo_original\<rparr>)),
      pp_save = (\<lambda>_. State_Monad.return (Inr ())), pp_clear = State_Monad.return (Inr ())\<rparr>"

lemma demo_facts:
  "takeover_rejection_of demo_original ProtectExisting = None"
  "takeover_rejection_of (with_endpoint demo_original endpoint_managed) ProtectExisting = None"
  "\<not> has_matching_manual_proxy_endpoint demo_original endpoint_managed"
  "is_reversible demo_original"
  by code_simp+

lemma demo_faultless: "faultless (demo_host [] delay)"
  by (simp add: faultless_def demo_host_def)

lemma recording_sel:
  "sf_platform (recorded_self e p) = recording p"
  "pp_availability (recording p) w = pp_availability p (fst w)"
  "pp_observe_active (recording p) = recorded (pp_observe_active p) Ev_Active"
  "pp_confirm_proxy_listener (recording p) ep = recorded (pp_confirm_proxy_listener p ep) Ev_Listener"
  "pp_load (recording p) = recorded (pp_load p) Ev_Loaded"
  by (simp_all add: recorded_self_def recording_def)

lemma still_run:
  "run_state (reconcile_with_preflight (recorded_self endpoint_managed still_platform) (on_request demo_selection)
       True None) (sp_new ((), [])) =
     (Inr (applied_status demo_selection),
      (sp_new ((), []))\<lparr>rs_status := applied_status demo_selection,
        rs_world := ((), [Ev_Active (Inr (with_endpoint demo_original endpoint_managed)), Ev_Listener (Inr ()),
                          Ev_Loaded (Inr (Some \<lparr>cj_prior = demo_original\<rparr>))])\<rparr>)"
  by (simp add: reconcile_with_preflight_def runtime_transition_now_def reconcile_locked_with_preflight_def
      sp_availability_def recording_sel still_platform_def on_request_def Let_def demo_selection_def
      load_validated_journal_def is_valid_recovery_state_def demo_facts(4) call_def recorded_def set_pending_def
      status_now_def put_status_def State_Monad.update_def reconcile_observed_def sp_new_def)

section \<open>Writes and reports\<close>

text \<open>
  C14: on any platform, failing and answering as it may, and for any sequence of calls, every
  write of a proxy configuration is justified by what the platform had answered before: it is either Mish's
  configuration over the last observed active configuration, which may be taken over and was saved in the
  journal immediately before, or the journaled prior itself, for a service just observed between that prior
  and what Mish writes.
\<close>

theorem sp_writes_justified:
  "writes_justified e (snd (rs_world (sp_run (recorded_self e p) cs (sp_new (w, [])))))"
  by (rule run_log)

text \<open>
  On any supported platform, a call that returns the System Proxy as applied has last seen the active
  configuration equal, up to values of disabled proxies, to what Mish writes over the prior in the journal; an
  audit during a runtime transition only repeats the stored status.
\<close>

theorem sp_applied_confirmed:
  assumes "pp_availability p = (\<lambda>_. CA_Supported)"
    and "s = sp_run (recorded_self e p) cs (sp_new (w, []))"
    and "(\<exists>healthy. c = SC_Audit healthy) \<longrightarrow> \<not> rs_runtime_transition s"
    and "sp_returns (recorded_self e p) c s = Some st" "ps_phase (cu_system_proxy st) = SP_Applied"
  shows "confirmed_active e (snd (rs_world (sp_perform (recorded_self e p) c s)))"
proof (cases c)
  case (SC_Reconcile request healthy pre)
  have "wp (reconcile_with_preflight (recorded_self e p) request healthy pre)
      (\<lambda>r s'. r = Inr st \<longrightarrow> confirmed_active e (log_of s')) s"
    unfolding reconcile_with_preflight_def
    by (intro wp_rules rec.reconcile_locked_log) (use assms(5) run_log in \<open>simp_all add: assms(2)\<close>)
  then show ?thesis using SC_Reconcile assms(4) by (simp add: wp_iff)
next
  case (SC_ReconcileTransition request healthy)
  have "wp (reconcile_runtime_transition (recorded_self e p) True request healthy)
      (\<lambda>r s'. r = Inr st \<longrightarrow> confirmed_active e (log_of s')) s"
    unfolding reconcile_runtime_transition_def
    by (intro wp_rules rec.reconcile_locked_log) (use assms(5) run_log in \<open>simp_all add: assms(2)\<close>)
  then show ?thesis using SC_ReconcileTransition assms(4) by (simp add: wp_iff)
next
  case (SC_Audit healthy)
  have "wp (audit_with_mutation (recorded_self e p) healthy)
      (\<lambda>r s'. map_sum id fst r = Inr st \<longrightarrow> confirmed_active e (log_of s')) s"
    unfolding audit_with_mutation_def
    by (intro wp_rules rec.audit_locked_log)
      (use assms(1,3,5) SC_Audit run_log in \<open>auto simp: assms(2)\<close>)
  then show ?thesis
    using SC_Audit assms(4) by (simp add: wp_iff sp_audit_def split_beta)
next
  case (SC_Recover action healthy)
  have "wp (recover (recorded_self e p) action healthy)
      (\<lambda>r s'. r = Inr st \<longrightarrow> confirmed_active e (log_of s')) s"
    unfolding recover_def
    by (intro wp_rules rec.recover_log) (use assms(5) run_log in \<open>simp_all add: assms(2)\<close>)
  then show ?thesis using SC_Recover assms(4) by (simp add: wp_iff)
qed (use assms(4) in simp_all)

section \<open>The status\<close>

text \<open>
  On any platform and after any sequence of calls the published status is well formed: never pending,
  enabled exactly when applied, applied only as desired, observed as Mish's and without a failure, off only
  when not desired, failed only with a failure, and with recovery actions, leaving as is among them, exactly
  in drift.
\<close>

theorem sp_status_coherent: "status_coherent (rs_status (sp_run self cs (sp_new w)))"
  by (rule sp_run_invariant) (simp_all add: sp_new_def perform_status)

section \<open>The user's configuration\<close>

definition remembering_self :: "proxy_endpoint \<Rightarrow> 'w proxy_platform \<Rightarrow> ('w \<times> 'w list) sp_self" where
  "remembering_self endpoint p = \<lparr>sf_endpoint = endpoint, sf_platform = remembering p\<rparr>"

definition no_recovery :: "sp_call list \<Rightarrow> bool" where
  "no_recovery cs \<longleftrightarrow> list_all (\<lambda>c. case c of SC_Recover _ _ \<Rightarrow> False | _ \<Rightarrow> True) cs"

lemma remembering_endpoint [simp]: "sf_endpoint (remembering_self e p) = e"
  by (simp add: remembering_self_def)

interpretation simhost: hosted_reconciler "sim_platform (undelayed sc)" sim_config sm_journal sim_wf
    "remembering_self e (sim_platform (undelayed sc))" original for sc e original
  by unfold_locales (simp add: remembering_self_def)

lemma hosted_self:
  "proxy_host p config journal ok \<Longrightarrow> hosted_reconciler p config journal ok (remembering_self e p)"
  by (simp add: hosted_reconciler_def hosted_reconciler_axioms_def remembering_self_def)

lemma run_safe:
  assumes "proxy_host p config journal ok" "ok w" "journal w = None" "no_recovery cs"
  shows "ok (fst (rs_world (sp_run (remembering_self e p) cs (sp_new (w, [])))))
    \<and> all_recoverable e (config w) config journal (sp_run (remembering_self e p) cs (sp_new (w, [])))"
proof -
  let ?safe = "\<lambda>s. ok (fst (rs_world s)) \<and> all_recoverable e (config w) config journal s"
  note perform = hosted_reconciler.perform_safe [OF hosted_self [OF assms(1)], of _ e "config w", simplified]
  have "?safe (sp_run (remembering_self e p) cs s)" if "?safe s" "no_recovery cs" for s
    using that
  proof (induction cs arbitrary: s)
    case (Cons c cs)
    then have "?safe (sp_perform (remembering_self e p) c s)"
      using perform [of s c] by (simp add: no_recovery_def split: sp_call.splits)
    then show ?case
      using Cons by (simp add: sp_run_def no_recovery_def)
  qed (simp add: sp_run_def)
  moreover have "?safe (sp_new (w, []))"
    using assms(2,3) by (simp add: sp_new_def all_recoverable_def worlds_def recoverable_def)
  ultimately show ?thesis
    using assms(4) by simp
qed

lemma off_safe:
  assumes "proxy_host p config journal ok" "ok (fst (rs_world s))" "all_recoverable e original config journal s"
    "sp_returns (remembering_self e p) (SC_Reconcile (off_request selection) healthy pre) s = Some st"
    "s' = sp_perform (remembering_self e p) (SC_Reconcile (off_request selection) healthy pre) s"
  shows "journal (fst (rs_world s')) = None"
    "\<forall>sid. as_originally (config (fst (rs_world s')) sid) (original sid)"
proof -
  have "wp (reconcile_with_preflight (remembering_self e p) (off_request selection) healthy pre)
      (\<lambda>r s'. r = Inr st \<longrightarrow> journal (fst (rs_world s')) = None
        \<and> all_recoverable e original config journal s') s"
    unfolding reconcile_with_preflight_def
    by (intro wp_rules hosted_reconciler.reconcile_locked_safe [OF hosted_self [OF assms(1)], of _ e original])
      (use assms(2,3) in \<open>auto simp: off_request_def\<close>)
  then have s': "journal (fst (rs_world s')) = None \<and> all_recoverable e original config journal s'"
    using assms(4,5) by (simp add: wp_iff)
  then show "journal (fst (rs_world s')) = None"
    by simp
  show "\<forall>sid. as_originally (config (fst (rs_world s')) sid) (original sid)"
    using s' unfolding all_recoverable_def worlds_def recoverable_def by (elim conjE) simp
qed

text \<open>
  C15: on every platform that keeps the contract, and for every sequence of calls other than an explicit
  recovery, with failures anywhere: in the world after each single platform call, hence whenever the process
  dies, every service is configured as it was at the start, except the journaled one, whose journal entry is
  its configuration at the start and which lies between that and what Mish writes. A call that
  switches off and returns a status has put every service back and removed the journal.
\<close>

theorem sp_original_recoverable:
  assumes "proxy_host p config journal ok" "ok w" "journal w = None" "no_recovery cs"
    and "s = sp_run (remembering_self e p) cs (sp_new (w, []))"
    and "off = SC_Reconcile (off_request selection) healthy pre" "s' = sp_perform (remembering_self e p) off s"
  shows "(\<forall>v \<in> set (worlds s). recoverable e (config w) (config v) (journal v))
    \<and> (sp_returns (remembering_self e p) off s \<noteq> None \<longrightarrow>
        journal (fst (rs_world s')) = None
        \<and> (\<forall>sid. as_originally (config (fst (rs_world s')) sid) (config w sid)))"
proof (intro conjI impI)
  have safe: "ok (fst (rs_world s))" "all_recoverable e (config w) config journal s"
    using run_safe [OF assms(1-4), of e] by (simp_all add: assms(5))
  show "\<forall>v \<in> set (worlds s). recoverable e (config w) (config v) (journal v)"
    using safe(2) by (simp add: all_recoverable_def)
  assume "sp_returns (remembering_self e p) off s \<noteq> None"
  then obtain st where st: "sp_returns (remembering_self e p) off s = Some st"
    by blast
  show "journal (fst (rs_world s')) = None" "\<forall>sid. as_originally (config (fst (rs_world s')) sid) (config w sid)"
    using off_safe [OF assms(1) safe st [unfolded assms(6)] assms(7) [unfolded assms(6)]] by simp_all
qed

theorem sp_original_recoverable_witness:
  "list_all (\<lambda>v. recoverable endpoint_managed [np_service_id demo_original \<mapsto> demo_original] (sim_config v) (sm_journal v))
     (worlds (sp_run
       (remembering_self endpoint_managed (sim_platform (undelayed (demo_host demo_failures 0))))
       [SC_Reconcile (on_request demo_selection) True None, SC_Audit True] (sp_new (sim_new demo_original, []))))"
  using sp_original_recoverable [OF sim.proxy_host_axioms [of "demo_host demo_failures 0"], of "sim_new demo_original"
      "[SC_Reconcile (on_request demo_selection) True None, SC_Audit True]" _ endpoint_managed, OF _ _ _ refl refl refl]
  by (simp add: sim_wf_def sim_new_def sim_config_def no_recovery_def list_all_iff)

text \<open>
  C16: on every platform that keeps the contract, each platform call of a run without explicit recovery is a step
  of the ownership specification: only the owned service is written, ownership passes from nobody to a service
  and back, and a service is released only when it is configured as it was at the start.
\<close>

theorem sp_refines_ownership:
  assumes "proxy_host p config journal ok" "ok w" "journal w = None" "no_recovery cs"
    and "s = sp_run (remembering_self e p) cs (sp_new (w, []))"
  shows "successively
      (\<lambda>v' v. own_step e (config w) (ownership_of config journal v) (ownership_of config journal v')) (worlds s)"
  using run_safe [OF assms(1-4), of e] by (simp add: assms(5) all_recoverable_def)

theorem sp_refines_ownership_witness:
  "successively
     (\<lambda>v' v. own_step endpoint_managed [np_service_id demo_original \<mapsto> demo_original]
        (ownership_of sim_config sm_journal v) (ownership_of sim_config sm_journal v'))
     (worlds (sp_run (remembering_self endpoint_managed (sim_platform (undelayed (demo_host demo_failures 0))))
       [SC_Reconcile (on_request demo_selection) True None, SC_Audit True] (sp_new (sim_new demo_original, []))))"
  using sp_refines_ownership [OF sim.proxy_host_axioms [of "demo_host demo_failures 0"], of "sim_new demo_original"
      "[SC_Reconcile (on_request demo_selection) True None, SC_Audit True]" _ endpoint_managed, OF _ _ _ refl]
  by (simp add: sim_wf_def sim_new_def sim_config_def no_recovery_def)



text \<open>
  C18: the recovery action Repair takes whatever configuration it observes for the user's own. When a failed
  rollback has left the service as Mish wrote it, with the original configuration still in the journal, Repair
  replaces the journal entry by Mish's own configuration, and a later switch-off succeeds, leaves the service
  pointing at the managed endpoint and drops the journal: the original configuration is lost.
\<close>

theorem sp_repair_adopts_mish:
  assumes "faultless sc" "sn_propagation_delay sc = 0" "used (rs_world s) + 24 \<le> sn_transcript_limit sc"
    and "at_rest (with_endpoint original e) (rs_world s)" "sm_journal (rs_world s) = Some \<lparr>cj_prior = original\<rparr>"
    and "takeover_rejection_of (with_endpoint original e) (rs_takeover_policy s) = None" "\<not> rs_runtime_transition s"
      "\<not> cs_tun selection"
    and "run_state (record_rollback_drift (sim_self e sc) selection original CF_RollbackFailed) s = (r\<^sub>0, s\<^sub>0)"
    and "run_state (recover (sim_self e sc) RepairAction True) s\<^sub>0 = (r\<^sub>1, s\<^sub>1)"
    and "run_state (sp_reconcile (sim_self e sc) (off_request selection) healthy) s\<^sub>1 = (r\<^sub>2, s\<^sub>2)"
  shows "sm_journal (rs_world s\<^sub>0) = Some \<lparr>cj_prior = original\<rparr>
    \<and> r\<^sub>1 = Inr (applied_status selection)
    \<and> sm_journal (rs_world s\<^sub>1) = Some \<lparr>cj_prior = with_endpoint original e\<rparr>
    \<and> r\<^sub>2 = Inr (proxy_status selection False None SO_Mish SP_Off [] False)
    \<and> sm_proxy_state (rs_world s\<^sub>2) = with_endpoint original e \<and> sm_journal (rs_world s\<^sub>2) = None"
proof -
  let ?mine = "with_endpoint original e"
  have "wp (record_rollback_drift (sim_self e sc) selection original CF_RollbackFailed)
      (\<lambda>r s'. at_rest ?mine (rs_world s') \<and> used (rs_world s') = used (rs_world s) + 1
        \<and> rs_takeover_policy s' = rs_takeover_policy s \<and> rs_runtime_transition s' = rs_runtime_transition s
        \<and> sm_journal (rs_world s') = Some \<lparr>cj_prior = original\<rparr>
        \<and> rs_status s' = proxy_status selection True (Some CF_RollbackFailed) (observed_state ?mine e) SP_Drift
            [RepairAction, LeaveAsIs] False) s"
    by (rule wp_sim_rollback_drift [where mine = ?mine]) (use assms(1,3-5) in simp_all)
  note drift = wp_run [OF this assms(9)]
  have "wp (recover (sim_self e sc) RepairAction True)
      (\<lambda>r s'. r = Inr (applied_status selection) \<and> at_rest ?mine (rs_world s')
        \<and> sm_journal (rs_world s') = Some \<lparr>cj_prior = ?mine\<rparr> \<and> used (rs_world s') = used (rs_world s) + 12
        \<and> \<not> rs_runtime_transition s') s\<^sub>0"
    by (rule wp_mine_repair [where mine = ?mine]) (use assms(1-3,6,7) drift in simp_all)
  note repaired = wp_run [OF this assms(10)]
  have "wp (sp_reconcile (sim_self e sc) (off_request selection) healthy)
      (\<lambda>r s'. r = Inr (proxy_status selection False None (observed_state ?mine e) SP_Off [] False)
        \<and> at_rest ?mine (rs_world s') \<and> sm_journal (rs_world s') = None) s\<^sub>1"
    by (rule wp_mine_off [where mine = ?mine])
      (use assms(1-3,8) repaired takeover_reversible [OF assms(6)] in simp_all)
  from wp_run [OF this assms(11)] drift repaired show ?thesis
    by (simp add: at_rest_def)
qed

theorem sp_repair_adopts_mish_witness:
  "let self = sim_self endpoint_managed (demo_host [] 0);
       mine = with_endpoint demo_original endpoint_managed;
       s = sp_new ((sim_new mine)\<lparr>sm_journal := Some \<lparr>cj_prior = demo_original\<rparr>\<rparr>);
       drift = run_state (record_rollback_drift self demo_selection demo_original CF_RollbackFailed) s;
       repaired = run_state (recover self RepairAction True) (snd drift);
       off = run_state (sp_reconcile self (off_request demo_selection) True) (snd repaired)
   in sm_proxy_state (rs_world (snd off)) = mine \<and> sm_journal (rs_world (snd off)) = None"
  using sp_repair_adopts_mish [OF demo_faultless [of 0] _ _ _ _ _ _ _
      prod.collapse [symmetric] prod.collapse [symmetric] prod.collapse [symmetric],
      of "sp_new ((sim_new (with_endpoint demo_original endpoint_managed))\<lparr>sm_journal := Some \<lparr>cj_prior = demo_original\<rparr>\<rparr>)"
        demo_original endpoint_managed demo_selection True]
  by (simp add: demo_host_def demo_selection_def Let_def sp_new_def sim_new_def at_rest_def demo_facts)

end
