(* ===== verification/Tun_Helper_Properties.thy ===== *)
theory Tun_Helper_Properties
  imports Tun_Helper_Laws
begin

text \<open>
  What the helper controller promises, with a concrete platform for the witnesses: a helper of this build
  that is installed, a clock that stands still and a network that TUN has left.
\<close>

section \<open>A platform for the witnesses\<close>

definition quiet_network :: tun_network_observation where
  "quiet_network =
     \<lparr>no_core = CS_Absent, no_dns = CS_Absent, no_interface = CS_Absent, no_observed_at = 1000,
      no_routes = CS_Absent, no_schema_version = TUN_OBSERVATION_SCHEMA_VERSION\<rparr>"

definition quiet_platform :: "bool helper_platform" where
  "quiet_platform =
     \<lparr>tp_now = State_Monad.return 1000,
      tp_observe_helper = State (\<lambda>installed.
        (Inr (if installed then observation_healthy TUN_HELPER_EXPECTED_VERSION else observation_not_installed),
         installed)),
      tp_run_lifecycle = (\<lambda>operation correlation. State (\<lambda>_. (Inr (), operation \<noteq> LO_Remove))),
      tp_observe_tun = State_Monad.return (Inr quiet_network),
      tp_set_tun_enabled = (\<lambda>enabled. State_Monad.return (Inr ()))\<rparr>"

definition healthy_state :: "(bool \<times> helper_event list) helper_state" where
  "healthy_state =
     helper_new (snapshot_from_observation (observation_healthy TUN_HELPER_EXPECTED_VERSION)) (True, [])"

section \<open>Lifecycle\<close>



text \<open>
  TUN is reported as switched only on evidence: the helper was in service when the switch was asked for, the
  platform acknowledged it, and the observation that is returned was made after that and confirms the requested state at
  a clock reading after the observation. Nothing else was asked of the platform.
\<close>

theorem helper_switch_confirmed:
  assumes "run_state (set_tun_enabled (helper_recording p) enabled) s = (Inr observed, s')"
  shows "has_healthy_identity (hc_snapshot s)
     \<and> (\<exists>now. helper_log s' = [HE_Now now, HE_Tun (Inr observed), HE_Switch enabled (Inr ())] @ helper_log s
          \<and> (if enabled then confirms_enabled_at observed now else confirms_disabled_at observed now))"
proof -
  let ?Q = "\<lambda>r s'. \<forall>observed. r = Inr observed \<longrightarrow> has_healthy_identity (hc_snapshot s)
     \<and> (\<exists>now. helper_log s' = [HE_Now now, HE_Tun (Inr observed), HE_Switch enabled (Inr ())] @ helper_log s
          \<and> (if enabled then confirms_enabled_at observed now else confirms_disabled_at observed now))"
  have "wp (set_tun_enabled (helper_recording p) enabled) ?Q s"
    unfolding set_tun_enabled_def observe_tun_def helper_recording_sel
    by (intro wp_rules wp_ask_recorded wp_phase_log) (auto split: if_splits)
  then show ?thesis
    using wp_run [OF _ assms] by blast
qed

text \<open>
  A session that has failed stays closed. Whatever is called after the failure short of a removal, the helper is
  shown as unavailable, and switching or observing TUN is refused without a call to the platform; the
  removal capability keeps following the fields of the snapshot throughout.
\<close>

theorem helper_failed_session_closed:
  assumes "snapshot_ok None initial_snapshot"
    and "list_all (\<lambda>c. \<not> removes c) later"
    and "s = helper_run p (earlier @ HC_MarkRuntimeUnavailable failure # later) (helper_new initial_snapshot w)"
  shows "hs_availability (hc_snapshot s) = HA_Unavailable
     \<and> hs_removal (hc_snapshot s) = removal_of (hc_snapshot s)
     \<and> run_state (set_tun_enabled p enabled) s = (Inl unhealthy_helper, s)
     \<and> run_state (observe_tun p) s = (Inl unhealthy_helper, s)"
proof -
  define marked where
    "marked = helper_perform p (HC_MarkRuntimeUnavailable failure) (helper_run p earlier (helper_new initial_snapshot w))"
  have "helper_ok (helper_run p earlier (helper_new initial_snapshot w))"
    by (rule run_helper_ok) (simp add: helper_new_def assms(1))
  then have "helper_ok marked"
    unfolding marked_def by (rule perform_helper_ok)
  moreover have "hc_runtime_failure marked \<noteq> None"
    by (simp add: marked_def mark_runtime_unavailable_def State_Monad.update_def)
  moreover have "s = helper_run p later marked"
    by (simp add: assms(3) helper_run_def marked_def)
  ultimately have "helper_ok s" "hc_runtime_failure s \<noteq> None"
    using run_helper_ok run_session_failure assms(2) by blast+
  then have "hs_availability (hc_snapshot s) = HA_Unavailable" "hs_removal (hc_snapshot s) = removal_of (hc_snapshot s)"
    by (auto simp: snapshot_ok_def)
  then show ?thesis
    by (simp add: set_tun_enabled_def observe_tun_def snapshot_now_def has_healthy_identity_def)
qed

end
