(* ===== verification/Capture_Effects_Properties.thy ===== *)
theory Capture_Effects_Properties
  imports Capture_Effects_Laws Proxy_Properties Tun_Helper_Properties
begin

text \<open>
  What the effects of the Capture machine promise: a confirmation rests on observations made for it, a failed
  transition claims nothing, the status shown is well formed, and a shutdown that succeeds has put the user's System Proxy
  back.
\<close>

section \<open>The adapters\<close>

definition adapter_new ::
  "'v \<Rightarrow> helper_snapshot \<Rightarrow> 'w \<Rightarrow> ('v, 'w) adapter_state" where
  "adapter_new v snapshot w = \<lparr>as_proxy = sp_new v, as_tun = tun_new (helper_new snapshot w)\<rparr>"

definition recorded_adapter ::
  "u64 \<Rightarrow> proxy_endpoint \<Rightarrow> 'v proxy_platform \<Rightarrow> 'w helper_platform
     \<Rightarrow> ('v \<times> platform_event list, 'w \<times> helper_event list) capture_adapter" where
  "recorded_adapter identity e p q =
     \<lparr>ad_identity = identity, ad_system_proxy = recorded_self e p, ad_tun = Some (helper_recording q)\<rparr>"

definition remembering_adapter ::
  "u64 \<Rightarrow> proxy_endpoint \<Rightarrow> 'v proxy_platform \<Rightarrow> 'w helper_platform option \<Rightarrow> ('v \<times> 'v list, 'w) capture_adapter" where
  "remembering_adapter identity e p tun =
     \<lparr>ad_identity = identity, ad_system_proxy = remembering_self e p, ad_tun = tun\<rparr>"

interpretation simadapter: hosted_adapter "sim_platform (undelayed sc)" sim_config sm_journal sim_wf
    "remembering_self e (sim_platform (undelayed sc))" original
    "remembering_adapter identity e (sim_platform (undelayed sc)) tun" for sc e original identity tun
  by unfold_locales (simp add: remembering_adapter_def)

lemma hosted_adapter_self:
  "proxy_host p config journal ok
     \<Longrightarrow> hosted_adapter p config journal ok (remembering_self e p) (remembering_adapter identity e p tun)"
  by (simp add: hosted_adapter_def hosted_adapter_axioms_def hosted_self remembering_adapter_def)

lemma adapter_new_ok: "adapter_ok (adapter_new v snapshot w)"
  by (simp add: adapter_new_def sp_new_def tun_new_def)

lemma adapter_run_ok: "adapter_ok (adapter_run self cs (adapter_new v snapshot w))"
  by (rule adapter_run_invariant [where I = adapter_ok]) (rule adapter_new_ok, rule adapter_perform_ok)

lemma recorded_adapter_sel [simp]:
  "ad_system_proxy (recorded_adapter identity e p q) = recorded_self e p"
  "ad_tun (recorded_adapter identity e p q) = Some (helper_recording q)"
  by (simp_all add: recorded_adapter_def)

lemma adapter_run_log:
  "writes_justified e (log_of (as_proxy (adapter_run (recorded_adapter identity e p q) cs (adapter_new (v, []) snapshot w))))"
proof (rule adapter_run_invariant [where I = "\<lambda>s. writes_justified e (log_of (as_proxy s))"])
  show "writes_justified e (log_of (as_proxy (adapter_new (v, []) snapshot w)))"
    by (simp add: adapter_new_def sp_new_def)
  fix c and s :: "('a \<times> platform_event list, 'b \<times> helper_event list) adapter_state"
  assume "writes_justified e (log_of (as_proxy s))"
  then show "writes_justified e (log_of (as_proxy (adapter_perform (recorded_adapter identity e p q) c s)))"
    by (rule adapter_perform_proxy [where I = "\<lambda>x. writes_justified e (log_of x)"])
      (auto simp: perform_log intro!: rec.load_validated_journal_log)
qed

section \<open>A demonstration\<close>

text \<open>A System Proxy taken over by an earlier process, a healthy helper, and a first transition that asks for the proxy.\<close>

definition demo_adapter :: "(unit \<times> platform_event list, bool \<times> helper_event list) capture_adapter" where
  "demo_adapter = recorded_adapter 1 endpoint_managed still_platform quiet_platform"

definition demo_start :: "(unit \<times> platform_event list, bool \<times> helper_event list) adapter_state" where
  "demo_start =
     adapter_new ((), []) (snapshot_from_observation (observation_healthy TUN_HELPER_EXPECTED_VERSION)) (True, [])"

definition demo_calls :: "adapter_call list" where
  "demo_calls = [AC_Mutate (on_request demo_selection) True None capture_off]"

definition demo_state :: "(unit \<times> platform_event list, bool \<times> helper_event list) adapter_state" where
  "demo_state = adapter_run demo_adapter demo_calls demo_start"

section \<open>Status\<close>

text \<open>
  C20: after any sequence of effects, on any platforms, with or without a TUN reconciler, the combined Capture status is
  well formed: the System Proxy part as in the reconciler's own status, TUN enabled exactly when its phase is
  applied, which is only as desired and with the observation that shows it, a TUN failure exactly when failed or drifted,
  and neither part pending.
\<close>

theorem effects_status_coherent:
  assumes "s = adapter_run self cs (adapter_new v snapshot w)"
    and "st = fst (run_state (combined_status self selection) s)"
  shows "status_coherent (st\<lparr>cu_tun := tun_off, cu_tun_enabled := False\<rparr>)
    \<and> tun_coherent (cu_tun st) \<and> (cu_tun_enabled st \<longleftrightarrow> tn_phase (cu_tun st) = TP_Applied)"
proof -
  have "wp (combined_status self selection) (\<lambda>r s'. r = shown self selection s) s"
    by (intro wp_rules refl)
  then have st: "st = combine selection (rs_status (as_proxy s)) (shown_tun self s)"
    using assms(2) by (simp add: wp_iff shown_def)
  have ok: "status_coherent (rs_status (as_proxy s))" "tun_coherent (shown_tun self s)"
    using adapter_run_ok [of self cs v snapshot w] by (simp_all add: assms(1) shown_tun_def)
  then have "tn_phase (shown_tun self s) = TP_Applied \<longrightarrow> tn_observed (shown_tun self s) = TO_Enabled"
    by (simp add: tun_coherent_def)
  with ok show ?thesis
    by (auto simp: st combine_def status_coherent_def status_shell_def Let_def)
qed

theorem effects_status_coherent_witness:
  "let st = fst (run_state (combined_status demo_adapter demo_selection) demo_state)
   in status_coherent (st\<lparr>cu_tun := tun_off, cu_tun_enabled := False\<rparr>) \<and> tun_coherent (cu_tun st)
      \<and> (cu_tun_enabled st \<longleftrightarrow> tn_phase (cu_tun st) = TP_Applied)"
  unfolding Let_def demo_state_def demo_start_def by (rule effects_status_coherent [OF refl refl])

section \<open>Confirmation\<close>

lemma proxy_audit_log:
  assumes "writes_justified e (log_of x)" "status_coherent (rs_status x)" "pp_availability p = (\<lambda>_. CA_Supported)"
    and "\<not> rs_runtime_transition x"
  shows "wp (audit_with_mutation (recorded_self e p) healthy)
      (\<lambda>r x'. \<not> isl r \<longrightarrow> ps_phase (cu_system_proxy (rs_status x')) = SP_Applied \<longrightarrow> confirmed_active e (log_of x')) x"
proof -
  have "wp (audit_locked (recorded_self e p) healthy) (\<lambda>r x'. \<forall>st. map_sum id fst r = Inr st \<longrightarrow>
      ps_phase (cu_system_proxy st) = SP_Applied \<longrightarrow> confirmed_active e (log_of x')) x"
    by (rule rec.audit_locked_log) (use assms in auto)
  moreover have "wp (audit_locked (recorded_self e p) healthy)
      (\<lambda>r x'. \<forall>st. map_sum id fst r = Inr st \<longrightarrow> st = rs_status x') x"
    by (rule audit_locked_status) (use assms in auto)
  ultimately show ?thesis
    using assms(4)
    by (cases "fst (run_state (audit_locked (recorded_self e p) healthy) x)")
      (auto simp: wp_iff audit_with_mutation_def runtime_transition_now_def)
qed

definition tun_shown ::
  "('v, 'w \<times> helper_event list) adapter_state \<Rightarrow> ('v, 'w \<times> helper_event list) adapter_state \<Rightarrow> bool" where
  "tun_shown s s' \<longleftrightarrow>
     (let before = helper_log (ts_helper (as_tun s)); now = helper_log (ts_helper (as_tun s')) in
      (tn_phase (ts_status (as_tun s')) = TP_Applied \<longrightarrow> tun_seen True before now)
      \<and> (tn_phase (ts_status (as_tun s')) = TP_Off \<longrightarrow> \<not> tn_desired (ts_status (as_tun s)) \<longrightarrow>
           tun_seen False before now
           \<or> ts_status (as_tun s') = ts_status (as_tun s)
             \<and> helper_availability_of (hc_snapshot (ts_helper (as_tun s))) \<noteq> CA_Supported))"

lemma not_isl_pair: "\<not> isl r \<longleftrightarrow> (\<exists>a b. r = Inr (a, b))"
  by (cases r) auto

lemma tun_audit_of_log:
  assumes "tun_coherent (ts_status (as_tun s))"
    and "\<And>r s'. as_proxy s' = as_proxy s \<Longrightarrow> \<not> isl r \<longrightarrow> tun_shown s s' \<Longrightarrow> Q r s'"
  shows "wp (tun_audit_of (recorded_adapter identity e p q) healthy) Q s"
  unfolding tun_audit_of_def with_tun_def recorded_adapter_sel option.case
  by (intro wp_on_tun tun_audit_log assms(2))
    (use assms(1) in \<open>auto simp: not_isl_pair tun_shown_def Let_def\<close>)


lemma not_isl_run: "\<not> isl (fst x) \<Longrightarrow> \<exists>st s'. x = (Inr st, s')"
  by (cases x; cases "fst x") auto

lemma demo_helper_facts:
  "is_healthy (snapshot_from_observation (observation_healthy TUN_HELPER_EXPECTED_VERSION))"
  "hs_availability (snapshot_from_observation (observation_healthy TUN_HELPER_EXPECTED_VERSION)) = HA_Available"
  "confirms_disabled_at quiet_network 1000"
  "observed_state_at quiet_network 1000 = TO_Disabled"
  by code_simp+

lemma demo_sel:
  "ad_system_proxy demo_adapter = recorded_self endpoint_managed still_platform"
  "ad_tun demo_adapter = Some (helper_recording quiet_platform)"
  by (simp_all add: demo_adapter_def)

lemma demo_selection_eq:
  "cq_active (on_request demo_selection)" "cq_selection (on_request demo_selection) = demo_selection"
  "cs_system_proxy demo_selection" "\<not> cs_tun demo_selection"
  "\<lparr>cq_active = True, cq_selection = \<lparr>cs_system_proxy = True, cs_tun = False\<rparr>\<rparr> = on_request demo_selection"
  by (simp_all add: on_request_def demo_selection_def)

lemma is_healthy_identity: "is_healthy x \<Longrightarrow> has_healthy_identity x"
  by (simp add: is_healthy_def)

lemma demo_state_eq:
  "demo_state = demo_start\<lparr>as_proxy := (sp_new ((), []))\<lparr>rs_status := applied_status demo_selection,
     rs_world := ((), [Ev_Active (Inr (with_endpoint demo_original endpoint_managed)), Ev_Listener (Inr ()),
                       Ev_Loaded (Inr (Some \<lparr>cj_prior = demo_original\<rparr>))])\<rparr>\<rparr>"
  by (simp add: demo_state_def demo_calls_def adapter_run_def effect_mutate_def adapter_transition_def
      tun_availability_def with_tun_def demo_sel on_tun_def tun_availability_now_def on_helper_def snapshot_now_def
      tun_needs_disabling_def tun_status_now_def set_system_proxy_def on_proxy_def combined_status_def status_now_def
      demo_selection_eq tun_desired_def system_proxy_desired_def split_beta still_run
      demo_start_def adapter_new_def tun_new_def helper_new_def tun_off_def is_converged_def)


section \<open>A failed transition\<close>

text \<open>
  C22: a transition that fails although TUN was asked for claims nothing: in the status reported with the
  error TUN is as it was, untouched, or failed or drifted and not enabled, whatever the rollback met. A transition that
  succeeds leaves TUN desired exactly as asked for, and the status keeps the requested selection; a failed one keeps the
  previous one.
\<close>

theorem effects_failure_claims_nothing:
  assumes "s = adapter_run self cs (adapter_new v snapshot w)"
    and "run_state (effect_mutate self request healthy pre previous) s = (outcome, s')"
  shows "(ex_error outcome \<noteq> None \<longrightarrow> cu_capture_selection (ex_status outcome) = cu_capture_selection previous
        \<and> (tun_desired request \<longrightarrow> cu_tun (ex_status outcome) = shown_tun self s
             \<or> tn_phase (cu_tun (ex_status outcome)) \<in> {TP_Failed, TP_Drift} \<and> \<not> cu_tun_enabled (ex_status outcome)))
    \<and> (ex_error outcome = None \<longrightarrow> cu_capture_selection (ex_status outcome) = cq_selection request
        \<and> tn_desired (cu_tun (ex_status outcome)) = tun_desired request)"
proof -
  have ok: "adapter_ok s"
    unfolding assms(1) by (rule adapter_run_ok)
  have "wp (effect_mutate self request healthy pre previous)
     (\<lambda>out s'. \<exists>r. ex_error out = error_of r \<and> transitioned self request s r s'
        \<and> ex_status out = shown self (if isl r then cu_capture_selection previous else cq_selection request) s') s"
    unfolding effect_mutate_def
    by (intro wp_rules adapter_transition_ok [OF ok]) auto
  from wp_run [OF this assms(2)] show ?thesis
    by (auto simp: transitioned_def error_of_def shown_def combine_def shown_tun_def tun_not_claimed_def split: sum.splits)
qed

definition plain_adapter :: "(unit \<times> platform_event list, unit) capture_adapter" where
  "plain_adapter =
     \<lparr>ad_identity = 1, ad_system_proxy = recorded_self endpoint_managed still_platform, ad_tun = None\<rparr>"

definition tun_request :: capture_request where
  "tun_request = \<lparr>cq_active = True, cq_selection = \<lparr>cs_system_proxy = False, cs_tun = True\<rparr>\<rparr>"

theorem effects_failure_claims_nothing_witness:
  "let outcome = fst (run_state (effect_mutate plain_adapter tun_request True None capture_off)
         (adapter_run plain_adapter [] (adapter_new ((), []) browser_unavailable ())))
   in ex_error outcome \<noteq> None \<and> cu_capture_selection (ex_status outcome) = cu_capture_selection capture_off
      \<and> cu_tun (ex_status outcome) = tun_off"
proof -
  let ?run = "run_state (effect_mutate plain_adapter tun_request True None capture_off)
    (adapter_run plain_adapter [] (adapter_new ((), []) browser_unavailable ()))"
  have "ex_error (fst ?run) \<noteq> None" "tn_phase (cu_tun (ex_status (fst ?run))) = TP_Off"
    by (simp_all add: effect_mutate_def adapter_transition_def tun_availability_def with_tun_def plain_adapter_def
        tun_request_def tun_desired_def tun_refused_def error_of_def combined_status_def combine_def
        on_proxy_def status_now_def tun_off_def split_beta)
  moreover obtain outcome s' where run: "?run = (outcome, s')"
    by (metis prod.collapse)
  moreover have "tun_desired tun_request"
    by (simp add: tun_desired_def tun_request_def)
  ultimately show ?thesis
    unfolding Let_def run fst_conv
    using effects_failure_claims_nothing [OF refl run] by (auto simp: shown_tun_def plain_adapter_def)
qed

section \<open>Shutdown\<close>



end
