(* ===== verification/Recent_Traffic.thy ===== *)
theory Recent_Traffic
  imports Mish_Prelude
begin

text \<open>
  \<^verbatim>\<open>RecentTraffic\<close> of \<^verbatim>\<open>crates/runtime/src/recent_traffic.rs\<close>: the transferred bytes and the last minute of
  samples of a capture session, from counters that a source may restart at any time. Each operation takes the clock
  reading the code makes; the lock serialises the operations.
\<close>

section \<open>Data\<close>

definition RECENT_TRAFFIC_CADENCE_MILLISECONDS :: u64 where
  "RECENT_TRAFFIC_CADENCE_MILLISECONDS = 1000"

definition RECENT_TRAFFIC_WINDOW_MILLISECONDS :: u64 where
  "RECENT_TRAFFIC_WINDOW_MILLISECONDS = 60000"

definition RECENT_TRAFFIC_SAMPLE_LIMIT :: nat where
  "RECENT_TRAFFIC_SAMPLE_LIMIT = 60"

datatype recent_phase = RT_Idle | RT_Active | RT_Suspended

record recent_sample =
  sm_sequence :: u64
  sm_offset :: u64
  sm_download_rate :: u64
  sm_upload_rate :: u64

record recent_snapshot =
  rn_authority_id :: string
  rn_revision :: u64
  rn_phase :: recent_phase
  rn_session_id :: "string option"
  rn_profile_id :: "string option"
  rn_cadence :: u64
  rn_window :: u64
  rn_downloaded :: u64
  rn_uploaded :: u64
  rn_download_rate :: u64
  rn_upload_rate :: u64
  rn_samples :: "recent_sample list"

definition snapshot_idle :: "string \<Rightarrow> recent_snapshot" where
  "snapshot_idle authority_id =
     \<lparr>rn_authority_id = authority_id, rn_revision = 0, rn_phase = RT_Idle, rn_session_id = None,
      rn_profile_id = None, rn_cadence = RECENT_TRAFFIC_CADENCE_MILLISECONDS,
      rn_window = RECENT_TRAFFIC_WINDOW_MILLISECONDS, rn_downloaded = 0, rn_uploaded = 0,
      rn_download_rate = 0, rn_upload_rate = 0, rn_samples = []\<rparr>"

record recent_observation =
  ob_source_generation :: u64
  ob_source_sequence :: u64
  ob_profile_id :: string
  ob_downloaded :: u64
  ob_uploaded :: u64
  ob_download_rate :: u64
  ob_upload_rate :: u64

datatype continuity = Continue | Discontinue

record pending_sample =
  pd_slot :: u64
  pd_offset :: u64
  pd_download_rate :: u64
  pd_upload_rate :: u64

record recent_state =
  rs_snapshot :: recent_snapshot
  rs_next_session_number :: u64
  rs_session_started_at :: u64
  rs_last_now :: u64
  rs_source_generation :: "u64 option"
  rs_source_sequence :: u64
  rs_baseline_downloaded :: u64
  rs_baseline_uploaded :: u64
  rs_offset_downloaded :: u64
  rs_offset_uploaded :: u64
  rs_pending :: "pending_sample option"
  rs_samples :: "recent_sample list"
  rs_next_sample_sequence :: u64

definition recent_new :: "string \<Rightarrow> recent_state" where
  "recent_new authority_id =
     \<lparr>rs_snapshot = snapshot_idle authority_id, rs_next_session_number = 0, rs_session_started_at = 0,
      rs_last_now = 0, rs_source_generation = None, rs_source_sequence = 0, rs_baseline_downloaded = 0,
      rs_baseline_uploaded = 0, rs_offset_downloaded = 0, rs_offset_uploaded = 0, rs_pending = None,
      rs_samples = [], rs_next_sample_sequence = 1\<rparr>"

section \<open>Operations of the state\<close>

definition saturating_mul :: "u64 \<Rightarrow> u64 \<Rightarrow> u64" where
  "saturating_mul a b = (if unat a * unat b < 2 ^ 64 then a * b else - 1)"

definition advance_revision :: "recent_state \<Rightarrow> recent_state" where
  "advance_revision self =
     self\<lparr>rs_snapshot := (rs_snapshot self)\<lparr>rn_revision := saturating_add (rn_revision (rs_snapshot self)) 1\<rparr>\<rparr>"

definition reset_source_generation :: "recent_state \<Rightarrow> recent_state" where
  "reset_source_generation self =
     self\<lparr>rs_source_generation := None, rs_source_sequence := 0, rs_baseline_downloaded := 0,
          rs_baseline_uploaded := 0, rs_offset_downloaded := rn_downloaded (rs_snapshot self),
          rs_offset_uploaded := rn_uploaded (rs_snapshot self), rs_pending := None\<rparr>"

definition start_session :: "string \<Rightarrow> u64 \<Rightarrow> recent_state \<Rightarrow> recent_state" where
  "start_session profile_id clock_now self =
     (let now = max clock_now (rs_last_now self);
          number = saturating_add (rs_next_session_number self) 1;
          snapshot = (rs_snapshot self)
            \<lparr>rn_phase := RT_Active,
             rn_session_id :=
               Some (rn_authority_id (rs_snapshot self) @ ''-session-'' @ u64_to_string number),
             rn_profile_id := Some profile_id, rn_downloaded := 0, rn_uploaded := 0,
             rn_download_rate := 0, rn_upload_rate := 0, rn_samples := []\<rparr>
      in advance_revision (reset_source_generation
           (self\<lparr>rs_last_now := now, rs_next_session_number := number, rs_session_started_at := now,
                 rs_snapshot := snapshot, rs_samples := [], rs_next_sample_sequence := 1\<rparr>)))"

definition reset_idle :: "recent_state \<Rightarrow> recent_state" where
  "reset_idle self =
     advance_revision (reset_source_generation
       (self\<lparr>rs_snapshot := (rs_snapshot self)
               \<lparr>rn_phase := RT_Idle, rn_session_id := None, rn_profile_id := None, rn_downloaded := 0,
                rn_uploaded := 0, rn_download_rate := 0, rn_upload_rate := 0, rn_samples := []\<rparr>,
             rs_samples := [], rs_next_sample_sequence := 1\<rparr>))"

text \<open>The second loop of \<^verbatim>\<open>commit_sample\<close>: samples that have left the window go, oldest first.\<close>

fun pop_expired :: "u64 \<Rightarrow> recent_sample list \<Rightarrow> recent_sample list" where
  "pop_expired offset [] = []"
| "pop_expired offset (sample # samples) =
     (if RECENT_TRAFFIC_WINDOW_MILLISECONDS \<le> saturating_sub offset (sm_offset sample)
      then pop_expired offset samples else sample # samples)"

definition commit_sample :: "pending_sample \<Rightarrow> recent_state \<Rightarrow> recent_state" where
  "commit_sample pending self =
     (let sample = \<lparr>sm_sequence = rs_next_sample_sequence self, sm_offset = pd_offset pending,
                    sm_download_rate = pd_download_rate pending, sm_upload_rate = pd_upload_rate pending\<rparr>;
          samples = pop_expired (pd_offset pending)
                      (pop_front_while_over RECENT_TRAFFIC_SAMPLE_LIMIT (rs_samples self @ [sample]))
      in self\<lparr>rs_samples := samples, rs_next_sample_sequence := saturating_add (rs_next_sample_sequence self) 1,
              rs_snapshot := (rs_snapshot self)\<lparr>rn_samples := samples\<rparr>\<rparr>)"

definition admits_observation :: "recent_observation \<Rightarrow> recent_state \<Rightarrow> bool" where
  "admits_observation observation self \<longleftrightarrow>
     rn_phase (rs_snapshot self) = RT_Active
     \<and> rn_profile_id (rs_snapshot self) = Some (ob_profile_id observation)
     \<and> \<not> is_some_and (rs_source_generation self)
           (\<lambda>generation. ob_source_generation observation < generation
              \<or> ob_source_generation observation = generation
                \<and> ob_source_sequence observation \<le> rs_source_sequence self)"

definition counters_decreased :: "recent_observation \<Rightarrow> recent_state \<Rightarrow> bool" where
  "counters_decreased observation self \<longleftrightarrow>
     ob_downloaded observation < rs_baseline_downloaded self
     \<or> ob_uploaded observation < rs_baseline_uploaded self
     \<or> ob_downloaded observation
         < saturating_add (rs_baseline_downloaded self)
             (saturating_sub (rn_downloaded (rs_snapshot self)) (rs_offset_downloaded self))
     \<or> ob_uploaded observation
         < saturating_add (rs_baseline_uploaded self)
             (saturating_sub (rn_uploaded (rs_snapshot self)) (rs_offset_uploaded self))"

definition baseline_reset :: "recent_observation \<Rightarrow> recent_state \<Rightarrow> bool" where
  "baseline_reset observation self \<longleftrightarrow>
     rs_source_generation self \<noteq> Some (ob_source_generation observation) \<or> counters_decreased observation self"

text \<open>The source position of an admitted observation is taken over; after a reset the counters start anew.\<close>

definition take_source :: "recent_observation \<Rightarrow> recent_state \<Rightarrow> recent_state" where
  "take_source observation self =
     (let rebased =
        (if baseline_reset observation self
         then self\<lparr>rs_offset_downloaded := rn_downloaded (rs_snapshot self),
                   rs_offset_uploaded := rn_uploaded (rs_snapshot self),
                   rs_baseline_downloaded := ob_downloaded observation,
                   rs_baseline_uploaded := ob_uploaded observation, rs_pending := None\<rparr>
         else self)
      in rebased\<lparr>rs_source_generation := Some (ob_source_generation observation),
                 rs_source_sequence := ob_source_sequence observation\<rparr>)"

definition next_total :: "u64 \<Rightarrow> u64 \<Rightarrow> u64 \<Rightarrow> u64" where
  "next_total generation_offset counter baseline = saturating_add generation_offset (saturating_sub counter baseline)"

text \<open>A full slot is committed, the pending sample is replaced.\<close>

definition roll_samples :: "recent_observation \<Rightarrow> bool \<Rightarrow> u64 \<Rightarrow> recent_state \<Rightarrow> recent_state \<times> bool" where
  "roll_samples observation reset now self =
     (let slot = saturating_sub now (rs_session_started_at self) div RECENT_TRAFFIC_CADENCE_MILLISECONDS;
          (rolled, changed) =
            (case rs_pending self of
               Some pending \<Rightarrow> if pd_slot pending < slot then (commit_sample pending self, True) else (self, False)
             | None \<Rightarrow> (self, False))
      in (if reset then rolled
          else rolled\<lparr>rs_pending := Some
                 \<lparr>pd_slot = slot, pd_offset = saturating_mul slot RECENT_TRAFFIC_CADENCE_MILLISECONDS,
                  pd_download_rate = ob_download_rate observation,
                  pd_upload_rate = ob_upload_rate observation\<rparr>\<rparr>,
          changed))"

definition observed_totals :: "recent_observation \<Rightarrow> recent_state \<Rightarrow> recent_snapshot \<Rightarrow> recent_snapshot" where
  "observed_totals observation source snapshot =
     (let next_downloaded = next_total (rs_offset_downloaded source) (ob_downloaded observation)
                              (rs_baseline_downloaded source);
          next_uploaded = next_total (rs_offset_uploaded source) (ob_uploaded observation)
                            (rs_baseline_uploaded source)
      in snapshot\<lparr>rn_downloaded := (if rn_downloaded snapshot < next_downloaded then next_downloaded
                                     else rn_downloaded snapshot),
                  rn_uploaded := (if rn_uploaded snapshot < next_uploaded then next_uploaded
                                   else rn_uploaded snapshot),
                  rn_download_rate := ob_download_rate observation,
                  rn_upload_rate := ob_upload_rate observation\<rparr>)"

definition observe_at :: "recent_observation \<Rightarrow> u64 \<Rightarrow> recent_state \<Rightarrow> recent_state" where
  "observe_at observation clock_now self =
     (if \<not> admits_observation observation self then self
      else
        let now = max clock_now (rs_last_now self);
            timed = self\<lparr>rs_last_now := now\<rparr>;
            reset = baseline_reset observation timed;
            source = take_source observation timed;
            (rolled, committed) = roll_samples observation reset now source;
            snapshot = observed_totals observation source (rs_snapshot rolled);
            updated = rolled\<lparr>rs_snapshot := snapshot\<rparr>;
            changed = (committed \<or> snapshot \<noteq> rs_snapshot rolled)
        in if changed then advance_revision updated else updated)"

section \<open>Operations\<close>

definition capture_applied :: "string \<Rightarrow> recent_observation option \<Rightarrow> u64 \<Rightarrow> recent_state \<Rightarrow> recent_state" where
  "capture_applied profile_id observation now state =
     (let same_profile = (rn_profile_id (rs_snapshot state) = Some profile_id);
          active =
            (if rn_phase (rs_snapshot state) = RT_Idle \<or> \<not> same_profile then start_session profile_id now state
             else if rn_phase (rs_snapshot state) = RT_Suspended
             then advance_revision (reset_source_generation
                    (state\<lparr>rs_snapshot := (rs_snapshot state)
                            \<lparr>rn_phase := RT_Active, rn_download_rate := 0, rn_upload_rate := 0\<rparr>\<rparr>))
             else state)
      in case observation of None \<Rightarrow> active | Some ob \<Rightarrow> observe_at ob now active)"

definition suspend :: "recent_state \<Rightarrow> recent_state" where
  "suspend state =
     (if rn_phase (rs_snapshot state) = RT_Active
      then advance_revision
             (state\<lparr>rs_snapshot := (rs_snapshot state)
                      \<lparr>rn_phase := RT_Suspended, rn_download_rate := 0, rn_upload_rate := 0\<rparr>,
                    rs_pending := None\<rparr>)
      else state)"

definition stop :: "recent_state \<Rightarrow> recent_state" where
  "stop state = (if rn_phase (rs_snapshot state) = RT_Idle then state else reset_idle state)"

definition resume ::
  "continuity \<Rightarrow> string option \<Rightarrow> recent_observation option \<Rightarrow> u64 \<Rightarrow> recent_state \<Rightarrow> recent_state" where
  "resume continuity profile_id observation now state =
     (if continuity = Discontinue then stop state
      else case profile_id of
             None \<Rightarrow> state
           | Some p \<Rightarrow> capture_applied p observation now state)"

datatype recent_call =
    RC_Applied string "recent_observation option" u64
  | RC_Observe recent_observation u64
  | RC_Suspend
  | RC_Resume continuity "string option" "recent_observation option" u64
  | RC_Stop

fun recent_perform :: "recent_call \<Rightarrow> recent_state \<Rightarrow> recent_state" where
  "recent_perform (RC_Applied profile_id observation now) state = capture_applied profile_id observation now state"
| "recent_perform (RC_Observe observation now) state = observe_at observation now state"
| "recent_perform RC_Suspend state = suspend state"
| "recent_perform (RC_Resume continuity profile_id observation now) state =
     resume continuity profile_id observation now state"
| "recent_perform RC_Stop state = stop state"

definition recent_run :: "recent_call list \<Rightarrow> recent_state \<Rightarrow> recent_state" where
  "recent_run cs state = fold recent_perform cs state"

end
