(* ===== verification/Recent_Properties.thy ===== *)
theory Recent_Properties
  imports Recent_Traffic
begin

text \<open>
  What the recent traffic shows: the samples of the last minute in order, the transferred bytes exactly as an
  accounting of every increment gives them, and a revision that tells every change.
\<close>

section \<open>The samples\<close>

definition elapsed_slot :: "recent_state \<Rightarrow> nat" where
  "elapsed_slot s = (unat (rs_last_now s) - unat (rs_session_started_at s)) div 1000"

text \<open>
  The samples of a session: at most sixty, on the grid of full seconds, in order of time, none a minute older than
  the newest, numbered without a gap as long as the numbers last.
\<close>

definition numbered :: "u64 \<Rightarrow> recent_sample list \<Rightarrow> bool" where
  "numbered next_sequence samples \<longleftrightarrow>
     next_sequence = - 1
     \<or> map (\<lambda>x. unat (sm_sequence x)) samples = [unat next_sequence - length samples ..< unat next_sequence]"

definition in_order :: "recent_sample list \<Rightarrow> bool" where
  "in_order samples \<longleftrightarrow>
     sorted_wrt (\<lambda>x y. unat (sm_offset x) < unat (sm_offset y)) samples
     \<and> (\<forall>x \<in> set samples. 1000 dvd unat (sm_offset x))"

definition samples_ok :: "u64 \<Rightarrow> recent_sample list \<Rightarrow> bool" where
  "samples_ok next_sequence samples \<longleftrightarrow>
     length samples \<le> RECENT_TRAFFIC_SAMPLE_LIMIT \<and> in_order samples \<and> numbered next_sequence samples
     \<and> (\<forall>x \<in> set samples. \<forall>y \<in> set samples. unat (sm_offset y) - unat (sm_offset x) < 60000)"

definition pending_ok :: "recent_state \<Rightarrow> pending_sample \<Rightarrow> bool" where
  "pending_ok s p \<longleftrightarrow> unat (pd_offset p) = unat (pd_slot p) * 1000 \<and> unat (pd_slot p) \<le> elapsed_slot s
     \<and> (\<forall>x \<in> set (rs_samples s). unat (sm_offset x) < unat (pd_offset p))"

definition recent_ok :: "recent_state \<Rightarrow> bool" where
  "recent_ok s \<longleftrightarrow>
     rn_samples (rs_snapshot s) = rs_samples s \<and> samples_ok (rs_next_sample_sequence s) (rs_samples s)
     \<and> rs_session_started_at s \<le> rs_last_now s
     \<and> (\<forall>x \<in> set (rs_samples s). unat (sm_offset x) < elapsed_slot s * 1000)
     \<and> (\<forall>p. rs_pending s = Some p \<longrightarrow> pending_ok s p)"

lemma pop_expired_eq:
  "pop_expired offset samples =
     dropWhile (\<lambda>x. RECENT_TRAFFIC_WINDOW_MILLISECONDS \<le> saturating_sub offset (sm_offset x)) samples"
  by (induction samples) simp_all

lemma unat_saturating_sub: "unat (saturating_sub a b) = unat a - unat b"
  by (simp add: saturating_sub_def word_le_nat_alt unat_sub)

lemma dropWhile_drop_is_drop: "\<exists>n. dropWhile P (drop k xs) = drop n xs"
  using dropWhile_eq_drop [of P "drop k xs"] by (metis drop_drop)

text \<open>Dropping from the front keeps order and numbers.\<close>

lemma in_order_drop: "in_order samples \<Longrightarrow> in_order (drop n samples)"
  using set_drop_subset [of n samples] by (auto simp: in_order_def intro: sorted_wrt_drop)

lemma numbered_drop:
  assumes "numbered nxt samples"
  shows "numbered nxt (drop n samples)"
proof (cases "nxt = - 1")
  case False
  then have eq: "map (\<lambda>x. unat (sm_sequence x)) samples = [unat nxt - length samples ..< unat nxt]"
    using assms by (simp add: numbered_def)
  then have "length samples \<le> unat nxt"
    by (metis diff_diff_cancel diff_le_self length_map length_upt)
  with eq show ?thesis
    by (cases "n \<le> length samples") (simp_all add: numbered_def drop_map [symmetric] drop_upt)
qed (simp add: numbered_def)

lemma numbered_snoc:
  assumes "numbered nxt samples" "sm_sequence x = nxt"
  shows "numbered (saturating_add nxt 1) (samples @ [x])"
proof (cases "saturating_add nxt 1 = - 1")
  case False
  then have nxt: "nxt \<noteq> - 1" "saturating_add nxt 1 = nxt + 1"
    by (auto simp: saturating_add_1_eq split: if_splits)
  then have "unat (nxt + 1) = unat nxt + 1"
    by (metis checked_add_1_None_iff checked_add_Some_iff checked_add_unat option.exhaust unat_1)
  then show ?thesis
    using assms nxt by (simp add: numbered_def)
qed (simp add: numbered_def)

lemma in_order_snoc:
  "in_order samples \<Longrightarrow> \<forall>y \<in> set samples. unat (sm_offset y) < unat (sm_offset x) \<Longrightarrow> 1000 dvd unat (sm_offset x)
     \<Longrightarrow> in_order (samples @ [x])"
  by (auto simp: in_order_def sorted_wrt_append)

lemma dropWhile_window:
  assumes "in_order samples"
  shows "\<forall>x \<in> set (pop_expired offset samples). unat offset - unat (sm_offset x) < 60000"
  using assms
proof (induction samples)
  case (Cons a samples)
  show ?case
  proof (cases "RECENT_TRAFFIC_WINDOW_MILLISECONDS \<le> saturating_sub offset (sm_offset a)")
    case False
    then have "unat offset - unat (sm_offset a) < 60000"
      by (simp add: RECENT_TRAFFIC_WINDOW_MILLISECONDS_def word_le_nat_alt unat_saturating_sub)
    moreover have "\<forall>x \<in> set samples. unat (sm_offset a) < unat (sm_offset x)"
      using Cons.prems by (simp add: in_order_def)
    ultimately show ?thesis
      using False by fastforce
  qed (use Cons in \<open>simp add: in_order_def\<close>)
qed simp

lemma commit_samples_ok:
  assumes "samples_ok nxt samples" "sm_sequence x = nxt" "1000 dvd unat (sm_offset x)"
    "\<forall>y \<in> set samples. unat (sm_offset y) < unat (sm_offset x)"
  shows "samples_ok (saturating_add nxt 1)
      (pop_expired (sm_offset x) (pop_front_while_over RECENT_TRAFFIC_SAMPLE_LIMIT (samples @ [x])))"
    (is "samples_ok _ ?kept")
proof -
  let ?all = "samples @ [x]"
  let ?bounded = "pop_front_while_over RECENT_TRAFFIC_SAMPLE_LIMIT ?all"
  have all: "in_order ?all" "numbered (saturating_add nxt 1) ?all"
    using assms by (auto simp: samples_ok_def intro!: in_order_snoc numbered_snoc)
  obtain n where kept: "?kept = drop n ?all"
    using dropWhile_drop_is_drop by (metis pop_expired_eq pop_front_while_over_eq)
  have "length ?kept \<le> length ?bounded"
    by (simp add: pop_expired_eq length_dropWhile_le)
  then have "length ?kept \<le> RECENT_TRAFFIC_SAMPLE_LIMIT"
    by (simp add: length_pop_front_while_over)
  moreover have "in_order ?kept" "numbered (saturating_add nxt 1) ?kept"
    unfolding kept using all by (simp_all only: in_order_drop numbered_drop)
  moreover have "in_order ?bounded"
    using all(1) by (simp only: pop_front_while_over_eq in_order_drop)
  moreover have "unat (sm_offset y) \<le> unat (sm_offset x)" if "y \<in> set ?kept" for y
    using that assms(4) set_drop_subset [of n ?all] unfolding kept by fastforce
  ultimately show ?thesis
    using dropWhile_window [of ?bounded "sm_offset x"] unfolding samples_ok_def by fastforce
qed

section \<open>Every operation keeps the samples in shape\<close>

lemma recent_ok_new: "recent_ok (recent_new authority)"
  by (simp add: recent_ok_def recent_new_def snapshot_idle_def samples_ok_def in_order_def numbered_def
      RECENT_TRAFFIC_SAMPLE_LIMIT_def)

lemma recent_ok_advance [simp]: "recent_ok (advance_revision s) = recent_ok s"
  by (simp add: recent_ok_def advance_revision_def pending_ok_def elapsed_slot_def)

text \<open>What neither the samples nor the times depend on may change, and a pending sample may be dropped.\<close>

lemma recent_ok_cong:
  assumes "recent_ok s" "rs_samples s' = rs_samples s" "rn_samples (rs_snapshot s') = rn_samples (rs_snapshot s)"
    "rs_next_sample_sequence s' = rs_next_sample_sequence s" "rs_session_started_at s' = rs_session_started_at s"
    "rs_last_now s \<le> rs_last_now s'" "rs_pending s' = rs_pending s \<or> rs_pending s' = None"
  shows "recent_ok s'"
proof -
  have "elapsed_slot s \<le> elapsed_slot s'"
    using assms(5,6) by (simp add: elapsed_slot_def word_le_nat_alt div_le_mono)
  moreover have "rs_session_started_at s' \<le> rs_last_now s'"
    using assms(1,5,6) unfolding recent_ok_def by (metis order_trans)
  ultimately show ?thesis
    using assms unfolding recent_ok_def pending_ok_def
    by (smt (verit, del_insts) le_trans less_le_trans mult_le_mono1 option.distinct(1))
qed

lemma recent_ok_empty:
  assumes "rs_samples s = []" "rn_samples (rs_snapshot s) = []" "rs_next_sample_sequence s = 1"
    "rs_session_started_at s \<le> rs_last_now s" "rs_pending s = None"
  shows "recent_ok s"
  using assms by (simp add: recent_ok_def samples_ok_def in_order_def numbered_def)

lemma recent_ok_reset_generation: "recent_ok s \<Longrightarrow> recent_ok (reset_source_generation s)"
  by (erule recent_ok_cong) (simp_all add: reset_source_generation_def)

lemma unat_grid:
  assumes "unat slot = elapsed_slot s"
  shows "unat (saturating_mul slot RECENT_TRAFFIC_CADENCE_MILLISECONDS) = elapsed_slot s * 1000"
proof -
  have "elapsed_slot s * 1000 \<le> unat (rs_last_now s)"
    unfolding elapsed_slot_def by (meson diff_le_self div_times_less_eq_dividend le_trans)
  then have "unat slot * 1000 < 2 ^ 64"
    using unat_less_64 [of "rs_last_now s"] assms by linarith
  then show ?thesis
    by (simp add: saturating_mul_def assms [symmetric] RECENT_TRAFFIC_CADENCE_MILLISECONDS_def unat_word_ariths)
qed

text \<open>A committed sample lies before the slot the session has reached.\<close>

lemma commit_keeps:
  assumes "recent_ok s" "rs_pending s = Some p" "unat (pd_slot p) < elapsed_slot s"
  shows "samples_ok (rs_next_sample_sequence (commit_sample p s)) (rs_samples (commit_sample p s))"
    "\<forall>x \<in> set (rs_samples (commit_sample p s)). unat (sm_offset x) < elapsed_slot s * 1000"
proof -
  let ?x = "\<lparr>sm_sequence = rs_next_sample_sequence s, sm_offset = pd_offset p,
    sm_download_rate = pd_download_rate p, sm_upload_rate = pd_upload_rate p\<rparr>"
  let ?kept = "pop_expired (pd_offset p)
    (pop_front_while_over RECENT_TRAFFIC_SAMPLE_LIMIT (rs_samples s @ [?x]))"
  have p: "unat (pd_offset p) = unat (pd_slot p) * 1000" "\<forall>x \<in> set (rs_samples s). unat (sm_offset x) < unat (pd_offset p)"
    using assms(1,2) by (auto simp: recent_ok_def pending_ok_def)
  show "samples_ok (rs_next_sample_sequence (commit_sample p s)) (rs_samples (commit_sample p s))"
    using commit_samples_ok [of "rs_next_sample_sequence s" "rs_samples s" ?x] assms(1) p
    by (simp add: commit_sample_def Let_def recent_ok_def)
  have "set ?kept \<subseteq> insert ?x (set (rs_samples s))"
    using set_dropWhileD set_pop_front_while_over [of RECENT_TRAFFIC_SAMPLE_LIMIT "rs_samples s @ [?x]"]
    by (fastforce simp: pop_expired_eq)
  then show "\<forall>x \<in> set (rs_samples (commit_sample p s)). unat (sm_offset x) < elapsed_slot s * 1000"
    using assms(1,3) p(1) by (auto simp: commit_sample_def Let_def recent_ok_def)
qed

lemma commit_sel [simp]:
  "rs_last_now (commit_sample p s) = rs_last_now s"
  "rs_session_started_at (commit_sample p s) = rs_session_started_at s"
  "rs_pending (commit_sample p s) = rs_pending s"
  "rn_samples (rs_snapshot (commit_sample p s)) = rs_samples (commit_sample p s)"
  by (simp_all add: commit_sample_def Let_def)

lemma recent_ok_roll:
  assumes "recent_ok s" "rs_last_now s = now" "reset \<Longrightarrow> rs_pending s = None"
    "roll_samples ob reset now s = (s', committed)"
  shows "recent_ok s'"
proof -
  define slot where "slot = saturating_sub now (rs_session_started_at s) div RECENT_TRAFFIC_CADENCE_MILLISECONDS"
  have slot: "unat slot = elapsed_slot s"
    using assms(2)
    by (simp add: slot_def elapsed_slot_def unat_div unat_saturating_sub RECENT_TRAFFIC_CADENCE_MILLISECONDS_def)
  note grid = unat_grid [OF slot]
  show ?thesis
  proof (cases "\<exists>p. rs_pending s = Some p \<and> pd_slot p < slot")
    case True
    then obtain p where p: "rs_pending s = Some p" "unat (pd_slot p) < elapsed_slot s" "pd_slot p < slot"
      by (auto simp: slot [symmetric] word_less_nat_alt)
    then have "\<not> reset"
      using assms(3) by auto
    then show ?thesis
      using assms(1,4) commit_keeps [OF assms(1) p(1,2)] p grid
      by (auto simp: roll_samples_def slot_def [symmetric] Let_def recent_ok_def pending_ok_def elapsed_slot_def slot)
  next
    case False
    then have "(case rs_pending s of Some pending \<Rightarrow>
        if pd_slot pending < slot then (commit_sample pending s, True) else (s, False) | None \<Rightarrow> (s, False)) = (s, False)"
      by (auto split: option.splits)
    then show ?thesis
      using assms(1,4) grid
      by (auto simp: roll_samples_def slot_def [symmetric] Let_def recent_ok_def pending_ok_def elapsed_slot_def slot
          split: if_splits)
  qed
qed

lemma take_source_sel [simp]:
  "rs_snapshot (take_source ob s) = rs_snapshot s"
  "rs_samples (take_source ob s) = rs_samples s"
  "rs_next_sample_sequence (take_source ob s) = rs_next_sample_sequence s"
  "rs_session_started_at (take_source ob s) = rs_session_started_at s"
  "rs_last_now (take_source ob s) = rs_last_now s"
  "rs_pending (take_source ob s) = (if baseline_reset ob s then None else rs_pending s)"
  by (simp_all add: take_source_def Let_def)

lemma recent_ok_observe:
  assumes "recent_ok s"
  shows "recent_ok (observe_at ob clock_now s)"
proof -
  define now where "now = max clock_now (rs_last_now s)"
  let ?timed = "s\<lparr>rs_last_now := now\<rparr>"
  obtain rolled committed where roll:
    "roll_samples ob (baseline_reset ob ?timed) now (take_source ob ?timed) = (rolled, committed)"
    by (metis surj_pair)
  have "recent_ok ?timed"
    by (rule recent_ok_cong [OF assms]) (simp_all add: now_def)
  then have "recent_ok (take_source ob ?timed)"
    by (rule recent_ok_cong) simp_all
  then have rolled: "recent_ok rolled"
    by (rule recent_ok_roll [OF _ _ _ roll]) simp_all
  then have "recent_ok (rolled\<lparr>rs_snapshot := observed_totals ob src (rs_snapshot rolled)\<rparr>)" for src
    by (rule recent_ok_cong) (simp_all add: observed_totals_def Let_def)
  then show ?thesis
    using assms rolled by (simp add: observe_at_def now_def [symmetric] roll Let_def)
qed

lemma recent_ok_start: "recent_ok (start_session profile_id now s)"
  unfolding start_session_def Let_def recent_ok_advance
  by (rule recent_ok_empty) (simp_all add: reset_source_generation_def)

lemma recent_ok_idle: "recent_ok s \<Longrightarrow> recent_ok (reset_idle s)"
  unfolding reset_idle_def recent_ok_advance
  by (rule recent_ok_empty) (simp_all add: reset_source_generation_def recent_ok_def)

lemma recent_ok_resumed:
  "recent_ok s \<Longrightarrow> recent_ok (reset_source_generation (s\<lparr>rs_snapshot := (rs_snapshot s)
     \<lparr>rn_phase := RT_Active, rn_download_rate := 0, rn_upload_rate := 0\<rparr>\<rparr>))"
  by (erule recent_ok_cong) (simp_all add: reset_source_generation_def)

lemma recent_ok_applied: "recent_ok s \<Longrightarrow> recent_ok (capture_applied profile_id ob now s)"
  by (auto simp: capture_applied_def Let_def recent_ok_start recent_ok_resumed
      intro!: recent_ok_observe split: option.splits)

lemma recent_ok_suspend: "recent_ok s \<Longrightarrow> recent_ok (suspend s)"
  by (auto simp: suspend_def elim!: recent_ok_cong)

lemma recent_ok_perform: "recent_ok s \<Longrightarrow> recent_ok (recent_perform c s)"
  by (cases c) (auto simp: resume_def stop_def recent_ok_applied recent_ok_observe recent_ok_suspend recent_ok_idle
      split: option.splits)

lemma recent_run_invariant:
  assumes "I s" and "\<And>c s. I s \<Longrightarrow> I (recent_perform c s)"
  shows "I (recent_run cs s)"
  using assms(1) unfolding recent_run_def by (induction cs arbitrary: s) (simp_all add: assms(2))

text \<open>
  Whatever the clock, the sources and the callers do, the published samples are those of the running
  session: at most sixty, at full seconds since its start, strictly in order of time, all within a minute of the newest,
  all before the current second, and numbered consecutively up to the next number, as long as the numbers last.
\<close>

theorem recent_samples_window:
  assumes "s = recent_run cs (recent_new authority)" and "samples = rn_samples (rs_snapshot s)"
  shows "length samples \<le> RECENT_TRAFFIC_SAMPLE_LIMIT \<and> in_order samples
    \<and> numbered (rs_next_sample_sequence s) samples
    \<and> list_all (\<lambda>x. unat (sm_offset x) < elapsed_slot s * 1000
        \<and> list_all (\<lambda>y. unat (sm_offset y) - unat (sm_offset x) < 60000) samples) samples"
proof -
  have "recent_ok s"
    unfolding assms(1) by (rule recent_run_invariant [where I = recent_ok]) (rule recent_ok_new, rule recent_ok_perform)
  then show ?thesis
    by (auto simp: assms(2) recent_ok_def samples_ok_def list_all_iff)
qed

section \<open>The revision\<close>

text \<open>Every operation leaves the snapshot or raises its revision, which stays at its maximum once reached.\<close>

definition told :: "recent_snapshot \<Rightarrow> recent_snapshot \<Rightarrow> bool" where
  "told before later \<longleftrightarrow> later = before \<or> rn_revision before < rn_revision later \<or> rn_revision later = - 1"

lemma told_refl [simp]: "told x x"
  by (simp add: told_def)

lemma told_trans: "told x y \<Longrightarrow> told y z \<Longrightarrow> told x z"
  using word_order.extremum [of "rn_revision z"] by (auto simp: told_def)

lemma told_advance:
  assumes "rn_revision (rs_snapshot s) = rn_revision x"
  shows "told x (rs_snapshot (advance_revision s))"
proof (cases "rn_revision x = - 1")
  case False
  then have "rn_revision x < rn_revision x + 1"
    by (metis checked_add_1_None_iff checked_add_1_less checked_add_Some_iff option.exhaust)
  with False show ?thesis
    using assms by (simp add: told_def advance_revision_def saturating_add_1_eq)
qed (use assms in \<open>simp add: told_def advance_revision_def saturating_add_1_eq\<close>)

lemma roll_revision:
  assumes "roll_samples ob reset now s = (s', committed)"
  shows "rn_revision (rs_snapshot s') = rn_revision (rs_snapshot s)"
    and "\<not> committed \<Longrightarrow> rs_snapshot s' = rs_snapshot s"
  using assms
  by (auto simp: roll_samples_def Let_def commit_sample_def split: option.splits if_splits prod.splits)

lemma told_observe: "told (rs_snapshot s) (rs_snapshot (observe_at ob clock_now s))"
proof -
  define now where "now = max clock_now (rs_last_now s)"
  let ?timed = "s\<lparr>rs_last_now := now\<rparr>"
  obtain rolled committed where roll:
    "roll_samples ob (baseline_reset ob ?timed) now (take_source ob ?timed) = (rolled, committed)"
    by (metis surj_pair)
  have "told (rs_snapshot s) (rs_snapshot (advance_revision (rolled\<lparr>rs_snapshot := observed_totals ob src (rs_snapshot rolled)\<rparr>)))"
    for src
    by (rule told_advance) (use roll_revision(1) [OF roll] in \<open>simp add: observed_totals_def Let_def\<close>)
  then show ?thesis
    using roll_revision(2) [OF roll]
    by (auto simp: observe_at_def now_def [symmetric] roll Let_def)
qed

lemma told_changes:
  "told (rs_snapshot s) (rs_snapshot (start_session profile_id now s))"
  "told (rs_snapshot s) (rs_snapshot (reset_idle s))"
  "told (rs_snapshot s) (rs_snapshot (suspend s))"
  "told (rs_snapshot s) (rs_snapshot (advance_revision (reset_source_generation (s\<lparr>rs_snapshot := (rs_snapshot s)
     \<lparr>rn_phase := RT_Active, rn_download_rate := 0, rn_upload_rate := 0\<rparr>\<rparr>))))"
  unfolding start_session_def reset_idle_def suspend_def Let_def
  by (auto intro!: told_advance simp: reset_source_generation_def)

lemma told_applied: "told (rs_snapshot s) (rs_snapshot (capture_applied profile_id ob now s))"
  unfolding capture_applied_def Let_def
  by (auto split: option.splits intro: told_changes told_observe told_trans [OF told_changes(1) told_observe]
      told_trans [OF told_changes(4) told_observe])

text \<open>
  The revision tells every change. Between any two points of a run the snapshot is either the very same or
  has a larger revision, so a consumer that compares revisions misses nothing, until the revision has reached
  its maximum.
\<close>

theorem recent_revision_tells:
  "told (rs_snapshot (recent_run cs (recent_new authority)))
     (rs_snapshot (recent_run (cs @ later) (recent_new authority)))"
proof -
  have step: "told (rs_snapshot s) (rs_snapshot (recent_perform c s))" for c s
    by (cases c) (auto simp: resume_def stop_def told_applied told_observe told_changes split: option.splits)
  have "told (rs_snapshot s) (rs_snapshot (recent_run cs s))" for cs s
    unfolding recent_run_def by (induction cs arbitrary: s) (auto intro: told_trans [OF step])
  then show ?thesis
    by (simp add: recent_run_def)
qed

end
