(* ===== verification/Recent_Accounting.thy ===== *)
theory Recent_Accounting
  imports Recent_Properties
begin

text \<open>
  The transferred bytes of a session against a reference: unbounded totals to which every increment of the
  counters is added as it is seen. The code keeps no last reading; it derives the totals from a baseline and an
  offset for each run of the source's counters.
\<close>

section \<open>The reference\<close>

record reading =
  rd_generation :: u64
  rd_sequence :: u64
  rd_downloaded :: u64
  rd_uploaded :: u64

record account =
  ac_phase :: recent_phase
  ac_profile :: "string option"
  ac_last :: "reading option"
  ac_downloaded :: nat
  ac_uploaded :: nat

definition account_new :: account where
  "account_new =
     \<lparr>ac_phase = RT_Idle, ac_profile = None, ac_last = None, ac_downloaded = 0, ac_uploaded = 0\<rparr>"

definition reading_of :: "recent_observation \<Rightarrow> reading" where
  "reading_of ob = \<lparr>rd_generation = ob_source_generation ob, rd_sequence = ob_source_sequence ob,
     rd_downloaded = ob_downloaded ob, rd_uploaded = ob_uploaded ob\<rparr>"

text \<open>A reading is newer in a later generation, or later in the same one.\<close>

definition newer :: "reading \<Rightarrow> reading \<Rightarrow> bool" where
  "newer r prev \<longleftrightarrow> rd_generation prev < rd_generation r
     \<or> rd_generation r = rd_generation prev \<and> rd_sequence prev < rd_sequence r"

definition continues :: "reading \<Rightarrow> reading \<Rightarrow> bool" where
  "continues r prev \<longleftrightarrow> rd_generation r = rd_generation prev
     \<and> rd_downloaded prev \<le> rd_downloaded r \<and> rd_uploaded prev \<le> rd_uploaded r"

definition account_observe :: "recent_observation \<Rightarrow> account \<Rightarrow> account" where
  "account_observe ob acc =
     (let r = reading_of ob in
      if ac_phase acc \<noteq> RT_Active \<or> ac_profile acc \<noteq> Some (ob_profile_id ob) then acc
      else case ac_last acc of
             None \<Rightarrow> acc\<lparr>ac_last := Some r\<rparr>
           | Some prev \<Rightarrow>
               if \<not> newer r prev then acc
               else if continues r prev
               then acc\<lparr>ac_last := Some r,
                        ac_downloaded := ac_downloaded acc + unat (rd_downloaded r - rd_downloaded prev),
                        ac_uploaded := ac_uploaded acc + unat (rd_uploaded r - rd_uploaded prev)\<rparr>
               else acc\<lparr>ac_last := Some r\<rparr>)"

definition account_applied :: "string \<Rightarrow> recent_observation option \<Rightarrow> account \<Rightarrow> account" where
  "account_applied profile_id ob acc =
     (let active =
        (if ac_phase acc = RT_Idle \<or> ac_profile acc \<noteq> Some profile_id
         then \<lparr>ac_phase = RT_Active, ac_profile = Some profile_id, ac_last = None, ac_downloaded = 0, ac_uploaded = 0\<rparr>
         else if ac_phase acc = RT_Suspended then acc\<lparr>ac_phase := RT_Active, ac_last := None\<rparr>
         else acc)
      in case ob of None \<Rightarrow> active | Some ob \<Rightarrow> account_observe ob active)"

fun account_perform :: "recent_call \<Rightarrow> account \<Rightarrow> account" where
  "account_perform (RC_Applied profile_id ob now) acc = account_applied profile_id ob acc"
| "account_perform (RC_Observe ob now) acc = account_observe ob acc"
| "account_perform RC_Suspend acc = (if ac_phase acc = RT_Active then acc\<lparr>ac_phase := RT_Suspended\<rparr> else acc)"
| "account_perform (RC_Resume continuity profile_id ob now) acc =
     (if continuity = Discontinue then (if ac_phase acc = RT_Idle then acc else account_new)
      else case profile_id of None \<Rightarrow> acc | Some p \<Rightarrow> account_applied p ob acc)"
| "account_perform RC_Stop acc = (if ac_phase acc = RT_Idle then acc else account_new)"

definition account_run :: "recent_call list \<Rightarrow> account \<Rightarrow> account" where
  "account_run cs acc = fold account_perform cs acc"

text \<open>The totals fit the counters of the code throughout.\<close>

fun within_range :: "recent_call list \<Rightarrow> account \<Rightarrow> bool" where
  "within_range [] acc = (ac_downloaded acc < 2 ^ 64 \<and> ac_uploaded acc < 2 ^ 64)"
| "within_range (c # cs) acc =
     (ac_downloaded acc < 2 ^ 64 \<and> ac_uploaded acc < 2 ^ 64 \<and> within_range cs (account_perform c acc))"

section \<open>Simulation\<close>

text \<open>One counter: what has been counted since the baseline leads from it to the last reading.\<close>

definition counts :: "u64 \<Rightarrow> u64 \<Rightarrow> u64 \<Rightarrow> u64 \<Rightarrow> bool" where
  "counts sum_now offset baseline prev \<longleftrightarrow>
     offset \<le> sum_now \<and> unat prev = unat baseline + (unat sum_now - unat offset)"

definition represents :: "recent_state \<Rightarrow> account \<Rightarrow> bool" where
  "represents s acc \<longleftrightarrow>
     rn_phase (rs_snapshot s) = ac_phase acc \<and> rn_profile_id (rs_snapshot s) = ac_profile acc
     \<and> unat (rn_downloaded (rs_snapshot s)) = ac_downloaded acc \<and> unat (rn_uploaded (rs_snapshot s)) = ac_uploaded acc
     \<and> (case ac_last acc of
          None \<Rightarrow> rs_source_generation s = None
        | Some prev \<Rightarrow>
            rs_source_generation s = Some (rd_generation prev) \<and> rs_source_sequence s = rd_sequence prev
            \<and> counts (rn_downloaded (rs_snapshot s)) (rs_offset_downloaded s) (rs_baseline_downloaded s) (rd_downloaded prev)
            \<and> counts (rn_uploaded (rs_snapshot s)) (rs_offset_uploaded s) (rs_baseline_uploaded s) (rd_uploaded prev))"

lemma unat_saturating_add: "unat a + unat b < 2 ^ 64 \<Longrightarrow> unat (saturating_add a b) = unat a + unat b"
  by (metis checked_add_None_iff checked_add_unat not_le option.exhaust option.simps(5) saturating_add_def)

lemma counts_decreased:
  assumes "counts sum_now offset baseline prev"
  shows "counter < baseline \<or> counter < saturating_add baseline (saturating_sub sum_now offset) \<longleftrightarrow> counter < prev"
proof -
  have "unat (saturating_add baseline (saturating_sub sum_now offset)) = unat prev"
    using assms unat_less_64 [of prev]
    by (subst unat_saturating_add) (simp_all add: counts_def unat_saturating_sub)
  then show ?thesis
    using assms by (auto simp: counts_def word_less_nat_alt)
qed

lemma counts_next:
  assumes "counts sum_now offset baseline prev" "prev \<le> counter" "unat sum_now + unat (counter - prev) < 2 ^ 64"
  shows "unat (next_total offset counter baseline) = unat sum_now + unat (counter - prev)"
    and "counts (next_total offset counter baseline) offset baseline counter"
    and "sum_now \<le> next_total offset counter baseline"
proof -
  have c: "unat offset \<le> unat sum_now" "unat prev = unat baseline + (unat sum_now - unat offset)"
    "unat (counter - prev) = unat counter - unat prev" "unat prev \<le> unat counter"
    using assms(1,2) by (simp_all add: counts_def word_le_nat_alt unat_sub)
  then show step: "unat (next_total offset counter baseline) = unat sum_now + unat (counter - prev)"
    using assms(3) unfolding next_total_def
    by (subst unat_saturating_add) (simp_all add: unat_saturating_sub)
  then show "counts (next_total offset counter baseline) offset baseline counter"
    "sum_now \<le> next_total offset counter baseline"
    using c by (simp_all add: counts_def word_le_nat_alt)
qed

lemma counts_fresh: "counts sum_now sum_now counter counter" "next_total sum_now counter counter = sum_now"
  using unat_less_64 [of sum_now]
  by (simp_all add: counts_def next_total_def saturating_sub_def saturating_add_def checked_add_def)

lemma roll_sel:
  assumes "roll_samples ob reset now s = (s', committed)"
  shows "rs_source_generation s' = rs_source_generation s" "rs_source_sequence s' = rs_source_sequence s"
    "rs_offset_downloaded s' = rs_offset_downloaded s" "rs_offset_uploaded s' = rs_offset_uploaded s"
    "rs_baseline_downloaded s' = rs_baseline_downloaded s" "rs_baseline_uploaded s' = rs_baseline_uploaded s"
    "rn_downloaded (rs_snapshot s') = rn_downloaded (rs_snapshot s)"
    "rn_uploaded (rs_snapshot s') = rn_uploaded (rs_snapshot s)"
    "rn_phase (rs_snapshot s') = rn_phase (rs_snapshot s)"
    "rn_profile_id (rs_snapshot s') = rn_profile_id (rs_snapshot s)"
  using assms
  by (auto simp: roll_samples_def Let_def commit_sample_def split: option.splits if_splits prod.splits)

lemma advance_sel [simp]:
  "rs_source_generation (advance_revision s) = rs_source_generation s"
  "rs_source_sequence (advance_revision s) = rs_source_sequence s"
  "rs_offset_downloaded (advance_revision s) = rs_offset_downloaded s"
  "rs_offset_uploaded (advance_revision s) = rs_offset_uploaded s"
  "rs_baseline_downloaded (advance_revision s) = rs_baseline_downloaded s"
  "rs_baseline_uploaded (advance_revision s) = rs_baseline_uploaded s"
  "rn_downloaded (rs_snapshot (advance_revision s)) = rn_downloaded (rs_snapshot s)"
  "rn_uploaded (rs_snapshot (advance_revision s)) = rn_uploaded (rs_snapshot s)"
  "rn_phase (rs_snapshot (advance_revision s)) = rn_phase (rs_snapshot s)"
  "rn_profile_id (rs_snapshot (advance_revision s)) = rn_profile_id (rs_snapshot s)"
  by (simp_all add: advance_revision_def)

lemma represents_advance [simp]: "represents (advance_revision s) acc = represents s acc"
  by (simp add: represents_def split: option.splits)

lemma observed_totals_sel:
  "rn_downloaded (observed_totals ob src sn) =
     max (rn_downloaded sn) (next_total (rs_offset_downloaded src) (ob_downloaded ob) (rs_baseline_downloaded src))"
  "rn_uploaded (observed_totals ob src sn) =
     max (rn_uploaded sn) (next_total (rs_offset_uploaded src) (ob_uploaded ob) (rs_baseline_uploaded src))"
  "rn_phase (observed_totals ob src sn) = rn_phase sn" "rn_profile_id (observed_totals ob src sn) = rn_profile_id sn"
  by (auto simp: observed_totals_def Let_def max_def)

text \<open>What an admitted observation does to the fields that count.\<close>

lemma represents_observed:
  assumes "admits_observation ob s"
    and "src = take_source ob (s\<lparr>rs_last_now := max now (rs_last_now s)\<rparr>)"
    and "represents (src\<lparr>rs_snapshot := (rs_snapshot s)
      \<lparr>rn_downloaded := max (rn_downloaded (rs_snapshot s)) (next_total (rs_offset_downloaded src) (ob_downloaded ob) (rs_baseline_downloaded src)),
       rn_uploaded := max (rn_uploaded (rs_snapshot s)) (next_total (rs_offset_uploaded src) (ob_uploaded ob) (rs_baseline_uploaded src))\<rparr>\<rparr>) acc"
  shows "represents (observe_at ob now s) acc"
proof -
  let ?now = "max now (rs_last_now s)"
  let ?timed = "s\<lparr>rs_last_now := ?now\<rparr>"
  obtain rolled committed where roll: "roll_samples ob (baseline_reset ob ?timed) ?now src = (rolled, committed)"
    by (metis surj_pair)
  have "represents (rolled\<lparr>rs_snapshot := observed_totals ob src (rs_snapshot rolled)\<rparr>) acc"
    using assms(3) roll_sel [OF roll]
    by (simp add: represents_def observed_totals_sel assms(2) split: option.splits)
  then show ?thesis
    using assms(1) roll
    by (cases "observed_totals ob src (rs_snapshot rolled) = rs_snapshot rolled"; cases rolled)
      (auto simp: observe_at_def Let_def assms(2) [symmetric])
qed

lemma baseline_reset_iff:
  assumes "represents s acc"
  shows "baseline_reset ob s \<longleftrightarrow> \<not> (\<exists>r. ac_last acc = Some r \<and> continues (reading_of ob) r)"
proof (cases "ac_last acc")
  case (Some r)
  then have c: "counts (rn_downloaded (rs_snapshot s)) (rs_offset_downloaded s) (rs_baseline_downloaded s) (rd_downloaded r)"
    "counts (rn_uploaded (rs_snapshot s)) (rs_offset_uploaded s) (rs_baseline_uploaded s) (rd_uploaded r)"
    "rs_source_generation s = Some (rd_generation r)"
    using assms by (simp_all add: represents_def)
  show ?thesis
    using Some c(3) counts_decreased [OF c(1), of "ob_downloaded ob"] counts_decreased [OF c(2), of "ob_uploaded ob"]
    by (auto simp: baseline_reset_def counters_decreased_def continues_def reading_of_def not_less)
qed (use assms in \<open>simp add: represents_def baseline_reset_def\<close>)

lemma represents_time [simp]: "represents (s\<lparr>rs_last_now := now\<rparr>) acc = represents s acc"
  by (simp add: represents_def split: option.splits)

lemma represents_observe:
  assumes "represents s acc" "ac_downloaded (account_observe ob acc) < 2 ^ 64" "ac_uploaded (account_observe ob acc) < 2 ^ 64"
  shows "represents (observe_at ob now s) (account_observe ob acc)"
proof (cases "admits_observation ob s")
  case False
  then have "account_observe ob acc = acc"
    using assms(1)
    by (auto simp: admits_observation_def represents_def account_observe_def Let_def newer_def reading_of_def
        not_le not_less split: option.splits)
  with False show ?thesis
    using assms(1) by (simp add: observe_at_def)
next
  case True
  let ?timed = "s\<lparr>rs_last_now := max now (rs_last_now s)\<rparr>"
  have admitted: "ac_phase acc = RT_Active" "ac_profile acc = Some (ob_profile_id ob)"
    "\<And>r. ac_last acc = Some r \<Longrightarrow> newer (reading_of ob) r"
    using True assms(1)
    by (auto simp: admits_observation_def represents_def newer_def reading_of_def not_le not_less)
  note reset = baseline_reset_iff [of ?timed acc ob]
  show ?thesis
  proof (cases "\<exists>r. ac_last acc = Some r \<and> continues (reading_of ob) r")
    case continued: True
    then obtain r where r: "ac_last acc = Some r" "continues (reading_of ob) r"
      by blast
    then have acc: "account_observe ob acc = acc\<lparr>ac_last := Some (reading_of ob),
        ac_downloaded := ac_downloaded acc + unat (ob_downloaded ob - rd_downloaded r),
        ac_uploaded := ac_uploaded acc + unat (ob_uploaded ob - rd_uploaded r)\<rparr>"
      using admitted by (simp add: account_observe_def Let_def reading_of_def)
    have rep: "counts (rn_downloaded (rs_snapshot s)) (rs_offset_downloaded s) (rs_baseline_downloaded s) (rd_downloaded r)"
      "counts (rn_uploaded (rs_snapshot s)) (rs_offset_uploaded s) (rs_baseline_uploaded s) (rd_uploaded r)"
      "unat (rn_downloaded (rs_snapshot s)) = ac_downloaded acc" "unat (rn_uploaded (rs_snapshot s)) = ac_uploaded acc"
      using assms(1) r(1) by (simp_all add: represents_def)
    have le: "rd_downloaded r \<le> ob_downloaded ob" "rd_uploaded r \<le> ob_uploaded ob"
      using r(2) by (simp_all add: continues_def reading_of_def)
    note down = counts_next [OF rep(1) le(1)] and up = counts_next [OF rep(2) le(2)]
    show ?thesis
      by (rule represents_observed [OF True refl])
        (use assms rep down up reset r in
          \<open>simp add: acc take_source_def Let_def represents_def max_absorb2 reading_of_def\<close>)
  next
    case False
    then have acc: "account_observe ob acc = acc\<lparr>ac_last := Some (reading_of ob)\<rparr>"
      using admitted by (auto simp: account_observe_def Let_def split: option.splits)
    have "baseline_reset ob ?timed"
      using reset assms(1) False by simp
    then show ?thesis
      by (intro represents_observed [OF True refl])
        (use assms(1) in \<open>simp add: acc take_source_def Let_def represents_def counts_fresh reading_of_def\<close>)
  qed
qed

lemma represents_changes:
  assumes "represents s acc"
  shows "represents (start_session profile_id now s)
      \<lparr>ac_phase = RT_Active, ac_profile = Some profile_id, ac_last = None, ac_downloaded = 0, ac_uploaded = 0\<rparr>"
    and "represents (reset_source_generation (s\<lparr>rs_snapshot := (rs_snapshot s)
      \<lparr>rn_phase := RT_Active, rn_download_rate := 0, rn_upload_rate := 0\<rparr>\<rparr>)) (acc\<lparr>ac_phase := RT_Active, ac_last := None\<rparr>)"
    and "represents (stop s) (if ac_phase acc = RT_Idle then acc else account_new)"
    and "represents (suspend s) (if ac_phase acc = RT_Active then acc\<lparr>ac_phase := RT_Suspended\<rparr> else acc)"
  using assms
  by (auto simp: represents_def start_session_def reset_source_generation_def stop_def reset_idle_def suspend_def
      account_new_def Let_def split: option.splits)

lemma represents_applied:
  assumes "represents s acc"
    "ac_downloaded (account_applied profile_id ob acc) < 2 ^ 64" "ac_uploaded (account_applied profile_id ob acc) < 2 ^ 64"
  shows "represents (capture_applied profile_id ob now s) (account_applied profile_id ob acc)"
proof -
  have eq: "rn_phase (rs_snapshot s) = ac_phase acc" "rn_profile_id (rs_snapshot s) = ac_profile acc"
    using assms(1) by (simp_all add: represents_def)
  show ?thesis
    using assms represents_changes(1,2) [OF assms(1)]
    by (auto simp: capture_applied_def account_applied_def Let_def eq intro!: represents_observe split: option.splits if_splits)
qed

lemma represents_perform:
  assumes "represents s acc" "ac_downloaded (account_perform c acc) < 2 ^ 64" "ac_uploaded (account_perform c acc) < 2 ^ 64"
  shows "represents (recent_perform c s) (account_perform c acc)"
  using assms represents_changes(3,4) [OF assms(1)]
  by (cases c) (auto simp: resume_def represents_applied represents_observe split: option.splits)

lemma within_range_now: "within_range cs acc \<Longrightarrow> ac_downloaded acc < 2 ^ 64 \<and> ac_uploaded acc < 2 ^ 64"
  by (cases cs) simp_all

text \<open>
  C24: the transferred bytes are exact. As long as the true totals of the session fit sixty-four bits, the published totals equal
  the reference accounting, which adds every increment between consecutive readings of the same generation and nothing for
  the first reading of a session, after a suspension, of a new generation or after a counter went back, and which
  ignores readings out of order.
\<close>

theorem recent_totals_exact:
  assumes "within_range cs account_new"
  shows "unat (rn_downloaded (rs_snapshot (recent_run cs (recent_new authority)))) = ac_downloaded (account_run cs account_new)
    \<and> unat (rn_uploaded (rs_snapshot (recent_run cs (recent_new authority)))) = ac_uploaded (account_run cs account_new)"
proof -
  have "represents (recent_run cs s) (account_run cs acc)" if "represents s acc" "within_range cs acc" for s acc
    using that unfolding recent_run_def account_run_def
  proof (induction cs arbitrary: s acc)
    case (Cons c cs)
    then have "represents (recent_perform c s) (account_perform c acc)"
      using within_range_now [of cs "account_perform c acc"] by (intro represents_perform) auto
    then show ?case
      using Cons by simp
  qed simp
  moreover have "represents (recent_new authority) account_new"
    by (simp add: represents_def recent_new_def snapshot_idle_def account_new_def)
  ultimately have "represents (recent_run cs (recent_new authority)) (account_run cs account_new)"
    using assms by blast
  then show ?thesis
    by (simp add: represents_def)
qed

definition demo_reading :: "u64 \<Rightarrow> u64 \<Rightarrow> u64 \<Rightarrow> u64 \<Rightarrow> recent_observation" where
  "demo_reading generation sequence down up =
     \<lparr>ob_source_generation = generation, ob_source_sequence = sequence, ob_profile_id = ''p'', ob_downloaded = down,
      ob_uploaded = up, ob_download_rate = 1, ob_upload_rate = 1\<rparr>"

text \<open>A counter that goes back from 700 to 10 and on to 60: 200 and 50 bytes were transferred.\<close>

definition demo_readings :: "recent_call list" where
  "demo_readings =
     [RC_Applied ''p'' (Some (demo_reading 1 1 500 5)) 0, RC_Observe (demo_reading 1 2 700 5) 900,
      RC_Observe (demo_reading 1 3 10 5) 1900, RC_Observe (demo_reading 1 4 60 5) 2900]"

theorem recent_totals_exact_witness:
  "within_range demo_readings account_new
     \<and> unat (rn_downloaded (rs_snapshot (recent_run demo_readings (recent_new ''a'')))) = 250"
proof -
  have "within_range demo_readings account_new" "ac_downloaded (account_run demo_readings account_new) = 250"
    by (simp_all add: demo_readings_def demo_reading_def account_run_def account_new_def account_applied_def
        account_observe_def reading_of_def newer_def continues_def)
  then show ?thesis
    using recent_totals_exact [of demo_readings "''a''"] by simp
qed

end
