(* ===== verification/Continuation_Machine.thy ===== *)
theory Continuation_Machine
  imports Kernel_Laws Updater_Types
begin

text \<open>
  The updater's Continuation machine, \<^verbatim>\<open>crates/updater/src/service/continuation_machine.rs\<close>: the download of
  an available candidate, its verification, its commit as the ready candidate, the finalization of a failed
  or cancelled download and the re-verification after an uncertain commit. \<open>reduce\<close>, \<open>reduce_cancel\<close>,
  \<open>reduce_completion\<close> and \<open>reduce_shutdown\<close> are the free functions of the file, \<open>continuation_machine\<close> the
  \<^verbatim>\<open>impl Machine for ContinuationMachine\<close>. The digest of the external \<^verbatim>\<open>sha2\<close> crate is the parameter \<open>digest\<close>.
\<close>

section \<open>The updater's snapshot\<close>

datatype capture_intent = CI_None | CI_RestorePriorCapture

datatype maintenance_reconciliation =
    MR_None
  | MR_PreInstallAborted
  | MR_UnknownOutcome
  | MR_ExpectedVersion
  | MR_OldVersion
  | MR_UnexpectedVersion
  | MR_Corrupt
  | MR_Incompatible
  | MR_TerminalCleared

record maintenance_snapshot =
  ms_reconciliation :: maintenance_reconciliation
  ms_capture_intent :: "capture_intent option"
  ms_expected_version :: "string option"
  ms_observed_version :: string
  ms_automatic_activation_allowed :: bool

record updater_snapshot =
  us_authority_id :: string
  us_revision :: u64
  us_configured :: bool
  us_phase :: update_phase
  us_operation_id :: "string option"
  us_channel :: "update_channel option"
  us_candidate :: "update_candidate_identity option"
  us_progress :: "update_progress option"
  us_resumable :: bool
  us_terminal_reason :: "string option"
  us_maintenance :: "maintenance_snapshot option"

record partial_info =
  pi_size :: u64
  pi_etag :: "string option"

section \<open>State, inputs, effects\<close>

definition DOWNLOAD_EFFECT_ID :: u64 where
  "DOWNLOAD_EFFECT_ID = 1"

definition VERIFY_EFFECT_ID :: u64 where
  "VERIFY_EFFECT_ID = 2"

definition COMMIT_CANDIDATE_EFFECT_ID :: u64 where
  "COMMIT_CANDIDATE_EFFECT_ID = 3"

definition FINALIZE_EFFECT_ID :: u64 where
  "FINALIZE_EFFECT_ID = 4"

definition REVERIFY_EFFECT_ID :: u64 where
  "REVERIFY_EFFECT_ID = 5"

record continuation_operation =
  no_machine_authority :: string
  no_scope_epoch :: u64
  no_operation_id :: string
  no_admitted_revision :: u64
  no_candidate :: available_candidate

record continuation_correlation =
  nc_machine :: correlation
  nc_progress_sequence :: u64

definition op_machine_correlation :: "continuation_operation \<Rightarrow> u64 \<Rightarrow> correlation" where
  "op_machine_correlation self eid =
     \<lparr>machine_authority = no_machine_authority self, scope_epoch = no_scope_epoch self,
      operation_id = no_operation_id self, admitted_revision = no_admitted_revision self,
      effect_id = eid\<rparr>"

definition op_correlation :: "continuation_operation \<Rightarrow> u64 \<Rightarrow> u64 \<Rightarrow> continuation_correlation" where
  "op_correlation self eid sequence =
     \<lparr>nc_machine = op_machine_correlation self eid, nc_progress_sequence = sequence\<rparr>"

definition op_accepts :: "continuation_operation \<Rightarrow> continuation_correlation \<Rightarrow> u64 \<Rightarrow> bool" where
  "op_accepts self c eid \<longleftrightarrow>
     machine_authority (nc_machine c) = no_machine_authority self
     \<and> scope_epoch (nc_machine c) = no_scope_epoch self
     \<and> operation_id (nc_machine c) = no_operation_id self
     \<and> admitted_revision (nc_machine c) = no_admitted_revision self
     \<and> effect_id (nc_machine c) = eid"

datatype continuation_task_failure = NT_Aborted | NT_CompletionConflict | NT_Panicked

fun task_failure_code :: "continuation_task_failure \<Rightarrow> string" where
  "task_failure_code NT_Aborted = ''effect-aborted''"
| "task_failure_code NT_CompletionConflict = ''effect-completion-conflict''"
| "task_failure_code NT_Panicked = ''effect-panicked''"

record machine_progress =
  mp_downloaded :: u64
  mp_total :: u64
  mp_sequence :: u64

definition progress_public :: "machine_progress \<Rightarrow> update_progress" where
  "progress_public self = \<lparr>downloaded_bytes = mp_downloaded self, total_bytes = mp_total self\<rparr>"

datatype recovery_kind = CandidateCommit

datatype finalizing_stage = FS_Downloading | FS_Verifying

datatype finalizing_terminal = FT_Cancelled | FT_Failed string

datatype retired_terminal =
    NR_Cancelled bool
  | NR_Failed string bool
  | NR_Ready
  | NR_RecoveryRequired string
  | NR_Stable

text \<open>The flags of \<open>Downloading\<close> and \<open>Verifying\<close> are: cancel requested, shutdown requested.\<close>

datatype continuation_state =
    Stable
  | Downloading continuation_operation machine_progress bool bool
  | Verifying continuation_operation machine_progress bool bool
  | CommittingCandidate continuation_operation machine_progress bool
  | Finalizing continuation_operation machine_progress finalizing_stage finalizing_terminal bool bool
      \<comment> \<open>discard partial, shutdown requested\<close>
  | Ready continuation_operation machine_progress
  | Interrupted continuation_operation machine_progress bool
  | Failed continuation_operation machine_progress string bool
  | Cancelled continuation_operation machine_progress bool
  | RecoveryRequired continuation_operation machine_progress recovery_kind string
  | Recovering continuation_operation machine_progress recovery_kind
  | Retired "continuation_operation option" "machine_progress option" retired_terminal

definition interrupted :: "continuation_operation \<Rightarrow> machine_progress \<Rightarrow> bool \<Rightarrow> continuation_state" where
  "interrupted operation progress resumable = Interrupted operation progress resumable"

definition state_recovery_required :: "continuation_operation \<Rightarrow> machine_progress \<Rightarrow> continuation_state" where
  "state_recovery_required operation progress =
     RecoveryRequired operation progress CandidateCommit ''recovery-required''"

fun state_operation :: "continuation_state \<Rightarrow> continuation_operation option" where
  "state_operation Stable = None"
| "state_operation (Downloading operation _ _ _) = Some operation"
| "state_operation (Verifying operation _ _ _) = Some operation"
| "state_operation (CommittingCandidate operation _ _) = Some operation"
| "state_operation (Finalizing operation _ _ _ _ _) = Some operation"
| "state_operation (Ready operation _) = Some operation"
| "state_operation (Interrupted operation _ _) = Some operation"
| "state_operation (Failed operation _ _ _) = Some operation"
| "state_operation (Cancelled operation _ _) = Some operation"
| "state_operation (RecoveryRequired operation _ _ _) = Some operation"
| "state_operation (Recovering operation _ _) = Some operation"
| "state_operation (Retired operation _ _) = operation"

fun state_progress :: "continuation_state \<Rightarrow> machine_progress option" where
  "state_progress Stable = None"
| "state_progress (Downloading _ progress _ _) = Some progress"
| "state_progress (Verifying _ progress _ _) = Some progress"
| "state_progress (CommittingCandidate _ progress _) = Some progress"
| "state_progress (Finalizing _ progress _ _ _ _) = Some progress"
| "state_progress (Ready _ progress) = Some progress"
| "state_progress (Interrupted _ progress _) = Some progress"
| "state_progress (Failed _ progress _ _) = Some progress"
| "state_progress (Cancelled _ progress _) = Some progress"
| "state_progress (RecoveryRequired _ progress _ _) = Some progress"
| "state_progress (Recovering _ progress _) = Some progress"
| "state_progress (Retired _ progress _) = progress"

fun state_label :: "continuation_state \<Rightarrow> string" where
  "state_label Stable = ''stable''"
| "state_label (Downloading _ _ True _) = ''downloading-cancel-requested''"
| "state_label (Downloading _ _ False _) = ''downloading''"
| "state_label (Verifying _ _ True _) = ''verifying-cancel-requested''"
| "state_label (Verifying _ _ False _) = ''verifying''"
| "state_label (CommittingCandidate _ _ _) = ''committing-candidate''"
| "state_label (Finalizing _ _ _ _ _ _) = ''finalizing''"
| "state_label (Ready _ _) = ''ready''"
| "state_label (Interrupted _ _ _) = ''interrupted''"
| "state_label (Failed _ _ _ _) = ''failed''"
| "state_label (Cancelled _ _ _) = ''cancelled''"
| "state_label (RecoveryRequired _ _ _ _) = ''recovery-required''"
| "state_label (Recovering _ _ _) = ''recovering''"
| "state_label (Retired _ _ _) = ''retired''"

record continuation_projection =
  np_phase :: update_phase
  np_operation_id :: string
  np_channel :: update_channel
  np_candidate :: update_candidate_identity
  np_progress :: "update_progress option"
  np_resumable :: bool
  np_terminal_reason :: "string option"

fun terminal_fields :: "continuation_state \<Rightarrow> (update_phase \<times> bool \<times> string option) option" where
  "terminal_fields (Downloading _ _ _ _) = Some (Ph_Downloading, False, None)"
| "terminal_fields (Verifying _ _ _ _) = Some (Ph_Verifying, False, None)"
| "terminal_fields (CommittingCandidate _ _ _) = Some (Ph_Verifying, False, None)"
| "terminal_fields (Recovering _ _ _) = Some (Ph_Verifying, False, None)"
| "terminal_fields (Finalizing _ _ FS_Downloading _ _ _) = Some (Ph_Downloading, False, None)"
| "terminal_fields (Finalizing _ _ FS_Verifying _ _ _) = Some (Ph_Verifying, False, None)"
| "terminal_fields (Ready _ _) = Some (Ph_Ready, False, None)"
| "terminal_fields (Retired _ _ NR_Ready) = Some (Ph_Ready, False, None)"
| "terminal_fields (Interrupted _ _ resumable) = Some (Ph_Failed, resumable, Some ''interrupted'')"
| "terminal_fields (Failed _ _ reason resumable) = Some (Ph_Failed, resumable, Some reason)"
| "terminal_fields (Cancelled _ _ resumable) = Some (Ph_Cancelled, resumable, Some ''cancelled'')"
| "terminal_fields (Retired _ _ (NR_Cancelled resumable)) = Some (Ph_Cancelled, resumable, Some ''cancelled'')"
| "terminal_fields (RecoveryRequired _ _ _ reason) = Some (Ph_Failed, False, Some reason)"
| "terminal_fields (Retired _ _ (NR_RecoveryRequired reason)) = Some (Ph_Failed, False, Some reason)"
| "terminal_fields (Retired _ _ (NR_Failed reason resumable)) = Some (Ph_Failed, resumable, Some reason)"
| "terminal_fields (Retired _ _ NR_Stable) = None"
| "terminal_fields Stable = None"

definition projection ::
  "(string \<Rightarrow> string) \<Rightarrow> continuation_state \<Rightarrow> continuation_projection option" where
  "projection digest self =
     (case state_operation self of
        None \<Rightarrow> None
      | Some operation \<Rightarrow>
          map_option (\<lambda>(phase, resumable, reason).
            \<lparr>np_phase = phase, np_operation_id = no_operation_id operation,
             np_channel = vm_channel (ac_metadata (no_candidate operation)),
             np_candidate = candidate_identity digest (no_candidate operation),
             np_progress = map_option progress_public (state_progress self),
             np_resumable = resumable, np_terminal_reason = reason\<rparr>) (terminal_fields self))"

datatype continuation_effect =
    Download continuation_correlation available_candidate
  | Verify continuation_correlation available_candidate
  | CommitCandidate continuation_correlation available_candidate
  | FinalizeFailure continuation_correlation available_candidate bool
  | ReverifyCandidate continuation_correlation available_candidate
  | CancelEffect continuation_correlation

fun effect_correlation :: "continuation_effect \<Rightarrow> continuation_correlation" where
  "effect_correlation (Download c _) = c"
| "effect_correlation (Verify c _) = c"
| "effect_correlation (CommitCandidate c _) = c"
| "effect_correlation (FinalizeFailure c _ _) = c"
| "effect_correlation (ReverifyCandidate c _) = c"
| "effect_correlation (CancelEffect c) = c"

fun effect_mode_of :: "continuation_effect \<Rightarrow> effect_mode" where
  "effect_mode_of (CancelEffect _) = Cancel"
| "effect_mode_of _ = Spawn"

datatype continuation_outcome =
    O_Download "update_operation_error + unit"
  | O_Verify "update_operation_error + unit"
  | O_Commit "update_operation_error + unit"
  | O_Finalize "update_operation_error + partial_info"
  | O_Recovery "update_operation_error + unit"
  | O_TaskFailed continuation_task_failure

record continuation_completion =
  cc_correlation :: continuation_correlation
  cc_outcome :: continuation_outcome

datatype continuation_input =
    DownloadRequested continuation_operation updater_snapshot u64
  | PartialCommitted continuation_correlation u64
  | CancelRequested string
  | RecoverRequested
  | EffectCompleted continuation_completion
  | ShutdownRequested

fun outcome_label :: "continuation_outcome \<Rightarrow> string" where
  "outcome_label (O_Download (Inr _)) = ''download-succeeded''"
| "outcome_label (O_Download (Inl _)) = ''download-failed''"
| "outcome_label (O_Verify (Inr _)) = ''verification-succeeded''"
| "outcome_label (O_Verify (Inl _)) = ''verification-failed''"
| "outcome_label (O_Commit (Inr _)) = ''candidate-commit-succeeded''"
| "outcome_label (O_Commit (Inl _)) = ''candidate-commit-unknown''"
| "outcome_label (O_Finalize (Inr _)) = ''finalization-succeeded''"
| "outcome_label (O_Finalize (Inl _)) = ''finalization-failed''"
| "outcome_label (O_Recovery (Inr _)) = ''reverification-succeeded''"
| "outcome_label (O_Recovery (Inl _)) = ''reverification-failed''"
| "outcome_label (O_TaskFailed NT_Aborted) = ''effect-aborted''"
| "outcome_label (O_TaskFailed NT_CompletionConflict) = ''effect-completion-conflict''"
| "outcome_label (O_TaskFailed NT_Panicked) = ''effect-panicked''"

fun input_label :: "continuation_input \<Rightarrow> string" where
  "input_label (DownloadRequested _ _ _) = ''download-requested''"
| "input_label (PartialCommitted _ _) = ''partial-committed''"
| "input_label (CancelRequested _) = ''cancel-requested''"
| "input_label RecoverRequested = ''recover-requested''"
| "input_label (EffectCompleted completion) = outcome_label (cc_outcome completion)"
| "input_label ShutdownRequested = ''shutdown-requested''"

datatype decision_disposition = Applied | CancelTooLate | Duplicate | RetiredCompletion

record continuation_decision =
  cd_next :: continuation_state
  cd_effects :: "continuation_effect list"
  cd_disposition :: decision_disposition

definition applied :: "continuation_state \<Rightarrow> continuation_effect list \<Rightarrow> continuation_decision" where
  "applied next effects = \<lparr>cd_next = next, cd_effects = effects, cd_disposition = Applied\<rparr>"

definition unchanged :: "continuation_state \<Rightarrow> decision_disposition \<Rightarrow> continuation_decision" where
  "unchanged state d = \<lparr>cd_next = state, cd_effects = [], cd_disposition = d\<rparr>"

section \<open>The reducer\<close>

fun in_flight :: "continuation_state \<Rightarrow> bool" where
  "in_flight (Downloading _ _ _ _) = True"
| "in_flight (Verifying _ _ _ _) = True"
| "in_flight (CommittingCandidate _ _ _) = True"
| "in_flight (Finalizing _ _ _ _ _ _) = True"
| "in_flight (Recovering _ _ _) = True"
| "in_flight _ = False"

definition reduce_download_requested ::
  "(string \<Rightarrow> string) \<Rightarrow> continuation_state \<Rightarrow> continuation_operation \<Rightarrow> updater_snapshot \<Rightarrow> u64
     \<Rightarrow> update_operation_error + continuation_decision" where
  "reduce_download_requested digest state operation outer resumed_bytes =
     (if us_operation_id outer \<noteq> Some (no_operation_id operation)
         \<or> us_candidate outer \<noteq> Some (candidate_identity digest (no_candidate operation))
      then Inl E_OperationMismatch
      else if us_phase outer \<in> {Ph_Downloading, Ph_Verifying, Ph_Ready}
      then Inr (unchanged state Duplicate)
      else if us_phase outer \<notin> {Ph_Available, Ph_Cancelled, Ph_Failed} \<or> in_flight state
      then Inl E_Busy
      else
        let size = vm_artifact_size (ac_metadata (no_candidate operation));
            progress = \<lparr>mp_downloaded = min resumed_bytes size, mp_total = size, mp_sequence = 0\<rparr>
        in Inr (applied (Downloading operation progress False False)
                  [Download (op_correlation operation DOWNLOAD_EFFECT_ID (mp_sequence progress))
                     (no_candidate operation)]))"

definition partial_accepted ::
  "continuation_operation \<Rightarrow> machine_progress \<Rightarrow> continuation_correlation \<Rightarrow> u64 \<Rightarrow> bool" where
  "partial_accepted operation progress c downloaded \<longleftrightarrow>
     op_accepts operation c DOWNLOAD_EFFECT_ID
     \<and> nc_progress_sequence c = saturating_add (mp_sequence progress) 1
     \<and> mp_downloaded progress \<le> downloaded \<and> downloaded \<le> mp_total progress"

fun reduce_partial_committed ::
  "continuation_state \<Rightarrow> continuation_correlation \<Rightarrow> u64 \<Rightarrow> continuation_decision" where
  "reduce_partial_committed (Downloading operation progress cancel shutdown) c downloaded =
     (if \<not> partial_accepted operation progress c downloaded
      then unchanged (Downloading operation progress cancel shutdown) RetiredCompletion
      else applied (Downloading operation
             \<lparr>mp_downloaded = downloaded, mp_total = mp_total progress,
              mp_sequence = nc_progress_sequence c\<rparr> cancel shutdown) [])"
| "reduce_partial_committed state c downloaded = unchanged state RetiredCompletion"

fun reduce_recover_requested :: "continuation_state \<Rightarrow> continuation_decision" where
  "reduce_recover_requested (RecoveryRequired operation progress kind reason) =
     (let sequence = saturating_add (mp_sequence progress) 1
      in applied (Recovering operation (progress\<lparr>mp_sequence := sequence\<rparr>) kind)
           [ReverifyCandidate (op_correlation operation REVERIFY_EFFECT_ID sequence)
              (no_candidate operation)])"
| "reduce_recover_requested state = unchanged state Duplicate"

definition reduce_cancel ::
  "continuation_state \<Rightarrow> string \<Rightarrow> update_operation_error + continuation_decision" where
  "reduce_cancel state oid =
     (case state_operation state of
        None \<Rightarrow> Inl E_OperationMismatch
      | Some operation \<Rightarrow>
          (if no_operation_id operation \<noteq> oid then Inl E_OperationMismatch
           else Inr (case state of
             Downloading op progress False shutdown \<Rightarrow>
               applied (Downloading op progress True shutdown)
                 [CancelEffect (op_correlation op DOWNLOAD_EFFECT_ID (mp_sequence progress))]
           | Verifying op progress False shutdown \<Rightarrow>
               applied (Verifying op progress True shutdown)
                 [CancelEffect (op_correlation op VERIFY_EFFECT_ID (mp_sequence progress))]
           | CommittingCandidate _ _ _ \<Rightarrow> unchanged state CancelTooLate
           | _ \<Rightarrow> unchanged state Duplicate)))"

definition begin_finalization ::
  "continuation_operation \<Rightarrow> machine_progress \<Rightarrow> finalizing_stage \<Rightarrow> string \<Rightarrow> bool \<Rightarrow> bool
     \<Rightarrow> continuation_decision" where
  "begin_finalization operation progress stage reason discard_partial shutdown =
     (let sequence = saturating_add (mp_sequence progress) 1
      in applied (Finalizing operation (progress\<lparr>mp_sequence := sequence\<rparr>) stage (FT_Failed reason)
                    discard_partial shutdown)
           [FinalizeFailure (op_correlation operation FINALIZE_EFFECT_ID sequence) (no_candidate operation)
              discard_partial])"

definition begin_cancel_finalization ::
  "continuation_operation \<Rightarrow> machine_progress \<Rightarrow> finalizing_stage \<Rightarrow> bool \<Rightarrow> continuation_decision" where
  "begin_cancel_finalization operation progress stage shutdown =
     (let sequence = saturating_add (mp_sequence progress) 1
      in applied (Finalizing operation (progress\<lparr>mp_sequence := sequence\<rparr>) stage FT_Cancelled False shutdown)
           [FinalizeFailure (op_correlation operation FINALIZE_EFFECT_ID sequence) (no_candidate operation)
              False])"

definition recovery_required ::
  "continuation_operation \<Rightarrow> machine_progress \<Rightarrow> string \<Rightarrow> bool \<Rightarrow> continuation_decision" where
  "recovery_required operation progress reason shutdown =
     applied (if shutdown then Retired (Some operation) (Some progress) (NR_RecoveryRequired reason)
              else RecoveryRequired operation progress CandidateCommit reason) []"

fun fatal_download_error :: "update_operation_error \<Rightarrow> bool" where
  "fatal_download_error E_InvalidResponse = True"
| "fatal_download_error E_OversizedPayload = True"
| "fatal_download_error E_RangeMismatch = True"
| "fatal_download_error (E_Verification _) = True"
| "fatal_download_error _ = False"

fun is_task_failed :: "continuation_outcome \<Rightarrow> bool" where
  "is_task_failed (O_TaskFailed _) = True"
| "is_task_failed _ = False"

text \<open>
  The guard every completion passes: the exact operation and effect, and, short of a lost task, the next
  number of the progress sequence.
\<close>

definition completes ::
  "continuation_operation \<Rightarrow> machine_progress \<Rightarrow> u64 \<Rightarrow> continuation_completion \<Rightarrow> bool" where
  "completes operation progress eid completion \<longleftrightarrow>
     op_accepts operation (cc_correlation completion) eid
     \<and> (is_task_failed (cc_outcome completion)
        \<or> nc_progress_sequence (cc_correlation completion) = saturating_add (mp_sequence progress) 1)"

definition complete_downloading ::
  "continuation_operation \<Rightarrow> machine_progress \<Rightarrow> bool \<Rightarrow> bool \<Rightarrow> continuation_completion
     \<Rightarrow> continuation_decision" where
  "complete_downloading operation progress cancel shutdown completion =
     (case cc_outcome completion of
        O_TaskFailed failure \<Rightarrow>
          begin_finalization operation progress FS_Downloading (task_failure_code failure) False shutdown
      | outcome \<Rightarrow>
          if cancel \<or> outcome = O_Download (Inl E_Cancelled)
          then begin_cancel_finalization operation progress FS_Downloading shutdown
          else case outcome of
            O_Download (Inr _) \<Rightarrow>
              (let sequence = saturating_add (nc_progress_sequence (cc_correlation completion)) 1
               in applied (Verifying operation
                    \<lparr>mp_downloaded = mp_total progress, mp_total = mp_total progress, mp_sequence = sequence\<rparr>
                    False shutdown)
                    [Verify (op_correlation operation VERIFY_EFFECT_ID sequence) (no_candidate operation)])
          | O_Download (Inl err) \<Rightarrow>
              begin_finalization operation progress FS_Downloading (operation_error_code err)
                (fatal_download_error err) shutdown
          | _ \<Rightarrow> unchanged (Downloading operation progress cancel shutdown) RetiredCompletion)"

definition complete_verifying ::
  "continuation_operation \<Rightarrow> machine_progress \<Rightarrow> bool \<Rightarrow> bool \<Rightarrow> continuation_completion
     \<Rightarrow> continuation_decision" where
  "complete_verifying operation progress cancel shutdown completion =
     (case cc_outcome completion of
        O_TaskFailed failure \<Rightarrow>
          begin_finalization operation progress FS_Verifying (task_failure_code failure) False shutdown
      | outcome \<Rightarrow>
          if cancel \<or> outcome = O_Verify (Inl E_Cancelled)
          then begin_cancel_finalization operation progress FS_Verifying shutdown
          else case outcome of
            O_Verify (Inr _) \<Rightarrow>
              (let sequence = saturating_add (nc_progress_sequence (cc_correlation completion)) 1
               in applied (CommittingCandidate operation (progress\<lparr>mp_sequence := sequence\<rparr>) shutdown)
                    [CommitCandidate (op_correlation operation COMMIT_CANDIDATE_EFFECT_ID sequence)
                       (no_candidate operation)])
          | O_Verify (Inl err) \<Rightarrow>
              begin_finalization operation progress FS_Verifying (operation_error_code err) True shutdown
          | _ \<Rightarrow> unchanged (Verifying operation progress cancel shutdown) RetiredCompletion)"

definition complete_committing ::
  "continuation_operation \<Rightarrow> machine_progress \<Rightarrow> bool \<Rightarrow> continuation_completion
     \<Rightarrow> continuation_decision" where
  "complete_committing operation progress shutdown completion =
     (case cc_outcome completion of
        O_Commit (Inr _) \<Rightarrow>
          (let progress' = progress\<lparr>mp_sequence := nc_progress_sequence (cc_correlation completion)\<rparr>
           in applied (if shutdown then Retired (Some operation) (Some progress') NR_Ready
                       else Ready operation progress') [])
      | O_Commit (Inl err) \<Rightarrow> recovery_required operation progress (operation_error_code err) shutdown
      | O_TaskFailed failure \<Rightarrow> recovery_required operation progress (task_failure_code failure) shutdown
      | _ \<Rightarrow> unchanged (CommittingCandidate operation progress shutdown) RetiredCompletion)"

definition finalized ::
  "continuation_operation \<Rightarrow> machine_progress \<Rightarrow> finalizing_terminal \<Rightarrow> bool \<Rightarrow> bool \<Rightarrow> continuation_state" where
  "finalized operation progress terminal resumable shutdown =
     (case terminal of
        FT_Cancelled \<Rightarrow>
          (if shutdown then Retired (Some operation) (Some progress) (NR_Cancelled resumable)
           else Cancelled operation progress resumable)
      | FT_Failed reason \<Rightarrow>
          (if shutdown then Retired (Some operation) (Some progress) (NR_Failed reason resumable)
           else Failed operation progress reason resumable))"

definition complete_finalizing ::
  "continuation_operation \<Rightarrow> machine_progress \<Rightarrow> finalizing_stage \<Rightarrow> finalizing_terminal \<Rightarrow> bool \<Rightarrow> bool
     \<Rightarrow> continuation_completion \<Rightarrow> continuation_decision" where
  "complete_finalizing operation progress stage terminal discard_partial shutdown completion =
     (case cc_outcome completion of
        O_Finalize (Inr partial) \<Rightarrow>
          (let resumable = (0 < pi_size partial \<and> pi_etag partial \<noteq> None);
               progress' = progress\<lparr>mp_downloaded := min (pi_size partial) (mp_total progress),
                                    mp_sequence := nc_progress_sequence (cc_correlation completion)\<rparr>
           in applied (finalized operation progress' terminal resumable shutdown) [])
      | O_Finalize (Inl err) \<Rightarrow> recovery_required operation progress (operation_error_code err) shutdown
      | O_TaskFailed failure \<Rightarrow> recovery_required operation progress (task_failure_code failure) shutdown
      | _ \<Rightarrow> unchanged (Finalizing operation progress stage terminal discard_partial shutdown)
               RetiredCompletion)"

definition complete_recovering ::
  "continuation_operation \<Rightarrow> machine_progress \<Rightarrow> recovery_kind \<Rightarrow> continuation_completion
     \<Rightarrow> continuation_decision" where
  "complete_recovering operation progress kind completion =
     (let sequence = nc_progress_sequence (cc_correlation completion)
      in case cc_outcome completion of
           O_Recovery (Inr _) \<Rightarrow>
             applied (Ready operation (progress\<lparr>mp_downloaded := mp_total progress, mp_sequence := sequence\<rparr>)) []
         | O_Recovery (Inl err) \<Rightarrow>
             applied (RecoveryRequired operation (progress\<lparr>mp_sequence := sequence\<rparr>) kind
                        (operation_error_code err)) []
         | O_TaskFailed failure \<Rightarrow>
             applied (RecoveryRequired operation
                        (progress\<lparr>mp_sequence := saturating_add (mp_sequence progress) 1\<rparr>) kind
                        (task_failure_code failure)) []
         | _ \<Rightarrow> unchanged (Recovering operation progress kind) RetiredCompletion)"

fun reduce_completion :: "continuation_state \<Rightarrow> continuation_completion \<Rightarrow> continuation_decision" where
  "reduce_completion (Downloading operation progress cancel shutdown) completion =
     (if \<not> completes operation progress DOWNLOAD_EFFECT_ID completion
      then unchanged (Downloading operation progress cancel shutdown) RetiredCompletion
      else complete_downloading operation progress cancel shutdown completion)"
| "reduce_completion (Verifying operation progress cancel shutdown) completion =
     (if \<not> completes operation progress VERIFY_EFFECT_ID completion
      then unchanged (Verifying operation progress cancel shutdown) RetiredCompletion
      else complete_verifying operation progress cancel shutdown completion)"
| "reduce_completion (CommittingCandidate operation progress shutdown) completion =
     (if \<not> completes operation progress COMMIT_CANDIDATE_EFFECT_ID completion
      then unchanged (CommittingCandidate operation progress shutdown) RetiredCompletion
      else complete_committing operation progress shutdown completion)"
| "reduce_completion (Finalizing operation progress stage terminal discard_partial shutdown) completion =
     (if \<not> completes operation progress FINALIZE_EFFECT_ID completion
      then unchanged (Finalizing operation progress stage terminal discard_partial shutdown) RetiredCompletion
      else complete_finalizing operation progress stage terminal discard_partial shutdown completion)"
| "reduce_completion (Recovering operation progress kind) completion =
     (if \<not> completes operation progress REVERIFY_EFFECT_ID completion
      then unchanged (Recovering operation progress kind) RetiredCompletion
      else complete_recovering operation progress kind completion)"
| "reduce_completion state completion = unchanged state RetiredCompletion"

fun reduce_shutdown :: "continuation_state \<Rightarrow> continuation_decision" where
  "reduce_shutdown (Downloading operation progress cancel _) =
     applied (Downloading operation progress True True)
       (if cancel then []
        else [CancelEffect (op_correlation operation DOWNLOAD_EFFECT_ID (mp_sequence progress))])"
| "reduce_shutdown (Verifying operation progress cancel _) =
     applied (Verifying operation progress True True)
       (if cancel then []
        else [CancelEffect (op_correlation operation VERIFY_EFFECT_ID (mp_sequence progress))])"
| "reduce_shutdown (CommittingCandidate operation progress _) =
     applied (CommittingCandidate operation progress True) []"
| "reduce_shutdown (Finalizing operation progress stage terminal discard_partial _) =
     applied (Finalizing operation progress stage terminal discard_partial True) []"
| "reduce_shutdown (Ready operation progress) =
     applied (Retired (Some operation) (Some progress) NR_Ready) []"
| "reduce_shutdown (Interrupted operation progress resumable) =
     applied (Retired (Some operation) (Some progress) (NR_Cancelled resumable)) []"
| "reduce_shutdown (Cancelled operation progress resumable) =
     applied (Retired (Some operation) (Some progress) (NR_Cancelled resumable)) []"
| "reduce_shutdown (Failed operation progress reason resumable) =
     applied (Retired (Some operation) (Some progress) (NR_Failed reason resumable)) []"
| "reduce_shutdown (RecoveryRequired operation progress _ reason) =
     applied (Retired (Some operation) (Some progress) (NR_RecoveryRequired reason)) []"
| "reduce_shutdown (Recovering operation progress _) =
     applied (Retired (Some operation) (Some progress) (NR_RecoveryRequired ''recovery-interrupted'')) []"
| "reduce_shutdown Stable = applied (Retired None None NR_Stable) []"
| "reduce_shutdown (Retired operation progress terminal) =
     unchanged (Retired operation progress terminal) Duplicate"

fun reduce ::
  "(string \<Rightarrow> string) \<Rightarrow> continuation_state \<Rightarrow> continuation_input
     \<Rightarrow> update_operation_error + continuation_decision" where
  "reduce digest state (DownloadRequested operation outer resumed_bytes) =
     reduce_download_requested digest state operation outer resumed_bytes"
| "reduce digest state (PartialCommitted c downloaded) = Inr (reduce_partial_committed state c downloaded)"
| "reduce digest state (CancelRequested oid) = reduce_cancel state oid"
| "reduce digest state RecoverRequested = Inr (reduce_recover_requested state)"
| "reduce digest state (EffectCompleted completion) = Inr (reduce_completion state completion)"
| "reduce digest state ShutdownRequested = Inr (reduce_shutdown state)"

fun applied_transition ::
  "continuation_state \<Rightarrow> (continuation_state, continuation_effect, update_operation_error) transition" where
  "applied_transition (Ready op p) = T_Committed (Ready op p)"
| "applied_transition (Cancelled op p b) = T_Cancelled (Cancelled op p b)"
| "applied_transition (Failed op p r b) = T_Failed (Failed op p r b)"
| "applied_transition (RecoveryRequired op p k r) = T_RecoveryRequired (RecoveryRequired op p k r)"
| "applied_transition s = T_Accepted s"

definition machine_reduce ::
  "(string \<Rightarrow> string) \<Rightarrow> continuation_state \<Rightarrow> continuation_input
     \<Rightarrow> (continuation_state, continuation_effect, update_operation_error) transition" where
  "machine_reduce digest state input =
     (case reduce digest state input of
        Inl err \<Rightarrow> T_Rejected err
      | Inr decision \<Rightarrow>
          (case cd_disposition decision of
             Duplicate \<Rightarrow> T_Unchanged
           | CancelTooLate \<Rightarrow> T_Unchanged
           | RetiredCompletion \<Rightarrow> T_Retired
           | Applied \<Rightarrow>
               (case cd_effects decision of
                  e # es \<Rightarrow> T_EffectEmitting (cd_next decision) (batch_from_first e es)
                | [] \<Rightarrow> applied_transition (cd_next decision))))"

fun input_correlation :: "continuation_state \<Rightarrow> continuation_input \<Rightarrow> correlation option" where
  "input_correlation state (DownloadRequested operation _ _) =
     Some (op_machine_correlation operation DOWNLOAD_EFFECT_ID)"
| "input_correlation state (PartialCommitted c _) = Some (nc_machine c)"
| "input_correlation state (EffectCompleted completion) = Some (nc_machine (cc_correlation completion))"
| "input_correlation state (CancelRequested _) =
     map_option (\<lambda>operation. op_machine_correlation operation 0) (state_operation state)"
| "input_correlation state RecoverRequested =
     map_option (\<lambda>operation. op_machine_correlation operation 0) (state_operation state)"
| "input_correlation state ShutdownRequested =
     map_option (\<lambda>operation. op_machine_correlation operation 0) (state_operation state)"

definition current_for :: "continuation_operation \<Rightarrow> correlation \<Rightarrow> u64 \<Rightarrow> bool" where
  "current_for operation c eid \<longleftrightarrow>
     op_accepts operation \<lparr>nc_machine = c, nc_progress_sequence = 0\<rparr> eid"

fun effect_is_current :: "continuation_state \<Rightarrow> correlation \<Rightarrow> bool" where
  "effect_is_current (Downloading operation _ _ _) c = current_for operation c DOWNLOAD_EFFECT_ID"
| "effect_is_current (Verifying operation _ _ _) c = current_for operation c VERIFY_EFFECT_ID"
| "effect_is_current (CommittingCandidate operation _ _) c = current_for operation c COMMIT_CANDIDATE_EFFECT_ID"
| "effect_is_current (Finalizing operation _ _ _ _ _) c = current_for operation c FINALIZE_EFFECT_ID"
| "effect_is_current (Recovering operation _ _) c = current_for operation c REVERIFY_EFFECT_ID"
| "effect_is_current _ c = False"

fun continuation_task_failure_of :: "task_failure \<Rightarrow> continuation_task_failure" where
  "continuation_task_failure_of Aborted = NT_Aborted"
| "continuation_task_failure_of CompletionConflict = NT_CompletionConflict"
| "continuation_task_failure_of Panicked = NT_Panicked"

definition task_failed :: "correlation \<Rightarrow> task_failure \<Rightarrow> continuation_input" where
  "task_failed c failure =
     EffectCompleted \<lparr>cc_correlation = \<lparr>nc_machine = c, nc_progress_sequence = 0\<rparr>,
                      cc_outcome = O_TaskFailed (continuation_task_failure_of failure)\<rparr>"

definition continuation_machine ::
  "(string \<Rightarrow> string) \<Rightarrow>
     (continuation_state, continuation_input, continuation_effect, update_operation_error) machine" where
  "continuation_machine digest =
     \<lparr>m_reduce = (\<lambda>state input. Some (machine_reduce digest state input)),
      m_input_correlation = input_correlation,
      m_effect_is_current = effect_is_current,
      m_task_failed = task_failed,
      m_shutdown = ShutdownRequested,
      m_unavailable = E_Busy,
      m_correlation = (\<lambda>e. nc_machine (effect_correlation e)),
      m_mode = effect_mode_of\<rparr>"

section \<open>Shape of the transitions\<close>

lemma continuation_machine_sel [machine_simps]:
  "m_reduce (continuation_machine digest) s i = Some (machine_reduce digest s i)"
  "m_input_correlation (continuation_machine digest) s i = input_correlation s i"
  "m_effect_is_current (continuation_machine digest) s c = effect_is_current s c"
  "m_task_failed (continuation_machine digest) c f = task_failed c f"
  "m_shutdown (continuation_machine digest) = ShutdownRequested"
  "m_correlation (continuation_machine digest) e = nc_machine (effect_correlation e)"
  "m_mode (continuation_machine digest) e = effect_mode_of e"
  by (simp_all add: continuation_machine_def)

lemmas decision_simps = applied_def unchanged_def

lemmas completion_defs = complete_downloading_def complete_verifying_def complete_committing_def
  complete_finalizing_def complete_recovering_def begin_finalization_def begin_cancel_finalization_def
  recovery_required_def finalized_def Let_def decision_simps

lemmas completion_splits = continuation_outcome.splits sum.splits if_splits finalizing_terminal.splits

lemma continuation_accepts_iff: "op_accepts op c n \<longleftrightarrow> nc_machine c = op_machine_correlation op n"
  by (cases "nc_machine c") (auto simp: op_accepts_def op_machine_correlation_def)

lemma continuation_accepts_correlation [simp]: "op_accepts op (op_correlation op n q) n' \<longleftrightarrow> n = n'"
  by (auto simp: continuation_accepts_iff op_correlation_def op_machine_correlation_def)

lemma op_correlation_sel [simp]:
  "nc_machine (op_correlation op n q) = op_machine_correlation op n"
  "nc_progress_sequence (op_correlation op n q) = q"
  by (simp_all add: op_correlation_def)

lemma current_for_iff [simp]: "current_for op c n \<longleftrightarrow> c = op_machine_correlation op n"
  by (simp add: current_for_def continuation_accepts_iff)

lemma continuation_next_applied [simp]: "next_state s (applied_transition s') = s'"
  by (cases s' rule: applied_transition.cases) auto

lemma continuation_emitted_applied [simp]: "emitted (applied_transition s') = []"
  by (cases s' rule: applied_transition.cases) auto

lemma continuation_reduce_next:
  "next_state s (machine_reduce digest s i) =
     (case reduce digest s i of
        Inr d \<Rightarrow> if cd_disposition d = Applied then cd_next d else s
      | Inl _ \<Rightarrow> s)"
  by (simp add: machine_reduce_def split: sum.split decision_disposition.split list.split)

lemma continuation_reduce_emitted:
  "emitted (machine_reduce digest s i) =
     (case reduce digest s i of
        Inr d \<Rightarrow> if cd_disposition d = Applied then cd_effects d else []
      | Inl _ \<Rightarrow> [])"
  by (simp add: machine_reduce_def batch_into_iter_def batch_from_first_def
      split: sum.split decision_disposition.split list.split)

text \<open>A fact about states is kept by the machine if each of its six handlers keeps it.\<close>

lemma machine_reduce_cases:
  assumes "P s"
    and "\<And>op outer n. i = DownloadRequested op outer n \<Longrightarrow> \<not> in_flight s \<Longrightarrow>
      P (Downloading op
          \<lparr>mp_downloaded = min n (vm_artifact_size (ac_metadata (no_candidate op))),
           mp_total = vm_artifact_size (ac_metadata (no_candidate op)), mp_sequence = 0\<rparr> False False)"
    and "\<And>c n. i = PartialCommitted c n \<Longrightarrow> P (cd_next (reduce_partial_committed s c n))"
    and "\<And>oid d. i = CancelRequested oid \<Longrightarrow> reduce_cancel s oid = Inr d \<Longrightarrow> P (cd_next d)"
    and "i = RecoverRequested \<Longrightarrow> P (cd_next (reduce_recover_requested s))"
    and "\<And>cmpl. i = EffectCompleted cmpl \<Longrightarrow> P (cd_next (reduce_completion s cmpl))"
    and "i = ShutdownRequested \<Longrightarrow> P (cd_next (reduce_shutdown s))"
  shows "P (next_state s (machine_reduce digest s i))"
proof (cases i)
  case (DownloadRequested op outer n)
  then show ?thesis
    using assms(1,2) by (auto simp: continuation_reduce_next reduce_download_requested_def Let_def decision_simps)
next
  case (CancelRequested oid)
  then show ?thesis
    using assms(1,4) by (auto simp: continuation_reduce_next split: sum.splits)
qed (use assms in \<open>auto simp: continuation_reduce_next\<close>)

section \<open>Invariant\<close>

text \<open>
  The progress stays within the size of the candidate, a candidate that is being verified, committed or ready is
  complete, a shutdown marks the running download or verification as cancelled, and only a machine retired
  before its first operation has none.
\<close>

definition progress_ok :: "continuation_operation \<Rightarrow> machine_progress \<Rightarrow> bool" where
  "progress_ok op p \<longleftrightarrow>
     mp_total p = vm_artifact_size (ac_metadata (no_candidate op)) \<and> mp_downloaded p \<le> mp_total p"

definition progress_full :: "continuation_operation \<Rightarrow> machine_progress \<Rightarrow> bool" where
  "progress_full op p \<longleftrightarrow> progress_ok op p \<and> mp_downloaded p = mp_total p"

fun continuation_inv :: "continuation_state \<Rightarrow> bool" where
  "continuation_inv Stable \<longleftrightarrow> True"
| "continuation_inv (Downloading op p cancel shutdown) \<longleftrightarrow> progress_ok op p \<and> (shutdown \<longrightarrow> cancel)"
| "continuation_inv (Verifying op p cancel shutdown) \<longleftrightarrow> progress_full op p \<and> (shutdown \<longrightarrow> cancel)"
| "continuation_inv (CommittingCandidate op p _) \<longleftrightarrow> progress_full op p"
| "continuation_inv (Finalizing op p _ _ _ _) \<longleftrightarrow> progress_ok op p"
| "continuation_inv (Ready op p) \<longleftrightarrow> progress_full op p"
| "continuation_inv (Interrupted op p _) \<longleftrightarrow> progress_ok op p"
| "continuation_inv (Failed op p _ _) \<longleftrightarrow> progress_ok op p"
| "continuation_inv (Cancelled op p _) \<longleftrightarrow> progress_ok op p"
| "continuation_inv (RecoveryRequired op p _ _) \<longleftrightarrow> progress_ok op p"
| "continuation_inv (Recovering op p _) \<longleftrightarrow> progress_ok op p"
| "continuation_inv (Retired (Some op) (Some p) NR_Ready) \<longleftrightarrow> progress_full op p"
| "continuation_inv (Retired (Some op) (Some p) terminal) \<longleftrightarrow> progress_ok op p \<and> terminal \<noteq> NR_Stable"
| "continuation_inv (Retired op p terminal) \<longleftrightarrow> op = None \<and> p = None \<and> terminal = NR_Stable"

lemma progress_ok_sequence [simp]: "progress_ok op (p\<lparr>mp_sequence := q\<rparr>) = progress_ok op p"
  by (simp add: progress_ok_def)

lemma progress_full_sequence [simp]: "progress_full op (p\<lparr>mp_sequence := q\<rparr>) = progress_full op p"
  by (simp add: progress_full_def)

lemma progress_full_ok: "progress_full op p \<Longrightarrow> progress_ok op p"
  by (simp add: progress_full_def)

lemma reduce_partial_committed_inv:
  "continuation_inv s \<Longrightarrow> continuation_inv (cd_next (reduce_partial_committed s c n))"
  by (cases "(s, c, n)" rule: reduce_partial_committed.cases)
    (auto simp: decision_simps partial_accepted_def progress_ok_def)

lemma reduce_recover_requested_inv:
  "continuation_inv s \<Longrightarrow> continuation_inv (cd_next (reduce_recover_requested s))"
  by (cases s rule: reduce_recover_requested.cases) (auto simp: decision_simps Let_def)

lemma reduce_cancel_inv:
  "continuation_inv s \<Longrightarrow> reduce_cancel s oid = Inr d \<Longrightarrow> continuation_inv (cd_next d)"
  by (cases s) (auto simp: reduce_cancel_def decision_simps split: if_splits option.splits bool.splits)

lemma continuation_completion_inv:
  "continuation_inv s \<Longrightarrow> continuation_inv (cd_next (reduce_completion s cmpl))"
  by (cases s)
    (auto simp: completion_defs progress_ok_def progress_full_def split: completion_splits)

lemma continuation_shutdown_inv: "continuation_inv s \<Longrightarrow> continuation_inv (cd_next (reduce_shutdown s))"
  by (cases s) (auto simp: decision_simps progress_full_ok)

lemma continuation_reduce_inv:
  assumes "continuation_inv s"
  shows "continuation_inv (next_state s (machine_reduce digest s i))"
  by (rule machine_reduce_cases [where P = continuation_inv, OF assms])
    (auto simp: assms reduce_partial_committed_inv reduce_recover_requested_inv continuation_completion_inv
      continuation_shutdown_inv progress_ok_def dest: reduce_cancel_inv [OF assms])

lemma continuation_stale_retired:
  "\<not> effect_is_current s c \<Longrightarrow> machine_reduce digest s (task_failed c f) = T_Retired"
  by (cases s) (auto simp: machine_reduce_def task_failed_def completes_def continuation_accepts_iff decision_simps)

interpretation continuation: total_machine "continuation_machine digest" continuation_inv for digest
  by unfold_locales (auto simp: machine_simps continuation_reduce_inv)

interpretation continuation: stale_inert "continuation_machine digest" continuation_inv for digest
  by unfold_locales (simp add: machine_simps continuation_stale_retired)

end
