(* ===== verification/Download_Effect.thy ===== *)
theory Download_Effect
  imports Continuation_Machine
begin

text \<open>
  The executor of the Continuation machine's effects, \<^verbatim>\<open>ContinuationKernelExecutor::execute\<close>,
  \<^verbatim>\<open>download_artifact_effect\<close> and \<^verbatim>\<open>download_artifact_inner\<close> of \<^verbatim>\<open>crates/updater/src/service.rs\<close>. What
  the executor asks of the HTTP client, of the candidate store and of the file system is answered by the
  environment: its answers are fields and constructors below, in the order in which the code asks. Every await
  can be cut by the deadline of the request; the answer is then \<open>Io_Elapsed\<close> or the stop \<open>Stop_Deadline\<close>, and
  the whole download ends with the timeout, whatever it had left to do.
\<close>

section \<open>Responses\<close>

definition STRONG_ETAG_MAX_BYTES :: nat where
  "STRONG_ETAG_MAX_BYTES = 256"

text \<open>
  The status of a response and those of its headers the code reads, as far as their values are visible ASCII;
  the content encoding is compared as bytes.
\<close>

record http_response =
  hr_status :: nat
  hr_content_encoding :: "string option"
  hr_content_length :: "string option"
  hr_content_range :: "string option"
  hr_etag :: "string option"

definition is_redirection :: "nat \<Rightarrow> bool" where
  "is_redirection status \<longleftrightarrow> 300 \<le> status \<and> status < 400"

text \<open>\<^verbatim>\<open>str::parse::<u64>\<close>: decimal digits after an optional plus sign, within range.\<close>

definition digit_value :: "char \<Rightarrow> nat option" where
  "digit_value c =
     (let code = of_char c in if 48 \<le> code \<and> code \<le> (57 :: nat) then Some (code - 48) else None)"

fun parse_digits :: "nat \<Rightarrow> string \<Rightarrow> nat option" where
  "parse_digits acc [] = Some acc"
| "parse_digits acc (c # cs) =
     (case digit_value c of None \<Rightarrow> None | Some d \<Rightarrow> parse_digits (10 * acc + d) cs)"

definition parse_u64 :: "string \<Rightarrow> u64 option" where
  "parse_u64 text =
     (let digits = (case text of CHR ''+'' # cs \<Rightarrow> cs | _ \<Rightarrow> text)
      in if digits = [] then None
         else case parse_digits 0 digits of
                None \<Rightarrow> None
              | Some n \<Rightarrow> if n < 2 ^ 64 then Some (of_nat n) else None)"

definition length_contradicts :: "http_response \<Rightarrow> u64 \<Rightarrow> bool" where
  "length_contradicts response n \<longleftrightarrow>
     is_some_and (Option.bind (hr_content_length response) parse_u64) (\<lambda>l. l \<noteq> n)"

definition ensure_identity_encoding :: "http_response \<Rightarrow> update_operation_error + unit" where
  "ensure_identity_encoding response =
     (if is_some_and (hr_content_encoding response) (\<lambda>value. value \<noteq> ''identity'')
      then Inl E_InvalidResponse else Inr ())"

definition content_range :: "u64 \<Rightarrow> u64 \<Rightarrow> string" where
  "content_range committed expected_size =
     ''bytes '' @ u64_to_string committed @ ''-'' @ u64_to_string (saturating_sub expected_size 1) @ ''/''
       @ u64_to_string expected_size"

definition classify_download_response ::
  "http_response \<Rightarrow> partial_info \<Rightarrow> u64 \<Rightarrow> update_operation_error + (u64 \<times> bool)" where
  "classify_download_response response partial expected_size =
     (if hr_status response = 200
      then (if length_contradicts response expected_size then Inl E_InvalidResponse else Inr (0, False))
      else if hr_status response = 206 \<and> 0 < pi_size partial
      then (if hr_content_range response \<noteq> Some (content_range (pi_size partial) expected_size)
            then Inl E_RangeMismatch
            else if length_contradicts response (saturating_sub expected_size (pi_size partial))
            then Inl E_RangeMismatch
            else Inr (pi_size partial, True))
      else if is_redirection (hr_status response) then Inl E_RedirectRejected
      else Inl E_InvalidResponse)"

definition strong_etag :: "http_response \<Rightarrow> string option" where
  "strong_etag response =
     (case hr_etag response of
        None \<Rightarrow> None
      | Some value \<Rightarrow>
          if length value \<le> STRONG_ETAG_MAX_BYTES \<and> take 1 value = [CHR 0x22]
             \<and> value \<noteq> [] \<and> last value = CHR 0x22 \<and> take 2 value \<noteq> ''W/''
          then Some value else None)"

section \<open>What the environment answers\<close>

datatype io_answer = Io_Ok | Io_Failed | Io_Elapsed

fun io_result :: "io_answer \<Rightarrow> update_operation_error + unit" where
  "io_result Io_Ok = Inr ()"
| "io_result Io_Failed = Inl E_StoreIo"
| "io_result Io_Elapsed = Inl E_Timeout"

datatype reqwest_error = RE_Timeout | RE_Redirect | RE_Other

fun map_reqwest_error :: "reqwest_error \<Rightarrow> update_operation_error" where
  "map_reqwest_error RE_Timeout = E_Timeout"
| "map_reqwest_error RE_Redirect = E_RedirectRejected"
| "map_reqwest_error RE_Other = E_Network"

datatype response_answer =
    Rs_Cancelled
  | Rs_Elapsed
  | Rs_Failed reqwest_error
  | Rs_Response http_response

text \<open>
  The admission of a progress report at the machine's runner: taken, refused with an error before it reached
  the inbox, or cut by the deadline after (\<open>True\<close>) or before it reached the inbox.
\<close>

datatype admit_answer = Ad_Taken | Ad_Refused update_operation_error | Ad_Elapsed bool

record chunk_answer =
  ck_length :: u64
  ck_write :: io_answer
  ck_flush :: io_answer
  ck_sync :: io_answer
  ck_record :: "update_operation_error + unit"
  ck_runner_set :: bool
  ck_admit :: admit_answer

datatype stop_reason =
    Stop_Cancelled io_answer io_answer
  | Stop_Idle
  | Stop_Deadline
  | Stop_Error reqwest_error

datatype download_stream =
    Chunk chunk_answer download_stream
  | Stopped stop_reason
  | Ended io_answer io_answer  \<comment> \<open>the flush and the sync after the loop\<close>

record download_answers =
  da_prepare_partial :: "update_operation_error + partial_info"
  da_logical_url :: bool
  da_request_url :: "update_operation_error + unit"
  da_reset_unusable :: "update_operation_error + unit"
  da_response :: response_answer
  da_reset_full :: "update_operation_error + unit"
  da_set_partial_etag :: "update_operation_error + unit"
  da_open :: io_answer
  da_stream :: download_stream

section \<open>The download\<close>

text \<open>
  A download returns its correlation, whose progress sequence it has advanced, the progress reports that
  reached the runner, and its result.
\<close>

type_synonym 'a download = "continuation_correlation \<times> continuation_input list \<times> (update_operation_error + 'a)"

definition next_sequence :: "continuation_correlation \<Rightarrow> continuation_correlation" where
  "next_sequence c = c\<lparr>nc_progress_sequence := saturating_add (nc_progress_sequence c) 1\<rparr>"

fun first_failure :: "(update_operation_error + unit) list \<Rightarrow> update_operation_error option" where
  "first_failure [] = None"
| "first_failure (Inl err # results) = Some err"
| "first_failure (Inr _ # results) = first_failure results"

definition stop_error :: "stop_reason \<Rightarrow> update_operation_error" where
  "stop_error stop =
     (case stop of
        Stop_Cancelled flush sync \<Rightarrow>
          unwrap_or (first_failure [io_result flush, io_result sync]) E_Cancelled
      | Stop_Idle \<Rightarrow> E_Timeout
      | Stop_Deadline \<Rightarrow> E_Timeout
      | Stop_Error err \<Rightarrow> map_reqwest_error err)"

text \<open>Advances past a chunk of \<open>n\<close> bytes.\<close>

definition next_offset :: "u64 \<Rightarrow> u64 \<Rightarrow> u64 \<Rightarrow> u64 \<Rightarrow> u64 option" where
  "next_offset expected_size max_artifact_bytes offset n =
     (case checked_add offset n of
        None \<Rightarrow> None
      | Some advanced \<Rightarrow>
          if expected_size < advanced \<or> max_artifact_bytes < advanced then None else Some advanced)"

fun download_loop ::
  "u64 \<Rightarrow> u64 \<Rightarrow> download_stream \<Rightarrow> continuation_correlation \<Rightarrow> u64 \<Rightarrow> u64 download" where
  "download_loop expected_size max_bytes (Stopped stop) c offset = (c, [], Inl (stop_error stop))"
| "download_loop expected_size max_bytes (Ended flush sync) c offset =
     (c, [], (case first_failure [io_result flush, io_result sync] of Some err \<Rightarrow> Inl err | None \<Rightarrow> Inr offset))"
| "download_loop expected_size max_bytes (Chunk k rest) c offset =
     (case next_offset expected_size max_bytes offset (ck_length k) of
        None \<Rightarrow> (c, [], Inl E_OversizedPayload)
      | Some offset' \<Rightarrow>
          (case first_failure [io_result (ck_write k), io_result (ck_flush k), io_result (ck_sync k)] of
             Some err \<Rightarrow> (c, [], Inl err)
           | None \<Rightarrow>
               (let c' = next_sequence c; report = PartialCommitted c' offset'
                in case ck_record k of
                     Inl err \<Rightarrow> (c', [], Inl err)
                   | Inr _ \<Rightarrow>
                       if \<not> ck_runner_set k then (c', [], Inl E_Busy)
                       else case ck_admit k of
                              Ad_Refused err \<Rightarrow> (c', [], Inl err)
                            | Ad_Elapsed reached \<Rightarrow> (c', (if reached then [report] else []), Inl E_Timeout)
                            | Ad_Taken \<Rightarrow>
                                (let (c'', reports, result) = download_loop expected_size max_bytes rest c' offset'
                                 in (c'', report # reports, result)))))"

definition transfer ::
  "u64 \<Rightarrow> u64 \<Rightarrow> download_answers \<Rightarrow> continuation_correlation \<Rightarrow> u64 \<Rightarrow> unit download" where
  "transfer expected_size max_bytes env c offset =
     (case io_result (da_open env) of
        Inl err \<Rightarrow> (c, [], Inl err)
      | Inr _ \<Rightarrow>
          (let (c', reports, result) = download_loop expected_size max_bytes (da_stream env) c offset
           in (c', reports,
               case result of
                 Inl err \<Rightarrow> Inl err
               | Inr offset' \<Rightarrow>
                   if offset' \<noteq> expected_size then Inl (E_Verification ArtifactSizeMismatch) else Inr ())))"

definition receive ::
  "u64 \<Rightarrow> u64 \<Rightarrow> download_answers \<Rightarrow> continuation_correlation \<Rightarrow> partial_info \<Rightarrow> http_response
     \<Rightarrow> unit download" where
  "receive expected_size max_bytes env c partial response =
     (if is_redirection (hr_status response) then (c, [], Inl E_RedirectRejected)
      else case ensure_identity_encoding response of
        Inl err \<Rightarrow> (c, [], Inl err)
      | Inr _ \<Rightarrow>
          (case classify_download_response response partial expected_size of
             Inl err \<Rightarrow> (c, [], Inl err)
           | Inr (offset, appending) \<Rightarrow>
               (if appending
                then (if strong_etag response \<noteq> pi_etag partial then (c, [], Inl E_RangeMismatch)
                      else transfer expected_size max_bytes env c offset)
                else case da_reset_full env of
                  Inl err \<Rightarrow> (c, [], Inl err)
                | Inr _ \<Rightarrow>
                    (case da_set_partial_etag env of
                       Inl err \<Rightarrow> (c, [], Inl err)
                     | Inr _ \<Rightarrow> transfer expected_size max_bytes env c 0))))"

text \<open>
  A partial payload without a strong entity tag cannot be resumed: it is reset before the request is sent, and
  the request then asks for the whole payload.
\<close>

definition usable_partial ::
  "download_answers \<Rightarrow> partial_info \<Rightarrow> update_operation_error + partial_info" where
  "usable_partial env partial =
     (if 0 < pi_size partial \<and> pi_etag partial = None
      then (case da_reset_unusable env of
              Inl err \<Rightarrow> Inl err
            | Inr _ \<Rightarrow> Inr \<lparr>pi_size = 0, pi_etag = None\<rparr>)
      else Inr partial)"

definition download_artifact_inner ::
  "u64 \<Rightarrow> download_answers \<Rightarrow> continuation_correlation \<Rightarrow> available_candidate \<Rightarrow> unit download" where
  "download_artifact_inner max_bytes env c available =
     (let expected_size = vm_artifact_size (ac_metadata available)
      in case da_prepare_partial env of
           Inl err \<Rightarrow> (c, [], Inl err)
         | Inr partial0 \<Rightarrow>
             (if pi_size partial0 = expected_size then (c, [], Inr ())
              else if \<not> da_logical_url env then (c, [], Inl E_InvalidResponse)
              else case da_request_url env of
                Inl err \<Rightarrow> (c, [], Inl err)
              | Inr _ \<Rightarrow>
                  (case usable_partial env partial0 of
                     Inl err \<Rightarrow> (c, [], Inl err)
                   | Inr partial \<Rightarrow>
                       (case da_response env of
                          Rs_Cancelled \<Rightarrow> (c, [], Inl E_Cancelled)
                        | Rs_Elapsed \<Rightarrow> (c, [], Inl E_Timeout)
                        | Rs_Failed err \<Rightarrow> (c, [], Inl (map_reqwest_error err))
                        | Rs_Response response \<Rightarrow>
                            receive expected_size max_bytes env c partial response))))"

definition download_artifact_effect ::
  "u64 \<Rightarrow> download_answers \<Rightarrow> continuation_correlation \<Rightarrow> available_candidate \<Rightarrow> unit download" where
  "download_artifact_effect max_bytes env c available =
     (let (c', reports, result) = download_artifact_inner max_bytes env c available
      in (next_sequence c', reports, result))"

section \<open>The executor\<close>

text \<open>
  The other effects. A joined task that panicked is an answer \<open>None\<close>; the verification is raced against the
  cancellation of its effect.
\<close>

datatype verification_answer = Vf_Cancelled | Vf_Lost | Vf_Done "updater_error + unit"

fun verification_result :: "verification_answer \<Rightarrow> update_operation_error + unit" where
  "verification_result Vf_Cancelled = Inl E_Cancelled"
| "verification_result Vf_Lost = Inl E_StoreIo"
| "verification_result (Vf_Done (Inl err)) = Inl (E_Verification err)"
| "verification_result (Vf_Done (Inr _)) = Inr ()"

definition join_result :: "(update_operation_error + 'a) option \<Rightarrow> update_operation_error + 'a" where
  "join_result answer = unwrap_or answer (Inl E_StoreIo)"

record executor_answers =
  ea_max_artifact_bytes :: u64
  ea_download :: download_answers
  ea_verification :: verification_answer
  ea_publish_candidate :: "(update_operation_error + unit) option"
  ea_task_joined :: bool
  ea_discard_partial :: "update_operation_error + unit"
  ea_partial_info :: "update_operation_error + partial_info"
  ea_verify_ready :: "update_operation_error + unit"
  ea_record_reverified :: "update_operation_error + unit"
  ea_discard_managed_state :: "update_operation_error + unit"

definition finalize_result :: "executor_answers \<Rightarrow> bool \<Rightarrow> update_operation_error + partial_info" where
  "finalize_result env discard_partial =
     (if \<not> ea_task_joined env then Inl E_StoreIo
      else if discard_partial
      then (case ea_discard_partial env of
              Inl err \<Rightarrow> Inl err
            | Inr _ \<Rightarrow> Inr \<lparr>pi_size = 0, pi_etag = None\<rparr>)
      else (case ea_partial_info env of
              Inr partial \<Rightarrow> Inr partial
            | Inl err \<Rightarrow> if err = E_StoreIo then Inr \<lparr>pi_size = 0, pi_etag = None\<rparr> else Inl err))"

definition reverify_result :: "executor_answers \<Rightarrow> update_operation_error + unit" where
  "reverify_result env =
     (if \<not> ea_task_joined env then Inl E_StoreIo
      else case ea_verify_ready env of
        Inr _ \<Rightarrow> ea_record_reverified env
      | Inl err \<Rightarrow>
          (case ea_discard_managed_state env of
             Inl discard_err \<Rightarrow> Inl discard_err
           | Inr _ \<Rightarrow> Inl err))"

text \<open>The reports an effect sends while it runs and the completion it returns.\<close>

fun execute ::
  "executor_answers \<Rightarrow> continuation_effect \<Rightarrow> continuation_input list \<times> continuation_completion" where
  "execute env (Download c candidate) =
     (let (c', reports, result) =
        download_artifact_effect (ea_max_artifact_bytes env) (ea_download env) c candidate
      in (reports, \<lparr>cc_correlation = c', cc_outcome = O_Download result\<rparr>))"
| "execute env (Verify c candidate) =
     ([], \<lparr>cc_correlation = next_sequence c,
           cc_outcome = O_Verify (verification_result (ea_verification env))\<rparr>)"
| "execute env (CommitCandidate c candidate) =
     ([], \<lparr>cc_correlation = next_sequence c, cc_outcome = O_Commit (join_result (ea_publish_candidate env))\<rparr>)"
| "execute env (FinalizeFailure c candidate discard_partial) =
     ([], \<lparr>cc_correlation = next_sequence c, cc_outcome = O_Finalize (finalize_result env discard_partial)\<rparr>)"
| "execute env (ReverifyCandidate c candidate) =
     ([], \<lparr>cc_correlation = next_sequence c, cc_outcome = O_Recovery (reverify_result env)\<rparr>)"
| "execute env (CancelEffect c) =
     ([], \<lparr>cc_correlation = c, cc_outcome = O_TaskFailed NT_CompletionConflict\<rparr>)"

end
