(* ===== verification/Kernel_Replay.thy ===== *)
theory Kernel_Replay
  imports Kernel_Laws
begin

text \<open>
  The kernel is event sourced: the state of a runner is what the reducer makes of the inputs its observer
  has seen, one after the other. A fact about runs of the kernel that depends on the path and not only on the
  state is proved on that sequence, by \<open>after_history\<close>.
\<close>

lemma after_append: "after m s (is @ js) = Option.bind (after m s is) (\<lambda>s'. after m s' js)"
  by (induction "is" arbitrary: s) (auto split: option.splits)

lemma after_history:
  assumes "after m s0 is = Some s" and "H s0 []"
    and "\<And>s is i t. H s is \<Longrightarrow> m_reduce m s i = Some t \<Longrightarrow> H (next_state s t) (is @ [i])"
  shows "H s is"
  using assms(1)
proof (induction "is" arbitrary: s rule: rev_induct)
  case Nil
  then show ?case using assms(2) by simp
next
  case (snoc i "is")
  then obtain s' t where "after m s0 is = Some s'" "m_reduce m s' i = Some t" "s = next_state s' t"
    by (auto simp: after_append bind_eq_Some_conv split: option.splits)
  then show ?case
    using snoc.IH assms(3) by blast
qed

definition replays :: "('s, 'i, 'e, 'err) machine \<Rightarrow> 's \<Rightarrow> ('s, 'i, 'e) runner \<Rightarrow> bool" where
  "replays m s0 r \<longleftrightarrow> after m s0 (consumed r) = Some (rn_state r)"

lemma replays_published:
  "replays m s0 r \<Longrightarrow> m_reduce m (rn_state r) i = Some t \<Longrightarrow>
     replays m s0 (published i t r)"
  by (simp add: replays_def after_append)

lemma replays_frame:
  "replays m s0 (store_snapshot r) = replays m s0 r"
  "replays m s0 (abort_owned r) = replays m s0 r"
  "replays m s0 (join_next j r) = replays m s0 r"
  "replays m s0 (r\<lparr>rn_owned := os\<rparr>) = replays m s0 r"
  "replays m s0 (release_tasks r) = replays m s0 r"
  "replays m s0 (run_effects m role es r) = replays m s0 r"
  by (simp_all add: replays_def consumed_def)

lemma replays_settled:
  assumes "replays m s0 r"
  shows "replays m s0 (turn_runner (finish_effect m force j (join_next j r)))"
proof -
  let ?r = "(join_next j r)\<lparr>rn_owned := AList.delete (joined_id j) (rn_owned (join_next j r))\<rparr>"
  have "replays m s0 ?r"
    using assms by (simp add: replays_frame)
  from this replays_published [OF this] show ?thesis
    by (cases rule: finish_effect_runner_cases [where m = m and force = force and j = j and r = "join_next j r"])
      (use assms in \<open>simp_all add: replays_frame\<close>)
qed

lemma reached_replays:
  assumes "kernel_reach m capacity command answer s0 k"
  shows "after m s0 (consumed (kn_runner k)) = Some (rn_state (kn_runner k))"
proof -
  have "runner_stable m (replays m s0)"
    unfolding runner_stable_def
    by (auto simp: replays_frame intro: replays_published replays_settled)
  moreover have "replays m s0 (initial_runner observer s0)" for observer
    by (simp add: replays_def initial_runner_def consumed_def)
  ultimately have "replays m s0 (kn_runner k)"
    by (rule kernel_reach_stable [OF _ _ assms])
  then show ?thesis
    by (simp add: replays_def)
qed

end
