(* ===== verification/Continuation_Properties.thy ===== *)
theory Continuation_Properties
  imports Continuation_Machine Kernel_Replay
begin

text \<open>
  What the updater's Continuation machine guarantees on every run of the kernel that hosts it: a candidate is
  ready only after its download, its verification and its commit succeeded or after it was verified again, its
  progress never passes its size, and a cancelled download is not committed.
\<close>

section \<open>Evidence of a ready candidate\<close>

fun outcome_succeeded :: "u64 \<Rightarrow> continuation_outcome \<Rightarrow> bool" where
  "outcome_succeeded eid (O_Download (Inr _)) \<longleftrightarrow> eid = DOWNLOAD_EFFECT_ID"
| "outcome_succeeded eid (O_Verify (Inr _)) \<longleftrightarrow> eid = VERIFY_EFFECT_ID"
| "outcome_succeeded eid (O_Commit (Inr _)) \<longleftrightarrow> eid = COMMIT_CANDIDATE_EFFECT_ID"
| "outcome_succeeded eid (O_Recovery (Inr _)) \<longleftrightarrow> eid = REVERIFY_EFFECT_ID"
| "outcome_succeeded eid _ \<longleftrightarrow> False"

fun success_of :: "continuation_input \<Rightarrow> correlation list" where
  "success_of (EffectCompleted cmpl) =
     (if outcome_succeeded (effect_id (nc_machine (cc_correlation cmpl))) (cc_outcome cmpl)
      then [nc_machine (cc_correlation cmpl)] else [])"
| "success_of _ = []"

text \<open>The effects that have succeeded, in the order in which their completions were consumed.\<close>

definition successes :: "continuation_input list \<Rightarrow> correlation list" where
  "successes is = concat (map success_of is)"

definition fully_processed :: "continuation_operation \<Rightarrow> continuation_input list \<Rightarrow> bool" where
  "fully_processed op is \<longleftrightarrow>
     subseq (map (op_machine_correlation op) [DOWNLOAD_EFFECT_ID, VERIFY_EFFECT_ID, COMMIT_CANDIDATE_EFFECT_ID])
       (successes is)"

definition reverified :: "continuation_operation \<Rightarrow> continuation_input list \<Rightarrow> bool" where
  "reverified op is \<longleftrightarrow> op_machine_correlation op REVERIFY_EFFECT_ID \<in> set (successes is)"

fun ready_history :: "continuation_state \<Rightarrow> continuation_input list \<Rightarrow> bool" where
  "ready_history (Verifying op _ _ _) is \<longleftrightarrow> subseq [op_machine_correlation op DOWNLOAD_EFFECT_ID] (successes is)"
| "ready_history (CommittingCandidate op _ _) is \<longleftrightarrow>
     subseq (map (op_machine_correlation op) [DOWNLOAD_EFFECT_ID, VERIFY_EFFECT_ID]) (successes is)"
| "ready_history (Ready op _) is \<longleftrightarrow> fully_processed op is \<or> reverified op is"
| "ready_history (Retired (Some op) _ NR_Ready) is \<longleftrightarrow> fully_processed op is \<or> reverified op is"
| "ready_history _ is \<longleftrightarrow> True"

lemma successes_simps [simp]:
  "successes [] = []" "successes (is @ js) = successes is @ successes js" "successes [i] = success_of i"
  by (simp_all add: successes_def)

lemma effect_id_op [simp]: "effect_id (op_machine_correlation op n) = n"
  by (simp add: op_machine_correlation_def)

lemma subseq_snoc:
  "subseq xs ys \<Longrightarrow> subseq xs (ys @ zs)" "subseq xs ys \<Longrightarrow> subseq (xs @ [x]) (ys @ [x])"
  by (simp_all add: subseq_append list_emb_prefix)

lemma ready_history_later: "ready_history s is \<Longrightarrow> ready_history s (is @ js)"
  by (cases "(s, is)" rule: ready_history.cases)
    (auto simp: fully_processed_def reverified_def subseq_snoc)

lemma ready_history_completion:
  assumes "ready_history s is" and "cd_disposition (reduce_completion s cmpl) = Applied"
  shows "ready_history (cd_next (reduce_completion s cmpl)) (is @ [EffectCompleted cmpl])"
  using assms subseq_snoc(2) [of "[op_machine_correlation op DOWNLOAD_EFFECT_ID]" "successes is" for op]
    subseq_snoc(2) [of "map (op_machine_correlation op) [DOWNLOAD_EFFECT_ID, VERIFY_EFFECT_ID]" "successes is" for op]
  by (cases s)
    (auto simp: completion_defs completes_def continuation_accepts_iff fully_processed_def reverified_def
      split: completion_splits)

lemma ready_history_cancel:
  assumes "ready_history s is" and "reduce_cancel s oid = Inr d"
  shows "ready_history (cd_next d) is"
  using assms
  by (cases s) (auto simp: reduce_cancel_def decision_simps split: if_splits option.splits bool.splits)

lemma ready_history_shutdown: "ready_history s is \<Longrightarrow> ready_history (cd_next (reduce_shutdown s)) is"
  by (cases s) (auto simp: decision_simps)

lemma ready_history_step:
  assumes "ready_history s is"
  shows "ready_history (next_state s (machine_reduce digest s i)) (is @ [i])"
proof -
  have later: "ready_history s (is @ [i])"
    using assms by (rule ready_history_later)
  show ?thesis
  proof (cases i)
    case (EffectCompleted cmpl)
    then show ?thesis
      using later ready_history_completion [OF assms] by (auto simp: continuation_reduce_next)
  next
    case (PartialCommitted c n)
    then show ?thesis
      using later
      by (cases "(s, c, n)" rule: reduce_partial_committed.cases) (auto simp: continuation_reduce_next decision_simps)
  next
    case (CancelRequested oid)
    then show ?thesis
      using later ready_history_cancel [OF later] by (auto simp: continuation_reduce_next split: sum.splits)
  next
    case RecoverRequested
    then show ?thesis
      using later
      by (cases s rule: reduce_recover_requested.cases) (auto simp: continuation_reduce_next decision_simps Let_def)
  next
    case ShutdownRequested
    then show ?thesis
      using later ready_history_shutdown [OF later] by (auto simp: continuation_reduce_next)
  next
    case (DownloadRequested op outer n)
    then show ?thesis
      using later by (auto simp: continuation_reduce_next reduce_download_requested_def Let_def decision_simps)
  qed
qed

section \<open>The initial state\<close>

text \<open>
  The state the service starts the machine in, from what the candidate store has recovered: the candidate and
  the operation that owned it, its progress, whether it has to be verified again, and the recovered phase. The accepted metadata that
  \<^verbatim>\<open>RecoveredState\<close> carries too goes elsewhere.
\<close>

record recovered_state =
  rv_available :: "available_candidate option"
  rv_operation_id :: "string option"
  rv_phase :: update_phase
  rv_resumable :: bool
  rv_terminal_reason :: "string option"
  rv_progress :: "update_progress option"
  rv_needs_reverification :: bool

definition continuation_initial :: "string \<Rightarrow> u64 \<Rightarrow> recovered_state \<Rightarrow> continuation_state" where
  "continuation_initial authority_id revision recovered =
     (case rv_available recovered of
        None \<Rightarrow> Stable
      | Some candidate \<Rightarrow>
          let operation = \<lparr>no_machine_authority = authority_id, no_scope_epoch = 0,
                no_operation_id = unwrap_or (rv_operation_id recovered) ''recovered'',
                no_admitted_revision = revision, no_candidate = candidate\<rparr>;
              progress = \<lparr>mp_downloaded = (case rv_progress recovered of None \<Rightarrow> 0 | Some p \<Rightarrow> downloaded_bytes p),
                mp_total = vm_artifact_size (ac_metadata candidate), mp_sequence = 0\<rparr>
          in if rv_needs_reverification recovered then state_recovery_required operation progress
             else if rv_phase recovered = Ph_Failed \<and> rv_terminal_reason recovered = Some ''interrupted''
             then interrupted operation progress (rv_resumable recovered)
             else Stable)"

text \<open>The store never recovers a partial payload that is larger than its candidate.\<close>

definition recovered_fits :: "recovered_state \<Rightarrow> bool" where
  "recovered_fits recovered \<longleftrightarrow>
     (case (rv_available recovered, rv_progress recovered) of
        (Some candidate, Some p) \<Rightarrow> downloaded_bytes p \<le> vm_artifact_size (ac_metadata candidate)
      | _ \<Rightarrow> True)"

lemma initial_history: "ready_history (continuation_initial authority revision recovered) []"
  by (simp add: continuation_initial_def Let_def state_recovery_required_def interrupted_def split: option.split)

lemma initial_inv: "recovered_fits recovered \<Longrightarrow> continuation_inv (continuation_initial authority revision recovered)"
  by (auto simp: continuation_initial_def recovered_fits_def progress_ok_def Let_def state_recovery_required_def
      interrupted_def split: option.splits)

lemma reached_history:
  assumes "kernel_reach (continuation_machine digest) capacity command answer
      (continuation_initial authority revision recovered) k"
  shows "ready_history (rn_state (kn_runner k)) (consumed (kn_runner k))"
  by (rule after_history [where H = ready_history, OF reached_replays [OF assms] initial_history])
    (auto simp: machine_simps intro: ready_history_step)

section \<open>Cancellation\<close>

text \<open>
  Once a download or a verification is to be cancelled, the operation ends cancelled or failed: without a new
  request or a recovery nothing commits the candidate.
\<close>

fun not_committing :: "continuation_state \<Rightarrow> bool" where
  "not_committing (Downloading _ _ cancel _) \<longleftrightarrow> cancel"
| "not_committing (Verifying _ _ cancel _) \<longleftrightarrow> cancel"
| "not_committing (Finalizing _ _ _ _ _ _) \<longleftrightarrow> True"
| "not_committing (Failed _ _ _ _) \<longleftrightarrow> True"
| "not_committing (Cancelled _ _ _) \<longleftrightarrow> True"
| "not_committing (RecoveryRequired _ _ _ _) \<longleftrightarrow> True"
| "not_committing (Retired _ _ terminal) \<longleftrightarrow> terminal \<noteq> NR_Ready"
| "not_committing _ \<longleftrightarrow> False"

definition call_off :: "continuation_operation \<Rightarrow> continuation_state \<Rightarrow> bool" where
  "call_off op s \<longleftrightarrow> state_operation s = Some op \<and> not_committing s"

fun starts_over :: "continuation_input \<Rightarrow> bool" where
  "starts_over (DownloadRequested _ _ _) \<longleftrightarrow> True"
| "starts_over RecoverRequested \<longleftrightarrow> True"
| "starts_over _ \<longleftrightarrow> False"

lemma call_off_completion: "call_off op s \<Longrightarrow> call_off op (cd_next (reduce_completion s cmpl))"
  by (cases s) (auto simp: call_off_def completion_defs split: completion_splits)

lemma call_off_partial: "call_off op s \<Longrightarrow> call_off op (cd_next (reduce_partial_committed s c n))"
  by (cases "(s, c, n)" rule: reduce_partial_committed.cases) (auto simp: call_off_def decision_simps)

lemma call_off_cancel: "call_off op s \<Longrightarrow> reduce_cancel s oid = Inr d \<Longrightarrow> call_off op (cd_next d)"
  by (cases s)
    (auto simp: call_off_def reduce_cancel_def decision_simps split: if_splits option.splits bool.splits)

lemma call_off_shutdown: "call_off op s \<Longrightarrow> call_off op (cd_next (reduce_shutdown s))"
  by (cases s) (auto simp: call_off_def decision_simps)

lemma call_off_kept:
  assumes "call_off op s" and "\<not> starts_over i"
  shows "call_off op (next_state s (machine_reduce digest s i))"
  by (rule machine_reduce_cases [where P = "call_off op", OF assms(1)])
    (use assms in \<open>auto simp: call_off_completion call_off_partial call_off_shutdown
      dest: call_off_cancel [OF assms(1)]\<close>)

lemma call_off_emits_no_commit:
  assumes "call_off op s" and "e \<in> set (emitted (machine_reduce digest s i))" and "\<not> starts_over i"
  shows "e \<noteq> CommitCandidate c cand"
  using assms
  by (cases i; cases s)
    (auto simp: continuation_reduce_emitted call_off_def completion_defs reduce_cancel_def
      split: completion_splits option.splits bool.splits)

section \<open>Properties\<close>

text \<open>A concrete download, for the witnesses; the digest of a string is the string itself.\<close>

definition demo_metadata :: verified_metadata where
  "demo_metadata =
     \<lparr>vm_artifact_name = ''Mish.dmg'', vm_artifact_sha256 = ''aa'', vm_artifact_signature = ''sig'',
      vm_artifact_size = 42, vm_artifact_url = ''https://example.test/Mish.dmg'', vm_channel = Alpha,
      vm_channel_switch = False, vm_metadata_sha256 = ''bb'', vm_skipped_version = False, vm_source_sha = ''cc'',
      vm_version = ''0.2.0-alpha.1''\<rparr>"

definition demo_candidate :: available_candidate where
  "demo_candidate =
     \<lparr>ac_metadata = demo_metadata, ac_metadata_bytes = [1, 2], ac_metadata_signature = ''msig'',
      ac_release = \<lparr>rr_assets = [], rr_channel = Alpha, rr_id = 9, rr_published_at = ''2026-01-01'',
        rr_tag = ''v0.2.0-alpha.1'', rr_version = ''0.2.0-alpha.1''\<rparr>\<rparr>"

definition demo_operation :: continuation_operation where
  "demo_operation =
     \<lparr>no_machine_authority = ''updater'', no_scope_epoch = 1, no_operation_id = ''op-1'',
      no_admitted_revision = 7, no_candidate = demo_candidate\<rparr>"

definition demo_outer :: updater_snapshot where
  "demo_outer =
     \<lparr>us_authority_id = ''updater'', us_revision = 6, us_configured = True, us_phase = Ph_Available,
      us_operation_id = Some ''op-1'', us_channel = Some Alpha,
      us_candidate = Some (candidate_identity id demo_candidate), us_progress = None, us_resumable = False,
      us_terminal_reason = None, us_maintenance = None\<rparr>"

definition demo_recovered :: recovered_state where
  "demo_recovered =
     \<lparr>rv_available = None, rv_operation_id = None, rv_phase = Ph_Idle, rv_resumable = False,
      rv_terminal_reason = None, rv_progress = None, rv_needs_reverification = False\<rparr>"

definition demo_finished :: "u64 \<Rightarrow> u64 \<Rightarrow> continuation_outcome \<Rightarrow> continuation_input" where
  "demo_finished eid q outcome =
     EffectCompleted \<lparr>cc_correlation = op_correlation demo_operation eid q, cc_outcome = outcome\<rparr>"

definition demo_started :: "continuation_input event list" where
  "demo_started = [Ev_Admit (DownloadRequested demo_operation demo_outer 0), Ev_Receive]"

definition demo_ready :: "continuation_input event list" where
  "demo_ready =
     demo_started @
     [Ev_Join (Join_Ok 0 (demo_finished DOWNLOAD_EFFECT_ID 1 (O_Download (Inr ())))),
      Ev_Join (Join_Ok 1 (demo_finished VERIFY_EFFECT_ID 3 (O_Verify (Inr ())))),
      Ev_Join (Join_Ok 2 (demo_finished COMMIT_CANDIDATE_EFFECT_ID 5 (O_Commit (Inr ()))))]"

definition demo_kernel ::
  "continuation_input event list
     \<Rightarrow> (continuation_state, continuation_input, continuation_effect, update_operation_error) kernel" where
  "demo_kernel evs =
     (let start = spawn_runner None (continuation_initial ''updater'' 0 demo_recovered)
      in case run_events (continuation_machine id) 4 (\<lambda>_. True) (\<lambda>_ _. True) evs start of
           Some k \<Rightarrow> k | None \<Rightarrow> start)"

lemma continuation_demo_reach:
  "kernel_reach (continuation_machine id) 4 (\<lambda>_. True) (\<lambda>_ _. True)
     (continuation_initial ''updater'' 0 demo_recovered) (demo_kernel evs)"
  by (auto simp: demo_kernel_def Let_def intro: kernel_reach.start run_events_reach split: option.splits)

definition demo_progress :: "u64 \<Rightarrow> machine_progress" where
  "demo_progress q = \<lparr>mp_downloaded = 42, mp_total = 42, mp_sequence = q\<rparr>"

lemma demo_ready_state: "rn_state (kn_runner (demo_kernel demo_ready)) = Ready demo_operation (demo_progress 5)"
  by code_simp

lemma terminal_fields_finalizing:
  "terminal_fields (Finalizing op p stage terminal discard shutdown) =
     Some (if stage = FS_Downloading then Ph_Downloading else Ph_Verifying, False, None)"
  by (cases stage) simp_all

text \<open>
  C25: a candidate is ready to be installed, live or in the retired state, only after its download, its
  verification and its commit have succeeded, in this order and under the exact correlation of the operation
  that holds it, or after its payload was verified again under that operation. What callers, executors,
  failing tasks and shutdowns do in between, and what the store recovered at the start, does not matter.
\<close>

theorem continuation_ready_evidence:
  assumes "kernel_reach (continuation_machine digest) capacity command answer
      (continuation_initial authority revision recovered) k"
    and "rn_state (kn_runner k) \<in> {Ready op p, Retired (Some op) p' NR_Ready}"
  shows "fully_processed op (consumed (kn_runner k)) \<or> reverified op (consumed (kn_runner k))"
  using reached_history [OF assms(1)] assms(2) by auto

theorem continuation_ready_evidence_witness:
  "fully_processed demo_operation (consumed (kn_runner (demo_kernel demo_ready)))
     \<or> reverified demo_operation (consumed (kn_runner (demo_kernel demo_ready)))"
  by (rule continuation_ready_evidence [OF continuation_demo_reach]) (simp add: demo_ready_state)

text \<open>
  The published progress is true to the candidate. In every state the machine can reach from a store
  whose partial payload fits its candidate, the reported total is the size of the candidate's artifact, the
  reported bytes do not exceed it, and a candidate reported as ready is complete.
\<close>

theorem continuation_progress_bounded:
  assumes "kernel_reach (continuation_machine digest) capacity command answer
      (continuation_initial authority revision recovered) k"
    and "recovered_fits recovered"
    and "projection digest (rn_state (kn_runner k)) = Some view"
  shows "\<exists>pr. np_progress view = Some pr
           \<and> total_bytes pr = ci_artifact_size (np_candidate view)
           \<and> downloaded_bytes pr \<le> total_bytes pr
           \<and> (np_phase view = Ph_Ready \<longrightarrow> downloaded_bytes pr = total_bytes pr)"
proof -
  have "continuation_inv (rn_state (kn_runner k))"
    using continuation.reachable_inv [OF initial_inv [OF assms(2)] assms(1)] by (simp add: state_inv_def)
  then show ?thesis
    using assms(3)
    by (cases "rn_state (kn_runner k)" rule: continuation_inv.cases)
      (auto simp: projection_def progress_public_def candidate_identity_def from_verified_def progress_ok_def
        progress_full_def terminal_fields_finalizing split: if_splits)
qed

text \<open>
  A cancelled download is not committed. Once the cancellation of a download or a verification is recorded,
  no sequence of inputs short of a new request or an explicit recovery, task failures, late successes and
  shutdown included, makes its candidate ready or starts its commit; the operation stays the same.
\<close>

theorem continuation_cancel_final:
  assumes "s0 \<in> {Downloading op p True sh, Verifying op p True sh}"
    and "\<forall>i \<in> set is. \<not> starts_over i"
    and "after (continuation_machine digest) s0 is = Some s"
  shows "state_operation s = Some op \<and> (\<nexists>op' p'. s = Ready op' p') \<and> (\<nexists>op' p'. s = Retired op' p' NR_Ready)
     \<and> (\<forall>i c cand. \<not> starts_over i \<longrightarrow> CommitCandidate c cand \<notin> set (emitted (machine_reduce digest s i)))"
proof -
  have start: "call_off op s0"
    using assms(1) by (auto simp: call_off_def)
  have off: "call_off op s"
  proof (rule after_invariant [where P = "call_off op", OF _ start assms(3)])
    fix s i t
    assume "call_off op s" "i \<in> set is" "m_reduce (continuation_machine digest) s i = Some t"
    then show "call_off op (next_state s t)"
      using call_off_kept [of op s i digest] assms(2) by (auto simp: machine_simps)
  qed
  then have "state_operation s = Some op" "\<nexists>op' p'. s = Ready op' p'" "\<nexists>op' p'. s = Retired op' p' NR_Ready"
    by (auto simp: call_off_def)
  moreover have "\<forall>i c cand. \<not> starts_over i \<longrightarrow> CommitCandidate c cand \<notin> set (emitted (machine_reduce digest s i))"
    using call_off_emits_no_commit [OF off] by blast
  ultimately show ?thesis
    by blast
qed

end
