(* ===== verification/Download_Properties.thy ===== *)
theory Download_Properties
  imports Download_Effect Continuation_Properties
begin

text \<open>
  The Continuation machine and its executor together. The machine takes a progress report or a completion only
  under the next number of its progress sequence, and a report only if it does not go back; the executor counts
  on its own. As long as both count alike every effect is answered with the completion the machine waits for.
  A download that has to start over counts on while the machine does not, and is never settled.
\<close>

section \<open>The reports of a download\<close>

fun caller_input :: "continuation_input \<Rightarrow> bool" where
  "caller_input (DownloadRequested _ _ _) = True"
| "caller_input (CancelRequested _) = True"
| "caller_input RecoverRequested = True"
| "caller_input ShutdownRequested = True"
| "caller_input _ = False"

fun reports_from :: "continuation_correlation \<Rightarrow> u64 \<Rightarrow> u64 \<Rightarrow> continuation_input list \<Rightarrow> bool" where
  "reports_from c n sz [] \<longleftrightarrow> True"
| "reports_from c n sz (PartialCommitted c' n' # reports) \<longleftrightarrow>
     c' = next_sequence c \<and> n \<le> n' \<and> n' \<le> sz \<and> reports_from c' n' sz reports"
| "reports_from c n sz (_ # reports) \<longleftrightarrow> False"

definition reported :: "continuation_correlation \<Rightarrow> continuation_input list \<Rightarrow> continuation_correlation" where
  "reported c reports = (next_sequence ^^ length reports) c"

text \<open>Every chunk that is written is recorded in the store and reported to the machine.\<close>

fun undisturbed :: "download_stream \<Rightarrow> bool" where
  "undisturbed (Chunk k rest) \<longleftrightarrow>
     ck_record k = Inr () \<and> ck_runner_set k
     \<and> (case ck_admit k of Ad_Taken \<Rightarrow> undisturbed rest | Ad_Refused _ \<Rightarrow> False | Ad_Elapsed reached \<Rightarrow> reached)"
| "undisturbed _ \<longleftrightarrow> True"

lemma next_offset_Some:
  "next_offset sz limit offset n = Some offset' \<Longrightarrow> offset \<le> offset' \<and> offset' \<le> sz"
  by (auto simp: next_offset_def not_less word_le_nat_alt dest: checked_add_unat split: option.splits if_splits)

lemma next_sequence_sel [simp]:
  "nc_machine (next_sequence c) = nc_machine c"
  "nc_progress_sequence (next_sequence c) = saturating_add (nc_progress_sequence c) 1"
  by (simp_all add: next_sequence_def)

lemma reported_simps [simp]:
  "reported c [] = c" "reported c (i # reports) = reported (next_sequence c) reports"
  by (simp_all add: reported_def funpow_swap1)

lemma reported_machine [simp]: "nc_machine (reported c reports) = nc_machine c"
  by (induction reports arbitrary: c) simp_all

lemma download_loop_reports:
  "download_loop sz limit stream c offset = (c', reports, result) \<Longrightarrow>
     reports_from c offset sz reports \<and> (undisturbed stream \<longrightarrow> c' = reported c reports)"
proof (induction stream arbitrary: c offset c' reports result)
  case (Chunk k rest)
  show ?case
  proof (cases "next_offset sz limit offset (ck_length k)")
    case None
    then show ?thesis using Chunk.prems by simp
  next
    case (Some offset')
    note bounds = next_offset_Some [OF Some]
    obtain c2 rs2 res2 where loop: "download_loop sz limit rest (next_sequence c) offset' = (c2, rs2, res2)"
      by (metis prod_cases3)
    show ?thesis
      using Chunk.prems Some bounds loop Chunk.IH [OF loop]
      by (auto simp: Let_def split: option.splits sum.splits if_splits admit_answer.splits)
  qed
qed auto

lemma transfer_reports:
  "transfer sz limit env c offset = (c', reports, result) \<Longrightarrow>
     reports_from c offset sz reports \<and> (undisturbed (da_stream env) \<longrightarrow> c' = reported c reports)"
  using download_loop_reports
  by (auto simp: transfer_def split: sum.splits prod.splits)

lemma reports_from_mono: "n \<le> m \<Longrightarrow> reports_from c m sz reports \<Longrightarrow> reports_from c n sz reports"
  by (cases "(c, m, sz, reports)" rule: reports_from.cases) auto

text \<open>Where the transfer of a download starts, if it comes to one.\<close>

definition received_at :: "u64 \<Rightarrow> partial_info \<Rightarrow> http_response \<Rightarrow> u64 option" where
  "received_at sz partial response =
     (case classify_download_response response partial sz of Inr (offset, _) \<Rightarrow> Some offset | Inl _ \<Rightarrow> None)"

definition transfer_at :: "download_answers \<Rightarrow> u64 \<Rightarrow> u64 option" where
  "transfer_at env sz =
     (case da_prepare_partial env of
        Inl _ \<Rightarrow> None
      | Inr partial0 \<Rightarrow>
          (case (usable_partial env partial0, da_response env) of
             (Inr partial, Rs_Response response) \<Rightarrow> received_at sz partial response
           | _ \<Rightarrow> None))"

lemma classify_restart:
  "classify_download_response response partial sz = Inr (offset, False) \<Longrightarrow> offset = 0"
  by (auto simp: classify_download_response_def split: if_splits)

lemma receive_reports:
  assumes "receive sz limit env c partial response = (c', reports, result)"
    and "\<And>offset. received_at sz partial response = Some offset \<Longrightarrow> n \<le> offset"
  shows "reports_from c n sz reports \<and> (undisturbed (da_stream env) \<longrightarrow> c' = reported c reports)"
proof -
  have "reports_from c n sz reports" if "transfer sz limit env c offset = (c', reports, result)"
    and "received_at sz partial response = Some offset" for offset
    using reports_from_mono [OF assms(2) [OF that(2)]] transfer_reports [OF that(1)] by blast
  then show ?thesis
    using assms(1) classify_restart [of response partial sz]
    by (auto simp: receive_def received_at_def dest: transfer_reports split: if_splits sum.splits prod.splits)
qed

lemma download_reports:
  assumes "download_artifact_effect limit env c candidate = (c', reports, result)"
    and "\<And>offset. transfer_at env (vm_artifact_size (ac_metadata candidate)) = Some offset \<Longrightarrow> n \<le> offset"
  shows "reports_from c n (vm_artifact_size (ac_metadata candidate)) reports
     \<and> (undisturbed (da_stream env) \<longrightarrow> c' = next_sequence (reported c reports))"
proof -
  obtain c0 where inner: "download_artifact_inner limit env c candidate = (c0, reports, result)"
    and c': "c' = next_sequence c0"
    using assms(1) by (auto simp: download_artifact_effect_def Let_def split: prod.splits)
  have "reports_from c n (vm_artifact_size (ac_metadata candidate)) reports
     \<and> (undisturbed (da_stream env) \<longrightarrow> c0 = reported c reports)"
    using inner assms(2)
    by (auto simp: download_artifact_inner_def transfer_at_def Let_def dest!: receive_reports [where n = n]
        split: if_splits sum.splits response_answer.splits)
  then show ?thesis
    using c' by blast
qed

section \<open>The machine and its download in step\<close>

lemma caller_keeps_download:
  assumes "caller_input i"
  obtains cancel' shutdown' where
    "next_state (Downloading op p cancel shutdown) (machine_reduce digest (Downloading op p cancel shutdown) i)
       = Downloading op p cancel' shutdown'"
proof -
  have "\<exists>cancel' shutdown'. next_state (Downloading op p cancel shutdown)
      (machine_reduce digest (Downloading op p cancel shutdown) i) = Downloading op p cancel' shutdown'"
    using assms
    by (cases i; cases cancel)
      (auto simp: continuation_reduce_next reduce_download_requested_def reduce_cancel_def decision_simps)
  then show thesis
    using that by blast
qed

lemma report_taken:
  assumes "nc_machine c = op_machine_correlation op DOWNLOAD_EFFECT_ID" and "n \<le> n'" and "n' \<le> sz"
    and "p = \<lparr>mp_downloaded = n, mp_total = sz, mp_sequence = nc_progress_sequence c\<rparr>"
  shows "next_state (Downloading op p cancel shutdown)
      (machine_reduce digest (Downloading op p cancel shutdown) (PartialCommitted (next_sequence c) n'))
    = Downloading op \<lparr>mp_downloaded = n', mp_total = sz, mp_sequence = nc_progress_sequence (next_sequence c)\<rparr>
        cancel shutdown"
  using assms by (simp add: continuation_reduce_next partial_accepted_def continuation_accepts_iff decision_simps)

lemma reports_taken:
  assumes "reports_from c n sz [i \<leftarrow> is. \<not> caller_input i]"
    and "nc_machine c = op_machine_correlation op DOWNLOAD_EFFECT_ID"
  shows "\<exists>n' cancel' shutdown'.
    after (continuation_machine digest)
      (Downloading op \<lparr>mp_downloaded = n, mp_total = sz, mp_sequence = nc_progress_sequence c\<rparr> cancel shutdown) is
    = Some (Downloading op
        \<lparr>mp_downloaded = n', mp_total = sz,
         mp_sequence = nc_progress_sequence (reported c [i \<leftarrow> is. \<not> caller_input i])\<rparr> cancel' shutdown')"
  using assms
proof (induction "is" arbitrary: c n cancel shutdown)
  case (Cons i "is")
  show ?case
  proof (cases "caller_input i")
    case True
    then obtain cancel' shutdown' where "next_state
        (Downloading op \<lparr>mp_downloaded = n, mp_total = sz, mp_sequence = nc_progress_sequence c\<rparr> cancel shutdown)
        (machine_reduce digest
          (Downloading op \<lparr>mp_downloaded = n, mp_total = sz, mp_sequence = nc_progress_sequence c\<rparr> cancel shutdown) i)
      = Downloading op \<lparr>mp_downloaded = n, mp_total = sz, mp_sequence = nc_progress_sequence c\<rparr> cancel' shutdown'"
      by (rule caller_keeps_download)
    then show ?thesis
      using Cons True by (simp add: machine_simps)
  next
    case False
    then obtain n' where i: "i = PartialCommitted (next_sequence c) n'" and "n \<le> n'" "n' \<le> sz"
      and rest: "reports_from (next_sequence c) n' sz [i \<leftarrow> is. \<not> caller_input i]"
      using Cons.prems(1) by (cases i) auto
    then show ?thesis
      using Cons.IH [OF rest, of cancel shutdown] Cons.prems(2) False
      by (simp add: machine_simps report_taken)
  qed
qed (simp add: machine_simps)

lemma download_completed:
  assumes "nc_machine c = op_machine_correlation op DOWNLOAD_EFFECT_ID"
    and "nc_progress_sequence c = saturating_add (mp_sequence p) 1"
    and "s = next_state (Downloading op p cancel shutdown)
      (machine_reduce digest (Downloading op p cancel shutdown)
        (EffectCompleted \<lparr>cc_correlation = c, cc_outcome = O_Download result\<rparr>))"
  shows "(\<exists>p'. s = Verifying op p' False shutdown \<and> result = Inr () \<and> \<not> cancel)
     \<or> (\<exists>p' terminal discard. s = Finalizing op p' FS_Downloading terminal discard shutdown
          \<and> (result = Inr () \<longrightarrow> cancel))"
  using assms
  by (auto simp: continuation_reduce_next completes_def continuation_accepts_iff completion_defs split: sum.splits)

section \<open>A download that starts over\<close>

text \<open>Reports and completions that are late for the machine: it is behind their number or ahead of their offset.\<close>

fun refused :: "machine_progress \<Rightarrow> continuation_input \<Rightarrow> bool" where
  "refused p (PartialCommitted c n) \<longleftrightarrow>
     nc_progress_sequence c \<noteq> saturating_add (mp_sequence p) 1 \<or> n < mp_downloaded p"
| "refused p (EffectCompleted cmpl) \<longleftrightarrow>
     \<not> is_task_failed (cc_outcome cmpl)
     \<and> nc_progress_sequence (cc_correlation cmpl) \<noteq> saturating_add (mp_sequence p) 1"
| "refused p i \<longleftrightarrow> caller_input i"

lemma caller_refused: "caller_input i \<Longrightarrow> refused p i"
  by (cases i) simp_all

lemma refused_kept:
  assumes "refused p i"
  obtains cancel' shutdown' where
    "next_state (Downloading op p cancel shutdown) (machine_reduce digest (Downloading op p cancel shutdown) i)
       = Downloading op p cancel' shutdown'"
proof (cases "caller_input i")
  case True
  then show thesis
    using that by (rule caller_keeps_download)
next
  case False
  then have "next_state (Downloading op p cancel shutdown)
      (machine_reduce digest (Downloading op p cancel shutdown) i) = Downloading op p cancel shutdown"
    using assms
    by (cases i) (auto simp: continuation_reduce_next partial_accepted_def completes_def decision_simps)
  then show thesis
    by (rule that)
qed

lemma refused_run:
  assumes "\<forall>i \<in> set is. refused p i"
  shows "\<exists>cancel' shutdown'. after (continuation_machine digest) (Downloading op p cancel shutdown) is
    = Some (Downloading op p cancel' shutdown')"
  using assms
proof (induction "is" arbitrary: cancel shutdown)
  case (Cons i "is")
  then have "refused p i"
    by simp
  then obtain cancel' shutdown' where "next_state (Downloading op p cancel shutdown)
      (machine_reduce digest (Downloading op p cancel shutdown) i) = Downloading op p cancel' shutdown'"
    by (rule refused_kept)
  then show ?case
    using Cons by (simp add: machine_simps)
qed simp

lemma sequence_after:
  assumes "unat (nc_progress_sequence c) + k < 2 ^ 64"
  shows "unat (nc_progress_sequence ((next_sequence ^^ k) c)) = unat (nc_progress_sequence c) + k"
  using assms
proof (induction k)
  case (Suc k)
  then have "checked_add (nc_progress_sequence ((next_sequence ^^ k) c)) 1
      = Some (nc_progress_sequence ((next_sequence ^^ k) c) + 1)"
    by (simp add: checked_add_def)
  then show ?case
    using Suc checked_add_unat by (fastforce simp: saturating_add_def)
qed simp

lemma sequence_passed:
  assumes "unat (nc_progress_sequence c) + k < 2 ^ 64" and "2 \<le> k"
  shows "nc_progress_sequence ((next_sequence ^^ k) c) \<noteq> saturating_add (nc_progress_sequence c) 1"
proof -
  have "unat (saturating_add (nc_progress_sequence c) 1) = unat (nc_progress_sequence c) + 1"
    using sequence_after [of c 1] assms by simp
  then show ?thesis
    using sequence_after [OF assms(1)] assms(2) by auto
qed

lemma reports_numbered:
  assumes "reports_from c n sz reports" and "i \<in> set reports"
  shows "\<exists>k n'. 1 \<le> k \<and> k \<le> length reports \<and> i = PartialCommitted ((next_sequence ^^ k) c) n'"
  using assms
proof (induction reports arbitrary: c n)
  case (Cons j reports)
  then obtain n1 where j: "j = PartialCommitted (next_sequence c) n1"
    and rest: "reports_from (next_sequence c) n1 sz reports"
    by (cases j) auto
  show ?case
  proof (cases "i = j")
    case True
    then have "i = PartialCommitted ((next_sequence ^^ 1) c) n1"
      using j by simp
    then show ?thesis
      by (metis One_nat_def length_Cons le_refl Suc_le_mono zero_le)
  next
    case False
    then obtain k n' where "1 \<le> k" "k \<le> length reports" "i = PartialCommitted ((next_sequence ^^ k) (next_sequence c)) n'"
      using Cons.IH [OF rest] Cons.prems(2) by auto
    then have "1 \<le> Suc k \<and> Suc k \<le> length (j # reports) \<and> i = PartialCommitted ((next_sequence ^^ Suc k) c) n'"
      by (simp add: funpow_swap1)
    then show ?thesis
      by blast
  qed
qed simp

text \<open>A disturbed download has counted one report more than it delivered.\<close>

lemma download_loop_counts:
  "download_loop sz limit stream c offset = (c', reports, result) \<Longrightarrow>
     c' = reported c reports \<or> c' = next_sequence (reported c reports)"
proof (induction stream arbitrary: c offset c' reports result)
  case (Chunk k rest)
  obtain offset' c2 rs2 res2 where "next_offset sz limit offset (ck_length k) = None \<or>
      next_offset sz limit offset (ck_length k) = Some offset'
      \<and> download_loop sz limit rest (next_sequence c) offset' = (c2, rs2, res2)"
    by (metis option.exhaust prod_cases3)
  then show ?case
    using Chunk.prems Chunk.IH [of "next_sequence c" offset' c2 rs2 res2]
    by (auto simp: Let_def split: option.splits sum.splits if_splits admit_answer.splits)
qed auto

lemma download_counts:
  assumes "download_artifact_effect limit env c candidate = (c', reports, result)"
  shows "\<exists>k\<ge>1. k \<le> 2 \<and> c' = (next_sequence ^^ (length reports + k)) c"
proof -
  obtain c0 where inner: "download_artifact_inner limit env c candidate = (c0, reports, result)"
    and c': "c' = next_sequence c0"
    using assms by (auto simp: download_artifact_effect_def Let_def split: prod.splits)
  have "c0 = reported c reports \<or> c0 = next_sequence (reported c reports)"
    using inner
    by (auto simp: download_artifact_inner_def receive_def transfer_def Let_def dest: download_loop_counts
        split: if_splits sum.splits response_answer.splits prod.splits)
  then show ?thesis
    using c' by (auto simp: reported_def intro: exI [of _ "1::nat"] exI [of _ "2::nat"])
qed

lemma download_reports_any:
  assumes "download_artifact_effect limit env c candidate = (c', reports, result)"
  shows "reports_from c 0 (vm_artifact_size (ac_metadata candidate)) reports"
  using download_reports [OF assms, of 0] by simp

lemma restarted_refused:
  assumes "execute env (Download c candidate) = (PartialCommitted c1 n1 # reports, cmpl)"
    and "n1 < mp_downloaded p" and "nc_progress_sequence c = mp_sequence p"
    and "unat (mp_sequence p) + length reports + 3 < 2 ^ 64"
  shows "\<forall>i \<in> set (PartialCommitted c1 n1 # reports). refused p i" and "refused p (EffectCompleted cmpl)"
proof -
  obtain c' result where eff: "download_artifact_effect (ea_max_artifact_bytes env) (ea_download env) c candidate
      = (c', PartialCommitted c1 n1 # reports, result)"
    and cmpl: "cmpl = \<lparr>cc_correlation = c', cc_outcome = O_Download result\<rparr>"
    using assms(1) by (auto simp: Let_def split: prod.splits)
  have rest: "reports_from (next_sequence c) n1 (vm_artifact_size (ac_metadata candidate)) reports"
    using download_reports_any [OF eff] by auto
  have "refused p i" if i: "i \<in> set reports" for i
  proof -
    obtain k n' where k: "1 \<le> k" "k \<le> length reports"
      and i: "i = PartialCommitted ((next_sequence ^^ Suc k) c) n'"
      using reports_numbered [OF rest i] by (auto simp: funpow_swap1)
    then show ?thesis
      using sequence_passed [of c "Suc k"] assms(3,4) by (simp del: funpow.simps)
  qed
  then show "\<forall>i \<in> set (PartialCommitted c1 n1 # reports). refused p i"
    using assms(2) by simp
  obtain k where "1 \<le> k" "k \<le> 2" and c': "c' = (next_sequence ^^ (Suc (length reports) + k)) c"
    using download_counts [OF eff] unfolding length_Cons by blast
  then show "refused p (EffectCompleted cmpl)"
    using sequence_passed [of c "Suc (length reports) + k"] assms(3,4) cmpl by (simp del: funpow.simps)
qed

section \<open>Effects short of the download\<close>

text \<open>The state a machine is in while it waits for an effect.\<close>

fun awaits :: "continuation_effect \<Rightarrow> continuation_state \<Rightarrow> bool" where
  "awaits (Download c _) (Downloading op p _ _) \<longleftrightarrow> c = op_correlation op DOWNLOAD_EFFECT_ID (mp_sequence p)"
| "awaits (Verify c _) (Verifying op p _ _) \<longleftrightarrow> c = op_correlation op VERIFY_EFFECT_ID (mp_sequence p)"
| "awaits (CommitCandidate c _) (CommittingCandidate op p _) \<longleftrightarrow>
     c = op_correlation op COMMIT_CANDIDATE_EFFECT_ID (mp_sequence p)"
| "awaits (FinalizeFailure c _ _) (Finalizing op p _ _ _ _) \<longleftrightarrow>
     c = op_correlation op FINALIZE_EFFECT_ID (mp_sequence p)"
| "awaits (ReverifyCandidate c _) (Recovering op p _) \<longleftrightarrow> c = op_correlation op REVERIFY_EFFECT_ID (mp_sequence p)"
| "awaits _ _ \<longleftrightarrow> False"

fun is_download :: "continuation_effect \<Rightarrow> bool" where
  "is_download (Download _ _) \<longleftrightarrow> True"
| "is_download _ \<longleftrightarrow> False"

lemma continuation_ids_distinct [simp]:
  "DOWNLOAD_EFFECT_ID \<noteq> VERIFY_EFFECT_ID" "VERIFY_EFFECT_ID \<noteq> COMMIT_CANDIDATE_EFFECT_ID"
  "VERIFY_EFFECT_ID \<noteq> FINALIZE_EFFECT_ID" "DOWNLOAD_EFFECT_ID \<noteq> FINALIZE_EFFECT_ID"
  by (simp_all add: DOWNLOAD_EFFECT_ID_def VERIFY_EFFECT_ID_def COMMIT_CANDIDATE_EFFECT_ID_def FINALIZE_EFFECT_ID_def)

lemma op_machine_correlation_eq [simp]:
  "op_machine_correlation op m = op_machine_correlation op n \<longleftrightarrow> m = n"
  by (simp add: op_machine_correlation_def)

lemma emitted_awaits:
  assumes "e \<in> set (emitted (machine_reduce digest s i))" and "effect_mode_of e = Spawn"
  shows "awaits e (next_state s (machine_reduce digest s i))"
proof (cases i)
  case (DownloadRequested op outer n)
  then show ?thesis
    using assms
    by (auto simp: continuation_reduce_next continuation_reduce_emitted reduce_download_requested_def Let_def decision_simps
        split: if_splits)
next
  case (EffectCompleted cmpl)
  then show ?thesis
    using assms
    by (cases s)
      (auto simp: continuation_reduce_next continuation_reduce_emitted completion_defs split: completion_splits)
next
  case (PartialCommitted c n)
  then show ?thesis
    using assms
    by (cases "(s, c, n)" rule: reduce_partial_committed.cases)
      (auto simp: continuation_reduce_next continuation_reduce_emitted decision_simps split: if_splits)
next
  case (CancelRequested oid)
  then show ?thesis
    using assms
    by (cases s)
      (auto simp: continuation_reduce_emitted reduce_cancel_def decision_simps
        split: if_splits option.splits bool.splits)
next
  case RecoverRequested
  then show ?thesis
    using assms
    by (cases s rule: reduce_recover_requested.cases)
      (auto simp: continuation_reduce_next continuation_reduce_emitted decision_simps Let_def)
next
  case ShutdownRequested
  then show ?thesis
    using assms
    by (cases s) (auto simp: continuation_reduce_emitted decision_simps split: if_splits)
qed

lemma awaits_kept:
  assumes "awaits e s" and "caller_input i" and "\<And>c cand. e = ReverifyCandidate c cand \<Longrightarrow> i \<noteq> ShutdownRequested"
  shows "awaits e (next_state s (machine_reduce digest s i))"
  using assms
  by (cases "(e, s)" rule: awaits.cases; cases i)
    (auto simp: continuation_reduce_next reduce_download_requested_def reduce_cancel_def decision_simps
      split: sum.splits if_splits option.splits bool.splits)

lemma awaits_completed:
  assumes "awaits e s" and "\<not> is_download e"
  shows "\<not> effect_is_current (next_state s (machine_reduce digest s (EffectCompleted (snd (execute env e)))))
    (nc_machine (effect_correlation e))"
  using assms
  by (cases "(e, s)" rule: awaits.cases)
    (auto simp: continuation_reduce_next completes_def continuation_accepts_iff completion_defs split: completion_splits)

section \<open>Properties\<close>

text \<open>A concrete download of the demonstration candidate: 42 bytes, 30 of which are already there.\<close>

definition demo_chunk :: "u64 \<Rightarrow> chunk_answer" where
  "demo_chunk n =
     \<lparr>ck_length = n, ck_write = Io_Ok, ck_flush = Io_Ok, ck_sync = Io_Ok, ck_record = Inr (), ck_runner_set = True,
      ck_admit = Ad_Taken\<rparr>"

definition demo_response :: "nat \<Rightarrow> string option \<Rightarrow> http_response" where
  "demo_response status span =
     \<lparr>hr_status = status, hr_content_encoding = None, hr_content_length = None, hr_content_range = span,
      hr_etag = Some [CHR 0x22, CHR ''e'', CHR 0x22]\<rparr>"

definition demo_download :: "http_response \<Rightarrow> download_stream \<Rightarrow> download_answers" where
  "demo_download response stream =
     \<lparr>da_prepare_partial = Inr \<lparr>pi_size = 30, pi_etag = Some [CHR 0x22, CHR ''e'', CHR 0x22]\<rparr>,
      da_logical_url = True, da_request_url = Inr (), da_reset_unusable = Inr (),
      da_response = Rs_Response response, da_reset_full = Inr (), da_set_partial_etag = Inr (),
      da_open = Io_Ok, da_stream = stream\<rparr>"

definition demo_env :: "http_response \<Rightarrow> download_stream \<Rightarrow> executor_answers" where
  "demo_env response stream =
     \<lparr>ea_max_artifact_bytes = 1000, ea_download = demo_download response stream,
      ea_verification = Vf_Done (Inr ()), ea_publish_candidate = Some (Inr ()), ea_task_joined = True,
      ea_discard_partial = Inr (), ea_partial_info = Inr \<lparr>pi_size = 0, pi_etag = None\<rparr>,
      ea_verify_ready = Inr (), ea_record_reverified = Inr (), ea_discard_managed_state = Inr ()\<rparr>"

definition demo_resumed :: machine_progress where
  "demo_resumed = \<lparr>mp_downloaded = 30, mp_total = 42, mp_sequence = 0\<rparr>"

definition demo_effect :: continuation_effect where
  "demo_effect = Download (op_correlation demo_operation DOWNLOAD_EFFECT_ID 0) demo_candidate"

definition demo_resumed_env :: executor_answers where
  "demo_resumed_env = demo_env (demo_response 206 (Some ''bytes 30-41/42'')) (Chunk (demo_chunk 12) (Ended Io_Ok Io_Ok))"

definition demo_restarted_env :: executor_answers where
  "demo_restarted_env = demo_env (demo_response 200 None) (Chunk (demo_chunk 20) (Chunk (demo_chunk 22) (Ended Io_Ok Io_Ok)))"

definition demo_correlation :: "u64 \<Rightarrow> continuation_correlation" where
  "demo_correlation q = op_correlation demo_operation DOWNLOAD_EFFECT_ID q"

lemma demo_resumed_run:
  "execute demo_resumed_env demo_effect =
     ([PartialCommitted (demo_correlation 1) 42],
      \<lparr>cc_correlation = demo_correlation 2, cc_outcome = O_Download (Inr ())\<rparr>)"
  "transfer_at (ea_download demo_resumed_env) 42 = Some 30"
  by code_simp+

lemma demo_restarted_run:
  "execute demo_restarted_env demo_effect =
     ([PartialCommitted (demo_correlation 1) 20, PartialCommitted (demo_correlation 2) 42],
      \<lparr>cc_correlation = demo_correlation 3, cc_outcome = O_Download (Inr ())\<rparr>)"
  by code_simp

text \<open>
  C26: a download that keeps its promise is settled. If the transfer starts at or after the bytes the machine
  has reported, and every chunk is recorded and its report delivered, then, whatever callers request in
  between, all reports are taken and the completion is the one the machine waits for: a success of a download that
  nobody cancelled leads to the verification, everything else, timeouts and errors of the server or the disk
  included, to the finalization.
\<close>

theorem download_settles:
  assumes "execute env (Download (op_correlation op DOWNLOAD_EFFECT_ID (mp_sequence p)) (no_candidate op))
      = (reports, cmpl)"
    and "mp_total p = vm_artifact_size (ac_metadata (no_candidate op))"
    and "\<And>offset. transfer_at (ea_download env) (mp_total p) = Some offset \<Longrightarrow> mp_downloaded p \<le> offset"
    and "undisturbed (da_stream (ea_download env))"
    and "[i \<leftarrow> inputs. \<not> caller_input i] = reports"
  shows "\<exists>p' cancel' shutdown' s.
     after (continuation_machine digest) (Downloading op p cancel shutdown) inputs
       = Some (Downloading op p' cancel' shutdown')
     \<and> after (continuation_machine digest) (Downloading op p cancel shutdown) (inputs @ [EffectCompleted cmpl]) = Some s
     \<and> ((\<exists>p''. s = Verifying op p'' False shutdown' \<and> cc_outcome cmpl = O_Download (Inr ()) \<and> \<not> cancel')
        \<or> (\<exists>p'' terminal discard. s = Finalizing op p'' FS_Downloading terminal discard shutdown'
             \<and> (cc_outcome cmpl = O_Download (Inr ()) \<longrightarrow> cancel')))"
proof -
  let ?c = "op_correlation op DOWNLOAD_EFFECT_ID (mp_sequence p)"
  obtain c' result where eff: "download_artifact_effect (ea_max_artifact_bytes env) (ea_download env) ?c (no_candidate op)
      = (c', reports, result)"
    and cmpl: "cmpl = \<lparr>cc_correlation = c', cc_outcome = O_Download result\<rparr>"
    using assms(1) by (auto simp: Let_def split: prod.splits)
  have reports: "reports_from ?c (mp_downloaded p) (mp_total p) [i \<leftarrow> inputs. \<not> caller_input i]"
    and c': "c' = next_sequence (reported ?c reports)"
    using download_reports [OF eff, of "mp_downloaded p"] assms(2-5) by auto
  have p: "\<lparr>mp_downloaded = mp_downloaded p, mp_total = mp_total p, mp_sequence = mp_sequence p\<rparr> = p"
    by simp
  obtain n' cancel' shutdown' where run:
    "after (continuation_machine digest) (Downloading op p cancel shutdown) inputs = Some (Downloading op
       \<lparr>mp_downloaded = n', mp_total = mp_total p, mp_sequence = nc_progress_sequence (reported ?c reports)\<rparr>
       cancel' shutdown')"
    using reports_taken [OF reports, where op = op and digest = digest and cancel = cancel and shutdown = shutdown]
      assms(5) p
    by auto
  have "nc_machine c' = op_machine_correlation op DOWNLOAD_EFFECT_ID"
    by (simp add: c')
  from download_completed [OF this _ refl] show ?thesis
    using run by (auto simp: after_append machine_simps cmpl c')
qed

theorem download_settles_witness:
  "\<exists>p' cancel' shutdown'.
     after (continuation_machine id) (Downloading demo_operation demo_resumed False False)
       [PartialCommitted (demo_correlation 1) 42] = Some (Downloading demo_operation p' cancel' shutdown')"
proof -
  have e: "Download (op_correlation demo_operation DOWNLOAD_EFFECT_ID (mp_sequence demo_resumed))
      (no_candidate demo_operation) = demo_effect"
    by (simp add: demo_effect_def demo_resumed_def demo_operation_def)
  have "mp_total demo_resumed = vm_artifact_size (ac_metadata (no_candidate demo_operation))"
    by (simp add: demo_resumed_def demo_operation_def demo_candidate_def demo_metadata_def)
  moreover have "mp_downloaded demo_resumed \<le> offset"
    if "transfer_at (ea_download demo_resumed_env) (mp_total demo_resumed) = Some offset" for offset
    using that demo_resumed_run(2) by (simp add: demo_resumed_def)
  moreover have "undisturbed (da_stream (ea_download demo_resumed_env))"
    by (simp add: demo_resumed_env_def demo_env_def demo_download_def demo_chunk_def)
  ultimately show ?thesis
    using download_settles [where op = demo_operation and p = demo_resumed and env = demo_resumed_env
        and inputs = "[PartialCommitted (demo_correlation 1) 42]" and digest = id and cancel = False and shutdown = False]
      demo_resumed_run(1)
    unfolding e by fastforce
qed

text \<open>
  Every other effect is settled by its executor. Whatever the store, the verifier and the cancellation
  answer and whatever callers request while a verification, a commit, a finalization or a re-verification runs,
  the machine takes its completion and waits for that effect no longer; only a shutdown during a
  re-verification retires the machine before.
\<close>

theorem continuation_effects_settle:
  assumes "e \<in> set (emitted (machine_reduce digest s0 i))" and "effect_mode_of e = Spawn" and "\<not> is_download e"
    and "\<forall>j \<in> set is. caller_input j"
    and "\<And>c cand. e = ReverifyCandidate c cand \<Longrightarrow> ShutdownRequested \<notin> set is"
    and "after (continuation_machine digest) (next_state s0 (machine_reduce digest s0 i))
      (is @ [EffectCompleted (snd (execute env e))]) = Some s"
  shows "\<not> effect_is_current s (nc_machine (effect_correlation e))"
proof -
  obtain s1 where s1: "after (continuation_machine digest) (next_state s0 (machine_reduce digest s0 i)) is = Some s1"
    and s: "s = next_state s1 (machine_reduce digest s1 (EffectCompleted (snd (execute env e))))"
    using assms(6) by (auto simp: after_append bind_eq_Some_conv machine_simps)
  have "awaits e s1"
  proof (rule after_invariant [where P = "awaits e", OF _ emitted_awaits [OF assms(1,2)] s1])
    fix s j t
    assume "awaits e s" "j \<in> set is" "m_reduce (continuation_machine digest) s j = Some t"
    then show "awaits e (next_state s t)"
      using awaits_kept [of e s j digest] assms(4,5) by (auto simp: machine_simps)
  qed
  then show ?thesis
    using awaits_completed assms(3) s by blast
qed



text \<open>The same run on the kernel: the task of the download is gone, the machine waits for it and goes on to do so.\<close>

definition demo_stalled :: "continuation_input event list" where
  "demo_stalled =
     [Ev_Admit (DownloadRequested demo_operation demo_outer 30), Ev_Receive,
      Ev_Admit (PartialCommitted (demo_correlation 1) 20), Ev_Receive,
      Ev_Admit (PartialCommitted (demo_correlation 2) 42), Ev_Receive,
      Ev_Join (Join_Ok 0 (EffectCompleted \<lparr>cc_correlation = demo_correlation 3, cc_outcome = O_Download (Inr ())\<rparr>))]"

lemma demo_stalled_kernel:
  "rn_state (kn_runner (demo_kernel demo_stalled)) = Downloading demo_operation demo_resumed False False
   \<and> rn_tasks (kn_runner (demo_kernel demo_stalled)) = [] \<and> rn_owned (kn_runner (demo_kernel demo_stalled)) = []
   \<and> kn_actor (demo_kernel demo_stalled) = Running"
  by code_simp

end
