(* ===== verification/Maintenance.thy ===== *)
theory Maintenance
  imports Continuation_Machine State_Wp
begin

text \<open>
  The updater's maintenance authority, \<^verbatim>\<open>crates/updater/src/service/maintenance.rs\<close>: the journal of an
  installation that is about to replace the running application, from the preparation over the
  committed intent and the relaunch to the recovery in the next process. The machine
  \<^verbatim>\<open>MaintenanceMachine\<close> has no effects; the authority applies it to the journal record. The journal file is
  what reading it yields, \<open>loaded_journal\<close>; a fault of the file system is an answer of the environment, before
  or after the operation took effect. Parsing a semantic version (crate \<^verbatim>\<open>semver\<close>) and the SHA-256 digest are
  fields of \<open>maintenance_self\<close>.
\<close>

section \<open>Requests, errors, records\<close>

record capture_ownership_evidence =
  oe_authority_sha256 :: string
  oe_revision :: u64

record maintenance_request =
  mq_operation_id :: string
  mq_admitted_revision :: u64
  mq_current_version :: string
  mq_expected_version :: string
  mq_capture_intent :: capture_intent
  mq_capture_ownership :: "capture_ownership_evidence option"

datatype maintenance_error =
    ME_Busy
  | ME_InvalidCaptureOwnership
  | ME_InvalidOperationKey
  | ME_InvalidVersion
  | ME_JournalIo
  | ME_JournalUnsafe
  | ME_OperationMismatch
  | ME_RevisionExhausted
  | ME_StaleRevision
  | ME_TooLateToCancel

datatype journal_phase =
    JP_PreparingMaintenance
  | JP_InstallingIntent
  | JP_Relaunching
  | JP_Recovering
  | JP_Completed
  | JP_Failed
  | JP_Cancelled

fun phase_label :: "journal_phase \<Rightarrow> string" where
  "phase_label JP_PreparingMaintenance = ''preparing-maintenance''"
| "phase_label JP_InstallingIntent = ''installing-intent''"
| "phase_label JP_Relaunching = ''relaunching''"
| "phase_label JP_Recovering = ''recovering''"
| "phase_label JP_Completed = ''completed''"
| "phase_label JP_Failed = ''failed''"
| "phase_label JP_Cancelled = ''cancelled''"

record journal_record =
  jr_schema_version :: nat
  jr_revision :: u64
  jr_operation_id :: string
  jr_admitted_revision :: u64
  jr_machine_authority :: string
  jr_recovery_authority :: "string option"
  jr_previous_version :: string
  jr_expected_version :: string
  jr_capture_intent :: capture_intent
  jr_capture_ownership :: "capture_ownership_evidence option"
  jr_phase :: journal_phase

definition JOURNAL_SCHEMA_VERSION :: nat where
  "JOURNAL_SCHEMA_VERSION = 1"

definition EVIDENCE_LIMIT :: nat where
  "EVIDENCE_LIMIT = 64"

definition MAINTENANCE_REVISION_HEADROOM :: u64 where
  "MAINTENANCE_REVISION_HEADROOM = 4"

definition JSON_SAFE_INTEGER_MAX :: u64 where
  "JSON_SAFE_INTEGER_MAX = 9007199254740991"

section \<open>The machine\<close>

datatype maintenance_machine_state = MS_Idle | MS_Journal journal_phase

datatype maintenance_machine_input =
    MI_Begin
  | MI_InstallingIntent
  | MI_Relaunching
  | MI_Cancel
  | MI_RuntimeRetired
  | MI_Startup
  | MI_Complete
  | MI_Fail

text \<open>The machine emits no effects: their type is empty in the code, and \<open>unit\<close> here.\<close>

fun maintenance_reduce ::
  "maintenance_machine_state \<Rightarrow> maintenance_machine_input
     \<Rightarrow> (maintenance_machine_state, unit, maintenance_error) transition" where
  "maintenance_reduce MS_Idle MI_Begin = T_Accepted (MS_Journal JP_PreparingMaintenance)"
| "maintenance_reduce MS_Idle MI_Startup = T_Unchanged"
| "maintenance_reduce MS_Idle MI_RuntimeRetired = T_Unchanged"
| "maintenance_reduce MS_Idle _ = T_Rejected ME_OperationMismatch"
| "maintenance_reduce (MS_Journal JP_PreparingMaintenance) MI_InstallingIntent =
     T_Committed (MS_Journal JP_InstallingIntent)"
| "maintenance_reduce (MS_Journal JP_PreparingMaintenance) MI_Cancel = T_Cancelled (MS_Journal JP_Cancelled)"
| "maintenance_reduce (MS_Journal JP_PreparingMaintenance) MI_Startup = T_Cancelled (MS_Journal JP_Cancelled)"
| "maintenance_reduce (MS_Journal JP_PreparingMaintenance) MI_Fail = T_Failed (MS_Journal JP_Failed)"
| "maintenance_reduce (MS_Journal JP_PreparingMaintenance) MI_RuntimeRetired =
     T_Cancelled (MS_Journal JP_Cancelled)"
| "maintenance_reduce (MS_Journal JP_PreparingMaintenance) _ = T_Rejected ME_OperationMismatch"
| "maintenance_reduce (MS_Journal JP_InstallingIntent) MI_InstallingIntent = T_Unchanged"
| "maintenance_reduce (MS_Journal JP_InstallingIntent) MI_Relaunching = T_Committed (MS_Journal JP_Relaunching)"
| "maintenance_reduce (MS_Journal JP_InstallingIntent) MI_Startup = T_RecoveryRequired (MS_Journal JP_Recovering)"
| "maintenance_reduce (MS_Journal JP_InstallingIntent) MI_RuntimeRetired =
     T_RecoveryRequired (MS_Journal JP_Recovering)"
| "maintenance_reduce (MS_Journal JP_Relaunching) MI_Relaunching = T_Unchanged"
| "maintenance_reduce (MS_Journal JP_Relaunching) MI_Startup = T_RecoveryRequired (MS_Journal JP_Recovering)"
| "maintenance_reduce (MS_Journal JP_Relaunching) MI_RuntimeRetired = T_RecoveryRequired (MS_Journal JP_Recovering)"
| "maintenance_reduce (MS_Journal JP_Recovering) MI_RuntimeRetired = T_Unchanged"
| "maintenance_reduce (MS_Journal JP_Recovering) MI_Startup = T_Unchanged"
| "maintenance_reduce (MS_Journal JP_Recovering) MI_Complete = T_Committed (MS_Journal JP_Completed)"
| "maintenance_reduce (MS_Journal JP_Recovering) MI_Fail = T_Failed (MS_Journal JP_Failed)"
| "maintenance_reduce (MS_Journal JP_Completed) MI_Startup = T_Unchanged"
| "maintenance_reduce (MS_Journal JP_Completed) MI_RuntimeRetired = T_Unchanged"
| "maintenance_reduce (MS_Journal JP_Failed) MI_Startup = T_Unchanged"
| "maintenance_reduce (MS_Journal JP_Failed) MI_RuntimeRetired = T_Unchanged"
| "maintenance_reduce (MS_Journal JP_Cancelled) MI_Startup = T_Unchanged"
| "maintenance_reduce (MS_Journal JP_Cancelled) MI_RuntimeRetired = T_Unchanged"
| "maintenance_reduce (MS_Journal _) MI_Cancel = T_Rejected ME_TooLateToCancel"
| "maintenance_reduce (MS_Journal _) _ = T_Rejected ME_OperationMismatch"

definition phase_of :: "maintenance_machine_state \<Rightarrow> journal_phase option" where
  "phase_of state = (case state of MS_Idle \<Rightarrow> None | MS_Journal phase \<Rightarrow> Some phase)"

definition reduce_maintenance_phase ::
  "journal_phase option \<Rightarrow> maintenance_machine_input \<Rightarrow> maintenance_error + journal_phase option" where
  "reduce_maintenance_phase phase input =
     (let state = (case phase of None \<Rightarrow> MS_Idle | Some p \<Rightarrow> MS_Journal p)
      in case maintenance_reduce state input of
           T_Accepted n \<Rightarrow> Inr (phase_of n)
         | T_Committed n \<Rightarrow> Inr (phase_of n)
         | T_Cancelled n \<Rightarrow> Inr (phase_of n)
         | T_Failed n \<Rightarrow> Inr (phase_of n)
         | T_RecoveryRequired n \<Rightarrow> Inr (phase_of n)
         | T_Unchanged \<Rightarrow> Inr phase
         | T_Retired \<Rightarrow> Inr phase
         | T_Rejected err \<Rightarrow> Inl err
         | T_EffectEmitting _ _ \<Rightarrow> Inl ME_JournalUnsafe)"

text \<open>The reduction of a journal that exists; an idle outcome is unsafe.\<close>

definition next_phase ::
  "journal_phase option \<Rightarrow> maintenance_machine_input \<Rightarrow> maintenance_error + journal_phase" where
  "next_phase phase input =
     (case reduce_maintenance_phase phase input of
        Inl err \<Rightarrow> Inl err
      | Inr None \<Rightarrow> Inl ME_JournalUnsafe
      | Inr (Some p) \<Rightarrow> Inr p)"

section \<open>Validation\<close>

record 'v maintenance_self =
  mf_authority_sha256 :: string
  mf_observed_version :: string
  mf_parse_version :: "string \<Rightarrow> 'v option"
  mf_digest :: "string \<Rightarrow> string"

definition version_after :: "('v::linorder) option \<Rightarrow> 'v option \<Rightarrow> bool" where
  "version_after a b =
     (case (a, b) of
        (Some x, Some y) \<Rightarrow> y < x
      | (Some _, None) \<Rightarrow> True
      | (None, _) \<Rightarrow> False)"

definition is_ascii_alphanumeric :: "char \<Rightarrow> bool" where
  "is_ascii_alphanumeric c =
     (let code = (of_char c :: nat)
      in 48 \<le> code \<and> code \<le> 57 \<or> 65 \<le> code \<and> code \<le> 90 \<or> 97 \<le> code \<and> code \<le> 122)"

definition validate_operation_id :: "string \<Rightarrow> maintenance_error + unit" where
  "validate_operation_id oid =
     (if oid = [] \<or> 128 < length oid
         \<or> \<not> list_all (\<lambda>c. is_ascii_alphanumeric c \<or> c \<in> {CHR ''_'', CHR ''.'', CHR ''-''}) oid
      then Inl ME_InvalidOperationKey else Inr ())"

definition validate_version :: "'v maintenance_self \<Rightarrow> string \<Rightarrow> maintenance_error + unit" where
  "validate_version self version =
     (if version = [] \<or> 128 < length version \<or> mf_parse_version self version = None
      then Inl ME_InvalidVersion else Inr ())"

definition valid_digest :: "string \<Rightarrow> bool" where
  "valid_digest value \<longleftrightarrow>
     length value = 64
     \<and> list_all (\<lambda>c. let code = (of_char c :: nat) in 48 \<le> code \<and> code \<le> 57 \<or> 97 \<le> code \<and> code \<le> 102) value"

definition capture_evidence_valid :: "capture_intent \<Rightarrow> capture_ownership_evidence option \<Rightarrow> bool" where
  "capture_evidence_valid intent ownership =
     (case (intent, ownership) of
        (CI_None, None) \<Rightarrow> True
      | (CI_RestorePriorCapture, Some evidence) \<Rightarrow> valid_digest (oe_authority_sha256 evidence)
      | _ \<Rightarrow> False)"

definition validate_request ::
  "('v::linorder) maintenance_self \<Rightarrow> maintenance_request \<Rightarrow> maintenance_error + unit" where
  "validate_request self request =
     (case validate_operation_id (mq_operation_id request) of
        Inl err \<Rightarrow> Inl err
      | Inr _ \<Rightarrow>
          (case validate_version self (mq_current_version request) of
             Inl err \<Rightarrow> Inl err
           | Inr _ \<Rightarrow>
               (case validate_version self (mq_expected_version request) of
                  Inl err \<Rightarrow> Inl err
                | Inr _ \<Rightarrow>
                    if JSON_SAFE_INTEGER_MAX - MAINTENANCE_REVISION_HEADROOM < mq_admitted_revision request
                    then Inl ME_RevisionExhausted
                    else if \<not> version_after (mf_parse_version self (mq_expected_version request))
                                (mf_parse_version self (mq_current_version request))
                    then Inl ME_InvalidVersion
                    else if capture_evidence_valid (mq_capture_intent request) (mq_capture_ownership request)
                    then Inr () else Inl ME_InvalidCaptureOwnership)))"

definition revision_offset :: "journal_record \<Rightarrow> u64 option" where
  "revision_offset r = checked_sub (jr_revision r) (jr_admitted_revision r)"

definition valid_phase_revision :: "journal_record \<Rightarrow> bool" where
  "valid_phase_revision r =
     (case revision_offset r of
        None \<Rightarrow> False
      | Some offset \<Rightarrow>
          (case jr_phase r of
             JP_PreparingMaintenance \<Rightarrow> offset = 0
           | JP_InstallingIntent \<Rightarrow> offset = 1
           | JP_Relaunching \<Rightarrow> offset = 2
           | JP_Recovering \<Rightarrow> offset = 2 \<or> offset = 3
           | JP_Completed \<Rightarrow> offset = 3 \<or> offset = 4
           | JP_Failed \<Rightarrow> offset = 1 \<or> offset = 3 \<or> offset = 4
           | JP_Cancelled \<Rightarrow> offset = 1))"

definition valid_phase_ownership :: "journal_record \<Rightarrow> bool" where
  "valid_phase_ownership r =
     (let has_recovery_authority = (jr_recovery_authority r \<noteq> None)
      in case jr_phase r of
           JP_PreparingMaintenance \<Rightarrow> \<not> has_recovery_authority
         | JP_InstallingIntent \<Rightarrow> \<not> has_recovery_authority
         | JP_Relaunching \<Rightarrow> \<not> has_recovery_authority
         | JP_Cancelled \<Rightarrow> \<not> has_recovery_authority
         | JP_Recovering \<Rightarrow> has_recovery_authority
         | JP_Completed \<Rightarrow> has_recovery_authority
         | JP_Failed \<Rightarrow> (revision_offset r = Some 1) \<noteq> has_recovery_authority)"

definition validate_record :: "('v::linorder) maintenance_self \<Rightarrow> journal_record \<Rightarrow> bool" where
  "validate_record self r \<longleftrightarrow>
     jr_schema_version r = JOURNAL_SCHEMA_VERSION
     \<and> jr_admitted_revision r \<le> JSON_SAFE_INTEGER_MAX - MAINTENANCE_REVISION_HEADROOM
     \<and> valid_phase_revision r \<and> valid_phase_ownership r
     \<and> validate_operation_id (jr_operation_id r) = Inr ()
     \<and> valid_digest (jr_machine_authority r)
     \<and> (case jr_recovery_authority r of None \<Rightarrow> True | Some authority \<Rightarrow> valid_digest authority)
     \<and> validate_version self (jr_previous_version r) = Inr ()
     \<and> validate_version self (jr_expected_version r) = Inr ()
     \<and> version_after (mf_parse_version self (jr_expected_version r)) (mf_parse_version self (jr_previous_version r))
     \<and> capture_evidence_valid (jr_capture_intent r) (jr_capture_ownership r)"

definition advance_revision :: "journal_record \<Rightarrow> maintenance_error + journal_record" where
  "advance_revision r =
     (case checked_add (jr_revision r) 1 of
        None \<Rightarrow> Inl ME_JournalUnsafe
      | Some revision \<Rightarrow> Inr (r\<lparr>jr_revision := revision\<rparr>))"

section \<open>The journal store\<close>

datatype loaded_journal = LJ_Absent | LJ_Corrupt | LJ_Incompatible | LJ_Valid journal_record

text \<open>
  Each access to the file system meets the next fault of the environment, none once the list is used up: it
  fails before it takes effect, or after, when only the synchronisation of the directory is left.
\<close>

datatype fault = No_Fault | Fails_Before maintenance_error | Fails_After maintenance_error

record maintenance_evidence =
  ev_sequence :: u64
  ev_admitted_revision :: "u64 option"
  ev_operation_id_sha256 :: "string option"
  ev_from :: string
  ev_input :: string
  ev_to :: string
  ev_disposition :: string

text \<open>
  \<open>mt_file\<close> lists every content the journal file has had since the process found it, the present one last.
\<close>

record maintenance_state =
  mt_phase :: "journal_phase option"
  mt_operation_id :: "string option"
  mt_revision :: u64
  mt_terminal_reason :: "string option"
  mt_snapshot :: "maintenance_snapshot option"
  mt_evidence :: "maintenance_evidence list"
  mt_file :: "loaded_journal list"
  mt_faults :: "fault list"

text \<open>The present content of the file.\<close>

abbreviation mt_journal :: "maintenance_state \<Rightarrow> loaded_journal" where
  "mt_journal s \<equiv> last (mt_file s)"

type_synonym 'a maintained = "(maintenance_state, maintenance_error + 'a) state"

definition attempt :: "'a maintained \<Rightarrow> ('a \<Rightarrow> 'b maintained) \<Rightarrow> 'b maintained" where
  "attempt f g = State_Monad.bind f (\<lambda>r. case r of Inl err \<Rightarrow> State_Monad.return (Inl err) | Inr v \<Rightarrow> g v)"

definition raise :: "maintenance_error \<Rightarrow> 'a maintained" where
  "raise err = State_Monad.return (Inl err)"

definition succeed :: "'a \<Rightarrow> 'a maintained" where
  "succeed v = State_Monad.return (Inr v)"

definition next_fault :: "(maintenance_state, fault) state" where
  "next_fault =
     do { s \<leftarrow> State_Monad.get;
          case mt_faults s of
            [] \<Rightarrow> State_Monad.return No_Fault
          | f # fs \<Rightarrow> do { State_Monad.update (\<lambda>s. s\<lparr>mt_faults := fs\<rparr>); State_Monad.return f } }"

text \<open>An access that leaves the file as it is, and one that replaces or removes it.\<close>

definition file_access :: "unit maintained" where
  "file_access =
     do { fault \<leftarrow> next_fault;
          case fault of
            Fails_Before err \<Rightarrow> raise err
          | Fails_After err \<Rightarrow> raise err
          | No_Fault \<Rightarrow> succeed () }"

definition file_write :: "loaded_journal \<Rightarrow> unit maintained" where
  "file_write content =
     do { fault \<leftarrow> next_fault;
          case fault of
            Fails_Before err \<Rightarrow> raise err
          | Fails_After err \<Rightarrow>
              do { State_Monad.update (\<lambda>s. s\<lparr>mt_file := mt_file s @ [content]\<rparr>); raise err }
          | No_Fault \<Rightarrow>
              do { State_Monad.update (\<lambda>s. s\<lparr>mt_file := mt_file s @ [content]\<rparr>); succeed () } }"

definition load_for_reconciliation :: "loaded_journal maintained" where
  "load_for_reconciliation =
     attempt file_access (\<lambda>_. do { s \<leftarrow> State_Monad.get; succeed (mt_journal s) })"

definition read_record :: "journal_record option maintained" where
  "read_record =
     attempt load_for_reconciliation (\<lambda>loaded.
       case loaded of
         LJ_Absent \<Rightarrow> succeed None
       | LJ_Valid r \<Rightarrow> succeed (Some r)
       | LJ_Corrupt \<Rightarrow> raise ME_JournalUnsafe
       | LJ_Incompatible \<Rightarrow> raise ME_JournalUnsafe)"

text \<open>
  The code also refuses to write more than 4096 bytes; a validated record is shorter, for its operation id and its
  versions have at most 128 bytes each and its digests 64.
\<close>

definition write_record :: "('v::linorder) maintenance_self \<Rightarrow> journal_record \<Rightarrow> unit maintained" where
  "write_record self r =
     (if \<not> validate_record self r then raise ME_JournalUnsafe
      else file_write (LJ_Valid r))"

definition sync_directory :: "unit maintained" where
  "sync_directory = file_access"

definition expect_record :: "journal_record \<Rightarrow> unit maintained" where
  "expect_record expected =
     attempt read_record (\<lambda>current.
       case current of
         None \<Rightarrow> raise ME_OperationMismatch
       | Some r \<Rightarrow> if r \<noteq> expected then raise ME_OperationMismatch else succeed ())"

definition reconfirm_record_durability :: "journal_record \<Rightarrow> unit maintained" where
  "reconfirm_record_durability expected = attempt (expect_record expected) (\<lambda>_. sync_directory)"

definition clear_owned :: "journal_record \<Rightarrow> unit maintained" where
  "clear_owned expected = attempt (expect_record expected) (\<lambda>_. file_write LJ_Absent)"

section \<open>The authority\<close>

definition idle_snapshot :: "string \<Rightarrow> maintenance_snapshot" where
  "idle_snapshot version =
     \<lparr>ms_reconciliation = MR_None, ms_capture_intent = None, ms_expected_version = None,
      ms_observed_version = version, ms_automatic_activation_allowed = True\<rparr>"

text \<open>\<^verbatim>\<open>MaintenanceRuntimeState::idle\<close>, over the journal a process finds.\<close>

definition runtime_idle :: "string \<Rightarrow> loaded_journal \<Rightarrow> fault list \<Rightarrow> maintenance_state" where
  "runtime_idle version journal faults =
     \<lparr>mt_phase = None, mt_operation_id = None, mt_revision = 0, mt_terminal_reason = None,
      mt_snapshot = Some (idle_snapshot version), mt_evidence = [], mt_file = [journal], mt_faults = faults\<rparr>"

definition snapshot_for ::
  "'v maintenance_self \<Rightarrow> journal_record \<Rightarrow> maintenance_reconciliation \<Rightarrow> bool \<Rightarrow> maintenance_snapshot" where
  "snapshot_for self r reconciliation allowed =
     \<lparr>ms_reconciliation = reconciliation, ms_capture_intent = Some (jr_capture_intent r),
      ms_expected_version = Some (jr_expected_version r), ms_observed_version = mf_observed_version self,
      ms_automatic_activation_allowed = allowed\<rparr>"

definition label_or_idle :: "journal_phase option \<Rightarrow> string" where
  "label_or_idle phase = (case phase of None \<Rightarrow> ''idle'' | Some p \<Rightarrow> phase_label p)"

definition add_evidence ::
  "'v maintenance_self \<Rightarrow> journal_phase option \<Rightarrow> string \<Rightarrow> journal_phase option \<Rightarrow> string
     \<Rightarrow> journal_record option \<Rightarrow> maintenance_evidence list \<Rightarrow> maintenance_evidence list" where
  "add_evidence self from input to disposition r evidence =
     (let kept = (if length evidence = EVIDENCE_LIMIT then tl evidence else evidence);
          sequence = (if kept = [] then 1 else saturating_add (ev_sequence (last kept)) 1)
      in kept @ [\<lparr>ev_sequence = sequence, ev_admitted_revision = map_option jr_admitted_revision r,
                  ev_operation_id_sha256 = map_option (\<lambda>r. mf_digest self (jr_operation_id r)) r,
                  ev_from = label_or_idle from, ev_input = input, ev_to = label_or_idle to,
                  ev_disposition = disposition\<rparr>])"

definition record_evidence ::
  "'v maintenance_self \<Rightarrow> journal_phase option \<Rightarrow> string \<Rightarrow> journal_phase option \<Rightarrow> string
     \<Rightarrow> journal_record option \<Rightarrow> (maintenance_state, unit) state" where
  "record_evidence self from input to disposition r =
     State_Monad.update (\<lambda>s. s\<lparr>mt_evidence := add_evidence self from input to disposition r (mt_evidence s)\<rparr>)"

text \<open>The runtime state after a record has been written or confirmed, with the terminal reason it gets.\<close>

definition take_record ::
  "'v maintenance_self \<Rightarrow> journal_record \<Rightarrow> string option \<Rightarrow> maintenance_reconciliation \<Rightarrow> bool
     \<Rightarrow> (maintenance_state, unit) state" where
  "take_record self r reason reconciliation allowed =
     State_Monad.update (\<lambda>s. s\<lparr>mt_phase := Some (jr_phase r), mt_operation_id := Some (jr_operation_id r),
       mt_revision := jr_revision r, mt_terminal_reason := reason,
       mt_snapshot := Some (snapshot_for self r reconciliation allowed)\<rparr>)"

definition owns_record :: "'v maintenance_self \<Rightarrow> journal_record \<Rightarrow> bool" where
  "owns_record self r =
     (if jr_phase r = JP_Recovering \<or> jr_recovery_authority r \<noteq> None
      then jr_recovery_authority r = Some (mf_authority_sha256 self)
      else jr_machine_authority r = mf_authority_sha256 self)"

definition owned_record_for_operation :: "'v maintenance_self \<Rightarrow> string \<Rightarrow> journal_record maintained" where
  "owned_record_for_operation self oid =
     attempt read_record (\<lambda>current.
       case current of
         None \<Rightarrow> raise ME_OperationMismatch
       | Some r \<Rightarrow>
           if jr_operation_id r \<noteq> oid \<or> \<not> owns_record self r then raise ME_OperationMismatch else succeed r)"

definition owned_record :: "'v maintenance_self \<Rightarrow> string \<Rightarrow> u64 \<Rightarrow> journal_record maintained" where
  "owned_record self oid expected_revision =
     attempt (owned_record_for_operation self oid) (\<lambda>r.
       if jr_revision r \<noteq> expected_revision then raise ME_StaleRevision else succeed r)"

definition owns_terminal :: "'v maintenance_self \<Rightarrow> journal_phase \<Rightarrow> journal_record \<Rightarrow> bool" where
  "owns_terminal self terminal r =
     (case terminal of
        JP_Cancelled \<Rightarrow> jr_machine_authority r = mf_authority_sha256 self
      | JP_Completed \<Rightarrow> jr_recovery_authority r = Some (mf_authority_sha256 self)
      | JP_Failed \<Rightarrow>
          (case jr_recovery_authority r of
             None \<Rightarrow> jr_machine_authority r = mf_authority_sha256 self
           | Some authority \<Rightarrow> authority = mf_authority_sha256 self)
      | _ \<Rightarrow> False)"

definition clear_terminal_owned ::
  "'v maintenance_self \<Rightarrow> string \<Rightarrow> u64 \<Rightarrow> journal_phase \<Rightarrow> journal_record option maintained" where
  "clear_terminal_owned self oid revision terminal =
     attempt read_record (\<lambda>current.
       case current of
         None \<Rightarrow> attempt sync_directory (\<lambda>_. succeed None)
       | Some r \<Rightarrow>
           if jr_operation_id r \<noteq> oid \<or> jr_revision r \<noteq> revision \<or> jr_phase r \<noteq> terminal
              \<or> \<not> owns_terminal self terminal r
           then raise ME_OperationMismatch
           else attempt (clear_owned r) (\<lambda>_. succeed (Some r)))"

definition already_cleared :: "maintenance_state \<Rightarrow> bool" where
  "already_cleared s =
     is_some_and (mt_snapshot s)
       (\<lambda>snapshot. ms_reconciliation snapshot = MR_TerminalCleared \<and> ms_automatic_activation_allowed snapshot)"

definition finish_terminal_cleanup ::
  "'v maintenance_self \<Rightarrow> string \<Rightarrow> journal_phase \<Rightarrow> string \<Rightarrow> journal_phase option \<Rightarrow> string \<Rightarrow> u64 maintained" where
  "finish_terminal_cleanup self oid terminal input from disposition =
     do { s \<leftarrow> State_Monad.get;
          if already_cleared s
          then do { record_evidence self (mt_phase s) input (mt_phase s) ''duplicate'' None;
                    succeed (mt_revision s) }
          else do {
            result \<leftarrow> clear_terminal_owned self oid (mt_revision s) terminal;
            case result of
              Inl err \<Rightarrow>
                do { record_evidence self from input (mt_phase s) ''terminal-cleanup-pending'' None; raise err }
            | Inr cleared \<Rightarrow>
                (case mt_snapshot s of
                   None \<Rightarrow> raise ME_JournalUnsafe
                 | Some snapshot \<Rightarrow>
                     do { State_Monad.update (\<lambda>s. s\<lparr>mt_snapshot := Some (snapshot
                            \<lparr>ms_reconciliation := MR_TerminalCleared, ms_automatic_activation_allowed := True\<rparr>)\<rparr>);
                          record_evidence self from input (mt_phase s) disposition cleared;
                          succeed (mt_revision s) }) } }"

definition reconfirm_nonterminal_duplicate ::
  "'v maintenance_self \<Rightarrow> journal_record \<Rightarrow> string \<Rightarrow> u64 maintained" where
  "reconfirm_nonterminal_duplicate self r input =
     do { s \<leftarrow> State_Monad.get;
          attempt (reconfirm_record_durability r) (\<lambda>_.
            do { take_record self r None MR_UnknownOutcome False;
                 record_evidence self (mt_phase s) input (Some (jr_phase r)) ''duplicate-durability-reconfirmed'' (Some r);
                 succeed (jr_revision r) }) }"

text \<open>Advances the revision of a record, puts it in its new phase and writes it.\<close>

definition write_advanced ::
  "('v::linorder) maintenance_self \<Rightarrow> journal_record \<Rightarrow> journal_phase \<Rightarrow> (journal_record \<Rightarrow> journal_record)
     \<Rightarrow> journal_record maintained" where
  "write_advanced self r phase adapt =
     (case advance_revision r of
        Inl err \<Rightarrow> raise err
      | Inr advanced \<Rightarrow>
          let written = adapt (advanced\<lparr>jr_phase := phase\<rparr>)
          in attempt (write_record self written) (\<lambda>_. succeed written))"

definition request_record :: "'v maintenance_self \<Rightarrow> maintenance_request \<Rightarrow> journal_phase \<Rightarrow> journal_record" where
  "request_record self request phase =
     \<lparr>jr_schema_version = JOURNAL_SCHEMA_VERSION, jr_revision = mq_admitted_revision request,
      jr_operation_id = mq_operation_id request, jr_admitted_revision = mq_admitted_revision request,
      jr_machine_authority = mf_authority_sha256 self, jr_recovery_authority = None,
      jr_previous_version = mq_current_version request, jr_expected_version = mq_expected_version request,
      jr_capture_intent = mq_capture_intent request, jr_capture_ownership = mq_capture_ownership request,
      jr_phase = phase\<rparr>"

definition duplicates_request :: "'v maintenance_self \<Rightarrow> maintenance_request \<Rightarrow> journal_record \<Rightarrow> bool" where
  "duplicates_request self request current \<longleftrightarrow>
     jr_operation_id current = mq_operation_id request
     \<and> jr_admitted_revision current = mq_admitted_revision request
     \<and> jr_machine_authority current = mf_authority_sha256 self
     \<and> jr_previous_version current = mq_current_version request
     \<and> jr_expected_version current = mq_expected_version request
     \<and> jr_capture_intent current = mq_capture_intent request
     \<and> jr_capture_ownership current = mq_capture_ownership request
     \<and> jr_phase current = JP_PreparingMaintenance"

definition begin_maintenance ::
  "('v::linorder) maintenance_self \<Rightarrow> maintenance_request \<Rightarrow> u64 maintained" where
  "begin_maintenance self request =
     (case validate_request self request of
        Inl err \<Rightarrow> raise err
      | Inr _ \<Rightarrow>
          if mq_current_version request \<noteq> mf_observed_version self then raise ME_InvalidVersion
          else do {
            s \<leftarrow> State_Monad.get;
            attempt read_record (\<lambda>current.
              case current of
                Some r \<Rightarrow>
                  if duplicates_request self request r
                  then attempt (reconfirm_record_durability r) (\<lambda>_.
                    do { take_record self r None MR_None False;
                         record_evidence self (mt_phase s) ''begin'' (Some (jr_phase r))
                           ''duplicate-durability-reconfirmed'' (Some r);
                         succeed (jr_revision r) })
                  else raise ME_Busy
              | None \<Rightarrow>
                  if mq_admitted_revision request \<le> mt_revision s then raise ME_StaleRevision
                  else case next_phase None MI_Begin of
                    Inl err \<Rightarrow> raise err
                  | Inr phase \<Rightarrow>
                      let r = request_record self request phase
                      in attempt (write_record self r) (\<lambda>_.
                           do { take_record self r None MR_None False;
                                record_evidence self (mt_phase s) ''begin'' (Some (jr_phase r)) ''applied'' (Some r);
                                succeed (jr_revision r) })) })"

definition transition_to ::
  "('v::linorder) maintenance_self \<Rightarrow> string \<Rightarrow> u64 \<Rightarrow> maintenance_machine_input \<Rightarrow> string \<Rightarrow> u64 maintained" where
  "transition_to self oid expected_revision machine_input input =
     do { s \<leftarrow> State_Monad.get;
          attempt (owned_record_for_operation self oid) (\<lambda>r.
            case (case machine_input of
                    MI_InstallingIntent \<Rightarrow> Some JP_InstallingIntent
                  | MI_Relaunching \<Rightarrow> Some JP_Relaunching
                  | _ \<Rightarrow> None) of
              None \<Rightarrow> raise ME_JournalUnsafe
            | Some duplicate_phase \<Rightarrow>
                if jr_phase r = duplicate_phase \<and> checked_add expected_revision 1 = Some (jr_revision r)
                then reconfirm_nonterminal_duplicate self r input
                else if jr_revision r \<noteq> expected_revision then raise ME_StaleRevision
                else case next_phase (Some (jr_phase r)) machine_input of
                  Inl err \<Rightarrow> raise err
                | Inr phase \<Rightarrow>
                    if jr_phase r = phase then reconfirm_nonterminal_duplicate self r input
                    else attempt (write_advanced self r phase id) (\<lambda>written.
                      do { take_record self written None MR_UnknownOutcome False;
                           record_evidence self (mt_phase s) input (Some (jr_phase written)) ''applied'' (Some written);
                           succeed (jr_revision written) })) }"

definition mark_installing_intent :: "('v::linorder) maintenance_self \<Rightarrow> string \<Rightarrow> u64 \<Rightarrow> u64 maintained" where
  "mark_installing_intent self oid expected_revision =
     transition_to self oid expected_revision MI_InstallingIntent ''installing-intent-committed''"

definition mark_relaunching :: "('v::linorder) maintenance_self \<Rightarrow> string \<Rightarrow> u64 \<Rightarrow> u64 maintained" where
  "mark_relaunching self oid expected_revision =
     transition_to self oid expected_revision MI_Relaunching ''relaunching-committed''"

text \<open>The tuple \<^verbatim>\<open>finish_preparation\<close> derives from the terminal phase.\<close>

definition preparation_terminal ::
  "journal_phase \<Rightarrow> (maintenance_machine_input \<times> string \<times> string \<times> string) option" where
  "preparation_terminal terminal =
     (case terminal of
        JP_Cancelled \<Rightarrow> Some (MI_Cancel, ''cancel'', ''cancelled'', ''cancel-too-late'')
      | JP_Failed \<Rightarrow> Some (MI_Fail, ''fail-preparation'', ''preparation-failed'', ''preparation-failure-rejected'')
      | _ \<Rightarrow> None)"

definition terminal_cleanup_due ::
  "string \<Rightarrow> u64 \<Rightarrow> journal_phase \<Rightarrow> string option \<Rightarrow> maintenance_state \<Rightarrow> bool" where
  "terminal_cleanup_due oid expected_revision terminal reason s \<longleftrightarrow>
     mt_phase s = Some terminal \<and> mt_operation_id s = Some oid \<and> mt_terminal_reason s = reason
     \<and> checked_add expected_revision 1 = Some (mt_revision s)"

definition finish_preparation ::
  "('v::linorder) maintenance_self \<Rightarrow> string \<Rightarrow> u64 \<Rightarrow> journal_phase \<Rightarrow> u64 maintained" where
  "finish_preparation self oid expected_revision terminal =
     (case preparation_terminal terminal of
        None \<Rightarrow> raise ME_JournalUnsafe
      | Some (machine_input, input, reason, rejected_disposition) \<Rightarrow>
          do { s \<leftarrow> State_Monad.get;
               if terminal_cleanup_due oid expected_revision terminal (Some reason) s
               then finish_terminal_cleanup self oid terminal input (mt_phase s) ''cleanup-retried''
               else attempt read_record (\<lambda>current.
                 case (case current of
                         Some r \<Rightarrow>
                           if jr_operation_id r = oid \<and> jr_machine_authority r = mf_authority_sha256 self
                              \<and> jr_recovery_authority r = None \<and> jr_phase r = terminal
                              \<and> checked_add expected_revision 1 = Some (jr_revision r)
                           then Some r else None
                       | None \<Rightarrow> None) of
                   Some r \<Rightarrow>
                     attempt (reconfirm_record_durability r) (\<lambda>_.
                       do { take_record self r (Some reason) MR_UnknownOutcome False;
                            finish_terminal_cleanup self oid terminal input (mt_phase s) ''cleanup-retried'' })
                 | None \<Rightarrow>
                     attempt (owned_record self oid expected_revision) (\<lambda>r.
                       case reduce_maintenance_phase (Some (jr_phase r)) machine_input of
                         Inl err \<Rightarrow>
                           do { record_evidence self (mt_phase s) input (mt_phase s) rejected_disposition (Some r);
                                raise err }
                       | Inr None \<Rightarrow> raise ME_JournalUnsafe
                       | Inr (Some phase) \<Rightarrow>
                           if phase = jr_phase r
                           then do { record_evidence self (mt_phase s) input (mt_phase s) ''duplicate'' (Some r);
                                     succeed (jr_revision r) }
                           else attempt (write_advanced self r phase id) (\<lambda>written.
                             do { take_record self written (Some reason) MR_UnknownOutcome False;
                                  finish_terminal_cleanup self oid terminal input (mt_phase s) ''applied'' }))) })"

definition cancel_maintenance :: "('v::linorder) maintenance_self \<Rightarrow> string \<Rightarrow> u64 \<Rightarrow> u64 maintained" where
  "cancel_maintenance self oid expected_revision = finish_preparation self oid expected_revision JP_Cancelled"

definition fail_preparation :: "('v::linorder) maintenance_self \<Rightarrow> string \<Rightarrow> u64 \<Rightarrow> u64 maintained" where
  "fail_preparation self oid expected_revision = finish_preparation self oid expected_revision JP_Failed"

definition recovery_reason :: "journal_phase \<Rightarrow> string option" where
  "recovery_reason terminal = (if terminal = JP_Failed then Some ''failed'' else None)"

definition finish_recovery ::
  "('v::linorder) maintenance_self \<Rightarrow> string \<Rightarrow> u64 \<Rightarrow> journal_phase \<Rightarrow> string \<Rightarrow> u64 maintained" where
  "finish_recovery self oid expected_revision terminal input =
     do { s \<leftarrow> State_Monad.get;
          if terminal \<in> {JP_Completed, JP_Failed}
             \<and> terminal_cleanup_due oid expected_revision terminal (recovery_reason terminal) s
          then finish_terminal_cleanup self oid terminal input (mt_phase s) ''cleanup-retried''
          else attempt read_record (\<lambda>current.
            case (case current of
                    Some r \<Rightarrow>
                      if jr_operation_id r = oid \<and> jr_recovery_authority r = Some (mf_authority_sha256 self)
                         \<and> jr_phase r = terminal \<and> checked_add expected_revision 1 = Some (jr_revision r)
                      then Some r else None
                  | None \<Rightarrow> None) of
              Some r \<Rightarrow>
                attempt (reconfirm_record_durability r) (\<lambda>_.
                  do { take_record self r (recovery_reason terminal) MR_UnknownOutcome False;
                       finish_terminal_cleanup self oid terminal input (mt_phase s) ''cleanup-retried'' })
            | None \<Rightarrow>
                attempt (owned_record self oid expected_revision) (\<lambda>r.
                  case next_phase (Some (jr_phase r)) (if terminal = JP_Completed then MI_Complete else MI_Fail) of
                    Inl err \<Rightarrow> raise err
                  | Inr phase \<Rightarrow>
                      attempt (write_advanced self r phase id) (\<lambda>written.
                        do { take_record self written (recovery_reason terminal) MR_UnknownOutcome False;
                             finish_terminal_cleanup self oid terminal input (mt_phase s) ''applied'' }))) }"

definition complete_recovery :: "('v::linorder) maintenance_self \<Rightarrow> string \<Rightarrow> u64 \<Rightarrow> u64 maintained" where
  "complete_recovery self oid expected_revision =
     finish_recovery self oid expected_revision JP_Completed ''completed''"

definition fail_recovery :: "('v::linorder) maintenance_self \<Rightarrow> string \<Rightarrow> u64 \<Rightarrow> u64 maintained" where
  "fail_recovery self oid expected_revision = finish_recovery self oid expected_revision JP_Failed ''failed''"

text \<open>A record taken by a recovering process; the operation id in the runtime state stays.\<close>

definition take_recovery ::
  "'v maintenance_self \<Rightarrow> journal_record \<Rightarrow> maintenance_reconciliation \<Rightarrow> (maintenance_state, unit) state" where
  "take_recovery self r reconciliation =
     State_Monad.update (\<lambda>s. s\<lparr>mt_phase := Some (jr_phase r), mt_revision := jr_revision r,
       mt_terminal_reason := None, mt_snapshot := Some (snapshot_for self r reconciliation False)\<rparr>)"

definition recovered_by :: "'v maintenance_self \<Rightarrow> journal_record \<Rightarrow> journal_record" where
  "recovered_by self r = r\<lparr>jr_recovery_authority := Some (mf_authority_sha256 self)\<rparr>"

definition transition_any_unknown_outcome ::
  "('v::linorder) maintenance_self \<Rightarrow> string \<Rightarrow> u64 \<Rightarrow> u64 maintained" where
  "transition_any_unknown_outcome self oid expected_revision =
     do { s \<leftarrow> State_Monad.get;
          attempt (owned_record self oid expected_revision) (\<lambda>r.
            case next_phase (Some (jr_phase r)) MI_RuntimeRetired of
              Inl err \<Rightarrow> raise err
            | Inr phase \<Rightarrow>
                if jr_phase r = phase then reconfirm_nonterminal_duplicate self r ''runtime-retired''
                else attempt (write_advanced self r phase (recovered_by self)) (\<lambda>written.
                  do { take_recovery self written MR_UnknownOutcome;
                       record_evidence self (mt_phase s) ''runtime-retired'' (Some (jr_phase written))
                         ''recovery-required'' (Some written);
                       succeed (jr_revision written) })) }"

definition retire_runtime :: "('v::linorder) maintenance_self \<Rightarrow> unit maintained" where
  "retire_runtime self =
     attempt read_record (\<lambda>current.
       case current of
         None \<Rightarrow> succeed ()
       | Some r \<Rightarrow>
           if \<not> owns_record self r
           then do { s \<leftarrow> State_Monad.get;
                     record_evidence self (mt_phase s) ''runtime-retired'' (mt_phase s)
                       ''foreign-operation-retained'' (Some r);
                     succeed () }
           else if jr_phase r = JP_PreparingMaintenance
           then attempt (cancel_maintenance self (jr_operation_id r) (jr_revision r)) (\<lambda>_. succeed ())
           else if jr_phase r \<in> {JP_InstallingIntent, JP_Relaunching, JP_Recovering}
           then attempt (transition_any_unknown_outcome self (jr_operation_id r) (jr_revision r)) (\<lambda>_. succeed ())
           else succeed ())"

definition automatic_activation_allowed :: "maintenance_state \<Rightarrow> bool" where
  "automatic_activation_allowed s =
     (case mt_snapshot s of None \<Rightarrow> True | Some snapshot \<Rightarrow> ms_automatic_activation_allowed snapshot)"

definition fail_closed ::
  "'v maintenance_self \<Rightarrow> string \<Rightarrow> maintenance_reconciliation \<Rightarrow> string \<Rightarrow> unit maintained" where
  "fail_closed self reason reconciliation disposition =
     do { State_Monad.update (\<lambda>s. s\<lparr>mt_phase := Some JP_Failed, mt_terminal_reason := Some reason,
            mt_snapshot := Some \<lparr>ms_reconciliation = reconciliation, ms_capture_intent = None,
              ms_expected_version = None, ms_observed_version = mf_observed_version self,
              ms_automatic_activation_allowed = False\<rparr>\<rparr>);
          record_evidence self None ''startup'' (Some JP_Failed) disposition None;
          succeed () }"

definition version_reconciliation :: "'v maintenance_self \<Rightarrow> journal_record \<Rightarrow> maintenance_reconciliation" where
  "version_reconciliation self r =
     (if mf_observed_version self = jr_expected_version r then MR_ExpectedVersion
      else if mf_observed_version self = jr_previous_version r then MR_OldVersion
      else MR_UnexpectedVersion)"

definition terminal_reason_of :: "journal_phase \<Rightarrow> string option" where
  "terminal_reason_of phase =
     (case phase of JP_Failed \<Rightarrow> Some ''failed'' | JP_Cancelled \<Rightarrow> Some ''cancelled'' | _ \<Rightarrow> None)"

definition startup_preparing :: "('v::linorder) maintenance_self \<Rightarrow> journal_record \<Rightarrow> unit maintained" where
  "startup_preparing self r =
     (case next_phase (Some (jr_phase r)) MI_Startup of
        Inl err \<Rightarrow> raise err
      | Inr phase \<Rightarrow>
          attempt (write_advanced self r phase id) (\<lambda>written.
            attempt (clear_owned written) (\<lambda>_.
              do { take_record self written (Some ''pre-install-aborted'') MR_PreInstallAborted True;
                   record_evidence self (Some (jr_phase r)) ''startup'' (Some (jr_phase written))
                     ''pre-install-aborted'' (Some written);
                   succeed () })))"

definition startup_uncertain :: "('v::linorder) maintenance_self \<Rightarrow> journal_record \<Rightarrow> unit maintained" where
  "startup_uncertain self r =
     (case next_phase (Some (jr_phase r)) MI_Startup of
        Inl err \<Rightarrow> raise err
      | Inr phase \<Rightarrow>
          (case (if phase \<noteq> jr_phase r then advance_revision r else Inr r) of
             Inl err \<Rightarrow> raise err
           | Inr advanced \<Rightarrow>
               let written = recovered_by self (advanced\<lparr>jr_phase := phase\<rparr>)
               in attempt (write_record self written) (\<lambda>_.
                    do { take_recovery self written (version_reconciliation self r);
                         record_evidence self (Some (jr_phase r)) ''startup'' (Some phase) ''recovery-required''
                           (Some written);
                         succeed () })))"

definition startup_terminal :: "('v::linorder) maintenance_self \<Rightarrow> journal_record \<Rightarrow> unit maintained" where
  "startup_terminal self r =
     (case reduce_maintenance_phase (Some (jr_phase r)) MI_Startup of
        Inl err \<Rightarrow> raise err
      | Inr _ \<Rightarrow>
          attempt (clear_owned r) (\<lambda>_.
            do { take_record self r (terminal_reason_of (jr_phase r)) MR_TerminalCleared True;
                 record_evidence self (Some (jr_phase r)) ''startup'' (Some (jr_phase r)) ''terminal-cleared'' (Some r);
                 succeed () }))"

definition reconcile_startup :: "('v::linorder) maintenance_self \<Rightarrow> unit maintained" where
  "reconcile_startup self =
     attempt load_for_reconciliation (\<lambda>loaded.
       case loaded of
         LJ_Absent \<Rightarrow>
           (case reduce_maintenance_phase None MI_Startup of
              Inl err \<Rightarrow> raise err
            | Inr _ \<Rightarrow> do { record_evidence self None ''startup'' None ''no-journal'' None; succeed () })
       | LJ_Corrupt \<Rightarrow> fail_closed self ''journal-corrupt'' MR_Corrupt ''fail-closed-corrupt''
       | LJ_Incompatible \<Rightarrow> fail_closed self ''journal-incompatible'' MR_Incompatible ''fail-closed-incompatible''
       | LJ_Valid r \<Rightarrow>
           do { State_Monad.update (\<lambda>s. s\<lparr>mt_operation_id := Some (jr_operation_id r), mt_revision := jr_revision r\<rparr>);
                (if jr_phase r = JP_PreparingMaintenance then startup_preparing self r
                 else if jr_phase r \<in> {JP_InstallingIntent, JP_Relaunching, JP_Recovering}
                 then startup_uncertain self r
                 else startup_terminal self r) })"

text \<open>
  \<^verbatim>\<open>UpdaterMaintenanceAuthority::open\<close> on the journal of the store: the outcome of the reconciliation and the
  state it leaves. Preparing the private directory meets a fault of its own.
\<close>

definition open_authority ::
  "('v::linorder) maintenance_self \<Rightarrow> loaded_journal \<Rightarrow> fault list \<Rightarrow> (maintenance_error + unit) \<times> maintenance_state" where
  "open_authority self journal faults =
     (let start = runtime_idle (mf_observed_version self) journal faults
      in case validate_version self (mf_observed_version self) of
           Inl err \<Rightarrow> (Inl err, start)
         | Inr _ \<Rightarrow> run_state (attempt sync_directory (\<lambda>_. reconcile_startup self)) start)"

end
