(* ===== verification/Maintenance_Laws.thy ===== *)
theory Maintenance_Laws
  imports Maintenance
begin

text \<open>
  What the operations of the maintenance authority keep. The abstract life of a journal is the step relation
  \<open>journal_step\<close>; \<open>upholds\<close> says of one call that it writes the file only by steps of that relation, keeps the
  gate of automatic activation and the validity of the record, and is never refused by its own validation.
\<close>

section \<open>The life of a journal\<close>

definition same_maintenance :: "journal_record \<Rightarrow> journal_record \<Rightarrow> bool" where
  "same_maintenance r r' \<longleftrightarrow>
     jr_operation_id r' = jr_operation_id r \<and> jr_admitted_revision r' = jr_admitted_revision r
     \<and> jr_machine_authority r' = jr_machine_authority r
     \<and> jr_previous_version r' = jr_previous_version r \<and> jr_expected_version r' = jr_expected_version r
     \<and> jr_capture_intent r' = jr_capture_intent r \<and> jr_capture_ownership r' = jr_capture_ownership r"

text \<open>
  A preparation is committed, cancelled or failed by its own process; a committed intent is relaunched or taken
  over for recovery, and a recovery, which only ever changes hands, is completed or failed. Only a settled
  record leaves the journal.
\<close>

fun phase_step :: "journal_phase \<Rightarrow> journal_phase \<Rightarrow> bool" where
  "phase_step JP_PreparingMaintenance p \<longleftrightarrow> p \<in> {JP_InstallingIntent, JP_Cancelled, JP_Failed}"
| "phase_step JP_InstallingIntent p \<longleftrightarrow> p \<in> {JP_Relaunching, JP_Recovering}"
| "phase_step JP_Relaunching p \<longleftrightarrow> p = JP_Recovering"
| "phase_step JP_Recovering p \<longleftrightarrow> p \<in> {JP_Completed, JP_Failed}"
| "phase_step _ p \<longleftrightarrow> False"

definition settled :: "journal_phase \<Rightarrow> bool" where
  "settled p \<longleftrightarrow> p \<in> {JP_Completed, JP_Failed, JP_Cancelled}"

inductive journal_step :: "loaded_journal \<Rightarrow> loaded_journal \<Rightarrow> bool" where
  began: "jr_phase r = JP_PreparingMaintenance \<Longrightarrow> jr_revision r = jr_admitted_revision r \<Longrightarrow>
    journal_step LJ_Absent (LJ_Valid r)"
| advanced: "same_maintenance r r' \<Longrightarrow> phase_step (jr_phase r) (jr_phase r') \<Longrightarrow>
    checked_add (jr_revision r) 1 = Some (jr_revision r') \<Longrightarrow>
    jr_recovery_authority r' = jr_recovery_authority r \<or> jr_phase r' = JP_Recovering \<Longrightarrow>
    journal_step (LJ_Valid r) (LJ_Valid r')"
| taken_over: "same_maintenance r r' \<Longrightarrow> jr_phase r = JP_Recovering \<Longrightarrow> jr_phase r' = JP_Recovering \<Longrightarrow>
    jr_revision r' = jr_revision r \<Longrightarrow> jr_recovery_authority r' \<noteq> None \<Longrightarrow>
    journal_step (LJ_Valid r) (LJ_Valid r')"
| cleared: "settled (jr_phase r) \<Longrightarrow> journal_step (LJ_Valid r) LJ_Absent"

inductive_cases journal_step_ValidE: "journal_step (LJ_Valid r) j"

text \<open>
  The contents a file has had grow by single steps of that life: each content that is written follows from
  the one it replaces.
\<close>

definition wrote :: "loaded_journal list \<Rightarrow> loaded_journal list \<Rightarrow> bool" where
  "wrote before later \<longleftrightarrow>
     (\<exists>contents. later = before @ contents \<and> successively journal_step (last before # contents))"

lemma wrote_refl [simp]: "wrote contents contents"
  by (simp add: wrote_def)

lemma wrote_one [simp]: "wrote contents (contents @ [c]) \<longleftrightarrow> journal_step (last contents) c"
  by (simp add: wrote_def)

lemma wrote_trans: "wrote a b \<Longrightarrow> wrote b c \<Longrightarrow> wrote a c"
  unfolding wrote_def
proof (elim exE conjE, goal_cases)
  case (1 xs ys)
  have "successively journal_step ((last a # xs) @ ys)"
    using 1 by (cases ys; cases "xs = []") (auto simp: successively_append_iff successively_Cons)
  then show ?case
    using 1 by (intro exI [of _ "xs @ ys"]) simp
qed

section \<open>Rules of the error monad and of the store\<close>

lemma wp_attempt [wp_rules]:
  "wp f (\<lambda>r s'. case r of Inl e \<Rightarrow> Q (Inl e) s' | Inr v \<Rightarrow> wp (g v) Q s') s \<Longrightarrow> wp (attempt f g) Q s"
  by (auto simp: attempt_def wp_def split: prod.splits sum.splits)

lemma wp_raise [wp_rules]: "Q (Inl e) s \<Longrightarrow> wp (raise e) Q s"
  by (simp add: raise_def wp_return)

lemma wp_succeed [wp_rules]: "Q (Inr v) s \<Longrightarrow> wp (succeed v) Q s"
  by (simp add: succeed_def wp_return)

definition faulty :: "maintenance_state \<Rightarrow> bool" where
  "faulty s \<longleftrightarrow> mt_faults s \<noteq> []"

definition torn :: "maintenance_state \<Rightarrow> bool" where
  "torn s \<longleftrightarrow> (\<exists>e. Fails_After e \<in> set (mt_faults s))"

definition fewer :: "fault list \<Rightarrow> maintenance_state \<Rightarrow> bool" where
  "fewer fs s \<longleftrightarrow> (fs \<noteq> [] \<longrightarrow> faulty s) \<and> ((\<exists>e. Fails_After e \<in> set fs) \<longrightarrow> torn s)"

lemma fault_frame [simp]:
  "faulty (s\<lparr>mt_phase := ph\<rparr>) = faulty s" "faulty (s\<lparr>mt_operation_id := oid\<rparr>) = faulty s"
  "faulty (s\<lparr>mt_revision := n\<rparr>) = faulty s" "faulty (s\<lparr>mt_terminal_reason := t\<rparr>) = faulty s"
  "faulty (s\<lparr>mt_snapshot := sn\<rparr>) = faulty s" "faulty (s\<lparr>mt_evidence := ev\<rparr>) = faulty s"
  "faulty (s\<lparr>mt_file := contents\<rparr>) = faulty s"
  "torn (s\<lparr>mt_phase := ph\<rparr>) = torn s" "torn (s\<lparr>mt_operation_id := oid\<rparr>) = torn s"
  "torn (s\<lparr>mt_revision := n\<rparr>) = torn s" "torn (s\<lparr>mt_terminal_reason := t\<rparr>) = torn s"
  "torn (s\<lparr>mt_snapshot := sn\<rparr>) = torn s" "torn (s\<lparr>mt_evidence := ev\<rparr>) = torn s"
  "torn (s\<lparr>mt_file := contents\<rparr>) = torn s"
  by (simp_all add: faulty_def torn_def)

lemma fewer_frame [simp]:
  "fewer fs (s\<lparr>mt_phase := ph\<rparr>) = fewer fs s" "fewer fs (s\<lparr>mt_operation_id := oid\<rparr>) = fewer fs s"
  "fewer fs (s\<lparr>mt_revision := n\<rparr>) = fewer fs s" "fewer fs (s\<lparr>mt_terminal_reason := t\<rparr>) = fewer fs s"
  "fewer fs (s\<lparr>mt_snapshot := sn\<rparr>) = fewer fs s" "fewer fs (s\<lparr>mt_evidence := ev\<rparr>) = fewer fs s"
  "fewer fs (s\<lparr>mt_file := contents\<rparr>) = fewer fs s"
  by (simp_all add: fewer_def)

lemma fewer_later:
  "fewer fs s \<Longrightarrow> faulty (s\<lparr>mt_faults := fs\<rparr>) \<Longrightarrow> faulty s"
  "fewer fs s \<Longrightarrow> torn (s\<lparr>mt_faults := fs\<rparr>) \<Longrightarrow> torn s"
  "fewer fs s \<Longrightarrow> fewer fs' (s\<lparr>mt_faults := fs\<rparr>) \<Longrightarrow> fewer fs' s"
  by (auto simp: fewer_def faulty_def torn_def)

lemma torn_faulty: "torn s \<Longrightarrow> faulty s"
  by (auto simp: faulty_def torn_def)

lemma fewer_refl [simp]: "fewer (mt_faults s) s"
  by (auto simp: fewer_def faulty_def torn_def)

lemma wp_next_fault:
  assumes "\<And>fs. fewer fs s \<Longrightarrow> Q No_Fault (s\<lparr>mt_faults := fs\<rparr>)"
    and "\<And>e fs. fewer fs s \<Longrightarrow> faulty s \<Longrightarrow> Q (Fails_Before e) (s\<lparr>mt_faults := fs\<rparr>)"
    and "\<And>e fs. fewer fs s \<Longrightarrow> torn s \<Longrightarrow> Q (Fails_After e) (s\<lparr>mt_faults := fs\<rparr>)"
  shows "wp next_fault Q s"
proof (cases "mt_faults s")
  case Nil
  then have "Q No_Fault s"
    using assms(1) [of "[]"] by (cases s) (simp add: fewer_def)
  then show ?thesis
    using Nil by (simp add: next_fault_def wp_def)
next
  case (Cons fault fs)
  then have "fewer fs s"
    by (auto simp: fewer_def faulty_def torn_def)
  then show ?thesis
    using assms(1,2,3) [of fs] Cons
    by (cases fault) (auto simp: next_fault_def wp_def State_Monad.update_def faulty_def torn_def)
qed

text \<open>An access that replaces the file, and one that leaves it as it is.\<close>

lemma wp_file_write:
  assumes "\<And>e fs. fewer fs s \<Longrightarrow> faulty s \<Longrightarrow> Q (Inl e) (s\<lparr>mt_faults := fs\<rparr>)"
    and "\<And>e fs. fewer fs s \<Longrightarrow> torn s \<Longrightarrow>
      Q (Inl e) (s\<lparr>mt_faults := fs, mt_file := mt_file s @ [c]\<rparr>)"
    and "\<And>fs. fewer fs s \<Longrightarrow> Q (Inr ()) (s\<lparr>mt_faults := fs, mt_file := mt_file s @ [c]\<rparr>)"
  shows "wp (file_write c) Q s"
  unfolding file_write_def
  by (intro wp_bind wp_next_fault) (use assms in \<open>auto intro!: wp_bind wp_update wp_raise wp_succeed\<close>)

lemma wp_file_read:
  assumes "\<And>e fs. fewer fs s \<Longrightarrow> faulty s \<Longrightarrow> Q (Inl e) (s\<lparr>mt_faults := fs\<rparr>)"
    and "\<And>fs. fewer fs s \<Longrightarrow> Q (Inr ()) (s\<lparr>mt_faults := fs\<rparr>)"
  shows "wp file_access Q s"
  unfolding file_access_def
  by (intro wp_bind wp_next_fault) (use assms in \<open>auto intro!: wp_raise wp_succeed dest: torn_faulty\<close>)

lemma wp_load_journal [wp_rules]:
  assumes "\<And>e fs. fewer fs s \<Longrightarrow> faulty s \<Longrightarrow> Q (Inl e) (s\<lparr>mt_faults := fs\<rparr>)"
    and "\<And>fs. fewer fs s \<Longrightarrow> Q (Inr (mt_journal s)) (s\<lparr>mt_faults := fs\<rparr>)"
  shows "wp load_for_reconciliation Q s"
  unfolding load_for_reconciliation_def
  by (intro wp_attempt wp_file_read) (use assms in \<open>auto intro!: wp_bind wp_get wp_succeed\<close>)

lemma wp_read_record:
  assumes "\<And>e fs. fewer fs s \<Longrightarrow> faulty s \<Longrightarrow> Q (Inl e) (s\<lparr>mt_faults := fs\<rparr>)"
    and "\<And>fs. fewer fs s \<Longrightarrow> mt_journal s \<in> {LJ_Corrupt, LJ_Incompatible} \<Longrightarrow>
      Q (Inl ME_JournalUnsafe) (s\<lparr>mt_faults := fs\<rparr>)"
    and "\<And>fs. fewer fs s \<Longrightarrow> mt_journal s = LJ_Absent \<Longrightarrow> Q (Inr None) (s\<lparr>mt_faults := fs\<rparr>)"
    and "\<And>r fs. fewer fs s \<Longrightarrow> mt_journal s = LJ_Valid r \<Longrightarrow> Q (Inr (Some r)) (s\<lparr>mt_faults := fs\<rparr>)"
  shows "wp read_record Q s"
  unfolding read_record_def
  by (intro wp_attempt wp_load_journal)
    (use assms in \<open>auto intro: wp_rules split: loaded_journal.split\<close>)

lemma wp_write_record:
  assumes "\<not> validate_record self r \<Longrightarrow> Q (Inl ME_JournalUnsafe) s"
    and "\<And>e fs. fewer fs s \<Longrightarrow> faulty s \<Longrightarrow> Q (Inl e) (s\<lparr>mt_faults := fs\<rparr>)"
    and "\<And>e fs. validate_record self r \<Longrightarrow> fewer fs s \<Longrightarrow> torn s \<Longrightarrow>
      Q (Inl e) (s\<lparr>mt_faults := fs, mt_file := mt_file s @ [LJ_Valid r]\<rparr>)"
    and "\<And>fs. validate_record self r \<Longrightarrow> fewer fs s \<Longrightarrow>
      Q (Inr ()) (s\<lparr>mt_faults := fs, mt_file := mt_file s @ [LJ_Valid r]\<rparr>)"
  shows "wp (write_record self r) Q s"
  unfolding write_record_def
  by (intro wp_if wp_raise wp_file_write) (use assms in auto)

text \<open>Comparing the journal with the record just read: it can only differ if it was changed in between.\<close>

lemma wp_expect_record:
  assumes "mt_journal s = LJ_Valid r"
    and "\<And>e fs. fewer fs s \<Longrightarrow> faulty s \<Longrightarrow> Q (Inl e) (s\<lparr>mt_faults := fs\<rparr>)"
    and "\<And>fs. fewer fs s \<Longrightarrow> Q (Inr ()) (s\<lparr>mt_faults := fs\<rparr>)"
  shows "wp (expect_record r) Q s"
  unfolding expect_record_def
  by (intro wp_attempt wp_read_record) (use assms in \<open>auto intro: wp_rules\<close>)

lemma wp_reconfirm:
  assumes "mt_journal s = LJ_Valid r"
    and "\<And>e fs. fewer fs s \<Longrightarrow> faulty s \<Longrightarrow> Q (Inl e) (s\<lparr>mt_faults := fs\<rparr>)"
    and "\<And>fs. fewer fs s \<Longrightarrow> Q (Inr ()) (s\<lparr>mt_faults := fs\<rparr>)"
  shows "wp (reconfirm_record_durability r) Q s"
  unfolding reconfirm_record_durability_def sync_directory_def
  by (intro wp_attempt wp_expect_record [OF assms(1)])
    (auto intro!: wp_file_read assms(2,3) intro: fewer_later)

lemma wp_clear_owned:
  assumes "mt_journal s = LJ_Valid r"
    and "\<And>e fs. fewer fs s \<Longrightarrow> faulty s \<Longrightarrow> Q (Inl e) (s\<lparr>mt_faults := fs\<rparr>)"
    and "\<And>e fs. fewer fs s \<Longrightarrow> torn s \<Longrightarrow>
      Q (Inl e) (s\<lparr>mt_faults := fs, mt_file := mt_file s @ [LJ_Absent]\<rparr>)"
    and "\<And>fs. fewer fs s \<Longrightarrow> Q (Inr ()) (s\<lparr>mt_faults := fs, mt_file := mt_file s @ [LJ_Absent]\<rparr>)"
  shows "wp (clear_owned r) Q s"
  unfolding clear_owned_def
  by (intro wp_attempt wp_expect_record [OF assms(1)])
    (auto intro!: wp_file_write assms(2,3,4) intro: fewer_later)

section \<open>What a call upholds\<close>

text \<open>Automatic activation is allowed only while there is no journal.\<close>

definition gate :: "maintenance_state \<Rightarrow> bool" where
  "gate s \<longleftrightarrow> (automatic_activation_allowed s \<longrightarrow> mt_journal s = LJ_Absent)"

definition sound :: "('v::linorder) maintenance_self \<Rightarrow> loaded_journal \<Rightarrow> bool" where
  "sound self j \<longleftrightarrow>
     (case j of LJ_Absent \<Rightarrow> True | LJ_Valid r \<Rightarrow> validate_record self r | LJ_Corrupt \<Rightarrow> False | LJ_Incompatible \<Rightarrow> False)"

definition shown :: "maintenance_state \<Rightarrow> bool" where
  "shown s \<longleftrightarrow> mt_snapshot s \<noteq> None"

definition safe_from :: "('v::linorder) maintenance_self \<Rightarrow> maintenance_state \<Rightarrow> bool" where
  "safe_from self s \<longleftrightarrow>
     \<not> faulty s \<and> sound self (mt_journal s) \<and> shown s \<and> valid_digest (mf_authority_sha256 self)"

definition upholds ::
  "('v::linorder) maintenance_self \<Rightarrow> maintenance_state \<Rightarrow> maintenance_error + 'a \<Rightarrow> maintenance_state \<Rightarrow> bool" where
  "upholds self s r s' \<longleftrightarrow>
     wrote (mt_file s) (mt_file s') \<and> fewer (mt_faults s') s
     \<and> (\<not> torn s \<longrightarrow> gate s \<longrightarrow> gate s') \<and> (shown s \<longrightarrow> shown s')
     \<and> (sound self (mt_journal s) \<longrightarrow> sound self (mt_journal s'))
     \<and> (safe_from self s \<longrightarrow> r \<noteq> Inl ME_JournalUnsafe)"

lemma upholds_trans:
  assumes "upholds self s r s1" and "upholds self s1 r' s'"
  shows "upholds self s r' s'"
proof -
  note first = assms(1) [unfolded upholds_def] and second = assms(2) [unfolded upholds_def]
  have untorn: "\<not> torn s \<Longrightarrow> \<not> torn s1"
    using first by (auto simp: fewer_def torn_def)
  have safe: "safe_from self s \<Longrightarrow> safe_from self s1"
    using first by (auto simp: safe_from_def fewer_def faulty_def)
  have "wrote (mt_file s) (mt_file s')"
    using first second by (meson wrote_trans)
  moreover have "fewer (mt_faults s') s"
    using first second by (auto simp: fewer_def faulty_def torn_def)
  moreover have "\<not> torn s \<longrightarrow> gate s \<longrightarrow> gate s'" and "shown s \<longrightarrow> shown s'"
    and "sound self (mt_journal s) \<longrightarrow> sound self (mt_journal s')" and "safe_from self s \<longrightarrow> r' \<noteq> Inl ME_JournalUnsafe"
    using first second untorn safe by meson+
  ultimately show ?thesis
    unfolding upholds_def by meson
qed

text \<open>A call that leaves the journal, and the snapshot alone or closes the gate.\<close>

lemma upholds_frame:
  assumes "mt_file s' = mt_file s" and "fewer (mt_faults s') s"
    and "mt_snapshot s' = mt_snapshot s \<or> mt_snapshot s' \<noteq> None \<and> \<not> automatic_activation_allowed s'"
    and "safe_from self s \<Longrightarrow> r \<noteq> Inl ME_JournalUnsafe"
  shows "upholds self s r s'"
  using assms by (auto simp: upholds_def gate_def shown_def automatic_activation_allowed_def)

lemma upholds_moved:
  assumes "mt_file s' = mt_file s @ [mt_journal s']" and "journal_step (mt_journal s) (mt_journal s')"
    and "fewer (mt_faults s') s"
    and "mt_journal s' = LJ_Absent \<or> torn s \<or> \<not> automatic_activation_allowed s'"
    and "mt_snapshot s' = mt_snapshot s \<or> mt_snapshot s' \<noteq> None"
    and "sound self (mt_journal s) \<Longrightarrow> sound self (mt_journal s')"
    and "safe_from self s \<Longrightarrow> r \<noteq> Inl ME_JournalUnsafe"
  shows "upholds self s r s'"
proof -
  have "wrote (mt_file s) (mt_file s')"
    using wrote_one [of "mt_file s" "mt_journal s'"] assms(1,2) by simp
  then show ?thesis
    using assms(3-) by (auto simp: upholds_def gate_def shown_def)
qed

lemma fault_explains: "faulty s \<Longrightarrow> safe_from self s \<Longrightarrow> P"
  by (simp add: safe_from_def)

lemma torn_explains: "torn s \<Longrightarrow> safe_from self s \<Longrightarrow> P"
  using torn_faulty by (auto simp: safe_from_def)

lemma sound_simps [simp]:
  "sound self LJ_Absent" "sound self (LJ_Valid r) = validate_record self r" "\<not> sound self LJ_Corrupt"
  "\<not> sound self LJ_Incompatible"
  by (simp_all add: sound_def)

section \<open>Records that advance\<close>

lemma next_phase_step:
  assumes "next_phase (Some p) i = Inr q"
  shows "q = p \<or> phase_step p q"
  using assms
  by (cases p; cases i) (simp_all add: next_phase_def reduce_maintenance_phase_def phase_of_def)

lemma next_phase_not_recovering:
  assumes "next_phase (Some p) i = Inr q" and "i \<notin> {MI_Startup, MI_RuntimeRetired}" and "q \<noteq> p"
  shows "q \<noteq> JP_Recovering"
  using assms
  by (cases p; cases i) (auto simp: next_phase_def reduce_maintenance_phase_def phase_of_def)

lemma next_phase_unsafe: "next_phase (Some p) i \<noteq> Inl ME_JournalUnsafe"
  by (cases p; cases i) (simp_all add: next_phase_def reduce_maintenance_phase_def phase_of_def)

lemma checked_sub_advanced:
  assumes "checked_sub a b = Some n" and "checked_add a 1 = Some a'"
  shows "checked_sub a' b = Some (n + 1)"
proof -
  have "a \<le> a'"
    using checked_add_unat [OF assms(2)] by (simp add: word_le_nat_alt)
  then show ?thesis
    using assms by (auto simp: checked_sub_Some_iff checked_add_Some_iff)
qed

lemma valid_record_advances:
  assumes "validate_record self r"
  obtains a where "checked_add (jr_revision r) 1 = Some a"
    "advance_revision r = Inr (r\<lparr>jr_revision := a\<rparr>)"
proof -
  obtain n where n: "checked_sub (jr_revision r) (jr_admitted_revision r) = Some n" and "n \<le> 4"
    using assms
    by (auto simp: validate_record_def valid_phase_revision_def revision_offset_def split: option.splits journal_phase.splits)
  then have "unat (jr_revision r) \<le> unat (jr_admitted_revision r) + 4"
    by (auto simp: checked_sub_Some_iff unat_sub word_le_nat_alt)
  moreover have "unat (jr_admitted_revision r) \<le> 9007199254740987"
    using assms
    by (simp add: validate_record_def JSON_SAFE_INTEGER_MAX_def MAINTENANCE_REVISION_HEADROOM_def word_le_nat_alt)
  ultimately obtain a where "checked_add (jr_revision r) 1 = Some a"
    by (simp add: checked_add_def)
  then show thesis
    using that by (simp add: advance_revision_def)
qed

lemma advanced_valid:
  assumes "validate_record self r" and "phase_step (jr_phase r) p" and "checked_add (jr_revision r) 1 = Some a"
    and "w = r\<lparr>jr_revision := a, jr_phase := p\<rparr> \<and> p \<noteq> JP_Recovering
       \<or> w = recovered_by self (r\<lparr>jr_revision := a, jr_phase := p\<rparr>) \<and> p = JP_Recovering
         \<and> valid_digest (mf_authority_sha256 self)"
  shows "validate_record self w"
  using assms(1,2,4) checked_sub_advanced [OF _ assms(3)]
  by (cases "jr_phase r")
    (auto simp: validate_record_def valid_phase_revision_def valid_phase_ownership_def revision_offset_def
      recovered_by_def Let_def split: option.splits)

lemma advanced_step:
  assumes "phase_step (jr_phase r) p" and "checked_add (jr_revision r) 1 = Some a"
    and "w = r\<lparr>jr_revision := a, jr_phase := p\<rparr> \<and> p \<noteq> JP_Recovering
       \<or> w = recovered_by self (r\<lparr>jr_revision := a, jr_phase := p\<rparr>) \<and> p = JP_Recovering"
  shows "journal_step (LJ_Valid r) (LJ_Valid w)"
  using assms by (intro journal_step.advanced) (auto simp: same_maintenance_def recovered_by_def)

section \<open>The operations\<close>

lemma wp_record_evidence [wp_rules]:
  "Q () (s\<lparr>mt_evidence := add_evidence self from input to disposition r (mt_evidence s)\<rparr>) \<Longrightarrow>
     wp (record_evidence self from input to disposition r) Q s"
  by (simp add: record_evidence_def wp_update)

lemma wp_take_record [wp_rules]:
  "Q () (s\<lparr>mt_phase := Some (jr_phase r), mt_operation_id := Some (jr_operation_id r), mt_revision := jr_revision r,
      mt_terminal_reason := reason, mt_snapshot := Some (snapshot_for self r reconciliation allowed)\<rparr>) \<Longrightarrow>
     wp (take_record self r reason reconciliation allowed) Q s"
  by (simp add: take_record_def wp_update)

lemma wp_take_recovery [wp_rules]:
  "Q () (s\<lparr>mt_phase := Some (jr_phase r), mt_revision := jr_revision r, mt_terminal_reason := None,
      mt_snapshot := Some (snapshot_for self r reconciliation False)\<rparr>) \<Longrightarrow>
     wp (take_recovery self r reconciliation) Q s"
  by (simp add: take_recovery_def wp_update)

lemma snapshot_for_allowed [simp]:
  "mt_snapshot s = Some (snapshot_for self r reconciliation allowed) \<Longrightarrow> automatic_activation_allowed s = allowed"
  by (simp add: automatic_activation_allowed_def snapshot_for_def)

lemma upholds_read_failed: "faulty s \<Longrightarrow> fewer fs s \<Longrightarrow> upholds self s r (s\<lparr>mt_faults := fs\<rparr>)"
  by (rule upholds_frame) (auto dest: fault_explains)

lemma upholds_unsafe:
  "mt_journal s \<in> {LJ_Corrupt, LJ_Incompatible} \<Longrightarrow> fewer fs s \<Longrightarrow> upholds self s r (s\<lparr>mt_faults := fs\<rparr>)"
  by (rule upholds_frame) (auto simp: safe_from_def)

lemma upholds_refused:
  "fewer fs s \<Longrightarrow> r \<noteq> Inl ME_JournalUnsafe \<Longrightarrow> upholds self s r (s\<lparr>mt_faults := fs\<rparr>)"
  by (rule upholds_frame) auto

text \<open>Reading the record, with the rest of the call behind it.\<close>

lemma wp_read_then:
  assumes "\<And>fs. fewer fs s \<Longrightarrow> mt_journal s = LJ_Absent \<Longrightarrow> wp (g None) (upholds self s) (s\<lparr>mt_faults := fs\<rparr>)"
    and "\<And>r fs. fewer fs s \<Longrightarrow> mt_journal s = LJ_Valid r \<Longrightarrow> wp (g (Some r)) (upholds self s) (s\<lparr>mt_faults := fs\<rparr>)"
  shows "wp (attempt read_record g) (upholds self s) s"
  by (intro wp_attempt wp_read_record) (auto intro: upholds_read_failed upholds_unsafe assms)

lemma wp_clear_terminal:
  assumes "\<And>e s'. upholds self s (Inl e :: maintenance_error + u64) s' \<Longrightarrow> mt_snapshot s' = mt_snapshot s \<Longrightarrow> Q (Inl e) s'"
    and "\<And>c fs contents. fewer fs s \<Longrightarrow> wrote (mt_file s) contents \<Longrightarrow> last contents = LJ_Absent \<Longrightarrow>
      Q (Inr c) (s\<lparr>mt_faults := fs, mt_file := contents\<rparr>)"
  shows "wp (clear_terminal_owned self oid revision terminal) Q s"
proof -
  have settled: "settled terminal" if "owns_terminal self terminal r" for r
    using that by (cases terminal) (simp_all add: owns_terminal_def settled_def)
  have removed: "Q (Inl e) (s\<lparr>mt_faults := fs, mt_file := mt_file s @ [LJ_Absent]\<rparr>)"
    if "mt_journal s = LJ_Valid r" "settled (jr_phase r)" "fewer fs s" "torn s" for e fs r
    using that
    by (intro assms(1) upholds_moved) (auto intro: journal_step.cleared dest: torn_explains)
  have absent: "Q (Inr c) (s\<lparr>mt_faults := fs\<rparr>)" if "mt_journal s = LJ_Absent" "fewer fs s" for c fs
    using assms(2) [of fs "mt_file s" c] that by simp
  have failed: "Q (Inl e) (s\<lparr>mt_faults := fs\<rparr>)" if "faulty s" "fewer fs s" for e fs
    using that by (intro assms(1) upholds_read_failed) simp_all
  show ?thesis
    unfolding clear_terminal_owned_def sync_directory_def
  proof (intro wp_attempt wp_read_record, goal_cases)
    case (1 e fs)
    then show ?case using failed by simp
  next
    case (2 fs)
    then show ?case by (auto intro: assms(1) upholds_unsafe)
  next
    case (3 fs)
    then show ?case
      by (auto intro!: wp_attempt wp_file_read wp_succeed absent failed intro: fewer_later)
  next
    case (4 r fs)
    have refused: "Q (Inl ME_OperationMismatch) (s\<lparr>mt_faults := fs\<rparr>)"
      using 4(1) by (intro assms(1) upholds_refused) simp_all
    have "wp (attempt (clear_owned r) (\<lambda>_. succeed (Some r))) Q (s\<lparr>mt_faults := fs\<rparr>)" if "settled (jr_phase r)"
    proof (intro wp_attempt wp_clear_owned [where r = r], goal_cases)
      case (3 e fs')
      then show ?case
        using removed [OF 4(2) that fewer_later(3) [OF 4(1)]] fewer_later(2) [OF 4(1)] by simp
    next
      case (4 fs')
      then show ?case
        using fewer_later(3) [OF \<open>fewer fs s\<close>] \<open>mt_journal s = LJ_Valid r\<close>
        by (simp add: wp_succeed assms(2) journal_step.cleared that)
    qed (use 4 failed fewer_later in auto)
    then show ?case
      using refused settled [of r] by (simp add: wp_raise)
  qed
qed

lemma upholds_evidence [simp]: "upholds self s r (s'\<lparr>mt_evidence := ev\<rparr>) = upholds self s r s'"
  by (simp add: upholds_def gate_def shown_def automatic_activation_allowed_def)

lemma upholds_cleared:
  assumes "wrote (mt_file s) (mt_file s')" and "mt_journal s' = LJ_Absent" and "fewer (mt_faults s') s"
    and "shown s \<Longrightarrow> shown s'" and "safe_from self s \<Longrightarrow> r \<noteq> Inl ME_JournalUnsafe"
  shows "upholds self s r s'"
  using assms by (auto simp: upholds_def gate_def)

lemma finish_terminal_cleanup_upholds:
  "wp (finish_terminal_cleanup self oid terminal input from disposition) (upholds self s) s"
  unfolding finish_terminal_cleanup_def
proof (intro wp_bind wp_get wp_if wp_clear_terminal [where self = self], goal_cases)
  case 1
  then show ?case
    by (intro wp_record_evidence wp_succeed) (simp add: upholds_frame)
next
  case (2 e s')
  then show ?case
    by (simp add: wp_bind wp_record_evidence wp_raise)
next
  case (3 c fs contents)
  then show ?case
    by (auto intro!: wp_raise wp_bind wp_update wp_record_evidence wp_succeed upholds_cleared
        simp: shown_def safe_from_def split: option.split)
qed

lemma upholds_then_cleanup:
  assumes "upholds self s r s1"
  shows "wp (finish_terminal_cleanup self oid terminal input from disposition) (upholds self s) s1"
  by (rule wp_mono [OF finish_terminal_cleanup_upholds]) (rule upholds_trans [OF assms])

lemma wp_reconfirm_then:
  assumes "mt_journal s1 = LJ_Valid r" and "mt_file s = mt_file s1" and "mt_snapshot s = mt_snapshot s1"
    and "fewer (mt_faults s1) s"
    and "\<And>fs. fewer fs s \<Longrightarrow> wp (g ()) (upholds self s) (s1\<lparr>mt_faults := fs\<rparr>)"
  shows "wp (attempt (reconfirm_record_durability r) g) (upholds self s) s1"
proof -
  have "fewer fs s" if "fewer fs s1" for fs
    using that assms(4) by (auto simp: fewer_def faulty_def torn_def)
  moreover have "faulty s" if "faulty s1"
    using that assms(4) by (auto simp: fewer_def faulty_def)
  ultimately show ?thesis
    using assms
    by (intro wp_attempt wp_reconfirm [OF assms(1)])
      (auto intro!: upholds_frame dest: fault_explains)
qed

lemma reconfirm_nonterminal_upholds:
  assumes "mt_journal s = LJ_Valid r" and "fewer fs s"
  shows "wp (reconfirm_nonterminal_duplicate self r input) (upholds self s) (s\<lparr>mt_faults := fs\<rparr>)"
  unfolding reconfirm_nonterminal_duplicate_def
  by (intro wp_bind wp_get wp_reconfirm_then)
    (use assms in \<open>auto intro!: wp_bind wp_take_record wp_record_evidence wp_succeed upholds_frame\<close>)

text \<open>Writing the next record of the journal, with the rest of the call behind it.\<close>

lemma wp_write_then:
  assumes "fewer (mt_faults s1) s" and "mt_snapshot s1 = mt_snapshot s" and "mt_file s1 = mt_file s"
    and step: "journal_step (mt_journal s) (LJ_Valid w)" and valid: "safe_from self s \<Longrightarrow> validate_record self w"
    and "\<And>fs. fewer fs s \<Longrightarrow> validate_record self w \<Longrightarrow> wp (g ()) (upholds self s) (s1\<lparr>mt_faults := fs, mt_file := mt_file s1 @ [LJ_Valid w]\<rparr>)"
  shows "wp (attempt (write_record self w) g) (upholds self s) s1"
proof -
  have later: "fewer fs s1 \<Longrightarrow> fewer fs s" "faulty s1 \<Longrightarrow> faulty s" "torn s1 \<Longrightarrow> torn s" for fs
    using assms(1) by (auto simp: fewer_def faulty_def torn_def)
  show ?thesis
  proof (intro wp_attempt wp_write_record, goal_cases)
    case 1
    then show ?case
      using valid assms(1-3) by (auto intro: upholds_frame)
  next
    case (2 e fs)
    then show ?case
      using later assms(2,3) by (auto intro!: upholds_frame dest: fault_explains)
  next
    case (3 e fs)
    then show ?case
      using later assms(2,3) step by (auto intro!: upholds_moved dest: torn_explains)
  next
    case (4 fs)
    then show ?case
      using later assms(6) by simp
  qed
qed

lemma wp_advance_then:
  assumes "mt_journal s = LJ_Valid r" and "fewer (mt_faults s1) s" and "mt_snapshot s1 = mt_snapshot s"
    and "mt_file s1 = mt_file s" and "phase_step (jr_phase r) p"
    and adapt: "adapt = id \<and> p \<noteq> JP_Recovering \<or> adapt = recovered_by self \<and> p = JP_Recovering"
    and "\<And>w fs. fewer fs s \<Longrightarrow> journal_step (LJ_Valid r) (LJ_Valid w) \<Longrightarrow> validate_record self w \<Longrightarrow>
      jr_phase w = p \<Longrightarrow> wp (g w) (upholds self s) (s1\<lparr>mt_faults := fs, mt_file := mt_file s1 @ [LJ_Valid w]\<rparr>)"
  shows "wp (attempt (write_advanced self r p adapt) g) (upholds self s) s1"
proof (cases "checked_add (jr_revision r) 1")
  case None
  then have "\<not> validate_record self r"
    using valid_record_advances [of self r] by (metis option.distinct(1))
  then have "upholds self s x s1" for x :: "maintenance_error + 'c"
    using assms(1-4) by (auto intro: upholds_frame simp: safe_from_def)
  then show ?thesis
    using None by (auto simp: write_advanced_def advance_revision_def intro!: wp_attempt wp_raise)
next
  case (Some a)
  let ?w = "adapt (r\<lparr>jr_revision := a, jr_phase := p\<rparr>)"
  have step: "journal_step (LJ_Valid r) (LJ_Valid ?w)"
    by (rule advanced_step [OF assms(5) Some]) (use adapt in auto)
  have valid: "safe_from self s \<Longrightarrow> validate_record self ?w"
    by (rule advanced_valid [OF _ assms(5) Some]) (use adapt assms(1) in \<open>auto simp: safe_from_def\<close>)
  have "jr_phase ?w = p"
    using adapt by (auto simp: recovered_by_def)
  then have "wp (attempt (write_record self ?w) (\<lambda>_. g ?w)) (upholds self s) s1"
    by (intro wp_write_then) (use assms step valid in auto)
  moreover have "attempt (write_advanced self r p adapt) g = attempt (write_record self ?w) (\<lambda>_. g ?w)"
    using Some
    by (simp add: write_advanced_def advance_revision_def attempt_def succeed_def State_Monad.bind_def fun_eq_iff
        split_beta Let_def split: sum.split)
  ultimately show ?thesis
    by simp
qed

lemma request_valid:
  assumes "validate_request self request = Inr ()" and "valid_digest (mf_authority_sha256 self)"
  shows "validate_record self (request_record self request JP_PreparingMaintenance)"
  using assms
  by (auto simp: validate_request_def validate_record_def request_record_def valid_phase_revision_def
      valid_phase_ownership_def revision_offset_def checked_sub_def not_less split: sum.splits if_splits)

lemma begin_upholds: "wp (begin_maintenance self request) (upholds self s) s"
proof (cases "validate_request self request")
  case (Inl err)
  have "err \<noteq> ME_JournalUnsafe"
    using Inl
    by (auto simp: validate_request_def validate_operation_id_def validate_version_def split: sum.splits if_splits)
  then show ?thesis
    using Inl by (auto simp: begin_maintenance_def intro!: wp_raise upholds_frame)
next
  case (Inr u)
  have began: "journal_step LJ_Absent (LJ_Valid (request_record self request JP_PreparingMaintenance))"
    by (rule journal_step.began) (simp_all add: request_record_def)
  have next_phase: "next_phase None MI_Begin = Inr JP_PreparingMaintenance"
    by (simp add: next_phase_def reduce_maintenance_phase_def phase_of_def)
  have absent: "wp (if mq_admitted_revision request \<le> mt_revision s then raise ME_StaleRevision
      else case next_phase None MI_Begin of Inl err \<Rightarrow> raise err
        | Inr phase \<Rightarrow> let r = request_record self request phase
            in attempt (write_record self r) (\<lambda>_.
                 do { take_record self r None MR_None False;
                      record_evidence self (mt_phase s) ''begin'' (Some (jr_phase r)) ''applied'' (Some r);
                      succeed (jr_revision r) })) (upholds self s) (s\<lparr>mt_faults := fs\<rparr>)"
    if "fewer fs s" "mt_journal s = LJ_Absent" for fs
    unfolding next_phase sum.case Let_def
    by (intro wp_if wp_raise wp_write_then)
      (use that began Inr request_valid [of self request] in
        \<open>auto intro!: upholds_refused wp_bind wp_take_record wp_record_evidence wp_succeed upholds_moved
          simp: safe_from_def\<close>)
  show ?thesis
    unfolding begin_maintenance_def Inr sum.case
  proof (intro wp_if wp_raise wp_bind wp_get wp_read_then, goal_cases)
    case (2 fs)
    show ?case unfolding option.case by (rule absent [OF 2(2,3)])
  next
    case (3 r fs)
    then show ?case
      by (auto intro!: wp_raise upholds_refused upholds_frame wp_reconfirm_then wp_bind wp_take_record
          wp_record_evidence wp_succeed)
  qed (simp add: upholds_frame)
qed

lemma wp_owned_then:
  assumes "fewer (mt_faults s1) s" and "mt_snapshot s1 = mt_snapshot s" and "mt_file s1 = mt_file s"
    and "\<And>r fs. fewer fs s \<Longrightarrow> mt_journal s = LJ_Valid r \<Longrightarrow> owns_record self r \<Longrightarrow> jr_operation_id r = oid \<Longrightarrow>
      wp (g r) (upholds self s) (s1\<lparr>mt_faults := fs\<rparr>)"
  shows "wp (attempt (owned_record_for_operation self oid) g) (upholds self s) s1"
proof -
  have later: "fewer fs s1 \<Longrightarrow> fewer fs s" "faulty s1 \<Longrightarrow> faulty s" for fs
    using assms(1) by (auto simp: fewer_def faulty_def torn_def)
  show ?thesis
    unfolding owned_record_for_operation_def
    by (intro wp_attempt wp_read_record)
      (use assms later in \<open>auto intro!: upholds_frame wp_raise wp_succeed dest: fault_explains simp: safe_from_def\<close>)
qed

lemma wp_owned_record_then:
  assumes "fewer (mt_faults s1) s" and "mt_snapshot s1 = mt_snapshot s" and "mt_file s1 = mt_file s"
    and "\<And>r fs. fewer fs s \<Longrightarrow> mt_journal s = LJ_Valid r \<Longrightarrow> owns_record self r \<Longrightarrow>
      wp (g r) (upholds self s) (s1\<lparr>mt_faults := fs\<rparr>)"
  shows "wp (attempt (owned_record self oid revision) g) (upholds self s) s1"
proof -
  have "attempt (owned_record self oid revision) g =
      attempt (owned_record_for_operation self oid)
        (\<lambda>r. if jr_revision r \<noteq> revision then raise ME_StaleRevision else g r)"
    by (simp add: owned_record_def attempt_def raise_def succeed_def State_Monad.bind_def fun_eq_iff split_beta
        split: sum.split)
  moreover have "wp \<dots> (upholds self s) s1"
    by (intro wp_owned_then) (use assms in \<open>auto intro!: wp_raise upholds_frame\<close>)
  ultimately show ?thesis
    by simp
qed

lemma transition_upholds:
  assumes "machine_input \<in> {MI_InstallingIntent, MI_Relaunching}"
  shows "wp (transition_to self oid revision machine_input input) (upholds self s) s"
proof -
  have step: "wp (case next_phase (Some (jr_phase r)) machine_input of
        Inl err \<Rightarrow> raise err
      | Inr phase \<Rightarrow>
          if jr_phase r = phase then reconfirm_nonterminal_duplicate self r input
          else attempt (write_advanced self r phase id) (\<lambda>written.
            do { take_record self written None MR_UnknownOutcome False;
                 record_evidence self (mt_phase s) input (Some (jr_phase written)) ''applied'' (Some written);
                 succeed (jr_revision written) })) (upholds self s) (s\<lparr>mt_faults := fs\<rparr>)"
    if "fewer fs s" "mt_journal s = LJ_Valid r" for r fs
  proof (intro wp_case_sum wp_raise wp_if, goal_cases)
    case (1 err)
    then show ?case
      using that next_phase_unsafe [of "jr_phase r" machine_input] by (intro upholds_refused) auto
  next
    case (2 phase)
    then show ?case
      using that by (intro reconfirm_nonterminal_upholds) auto
  next
    case (3 phase)
    have "phase_step (jr_phase r) phase" and "phase \<noteq> JP_Recovering"
      using 3 assms next_phase_step [OF 3(1)] next_phase_not_recovering [OF 3(1)] by auto
    then show ?case
      by (intro wp_advance_then [OF that(2)])
        (use that in \<open>auto intro!: wp_bind wp_take_record wp_record_evidence wp_succeed upholds_moved\<close>)
  qed
  obtain duplicate_phase where duplicate:
    "(case machine_input of MI_InstallingIntent \<Rightarrow> Some JP_InstallingIntent | MI_Relaunching \<Rightarrow> Some JP_Relaunching
      | _ \<Rightarrow> None) = Some duplicate_phase"
    using assms by auto
  show ?thesis
    unfolding transition_to_def duplicate option.case
    by (intro wp_bind wp_get wp_owned_then wp_if wp_raise reconfirm_nonterminal_upholds step upholds_refused) auto
qed

lemma upholds_written:
  assumes "journal_step (LJ_Valid r) (LJ_Valid w)" and "mt_journal s = LJ_Valid r" and "validate_record self w"
    and "mt_file s' = mt_file s @ [LJ_Valid w]" and "fewer (mt_faults s') s"
    and "mt_snapshot s' = Some (snapshot_for self w reconciliation False)"
    and "x \<noteq> Inl ME_JournalUnsafe"
  shows "upholds self s x s'"
  using assms by (intro upholds_moved) auto

lemma finish_preparation_upholds:
  assumes "terminal \<in> {JP_Cancelled, JP_Failed}"
  shows "wp (finish_preparation self oid revision terminal) (upholds self s) s"
proof -
  obtain machine_input input reason rejected where pre:
    "preparation_terminal terminal = Some (machine_input, input, reason, rejected)"
    and mi: "machine_input \<in> {MI_Cancel, MI_Fail}"
    using assms by (auto simp: preparation_terminal_def)
  have owned: "wp (case reduce_maintenance_phase (Some (jr_phase r)) machine_input of
        Inl err \<Rightarrow>
          do { record_evidence self (mt_phase s) input (mt_phase s) rejected (Some r); raise err }
      | Inr None \<Rightarrow> raise ME_JournalUnsafe
      | Inr (Some phase) \<Rightarrow>
          if phase = jr_phase r
          then do { record_evidence self (mt_phase s) input (mt_phase s) ''duplicate'' (Some r);
                    succeed (jr_revision r) }
          else attempt (write_advanced self r phase id) (\<lambda>written.
            do { take_record self written (Some reason) MR_UnknownOutcome False;
                 finish_terminal_cleanup self oid terminal input (mt_phase s) ''applied'' }))
      (upholds self s) (s\<lparr>mt_faults := fs\<rparr>)"
    if "fewer fs s" "mt_journal s = LJ_Valid r" for r fs
  proof (cases "next_phase (Some (jr_phase r)) machine_input")
    case (Inl err)
    then have "reduce_maintenance_phase (Some (jr_phase r)) machine_input = Inl err" "err \<noteq> ME_JournalUnsafe"
      using next_phase_unsafe [of "jr_phase r" machine_input]
      by (auto simp: next_phase_def split: sum.splits option.splits)
    then show ?thesis
      using that by (auto intro!: wp_bind wp_record_evidence wp_raise upholds_refused)
  next
    case (Inr phase)
    then have red: "reduce_maintenance_phase (Some (jr_phase r)) machine_input = Inr (Some phase)"
      by (auto simp: next_phase_def split: sum.splits option.splits)
    have "phase = jr_phase r \<or> phase_step (jr_phase r) phase \<and> phase \<noteq> JP_Recovering"
      using next_phase_step [OF Inr] next_phase_not_recovering [OF Inr] mi by auto
    then show ?thesis
      unfolding red sum.case option.case
      by (intro wp_if wp_bind wp_record_evidence wp_succeed wp_advance_then [OF that(2)] wp_take_record
          upholds_then_cleanup)
        (use that in \<open>auto intro!: upholds_refused intro: upholds_written\<close>)
  qed
  show ?thesis
    unfolding finish_preparation_def pre option.case prod.case
  proof (intro wp_bind wp_get wp_if finish_terminal_cleanup_upholds wp_read_then, goal_cases)
    case (1 fs)
    show ?case
      unfolding option.case by (rule wp_owned_record_then) (use 1 in simp_all)
  next
    case (2 r fs)
    show ?case
      unfolding option.case
      by (intro wp_case_option wp_reconfirm_then wp_owned_record_then wp_bind wp_take_record upholds_then_cleanup)
        (use 2 owned in \<open>auto intro!: upholds_frame split: if_splits\<close>)
  qed
qed

lemma finish_recovery_upholds: "wp (finish_recovery self oid revision terminal input) (upholds self s) s"
proof -
  let ?machine_input = "if terminal = JP_Completed then MI_Complete else MI_Fail"
  have owned: "wp (case next_phase (Some (jr_phase r)) ?machine_input of
        Inl err \<Rightarrow> raise err
      | Inr phase \<Rightarrow>
          attempt (write_advanced self r phase id) (\<lambda>written.
            do { take_record self written (recovery_reason terminal) MR_UnknownOutcome False;
                 finish_terminal_cleanup self oid terminal input (mt_phase s) ''applied'' }))
      (upholds self s) (s\<lparr>mt_faults := fs\<rparr>)"
    if "fewer fs s" "mt_journal s = LJ_Valid r" for r fs
  proof (cases "next_phase (Some (jr_phase r)) ?machine_input")
    case (Inl err)
    then show ?thesis
      using that next_phase_unsafe [of "jr_phase r" ?machine_input] by (auto intro!: wp_raise upholds_refused)
  next
    case (Inr phase)
    have "phase \<noteq> jr_phase r"
      using Inr by (cases "jr_phase r") (auto simp: next_phase_def reduce_maintenance_phase_def phase_of_def split: if_splits)
    then have "phase_step (jr_phase r) phase" "phase \<noteq> JP_Recovering"
      using next_phase_step [OF Inr] next_phase_not_recovering [OF Inr] by auto
    then show ?thesis
      unfolding Inr sum.case
      by (intro wp_bind wp_advance_then [OF that(2)] wp_take_record upholds_then_cleanup)
        (use that in \<open>auto intro: upholds_written\<close>)
  qed
  show ?thesis
    unfolding finish_recovery_def
  proof (intro wp_bind wp_get wp_if finish_terminal_cleanup_upholds wp_read_then, goal_cases)
    case (1 fs)
    show ?case
      unfolding option.case by (rule wp_owned_record_then) (use 1 in simp_all)
  next
    case (2 r fs)
    show ?case
      unfolding option.case
      by (intro wp_case_option wp_reconfirm_then wp_owned_record_then wp_bind wp_take_record upholds_then_cleanup)
        (use 2 owned in \<open>auto intro!: upholds_frame split: if_splits\<close>)
  qed
qed

lemma next_phase_retired:
  "next_phase (Some p) i = Inr q \<Longrightarrow> p \<in> {JP_InstallingIntent, JP_Relaunching, JP_Recovering} \<Longrightarrow>
     i \<in> {MI_Startup, MI_RuntimeRetired} \<Longrightarrow> q = JP_Recovering"
  by (cases p; cases i) (auto simp: next_phase_def reduce_maintenance_phase_def phase_of_def)

text \<open>The run of a call that follows a reading of the same journal.\<close>

lemma upholds_after_read:
  assumes "fewer fs s" and "wp f (upholds self (s\<lparr>mt_faults := fs\<rparr>)) (s\<lparr>mt_faults := fs\<rparr>)"
  shows "wp f (upholds self s) (s\<lparr>mt_faults := fs\<rparr>)"
proof -
  have "upholds self s (Inr ()) (s\<lparr>mt_faults := fs\<rparr>)"
    using assms(1) by (intro upholds_refused) simp_all
  then show ?thesis
    using wp_mono [OF assms(2)] upholds_trans by blast
qed

lemma unknown_outcome_upholds:
  assumes "mt_journal s = LJ_Valid r" and "jr_phase r \<in> {JP_InstallingIntent, JP_Relaunching, JP_Recovering}"
  shows "wp (transition_any_unknown_outcome self oid revision) (upholds self s) s"
proof -
  have "wp (case next_phase (Some (jr_phase r)) MI_RuntimeRetired of
        Inl err \<Rightarrow> raise err
      | Inr phase \<Rightarrow>
          if jr_phase r = phase then reconfirm_nonterminal_duplicate self r ''runtime-retired''
          else attempt (write_advanced self r phase (recovered_by self)) (\<lambda>written.
            do { take_recovery self written MR_UnknownOutcome;
                 record_evidence self (mt_phase s) ''runtime-retired'' (Some (jr_phase written))
                   ''recovery-required'' (Some written);
                 succeed (jr_revision written) })) (upholds self s) (s\<lparr>mt_faults := fs\<rparr>)"
    if "fewer fs s" for fs
  proof (intro wp_case_sum wp_raise wp_if, goal_cases)
    case (1 err)
    then show ?case
      using that next_phase_unsafe [of "jr_phase r" MI_RuntimeRetired] by (intro upholds_refused) auto
  next
    case (2 phase)
    then show ?case
      using that assms(1) by (intro reconfirm_nonterminal_upholds) auto
  next
    case (3 phase)
    have "phase_step (jr_phase r) phase" and "phase = JP_Recovering"
      using 3 assms(2) next_phase_step [OF 3(1)] next_phase_retired [OF 3(1)] by auto
    then show ?case
      by (intro wp_advance_then [OF assms(1)])
        (use that assms(1) in \<open>auto intro!: wp_bind wp_take_recovery wp_record_evidence wp_succeed intro: upholds_written\<close>)
  qed
  then show ?thesis
    unfolding transition_any_unknown_outcome_def
    by (intro wp_bind wp_get wp_owned_record_then) (use assms(1) in auto)
qed

lemma retire_upholds: "wp (retire_runtime self) (upholds self s) s"
proof -
  have ignored: "wp (attempt f (\<lambda>_. succeed ())) (upholds self s') s'" if "wp f (upholds self s') s'"
    for f :: "u64 maintained" and s'
    by (rule wp_attempt [OF wp_mono [OF that]]) (auto simp: upholds_def intro!: wp_succeed split: sum.split)
  show ?thesis
    unfolding retire_runtime_def
    by (intro wp_read_then)
      (auto intro!: wp_succeed wp_bind wp_get wp_record_evidence upholds_refused upholds_after_read ignored
        finish_preparation_upholds unknown_outcome_upholds simp: cancel_maintenance_def)
qed

text \<open>
  A process that starts over an existing journal has its gate still open: it is closed, or the journal gone,
  when the reconciliation has succeeded.
\<close>

lemma upholds_ungated:
  assumes "\<not> gate s" and "wrote (mt_file s) (mt_file s')" and "fewer (mt_faults s') s"
    and "shown s \<Longrightarrow> shown s'" and "sound self (mt_journal s) \<Longrightarrow> sound self (mt_journal s')"
    and "safe_from self s \<Longrightarrow> r \<noteq> Inl ME_JournalUnsafe"
  shows "upholds self s r s'"
  using assms by (auto simp: upholds_def)

lemma wp_clear_then:
  assumes "\<not> gate s" and "wrote (mt_file s) (mt_file s1)" and "settled (jr_phase w)"
    and "sound self (mt_journal s) \<Longrightarrow> validate_record self w"
    and "mt_journal s1 = LJ_Valid w" and "fewer (mt_faults s1) s" and "mt_snapshot s1 = mt_snapshot s"
    and "\<And>fs. fewer fs s \<Longrightarrow> wrote (mt_file s) (mt_file s1 @ [LJ_Absent]) \<Longrightarrow>
      wp (g ()) (upholds self s) (s1\<lparr>mt_faults := fs, mt_file := mt_file s1 @ [LJ_Absent]\<rparr>)"
  shows "wp (attempt (clear_owned w) g) (upholds self s) s1"
proof -
  have later: "fewer fs s1 \<Longrightarrow> fewer fs s" "faulty s1 \<Longrightarrow> faulty s" "torn s1 \<Longrightarrow> torn s" for fs
    using assms(6) by (auto simp: fewer_def faulty_def torn_def)
  have absent: "wrote (mt_file s) (mt_file s1 @ [LJ_Absent])"
    by (rule wrote_trans [OF assms(2)]) (simp add: assms(5) journal_step.cleared [OF assms(3)])
  show ?thesis
  proof (intro wp_attempt wp_clear_owned [OF assms(5)], goal_cases)
    case (1 e fs)
    then show ?case
      using assms(1,2,4,5,7) later by (auto intro!: upholds_ungated simp: shown_def dest: fault_explains)
  next
    case (2 e fs)
    then show ?case
      using assms(1,7) absent later by (auto intro!: upholds_ungated simp: shown_def dest: torn_explains)
  next
    case (3 fs)
    then show ?case
      using assms(8) later(1) absent by simp
  qed
qed

lemma startup_preparing_upholds:
  assumes "mt_journal s = LJ_Valid r" and "jr_phase r = JP_PreparingMaintenance" and "fewer (mt_faults s1) s"
    and "mt_snapshot s1 = mt_snapshot s" and "mt_file s1 = mt_file s" and "\<not> gate s"
  shows "wp (startup_preparing self r) (upholds self s) s1"
proof -
  have phase: "next_phase (Some (jr_phase r)) MI_Startup = Inr JP_Cancelled"
    by (simp add: assms(2) next_phase_def reduce_maintenance_phase_def phase_of_def)
  have clear: "wp (attempt (clear_owned w) (\<lambda>_.
        do { take_record self w (Some ''pre-install-aborted'') MR_PreInstallAborted True;
             record_evidence self (Some (jr_phase r)) ''startup'' (Some (jr_phase w)) ''pre-install-aborted'' (Some w);
             succeed () })) (upholds self s) (s1\<lparr>mt_faults := fs, mt_file := mt_file s1 @ [LJ_Valid w]\<rparr>)"
    if "fewer fs s" "journal_step (LJ_Valid r) (LJ_Valid w)" "validate_record self w" "jr_phase w = JP_Cancelled" for w fs
    by (rule wp_clear_then)
      (use that assms in \<open>auto simp: settled_def shown_def intro!: wp_bind wp_take_record wp_record_evidence wp_succeed
        upholds_cleared\<close>)
  show ?thesis
    unfolding startup_preparing_def phase sum.case
    by (rule wp_advance_then [OF assms(1)]) (use assms clear in simp_all)
qed

lemma startup_terminal_upholds:
  assumes "mt_journal s = LJ_Valid r" and "settled (jr_phase r)" and "fewer (mt_faults s1) s"
    and "mt_snapshot s1 = mt_snapshot s" and "mt_file s1 = mt_file s" and "\<not> gate s"
  shows "wp (startup_terminal self r) (upholds self s) s1"
proof -
  obtain q where phase: "reduce_maintenance_phase (Some (jr_phase r)) MI_Startup = Inr q"
    using assms(2) by (auto simp: settled_def reduce_maintenance_phase_def)
  show ?thesis
    unfolding startup_terminal_def phase sum.case
    by (rule wp_clear_then)
      (use assms in \<open>auto simp: shown_def intro!: wp_bind wp_take_record wp_record_evidence wp_succeed upholds_cleared\<close>)
qed

lemma recovering_taken_over:
  assumes "validate_record self r" and "jr_phase r = JP_Recovering" and "valid_digest (mf_authority_sha256 self)"
  shows "validate_record self (recovered_by self r)"
  using assms
  by (auto simp: validate_record_def valid_phase_revision_def valid_phase_ownership_def revision_offset_def
      recovered_by_def split: option.splits)

lemma startup_uncertain_upholds:
  assumes "mt_journal s = LJ_Valid r" and "jr_phase r \<in> {JP_InstallingIntent, JP_Relaunching, JP_Recovering}"
    and "fewer (mt_faults s1) s" and "mt_snapshot s1 = mt_snapshot s" and "mt_file s1 = mt_file s"
  shows "wp (startup_uncertain self r) (upholds self s) s1"
proof -
  have phase: "next_phase (Some (jr_phase r)) MI_Startup = Inr JP_Recovering"
    using assms(2) by (auto simp: next_phase_def reduce_maintenance_phase_def phase_of_def)
  have rest: "wp (do { take_recovery self w (version_reconciliation self r);
        record_evidence self (Some (jr_phase r)) ''startup'' (Some JP_Recovering) ''recovery-required'' (Some w);
        succeed () }) (upholds self s) (s1\<lparr>mt_faults := fs, mt_file := mt_file s1 @ [LJ_Valid w]\<rparr>)"
    if "fewer fs s" "journal_step (LJ_Valid r) (LJ_Valid w)" "validate_record self w" for w fs
    using that assms(1,5)
    by (auto intro!: wp_bind wp_take_recovery wp_record_evidence wp_succeed intro: upholds_written)
  show ?thesis
  proof (cases "jr_phase r = JP_Recovering")
    case True
    let ?w = "recovered_by self r"
    have "journal_step (LJ_Valid r) (LJ_Valid ?w)"
      by (rule journal_step.taken_over) (use True in \<open>auto simp: recovered_by_def same_maintenance_def\<close>)
    moreover have "safe_from self s \<Longrightarrow> validate_record self ?w"
      using recovering_taken_over [of self r] True assms(1) by (auto simp: safe_from_def)
    ultimately have "wp (attempt (write_record self ?w) (\<lambda>_.
        do { take_recovery self ?w (version_reconciliation self r);
             record_evidence self (Some (jr_phase r)) ''startup'' (Some JP_Recovering) ''recovery-required'' (Some ?w);
             succeed () })) (upholds self s) s1"
      by (intro wp_write_then) (use assms rest in auto)
    moreover have eq: "r\<lparr>jr_phase := JP_Recovering\<rparr> = r"
      using True by (cases r) simp
    ultimately show ?thesis
      using True by (simp add: startup_uncertain_def phase [unfolded True] eq Let_def)
  next
    case False
    then have step: "phase_step (jr_phase r) JP_Recovering"
      using assms(2) by auto
    show ?thesis
    proof (cases "checked_add (jr_revision r) 1")
      case None
      then have "\<not> validate_record self r"
        using valid_record_advances [of self r] by (metis option.distinct(1))
      then show ?thesis
        using None False assms
        by (auto simp: startup_uncertain_def phase advance_revision_def safe_from_def intro!: wp_raise upholds_frame)
    next
      case (Some a)
      let ?w = "recovered_by self (r\<lparr>jr_revision := a, jr_phase := JP_Recovering\<rparr>)"
      have "journal_step (LJ_Valid r) (LJ_Valid ?w)"
        by (rule advanced_step [OF step Some]) simp
      moreover have "safe_from self s \<Longrightarrow> validate_record self ?w"
        by (rule advanced_valid [OF _ step Some]) (use assms(1) in \<open>auto simp: safe_from_def\<close>)
      ultimately have "wp (attempt (write_record self ?w) (\<lambda>_.
          do { take_recovery self ?w (version_reconciliation self r);
               record_evidence self (Some (jr_phase r)) ''startup'' (Some JP_Recovering) ''recovery-required'' (Some ?w);
               succeed () })) (upholds self s) s1"
        by (intro wp_write_then) (use assms rest in auto)
      then show ?thesis
        using False Some by (simp add: startup_uncertain_def phase advance_revision_def Let_def)
    qed
  qed
qed

lemma reconcile_upholds:
  assumes "gate s \<longrightarrow> mt_journal s = LJ_Absent"
  shows "wp (reconcile_startup self) (upholds self s) s"
  unfolding reconcile_startup_def
proof (intro wp_attempt wp_load_journal, goal_cases)
  case (1 e fs)
  then show ?case by (simp add: upholds_read_failed)
next
  case (2 fs)
  have absent: "reduce_maintenance_phase None MI_Startup = Inr None"
    by (simp add: reduce_maintenance_phase_def)
  show ?case
  proof (cases "mt_journal s")
    case LJ_Absent
    then show ?thesis
      using 2 by (auto simp: absent intro!: wp_bind wp_record_evidence wp_succeed upholds_refused)
  next
    case (LJ_Valid r)
    let ?s = "s\<lparr>mt_faults := fs, mt_operation_id := Some (jr_operation_id r), mt_revision := jr_revision r\<rparr>"
    have "\<not> gate s"
      using assms LJ_Valid by auto
    moreover have "settled (jr_phase r)"
      if "jr_phase r \<notin> {JP_PreparingMaintenance, JP_InstallingIntent, JP_Relaunching, JP_Recovering}"
      using that by (cases "jr_phase r") (simp_all add: settled_def)
    ultimately show ?thesis
      using 2 LJ_Valid
      by (auto intro!: wp_bind wp_update startup_preparing_upholds startup_uncertain_upholds startup_terminal_upholds)
  qed (use 2 in \<open>auto simp: fail_closed_def safe_from_def automatic_activation_allowed_def
      intro!: wp_bind wp_update wp_record_evidence wp_succeed upholds_frame\<close>)
qed

text \<open>A reconciliation that succeeds leaves the gate in order.\<close>

lemma wp_attempt_isl:
  "wp f (\<lambda>r s'. \<forall>v. r = Inr v \<longrightarrow> wp (g v) (\<lambda>r s'. isl r \<or> P s') s') s \<Longrightarrow>
     wp (attempt f g) (\<lambda>r s'. isl r \<or> P s') s"
  by (auto simp: attempt_def wp_def split: prod.splits sum.splits)

lemma clear_owned_absent: "wp (clear_owned w) (\<lambda>r s'. \<forall>v. r = Inr v \<longrightarrow> mt_journal s' = LJ_Absent) s"
  unfolding clear_owned_def
  by (rule wp_attempt, rule wp_mono [where Q = "\<lambda>_ _. True"])
    (auto simp: wp_iff [of _ "\<lambda>_ _. True"] intro!: wp_file_write split: sum.split)

lemma cleared_gate:
  assumes "\<And>s. mt_journal s = LJ_Absent \<Longrightarrow> wp (g ()) (\<lambda>r s'. isl r \<or> gate s') s"
  shows "wp (attempt (clear_owned w) g) (\<lambda>r s'. isl r \<or> gate s') s"
  by (rule wp_attempt_isl [OF wp_mono [OF clear_owned_absent]]) (use assms in auto)

lemma wp_anything: "(\<And>r s'. Q r s') \<Longrightarrow> wp f Q s"
  by (simp add: wp_iff)

lemma startup_gates:
  "wp (startup_preparing self r) (\<lambda>r s'. isl r \<or> gate s') s"
  "wp (startup_uncertain self r) (\<lambda>r s'. isl r \<or> gate s') s"
  "wp (startup_terminal self r) (\<lambda>r s'. isl r \<or> gate s') s"
proof -
  have reconfirmed: "wp (do { take_record self w reason reconciliation True;
      record_evidence self origin input target disposition (Some w); succeed () }) (\<lambda>r s'. isl r \<or> gate s') s"
    if "mt_journal s = LJ_Absent" for w reason reconciliation origin input target disposition s
    using that by (auto intro!: wp_bind wp_take_record wp_record_evidence wp_succeed simp: gate_def)
  show "wp (startup_preparing self r) (\<lambda>r s'. isl r \<or> gate s') s"
    unfolding startup_preparing_def
    by (intro wp_case_sum wp_raise wp_attempt_isl [OF wp_anything] allI impI cleared_gate reconfirmed) simp_all
  show "wp (startup_terminal self r) (\<lambda>r s'. isl r \<or> gate s') s"
    unfolding startup_terminal_def
    by (intro wp_case_sum wp_raise cleared_gate reconfirmed) simp_all
  show "wp (startup_uncertain self r) (\<lambda>r s'. isl r \<or> gate s') s"
    unfolding startup_uncertain_def Let_def
    by (intro wp_case_sum wp_raise wp_attempt_isl [OF wp_anything] allI impI wp_bind wp_take_recovery
        wp_record_evidence wp_succeed)
      (simp_all add: gate_def automatic_activation_allowed_def snapshot_for_def)
qed

lemma reconcile_gate:
  assumes "mt_journal s = LJ_Absent \<Longrightarrow> gate s"
  shows "wp (reconcile_startup self) (\<lambda>r s'. isl r \<or> gate s') s"
  unfolding reconcile_startup_def
proof (intro wp_attempt wp_load_journal, goal_cases)
  case (2 fs)
  show ?case
  proof (cases "mt_journal s")
    case LJ_Absent
    then show ?thesis
      by (auto intro!: wp_case_sum wp_raise wp_bind wp_record_evidence wp_succeed simp: gate_def)
  next
    case (LJ_Valid r)
    then show ?thesis
      by (auto intro!: wp_bind wp_update startup_gates)
  qed (auto simp: fail_closed_def gate_def automatic_activation_allowed_def
      intro!: wp_bind wp_update wp_record_evidence wp_succeed)
qed auto

end
