(* ===== verification/Maintenance_Intent.thy ===== *)
theory Maintenance_Intent
  imports Maintenance_Laws
begin

text \<open>
  A committed installation is not forgotten: while its record is in the journal in a phase after the point of
  no return, only a call that finishes this very maintenance takes it out of there. \<open>intact r\<close> is the
  postcondition of every other call.
\<close>

definition committed :: "journal_phase \<Rightarrow> bool" where
  "committed p \<longleftrightarrow> p \<in> {JP_InstallingIntent, JP_Relaunching, JP_Recovering}"

definition keeps :: "journal_record \<Rightarrow> loaded_journal \<Rightarrow> bool" where
  "keeps r j = (case j of LJ_Valid r' \<Rightarrow> same_maintenance r r' \<and> committed (jr_phase r') | _ \<Rightarrow> False)"

definition intact :: "journal_record \<Rightarrow> maintenance_error + 'a \<Rightarrow> maintenance_state \<Rightarrow> bool" where
  "intact r x s \<longleftrightarrow> keeps r (mt_journal s)"

lemma keepsE:
  assumes "keeps r j"
  obtains r' where "j = LJ_Valid r'" "same_maintenance r r'" "committed (jr_phase r')"
  using assms by (cases j) (auto simp: keeps_def)

lemma keeps_valid [simp]: "keeps r (LJ_Valid r') \<longleftrightarrow> same_maintenance r r' \<and> committed (jr_phase r')"
  by (simp add: keeps_def)

lemma same_maintenance_trans: "same_maintenance r r' \<Longrightarrow> same_maintenance r' r'' \<Longrightarrow> same_maintenance r r''"
  by (simp add: same_maintenance_def)

lemma keeps_absent [simp]: "\<not> keeps r LJ_Absent"
  by (simp add: keeps_def)

section \<open>Rules\<close>

lemma attempt_assoc: "attempt (attempt f g) h = attempt f (\<lambda>x. attempt (g x) h)"
  by (simp add: attempt_def State_Monad.bind_def fun_eq_iff split_beta split: sum.split)

lemma intact_raise: "keeps r (mt_journal s) \<Longrightarrow> wp (raise e) (intact r) s"
  by (auto intro!: wp_raise simp: intact_def)

lemma intact_succeed: "keeps r (mt_journal s) \<Longrightarrow> wp (succeed v) (intact r) s"
  by (auto intro!: wp_succeed simp: intact_def)

lemma intact_read:
  assumes "keeps r (mt_journal s)"
    and "\<And>r' fs. mt_journal s = LJ_Valid r' \<Longrightarrow> wp (g (Some r')) (intact r) (s\<lparr>mt_faults := fs\<rparr>)"
  shows "wp (attempt read_record g) (intact r) s"
  using assms by (intro wp_attempt wp_read_record) (auto simp: intact_def)

lemma intact_reconfirm:
  assumes "keeps r (mt_journal s)" and "mt_journal s = LJ_Valid r'"
    and "\<And>fs. wp (g ()) (intact r) (s\<lparr>mt_faults := fs\<rparr>)"
  shows "wp (attempt (reconfirm_record_durability r') g) (intact r) s"
  using assms by (intro wp_attempt wp_reconfirm [of _ r']) (auto simp: intact_def)

lemma intact_write:
  assumes "keeps r (mt_journal s)" and "keeps r (LJ_Valid w)"
    and "\<And>fs. wp (g ()) (intact r) (s\<lparr>mt_faults := fs, mt_file := mt_file s @ [LJ_Valid w]\<rparr>)"
  shows "wp (attempt (write_record self w) g) (intact r) s"
  using assms by (intro wp_attempt wp_write_record) (auto simp: intact_def)

lemma intact_owned_for:
  assumes "keeps r (mt_journal s)"
    and "\<And>r' fs. mt_journal s = LJ_Valid r' \<Longrightarrow> jr_operation_id r' = oid \<Longrightarrow> wp (g r') (intact r) (s\<lparr>mt_faults := fs\<rparr>)"
  shows "wp (attempt (owned_record_for_operation self oid) g) (intact r) s"
proof -
  have "attempt (owned_record_for_operation self oid) g = attempt read_record (\<lambda>current.
      attempt (case current of
         None \<Rightarrow> raise ME_OperationMismatch
       | Some r \<Rightarrow> if jr_operation_id r \<noteq> oid \<or> \<not> owns_record self r then raise ME_OperationMismatch else succeed r) g)"
    unfolding owned_record_for_operation_def by (rule attempt_assoc)
  then show ?thesis
    using assms by (auto intro!: intact_read wp_attempt [OF wp_raise] wp_attempt [OF wp_succeed] simp: intact_def)
qed

lemma intact_owned:
  assumes "keeps r (mt_journal s)"
    and "\<And>r' fs. mt_journal s = LJ_Valid r' \<Longrightarrow> jr_operation_id r' = oid \<Longrightarrow> wp (g r') (intact r) (s\<lparr>mt_faults := fs\<rparr>)"
  shows "wp (attempt (owned_record self oid revision) g) (intact r) s"
proof -
  have "attempt (owned_record self oid revision) g = attempt (owned_record_for_operation self oid)
      (\<lambda>r. attempt (if jr_revision r \<noteq> revision then raise ME_StaleRevision else succeed r) g)"
    unfolding owned_record_def by (rule attempt_assoc)
  then show ?thesis
    using assms by (auto intro!: intact_owned_for wp_attempt [OF wp_raise] wp_attempt [OF wp_succeed] simp: intact_def)
qed

lemma attempt_succeed: "attempt (succeed v) g = g v"
  by (simp add: attempt_def succeed_def State_Monad.bind_def State_Monad.return_def)

lemma intact_advance:
  assumes "keeps r (mt_journal s)" and "mt_journal s = LJ_Valid r'" and "committed p"
    and "\<And>x. same_maintenance x (adapt x) \<and> jr_phase (adapt x) = jr_phase x"
    and "\<And>w fs. keeps r (LJ_Valid w) \<Longrightarrow> wp (g w) (intact r) (s\<lparr>mt_faults := fs, mt_file := mt_file s @ [LJ_Valid w]\<rparr>)"
  shows "wp (attempt (write_advanced self r' p adapt) g) (intact r) s"
proof (cases "checked_add (jr_revision r') 1")
  case None
  then show ?thesis
    using assms(1) by (auto simp: write_advanced_def advance_revision_def intact_def intro!: wp_attempt wp_raise)
next
  case (Some a)
  let ?w = "adapt (r'\<lparr>jr_revision := a, jr_phase := p\<rparr>)"
  have "same_maintenance r r'"
    using assms(1,2) by simp
  then have keep: "keeps r (LJ_Valid ?w)"
    using assms(3) assms(4) [of "r'\<lparr>jr_revision := a, jr_phase := p\<rparr>"] by (simp add: same_maintenance_def)
  have "wp (attempt (write_record self ?w) (\<lambda>_. g ?w)) (intact r) s"
    by (rule intact_write [OF assms(1) keep]) (rule assms(5) [OF keep])
  then show ?thesis
    using Some
    by (simp add: write_advanced_def advance_revision_def attempt_assoc attempt_succeed Let_def)
qed

lemma intact_bookkeeping:
  assumes "keeps r (mt_journal s)"
  shows "wp (do { take_record self w reason reconciliation allowed;
                  record_evidence self origin input target disposition w'; succeed v }) (intact r) s"
    and "wp (do { take_recovery self w reconciliation;
                  record_evidence self origin input target disposition w'; succeed v }) (intact r) s"
    and "wp (do { record_evidence self origin input target disposition w'; succeed v }) (intact r) s"
    and "wp (do { record_evidence self origin input target disposition w'; raise e }) (intact r) s"
  using assms by (auto intro!: wp_bind wp_take_record wp_take_recovery wp_record_evidence wp_succeed wp_raise simp: intact_def)

lemma intact_duplicate:
  assumes "keeps r (mt_journal s)" and "mt_journal s = LJ_Valid r'"
  shows "wp (reconfirm_nonterminal_duplicate self r' input) (intact r) s"
  unfolding reconfirm_nonterminal_duplicate_def
  using assms by (auto intro!: wp_bind [OF wp_get] intact_reconfirm intact_bookkeeping)

lemma intact_cleanup:
  assumes "keeps r (mt_journal s)" and "jr_operation_id r \<noteq> oid \<or> \<not> committed terminal"
  shows "wp (finish_terminal_cleanup self oid terminal input from disposition) (intact r) s"
proof -
  have other: "jr_operation_id r' \<noteq> oid \<or> jr_phase r' \<noteq> terminal" if "mt_journal s = LJ_Valid r'" for r'
    using that assms by (auto simp: same_maintenance_def)
  have "wp (clear_terminal_owned self oid revision terminal) (\<lambda>x s'. isl x \<and> keeps r (mt_journal s')) s" for revision
    unfolding clear_terminal_owned_def
    by (intro wp_attempt wp_read_record) (use assms(1) other in \<open>auto intro!: wp_raise\<close>)
  then have cleanup: "wp (clear_terminal_owned self oid revision terminal) (\<lambda>x. wp (case x of
        Inl err \<Rightarrow> f err | Inr c \<Rightarrow> g c) (intact r)) s"
    if "\<And>err s'. keeps r (mt_journal s') \<Longrightarrow> wp (f err) (intact r) s'" for revision f and g :: "_ \<Rightarrow> u64 maintained"
    by (rule wp_mono) (auto simp: isl_def that)
  show ?thesis
    unfolding finish_terminal_cleanup_def
  proof (rule wp_bind [OF wp_get], rule wp_if)
    show "wp (do { record_evidence self (mt_phase s) input (mt_phase s) ''duplicate'' None;
        succeed (mt_revision s) }) (intact r) s"
      by (rule intact_bookkeeping [OF assms(1)])
  qed (rule wp_bind, rule cleanup, rule intact_bookkeeping)
qed

section \<open>The calls\<close>

lemma intact_begin:
  assumes "keeps r (mt_journal s)"
  shows "wp (begin_maintenance self request) (intact r) s"
proof -
  have "wp (attempt read_record (\<lambda>current. case current of
        Some r' \<Rightarrow> if duplicates_request self request r' then f r' else raise ME_Busy | None \<Rightarrow> g)) (intact r) s"
    for f and g :: "u64 maintained"
    by (rule intact_read [OF assms])
      (use assms in \<open>auto simp: duplicates_request_def committed_def intro!: intact_raise\<close>)
  then show ?thesis
    using assms unfolding begin_maintenance_def by (auto intro!: intact_raise wp_bind [OF wp_get] split: sum.split)
qed

lemma intact_transition:
  assumes "keeps r (mt_journal s)" and "machine_input \<in> {MI_InstallingIntent, MI_Relaunching}"
  shows "wp (transition_to self oid revision machine_input input) (intact r) s"
proof -
  have moves: "next_phase (Some p) machine_input = Inr q \<Longrightarrow> committed p \<Longrightarrow> committed q" for p q
    using assms(2) by (auto simp: next_phase_def reduce_maintenance_phase_def phase_of_def committed_def)
  have step: "wp (case next_phase (Some (jr_phase r')) machine_input of
        Inl err \<Rightarrow> raise err
      | Inr phase \<Rightarrow>
          if jr_phase r' = phase then reconfirm_nonterminal_duplicate self r' input
          else attempt (write_advanced self r' phase id) (\<lambda>written.
            do { take_record self written None MR_UnknownOutcome False;
                 record_evidence self (mt_phase s) input (Some (jr_phase written)) ''applied'' (Some written);
                 succeed (jr_revision written) })) (intact r) s1"
    if "mt_journal s1 = LJ_Valid r'" "mt_journal s = LJ_Valid r'" for r' s1
  proof -
    have keep: "keeps r (mt_journal s1)" "committed (jr_phase r')"
      using that assms(1) by simp_all
    show ?thesis
    proof (intro wp_case_sum wp_if)
      fix p
      assume "next_phase (Some (jr_phase r')) machine_input = Inr p"
      then have "committed p"
        using moves keep(2) by blast
      then show "wp (attempt (write_advanced self r' p id) (\<lambda>written.
            do { take_record self written None MR_UnknownOutcome False;
                 record_evidence self (mt_phase s) input (Some (jr_phase written)) ''applied'' (Some written);
                 succeed (jr_revision written) })) (intact r) s1"
        by (intro intact_advance [OF keep(1) that(1)] intact_bookkeeping) (simp_all add: same_maintenance_def)
    qed (use keep that in \<open>simp_all add: intact_raise intact_duplicate\<close>)
  qed
  show ?thesis
    unfolding transition_to_def
  proof (rule wp_bind [OF wp_get], rule intact_owned_for [OF assms(1)], goal_cases)
    case (1 r' fs)
    then show ?case
      by (intro wp_case_option wp_if step) (use assms(1) in \<open>simp_all add: intact_raise intact_duplicate\<close>)
  qed
qed

text \<open>A call that is to settle a maintenance finds a committed record of another one, or cannot settle it.\<close>

lemma intact_preparation:
  assumes "keeps r (mt_journal s)"
    and "terminal = JP_Cancelled \<or> terminal = JP_Failed \<and> jr_operation_id r \<noteq> oid"
  shows "wp (finish_preparation self oid revision terminal) (intact r) s"
proof -
  obtain machine_input input reason rejected where pre:
    "preparation_terminal terminal = Some (machine_input, input, reason, rejected)"
    and mi: "terminal = JP_Cancelled \<Longrightarrow> machine_input = MI_Cancel"
    using assms(2) by (auto simp: preparation_terminal_def)
  have other: "jr_operation_id r' \<noteq> oid \<or> jr_phase r' \<noteq> terminal" "committed (jr_phase r')"
    and refused: "jr_operation_id r' = oid \<Longrightarrow>
      \<exists>e. reduce_maintenance_phase (Some (jr_phase r')) machine_input = Inl e"
    if "mt_journal s = LJ_Valid r'" for r'
    using that assms mi
    by (auto simp: same_maintenance_def committed_def reduce_maintenance_phase_def)
  show ?thesis
    unfolding finish_preparation_def pre option.case prod.case
  proof (rule wp_bind [OF wp_get], intro wp_if, goal_cases)
    case 1
    show ?case
      by (rule intact_cleanup [OF assms(1)]) (use assms(2) in \<open>auto simp: committed_def\<close>)
  next
    case 2
    show ?case
    proof (rule intact_read [OF assms(1)], goal_cases)
      case (1 r' fs)
      have none: "(if jr_operation_id r' = oid \<and> a \<and> b \<and> jr_phase r' = terminal \<and> c then Some r' else None) = None" for a b c
        using other(1) [OF 1] by auto
      show ?case
        unfolding option.case none
      proof (rule intact_owned, goal_cases)
        case (2 r'' fs')
        then obtain e where "reduce_maintenance_phase (Some (jr_phase r'')) machine_input = Inl e"
          using refused [of r''] by auto
        then show ?case
          using assms(1) by (simp add: intact_bookkeeping)
      qed (use assms(1) in simp)
    qed
  qed
qed

lemma intact_recovery:
  assumes "keeps r (mt_journal s)" and "jr_operation_id r \<noteq> oid"
  shows "wp (finish_recovery self oid revision terminal input) (intact r) s"
proof -
  have other: "jr_operation_id r' \<noteq> oid" if "mt_journal s = LJ_Valid r'" for r'
    using that assms by (auto simp: same_maintenance_def)
  show ?thesis
    unfolding finish_recovery_def
  proof (rule wp_bind [OF wp_get], intro wp_if, goal_cases)
    case 1
    show ?case
      by (rule intact_cleanup [OF assms(1)]) (use assms(2) in simp)
  next
    case 2
    show ?case
    proof (rule intact_read [OF assms(1)], goal_cases)
      case (1 r' fs)
      have none: "(if jr_operation_id r' = oid \<and> a then Some r' else None) = None" for a
        using other [OF 1] by auto
      show ?case
        unfolding option.case none
      proof (rule intact_owned, goal_cases)
        case (2 r'' fs')
        then show ?case
          using other by simp
      qed (use assms(1) in simp)
    qed
  qed
qed

text \<open>Retiring the runtime, and a new process, take a committed record over for recovery.\<close>

lemma committed_taken_over:
  assumes "committed p" and "i \<in> {MI_Startup, MI_RuntimeRetired}"
  shows "next_phase (Some p) i = Inr JP_Recovering"
  using assms by (auto simp: committed_def next_phase_def reduce_maintenance_phase_def phase_of_def)

lemma recovered_same [simp]: "same_maintenance r (recovered_by self r') = same_maintenance r r'"
  "jr_phase (recovered_by self r') = jr_phase r'"
  by (simp_all add: recovered_by_def same_maintenance_def)

lemma same_maintenance_refl [simp]: "same_maintenance r r"
  by (simp add: same_maintenance_def)

lemma intact_unknown_outcome:
  assumes "keeps r (mt_journal s)"
  shows "wp (transition_any_unknown_outcome self oid revision) (intact r) s"
  unfolding transition_any_unknown_outcome_def
proof (rule wp_bind [OF wp_get], rule intact_owned [OF assms], goal_cases)
  case (1 r' fs)
  then have keep: "committed (jr_phase r')" "keeps r (mt_journal (s\<lparr>mt_faults := fs\<rparr>))"
    and r': "mt_journal (s\<lparr>mt_faults := fs\<rparr>) = LJ_Valid r'"
    using assms by simp_all
  show ?case
    unfolding committed_taken_over [OF keep(1), of MI_RuntimeRetired, simplified] sum.case
  proof (rule wp_if)
    show "wp (reconfirm_nonterminal_duplicate self r' ''runtime-retired'') (intact r) (s\<lparr>mt_faults := fs\<rparr>)"
      by (rule intact_duplicate [OF keep(2) r'])
  qed (rule intact_advance [OF keep(2) r'], simp_all add: committed_def intact_bookkeeping)
qed

lemma intact_retire:
  assumes "keeps r (mt_journal s)"
  shows "wp (retire_runtime self) (intact r) s"
  unfolding retire_runtime_def
proof (rule intact_read [OF assms], unfold option.case, goal_cases)
  case (1 r' fs)
  have ignored: "wp (attempt f (\<lambda>_. succeed ())) (intact r) s'" if "wp f (intact r) s'" for f :: "u64 maintained" and s'
    by (rule wp_attempt [OF wp_mono [OF that]]) (auto simp: intact_def intro!: wp_succeed split: sum.split)
  show ?case
    using 1 assms
    by (auto intro!: wp_if ignored intact_unknown_outcome intact_succeed wp_bind wp_get wp_record_evidence
        simp: committed_def)
qed

lemma intact_startup:
  assumes "keeps r (mt_journal s)"
  shows "wp (reconcile_startup self) (intact r) s"
proof -
  obtain r' where r': "mt_journal s = LJ_Valid r'" and keep: "same_maintenance r r'" "committed (jr_phase r')"
    using assms by (rule keepsE)
  have uncertain: "wp (startup_uncertain self r') (intact r) s1" if "mt_journal s1 = LJ_Valid r'" for s1
    unfolding startup_uncertain_def committed_taken_over [OF keep(2), of MI_Startup, simplified] sum.case
  proof (rule wp_case_sum)
    show "wp (raise e) (intact r) s1" for e
      using that keep by (simp add: intact_raise)
  next
    fix advanced
    assume "(if JP_Recovering \<noteq> jr_phase r' then advance_revision r' else Inr r') = Inr advanced"
    then have "same_maintenance r' advanced"
      by (auto simp: advance_revision_def same_maintenance_def split: if_splits option.splits)
    then have "same_maintenance r (advanced\<lparr>jr_phase := JP_Recovering\<rparr>)"
      using keep(1) by (simp add: same_maintenance_def)
    then show "wp (let written = recovered_by self (advanced\<lparr>jr_phase := JP_Recovering\<rparr>)
               in attempt (write_record self written) (\<lambda>_.
                    do { take_recovery self written (version_reconciliation self r');
                         record_evidence self (Some (jr_phase r')) ''startup'' (Some JP_Recovering) ''recovery-required''
                           (Some written);
                         succeed () })) (intact r) s1"
      unfolding Let_def
      by (intro intact_write intact_bookkeeping) (use that keep in \<open>simp_all add: committed_def\<close>)
  qed
  have "wp (do { State_Monad.update (\<lambda>s. s\<lparr>mt_operation_id := Some (jr_operation_id r'), mt_revision := jr_revision r'\<rparr>);
                (if jr_phase r' = JP_PreparingMaintenance then startup_preparing self r'
                 else if jr_phase r' \<in> {JP_InstallingIntent, JP_Relaunching, JP_Recovering}
                 then startup_uncertain self r'
                 else startup_terminal self r') }) (intact r) (s\<lparr>mt_faults := fs\<rparr>)" for fs
    by (rule wp_bind, rule wp_update) (use keep(2) r' in \<open>auto simp: committed_def intro!: uncertain\<close>)
  then show ?thesis
    unfolding reconcile_startup_def
    by (intro wp_attempt wp_load_journal) (use assms r' in \<open>auto simp: intact_def\<close>)
qed

end
