(* ===== verification/Maintenance_Properties.thy ===== *)
theory Maintenance_Properties
  imports Maintenance_Intent
begin

text \<open>
  Runs of the maintenance authority over any number of processes: calls under any faults of the file system,
  and starts of new processes on the journal that is left. A process that dies inside a call is the call with a
  fault, followed by a start.
\<close>

section \<open>Processes, calls and starts\<close>

datatype maintenance_call =
    MC_Begin maintenance_request
  | MC_InstallingIntent string u64
  | MC_Relaunching string u64
  | MC_Cancel string u64
  | MC_FailPreparation string u64
  | MC_Complete string u64
  | MC_FailRecovery string u64
  | MC_Retire

definition ignoring :: "u64 maintained \<Rightarrow> unit maintained" where
  "ignoring f = attempt f (\<lambda>_. succeed ())"

fun perform :: "('v::linorder) maintenance_self \<Rightarrow> maintenance_call \<Rightarrow> unit maintained" where
  "perform self (MC_Begin request) = ignoring (begin_maintenance self request)"
| "perform self (MC_InstallingIntent oid revision) = ignoring (mark_installing_intent self oid revision)"
| "perform self (MC_Relaunching oid revision) = ignoring (mark_relaunching self oid revision)"
| "perform self (MC_Cancel oid revision) = ignoring (cancel_maintenance self oid revision)"
| "perform self (MC_FailPreparation oid revision) = ignoring (fail_preparation self oid revision)"
| "perform self (MC_Complete oid revision) = ignoring (complete_recovery self oid revision)"
| "perform self (MC_FailRecovery oid revision) = ignoring (fail_recovery self oid revision)"
| "perform self MC_Retire = retire_runtime self"

text \<open>A session is the journal alone, or a process with its authority over the journal.\<close>

datatype 'v session = Closed loaded_journal | Open "'v maintenance_self" maintenance_state

datatype 'v event = Call maintenance_call "fault list" | Start "'v maintenance_self" "fault list"

fun journal_of :: "'v session \<Rightarrow> loaded_journal" where
  "journal_of (Closed j) = j"
| "journal_of (Open _ s) = mt_journal s"

fun serve :: "('v::linorder) session \<Rightarrow> 'v event \<Rightarrow> 'v session" where
  "serve (Open self s) (Call c faults) = Open self (snd (run_state (perform self c) (s\<lparr>mt_faults := faults\<rparr>)))"
| "serve (Closed j) (Call c faults) = Closed j"
| "serve session (Start self faults) =
     (case open_authority self (journal_of session) faults of
        (Inr _, s) \<Rightarrow> Open self s
      | (Inl _, s) \<Rightarrow> Closed (mt_journal s))"

section \<open>What every event upholds\<close>

lemma ignoring_upholds: "wp f (upholds self s) s \<Longrightarrow> wp (ignoring f) (upholds self s) s"
  unfolding ignoring_def
  by (erule wp_attempt [OF wp_mono]) (auto simp: upholds_def intro!: wp_succeed split: sum.split)

lemma perform_upholds: "wp (perform self c) (upholds self s) s"
  by (cases c)
    (auto simp: mark_installing_intent_def mark_relaunching_def cancel_maintenance_def fail_preparation_def
      complete_recovery_def fail_recovery_def
      intro!: ignoring_upholds begin_upholds transition_upholds finish_preparation_upholds finish_recovery_upholds
        retire_upholds)

lemma open_cases:
  assumes "open_authority self j fs = (r, s)"
  shows "upholds self (runtime_idle (mf_observed_version self) j fs) r s \<and> (isl r \<or> gate s)"
proof -
  let ?idle = "runtime_idle (mf_observed_version self) j fs"
  have idle: "gate s \<longleftrightarrow> mt_journal ?idle = LJ_Absent"
    if "mt_snapshot s = mt_snapshot ?idle" "mt_file s = mt_file ?idle" for s
    using that by (auto simp: gate_def automatic_activation_allowed_def runtime_idle_def idle_snapshot_def)
  have "wp (attempt sync_directory (\<lambda>_. reconcile_startup self))
      (\<lambda>r s'. upholds self ?idle r s' \<and> (isl r \<or> gate s')) ?idle"
    unfolding sync_directory_def
    by (intro wp_attempt wp_file_read)
      (auto simp: idle upholds_read_failed intro!: wp_conj upholds_after_read reconcile_upholds reconcile_gate)
  then have reconciled: "upholds self ?idle r s \<and> (isl r \<or> gate s)"
    if "run_state (attempt sync_directory (\<lambda>_. reconcile_startup self)) ?idle = (r, s)"
    using that wp_run by fastforce
  show ?thesis
  proof (cases "validate_version self (mf_observed_version self)")
    case (Inl e)
    then have "e \<noteq> ME_JournalUnsafe"
      by (auto simp: validate_version_def split: if_splits)
    moreover have "r = Inl e" "s = ?idle"
      using assms Inl by (simp_all add: open_authority_def)
    ultimately show ?thesis
      by (auto intro!: upholds_frame)
  next
    case (Inr u)
    then show ?thesis
      using assms reconciled by (simp add: open_authority_def)
  qed
qed

lemma serve_cases:
  assumes "serve session e = session'"
  obtains (idle) j c fs where "session = Closed j" "e = Call c fs" "session' = session"
  | (call) self s c fs x s' where "session = Open self s" "e = Call c fs" "session' = Open self s'"
      "run_state (perform self c) (s\<lparr>mt_faults := fs\<rparr>) = (x, s')" "upholds self (s\<lparr>mt_faults := fs\<rparr>) x s'"
  | (start) self fs x s' where "e = Start self fs" "open_authority self (journal_of session) fs = (x, s')"
      "upholds self (runtime_idle (mf_observed_version self) (journal_of session) fs) x s'"
      "session' = (if isl x then Closed (mt_journal s') else Open self s')" "isl x \<or> gate s'"
proof (cases e)
  case (Call c fs)
  show ?thesis
  proof (cases session)
    case (Open self s)
    show ?thesis
      by (rule call [OF Open Call _ surjective_pairing perform_upholds [unfolded wp_iff]])
        (use assms Open Call in simp)
  next
    case (Closed j)
    show ?thesis
      by (rule idle [OF Closed Call]) (use assms Closed Call in simp)
  qed
next
  case (Start self fs)
  obtain x s' where op: "open_authority self (journal_of session) fs = (x, s')"
    by fastforce
  then have "session' = (if isl x then Closed (mt_journal s') else Open self s')"
    using assms Start by (cases session; cases x) auto
  then show ?thesis
    using start [OF Start op] open_cases [OF op] by blast
qed

text \<open>What an event, and a run, writes to the journal file, in order; removing the file writes \<open>LJ_Absent\<close>.\<close>

fun written :: "('v::linorder) session \<Rightarrow> 'v event \<Rightarrow> loaded_journal list" where
  "written (Open self s) (Call c faults) =
     drop (length (mt_file s)) (mt_file (snd (run_state (perform self c) (s\<lparr>mt_faults := faults\<rparr>))))"
| "written (Closed j) (Call c faults) = []"
| "written session (Start self faults) = tl (mt_file (snd (open_authority self (journal_of session) faults)))"

fun writes :: "('v::linorder) session \<Rightarrow> 'v event list \<Rightarrow> loaded_journal list" where
  "writes session [] = []"
| "writes session (e # events) = written session e @ writes (serve session e) events"

lemma serve_written:
  "successively journal_step (journal_of session # written session e)
     \<and> last (journal_of session # written session e) = journal_of (serve session e)"
proof (rule serve_cases [OF refl, of session e], goal_cases)
  case (1 j c fs)
  then show ?case by simp
next
  case (2 self s c fs x s')
  then obtain contents where "mt_file s' = mt_file s @ contents" "successively journal_step (mt_journal s # contents)"
    by (auto simp: upholds_def wrote_def)
  then show ?case
    using 2 by (cases contents) auto
next
  case (3 self fs x s')
  then obtain contents where "mt_file s' = journal_of session # contents"
    "successively journal_step (journal_of session # contents)"
    by (auto simp: upholds_def wrote_def runtime_idle_def)
  moreover have "written session e = tl (mt_file s')"
    using 3(1,2) by (cases session) simp_all
  ultimately show ?case
    using 3(4) by simp
qed

lemma successively_joined:
  assumes "successively P (x # ys)" and "successively P (last (x # ys) # zs)"
  shows "successively P (x # ys @ zs) \<and> last (x # ys @ zs) = last (last (x # ys) # zs)"
  using assms successively_append_iff [of P "x # ys" zs] by (cases zs) simp_all

lemma writes_steps:
  "successively journal_step (journal_of session # writes session events)
     \<and> last (journal_of session # writes session events) = journal_of (foldl serve session events)"
proof (induction events arbitrary: session)
  case (Cons e events)
  have "successively journal_step (last (journal_of session # written session e) # writes (serve session e) events)"
    using Cons [of "serve session e"] serve_written [of session e] by argo
  from successively_joined [OF conjunct1 [OF serve_written] this] show ?case
    using Cons [of "serve session e"] serve_written [of session e]
    unfolding writes.simps foldl_Cons by argo
qed simp

fun faults_of :: "'v event \<Rightarrow> fault list" where
  "faults_of (Call c faults) = faults"
| "faults_of (Start self faults) = faults"

definition gated :: "'v session \<Rightarrow> bool" where
  "gated session = (case session of Closed _ \<Rightarrow> True | Open _ s \<Rightarrow> gate s)"

lemma serve_gated:
  assumes "gated session" and "\<nexists>err. Fails_After err \<in> set (faults_of e)"
  shows "gated (serve session e)"
  by (rule serve_cases [OF refl, of session e])
    (use assms in \<open>auto simp: gated_def upholds_def torn_def gate_def automatic_activation_allowed_def\<close>)

lemma served_gated:
  assumes "gated session" and "list_all (\<lambda>e. \<nexists>err. Fails_After err \<in> set (faults_of e)) events"
  shows "gated (foldl serve session events)"
  using assms by (induction events arbitrary: session) (auto intro: serve_gated)

section \<open>The runs that lose nothing\<close>

fun settles :: "'v event \<Rightarrow> string \<Rightarrow> bool" where
  "settles (Call (MC_FailPreparation oid _) _) oid' \<longleftrightarrow> oid = oid'"
| "settles (Call (MC_Complete oid _) _) oid' \<longleftrightarrow> oid = oid'"
| "settles (Call (MC_FailRecovery oid _) _) oid' \<longleftrightarrow> oid = oid'"
| "settles _ _ \<longleftrightarrow> False"

lemma ignoring_intact: "wp f (intact r) s \<Longrightarrow> wp (ignoring f) (intact r) s"
  unfolding ignoring_def
  by (erule wp_attempt [OF wp_mono]) (auto simp: intact_def intro!: wp_succeed split: sum.split)

lemma perform_intact:
  assumes "keeps r (mt_journal s)" and "\<not> settles (Call c fs) (jr_operation_id r)"
  shows "wp (perform self c) (intact r) s"
  using assms
  by (cases c)
    (auto simp: mark_installing_intent_def mark_relaunching_def cancel_maintenance_def fail_preparation_def
      complete_recovery_def fail_recovery_def
      intro!: ignoring_intact intact_begin intact_transition intact_preparation intact_recovery intact_retire)

lemma open_keeps:
  assumes "keeps r j" and "open_authority self j fs = (x, s)"
  shows "keeps r (mt_journal s)"
proof -
  let ?idle = "runtime_idle (mf_observed_version self) j fs"
  have "wp (attempt sync_directory (\<lambda>_. reconcile_startup self)) (intact r) ?idle"
    unfolding sync_directory_def
    by (intro wp_attempt wp_file_read) (use assms(1) in \<open>auto simp: runtime_idle_def intact_def intro!: intact_startup\<close>)
  then have "run_state (attempt sync_directory (\<lambda>_. reconcile_startup self)) ?idle = (x, s) \<Longrightarrow> intact r x s"
    by (rule wp_run)
  then show ?thesis
    using assms by (auto simp: open_authority_def intact_def runtime_idle_def Let_def split: sum.splits)
qed

lemma serve_keeps:
  assumes "keeps r (journal_of session)" and "\<not> settles e (jr_operation_id r)"
  shows "keeps r (journal_of (serve session e))"
proof (rule serve_cases [OF refl, of session e])
  fix self s c fs x s'
  assume "session = Open self s" "e = Call c fs" "serve session e = Open self s'"
    and run: "run_state (perform self c) (s\<lparr>mt_faults := fs\<rparr>) = (x, s')"
  moreover have "intact r x s'" if "keeps r (mt_journal s)" "\<not> settles (Call c fs) (jr_operation_id r)"
    by (rule wp_run [OF perform_intact run]) (use that in simp_all)
  ultimately show ?thesis
    using assms by (auto simp: intact_def)
next
  fix self fs x s'
  assume "open_authority self (journal_of session) fs = (x, s')"
    and "serve session e = (if isl x then Closed (mt_journal s') else Open self s')"
  then show ?thesis
    using open_keeps [OF assms(1)] by simp
qed (use assms in simp)

lemma served_keeps:
  assumes "keeps r (journal_of session)" and "list_all (\<lambda>e. \<not> settles e (jr_operation_id r)) events"
  shows "keeps r (journal_of (foldl serve session events))"
  using assms by (induction events arbitrary: session) (auto intro: serve_keeps)

section \<open>Runs without faults\<close>

text \<open>What an event answers; a call without an authority is not made.\<close>

fun answer_of :: "('v::linorder) session \<Rightarrow> 'v event \<Rightarrow> maintenance_error + unit" where
  "answer_of (Open self s) (Call c faults) = fst (run_state (perform self c) (s\<lparr>mt_faults := faults\<rparr>))"
| "answer_of (Closed j) (Call c faults) = Inr ()"
| "answer_of session (Start self faults) = fst (open_authority self (journal_of session) faults)"

text \<open>Events without faults, of processes with a digest for an authority that read versions the same way.\<close>

definition faultless :: "(string \<Rightarrow> 'v option) \<Rightarrow> 'v event \<Rightarrow> bool" where
  "faultless parse e \<longleftrightarrow> faults_of e = []
     \<and> (case e of Start self _ \<Rightarrow> mf_parse_version self = parse \<and> valid_digest (mf_authority_sha256 self) | _ \<Rightarrow> True)"

definition readable :: "(string \<Rightarrow> ('v::linorder) option) \<Rightarrow> loaded_journal \<Rightarrow> bool" where
  "readable parse = sound \<lparr>mf_authority_sha256 = [], mf_observed_version = [], mf_parse_version = parse, mf_digest = id\<rparr>"

definition orderly :: "(string \<Rightarrow> ('v::linorder) option) \<Rightarrow> 'v session \<Rightarrow> bool" where
  "orderly parse session \<longleftrightarrow> readable parse (journal_of session)
     \<and> (case session of Open self s \<Rightarrow>
           mf_parse_version self = parse \<and> valid_digest (mf_authority_sha256 self) \<and> shown s | Closed _ \<Rightarrow> True)"

lemma readable_sound: "readable parse j = sound self j" if "mf_parse_version self = parse"
  using that by (simp add: readable_def sound_def validate_record_def validate_version_def split: loaded_journal.split)

lemma serve_orderly:
  fixes parse :: "string \<Rightarrow> ('v::linorder) option"
  assumes "orderly parse session" and "faultless parse e"
  shows "orderly parse (serve session e) \<and> answer_of session e \<noteq> Inl ME_JournalUnsafe"
proof (rule serve_cases [OF refl, of session e])
  fix j c fs
  assume "session = Closed j" "e = Call c fs" "serve session e = session"
  then show ?thesis
    using assms by simp
next
  fix self s c fs x s'
  assume 1: "session = Open self s" "e = Call c fs" "serve session e = Open self s'"
    "run_state (perform self c) (s\<lparr>mt_faults := fs\<rparr>) = (x, s')" "upholds self (s\<lparr>mt_faults := fs\<rparr>) x s'"
  have "safe_from self (s\<lparr>mt_faults := fs\<rparr>)"
    using assms 1(1,2) readable_sound [of self parse]
    by (auto simp: orderly_def faultless_def safe_from_def faulty_def shown_def)
  then show ?thesis
    using assms 1 readable_sound [of self parse]
    by (auto simp: orderly_def upholds_def safe_from_def shown_def)
next
  fix self :: "'v maintenance_self" and fs x s'
  let ?idle = "runtime_idle (mf_observed_version self) (journal_of session) fs"
  assume 1: "e = Start self fs" "open_authority self (journal_of session) fs = (x, s')" "upholds self ?idle x s'"
    "serve session e = (if isl x then Closed (mt_journal s') else Open self s')"
  have "safe_from self ?idle"
    using assms 1(1) readable_sound [of self parse]
    by (auto simp: orderly_def faultless_def safe_from_def faulty_def shown_def runtime_idle_def)
  moreover have "answer_of session e = x"
    using 1 by (cases session) simp_all
  ultimately show ?thesis
    using assms 1 readable_sound [of self parse]
    by (auto simp: orderly_def faultless_def upholds_def safe_from_def)
qed

lemma served_orderly:
  assumes "orderly parse session" and "list_all (faultless parse) events"
  shows "orderly parse (foldl serve session events)"
  using assms by (induction events arbitrary: session) (auto dest: serve_orderly)

section \<open>Recovery after a restart\<close>

lemma run_attempt:
  "run_state (attempt f g) s = (case run_state f s of (Inl e, s') \<Rightarrow> (Inl e, s') | (Inr v, s') \<Rightarrow> run_state (g v) s')"
  by (simp add: attempt_def split_beta split: sum.split)

lemma run_undisturbed:
  assumes "mt_faults s = []"
  shows "run_state file_access s = (Inr (), s)"
    and "run_state (file_write c) s = (Inr (), s\<lparr>mt_file := mt_file s @ [c]\<rparr>)"
    and "run_state load_for_reconciliation s = (Inr (mt_journal s), s)"
    and "mt_journal s = LJ_Valid r \<Longrightarrow> run_state read_record s = (Inr (Some r), s)"
    and "validate_record self r \<Longrightarrow> run_state (write_record self r) s = (Inr (), s\<lparr>mt_file := mt_file s @ [LJ_Valid r]\<rparr>)"
    and "mt_journal s = LJ_Valid r \<Longrightarrow> run_state (clear_owned r) s = (Inr (), s\<lparr>mt_file := mt_file s @ [LJ_Absent]\<rparr>)"
proof -
  show access: "run_state file_access s = (Inr (), s)"
    using assms by (simp add: file_access_def next_fault_def succeed_def)
  show replace: "run_state (file_write c) s = (Inr (), s\<lparr>mt_file := mt_file s @ [c]\<rparr>)" for c
    using assms by (simp add: file_write_def next_fault_def succeed_def State_Monad.update_def)
  show load: "run_state load_for_reconciliation s = (Inr (mt_journal s), s)"
    by (simp add: load_for_reconciliation_def run_attempt access succeed_def)
  then show reading: "mt_journal s = LJ_Valid r \<Longrightarrow> run_state read_record s = (Inr (Some r), s)"
    by (simp add: read_record_def run_attempt succeed_def)
  show "validate_record self r \<Longrightarrow> run_state (write_record self r) s = (Inr (), s\<lparr>mt_file := mt_file s @ [LJ_Valid r]\<rparr>)"
    by (simp add: write_record_def replace)
  show "mt_journal s = LJ_Valid r \<Longrightarrow> run_state (clear_owned r) s = (Inr (), s\<lparr>mt_file := mt_file s @ [LJ_Absent]\<rparr>)"
    by (simp add: clear_owned_def expect_record_def run_attempt reading succeed_def replace)
qed

lemmas run_simps = run_undisturbed run_attempt succeed_def raise_def record_evidence_def take_record_def
  take_recovery_def State_Monad.update_def Let_def

text \<open>A process that holds a recovery of its own, with nothing in its way.\<close>

definition recovering :: "('v::linorder) maintenance_self \<Rightarrow> journal_record \<Rightarrow> maintenance_state \<Rightarrow> bool" where
  "recovering self w s \<longleftrightarrow>
     mt_faults s = [] \<and> mt_journal s = LJ_Valid w \<and> validate_record self w \<and> jr_phase w = JP_Recovering
     \<and> jr_recovery_authority w = Some (mf_authority_sha256 self) \<and> mt_revision s = jr_revision w
     \<and> mt_phase s = Some JP_Recovering"

lemma recovery_completes:
  assumes "recovering self w s"
  shows "\<exists>s'. run_state (complete_recovery self (jr_operation_id w) (mt_revision s)) s = (Inr (mt_revision s'), s')
    \<and> mt_journal s' = LJ_Absent \<and> automatic_activation_allowed s'"
proof -
  note s = assms [unfolded recovering_def]
  obtain a where a: "checked_add (jr_revision w) 1 = Some a" "advance_revision w = Inr (w\<lparr>jr_revision := a\<rparr>)"
    using s valid_record_advances by metis
  let ?w = "w\<lparr>jr_revision := a, jr_phase := JP_Completed\<rparr>"
  have valid: "validate_record self ?w"
    by (rule advanced_valid [of _ w JP_Completed a]) (use s a in auto)
  have phase: "next_phase (Some JP_Recovering) MI_Complete = Inr JP_Completed"
    by (simp add: next_phase_def reduce_maintenance_phase_def phase_of_def)
  show ?thesis
    using s valid phase a
    by (simp add: complete_recovery_def finish_recovery_def terminal_cleanup_due_def run_simps owned_record_def
        owned_record_for_operation_def owns_record_def write_advanced_def finish_terminal_cleanup_def already_cleared_def
        snapshot_for_def clear_terminal_owned_def owns_terminal_def automatic_activation_allowed_def)
qed

lemma restart_recovering:
  assumes "validate_record self r" and "committed (jr_phase r)" and "valid_digest (mf_authority_sha256 self)"
    and "validate_version self (mf_observed_version self) = Inr ()"
  shows "\<exists>w s. open_authority self (LJ_Valid r) [] = (Inr (), s) \<and> recovering self w s
    \<and> jr_operation_id w = jr_operation_id r"
proof -
  note phase = committed_taken_over [OF assms(2), of MI_Startup, simplified]
  have not_preparing: "jr_phase r \<noteq> JP_PreparingMaintenance"
    using assms(2) by (auto simp: committed_def)
  have uncertain: "jr_phase r = JP_InstallingIntent \<or> jr_phase r = JP_Relaunching \<or> jr_phase r = JP_Recovering"
    using assms(2) by (simp add: committed_def)
  have reached: "\<exists>w s. open_authority self (LJ_Valid r) [] = (Inr (), s) \<and> recovering self w s
      \<and> jr_operation_id w = jr_operation_id r"
    if "(if JP_Recovering \<noteq> jr_phase r then advance_revision r else Inr r) = Inr advanced"
      "validate_record self (recovered_by self (advanced\<lparr>jr_phase := JP_Recovering\<rparr>))"
      "jr_operation_id advanced = jr_operation_id r" for advanced
    using that assms(4) phase not_preparing uncertain
    by (simp add: open_authority_def sync_directory_def reconcile_startup_def startup_uncertain_def run_simps
        runtime_idle_def recovering_def recovered_by_def)
  show ?thesis
  proof (cases "jr_phase r = JP_Recovering")
    case True
    then have eq: "r\<lparr>jr_phase := JP_Recovering\<rparr> = r"
      by (cases r) simp
    show ?thesis
      by (rule reached [of r, unfolded eq]) (use True recovering_taken_over [OF assms(1) True assms(3)] in simp_all)
  next
    case False
    then have step: "phase_step (jr_phase r) JP_Recovering"
      using uncertain by auto
    obtain a where a: "checked_add (jr_revision r) 1 = Some a" "advance_revision r = Inr (r\<lparr>jr_revision := a\<rparr>)"
      using assms(1) valid_record_advances by metis
    have "validate_record self (recovered_by self (r\<lparr>jr_revision := a, jr_phase := JP_Recovering\<rparr>))"
      by (rule advanced_valid [OF assms(1) step a(1)]) (simp add: assms(3))
    then show ?thesis
      using reached [of "r\<lparr>jr_revision := a\<rparr>"] False a(2) by simp
  qed
qed

section \<open>The properties\<close>

text \<open>A first process with version 1 of the application, a second one with version 11, and an update between them.\<close>

definition demo_process :: "char \<Rightarrow> string \<Rightarrow> nat maintenance_self" where
  "demo_process c version =
     \<lparr>mf_authority_sha256 = replicate 64 c, mf_observed_version = version, mf_parse_version = \<lambda>v. Some (length v),
      mf_digest = id\<rparr>"

definition demo_request :: maintenance_request where
  "demo_request =
     \<lparr>mq_operation_id = ''op-1'', mq_admitted_revision = 7, mq_current_version = ''1'', mq_expected_version = ''11'',
      mq_capture_intent = CI_None, mq_capture_ownership = None\<rparr>"

definition demo_events :: "nat event list" where
  "demo_events =
     [Start (demo_process CHR ''a'' ''1'') [], Call (MC_Begin demo_request) [],
      Call (MC_InstallingIntent ''op-1'' 7) [], Call (MC_Cancel ''op-1'' 8) [],
      Call (MC_Relaunching ''op-1'' 8) [No_Fault, Fails_After ME_JournalIo],
      Start (demo_process CHR ''b'' ''11'') []]"

definition demo_calls :: "nat event list" where
  "demo_calls =
     [Start (demo_process CHR ''a'' ''1'') [], Call (MC_Begin demo_request) [], Call (MC_Cancel ''op-1'' 7) []]"

definition demo_committed :: journal_record where
  "demo_committed = (request_record (demo_process CHR ''a'' ''1'') demo_request JP_InstallingIntent)\<lparr>jr_revision := 8\<rparr>"

text \<open>
  C28: whatever is called, whichever file operations fail and however often the application is restarted,
  every single write of the journal file is one step of a maintenance's life: a record only appears where there is
  none, as a preparation at its admitted revision; a record is only replaced by the same maintenance, in a phase that
  follows and with its revision one higher, or taken over by another process while it is recovering; only a settled
  record is removed; and a journal that cannot be read is never touched. The last write is the journal the run leaves.
\<close>

theorem maintenance_refines_journal:
  "successively journal_step (journal_of session # writes session events)
     \<and> last (journal_of session # writes session events) = journal_of (foldl serve session events)"
  by (rule writes_steps)

text \<open>
  C29: once the intent to install has been committed, the journal holds this maintenance in one of the
  phases after the point of no return, through any calls, file faults and restarts, until somebody completes or
  fails this very operation; a cancel, another operation, a retired runtime or a crash does not lose it.
\<close>

theorem maintenance_intent_survives:
  assumes "keeps r (journal_of session)" and "list_all (\<lambda>e. \<not> settles e (jr_operation_id r)) events"
  shows "keeps r (journal_of (foldl serve session events))"
  by (rule served_keeps [OF assms])

theorem maintenance_intent_survives_witness:
  "keeps demo_committed (journal_of (foldl serve (Closed (LJ_Valid demo_committed)) demo_events))"
  by (rule maintenance_intent_survives; code_simp)

text \<open>
  C30: automatic activation is only ever allowed while no maintenance is in the journal, for every
  process that opened its authority, whatever it called and whichever file operations failed before they took
  effect.
\<close>

theorem maintenance_activation_gate:
  assumes "list_all (\<lambda>e. \<nexists>err. Fails_After err \<in> set (faults_of e)) events"
    and "foldl serve (Closed j) events = Open self s" and "automatic_activation_allowed s"
  shows "mt_journal s = LJ_Absent"
  using served_gated [OF _ assms(1), of "Closed j"] assms(2,3) by (simp add: gated_def gate_def)

theorem maintenance_activation_gate_witness:
  "\<exists>self s. foldl serve (Closed LJ_Absent) demo_calls = Open self s \<and> automatic_activation_allowed s
     \<and> mt_journal s = LJ_Absent"
proof -
  let ?session = "foldl serve (Closed LJ_Absent) demo_calls"
  have "case ?session of Open _ s \<Rightarrow> automatic_activation_allowed s | Closed _ \<Rightarrow> False"
    by code_simp
  then obtain self s where s: "?session = Open self s" "automatic_activation_allowed s"
    by (cases ?session) auto
  have "mt_journal s = LJ_Absent"
    by (rule maintenance_activation_gate [OF _ s]) (simp add: demo_calls_def)
  then show ?thesis
    using s by blast
qed

text \<open>
  While no file operation fails, no call and no start ever answers that the journal is unsafe: every
  record the authority is about to write passes its own validation, and every journal it leaves is readable.
\<close>

theorem maintenance_never_unsafe:
  assumes "readable parse j" and "list_all (faultless parse) events" and "faultless parse e"
  shows "answer_of (foldl serve (Closed j) events) e \<noteq> Inl ME_JournalUnsafe"
  using serve_orderly [OF served_orderly [OF _ assms(2), of "Closed j"] assms(3)] assms(1)
  by (simp add: orderly_def)

text \<open>
  C31: a process that starts on the journal of a committed maintenance takes the recovery over, may
  complete it under the revision it then has, and is allowed to activate again with the journal gone.
\<close>

theorem maintenance_restart_recovers:
  assumes "validate_record self r" and "committed (jr_phase r)" and "valid_digest (mf_authority_sha256 self)"
    and "validate_version self (mf_observed_version self) = Inr ()"
  shows "\<exists>s s'. open_authority self (LJ_Valid r) [] = (Inr (), s)
    \<and> run_state (complete_recovery self (jr_operation_id r) (mt_revision s)) s = (Inr (mt_revision s'), s')
    \<and> \<not> automatic_activation_allowed s \<and> mt_journal s' = LJ_Absent \<and> automatic_activation_allowed s'"
proof -
  obtain w s where s: "open_authority self (LJ_Valid r) [] = (Inr (), s)" "recovering self w s"
    "jr_operation_id w = jr_operation_id r"
    using restart_recovering [OF assms] by blast
  then have "gate s" "mt_journal s \<noteq> LJ_Absent"
    using open_cases [OF s(1)] by (auto simp: recovering_def)
  then show ?thesis
    using s recovery_completes [OF s(2)] by (auto simp: gate_def)
qed

theorem maintenance_restart_recovers_witness:
  "\<exists>s s'. open_authority (demo_process CHR ''b'' ''11'') (LJ_Valid demo_committed) [] = (Inr (), s)
    \<and> run_state (complete_recovery (demo_process CHR ''b'' ''11'') (jr_operation_id demo_committed) (mt_revision s)) s
        = (Inr (mt_revision s'), s')
    \<and> \<not> automatic_activation_allowed s \<and> mt_journal s' = LJ_Absent \<and> automatic_activation_allowed s'"
  by (rule maintenance_restart_recovers; code_simp)

end
