(* ===== verification/Helper_Publication.thy ===== *)
theory Helper_Publication
  imports Tun_Helper
begin

text \<open>
  How the settings service shows a helper lifecycle to its subscribers, \<^verbatim>\<open>crates/settings/src/lib.rs\<close>: an operation
  is admitted under a new revision, moves from pending to finalizing and ends with an outcome; an operation id
  that was seen before is answered with the snapshot of the moment. Of a settings snapshot the model keeps the
  operation, and logs each one that is broadcast, the newest first.
\<close>

section \<open>Operations\<close>

datatype settings_error =
    SV_CapabilityUnavailable
  | SV_Persistence
  | SV_Startup
  | SV_TunHelper helper_failure_kind
  | SV_WindowSurface
  | SV_Busy

datatype operation_phase = PH_Idle | PH_Pending | PH_Finalizing | PH_Terminal

datatype operation_outcome =
    OU_Applied
  | OU_AuthorizationCancelled
  | OU_AuthorizationFailed
  | OU_ObservationIncomplete
  | OU_RemovalFailed
  | OU_Removed
  | OU_RecoveryRequired
  | OU_ShutdownFailed

record operation_snapshot =
  ops_admitted_revision :: u64
  ops_failure :: "helper_failure_kind option"
  ops_operation :: "lifecycle_operation option"
  ops_operation_id :: "string option"
  ops_outcome :: "operation_outcome option"
  ops_phase :: operation_phase

definition operation_snapshot_default :: operation_snapshot where
  "operation_snapshot_default =
     \<lparr>ops_admitted_revision = 0, ops_failure = None, ops_operation = None, ops_operation_id = None, ops_outcome = None,
      ops_phase = PH_Idle\<rparr>"

record operation_identity =
  oi_admitted_revision :: u64
  oi_operation :: lifecycle_operation
  oi_operation_id :: string

definition HISTORY_LIMIT :: nat where
  "HISTORY_LIMIT = 16"

record lifecycle_state =
  ls_active :: "operation_identity option"
  ls_latest :: operation_snapshot
  ls_next_revision :: u64
  ls_seen :: "operation_identity list"
  ls_published :: "operation_snapshot list"

definition lifecycle_default :: lifecycle_state where
  "lifecycle_default =
     \<lparr>ls_active = None, ls_latest = operation_snapshot_default, ls_next_revision = 1, ls_seen = [], ls_published = []\<rparr>"

record publication =
  pb_active :: bool
  pb_duplicate_snapshot :: "operation_snapshot option"
  pb_identity :: operation_identity

definition publish_current_snapshot :: "lifecycle_state \<Rightarrow> lifecycle_state" where
  "publish_current_snapshot s = s\<lparr>ls_published := ls_latest s # ls_published s\<rparr>"

definition begin_lifecycle_with_identity ::
  "(string \<Rightarrow> string option) \<Rightarrow> lifecycle_operation \<Rightarrow> string \<Rightarrow> lifecycle_state
     \<Rightarrow> (settings_error + publication) \<times> lifecycle_state" where
  "begin_lifecycle_with_identity parse_uuid operation oid s =
     (if parse_uuid oid = None \<or> 96 < length oid then (Inl SV_Busy, s)
      else case find (\<lambda>identity. oi_operation_id identity = oid) (ls_seen s) of
             Some previous \<Rightarrow>
               if oi_operation previous \<noteq> operation then (Inl SV_Busy, s)
               else (Inr \<lparr>pb_active = False, pb_duplicate_snapshot = Some (ls_latest s), pb_identity = previous\<rparr>, s)
           | None \<Rightarrow>
               if ls_active s \<noteq> None then (Inl SV_Busy, s)
               else let identity = \<lparr>oi_admitted_revision = ls_next_revision s, oi_operation = operation,
                                    oi_operation_id = oid\<rparr>;
                        seen = ls_seen s @ [identity]
                    in (Inr \<lparr>pb_active = True, pb_duplicate_snapshot = None, pb_identity = identity\<rparr>,
                        publish_current_snapshot
                          (s\<lparr>ls_next_revision := saturating_add (ls_next_revision s) 1, ls_active := Some identity,
                             ls_seen := (if HISTORY_LIMIT < length seen then tl seen else seen),
                             ls_latest := \<lparr>ops_admitted_revision = oi_admitted_revision identity, ops_failure = None,
                               ops_operation = Some operation, ops_operation_id = Some oid, ops_outcome = None,
                               ops_phase = PH_Pending\<rparr>\<rparr>)))"

definition update_lifecycle :: "operation_identity \<Rightarrow> operation_phase \<Rightarrow> lifecycle_state \<Rightarrow> lifecycle_state" where
  "update_lifecycle identity phase s =
     publish_current_snapshot
       (if ls_active s = Some identity then s\<lparr>ls_latest := (ls_latest s)\<lparr>ops_phase := phase\<rparr>\<rparr> else s)"

definition finish_lifecycle ::
  "operation_identity \<Rightarrow> operation_outcome \<Rightarrow> helper_failure_kind option \<Rightarrow> lifecycle_state \<Rightarrow> lifecycle_state" where
  "finish_lifecycle identity outcome failure s =
     publish_current_snapshot
       (if ls_active s = Some identity
        then s\<lparr>ls_active := None, ls_latest := (ls_latest s)\<lparr>ops_failure := failure, ops_outcome := Some outcome,
               ops_phase := PH_Terminal\<rparr>\<rparr>
        else s)"

definition publication_finalizing :: "publication \<Rightarrow> lifecycle_state \<Rightarrow> lifecycle_state" where
  "publication_finalizing pub s =
     (if pb_duplicate_snapshot pub \<noteq> None then s else update_lifecycle (pb_identity pub) PH_Finalizing s)"

definition publication_finish_with ::
  "publication \<Rightarrow> operation_outcome \<Rightarrow> helper_failure_kind option \<Rightarrow> lifecycle_state \<Rightarrow> lifecycle_state" where
  "publication_finish_with pub outcome failure s =
     (if pb_duplicate_snapshot pub \<noteq> None then s else finish_lifecycle (pb_identity pub) outcome failure s)"

text \<open>
  The guard of an operation that is dropped before \<open>publication_finish_with\<close>, which clears \<^verbatim>\<open>active\<close>: an
  operation whose request does not come to its end is shown as in need of recovery.
\<close>

definition publication_drop :: "publication \<Rightarrow> lifecycle_state \<Rightarrow> lifecycle_state" where
  "publication_drop pub s =
     (if pb_active pub then finish_lifecycle (pb_identity pub) OU_RecoveryRequired (Some HF_OperationFailed) s else s)"

definition publication_correlation :: "publication \<Rightarrow> lifecycle_correlation" where
  "publication_correlation pub =
     \<lparr>lc_admitted_revision = oi_admitted_revision (pb_identity pub), lc_operation_id = oi_operation_id (pb_identity pub)\<rparr>"

text \<open>The helper as a settings snapshot shows it: an operation under way is projected onto it.\<close>

definition project_tun_helper_lifecycle :: "lifecycle_operation \<Rightarrow> helper_snapshot \<Rightarrow> helper_snapshot" where
  "project_tun_helper_lifecycle operation snapshot =
     (let shown = snapshot\<lparr>hs_phase := (case operation of LO_Install \<Rightarrow> HP_Installing | LO_Repair \<Rightarrow> HP_Repairing
                                        | LO_Remove \<Rightarrow> HP_Removing)\<rparr>
      in if hs_removal shown = RC_Available then shown\<lparr>hs_removal := RC_MaintenancePending\<rparr> else shown)"

definition shown_helper :: "helper_snapshot option \<Rightarrow> lifecycle_state \<Rightarrow> helper_snapshot" where
  "shown_helper helper s =
     (let snapshot = unwrap_or helper browser_unavailable
      in case ops_operation (ls_latest s) of
           Some operation \<Rightarrow>
             if ops_phase (ls_latest s) \<in> {PH_Pending, PH_Finalizing}
             then project_tun_helper_lifecycle operation snapshot else snapshot
         | None \<Rightarrow> snapshot)"

end
