(* ===== verification/Removal_Occurrences.thy ===== *)
theory Removal_Occurrences
  imports Tun_Helper Capture_Types
begin

text \<open>
  The record of TUN helper removals, \<^verbatim>\<open>crates/desktop-bridge/src/tun_helper_removal_occurrences.rs\<close>: a bounded
  journal with at most one removal under way, kept in memory or in a private file, that survives the process and
  turns an interrupted removal into a record of its own. The file is what reading it yields; a write of the file
  fails before or after its rename, as the environment answers. The bound of 32 KiB on the file is left out: sixteen
  records with their identifiers of thirty-six characters stay below half of it. Parsing a UUID and printing it again (crate
  \<^verbatim>\<open>uuid\<close>) is a field of \<open>removal_self\<close>.
\<close>

section \<open>Occurrences\<close>

datatype removal_outcome =
    RO_AuthorizationCancelled
  | RO_AuthorizationFailed
  | RO_ObservationIncomplete
  | RO_RemovalFailed
  | RO_Removed
  | RO_ShutdownFailed

datatype admitted_state =
    AS_NotInstalled
  | AS_RepairRequired
  | AS_Repairing
  | AS_Replacing
  | AS_Running
  | AS_Unknown

datatype removal_phase =
    RP_Admitted
  | RP_CaptureShutdown
  | RP_RemovalObservation
  | RP_PrivilegedMaintenance
  | RP_Completed

text \<open>The derived order of the phases, by the position of their constructors.\<close>

fun phase_rank :: "removal_phase \<Rightarrow> nat" where
  "phase_rank RP_Admitted = 0"
| "phase_rank RP_CaptureShutdown = 1"
| "phase_rank RP_RemovalObservation = 2"
| "phase_rank RP_PrivilegedMaintenance = 3"
| "phase_rank RP_Completed = 4"

instantiation removal_phase :: linorder
begin

definition less_eq_removal_phase :: "removal_phase \<Rightarrow> removal_phase \<Rightarrow> bool" where
  "less_eq_removal_phase p q \<longleftrightarrow> phase_rank p \<le> phase_rank q"

definition less_removal_phase :: "removal_phase \<Rightarrow> removal_phase \<Rightarrow> bool" where
  "less_removal_phase p q \<longleftrightarrow> phase_rank p < phase_rank q"

instance
proof
  fix p q :: removal_phase
  show "p \<le> q \<Longrightarrow> q \<le> p \<Longrightarrow> p = q"
    by (cases p; cases q) (simp_all add: less_eq_removal_phase_def)
qed (auto simp: less_eq_removal_phase_def less_removal_phase_def)

end

datatype observation_outcome = OO_ConfirmedSafe | OO_Foreign | OO_Incomplete | OO_NotStarted | OO_Removed | OO_Stale

datatype cleanup_outcome = CO_ConfirmedAbsent | CO_Incomplete | CO_NotRequired | CO_NotStarted

datatype occurrence_failure =
    OF_Capture capture_failure_kind
  | OF_Helper helper_failure_kind
  | OF_InstallationUnconfirmed
  | OF_ProcessInterrupted
  | OF_SettingsUnavailable

record occurrence =
  oc_admitted_revision :: u64
  oc_admitted_state :: admitted_state
  oc_cleanup :: cleanup_outcome
  oc_failure :: "occurrence_failure option"
  oc_lifecycle_phase :: removal_phase
  oc_observation :: observation_outcome
  oc_operation_id :: string
  oc_outcome :: removal_outcome

record active_occurrence =
  ac_admitted_revision :: u64
  ac_admitted_state :: admitted_state
  ac_cleanup :: cleanup_outcome
  ac_lifecycle_phase :: removal_phase
  ac_observation :: observation_outcome
  ac_operation_id :: string

record occurrence_journal =
  oj_active :: "active_occurrence option"
  oj_next_revision :: u64
  oj_records :: "occurrence list"
  oj_schema_version :: nat

definition OCCURRENCE_LIMIT :: nat where
  "OCCURRENCE_LIMIT = 16"

definition OCCURRENCE_SCHEMA_VERSION :: nat where
  "OCCURRENCE_SCHEMA_VERSION = 1"

definition journal_default :: occurrence_journal where
  "journal_default =
     \<lparr>oj_active = None, oj_next_revision = 1, oj_records = [], oj_schema_version = OCCURRENCE_SCHEMA_VERSION\<rparr>"

datatype persistence = PS_Memory | PS_PrivateFile | PS_Unavailable

record removal_self =
  rm_persistence :: persistence
  rm_parse_uuid :: "string \<Rightarrow> string option"

section \<open>Validation\<close>

definition valid_identity :: "removal_self \<Rightarrow> u64 \<Rightarrow> string \<Rightarrow> bool" where
  "valid_identity self revision oid \<longleftrightarrow> 0 < revision \<and> rm_parse_uuid self oid = Some oid"

definition active_sound :: "removal_self \<Rightarrow> active_occurrence \<Rightarrow> bool" where
  "active_sound self act \<longleftrightarrow>
     \<not> (\<not> valid_identity self (ac_admitted_revision act) (ac_operation_id act)
        \<or> ac_lifecycle_phase act = RP_Completed \<or> ac_cleanup act = CO_ConfirmedAbsent
        \<or> ac_observation act = OO_Removed)"

definition record_sound :: "removal_self \<Rightarrow> occurrence \<Rightarrow> bool" where
  "record_sound self r \<longleftrightarrow>
     \<not> (\<not> valid_identity self (oc_admitted_revision r) (oc_operation_id r)
        \<or> oc_outcome r = RO_Removed
          \<and> (oc_lifecycle_phase r \<noteq> RP_Completed \<or> oc_failure r \<noteq> None \<or> oc_cleanup r \<noteq> CO_ConfirmedAbsent
             \<or> oc_observation r \<noteq> OO_Removed)
        \<or> oc_outcome r \<noteq> RO_Removed
          \<and> (oc_failure r = None \<or> oc_lifecycle_phase r = RP_Completed \<or> oc_cleanup r = CO_ConfirmedAbsent
             \<or> oc_observation r = OO_Removed))"

text \<open>The loop over the records: the last revision and the operation ids seen, unless a record is out of order.\<close>

fun in_order :: "u64 \<Rightarrow> u64 \<Rightarrow> string list \<Rightarrow> occurrence list \<Rightarrow> (u64 \<times> string list) option" where
  "in_order next_revision prior operation_ids [] = Some (prior, operation_ids)"
| "in_order next_revision prior operation_ids (r # rs) =
     (if oc_admitted_revision r \<le> prior \<or> next_revision \<le> oc_admitted_revision r
         \<or> oc_operation_id r \<in> set operation_ids
      then None
      else in_order next_revision (oc_admitted_revision r) (oc_operation_id r # operation_ids) rs)"

definition journal_valid :: "removal_self \<Rightarrow> occurrence_journal \<Rightarrow> bool" where
  "journal_valid self j =
     (if oj_schema_version j \<noteq> OCCURRENCE_SCHEMA_VERSION \<or> oj_next_revision j = 0
         \<or> OCCURRENCE_LIMIT < length (oj_records j)
         \<or> is_some_and (oj_active j) (\<lambda>act. \<not> active_sound self act)
         \<or> list_ex (\<lambda>r. \<not> record_sound self r) (oj_records j)
      then False
      else case in_order (oj_next_revision j) 0 [] (oj_records j) of
             None \<Rightarrow> False
           | Some (prior, operation_ids) \<Rightarrow>
               \<not> is_some_and (oj_active j) (\<lambda>act.
                   ac_admitted_revision act \<le> prior \<or> oj_next_revision j \<le> ac_admitted_revision act
                   \<or> ac_operation_id act \<in> set operation_ids))"

section \<open>The store\<close>

datatype store_error = SE_Busy | SE_Invalid | SE_StaleOperation | SE_Storage

text \<open>What becomes of a write of the file: it may fail before the rename, or after it, when the directory is synchronised.\<close>

datatype write_fault = WF_None | WF_Before | WF_After

record removal_store =
  st_journal :: occurrence_journal
  st_reconcile_active :: bool
  st_file :: "occurrence_journal option"
  st_faults :: "write_fault list"

type_synonym 'a stored = "(removal_store, store_error + 'a) state"

text \<open>The operator \<^verbatim>\<open>?\<close>.\<close>

definition try_then :: "('s, 'e + 'a) state \<Rightarrow> ('a \<Rightarrow> ('s, 'e + 'b) state) \<Rightarrow> ('s, 'e + 'b) state" where
  "try_then f g = State_Monad.bind f (\<lambda>r. case r of Inl err \<Rightarrow> State_Monad.return (Inl err) | Inr v \<Rightarrow> g v)"

definition write_private_journal :: "removal_self \<Rightarrow> occurrence_journal \<Rightarrow> unit stored" where
  "write_private_journal self j =
     (if \<not> journal_valid self j then State_Monad.return (Inl SE_Invalid)
      else do {
        s \<leftarrow> State_Monad.get;
        case st_faults s of
          WF_Before # fs \<Rightarrow>
            do { State_Monad.update (\<lambda>s. s\<lparr>st_faults := fs\<rparr>); State_Monad.return (Inl SE_Storage) }
        | WF_After # fs \<Rightarrow>
            do { State_Monad.update (\<lambda>s. s\<lparr>st_file := Some j, st_faults := fs\<rparr>);
                 State_Monad.return (Inl SE_Storage) }
        | fs \<Rightarrow>
            do { State_Monad.update (\<lambda>s. s\<lparr>st_file := Some j, st_faults := tl fs\<rparr>); State_Monad.return (Inr ()) } })"

definition persist :: "removal_self \<Rightarrow> occurrence_journal \<Rightarrow> unit stored" where
  "persist self j =
     (if \<not> journal_valid self j then State_Monad.return (Inl SE_Invalid)
      else case rm_persistence self of
             PS_Memory \<Rightarrow> State_Monad.return (Inr ())
           | PS_PrivateFile \<Rightarrow> write_private_journal self j
           | PS_Unavailable \<Rightarrow> State_Monad.return (Inl SE_Storage))"

definition trim_records :: "occurrence list \<Rightarrow> occurrence list" where
  "trim_records records = pop_front_while_over OCCURRENCE_LIMIT records"

definition interrupted :: "active_occurrence \<Rightarrow> occurrence" where
  "interrupted act =
     \<lparr>oc_admitted_revision = ac_admitted_revision act, oc_admitted_state = ac_admitted_state act,
      oc_cleanup = (if RP_PrivilegedMaintenance \<le> ac_lifecycle_phase act then CO_Incomplete else CO_NotRequired),
      oc_failure = Some OF_ProcessInterrupted, oc_lifecycle_phase = ac_lifecycle_phase act,
      oc_observation = OO_Incomplete, oc_operation_id = ac_operation_id act,
      oc_outcome = RO_ObservationIncomplete\<rparr>"

definition retire_active :: "occurrence \<Rightarrow> occurrence_journal \<Rightarrow> occurrence_journal" where
  "retire_active r j = j\<lparr>oj_active := None, oj_records := trim_records (oj_records j @ [r])\<rparr>"

definition reconcile_interrupted_active :: "occurrence_journal \<Rightarrow> bool \<times> occurrence_journal" where
  "reconcile_interrupted_active j =
     (case oj_active j of
        None \<Rightarrow> (False, j)
      | Some act \<Rightarrow> (True, retire_active (interrupted act) j))"

definition in_memory :: removal_store where
  "in_memory = \<lparr>st_journal = journal_default, st_reconcile_active = False, st_file = None, st_faults = []\<rparr>"

text \<open>
  \<^verbatim>\<open>load_private_journal\<close> on a file that can be read: a file that is not a valid journal is refused.
\<close>

definition load_private_journal ::
  "removal_self \<Rightarrow> occurrence_journal option \<Rightarrow> store_error + occurrence_journal option" where
  "load_private_journal self file =
     (case file of
        None \<Rightarrow> Inr None
      | Some j \<Rightarrow> if journal_valid self j then Inr (Some j) else Inl SE_Invalid)"

definition open_private_file :: "removal_self \<Rightarrow> unit stored" where
  "open_private_file self =
     do { s \<leftarrow> State_Monad.get;
          case load_private_journal self (st_file s) of
            Inl err \<Rightarrow> State_Monad.return (Inl err)
          | Inr loaded \<Rightarrow>
              (case reconcile_interrupted_active (unwrap_or loaded journal_default) of
                 (changed, j) \<Rightarrow>
                   try_then
                     (if \<not> changed then State_Monad.return (Inr ())
                      else if \<not> journal_valid self j then State_Monad.return (Inl SE_Invalid)
                      else write_private_journal self j)
                     (\<lambda>_. do { State_Monad.update (\<lambda>s. s\<lparr>st_journal := j, st_reconcile_active := False\<rparr>);
                               State_Monad.return (Inr ()) })) }"

record removal_admission =
  ra_admitted_revision :: u64
  ra_operation_id :: string

text \<open>The journal takes over what has been persisted.\<close>

definition take_journal :: "occurrence_journal \<Rightarrow> bool \<Rightarrow> (removal_store, unit) state" where
  "take_journal j reconcile = State_Monad.update (\<lambda>s. s\<lparr>st_journal := j, st_reconcile_active := reconcile\<rparr>)"

definition settle_active_before_admission :: "removal_self \<Rightarrow> unit stored" where
  "settle_active_before_admission self =
     do { s \<leftarrow> State_Monad.get;
          if oj_active (st_journal s) = None then State_Monad.return (Inr ())
          else if \<not> st_reconcile_active s then State_Monad.return (Inl SE_Busy)
          else let reconciled = snd (reconcile_interrupted_active (st_journal s))
               in try_then (persist self reconciled) (\<lambda>_.
                    do { take_journal reconciled False; State_Monad.return (Inr ()) }) }"

definition admit :: "removal_self \<Rightarrow> string \<Rightarrow> admitted_state \<Rightarrow> removal_admission stored" where
  "admit self oid state =
     (if rm_parse_uuid self oid = None then State_Monad.return (Inl SE_Invalid)
      else try_then (settle_active_before_admission self) (\<lambda>_.
        do { s \<leftarrow> State_Monad.get;
             let journal = st_journal s in
             if list_ex (\<lambda>r. oc_operation_id r = oid) (oj_records journal)
             then State_Monad.return (Inl SE_Invalid)
             else case checked_add (oj_next_revision journal) 1 of
                    None \<Rightarrow> State_Monad.return (Inl SE_Invalid)
                  | Some next_revision \<Rightarrow>
                      let admitted_revision = oj_next_revision journal;
                          updated = journal\<lparr>oj_next_revision := next_revision, oj_active := Some
                            \<lparr>ac_admitted_revision = admitted_revision, ac_admitted_state = state,
                             ac_cleanup = CO_NotStarted, ac_lifecycle_phase = RP_Admitted,
                             ac_observation = OO_NotStarted, ac_operation_id = oid\<rparr>\<rparr>
                      in try_then (persist self updated) (\<lambda>_.
                           do { take_journal updated False;
                                State_Monad.return (Inr \<lparr>ra_admitted_revision = admitted_revision,
                                  ra_operation_id = oid\<rparr>) }) }))"

definition matching_active :: "occurrence_journal \<Rightarrow> removal_admission \<Rightarrow> store_error + active_occurrence" where
  "matching_active j admission =
     (case oj_active j of
        None \<Rightarrow> Inl SE_StaleOperation
      | Some act \<Rightarrow>
          if ac_operation_id act = ra_operation_id admission
             \<and> ac_admitted_revision act = ra_admitted_revision admission
          then Inr act else Inl SE_StaleOperation)"

text \<open>A journal whose write may have failed is kept in memory all the same.\<close>

definition persist_or_keep :: "removal_self \<Rightarrow> occurrence_journal \<Rightarrow> bool \<Rightarrow> 'a \<Rightarrow> 'a stored" where
  "persist_or_keep self updated reconcile_on_storage result =
     do { persisted \<leftarrow> persist self updated;
          case persisted of
            Inr _ \<Rightarrow> do { take_journal updated False; State_Monad.return (Inr result) }
          | Inl SE_Storage \<Rightarrow> do { take_journal updated reconcile_on_storage; State_Monad.return (Inl SE_Storage) }
          | Inl err \<Rightarrow> State_Monad.return (Inl err) }"

definition advance ::
  "removal_self \<Rightarrow> removal_admission \<Rightarrow> removal_phase \<Rightarrow> observation_outcome \<Rightarrow> cleanup_outcome \<Rightarrow> unit stored" where
  "advance self admission phase observation cleanup =
     do { s \<leftarrow> State_Monad.get;
          case matching_active (st_journal s) admission of
            Inl err \<Rightarrow> State_Monad.return (Inl err)
          | Inr act \<Rightarrow>
              if phase < ac_lifecycle_phase act then State_Monad.return (Inl SE_StaleOperation)
              else persist_or_keep self
                     ((st_journal s)\<lparr>oj_active := Some (act\<lparr>ac_lifecycle_phase := phase,
                        ac_observation := observation, ac_cleanup := cleanup\<rparr>)\<rparr>) True () }"

definition finished ::
  "active_occurrence \<Rightarrow> removal_outcome \<Rightarrow> occurrence_failure option \<Rightarrow> observation_outcome \<Rightarrow> cleanup_outcome
     \<Rightarrow> occurrence" where
  "finished act outcome failure observation cleanup =
     \<lparr>oc_admitted_revision = ac_admitted_revision act, oc_admitted_state = ac_admitted_state act,
      oc_cleanup = cleanup, oc_failure = failure,
      oc_lifecycle_phase = (if outcome = RO_Removed then RP_Completed else ac_lifecycle_phase act),
      oc_observation = observation, oc_operation_id = ac_operation_id act, oc_outcome = outcome\<rparr>"

definition finish ::
  "removal_self \<Rightarrow> removal_admission \<Rightarrow> removal_outcome \<Rightarrow> occurrence_failure option \<Rightarrow> observation_outcome
     \<Rightarrow> cleanup_outcome \<Rightarrow> occurrence stored" where
  "finish self admission outcome failure observation cleanup =
     do { s \<leftarrow> State_Monad.get;
          case matching_active (st_journal s) admission of
            Inl err \<Rightarrow> State_Monad.return (Inl err)
          | Inr act \<Rightarrow>
              let occurrence = finished act outcome failure observation cleanup;
                  updated = retire_active occurrence (st_journal s)
              in if \<not> journal_valid self updated then State_Monad.return (Inl SE_Invalid)
                 else persist_or_keep self updated False occurrence }"

definition store_records :: "removal_store \<Rightarrow> occurrence list" where
  "store_records s = oj_records (st_journal s)"

end
