(* ===== verification/Removal_Workflow.thy ===== *)
theory Removal_Workflow
  imports Helper_Publication Removal_Occurrences Proxy_Reconciler
begin

text \<open>
  The request \<^verbatim>\<open>settings.removeTunHelper\<close>, \<^verbatim>\<open>crates/desktop-bridge/src/protocol.rs\<close>: it admits the removal with
  the settings service and with the removal store, sees that the helper is installed, takes TUN out of the
  capture, confirms that the network is clear, and has the helper controller remove the helper, with each step in
  the store before it is taken and the outcome recorded, shown and notified. The capture is a component of its
  own; what the handler asks of it are fields of \<open>capture_port\<close>.
\<close>

section \<open>The state of the bridge\<close>

text \<open>
  The notices the handlers publish: one per step of a helper lifecycle, under a key of the operation, and one for a
  request that the settings service refused, with the failure it names. The latter is not pinned, has the severity of
  an error and a key with a new UUID, so that it never replaces another.
\<close>

record lifecycle_notice =
  nt_dedupe_key :: string
  nt_pinned :: bool
  nt_operation :: string
  nt_outcome :: string
  nt_failure :: "string option"
  nt_open_settings :: bool
  nt_severity :: string

datatype notice =
    NT_TunHelperLifecycle lifecycle_notice
  | NT_SettingsOperationFailed string

text \<open>
  The capture as the handlers of this file use it. Its operations may use the helper controller too, so they run on
  both states. The transaction lock is tried; the status is the capture selection, whether TUN and whether the System
  Proxy is enabled; the capabilities are those of the System Proxy and of TUN with the kind of the adapter. A profile
  activation, when there is one, launches the proxy; settings, when there are any, remember the selection.
\<close>

datatype status_adapter_kind = SA_Native | SA_Rpc

type_synonym ('c, 'w, 'a) captured = "('c \<times> 'w helper_state, 'a) state"

record ('c, 'w) capture_port =
  cp_try_lock :: "('c, 'w, bool) captured"
  cp_status :: "('c, 'w, capture_selection \<times> bool \<times> bool) captured"
  cp_capabilities :: "('c, 'w, status_adapter_kind \<times> capability_availability \<times> capability_availability) captured"
  cp_set_capture :: "capture_request \<Rightarrow> ('c, 'w, capture_error + unit) captured"
  cp_launch_proxy :: "(capture_selection \<Rightarrow> ('c, 'w, capture_error + unit) captured) option"
  cp_remember_selection :: "(capture_selection \<Rightarrow> ('c, 'w, settings_error + unit) captured) option"
  cp_record_failure :: "capture_error \<Rightarrow> ('c, 'w, unit) captured"
  cp_record_failure_for_selection :: "capture_error \<Rightarrow> capture_selection \<Rightarrow> ('c, 'w, unit) captured"

record ('c, 'w) bridge =
  bg_helper :: "'w helper_platform option"
  bg_removals :: removal_self
  bg_capture :: "('c, 'w) capture_port"

record ('c, 'w) bridge_state =
  br_lifecycle :: lifecycle_state
  br_removals :: removal_store
  br_helper :: "'w helper_state"
  br_capture :: 'c
  br_notices :: "notice list"

definition on_removals :: "(removal_store, 'a) state \<Rightarrow> (('c, 'w) bridge_state, 'a) state" where
  "on_removals f = State (\<lambda>s. case run_state f (br_removals s) of (r, t) \<Rightarrow> (r, s\<lparr>br_removals := t\<rparr>))"

definition on_helper :: "('w helper_state, 'a) state \<Rightarrow> (('c, 'w) bridge_state, 'a) state" where
  "on_helper f = State (\<lambda>s. case run_state f (br_helper s) of (r, t) \<Rightarrow> (r, s\<lparr>br_helper := t\<rparr>))"

definition on_capture :: "('c, 'w, 'a) captured \<Rightarrow> (('c, 'w) bridge_state, 'a) state" where
  "on_capture f =
     State (\<lambda>s. case run_state f (br_capture s, br_helper s) of (r, c, h) \<Rightarrow> (r, s\<lparr>br_capture := c, br_helper := h\<rparr>))"

definition on_lifecycle :: "(lifecycle_state \<Rightarrow> lifecycle_state) \<Rightarrow> (('c, 'w) bridge_state, unit) state" where
  "on_lifecycle f = State_Monad.update (\<lambda>s. s\<lparr>br_lifecycle := f (br_lifecycle s)\<rparr>)"

section \<open>Names and outcomes\<close>

text \<open>The kebab-case names that the serialisation gives the kinds.\<close>

fun helper_failure_id :: "helper_failure_kind \<Rightarrow> string" where
  "helper_failure_id HF_AuthorizationCancelled = ''authorization-cancelled''"
| "helper_failure_id HF_ConfirmationFailed = ''confirmation-failed''"
| "helper_failure_id HF_ConnectionFailed = ''connection-failed''"
| "helper_failure_id HF_IdentityRejected = ''identity-rejected''"
| "helper_failure_id HF_InstallationFailed = ''installation-failed''"
| "helper_failure_id HF_InstallerUnavailable = ''installer-unavailable''"
| "helper_failure_id HF_InvalidSignature = ''invalid-signature''"
| "helper_failure_id HF_MessageTooLarge = ''message-too-large''"
| "helper_failure_id HF_OperationFailed = ''operation-failed''"
| "helper_failure_id HF_ObservationForeign = ''observation-foreign''"
| "helper_failure_id HF_ObservationPartial = ''observation-partial''"
| "helper_failure_id HF_ObservationStale = ''observation-stale''"
| "helper_failure_id HF_PermissionDenied = ''permission-denied''"
| "helper_failure_id HF_PreparationFailed = ''preparation-failed''"
| "helper_failure_id HF_ProtocolMismatch = ''protocol-mismatch''"
| "helper_failure_id HF_RegistrationFailed = ''registration-failed''"
| "helper_failure_id HF_RegistrationRequiresApproval = ''registration-requires-approval''"
| "helper_failure_id HF_Unpackaged = ''unpackaged''"
| "helper_failure_id HF_UnsignedApp = ''unsigned-app''"
| "helper_failure_id HF_UnsupportedSystem = ''unsupported-system''"
| "helper_failure_id HF_VersionMismatch = ''version-mismatch''"

fun capture_failure_id :: "capture_failure_kind \<Rightarrow> string" where
  "capture_failure_id CF_ApplyFailed = ''apply-failed''"
| "capture_failure_id CF_CapabilityUnavailable = ''capability-unavailable''"
| "capture_failure_id CF_ConfirmationFailed = ''confirmation-failed''"
| "capture_failure_id CF_ConfigurationRequired = ''configuration-required''"
| "capture_failure_id CF_CoreUnhealthy = ''core-unhealthy''"
| "capture_failure_id CF_ExternalDrift = ''external-drift''"
| "capture_failure_id CF_InvalidRecovery = ''invalid-recovery''"
| "capture_failure_id CF_ListenerUnavailable = ''listener-unavailable''"
| "capture_failure_id CF_ObservationFailed = ''observation-failed''"
| "capture_failure_id CF_PermissionDenied = ''permission-denied''"
| "capture_failure_id CF_PersistenceFailed = ''persistence-failed''"
| "capture_failure_id CF_RollbackFailed = ''rollback-failed''"
| "capture_failure_id CF_RuntimeTransition = ''runtime-transition''"
| "capture_failure_id CF_TakeoverRejected = ''takeover-rejected''"
| "capture_failure_id CF_UnsafeExistingConfiguration = ''unsafe-existing-configuration''"
| "capture_failure_id CF_UnsupportedSelection = ''unsupported-selection''"

fun removal_outcome_id :: "removal_outcome \<Rightarrow> string" where
  "removal_outcome_id RO_AuthorizationCancelled = ''authorization-cancelled''"
| "removal_outcome_id RO_AuthorizationFailed = ''authorization-failed''"
| "removal_outcome_id RO_ObservationIncomplete = ''observation-incomplete''"
| "removal_outcome_id RO_RemovalFailed = ''removal-failed''"
| "removal_outcome_id RO_Removed = ''removed''"
| "removal_outcome_id RO_ShutdownFailed = ''shutdown-failed''"

fun notification_id :: "occurrence_failure \<Rightarrow> string" where
  "notification_id (OF_Capture kind) = capture_failure_id kind"
| "notification_id (OF_Helper kind) = helper_failure_id kind"
| "notification_id OF_InstallationUnconfirmed = ''helper-installation-unconfirmed''"
| "notification_id OF_ProcessInterrupted = ''process-interrupted''"
| "notification_id OF_SettingsUnavailable = ''capability-unavailable''"

fun settings_failure_id :: "settings_error \<Rightarrow> string" where
  "settings_failure_id (SV_TunHelper kind) = helper_failure_id kind"
| "settings_failure_id SV_CapabilityUnavailable = ''capability-unavailable''"
| "settings_failure_id SV_Persistence = ''persistence''"
| "settings_failure_id SV_Startup = ''startup''"
| "settings_failure_id SV_WindowSurface = ''window-surface''"
| "settings_failure_id SV_Busy = ''busy''"

fun tun_helper_operation_outcome :: "removal_outcome \<Rightarrow> operation_outcome" where
  "tun_helper_operation_outcome RO_AuthorizationCancelled = OU_AuthorizationCancelled"
| "tun_helper_operation_outcome RO_AuthorizationFailed = OU_AuthorizationFailed"
| "tun_helper_operation_outcome RO_ObservationIncomplete = OU_ObservationIncomplete"
| "tun_helper_operation_outcome RO_RemovalFailed = OU_RemovalFailed"
| "tun_helper_operation_outcome RO_Removed = OU_Removed"
| "tun_helper_operation_outcome RO_ShutdownFailed = OU_ShutdownFailed"

fun settings_tun_helper_failure :: "settings_error \<Rightarrow> helper_failure_kind option" where
  "settings_tun_helper_failure (SV_TunHelper kind) = Some kind"
| "settings_tun_helper_failure _ = None"

definition removal_admitted_state :: "helper_snapshot \<Rightarrow> admitted_state" where
  "removal_admitted_state snapshot =
     (case hs_phase snapshot of
        HP_Installing \<Rightarrow> AS_Replacing
      | HP_Repairing \<Rightarrow> AS_Repairing
      | _ \<Rightarrow>
          if hs_health snapshot = HH_NotInstalled then AS_NotInstalled
          else if hs_availability snapshot = HA_RepairRequired \<or> hs_phase snapshot = HP_Failed then AS_RepairRequired
          else if hs_health snapshot = HH_Healthy then AS_Running
          else AS_Unknown)"

fun settings_occurrence_failure :: "settings_error \<Rightarrow> occurrence_failure" where
  "settings_occurrence_failure (SV_TunHelper kind) = OF_Helper kind"
| "settings_occurrence_failure _ = OF_SettingsUnavailable"

fun settings_observation :: "settings_error \<Rightarrow> observation_outcome" where
  "settings_observation (SV_TunHelper HF_ObservationForeign) = OO_Foreign"
| "settings_observation (SV_TunHelper HF_ObservationStale) = OO_Stale"
| "settings_observation _ = OO_Incomplete"

definition capture_observation :: "capture_failure_kind \<Rightarrow> observation_outcome" where
  "capture_observation kind =
     (if kind \<in> {CF_ExternalDrift, CF_TakeoverRejected, CF_UnsafeExistingConfiguration} then OO_Foreign
      else OO_Incomplete)"

fun removal_cleanup_outcome :: "removal_outcome \<Rightarrow> cleanup_outcome" where
  "removal_cleanup_outcome RO_RemovalFailed = CO_Incomplete"
| "removal_cleanup_outcome RO_Removed = CO_ConfirmedAbsent"
| "removal_cleanup_outcome _ = CO_NotRequired"

definition removal_outcome_for_capture_failure :: "capture_failure_kind \<Rightarrow> removal_outcome" where
  "removal_outcome_for_capture_failure kind =
     (if kind \<in> {CF_ConfirmationFailed, CF_ExternalDrift, CF_ObservationFailed} then RO_ObservationIncomplete
      else RO_ShutdownFailed)"

definition removal_outcome_for_settings_failure :: "settings_error \<Rightarrow> removal_outcome" where
  "removal_outcome_for_settings_failure err =
     (case err of
        SV_TunHelper kind \<Rightarrow>
          if kind = HF_AuthorizationCancelled then RO_AuthorizationCancelled
          else if kind \<in> {HF_IdentityRejected, HF_PermissionDenied, HF_RegistrationFailed,
                          HF_RegistrationRequiresApproval} then RO_AuthorizationFailed
          else if kind \<in> {HF_ConfirmationFailed, HF_ConnectionFailed, HF_ObservationForeign, HF_ObservationPartial,
                          HF_ObservationStale, HF_ProtocolMismatch} then RO_ObservationIncomplete
          else RO_RemovalFailed
      | SV_CapabilityUnavailable \<Rightarrow> RO_ObservationIncomplete
      | _ \<Rightarrow> RO_RemovalFailed)"

section \<open>What the handler asks for\<close>

definition publish_tun_helper_lifecycle ::
  "string \<Rightarrow> string \<Rightarrow> string \<Rightarrow> string option \<Rightarrow> (('c, 'w) bridge_state, unit) state" where
  "publish_tun_helper_lifecycle oid operation outcome failure =
     (let pending = (outcome \<in> {''pending'', ''finalizing''});
          succeeded = (outcome \<in> {''applied'', ''removed''})
      in State_Monad.update (\<lambda>s. s\<lparr>br_notices :=
           NT_TunHelperLifecycle \<lparr>nt_dedupe_key = ''tun-helper.lifecycle:'' @ oid, nt_pinned = pending, nt_operation = operation,
            nt_outcome = outcome, nt_failure = failure, nt_open_settings = (\<not> (pending \<or> succeeded)),
            nt_severity =
              (if succeeded then ''success''
               else if outcome \<in> {''authorization-failed'', ''observation-incomplete'', ''removal-failed'',
                                 ''recovery-required'', ''shutdown-failed''} then ''error''
               else ''info'')\<rparr> # br_notices s\<rparr>))"

definition publish_removal_outcome ::
  "string \<Rightarrow> removal_outcome \<Rightarrow> string option \<Rightarrow> (('c, 'w) bridge_state, unit) state" where
  "publish_removal_outcome oid outcome failure =
     publish_tun_helper_lifecycle oid ''remove'' (removal_outcome_id outcome) failure"

text \<open>The label and the notice of \<^verbatim>\<open>settings_error_response\<close>.\<close>

fun settings_error_label :: "settings_error \<Rightarrow> string" where
  "settings_error_label SV_CapabilityUnavailable = ''capability-unavailable''"
| "settings_error_label SV_Persistence = ''persistence''"
| "settings_error_label SV_Startup = ''startup''"
| "settings_error_label (SV_TunHelper _) = ''tun-helper''"
| "settings_error_label SV_WindowSurface = ''window-surface''"
| "settings_error_label SV_Busy = ''busy''"

definition settings_error_response :: "settings_error \<Rightarrow> (('c, 'w) bridge_state, unit) state" where
  "settings_error_response err =
     State_Monad.update (\<lambda>s. s\<lparr>br_notices := NT_SettingsOperationFailed (settings_error_label err) # br_notices s\<rparr>)"

text \<open>A call to the helper controller, after which the service broadcasts its snapshot.\<close>

definition with_helper ::
  "('c, 'w) bridge \<Rightarrow> ('w helper_platform \<Rightarrow> ('w helper_state, 'a) state) \<Rightarrow> ('a \<Rightarrow> settings_error + 'b)
     \<Rightarrow> (('c, 'w) bridge_state, settings_error + 'b) state" where
  "with_helper self f answer =
     (case bg_helper self of
        None \<Rightarrow> State_Monad.return (Inl SV_CapabilityUnavailable)
      | Some p \<Rightarrow>
          do { result \<leftarrow> on_helper (f p);
               on_lifecycle publish_current_snapshot;
               State_Monad.return (answer result) })"

definition as_settings_error :: "'a helped \<Rightarrow> settings_error + 'a" where
  "as_settings_error r = (case r of Inl err \<Rightarrow> Inl (SV_TunHelper (he_kind err)) | Inr v \<Rightarrow> Inr v)"

definition refresh_tun_helper_removal_available ::
  "('c, 'w) bridge \<Rightarrow> (('c, 'w) bridge_state, settings_error + bool) state" where
  "refresh_tun_helper_removal_available self =
     with_helper self refresh (\<lambda>snapshot. Inr (removal_available snapshot))"

definition confirm_tun_helper_removal_safe ::
  "('c, 'w) bridge \<Rightarrow> (('c, 'w) bridge_state, settings_error + tun_network_observation) state" where
  "confirm_tun_helper_removal_safe self = with_helper self confirm_removal_safe as_settings_error"

definition remove_tun_helper_correlated ::
  "('c, 'w) bridge \<Rightarrow> lifecycle_correlation \<Rightarrow> (('c, 'w) bridge_state, settings_error + helper_snapshot) state" where
  "remove_tun_helper_correlated self correlation =
     with_helper self (\<lambda>p. run_lifecycle_inner p LO_Remove (Some correlation)) as_settings_error"

definition disable_tun_for_helper_lifecycle ::
  "('c, 'w) bridge \<Rightarrow> (('c, 'w) bridge_state, capture_error + unit) state" where
  "disable_tun_for_helper_lifecycle self =
     do { free \<leftarrow> on_capture (cp_try_lock (bg_capture self));
          if \<not> free
          then State_Monad.return (Inl (error_new CF_RuntimeTransition
                 ''Another aggregate Capture operation is already in progress''))
          else do {
            (selection, tun_enabled, system_proxy_enabled) \<leftarrow> on_capture (cp_status (bg_capture self));
            if \<not> cs_tun selection \<and> \<not> tun_enabled then State_Monad.return (Inr ())
            else on_capture (cp_set_capture (bg_capture self)
                   \<lparr>cq_active = system_proxy_enabled, cq_selection = selection\<lparr>cs_tun := False\<rparr>\<rparr>) } }"

section \<open>The handler\<close>

datatype removal_response =
    RR_Settings settings_error
  | RR_Duplicate operation_snapshot
  | RR_EvidenceUnavailable
  | RR_Failed settings_error removal_outcome
  | RR_InstallationUnconfirmed removal_outcome
  | RR_CaptureFailed capture_error removal_outcome
  | RR_Removed operation_snapshot

definition evidence_unavailable ::
  "publication \<Rightarrow> string \<Rightarrow> (('c, 'w) bridge_state, removal_response) state" where
  "evidence_unavailable pub oid =
     do { on_lifecycle (publication_finish_with pub OU_RecoveryRequired (Some HF_OperationFailed));
          publish_tun_helper_lifecycle oid ''remove'' ''recovery-required'' (Some ''removal-evidence-unavailable'');
          State_Monad.return RR_EvidenceUnavailable }"

text \<open>
  The end of a removal that failed: shown, recorded, notified. The failure of the capture is handed to the runtime
  in between, by \<open>aside\<close>.
\<close>

definition removal_failed ::
  "('c, 'w) bridge \<Rightarrow> publication \<Rightarrow> removal_admission \<Rightarrow> string \<Rightarrow> removal_outcome \<Rightarrow> helper_failure_kind option
     \<Rightarrow> (('c, 'w) bridge_state, unit) state \<Rightarrow> occurrence_failure \<Rightarrow> observation_outcome \<Rightarrow> cleanup_outcome
     \<Rightarrow> string \<Rightarrow> removal_response \<Rightarrow> (('c, 'w) bridge_state, removal_response) state" where
  "removal_failed self pub adm oid outcome shown aside failure observation cleanup failure_id response =
     do { on_lifecycle (publication_finish_with pub (tun_helper_operation_outcome outcome) shown);
          aside;
          evidence \<leftarrow> on_removals (finish (bg_removals self) adm outcome (Some failure) observation cleanup);
          publish_removal_outcome oid outcome (Some failure_id);
          State_Monad.return (case evidence of Inl _ \<Rightarrow> RR_EvidenceUnavailable | Inr _ \<Rightarrow> response) }"

definition settings_removal_failed ::
  "('c, 'w) bridge \<Rightarrow> publication \<Rightarrow> removal_admission \<Rightarrow> string \<Rightarrow> settings_error
     \<Rightarrow> (('c, 'w) bridge_state, removal_response) state" where
  "settings_removal_failed self pub adm oid err =
     removal_failed self pub adm oid RO_ObservationIncomplete (settings_tun_helper_failure err) (State_Monad.return ())
       (settings_occurrence_failure err) (settings_observation err) CO_NotRequired (settings_failure_id err)
       (RR_Failed err RO_ObservationIncomplete)"

text \<open>A step of the preparation, entered in the store; without that the removal is given up.\<close>

definition removal_step ::
  "('c, 'w) bridge \<Rightarrow> publication \<Rightarrow> removal_admission \<Rightarrow> string \<Rightarrow> removal_phase \<Rightarrow> observation_outcome
     \<Rightarrow> (('c, 'w) bridge_state, removal_response + unit) state" where
  "removal_step self pub adm oid phase observation =
     do { advanced \<leftarrow> on_removals (advance (bg_removals self) adm phase observation CO_NotStarted);
          case advanced of
            Inl _ \<Rightarrow> do { response \<leftarrow> evidence_unavailable pub oid; State_Monad.return (Inl response) }
          | Inr _ \<Rightarrow> State_Monad.return (Inr ()) }"

definition give_up :: "('s, 'r) state \<Rightarrow> ('s, 'r + 'a) state" where
  "give_up f = do { response \<leftarrow> f; State_Monad.return (Inl response) }"

definition see_installed ::
  "('c, 'w) bridge \<Rightarrow> publication \<Rightarrow> removal_admission \<Rightarrow> string
     \<Rightarrow> (('c, 'w) bridge_state, removal_response + unit) state" where
  "see_installed self pub adm oid =
     do { available \<leftarrow> refresh_tun_helper_removal_available self;
          case available of
            Inl err \<Rightarrow> give_up (settings_removal_failed self pub adm oid err)
          | Inr False \<Rightarrow>
              give_up (removal_failed self pub adm oid RO_ObservationIncomplete (Some HF_ConfirmationFailed)
                (State_Monad.return ()) OF_InstallationUnconfirmed OO_Incomplete CO_NotRequired
                ''helper-installation-unconfirmed'' (RR_InstallationUnconfirmed RO_ObservationIncomplete))
          | Inr True \<Rightarrow> State_Monad.return (Inr ()) }"

definition take_out_of_capture ::
  "('c, 'w) bridge \<Rightarrow> publication \<Rightarrow> removal_admission \<Rightarrow> string
     \<Rightarrow> (('c, 'w) bridge_state, removal_response + unit) state" where
  "take_out_of_capture self pub adm oid =
     do { disabled \<leftarrow> disable_tun_for_helper_lifecycle self;
          case disabled of
            Inl err \<Rightarrow>
              (let outcome = removal_outcome_for_capture_failure (er_kind err)
               in give_up (removal_failed self pub adm oid outcome (Some HF_ConfirmationFailed)
                    (on_capture (cp_record_failure (bg_capture self) err)) (OF_Capture (er_kind err))
                    (capture_observation (er_kind err)) CO_NotRequired (capture_failure_id (er_kind err))
                    (RR_CaptureFailed err outcome)))
          | Inr _ \<Rightarrow> State_Monad.return (Inr ()) }"

definition confirm_clear ::
  "('c, 'w) bridge \<Rightarrow> publication \<Rightarrow> removal_admission \<Rightarrow> string
     \<Rightarrow> (('c, 'w) bridge_state, removal_response + unit) state" where
  "confirm_clear self pub adm oid =
     do { safe \<leftarrow> confirm_tun_helper_removal_safe self;
          case safe of
            Inl err \<Rightarrow> give_up (settings_removal_failed self pub adm oid err)
          | Inr _ \<Rightarrow> State_Monad.return (Inr ()) }"

text \<open>Everything before the privileged operation.\<close>

definition removal_prepared ::
  "('c, 'w) bridge \<Rightarrow> publication \<Rightarrow> removal_admission \<Rightarrow> string
     \<Rightarrow> (('c, 'w) bridge_state, removal_response + unit) state" where
  "removal_prepared self pub adm oid =
     try_then (see_installed self pub adm oid) (\<lambda>_.
     try_then (removal_step self pub adm oid RP_CaptureShutdown OO_NotStarted) (\<lambda>_.
     try_then (take_out_of_capture self pub adm oid) (\<lambda>_.
     try_then (removal_step self pub adm oid RP_RemovalObservation OO_NotStarted) (\<lambda>_.
     try_then (confirm_clear self pub adm oid) (\<lambda>_.
     removal_step self pub adm oid RP_PrivilegedMaintenance OO_ConfirmedSafe)))))"

definition removal_executed ::
  "('c, 'w) bridge \<Rightarrow> publication \<Rightarrow> removal_admission \<Rightarrow> string
     \<Rightarrow> (('c, 'w) bridge_state, removal_response) state" where
  "removal_executed self pub adm oid =
     do { on_lifecycle (publication_finalizing pub);
          publish_tun_helper_lifecycle oid ''remove'' ''finalizing'' None;
          removed \<leftarrow> remove_tun_helper_correlated self (publication_correlation pub);
          case removed of
            Inr _ \<Rightarrow>
              do { evidence \<leftarrow> on_removals (finish (bg_removals self) adm RO_Removed None OO_Removed CO_ConfirmedAbsent);
                   on_lifecycle (publication_finish_with pub OU_Removed None);
                   s \<leftarrow> State_Monad.get;
                   publish_removal_outcome oid RO_Removed None;
                   State_Monad.return (case evidence of
                       Inl _ \<Rightarrow> RR_EvidenceUnavailable
                     | Inr _ \<Rightarrow> RR_Removed (ls_latest (br_lifecycle s))) }
          | Inl err \<Rightarrow>
              (let outcome = removal_outcome_for_settings_failure err
               in removal_failed self pub adm oid outcome (settings_tun_helper_failure err) (State_Monad.return ())
                    (settings_occurrence_failure err) OO_ConfirmedSafe (removal_cleanup_outcome outcome)
                    (settings_failure_id err) (RR_Failed err outcome)) }"

definition removal_admitted ::
  "('c, 'w) bridge \<Rightarrow> publication \<Rightarrow> removal_admission \<Rightarrow> string
     \<Rightarrow> (('c, 'w) bridge_state, removal_response) state" where
  "removal_admitted self pub adm oid =
     do { publish_tun_helper_lifecycle oid ''remove'' ''pending'' None;
          prepared \<leftarrow> removal_prepared self pub adm oid;
          case prepared of
            Inl response \<Rightarrow> State_Monad.return response
          | Inr _ \<Rightarrow> removal_executed self pub adm oid }"

definition helper_shown_now :: "('c, 'w) bridge \<Rightarrow> ('c, 'w) bridge_state \<Rightarrow> helper_snapshot" where
  "helper_shown_now self s =
     shown_helper (map_option (\<lambda>_. hc_snapshot (br_helper s)) (bg_helper self)) (br_lifecycle s)"

text \<open>The handler, once its parameters are read and the settings service is there; it holds the lifecycle lock.\<close>

definition remove_tun_helper ::
  "('c, 'w) bridge \<Rightarrow> string \<Rightarrow> (('c, 'w) bridge_state, removal_response) state" where
  "remove_tun_helper self oid =
     do { s \<leftarrow> State_Monad.get;
          case begin_lifecycle_with_identity (rm_parse_uuid (bg_removals self)) LO_Remove oid (br_lifecycle s) of
            (Inl err, _) \<Rightarrow> do { settings_error_response err; State_Monad.return (RR_Settings err) }
          | (Inr pub, lifecycle) \<Rightarrow>
              (case pb_duplicate_snapshot pub of
                 Some snapshot \<Rightarrow> State_Monad.return (RR_Duplicate snapshot)
               | None \<Rightarrow>
                   do { on_lifecycle (\<lambda>_. lifecycle);
                        admission \<leftarrow> on_removals
                          (admit (bg_removals self) oid (removal_admitted_state (helper_shown_now self s)));
                        case admission of
                          Inl _ \<Rightarrow> evidence_unavailable pub oid
                        | Inr adm \<Rightarrow> removal_admitted self pub adm oid }) }"

section \<open>A request that is not carried to its end\<close>

text \<open>
  A handler that panics, or whose future is dropped with its runtime, stops at one of its four awaits. Whatever
  capture and helper had got to by then (\<open>c\<close>, \<open>h\<close>) stays; the guard of the publication is dropped; nothing is entered
  in the store.
\<close>

datatype removal_await = AW_Refresh | AW_Capture | AW_Observation | AW_Removal

definition request_dropped ::
  "publication \<Rightarrow> 'c \<Rightarrow> 'w helper_state \<Rightarrow> (('c, 'w) bridge_state, unit) state" where
  "request_dropped pub c h =
     State_Monad.update (\<lambda>s. s\<lparr>br_capture := c, br_helper := h, br_lifecycle := publication_drop pub (br_lifecycle s)\<rparr>)"

text \<open>What the handler has done when it comes to an await.\<close>

primrec removal_until ::
  "('c, 'w) bridge \<Rightarrow> publication \<Rightarrow> removal_admission \<Rightarrow> string \<Rightarrow> removal_await
     \<Rightarrow> (('c, 'w) bridge_state, removal_response + unit) state" where
  "removal_until self pub adm oid AW_Refresh = State_Monad.return (Inr ())"
| "removal_until self pub adm oid AW_Capture =
     try_then (see_installed self pub adm oid) (\<lambda>_.
     removal_step self pub adm oid RP_CaptureShutdown OO_NotStarted)"
| "removal_until self pub adm oid AW_Observation =
     try_then (see_installed self pub adm oid) (\<lambda>_.
     try_then (removal_step self pub adm oid RP_CaptureShutdown OO_NotStarted) (\<lambda>_.
     try_then (take_out_of_capture self pub adm oid) (\<lambda>_.
     removal_step self pub adm oid RP_RemovalObservation OO_NotStarted)))"
| "removal_until self pub adm oid AW_Removal =
     try_then (removal_prepared self pub adm oid) (\<lambda>_.
     do { on_lifecycle (publication_finalizing pub);
          publish_tun_helper_lifecycle oid ''remove'' ''finalizing'' None;
          State_Monad.return (Inr ()) })"

text \<open>\<open>remove_tun_helper\<close>, dropped at an await; the response is there if it was given before.\<close>

definition remove_tun_helper_dropped ::
  "('c, 'w) bridge \<Rightarrow> string \<Rightarrow> removal_await \<Rightarrow> 'c \<Rightarrow> 'w helper_state
     \<Rightarrow> (('c, 'w) bridge_state, removal_response option) state" where
  "remove_tun_helper_dropped self oid await c h =
     do { s \<leftarrow> State_Monad.get;
          case begin_lifecycle_with_identity (rm_parse_uuid (bg_removals self)) LO_Remove oid (br_lifecycle s) of
            (Inl err, _) \<Rightarrow> do { settings_error_response err; State_Monad.return (Some (RR_Settings err)) }
          | (Inr pub, lifecycle) \<Rightarrow>
              (case pb_duplicate_snapshot pub of
                 Some snapshot \<Rightarrow> State_Monad.return (Some (RR_Duplicate snapshot))
               | None \<Rightarrow>
                   do { on_lifecycle (\<lambda>_. lifecycle);
                        admission \<leftarrow> on_removals
                          (admit (bg_removals self) oid (removal_admitted_state (helper_shown_now self s)));
                        case admission of
                          Inl _ \<Rightarrow> do { response \<leftarrow> evidence_unavailable pub oid; State_Monad.return (Some response) }
                        | Inr adm \<Rightarrow>
                            do { publish_tun_helper_lifecycle oid ''remove'' ''pending'' None;
                                 reached \<leftarrow> removal_until self pub adm oid await;
                                 case reached of
                                   Inl response \<Rightarrow> State_Monad.return (Some response)
                                 | Inr _ \<Rightarrow> do { request_dropped pub c h; State_Monad.return None } } }) }"

end
