(* ===== verification/Helper_Requests.thy ===== *)
theory Helper_Requests
  imports Removal_Workflow
begin

text \<open>
  The requests \<^verbatim>\<open>settings.installTunHelper\<close> and \<^verbatim>\<open>settings.repairTunHelper\<close> and the aggregate capture they resume,
  \<^verbatim>\<open>crates/desktop-bridge/src/protocol.rs\<close>: the helper is installed or repaired first, and only then the capture is
  touched, TUN switched off and, if asked for, launched again.
\<close>

section \<open>The aggregate capture\<close>

definition capture_capability_available :: "status_adapter_kind \<Rightarrow> capability_availability \<Rightarrow> bool" where
  "capture_capability_available adapter_kind availability \<longleftrightarrow>
     (adapter_kind, availability) = (SA_Native, CA_FixtureOnly) \<or> availability = CA_Supported"

definition requested_capture_selection ::
  "('c, 'w) bridge \<Rightarrow> capture_selection \<Rightarrow> (('c, 'w) bridge_state, capture_error + capture_selection) state" where
  "requested_capture_selection self selection =
     do { (adapter_kind, system_proxy, tun) \<leftarrow> on_capture (cp_capabilities (bg_capture self));
          let system_proxy_available = capture_capability_available adapter_kind system_proxy;
              tun_available = capture_capability_available adapter_kind tun
          in if cs_system_proxy selection \<and> \<not> system_proxy_available \<or> cs_tun selection \<and> \<not> tun_available
             then State_Monad.return (Inl (error_new CF_CapabilityUnavailable
                    ''The requested Capture mode is unavailable on this system''))
             else if cs_system_proxy selection \<or> cs_tun selection then State_Monad.return (Inr selection)
             else State_Monad.return (Inl (error_new CF_UnsupportedSelection
                    ''No available Capture mode can be launched on this system'')) }"

definition remember_selection ::
  "('c, 'w) bridge \<Rightarrow> capture_selection \<Rightarrow> (('c, 'w) bridge_state, capture_error + unit) state" where
  "remember_selection self selection =
     (case cp_remember_selection (bg_capture self) of
        None \<Rightarrow> State_Monad.return (Inr ())
      | Some remember \<Rightarrow>
          do { remembered \<leftarrow> on_capture (remember selection);
               State_Monad.return (case remembered of
                   Inl _ \<Rightarrow> Inl (error_new CF_RuntimeTransition ''The selected Capture modes could not be remembered'')
                 | Inr _ \<Rightarrow> Inr ()) })"

definition set_aggregate_capture_locked ::
  "('c, 'w) bridge \<Rightarrow> capture_request \<Rightarrow> (('c, 'w) bridge_state, capture_error + unit) state" where
  "set_aggregate_capture_locked self params =
     (if \<not> cq_active params
      then on_capture (cp_set_capture (bg_capture self) \<lparr>cq_active = False, cq_selection = cq_selection params\<rparr>)
      else do {
        requested \<leftarrow> requested_capture_selection self (cq_selection params);
        case requested of
          Inl err \<Rightarrow>
            do { on_capture (cp_record_failure_for_selection (bg_capture self) err (cq_selection params));
                 State_Monad.return (Inl err) }
        | Inr selection \<Rightarrow>
            try_then (remember_selection self selection) (\<lambda>_.
              case cp_launch_proxy (bg_capture self) of
                Some launch \<Rightarrow> on_capture (launch selection)
              | None \<Rightarrow>
                  on_capture (cp_set_capture (bg_capture self) \<lparr>cq_active = True, cq_selection = selection\<rparr>)) })"

definition capture_busy :: capture_error where
  "capture_busy = error_new CF_RuntimeTransition ''Another aggregate Capture operation is already in progress''"

definition set_aggregate_capture ::
  "('c, 'w) bridge \<Rightarrow> capture_request \<Rightarrow> (('c, 'w) bridge_state, capture_error + unit) state" where
  "set_aggregate_capture self params =
     do { free \<leftarrow> on_capture (cp_try_lock (bg_capture self));
          if \<not> free then State_Monad.return (Inl capture_busy) else set_aggregate_capture_locked self params }"

definition resume_tun_after_helper_lifecycle ::
  "('c, 'w) bridge \<Rightarrow> (('c, 'w) bridge_state, capture_error + unit) state" where
  "resume_tun_after_helper_lifecycle self =
     do { free \<leftarrow> on_capture (cp_try_lock (bg_capture self));
          if \<not> free then State_Monad.return (Inl capture_busy)
          else do {
            (selection, _, _) \<leftarrow> on_capture (cp_status (bg_capture self));
            set_aggregate_capture_locked self \<lparr>cq_active = True, cq_selection = selection\<lparr>cs_tun := True\<rparr>\<rparr> } }"

section \<open>Installation and repair\<close>

definition tun_helper_failure_outcome :: "helper_failure_kind option \<Rightarrow> operation_outcome" where
  "tun_helper_failure_outcome failure =
     (if failure = Some HF_AuthorizationCancelled then OU_AuthorizationCancelled else OU_RecoveryRequired)"

fun tun_helper_operation_outcome_id :: "operation_outcome \<Rightarrow> string" where
  "tun_helper_operation_outcome_id OU_Applied = ''applied''"
| "tun_helper_operation_outcome_id OU_AuthorizationCancelled = ''authorization-cancelled''"
| "tun_helper_operation_outcome_id OU_AuthorizationFailed = ''authorization-failed''"
| "tun_helper_operation_outcome_id OU_ObservationIncomplete = ''observation-incomplete''"
| "tun_helper_operation_outcome_id OU_RemovalFailed = ''removal-failed''"
| "tun_helper_operation_outcome_id OU_Removed = ''removed''"
| "tun_helper_operation_outcome_id OU_RecoveryRequired = ''recovery-required''"
| "tun_helper_operation_outcome_id OU_ShutdownFailed = ''shutdown-failed''"

definition install_tun_helper_correlated ::
  "('c, 'w) bridge \<Rightarrow> lifecycle_correlation \<Rightarrow> (('c, 'w) bridge_state, settings_error + helper_snapshot) state" where
  "install_tun_helper_correlated self correlation =
     with_helper self (\<lambda>p. run_lifecycle_inner p LO_Install (Some correlation)) as_settings_error"

definition repair_tun_helper_correlated ::
  "('c, 'w) bridge \<Rightarrow> lifecycle_correlation \<Rightarrow> (('c, 'w) bridge_state, settings_error + helper_snapshot) state" where
  "repair_tun_helper_correlated self correlation =
     with_helper self (\<lambda>p. run_lifecycle_inner p LO_Repair (Some correlation)) as_settings_error"

datatype lifecycle_response =
    LR_Settings settings_error
  | LR_Duplicate operation_snapshot
  | LR_Failed settings_error
  | LR_Applied operation_snapshot

text \<open>The capture after an operation that succeeded; its failure does not fail the operation.\<close>

definition reconcile_capture :: "('c, 'w) bridge \<Rightarrow> bool \<Rightarrow> (('c, 'w) bridge_state, unit) state" where
  "reconcile_capture self resume_capture =
     do { disabled \<leftarrow> disable_tun_for_helper_lifecycle self;
          settled \<leftarrow> (case disabled of
              Inl err \<Rightarrow> State_Monad.return (Inl err)
            | Inr _ \<Rightarrow> if resume_capture then resume_tun_after_helper_lifecycle self else State_Monad.return (Inr ()));
          case settled of
            Inl err \<Rightarrow> on_capture (cp_record_failure (bg_capture self) err)
          | Inr _ \<Rightarrow> State_Monad.return () }"

definition helper_operation_run ::
  "('c, 'w) bridge \<Rightarrow> (lifecycle_correlation \<Rightarrow> (('c, 'w) bridge_state, settings_error + helper_snapshot) state)
     \<Rightarrow> string \<Rightarrow> publication \<Rightarrow> string \<Rightarrow> bool \<Rightarrow> (('c, 'w) bridge_state, lifecycle_response) state" where
  "helper_operation_run self operation name pub oid resume_capture =
     do { publish_tun_helper_lifecycle oid name ''pending'' None;
          on_lifecycle (publication_finalizing pub);
          publish_tun_helper_lifecycle oid name ''finalizing'' None;
          result \<leftarrow> operation (publication_correlation pub);
          case result of
            Inr _ \<Rightarrow>
              do { reconcile_capture self resume_capture;
                   on_lifecycle (publication_finish_with pub OU_Applied None);
                   s \<leftarrow> State_Monad.get;
                   publish_tun_helper_lifecycle oid name ''applied'' None;
                   State_Monad.return (LR_Applied (ls_latest (br_lifecycle s))) }
          | Inl err \<Rightarrow>
              (let failure = settings_tun_helper_failure err;
                   outcome = tun_helper_failure_outcome failure
               in do { on_lifecycle (publication_finish_with pub outcome failure);
                       publish_tun_helper_lifecycle oid name (tun_helper_operation_outcome_id outcome)
                         (Some (settings_failure_id err));
                       State_Monad.return (LR_Failed err) }) }"

definition helper_operation_request ::
  "('c, 'w) bridge \<Rightarrow> lifecycle_operation
     \<Rightarrow> (lifecycle_correlation \<Rightarrow> (('c, 'w) bridge_state, settings_error + helper_snapshot) state)
     \<Rightarrow> string \<Rightarrow> string \<Rightarrow> bool \<Rightarrow> (('c, 'w) bridge_state, lifecycle_response) state" where
  "helper_operation_request self kind operation name oid resume_capture =
     do { s \<leftarrow> State_Monad.get;
          case begin_lifecycle_with_identity (rm_parse_uuid (bg_removals self)) kind oid (br_lifecycle s) of
            (Inl err, _) \<Rightarrow> do { settings_error_response err; State_Monad.return (LR_Settings err) }
          | (Inr pub, lifecycle) \<Rightarrow>
              (case pb_duplicate_snapshot pub of
                 Some snapshot \<Rightarrow> State_Monad.return (LR_Duplicate snapshot)
               | None \<Rightarrow>
                   do { on_lifecycle (\<lambda>_. lifecycle);
                        helper_operation_run self operation name pub oid resume_capture }) }"

definition install_tun_helper ::
  "('c, 'w) bridge \<Rightarrow> string \<Rightarrow> bool \<Rightarrow> (('c, 'w) bridge_state, lifecycle_response) state" where
  "install_tun_helper self oid resume_capture =
     helper_operation_request self LO_Install (install_tun_helper_correlated self) ''install'' oid resume_capture"

definition repair_tun_helper ::
  "('c, 'w) bridge \<Rightarrow> string \<Rightarrow> bool \<Rightarrow> (('c, 'w) bridge_state, lifecycle_response) state" where
  "repair_tun_helper self oid resume_capture =
     helper_operation_request self LO_Repair (repair_tun_helper_correlated self) ''repair'' oid resume_capture"

text \<open>
  An installation or repair that is dropped, in the call to the helper controller or, \<open>in_capture\<close>, in the capture
  after that call succeeded.
\<close>

definition helper_operation_cut ::
  "('c, 'w) bridge \<Rightarrow> (lifecycle_correlation \<Rightarrow> (('c, 'w) bridge_state, settings_error + helper_snapshot) state)
     \<Rightarrow> string \<Rightarrow> publication \<Rightarrow> string \<Rightarrow> bool \<Rightarrow> 'c \<Rightarrow> 'w helper_state
     \<Rightarrow> (('c, 'w) bridge_state, lifecycle_response option) state" where
  "helper_operation_cut self operation name pub oid in_capture c h =
     do { publish_tun_helper_lifecycle oid name ''pending'' None;
          on_lifecycle (publication_finalizing pub);
          publish_tun_helper_lifecycle oid name ''finalizing'' None;
          if \<not> in_capture then do { request_dropped pub c h; State_Monad.return None }
          else do {
            result \<leftarrow> operation (publication_correlation pub);
            case result of
              Inr _ \<Rightarrow> do { request_dropped pub c h; State_Monad.return None }
            | Inl err \<Rightarrow>
                (let failure = settings_tun_helper_failure err;
                     outcome = tun_helper_failure_outcome failure
                 in do { on_lifecycle (publication_finish_with pub outcome failure);
                         publish_tun_helper_lifecycle oid name (tun_helper_operation_outcome_id outcome)
                           (Some (settings_failure_id err));
                         State_Monad.return (Some (LR_Failed err)) }) } }"

definition helper_operation_dropped ::
  "('c, 'w) bridge \<Rightarrow> lifecycle_operation
     \<Rightarrow> (lifecycle_correlation \<Rightarrow> (('c, 'w) bridge_state, settings_error + helper_snapshot) state)
     \<Rightarrow> string \<Rightarrow> string \<Rightarrow> bool \<Rightarrow> 'c \<Rightarrow> 'w helper_state
     \<Rightarrow> (('c, 'w) bridge_state, lifecycle_response option) state" where
  "helper_operation_dropped self kind operation name oid in_capture c h =
     do { s \<leftarrow> State_Monad.get;
          case begin_lifecycle_with_identity (rm_parse_uuid (bg_removals self)) kind oid (br_lifecycle s) of
            (Inl err, _) \<Rightarrow> do { settings_error_response err; State_Monad.return (Some (LR_Settings err)) }
          | (Inr pub, lifecycle) \<Rightarrow>
              (case pb_duplicate_snapshot pub of
                 Some snapshot \<Rightarrow> State_Monad.return (Some (LR_Duplicate snapshot))
               | None \<Rightarrow>
                   do { on_lifecycle (\<lambda>_. lifecycle);
                        helper_operation_cut self operation name pub oid in_capture c h }) }"

section \<open>Notifications at startup\<close>

text \<open>
  \<^verbatim>\<open>restore_tun_helper_removal_occurrence_notifications\<close>: every removal on record that did not succeed is notified
  again, as resolved. The notices are listed in the order in which they are published.
\<close>

definition restored_notices :: "occurrence list \<Rightarrow> (string \<times> string \<times> string option) list" where
  "restored_notices records =
     map (\<lambda>r. (oc_operation_id r, removal_outcome_id (oc_outcome r), map_option notification_id (oc_failure r)))
       (filter (\<lambda>r. oc_outcome r \<noteq> RO_Removed) records)"

end
