(* ===== verification/Removal_Laws.thy ===== *)
theory Removal_Laws
  imports Removal_Occurrences
begin

text \<open>
  What the operations of the removal store keep: the journal in memory and the one in the file are valid, and an
  admitted removal stays accounted for in both, until sixteen later ones have been recorded.
\<close>

section \<open>Valid journals\<close>

abbreviation (input) revisions :: "occurrence list \<Rightarrow> u64 list" where
  "revisions \<equiv> map oc_admitted_revision"

lemma in_order_Some_iff:
  "in_order n prior ids rs = Some (prior', ids') \<longleftrightarrow>
     sorted_wrt (<) (prior # revisions rs) \<and> (\<forall>r\<in>set rs. oc_admitted_revision r < n)
     \<and> distinct (map oc_operation_id rs) \<and> set (map oc_operation_id rs) \<inter> set ids = {}
     \<and> prior' = last (prior # revisions rs) \<and> ids' = rev (map oc_operation_id rs) @ ids"
proof (induction rs arbitrary: prior ids)
  case (Cons r rs)
  have "sorted_wrt (<) (prior # oc_admitted_revision r # revisions rs) \<longleftrightarrow>
      prior < oc_admitted_revision r \<and> sorted_wrt (<) (oc_admitted_revision r # revisions rs)"
    by (rule sorted_wrt2) (rule transp_on_less)
  then show ?case
    using Cons.IH by (auto simp: not_le)
qed (auto simp: eq_commute)

lemma last_below_iff:
  fixes a :: u64
  assumes "sorted_wrt (<) (prior # xs)"
  shows "last (prior # xs) < a \<longleftrightarrow> prior < a \<and> (\<forall>x\<in>set xs. x < a)"
  using assms
proof (induction xs arbitrary: prior)
  case (Cons x xs)
  then show ?case
    using Cons.IH [of x] by (auto intro: order.strict_trans)
qed simp

lemma journal_valid_iff:
  "journal_valid self j \<longleftrightarrow>
     oj_schema_version j = OCCURRENCE_SCHEMA_VERSION \<and> oj_next_revision j \<noteq> 0
     \<and> length (oj_records j) \<le> OCCURRENCE_LIMIT
     \<and> sorted_wrt (<) (revisions (oj_records j)) \<and> distinct (map oc_operation_id (oj_records j))
     \<and> (\<forall>r\<in>set (oj_records j). record_sound self r \<and> oc_admitted_revision r < oj_next_revision j)
     \<and> (\<forall>a. oj_active j = Some a \<longrightarrow> active_sound self a \<and> ac_admitted_revision a < oj_next_revision j
          \<and> (\<forall>r\<in>set (oj_records j). oc_admitted_revision r < ac_admitted_revision a
               \<and> oc_operation_id r \<noteq> ac_operation_id a))"
proof -
  have positive: "0 < oc_admitted_revision r" if "record_sound self r" for r
    using that by (simp add: record_sound_def valid_identity_def)
  have active: "0 < ac_admitted_revision a" if "active_sound self a" for a
    using that by (simp add: active_sound_def valid_identity_def)
  show ?thesis
  proof (cases "in_order (oj_next_revision j) 0 [] (oj_records j)")
    case None
    then have "\<not> (sorted_wrt (<) (0 # revisions (oj_records j))
        \<and> (\<forall>r\<in>set (oj_records j). oc_admitted_revision r < oj_next_revision j)
        \<and> distinct (map oc_operation_id (oj_records j)))"
      using in_order_Some_iff [of "oj_next_revision j" 0 "[]" "oj_records j"] by auto
    moreover have "\<not> journal_valid self j"
      using None by (simp add: journal_valid_def)
    ultimately show ?thesis
      using positive by auto
  next
    case (Some p)
    then obtain prior ids where p: "in_order (oj_next_revision j) 0 [] (oj_records j) = Some (prior, ids)"
      by (cases p) simp
    note order = in_order_Some_iff [THEN iffD1, OF p]
    have above: "prior < a \<longleftrightarrow> 0 < a \<and> (\<forall>r\<in>set (oj_records j). oc_admitted_revision r < a)" for a
      using order last_below_iff [of 0 "revisions (oj_records j)" a] by auto
    show ?thesis
      using p order above active
      by (cases "oj_active j") (auto simp: journal_valid_def list_ex_iff is_some_and_iff not_le image_iff)
  qed
qed

lemma interrupted_sound: "active_sound self a \<Longrightarrow> record_sound self (interrupted a)"
  by (auto simp: active_sound_def record_sound_def interrupted_def)

definition completes :: "occurrence \<Rightarrow> active_occurrence \<Rightarrow> bool" where
  "completes r a \<longleftrightarrow> oc_admitted_revision r = ac_admitted_revision a \<and> oc_operation_id r = ac_operation_id a"

lemma completes_simps [simp]:
  "completes (interrupted a) a" "completes (finished a outcome failure observation cleanup) a"
  by (simp_all add: completes_def interrupted_def finished_def)

lemma trimmed: "trim_records rs = drop (length rs - OCCURRENCE_LIMIT) rs"
  by (simp add: trim_records_def pop_front_while_over_eq)

lemma sorted_wrt_drop: "sorted_wrt P xs \<Longrightarrow> sorted_wrt P (drop n xs)"
  by (metis append_take_drop_id sorted_wrt_append)

lemma trimmed_keeps:
  assumes "sorted_wrt (<) (revisions rs)" and "distinct (map oc_operation_id rs)" and "\<forall>r\<in>set rs. P r"
  shows "sorted_wrt (<) (revisions (trim_records rs))" "distinct (map oc_operation_id (trim_records rs))"
    "\<forall>r\<in>set (trim_records rs). P r" "length (trim_records rs) \<le> OCCURRENCE_LIMIT"
  using assms
  by (auto simp: trimmed drop_map [symmetric] sorted_wrt_drop distinct_drop dest: in_set_dropD)

lemma retire_valid:
  assumes "journal_valid self j" and "oj_active j = Some a" and "completes r a" and "record_sound self r"
  shows "journal_valid self (retire_active r j)"
proof -
  let ?rs = "oj_records j @ [r]"
  have "sorted_wrt (<) (revisions ?rs)" "distinct (map oc_operation_id ?rs)"
    "\<forall>r\<in>set ?rs. record_sound self r \<and> oc_admitted_revision r < oj_next_revision j"
    using assms by (auto simp: journal_valid_iff completes_def sorted_wrt_append)
  from trimmed_keeps [OF this] show ?thesis
    using assms(1) by (simp add: journal_valid_iff retire_active_def)
qed

lemma reconciled_valid:
  assumes "journal_valid self j"
  shows "journal_valid self (snd (reconcile_interrupted_active j))"
proof (cases "oj_active j")
  case (Some a)
  then have "record_sound self (interrupted a)"
    using assms by (simp add: journal_valid_iff interrupted_sound)
  then show ?thesis
    using retire_valid [OF assms Some] Some by (simp add: reconcile_interrupted_active_def)
qed (use assms in \<open>simp add: reconcile_interrupted_active_def\<close>)

section \<open>Admissions that stay accounted for\<close>

definition recorded :: "removal_admission \<Rightarrow> occurrence list \<Rightarrow> bool" where
  "recorded adm rs \<longleftrightarrow>
     list_ex (\<lambda>r. oc_admitted_revision r = ra_admitted_revision adm \<and> oc_operation_id r = ra_operation_id adm) rs
     \<or> OCCURRENCE_LIMIT \<le> length (filter (\<lambda>r. ra_admitted_revision adm < oc_admitted_revision r) rs)"

definition accounted :: "removal_admission \<Rightarrow> occurrence_journal \<Rightarrow> bool" where
  "accounted adm j \<longleftrightarrow>
     is_some_and (oj_active j) (\<lambda>a. ac_admitted_revision a = ra_admitted_revision adm \<and> ac_operation_id a = ra_operation_id adm)
     \<or> recorded adm (oj_records j)"

lemma recorded_suffix:
  assumes "sorted_wrt (<) (revisions (early @ late))" and "recorded adm (early @ late)"
    and "length late = OCCURRENCE_LIMIT"
  shows "recorded adm late"
proof (rule ccontr)
  let ?later = "\<lambda>r. ra_admitted_revision adm < oc_admitted_revision r"
  assume lost: "\<not> recorded adm late"
  then have "length (filter ?later late) < length late"
    by (simp add: recorded_def assms(3))
  then obtain r where r: "r \<in> set late" "oc_admitted_revision r \<le> ra_admitted_revision adm"
    using filter_True [of late ?later] by fastforce
  then have below: "oc_admitted_revision r' < ra_admitted_revision adm" if "r' \<in> set early" for r'
    using assms(1) that by (fastforce simp: sorted_wrt_append)
  then have "filter ?later early = []"
    by (auto simp: filter_empty_conv dest!: below)
  then show False
    using lost assms(2) by (auto simp: recorded_def list_ex_iff dest!: below)
qed

lemma recorded_trimmed:
  assumes "sorted_wrt (<) (revisions rs)" and "recorded adm rs"
  shows "recorded adm (trim_records rs)"
proof (cases "length rs \<le> OCCURRENCE_LIMIT")
  case False
  let ?n = "length rs - OCCURRENCE_LIMIT"
  show ?thesis
    unfolding trimmed
    by (rule recorded_suffix [of "take ?n rs"]) (use assms False in simp_all)
qed (use assms in \<open>simp add: trimmed\<close>)

lemma retire_accounted:
  assumes "journal_valid self j" and "oj_active j = Some a" and "completes r a" and "accounted adm j"
  shows "accounted adm (retire_active r j)"
proof -
  have "sorted_wrt (<) (revisions (oj_records j @ [r]))"
    using assms(1-3) by (auto simp: journal_valid_iff completes_def sorted_wrt_append)
  moreover have "recorded adm (oj_records j @ [r])"
    using assms(2-4) by (auto simp: accounted_def recorded_def completes_def)
  ultimately have "recorded adm (trim_records (oj_records j @ [r]))"
    by (rule recorded_trimmed)
  then show ?thesis
    by (simp add: accounted_def retire_active_def)
qed

section \<open>The operations\<close>

text \<open>The journals the store may move to.\<close>

definition preserved :: "removal_self \<Rightarrow> (occurrence_journal \<Rightarrow> bool) \<Rightarrow> bool" where
  "preserved self P \<longleftrightarrow>
     (\<forall>j a r. P j \<and> journal_valid self j \<and> oj_active j = Some a \<and> completes r a \<longrightarrow> P (retire_active r j))
     \<and> (\<forall>j a n. P j \<and> oj_active j = None \<longrightarrow> P (j\<lparr>oj_next_revision := n, oj_active := Some a\<rparr>))
     \<and> (\<forall>j a a'. P j \<and> oj_active j = Some a \<and> ac_admitted_revision a' = ac_admitted_revision a
          \<and> ac_operation_id a' = ac_operation_id a \<longrightarrow> P (j\<lparr>oj_active := Some a'\<rparr>))"

lemma preserved_accounted: "preserved self (accounted adm)"
  unfolding preserved_def by (intro conjI allI impI) (auto intro: retire_accounted, auto simp: accounted_def)

lemma preserved_any: "preserved self (\<lambda>_. True)"
  by (simp add: preserved_def)

text \<open>What both journals, the one in memory and the one a next process would load, satisfy.\<close>

definition on_disk :: "removal_store \<Rightarrow> occurrence_journal" where
  "on_disk s = unwrap_or (st_file s) journal_default"

definition kept :: "removal_self \<Rightarrow> (occurrence_journal \<Rightarrow> bool) \<Rightarrow> removal_store \<Rightarrow> bool" where
  "kept self P s \<longleftrightarrow> journal_valid self (st_journal s) \<and> P (st_journal s) \<and> journal_valid self (on_disk s) \<and> P (on_disk s)"

definition written :: "removal_self \<Rightarrow> occurrence_journal \<Rightarrow> store_error + unit \<Rightarrow> removal_store \<Rightarrow> removal_store \<Rightarrow> bool" where
  "written self j r s s' \<longleftrightarrow>
     st_journal s' = st_journal s \<and> st_reconcile_active s' = st_reconcile_active s
     \<and> (on_disk s' = on_disk s \<or> on_disk s' = j \<and> journal_valid self j)
     \<and> (r = Inl SE_Invalid \<longleftrightarrow> \<not> journal_valid self j) \<and> r \<in> {Inl SE_Invalid, Inl SE_Storage, Inr ()}
     \<and> (r = Inr () \<and> rm_persistence self = PS_PrivateFile \<longrightarrow> on_disk s' = j)"

lemma wp_write:
  "(\<And>r s'. st_journal s' = st_journal s \<Longrightarrow> st_reconcile_active s' = st_reconcile_active s \<Longrightarrow>
      on_disk s' = on_disk s \<and> r \<noteq> Inr () \<or> on_disk s' = j \<and> journal_valid self j \<Longrightarrow>
      (r = Inl SE_Invalid \<longleftrightarrow> \<not> journal_valid self j) \<Longrightarrow> r \<in> {Inl SE_Invalid, Inl SE_Storage, Inr ()} \<Longrightarrow> Q r s') \<Longrightarrow>
     wp (write_private_journal self j) Q s"
  by (auto simp: write_private_journal_def on_disk_def intro!: wp_rules split: list.split write_fault.split)

lemma wp_persist:
  assumes "\<And>r s'. written self j r s s' \<Longrightarrow> Q r s'"
  shows "wp (persist self j) Q s"
  unfolding persist_def
  by (auto intro!: wp_if wp_return wp_write assms simp: written_def split: persistence.split)

lemma written_kept:
  assumes "written self j r s s'" and "kept self P s" and "P j"
  shows "kept self P s'" and "r \<noteq> Inl SE_Invalid \<Longrightarrow> kept self P (s'\<lparr>st_journal := j, st_reconcile_active := flag\<rparr>)"
  using assms by (auto simp: written_def kept_def on_disk_def)

lemma wp_try_then [wp_rules]:
  "wp f (\<lambda>r s'. case r of Inl e \<Rightarrow> Q (Inl e) s' | Inr v \<Rightarrow> wp (g v) Q s') s \<Longrightarrow> wp (try_then f g) Q s"
  by (auto simp: try_then_def wp_def split: prod.splits sum.splits)

lemma wp_take_journal [wp_rules]:
  "Q () (s\<lparr>st_journal := j, st_reconcile_active := flag\<rparr>) \<Longrightarrow> wp (take_journal j flag) Q s"
  by (auto simp: take_journal_def intro!: wp_update)

lemma preserved_rules:
  assumes "preserved self P" and "P j"
  shows "journal_valid self j \<Longrightarrow> oj_active j = Some a \<Longrightarrow> completes r a \<Longrightarrow> P (retire_active r j)"
    and "oj_active j = None \<Longrightarrow> P (j\<lparr>oj_next_revision := n, oj_active := Some a'\<rparr>)"
    and "oj_active j = Some a \<Longrightarrow> ac_admitted_revision a' = ac_admitted_revision a \<Longrightarrow>
      ac_operation_id a' = ac_operation_id a \<Longrightarrow> P (j\<lparr>oj_active := Some a'\<rparr>)"
  using assms unfolding preserved_def by blast+

lemma persisted_kept:
  assumes "kept self P s" and "P j"
  shows "wp (try_then (persist self j) (\<lambda>_. do { take_journal j flag; State_Monad.return (Inr v) }))
    (\<lambda>r s'. kept self P s' \<and> (\<forall>u. r = Inr u \<longrightarrow> st_journal s' = j \<and> u = v
       \<and> (rm_persistence self = PS_PrivateFile \<longrightarrow> on_disk s' = j))) s"
proof (intro wp_try_then wp_persist, goal_cases)
  case (1 r s')
  show ?case
  proof (cases r)
    case (Inl e)
    then show ?thesis
      using written_kept(1) [OF 1 assms] by simp
  next
    case (Inr u)
    then have "kept self P (s'\<lparr>st_journal := j, st_reconcile_active := flag\<rparr>)"
      by (intro written_kept(2) [OF 1 assms]) simp
    moreover have "rm_persistence self = PS_PrivateFile \<Longrightarrow> on_disk s' = j"
      using 1 Inr by (simp add: written_def)
    ultimately show ?thesis
      unfolding Inr sum.case by (intro wp_bind wp_take_journal wp_return) (auto simp: on_disk_def)
  qed
qed

lemma settle_kept:
  assumes "kept self P s" and "preserved self P"
  shows "wp (settle_active_before_admission self)
    (\<lambda>r s'. kept self P s' \<and> (\<forall>u. r = Inr u \<longrightarrow> oj_active (st_journal s') = None)) s"
  unfolding settle_active_before_admission_def
proof (intro wp_bind wp_get wp_if wp_return wp_Let, goal_cases)
  case 3
  then obtain a where a: "oj_active (st_journal s) = Some a"
    by blast
  have "P (snd (reconcile_interrupted_active (st_journal s)))"
    "oj_active (snd (reconcile_interrupted_active (st_journal s))) = None"
    using a assms preserved_rules(1) [OF assms(2), of "st_journal s" a]
    by (auto simp: reconcile_interrupted_active_def kept_def) (simp add: retire_active_def)
  then show ?case
    by (intro wp_mono [OF persisted_kept [OF assms(1)]]) auto
qed (use assms in auto)

lemma admit_kept:
  assumes "kept self P s" and "preserved self P"
  shows "wp (admit self oid state) (\<lambda>r s'. kept self P s' \<and> (\<forall>adm. r = Inr adm \<longrightarrow>
    accounted adm (st_journal s') \<and> (rm_persistence self = PS_PrivateFile \<longrightarrow> accounted adm (on_disk s')))) s"
  unfolding admit_def
proof (intro wp_if wp_return wp_try_then wp_mono [OF settle_kept [OF assms]], goal_cases)
  case (2 r s')
  then have kept: "kept self P s'"
    by simp
  show ?case
  proof (cases r)
    case (Inr u)
    then have "P ((st_journal s')\<lparr>oj_next_revision := n, oj_active := Some a\<rparr>)" for n a
      using 2 preserved_rules(2) [OF assms(2)] by (simp add: kept_def)
    then show ?thesis
      unfolding Inr sum.case Let_def
      by (intro wp_bind wp_get wp_if wp_return wp_case_option wp_mono [OF persisted_kept [OF kept]])
        (auto simp: kept accounted_def)
  qed (use kept in simp)
qed (use assms in auto)

lemma persist_or_keep_kept:
  assumes "kept self P s" and "P j"
  shows "wp (persist_or_keep self j flag v) (\<lambda>r. kept self P) s"
  unfolding persist_or_keep_def
proof (intro wp_bind wp_persist, goal_cases)
  case (1 r s')
  then show ?case
    using written_kept [OF 1 assms]
    by (auto intro!: wp_bind wp_take_journal wp_return simp: written_def split: sum.split store_error.split)
qed

lemma matching_active_iff:
  "matching_active j adm = Inr a \<longleftrightarrow> oj_active j = Some a \<and> ac_operation_id a = ra_operation_id adm
     \<and> ac_admitted_revision a = ra_admitted_revision adm"
  by (auto simp: matching_active_def split: option.split)

lemma advance_kept:
  assumes "kept self P s" and "preserved self P"
  shows "wp (advance self adm phase observation cleanup) (\<lambda>r. kept self P) s"
  unfolding advance_def
proof (intro wp_bind wp_get wp_case_sum wp_if wp_return persist_or_keep_kept, goal_cases)
  case (4 a)
  then show ?case
    using preserved_rules(3) [OF assms(2)] assms(1) by (simp add: matching_active_iff kept_def)
qed (use assms in simp_all)

lemma finish_kept:
  assumes "kept self P s" and "preserved self P"
  shows "wp (finish self adm outcome failure observation cleanup) (\<lambda>r. kept self P) s"
  unfolding finish_def Let_def
proof (intro wp_bind wp_get wp_case_sum wp_if wp_return persist_or_keep_kept, goal_cases)
  case (4 a)
  then show ?case
    using preserved_rules(1) [OF assms(2)] assms(1) by (simp add: matching_active_iff kept_def)
qed (use assms in simp_all)

text \<open>Opening the file: what loads is valid, and nothing stays under way.\<close>

lemma journal_default_valid: "journal_valid self journal_default"
  by (simp add: journal_valid_iff journal_default_def)

lemma load_cases:
  "load_private_journal self (st_file s) = (if journal_valid self (on_disk s) then Inr (st_file s) else Inl SE_Invalid)"
  by (cases "st_file s") (simp_all add: load_private_journal_def on_disk_def journal_default_valid)

lemma open_kept:
  assumes "journal_valid self (on_disk s)" and "P (on_disk s)" and "preserved self P"
  shows "wp (open_private_file self) (\<lambda>r s'. journal_valid self (on_disk s') \<and> P (on_disk s')
    \<and> (r = Inr () \<longrightarrow> kept self P s' \<and> oj_active (st_journal s') = None)) s"
    (is "wp _ ?post s")
proof (cases "oj_active (on_disk s)")
  case None
  have "wp (do { State_Monad.update (\<lambda>s'. s'\<lparr>st_journal := on_disk s, st_reconcile_active := False\<rparr>);
      State_Monad.return (Inr ()) }) ?post s"
    by (intro wp_bind wp_update wp_return) (use assms None in \<open>auto simp: kept_def on_disk_def\<close>)
  then show ?thesis
    unfolding open_private_file_def
    by (intro wp_bind wp_get)
      (use assms(1) None in \<open>simp add: load_cases reconcile_interrupted_active_def on_disk_def wp_try_then wp_return\<close>)
next
  case (Some a)
  let ?j = "retire_active (interrupted a) (on_disk s)"
  have j: "P ?j" "journal_valid self ?j" "oj_active ?j = None"
    using preserved_rules(1) [OF assms(3,2,1) Some] reconciled_valid [OF assms(1)] Some
    by (simp_all add: reconcile_interrupted_active_def) (simp add: retire_active_def)
  have "wp (try_then (write_private_journal self ?j)
      (\<lambda>_. do { State_Monad.update (\<lambda>s. s\<lparr>st_journal := ?j, st_reconcile_active := False\<rparr>);
                State_Monad.return (Inr ()) })) ?post s"
  proof (intro wp_try_then wp_write, goal_cases)
    case (1 r s')
    then show ?case
      using assms j by (auto intro!: wp_bind wp_update wp_return simp: kept_def on_disk_def split: sum.split)
  qed
  then show ?thesis
    unfolding open_private_file_def
    by (intro wp_bind wp_get)
      (use assms(1) Some j in \<open>simp add: load_cases reconcile_interrupted_active_def on_disk_def\<close>)
qed

lemma open_refused:
  assumes "\<not> journal_valid self (on_disk s)"
  shows "run_state (open_private_file self) s = (Inl SE_Invalid, s)"
  using assms by (simp add: open_private_file_def load_cases)

end
