(* ===== verification/Removal_Properties.thy ===== *)
theory Removal_Properties
  imports Removal_Laws
begin

text \<open>
  Runs of the removal store over any number of processes, with failing writes and restarts: the journal stays
  within its bounds and in order, and no admitted removal disappears without a record.
\<close>

section \<open>Calls and restarts\<close>

datatype removal_call =
    RC_Admit string admitted_state
  | RC_Advance removal_admission removal_phase observation_outcome cleanup_outcome
  | RC_Finish removal_admission removal_outcome "occurrence_failure option" observation_outcome cleanup_outcome
  | RC_Reopen

text \<open>A process with its store, or one that could not open the file and works with the unavailable store.\<close>

datatype removal_session = Stored removal_store | Closed_File "occurrence_journal option"

fun file_of :: "removal_session \<Rightarrow> occurrence_journal option" where
  "file_of (Stored s) = st_file s"
| "file_of (Closed_File file) = file"

definition done_with :: "('s, 'e + 'a) state \<Rightarrow> ('s, 'e + unit) state" where
  "done_with f = try_then f (\<lambda>_. State_Monad.return (Inr ()))"

fun perform_call :: "removal_self \<Rightarrow> removal_call \<Rightarrow> unit stored" where
  "perform_call self (RC_Admit oid state) = done_with (admit self oid state)"
| "perform_call self (RC_Advance adm phase observation cleanup) = advance self adm phase observation cleanup"
| "perform_call self (RC_Finish adm outcome failure observation cleanup) =
     done_with (finish self adm outcome failure observation cleanup)"
| "perform_call self RC_Reopen = open_private_file self"

definition reopened :: "removal_self \<Rightarrow> occurrence_journal option \<Rightarrow> write_fault list \<Rightarrow> removal_session" where
  "reopened self file fs =
     (case run_state (open_private_file self) (in_memory\<lparr>st_file := file, st_faults := fs\<rparr>) of
        (Inr _, s) \<Rightarrow> Stored s
      | (Inl _, s) \<Rightarrow> Closed_File (st_file s))"

fun react :: "removal_self \<Rightarrow> removal_session \<Rightarrow> removal_call \<times> write_fault list \<Rightarrow> removal_session" where
  "react self session (RC_Reopen, fs) = reopened self (file_of session) fs"
| "react self (Stored s) (c, fs) = Stored (snd (run_state (perform_call self c) (s\<lparr>st_faults := fs\<rparr>)))"
| "react self (Closed_File file) (c, fs) = Closed_File file"

section \<open>What runs keep\<close>

definition session_kept :: "removal_self \<Rightarrow> (occurrence_journal \<Rightarrow> bool) \<Rightarrow> removal_session \<Rightarrow> bool" where
  "session_kept self P session \<longleftrightarrow>
     journal_valid self (unwrap_or (file_of session) journal_default) \<and> P (unwrap_or (file_of session) journal_default)
     \<and> (case session of Stored s \<Rightarrow> kept self P s | Closed_File _ \<Rightarrow> True)"

lemma done_with_kept: "wp f (\<lambda>r. kept self P) s \<Longrightarrow> wp (done_with f) (\<lambda>r. kept self P) s"
  unfolding done_with_def by (erule wp_try_then [OF wp_mono]) (auto intro!: wp_return split: sum.split)

lemma perform_kept:
  assumes "kept self P s" and "preserved self P" and "c \<noteq> RC_Reopen"
  shows "wp (perform_call self c) (\<lambda>r. kept self P) s"
  using assms
  by (cases c) (auto intro!: done_with_kept advance_kept finish_kept wp_mono [OF admit_kept])

lemma reopened_kept:
  assumes "journal_valid self (unwrap_or file journal_default)" and "P (unwrap_or file journal_default)"
    and "preserved self P"
  shows "session_kept self P (reopened self file fs)
    \<and> (\<forall>s. reopened self file fs = Stored s \<longrightarrow> oj_active (st_journal s) = None)"
proof -
  let ?s = "in_memory\<lparr>st_file := file, st_faults := fs\<rparr>"
  have disk: "on_disk ?s = unwrap_or file journal_default"
    by (simp add: on_disk_def)
  obtain r s where run: "run_state (open_private_file self) ?s = (r, s)"
    by fastforce
  from wp_run [OF open_kept [of self ?s P] run]
  have "journal_valid self (on_disk s) \<and> P (on_disk s) \<and> (r = Inr () \<longrightarrow> kept self P s \<and> oj_active (st_journal s) = None)"
    using assms by (simp add: disk)
  then show ?thesis
    by (cases r) (simp_all add: reopened_def run session_kept_def on_disk_def)
qed

lemma react_kept:
  assumes "session_kept self P session" and "preserved self P"
  shows "session_kept self P (react self session e)"
proof (cases "fst e = RC_Reopen")
  case True
  then show ?thesis
    using reopened_kept [OF _ _ assms(2)] assms(1) by (cases e) (simp add: session_kept_def)
next
  case False
  show ?thesis
  proof (cases session)
    case (Stored s)
    let ?s = "s\<lparr>st_faults := snd e\<rparr>"
    have "kept self P ?s"
      using assms(1) Stored by (simp add: session_kept_def kept_def on_disk_def)
    then have "kept self P (snd (run_state (perform_call self (fst e)) ?s))"
      using perform_kept [OF _ assms(2) False] by (simp add: wp_iff)
    then show ?thesis
      using Stored False by (cases e; cases "fst e") (simp_all add: session_kept_def kept_def on_disk_def)
  next
    case (Closed_File f)
    then show ?thesis
      using assms(1) False by (cases e; cases "fst e") simp_all
  qed
qed

lemma reacts_kept:
  assumes "session_kept self P session" and "preserved self P"
  shows "session_kept self P (foldl (react self) session events)"
  using assms by (induction events arbitrary: session) (auto intro: react_kept)

text \<open>A file that is no valid journal is never opened; any other start is a session that keeps its journals valid.\<close>

lemma invalid_stays_closed:
  assumes "\<not> journal_valid self (unwrap_or f journal_default)"
  shows "foldl (react self) (Closed_File f) events = Closed_File f"
proof (induction events)
  case (Cons e events)
  have "reopened self f fs = Closed_File f" for fs
    using open_refused [of self "in_memory\<lparr>st_file := f, st_faults := fs\<rparr>"] assms
    by (simp add: reopened_def on_disk_def)
  then have "react self (Closed_File f) e = Closed_File f"
    by (cases e; cases "fst e") simp_all
  then show ?case
    using Cons by simp
qed simp

lemma reached_kept:
  assumes "foldl (react self) (Closed_File f) events = Stored s"
  shows "kept self (\<lambda>_. True) s"
proof -
  have "journal_valid self (unwrap_or f journal_default)"
    using assms invalid_stays_closed [of self f events] by fastforce
  then have "session_kept self (\<lambda>_. True) (Closed_File f)"
    by (simp add: session_kept_def)
  from reacts_kept [OF this preserved_any, of events] show ?thesis
    using assms by (simp add: session_kept_def)
qed

lemma reopens_without_faults:
  assumes "journal_valid self (unwrap_or f journal_default)"
  shows "\<exists>s. reopened self f [] = Stored s"
proof -
  let ?s = "in_memory\<lparr>st_file := f, st_faults := []\<rparr>"
  have valid: "journal_valid self (snd (reconcile_interrupted_active (on_disk ?s)))"
    using assms by (simp add: reconciled_valid on_disk_def)
  have "\<exists>s. run_state (open_private_file self) ?s = (Inr (), s)"
    using assms valid
    by (auto simp: open_private_file_def load_cases on_disk_def try_then_def write_private_journal_def
        State_Monad.update_def split: prod.split)
  then show ?thesis
    by (auto simp: reopened_def)
qed

section \<open>The properties\<close>

definition demo_removal_self :: removal_self where
  "demo_removal_self =
     \<lparr>rm_persistence = PS_PrivateFile, rm_parse_uuid = \<lambda>s. if length s = 36 then Some s else None\<rparr>"

definition demo_operation :: string where
  "demo_operation = replicate 36 CHR ''7''"

definition demo_admission :: removal_admission where
  "demo_admission = \<lparr>ra_admitted_revision = 1, ra_operation_id = demo_operation\<rparr>"

definition demo_removal_events :: "(removal_call \<times> write_fault list) list" where
  "demo_removal_events =
     [(RC_Reopen, []), (RC_Admit demo_operation AS_Running, []),
      (RC_Advance demo_admission RP_PrivilegedMaintenance OO_ConfirmedSafe CO_NotStarted, [WF_Before]),
      (RC_Finish demo_admission RO_Removed None OO_Removed CO_ConfirmedAbsent, [WF_After]), (RC_Reopen, [])]"

text \<open>
  Whatever is called, whichever writes fail and however often the file is opened again, the records shown are
  at most sixteen, in the order of their admission, one per operation, and a record says removed exactly if it
  has no failure, was observed as removed and its cleanup was confirmed.
\<close>

theorem removal_records_sound:
  assumes "foldl (react self) (Closed_File f) events = Stored s"
  shows "length (store_records s) \<le> 16 \<and> sorted_wrt (<) (map oc_admitted_revision (store_records s))
    \<and> distinct (map oc_operation_id (store_records s))
    \<and> list_all (\<lambda>r. (oc_outcome r = RO_Removed) = (oc_failure r = None)
        \<and> (oc_outcome r = RO_Removed) = (oc_observation r = OO_Removed)
        \<and> (oc_outcome r = RO_Removed) = (oc_cleanup r = CO_ConfirmedAbsent)) (store_records s)"
  using reached_kept [OF assms]
  by (auto simp: kept_def journal_valid_iff store_records_def OCCURRENCE_LIMIT_def list_all_iff record_sound_def)

text \<open>
  C32: a removal that was admitted is not lost: the next process that opens the file shows a record of it, finished
  or interrupted, unless sixteen later removals have been recorded since; and a process that can write the file
  does open it. Writes that fail, before or after they took effect, and processes that die change nothing in that.
\<close>

theorem removal_evidence_survives:
  assumes "rm_persistence self = PS_PrivateFile" and "foldl (react self) (Closed_File f) before = Stored s"
    and "run_state (admit self oid state) (s\<lparr>st_faults := fs\<rparr>) = (Inr adm, s')"
    and "left = file_of (foldl (react self) (Stored s') events)"
  shows "(\<exists>t. reopened self left [] = Stored t)
    \<and> (case reopened self left fs' of Stored t \<Rightarrow> recorded adm (store_records t) | Closed_File _ \<Rightarrow> True)"
proof -
  have "kept self (\<lambda>_. True) (s\<lparr>st_faults := fs\<rparr>)"
    using reached_kept [OF assms(2)] by (simp add: kept_def on_disk_def)
  from wp_run [OF admit_kept [OF this preserved_any] assms(3)]
  have "session_kept self (accounted adm) (Stored s')"
    using assms(1) by (simp add: session_kept_def kept_def on_disk_def)
  then have "session_kept self (accounted adm) (foldl (react self) (Stored s') events)"
    by (rule reacts_kept [OF _ preserved_accounted])
  then have left: "journal_valid self (unwrap_or left journal_default)" "accounted adm (unwrap_or left journal_default)"
    by (simp_all add: session_kept_def assms(4))
  note opened = reopened_kept [where P = "accounted adm", OF left preserved_accounted, of fs']
  then show ?thesis
    using reopens_without_faults [OF left(1)]
    by (auto simp: session_kept_def kept_def accounted_def store_records_def split: removal_session.split)
qed

theorem removal_evidence_survives_witness:
  "\<exists>t. reopened demo_removal_self (file_of (foldl (react demo_removal_self) (Closed_File None)
     (take 3 demo_removal_events))) [] = Stored t \<and> recorded demo_admission (store_records t)"
proof -
  let ?self = demo_removal_self and ?rest = "[demo_removal_events ! 2]"
  let ?before = "foldl (react ?self) (Closed_File None) [(RC_Reopen, [])]"
  have "case ?before of Closed_File _ \<Rightarrow> False | Stored s \<Rightarrow>
      fst (run_state (admit ?self demo_operation AS_Running) (s\<lparr>st_faults := []\<rparr>)) = Inr demo_admission"
    by code_simp
  then obtain s where before: "?before = Stored s" and
      fst: "fst (run_state (admit ?self demo_operation AS_Running) (s\<lparr>st_faults := []\<rparr>)) = Inr demo_admission"
    by (cases ?before) auto
  define s' where "s' = snd (run_state (admit ?self demo_operation AS_Running) (s\<lparr>st_faults := []\<rparr>))"
  have admitted: "run_state (admit ?self demo_operation AS_Running) (s\<lparr>st_faults := []\<rparr>) = (Inr demo_admission, s')"
    using fst by (simp add: s'_def prod_eq_iff)
  have "rm_persistence ?self = PS_PrivateFile"
    by (simp add: demo_removal_self_def)
  from removal_evidence_survives [OF this before admitted refl, of ?rest "[]"]
  obtain t where t: "reopened ?self (file_of (foldl (react ?self) (Stored s') ?rest)) [] = Stored t"
    "recorded demo_admission (store_records t)"
    by auto
  have "foldl (react ?self) (Closed_File None) (take 3 demo_removal_events) = foldl (react ?self) (Stored s') ?rest"
    using before admitted by (simp add: demo_removal_events_def done_with_def try_then_def eval_nat_numeral)
  then show ?thesis
    using t by auto
qed

end
