(* ===== verification/Removal_Workflow_Laws.thy ===== *)
theory Removal_Workflow_Laws
  imports Removal_Workflow Removal_Properties Tun_Helper_Laws
begin

text \<open>
  The removal request over any capture and any helper platform: what the store, the published operation and the
  helper have in common at each step of the handler, and where each of its exits leaves them.
\<close>

section \<open>The store during a removal\<close>

definition unstuck :: "removal_store \<Rightarrow> bool" where
  "unstuck s \<longleftrightarrow> oj_active (st_journal s) = None \<or> st_reconcile_active s"

definition underway :: "removal_self \<Rightarrow> removal_admission \<Rightarrow> removal_phase \<Rightarrow> removal_store \<Rightarrow> bool" where
  "underway self adm phase s \<longleftrightarrow>
     kept self (\<lambda>_. True) s
     \<and> is_some_and (oj_active (st_journal s)) (\<lambda>a. ac_admitted_revision a = ra_admitted_revision adm
          \<and> ac_operation_id a = ra_operation_id adm \<and> ac_lifecycle_phase a = phase)
     \<and> (rm_persistence self = PS_PrivateFile \<longrightarrow> on_disk s = st_journal s)"

lemma written_keeps:
  "written self j r s s' \<Longrightarrow> kept self (\<lambda>_. True) s \<Longrightarrow> kept self (\<lambda>_. True) s'"
  "written self j r s s' \<Longrightarrow> kept self (\<lambda>_. True) s \<Longrightarrow> r \<noteq> Inl SE_Invalid \<Longrightarrow>
     kept self (\<lambda>_. True) (s'\<lparr>st_journal := j, st_reconcile_active := flag\<rparr>)"
  by (rule written_kept; simp)+

lemma written_valid: "written self j r s s' \<Longrightarrow> journal_valid self j \<Longrightarrow> r = Inl SE_Storage \<or> r = Inr ()"
  by (auto simp: written_def)

lemma reconciled_idle: "oj_active (snd (reconcile_interrupted_active j)) = None"
  by (simp add: reconcile_interrupted_active_def retire_active_def split: option.split)

lemma settle_unstuck:
  assumes "kept self (\<lambda>_. True) s" and "unstuck s"
  shows "wp (settle_active_before_admission self)
    (\<lambda>r s'. kept self (\<lambda>_. True) s' \<and> unstuck s' \<and> (\<forall>u. r = Inr u \<longrightarrow> oj_active (st_journal s') = None)) s"
proof -
  have "wp (settle_active_before_admission self) (\<lambda>r s'. unstuck s') s"
    unfolding settle_active_before_admission_def
    by (intro wp_bind wp_get wp_if wp_return wp_Let wp_try_then wp_persist)
      (use assms(2) reconciled_idle [of "st_journal s"] in \<open>auto simp: unstuck_def written_def
         intro!: wp_bind wp_take_journal wp_return split: sum.split\<close>)
  from wp_conj [OF this settle_kept [OF assms(1) preserved_any]] show ?thesis
    by (rule wp_mono) simp
qed

lemma admit_underway:
  assumes "kept self (\<lambda>_. True) s" and "unstuck s"
  shows "wp (admit self oid state) (\<lambda>r s'. case r of
      Inl _ \<Rightarrow> kept self (\<lambda>_. True) s' \<and> unstuck s'
    | Inr adm \<Rightarrow> underway self adm RP_Admitted s' \<and> ra_operation_id adm = oid) s"
  unfolding admit_def
proof (intro wp_if wp_return wp_try_then wp_mono [OF settle_unstuck [OF assms]], goal_cases)
  case (2 r s')
  show ?case
  proof (cases r)
    case (Inr u)
    have persisted: "wp (try_then (persist self j) (\<lambda>_. do { take_journal j False; State_Monad.return (Inr adm) }))
        (\<lambda>r s'. case r of Inl _ \<Rightarrow> kept self (\<lambda>_. True) s' \<and> unstuck s'
          | Inr adm \<Rightarrow> underway self adm RP_Admitted s' \<and> ra_operation_id adm = oid) s'"
      if "is_some_and (oj_active j) (\<lambda>a. ac_admitted_revision a = ra_admitted_revision adm
          \<and> ac_operation_id a = ra_operation_id adm \<and> ac_lifecycle_phase a = RP_Admitted)"
        "ra_operation_id adm = oid" for j adm
    proof (intro wp_try_then wp_persist, goal_cases)
      case (1 r' s1)
      then show ?case
        using written_keeps [OF 1] 2 that
        by (auto simp: unstuck_def underway_def written_def on_disk_def intro!: wp_bind wp_take_journal wp_return split: sum.split)
    qed
    show ?thesis
      unfolding Inr sum.case Let_def
      by (intro wp_bind wp_get wp_if wp_return wp_case_option persisted) (use 2 in simp_all)
  qed (use 2 in simp)
qed (use assms in auto)

text \<open>When a store that can write admits a removal.\<close>

lemma persist_writes:
  assumes "journal_valid self j" and "rm_persistence self \<noteq> PS_Unavailable" and "st_faults s = []"
  shows "wp (persist self j) (\<lambda>r s'. r = Inr () \<and> st_journal s' = st_journal s \<and> st_faults s' = []) s"
  using assms
  by (cases "rm_persistence self")
    (auto simp: persist_def write_private_journal_def intro!: wp_bind wp_get wp_update wp_return)

lemma admitted_valid:
  assumes "journal_valid self j" and "oj_active j = None" and "rm_parse_uuid self oid = Some oid"
    and "checked_add (oj_next_revision j) 1 = Some n" and "oid \<notin> oc_operation_id ` set (oj_records j)"
    and "active_sound self a" and "ac_operation_id a = oid" and "ac_admitted_revision a = oj_next_revision j"
  shows "journal_valid self (j\<lparr>oj_next_revision := n, oj_active := Some a\<rparr>)"
proof -
  have n: "oj_next_revision j < n"
    using assms(4) by (rule checked_add_1_less)
  have "\<forall>r \<in> set (oj_records j). oc_operation_id r \<noteq> oid"
    using assms(5) by auto
  then show ?thesis
    using assms n by (auto simp: journal_valid_iff)
qed

lemma settle_writes:
  assumes "journal_valid self (st_journal s)" and "unstuck s"
    and "rm_persistence self \<noteq> PS_Unavailable" and "st_faults s = []"
  shows "wp (settle_active_before_admission self)
    (\<lambda>r s'. r = Inr () \<and> st_faults s' = [] \<and> journal_valid self (st_journal s') \<and> oj_active (st_journal s') = None
       \<and> oj_next_revision (st_journal s') = oj_next_revision (st_journal s)
       \<and> oc_operation_id ` set (oj_records (st_journal s'))
           \<subseteq> oc_operation_id ` set (oj_records (st_journal s)) \<union> ac_operation_id ` set_option (oj_active (st_journal s))) s"
proof (cases "oj_active (st_journal s)")
  case None
  then show ?thesis
    using assms by (auto simp: settle_active_before_admission_def intro!: wp_bind wp_get wp_return)
next
  case (Some a)
  let ?j = "snd (reconcile_interrupted_active (st_journal s))"
  have valid: "journal_valid self ?j"
    by (rule reconciled_valid [OF assms(1)])
  have j: "?j = retire_active (interrupted a) (st_journal s)"
    using Some by (simp add: reconcile_interrupted_active_def)
  have "set (trim_records (oj_records (st_journal s) @ [interrupted a]))
      \<subseteq> set (oj_records (st_journal s) @ [interrupted a])"
    unfolding trim_records_def pop_front_while_over_eq by (rule set_drop_subset)
  then have ids: "oc_operation_id ` set (oj_records ?j)
      \<subseteq> oc_operation_id ` set (oj_records (st_journal s)) \<union> {ac_operation_id a}"
    by (fastforce simp: j retire_active_def interrupted_def)
  have reconcile: "st_reconcile_active s"
    using Some assms(2) by (simp add: unstuck_def)
  show ?thesis
    unfolding settle_active_before_admission_def
    by (intro wp_bind wp_get wp_if wp_return wp_Let wp_try_then wp_mono [OF persist_writes [OF valid assms(3,4)]])
      (use Some reconcile valid ids reconciled_idle [of "st_journal s"] in
        \<open>auto simp: j retire_active_def simp del: image_subset_iff intro!: wp_bind wp_take_journal wp_return
          dest: subsetD [OF _ imageI]\<close>)
qed

lemma admit_succeeds:
  assumes "journal_valid self (st_journal s)" and "unstuck s"
    and "rm_persistence self \<noteq> PS_Unavailable" and "st_faults s = []"
    and oid: "rm_parse_uuid self oid = Some oid" "oid \<notin> oc_operation_id ` set (oj_records (st_journal s))"
      "oid \<notin> ac_operation_id ` set_option (oj_active (st_journal s))"
    and "checked_add (oj_next_revision (st_journal s)) 1 = Some n"
  shows "wp (admit self oid state) (\<lambda>r s'. \<exists>adm. r = Inr adm \<and> ra_operation_id adm = oid) s"
  unfolding admit_def
proof (intro wp_if wp_try_then wp_mono [OF settle_writes [OF assms(1-4)]], goal_cases)
  case 1
  then show ?case using oid by simp
next
  case (2 r s')
  then have s': "oj_next_revision (st_journal s') = oj_next_revision (st_journal s)"
    "oid \<notin> oc_operation_id ` set (oj_records (st_journal s'))" "journal_valid self (st_journal s')"
    "oj_active (st_journal s') = None" "st_faults s' = []" "r = Inr ()"
    using oid by blast+
  let ?a = "\<lparr>ac_admitted_revision = oj_next_revision (st_journal s), ac_admitted_state = state,
    ac_cleanup = CO_NotStarted, ac_lifecycle_phase = RP_Admitted, ac_observation = OO_NotStarted, ac_operation_id = oid\<rparr>"
  have "0 < oj_next_revision (st_journal s)"
    using assms(1) by (simp add: journal_valid_iff word_neq_0_conv)
  then have "active_sound self ?a"
    using oid by (simp add: active_sound_def valid_identity_def)
  then have "journal_valid self ((st_journal s')\<lparr>oj_next_revision := n, oj_active := Some ?a\<rparr>)"
    using s' assms(8) oid by (intro admitted_valid) simp_all
  note persisted = persist_writes [OF this assms(3) s'(5)]
  have "\<not> list_ex (\<lambda>r. oc_operation_id r = oid) (oj_records (st_journal s'))"
    using s'(2) by (auto simp: list_ex_iff)
  then show ?case
    unfolding s'(6) sum.case
    by (intro wp_bind wp_get)
      (use s'(1) assms(8) in \<open>auto simp: Let_def intro!: wp_try_then wp_mono [OF persisted] wp_bind wp_take_journal wp_return\<close>)
qed

lemma persist_or_keep_ends:
  assumes "journal_valid self j" and "kept self (\<lambda>_. True) s"
  shows "wp (persist_or_keep self j flag v) (\<lambda>r s'. kept self (\<lambda>_. True) s' \<and> st_journal s' = j
     \<and> (r = Inl SE_Storage \<and> st_reconcile_active s' = flag \<or> r = Inr v)
     \<and> (r = Inr v \<and> rm_persistence self = PS_PrivateFile \<longrightarrow> on_disk s' = j)) s"
  unfolding persist_or_keep_def
proof (intro wp_bind wp_persist, goal_cases)
  case (1 r s')
  consider "r = Inl SE_Storage" | "r = Inr ()"
    using written_valid [OF 1 assms(1)] by blast
  then show ?case
    using written_keeps [OF 1 assms(2)] 1
    by cases (auto intro!: wp_bind wp_take_journal wp_return simp: written_def on_disk_def)
qed

lemma advance_underway:
  assumes "underway self adm p s" and "p \<le> q" and "q \<noteq> RP_Completed" and "observation \<noteq> OO_Removed"
    and "cleanup \<noteq> CO_ConfirmedAbsent"
  shows "wp (advance self adm q observation cleanup) (\<lambda>r s'. case r of
      Inl _ \<Rightarrow> kept self (\<lambda>_. True) s' \<and> unstuck s'
    | Inr _ \<Rightarrow> underway self adm q s') s"
proof -
  obtain a where a: "oj_active (st_journal s) = Some a" "ac_admitted_revision a = ra_admitted_revision adm"
    "ac_operation_id a = ra_operation_id adm" "ac_lifecycle_phase a = p" and kept: "kept self (\<lambda>_. True) s"
    using assms(1) by (auto simp: underway_def is_some_and_iff)
  let ?a = "a\<lparr>ac_lifecycle_phase := q, ac_observation := observation, ac_cleanup := cleanup\<rparr>"
  have valid: "journal_valid self ((st_journal s)\<lparr>oj_active := Some ?a\<rparr>)"
    using kept a(1) assms(3-5) by (auto simp: kept_def journal_valid_iff active_sound_def)
  have "matching_active (st_journal s) adm = Inr a"
    using a by (simp add: matching_active_iff)
  moreover have "\<not> q < ac_lifecycle_phase a"
    using assms(2) a(4) by simp
  ultimately show ?thesis
    unfolding advance_def
    by (intro wp_bind wp_get)
      (auto intro!: wp_mono [OF persist_or_keep_ends [OF valid kept]] simp: unstuck_def underway_def a)
qed

definition coherent :: "removal_outcome \<Rightarrow> occurrence_failure option \<Rightarrow> observation_outcome \<Rightarrow> cleanup_outcome \<Rightarrow> bool" where
  "coherent outcome failure observation cleanup \<longleftrightarrow>
     (outcome = RO_Removed) = (failure = None) \<and> (outcome = RO_Removed) = (observation = OO_Removed)
     \<and> (outcome = RO_Removed) = (cleanup = CO_ConfirmedAbsent)"

lemma finish_ends:
  assumes "underway self adm p s" and "coherent outcome failure observation cleanup"
  shows "wp (finish self adm outcome failure observation cleanup) (\<lambda>r s'.
      kept self (\<lambda>_. True) s' \<and> oj_active (st_journal s') = None \<and> store_records s' \<noteq> []
      \<and> oc_operation_id (last (store_records s')) = ra_operation_id adm
      \<and> oc_outcome (last (store_records s')) = outcome
      \<and> (\<forall>v. r = Inr v \<and> rm_persistence self = PS_PrivateFile \<longrightarrow> on_disk s' = st_journal s')) s"
proof -
  obtain a where a: "oj_active (st_journal s) = Some a" "ac_admitted_revision a = ra_admitted_revision adm"
    "ac_operation_id a = ra_operation_id adm" and kept: "kept self (\<lambda>_. True) s"
    using assms(1) by (auto simp: underway_def is_some_and_iff)
  let ?r = "finished a outcome failure observation cleanup"
  have "record_sound self ?r"
    using kept a(1) assms(2)
    by (auto simp: kept_def journal_valid_iff active_sound_def record_sound_def finished_def coherent_def)
  then have valid: "journal_valid self (retire_active ?r (st_journal s))"
    using retire_valid [of self "st_journal s" a ?r] kept a(1) by (simp add: kept_def)
  obtain rs where "trim_records (oj_records (st_journal s) @ [?r]) = rs @ [?r]"
    using pop_front_while_over_snoc [of OCCURRENCE_LIMIT "oj_records (st_journal s)" ?r] by (auto simp: trim_records_def OCCURRENCE_LIMIT_def)
  then have records: "oj_records (retire_active ?r (st_journal s)) = rs @ [?r]"
    "oj_active (retire_active ?r (st_journal s)) = None"
    by (simp_all add: retire_active_def)
  have ids: "oc_operation_id ?r = ra_operation_id adm" "oc_outcome ?r = outcome"
    by (simp_all add: finished_def a)
  have "matching_active (st_journal s) adm = Inr a"
    using a by (simp add: matching_active_iff)
  then show ?thesis
    unfolding finish_def Let_def
    by (intro wp_bind wp_get)
      (auto intro!: wp_mono [OF persist_or_keep_ends [OF valid kept]] simp: valid records ids store_records_def)
qed

section \<open>The handler\<close>

lemma wp_on_removals [wp_rules]:
  "wp f (\<lambda>r t. Q r (s\<lparr>br_removals := t\<rparr>)) (br_removals s) \<Longrightarrow> wp (on_removals f) Q s"
  by (simp add: on_removals_def wp_def split: prod.splits)

lemma wp_on_controller [wp_rules]:
  "wp f (\<lambda>r t. Q r (s\<lparr>br_helper := t\<rparr>)) (br_helper s) \<Longrightarrow> wp (on_helper f) Q s"
  by (simp add: on_helper_def wp_def split: prod.splits)

lemma wp_on_capture: "(\<And>r c h. Q r (s\<lparr>br_capture := c, br_helper := h\<rparr>)) \<Longrightarrow> wp (on_capture f) Q s"
  by (simp add: on_capture_def wp_def split: prod.splits)

lemma wp_on_lifecycle [wp_rules]:
  "Q () (s\<lparr>br_lifecycle := f (br_lifecycle s)\<rparr>) \<Longrightarrow> wp (on_lifecycle f) Q s"
  by (auto simp: on_lifecycle_def intro!: wp_update)

lemma wp_publish [wp_rules]:
  assumes "\<And>notices. Q () (s\<lparr>br_notices := notices\<rparr>)"
  shows "wp (publish_tun_helper_lifecycle oid operation outcome failure) Q s"
    and "wp (publish_removal_outcome oid removal failure) Q s"
proof -
  show "wp (publish_tun_helper_lifecycle oid operation outcome failure) Q s" for operation outcome
    unfolding publish_tun_helper_lifecycle_def Let_def by (rule wp_update) (rule assms)
  then show "wp (publish_removal_outcome oid removal failure) Q s"
    unfolding publish_removal_outcome_def .
qed

lemma wp_settings_error [wp_rules]:
  assumes "\<And>notices. Q () (s\<lparr>br_notices := notices\<rparr>)"
  shows "wp (settings_error_response err) Q s"
  unfolding settings_error_response_def by (rule wp_update) (rule assms)

text \<open>Before and after a request nothing is under way; in between store and publication agree on the operation.\<close>

definition bridge_idle :: "('c, 'w) bridge \<Rightarrow> ('c, 'w) bridge_state \<Rightarrow> bool" where
  "bridge_idle self s \<longleftrightarrow>
     kept (bg_removals self) (\<lambda>_. True) (br_removals s) \<and> unstuck (br_removals s) \<and> ls_active (br_lifecycle s) = None
     \<and> ops_phase (ls_latest (br_lifecycle s)) \<notin> {PH_Pending, PH_Finalizing}"

definition shown_pending :: "publication \<Rightarrow> string \<Rightarrow> lifecycle_state \<Rightarrow> bool" where
  "shown_pending pub oid s \<longleftrightarrow>
     pb_active pub \<and> pb_duplicate_snapshot pub = None \<and> ls_active s = Some (pb_identity pub)
     \<and> ops_operation_id (ls_latest s) = Some oid"

definition removal_under_way ::
  "('c, 'w) bridge \<Rightarrow> publication \<Rightarrow> removal_admission \<Rightarrow> string \<Rightarrow> removal_phase \<Rightarrow> ('c, 'w) bridge_state \<Rightarrow> bool" where
  "removal_under_way self pub adm oid phase s \<longleftrightarrow>
     underway (bg_removals self) adm phase (br_removals s) \<and> shown_pending pub oid (br_lifecycle s)
     \<and> ra_operation_id adm = oid"

lemma shown_pending_simps [simp]:
  "shown_pending pub oid (publish_current_snapshot s) = shown_pending pub oid s"
  by (simp add: shown_pending_def publish_current_snapshot_def)

lemma finish_with_ends:
  assumes "shown_pending pub oid s"
  shows "ls_active (publication_finish_with pub outcome failure s) = None"
    and "ops_outcome (ls_latest (publication_finish_with pub outcome failure s)) = Some outcome"
    and "ops_operation_id (ls_latest (publication_finish_with pub outcome failure s)) = Some oid"
    and "ops_phase (ls_latest (publication_finish_with pub outcome failure s)) = PH_Terminal"
  using assms
  by (simp_all add: shown_pending_def publication_finish_with_def finish_lifecycle_def publish_current_snapshot_def)

lemma drop_ends:
  assumes "shown_pending pub oid s"
  shows "ls_active (publication_drop pub s) = None"
    and "ops_outcome (ls_latest (publication_drop pub s)) = Some OU_RecoveryRequired"
    and "ops_operation_id (ls_latest (publication_drop pub s)) = Some oid"
    and "ops_phase (ls_latest (publication_drop pub s)) = PH_Terminal"
  using assms
  by (simp_all add: shown_pending_def publication_drop_def finish_lifecycle_def publish_current_snapshot_def)

lemma finalizing_shown: "shown_pending pub oid s \<Longrightarrow> shown_pending pub oid (publication_finalizing pub s)"
  by (simp add: shown_pending_def publication_finalizing_def update_lifecycle_def publish_current_snapshot_def)

lemma frames [simp]:
  "bridge_idle self (s\<lparr>br_notices := ns\<rparr>) = bridge_idle self s"
  "bridge_idle self (s\<lparr>br_capture := c\<rparr>) = bridge_idle self s"
  "bridge_idle self (s\<lparr>br_helper := h\<rparr>) = bridge_idle self s"
  "removal_under_way self pub adm oid p (s\<lparr>br_notices := ns\<rparr>) = removal_under_way self pub adm oid p s"
  "removal_under_way self pub adm oid p (s\<lparr>br_capture := c\<rparr>) = removal_under_way self pub adm oid p s"
  "removal_under_way self pub adm oid p (s\<lparr>br_helper := h\<rparr>) = removal_under_way self pub adm oid p s"
  by (simp_all add: bridge_idle_def removal_under_way_def)

text \<open>The responses that carry a result; all others are errors.\<close>

fun removed_response :: "removal_response \<Rightarrow> bool" where
  "removed_response (RR_Removed _) = True"
| "removed_response (RR_Duplicate _) = True"
| "removed_response _ = False"

lemma evidence_unavailable_idle:
  assumes "kept (bg_removals self) (\<lambda>_. True) (br_removals s)" and "unstuck (br_removals s)"
    and "shown_pending pub oid (br_lifecycle s)"
  shows "wp (evidence_unavailable pub oid) (\<lambda>r s'. bridge_idle self s' \<and> r = RR_EvidenceUnavailable) s"
  unfolding evidence_unavailable_def
  by (intro wp_rules) (use assms finish_with_ends [OF assms(3)] in \<open>auto simp: bridge_idle_def\<close>)

lemma removal_failed_idle:
  assumes "removal_under_way self pub adm oid p s" and "coherent outcome (Some failure) observation cleanup"
    and "\<And>s Q. (\<And>c h. Q () (s\<lparr>br_capture := c, br_helper := h\<rparr>)) \<Longrightarrow> wp aside Q s"
    and "\<not> removed_response response"
  shows "wp (removal_failed self pub adm oid outcome shown aside failure observation cleanup failure_id response)
     (\<lambda>r s'. bridge_idle self s' \<and> \<not> removed_response r) s"
proof -
  have s: "underway (bg_removals self) adm p (br_removals s)" "shown_pending pub oid (br_lifecycle s)"
    using assms(1) by (simp_all add: removal_under_way_def)
  show ?thesis
    unfolding removal_failed_def
  proof (intro wp_bind wp_on_lifecycle assms(3) wp_on_removals, goal_cases)
    case (1 c h)
    show ?case
      by (rule wp_mono [OF finish_ends [OF _ assms(2)]])
        (use s finish_with_ends [OF s(2)] assms(4) in \<open>auto intro!: wp_bind wp_publish wp_return
          simp: bridge_idle_def unstuck_def split: sum.split\<close>)
  qed
qed

text \<open>A part of the preparation goes on in a later phase, or ends the request.\<close>

definition goes_on ::
  "('c, 'w) bridge \<Rightarrow> publication \<Rightarrow> removal_admission \<Rightarrow> string \<Rightarrow> removal_phase
     \<Rightarrow> removal_response + unit \<Rightarrow> ('c, 'w) bridge_state \<Rightarrow> bool" where
  "goes_on self pub adm oid q r s =
     (case r of
        Inl response \<Rightarrow> bridge_idle self s \<and> \<not> removed_response response
      | Inr _ \<Rightarrow> removal_under_way self pub adm oid q s)"

lemma goes_on_simps [simp]:
  "goes_on self pub adm oid q (Inl response) s \<longleftrightarrow> bridge_idle self s \<and> \<not> removed_response response"
  "goes_on self pub adm oid q (Inr u) s = removal_under_way self pub adm oid q s"
  by (simp_all add: goes_on_def)

definition leads ::
  "('c, 'w) bridge \<Rightarrow> publication \<Rightarrow> removal_admission \<Rightarrow> string \<Rightarrow> removal_phase \<Rightarrow> removal_phase
     \<Rightarrow> (('c, 'w) bridge_state, removal_response + unit) state \<Rightarrow> bool" where
  "leads self pub adm oid p q f \<longleftrightarrow>
     (\<forall>s. removal_under_way self pub adm oid p s \<longrightarrow> wp f (goes_on self pub adm oid q) s)"

lemma leads_then:
  assumes "leads self pub adm oid p q f" and "leads self pub adm oid q r g"
  shows "leads self pub adm oid p r (try_then f (\<lambda>_. g))"
  unfolding leads_def
proof (intro allI impI wp_try_then)
  fix s
  assume "removal_under_way self pub adm oid p s"
  then have "wp f (goes_on self pub adm oid q) s"
    using assms(1) by (simp add: leads_def)
  then show "wp f (\<lambda>x s'. case x of Inl e \<Rightarrow> goes_on self pub adm oid r (Inl e) s'
      | Inr v \<Rightarrow> wp g (goes_on self pub adm oid r) s') s"
    by (rule wp_mono) (use assms(2) in \<open>auto simp: leads_def split: sum.split\<close>)
qed

lemma give_up_idle:
  assumes "wp f (\<lambda>r s'. bridge_idle self s' \<and> \<not> removed_response r) s"
  shows "wp (give_up f) (goes_on self pub adm oid p) s"
  unfolding give_up_def by (intro wp_bind wp_mono [OF assms] wp_return) simp

lemma step_leads:
  assumes "p \<le> q" and "q \<noteq> RP_Completed" and "observation \<noteq> OO_Removed"
  shows "leads self pub adm oid p q (removal_step self pub adm oid q observation)"
  unfolding leads_def removal_step_def
proof (intro allI impI wp_bind wp_on_removals)
  fix s
  assume s: "removal_under_way self pub adm oid p s"
  then have "underway (bg_removals self) adm p (br_removals s)"
    by (simp add: removal_under_way_def)
  from advance_underway [OF this assms(1-3), of CO_NotStarted]
  show "wp (advance (bg_removals self) adm q observation CO_NotStarted) (\<lambda>r t. wp (case r of
        Inl _ \<Rightarrow> do { response \<leftarrow> evidence_unavailable pub oid; State_Monad.return (Inl response) }
      | Inr _ \<Rightarrow> State_Monad.return (Inr ())) (goes_on self pub adm oid q) (s\<lparr>br_removals := t\<rparr>)) (br_removals s)"
  proof (rule wp_mono, simp, goal_cases)
    case (1 r t)
    then show ?case
      using s
      by (auto simp: removal_under_way_def intro!: wp_bind wp_return wp_mono [OF evidence_unavailable_idle] split: sum.splits)
  qed
qed

lemma coherent_failures:
  "coherent RO_ObservationIncomplete (Some failure) OO_Incomplete CO_NotRequired"
  "coherent RO_ObservationIncomplete (Some failure) (settings_observation err) CO_NotRequired"
  "coherent (removal_outcome_for_capture_failure kind) (Some failure) (capture_observation kind) CO_NotRequired"
  "coherent (removal_outcome_for_settings_failure err) (Some failure) OO_ConfirmedSafe
     (removal_cleanup_outcome (removal_outcome_for_settings_failure err))"
proof -
  have "settings_observation err \<noteq> OO_Removed"
    by (cases err rule: settings_observation.cases) simp_all
  then show "coherent RO_ObservationIncomplete (Some failure) (settings_observation err) CO_NotRequired"
    by (simp add: coherent_def)
qed (auto simp: coherent_def removal_outcome_for_capture_failure_def capture_observation_def
    removal_outcome_for_settings_failure_def split: settings_error.split)

lemma wp_nothing_aside:
  assumes "\<And>c h. Q () (s\<lparr>br_capture := c, br_helper := h\<rparr>)"
  shows "wp (State_Monad.return ()) Q s"
  using assms [where c = "br_capture s" and h = "br_helper s"] by (simp add: wp_return)

lemma settings_failed_idle:
  assumes "removal_under_way self pub adm oid p s"
  shows "wp (settings_removal_failed self pub adm oid err) (\<lambda>r s'. bridge_idle self s' \<and> \<not> removed_response r) s"
  unfolding settings_removal_failed_def
  by (rule removal_failed_idle [OF assms coherent_failures(2)]) (auto intro: wp_nothing_aside)

lemma with_helper_any:
  assumes "\<And>r t. Q r (s\<lparr>br_helper := t, br_lifecycle := publish_current_snapshot (br_lifecycle s)\<rparr>)"
    and "\<And>r. Q r s"
  shows "wp (with_helper self f answer) Q s"
  unfolding with_helper_def
  by (cases "bg_helper self") (auto intro!: wp_return wp_bind wp_on_controller wp_on_lifecycle assms simp: wp_iff [of "f _"])

lemma under_way_published [simp]:
  "removal_under_way self pub adm oid p (s\<lparr>br_helper := t, br_lifecycle := publish_current_snapshot (br_lifecycle s)\<rparr>)
     = removal_under_way self pub adm oid p s"
  by (simp add: removal_under_way_def)

lemma see_installed_leads: "leads self pub adm oid p p (see_installed self pub adm oid)"
  unfolding leads_def see_installed_def refresh_tun_helper_removal_available_def
proof (intro allI impI wp_bind with_helper_any, goal_cases)
  case (1 s r t)
  then have s: "removal_under_way self pub adm oid p (s\<lparr>br_helper := t, br_lifecycle := publish_current_snapshot (br_lifecycle s)\<rparr>)"
    by simp
  then show ?case
    by (auto intro!: wp_return give_up_idle settings_failed_idle [OF s] removal_failed_idle [OF s coherent_failures(1)]
        wp_nothing_aside split: sum.split bool.split)
next
  case (2 s r)
  then show ?case
    by (auto intro!: wp_return give_up_idle settings_failed_idle [OF 2] removal_failed_idle [OF 2 coherent_failures(1)]
        wp_nothing_aside split: sum.split bool.split)
qed

lemma confirm_clear_leads: "leads self pub adm oid p p (confirm_clear self pub adm oid)"
  unfolding leads_def confirm_clear_def confirm_tun_helper_removal_safe_def
proof (intro allI impI wp_bind with_helper_any, goal_cases)
  case (1 s r t)
  then have s: "removal_under_way self pub adm oid p (s\<lparr>br_helper := t, br_lifecycle := publish_current_snapshot (br_lifecycle s)\<rparr>)"
    by simp
  then show ?case
    by (auto intro!: wp_return give_up_idle settings_failed_idle [OF s] split: sum.split)
next
  case (2 s r)
  then show ?case
    by (auto intro!: wp_return give_up_idle settings_failed_idle [OF 2] split: sum.split)
qed

lemma take_out_leads: "leads self pub adm oid p p (take_out_of_capture self pub adm oid)"
proof -
  have ended: "wp (case r of
            Inl err \<Rightarrow>
              (let outcome = removal_outcome_for_capture_failure (er_kind err)
               in give_up (removal_failed self pub adm oid outcome (Some HF_ConfirmationFailed)
                    (on_capture (cp_record_failure (bg_capture self) err)) (OF_Capture (er_kind err))
                    (capture_observation (er_kind err)) CO_NotRequired (capture_failure_id (er_kind err))
                    (RR_CaptureFailed err outcome)))
          | Inr _ \<Rightarrow> State_Monad.return (Inr ()))
      (goes_on self pub adm oid p) s"
    if "removal_under_way self pub adm oid p s" for r s
    using that
    by (auto intro!: wp_return give_up_idle removal_failed_idle [OF that coherent_failures(3)] wp_on_capture
        simp: Let_def split: sum.split)
  show ?thesis
    unfolding leads_def take_out_of_capture_def disable_tun_for_helper_lifecycle_def
    by (intro allI impI wp_bind wp_on_capture wp_if wp_return wp_case_prod ended) simp_all
qed

lemma prepared_leads: "leads self pub adm oid RP_Admitted RP_PrivilegedMaintenance (removal_prepared self pub adm oid)"
  unfolding removal_prepared_def
  by (rule leads_then [OF see_installed_leads] leads_then [OF step_leads] leads_then [OF take_out_leads]
      leads_then [OF confirm_clear_leads] step_leads | simp add: less_eq_removal_phase_def)+

section \<open>The removal itself\<close>

lemma refresh_locked_shown:
  assumes "\<And>r s'. hc_snapshot s' = r \<Longrightarrow> Q r s'"
  shows "wp (refresh_locked p failure) Q s"
  unfolding refresh_locked_def apply_observation_def helper_record_failure_def
  by (intro wp_rules wp_ask_any assms) simp_all

lemma removal_confirmed:
  "wp (run_lifecycle_inner p LO_Remove correlation) (\<lambda>r s'. isl r \<or> removed_snapshot (hc_snapshot s')) s"
proof -
  have ended: "wp (finish_removal p) (\<lambda>r s'. isl r \<or> removed_snapshot (hc_snapshot s')) s" for s
    unfolding finish_removal_def
    by (intro wp_bind wp_update refresh_locked_shown wp_if)
      (auto simp: helper_record_failure_def removed_snapshot_def intro!: wp_bind wp_update wp_return)
  have unconfirmed: "wp (lifecycle_unconfirmed LO_Remove observed) (\<lambda>r s'. isl r) s" for observed s
    unfolding lifecycle_unconfirmed_def
    by (auto simp: installs_def helper_record_failure_def intro!: wp_bind wp_get wp_update wp_return)
  show ?thesis
    unfolding run_lifecycle_inner_def lifecycle_admitted_def
    by (auto simp: installs_def wp_iff [of "lifecycle_handoff _ _ _"] wp_iff [of "set_phase _"] wp_iff [of "ask _"]
        intro!: wp_bind refresh_locked_shown wp_case_option wp_case_sum wp_if wp_return ended
          wp_mono [OF unconfirmed])
qed

definition removal_reported :: "('c, 'w) bridge \<Rightarrow> string \<Rightarrow> removal_response \<Rightarrow> ('c, 'w) bridge_state \<Rightarrow> bool" where
  "removal_reported self oid r s \<longleftrightarrow>
     (case r of
        RR_Removed snapshot \<Rightarrow>
          ops_outcome snapshot = Some OU_Removed \<and> ops_operation_id snapshot = Some oid
          \<and> removed_snapshot (hc_snapshot (br_helper s))
          \<and> store_records (br_removals s) \<noteq> []
          \<and> oc_operation_id (last (store_records (br_removals s))) = oid
          \<and> oc_outcome (last (store_records (br_removals s))) = RO_Removed
          \<and> (rm_persistence (bg_removals self) = PS_PrivateFile \<longrightarrow>
               on_disk (br_removals s) = st_journal (br_removals s))
      | RR_Duplicate snapshot \<Rightarrow> False
      | _ \<Rightarrow> True)"

lemma unremoved_reported: "\<not> removed_response r \<Longrightarrow> removal_reported self oid r s"
  by (cases r) (simp_all add: removal_reported_def)

lemma reported_notices [simp]:
  "removal_reported self oid r (s\<lparr>br_notices := ns\<rparr>) = removal_reported self oid r s"
  by (simp add: removal_reported_def split: removal_response.split)

lemma executed_idle:
  assumes "removal_under_way self pub adm oid p s"
  shows "wp (removal_executed self pub adm oid) (\<lambda>r s'. bridge_idle self s' \<and> removal_reported self oid r s') s"
proof -
  have failed: "wp (let outcome = removal_outcome_for_settings_failure err
               in removal_failed self pub adm oid outcome (settings_tun_helper_failure err) (State_Monad.return ())
                    (settings_occurrence_failure err) OO_ConfirmedSafe (removal_cleanup_outcome outcome)
                    (settings_failure_id err) (RR_Failed err outcome))
      (\<lambda>r s'. bridge_idle self s' \<and> removal_reported self oid r s') s1"
    if "removal_under_way self pub adm oid p s1" for err s1
    unfolding Let_def
    by (rule wp_mono [OF removal_failed_idle [OF that coherent_failures(4)]])
      (auto intro: wp_nothing_aside unremoved_reported)
  have finished_well: "wp (do { evidence \<leftarrow> on_removals (finish (bg_removals self) adm RO_Removed None OO_Removed CO_ConfirmedAbsent);
                   on_lifecycle (publication_finish_with pub OU_Removed None);
                   s \<leftarrow> State_Monad.get;
                   publish_removal_outcome oid RO_Removed None;
                   State_Monad.return (case evidence of
                       Inl _ \<Rightarrow> RR_EvidenceUnavailable
                     | Inr _ \<Rightarrow> RR_Removed (ls_latest (br_lifecycle s))) })
      (\<lambda>r s'. bridge_idle self s' \<and> removal_reported self oid r s') s1"
    if "removal_under_way self pub adm oid p s1" "removed_snapshot (hc_snapshot (br_helper s1))" for s1
  proof -
    have s1: "underway (bg_removals self) adm p (br_removals s1)" "shown_pending pub oid (br_lifecycle s1)"
      "ra_operation_id adm = oid"
      using that(1) by (simp_all add: removal_under_way_def)
    have "coherent RO_Removed None OO_Removed CO_ConfirmedAbsent"
      by (simp add: coherent_def)
    from finish_ends [OF s1(1) this] show ?thesis
      by (intro wp_bind wp_on_removals) (rule wp_mono, assumption,
        use s1 that(2) finish_with_ends [OF s1(2)] in \<open>auto intro!: wp_bind wp_on_lifecycle wp_get wp_publish wp_return
          simp: bridge_idle_def unstuck_def removal_reported_def split: sum.split\<close>)
  qed
  have ran: "wp (remove_tun_helper_correlated self (publication_correlation pub)) (\<lambda>r s'.
      removal_under_way self pub adm oid p s' \<and> (isl r \<or> removed_snapshot (hc_snapshot (br_helper s')))) s1"
    if "removal_under_way self pub adm oid p s1" for s1
    unfolding remove_tun_helper_correlated_def with_helper_def
    by (cases "bg_helper self") (use that in \<open>auto intro!: wp_return wp_bind wp_on_controller wp_mono [OF removal_confirmed]
      wp_on_lifecycle simp: as_settings_error_def split: sum.splits\<close>)
  have shown: "removal_under_way self pub adm oid p (s\<lparr>br_lifecycle := publication_finalizing pub (br_lifecycle s),
      br_notices := notices\<rparr>)" for notices
    using assms finalizing_shown [of pub oid "br_lifecycle s"] by (simp add: removal_under_way_def)
  show ?thesis
    unfolding removal_executed_def
  proof (intro wp_bind wp_on_lifecycle wp_publish, goal_cases)
    case (1 notices)
    show ?case
    proof (rule wp_mono [OF ran [OF shown]], goal_cases)
      case (1 r s')
      then show ?case
        using failed [of s'] finished_well [of s'] by (cases r) simp_all
    qed
  qed
qed

section \<open>The request as a whole\<close>

lemma admitted_idle:
  assumes "removal_under_way self pub adm oid RP_Admitted s"
  shows "wp (removal_admitted self pub adm oid) (\<lambda>r s'. bridge_idle self s' \<and> removal_reported self oid r s') s"
  unfolding removal_admitted_def
proof (intro wp_bind wp_publish, goal_cases)
  case (1 notices)
  have "wp (removal_prepared self pub adm oid) (goes_on self pub adm oid RP_PrivilegedMaintenance) (s\<lparr>br_notices := notices\<rparr>)"
    using prepared_leads [of self pub adm oid] assms by (simp add: leads_def)
  then show ?case
  proof (rule wp_mono, goal_cases)
    case (1 r s')
    then show ?case
      using executed_idle [of self pub adm oid RP_PrivilegedMaintenance s']
      by (cases r) (auto intro: wp_return unremoved_reported)
  qed
qed

lemma begin_shown:
  assumes "begin_lifecycle_with_identity parse operation oid s = (Inr pub, s')" and "pb_duplicate_snapshot pub = None"
  shows "shown_pending pub oid s'"
  using assms
  by (auto simp: begin_lifecycle_with_identity_def shown_pending_def publish_current_snapshot_def Let_def
      split: if_splits option.splits)

definition seen_removal :: "string \<Rightarrow> lifecycle_state \<Rightarrow> bool" where
  "seen_removal oid s \<longleftrightarrow>
     is_some_and (find (\<lambda>identity. oi_operation_id identity = oid) (ls_seen s))
       (\<lambda>identity. oi_operation identity = LO_Remove)"

lemma remove_idle:
  assumes "bridge_idle self s"
  shows "wp (remove_tun_helper self oid) (\<lambda>r s'. bridge_idle self s'
    \<and> (removal_reported self oid r s' \<or> r = RR_Duplicate (ls_latest (br_lifecycle s)) \<and> s' = s
          \<and> seen_removal oid (br_lifecycle s))) s"
    (is "wp _ ?post s")
proof -
  obtain result lifecycle where begun:
    "begin_lifecycle_with_identity (rm_parse_uuid (bg_removals self)) LO_Remove oid (br_lifecycle s) = (result, lifecycle)"
    by fastforce
  have refused: "wp (do { settings_error_response err; State_Monad.return (RR_Settings err) }) ?post s" for err
    using assms by (auto intro!: wp_bind wp_settings_error wp_return simp: removal_reported_def)
  have duplicate: "wp (State_Monad.return (RR_Duplicate snapshot)) ?post s"
    if "result = Inr pub" "pb_duplicate_snapshot pub = Some snapshot" for pub snapshot
    using assms that begun
    by (auto simp: begin_lifecycle_with_identity_def seen_removal_def Let_def intro!: wp_return
        split: if_splits option.splits)
  have admitted: "wp (do { on_lifecycle (\<lambda>_. lifecycle);
        admission \<leftarrow> on_removals (admit (bg_removals self) oid state);
        case admission of Inl _ \<Rightarrow> evidence_unavailable pub oid | Inr adm \<Rightarrow> removal_admitted self pub adm oid })
      ?post s"
    if "result = Inr pub" "pb_duplicate_snapshot pub = None" for pub state
  proof (intro wp_bind wp_on_lifecycle wp_on_removals, goal_cases)
    case 1
    have shown: "shown_pending pub oid lifecycle"
      using begin_shown begun that by metis
    have "wp (admit (bg_removals self) oid state) (\<lambda>r s'. case r of
          Inl _ \<Rightarrow> kept (bg_removals self) (\<lambda>_. True) s' \<and> unstuck s'
        | Inr adm \<Rightarrow> underway (bg_removals self) adm RP_Admitted s' \<and> ra_operation_id adm = oid)
      (br_removals (s\<lparr>br_lifecycle := lifecycle\<rparr>))"
      using assms by (intro admit_underway) (simp_all add: bridge_idle_def)
    then show ?case
    proof (rule wp_mono, goal_cases)
      case (1 r t)
      show ?case
      proof (cases r)
        case (Inl e)
        then show ?thesis
          using 1 shown by (auto intro!: wp_mono [OF evidence_unavailable_idle] unremoved_reported)
      next
        case (Inr adm)
        then show ?thesis
          using 1 shown by (auto intro!: wp_mono [OF admitted_idle] simp: removal_under_way_def)
      qed
    qed
  qed
  show ?thesis
    unfolding remove_tun_helper_def
    by (intro wp_bind wp_get) (auto simp: begun intro!: refused duplicate admitted split: sum.split option.split)
qed

text \<open>A request dropped at an await: the publication ends, the store keeps the removal as under way.\<close>

lemma until_leads: "\<exists>q. leads self pub adm oid RP_Admitted q (removal_until self pub adm oid await)"
proof (cases await)
  case AW_Refresh
  have "leads self pub adm oid RP_Admitted RP_Admitted (removal_until self pub adm oid AW_Refresh)"
    by (auto simp: leads_def intro: wp_return)
  then show ?thesis using AW_Refresh by blast
next
  case AW_Capture
  have "leads self pub adm oid RP_Admitted RP_CaptureShutdown (removal_until self pub adm oid AW_Capture)"
    unfolding removal_until.simps
    by (rule leads_then [OF see_installed_leads] step_leads | simp add: less_eq_removal_phase_def)+
  then show ?thesis using AW_Capture by blast
next
  case AW_Observation
  have "leads self pub adm oid RP_Admitted RP_RemovalObservation (removal_until self pub adm oid AW_Observation)"
    unfolding removal_until.simps
    by (rule leads_then [OF see_installed_leads] leads_then [OF step_leads] leads_then [OF take_out_leads] step_leads
        | simp add: less_eq_removal_phase_def)+
  then show ?thesis using AW_Observation by blast
next
  case AW_Removal
  have "leads self pub adm oid RP_PrivilegedMaintenance RP_PrivilegedMaintenance
      (do { on_lifecycle (publication_finalizing pub);
            publish_tun_helper_lifecycle oid ''remove'' ''finalizing'' None;
            State_Monad.return (Inr ()) })"
    unfolding leads_def
    by (auto intro!: wp_bind wp_on_lifecycle wp_publish wp_return simp: removal_under_way_def finalizing_shown)
  then show ?thesis
    unfolding AW_Removal removal_until.simps by (intro exI) (rule leads_then [OF prepared_leads])
qed

definition removal_cut_off :: "('c, 'w) bridge \<Rightarrow> string \<Rightarrow> ('c, 'w) bridge_state \<Rightarrow> bool" where
  "removal_cut_off self oid s \<longleftrightarrow>
     ls_active (br_lifecycle s) = None \<and> ops_phase (ls_latest (br_lifecycle s)) = PH_Terminal
     \<and> ops_operation_id (ls_latest (br_lifecycle s)) = Some oid
     \<and> ops_outcome (ls_latest (br_lifecycle s)) = Some OU_RecoveryRequired
     \<and> (\<exists>adm phase. underway (bg_removals self) adm phase (br_removals s) \<and> ra_operation_id adm = oid)"

definition dropped_or_idle ::
  "('c, 'w) bridge \<Rightarrow> string \<Rightarrow> removal_response option \<Rightarrow> ('c, 'w) bridge_state \<Rightarrow> bool" where
  "dropped_or_idle self oid r s \<longleftrightarrow> (if r = None then removal_cut_off self oid s else bridge_idle self s)"

lemma dropped_or_idle_simps [simp]:
  "dropped_or_idle self oid None s = removal_cut_off self oid s"
  "dropped_or_idle self oid (Some response) s = bridge_idle self s"
  by (simp_all add: dropped_or_idle_def)

lemma remove_dropped:
  assumes "bridge_idle self s"
  shows "wp (remove_tun_helper_dropped self oid await c h) (dropped_or_idle self oid) s" (is "wp _ ?post s")
proof -
  obtain result lifecycle where begun:
    "begin_lifecycle_with_identity (rm_parse_uuid (bg_removals self)) LO_Remove oid (br_lifecycle s) = (result, lifecycle)"
    by fastforce
  have cut_off: "removal_cut_off self oid
      (s2\<lparr>br_capture := c, br_helper := h, br_lifecycle := publication_drop pub (br_lifecycle s2)\<rparr>)"
    if "removal_under_way self pub adm oid q s2" for pub adm q s2
    using that drop_ends [of pub oid "br_lifecycle s2"] unfolding removal_cut_off_def removal_under_way_def by auto
  have ended: "wp (do { publish_tun_helper_lifecycle oid ''remove'' ''pending'' None;
        reached \<leftarrow> removal_until self pub adm oid await;
        case reached of
          Inl response \<Rightarrow> State_Monad.return (Some response)
        | Inr _ \<Rightarrow> do { request_dropped pub c h; State_Monad.return None } }) ?post s1"
    if s1: "removal_under_way self pub adm oid RP_Admitted s1" for pub adm s1
  proof (intro wp_bind wp_publish, goal_cases)
    case (1 notices)
    obtain q where "leads self pub adm oid RP_Admitted q (removal_until self pub adm oid await)"
      using until_leads by blast
    then have "wp (removal_until self pub adm oid await) (goes_on self pub adm oid q) (s1\<lparr>br_notices := notices\<rparr>)"
      using s1 by (simp add: leads_def)
    then show ?case
    proof (rule wp_mono, goal_cases)
      case (1 r s2)
      then show ?case
        using drop_ends [of pub oid "br_lifecycle s2"] cut_off [of pub adm q s2]
        by (cases r) (auto simp: request_dropped_def intro!: wp_bind wp_update wp_return)
    qed
  qed
  have admitted: "wp (do { on_lifecycle (\<lambda>_. lifecycle);
        admission \<leftarrow> on_removals (admit (bg_removals self) oid state);
        case admission of
          Inl _ \<Rightarrow> do { response \<leftarrow> evidence_unavailable pub oid; State_Monad.return (Some response) }
        | Inr adm \<Rightarrow>
            do { publish_tun_helper_lifecycle oid ''remove'' ''pending'' None;
                 reached \<leftarrow> removal_until self pub adm oid await;
                 case reached of
                   Inl response \<Rightarrow> State_Monad.return (Some response)
                 | Inr _ \<Rightarrow> do { request_dropped pub c h; State_Monad.return None } } }) ?post s"
    if "result = Inr pub" "pb_duplicate_snapshot pub = None" for pub state
  proof (rule wp_bind, rule wp_on_lifecycle, rule wp_bind, rule wp_on_removals, goal_cases)
    case 1
    have shown: "shown_pending pub oid lifecycle"
      using begin_shown begun that by metis
    have "wp (admit (bg_removals self) oid state) (\<lambda>r s'. case r of
          Inl _ \<Rightarrow> kept (bg_removals self) (\<lambda>_. True) s' \<and> unstuck s'
        | Inr adm \<Rightarrow> underway (bg_removals self) adm RP_Admitted s' \<and> ra_operation_id adm = oid)
      (br_removals (s\<lparr>br_lifecycle := lifecycle\<rparr>))"
      using assms by (intro admit_underway) (simp_all add: bridge_idle_def)
    then show ?case
    proof (rule wp_mono, goal_cases)
      case (1 r t)
      show ?case
      proof (cases r)
        case (Inl e)
        then show ?thesis
          using 1 shown by (auto intro!: wp_bind wp_return wp_mono [OF evidence_unavailable_idle])
      next
        case (Inr adm)
        then show ?thesis
          using 1 shown ended [of pub adm] by (auto simp: removal_under_way_def)
      qed
    qed
  qed
  have refused: "wp (do { settings_error_response err; State_Monad.return (Some (RR_Settings err)) }) ?post s" for err
    using assms by (auto intro!: wp_bind wp_settings_error wp_return)
  have duplicate: "wp (State_Monad.return (Some (RR_Duplicate snapshot))) ?post s" for snapshot
    using assms by (auto intro!: wp_return)
  show ?thesis
    unfolding remove_tun_helper_dropped_def
    by (rule wp_bind, rule wp_get) (auto simp: begun intro!: refused duplicate admitted split: sum.split option.split)
qed

text \<open>What the next process makes of a file whose last write came before it.\<close>

lemma interrupted_reopened:
  assumes "underway self adm phase s" and "rm_persistence self = PS_PrivateFile"
  shows "\<exists>t a. reopened self (st_file s) [] = Stored t \<and> store_records t \<noteq> [] \<and> last (store_records t) = interrupted a
    \<and> ac_operation_id a = ra_operation_id adm \<and> ac_admitted_revision a = ra_admitted_revision adm
    \<and> ac_lifecycle_phase a = phase"
proof -
  obtain a where a: "oj_active (on_disk s) = Some a" "ac_admitted_revision a = ra_admitted_revision adm"
    "ac_operation_id a = ra_operation_id adm" "ac_lifecycle_phase a = phase" and valid: "journal_valid self (on_disk s)"
    using assms by (auto simp: underway_def is_some_and_iff kept_def)
  let ?j = "retire_active (interrupted a) (on_disk s)"
  have j: "snd (reconcile_interrupted_active (on_disk s)) = ?j" "fst (reconcile_interrupted_active (on_disk s))"
    by (simp_all add: reconcile_interrupted_active_def a)
  then have "journal_valid self ?j"
    using reconciled_valid [OF valid] by simp
  then have "reopened self (st_file s) [] = Stored \<lparr>st_journal = ?j, st_reconcile_active = False, st_file = Some ?j, st_faults = []\<rparr>"
    using valid a(1)
    by (cases "st_file s") (simp_all add: reopened_def open_private_file_def load_private_journal_def try_then_def
        write_private_journal_def in_memory_def on_disk_def reconcile_interrupted_active_def State_Monad.update_def
        journal_default_def)
  moreover obtain rs where "trim_records (oj_records (on_disk s) @ [interrupted a]) = rs @ [interrupted a]"
    using pop_front_while_over_snoc [of OCCURRENCE_LIMIT "oj_records (on_disk s)" "interrupted a"]
    by (auto simp: trim_records_def OCCURRENCE_LIMIT_def)
  ultimately show ?thesis
    using a by (auto simp: store_records_def retire_active_def)
qed

end
