(* ===== verification/Removal_Workflow_Properties.thy ===== *)
theory Removal_Workflow_Properties
  imports Removal_Workflow_Laws Tun_Helper_Properties
begin

text \<open>
  The removal request as its callers see it, over any capture, any helper platform and any failure of the store's
  file: it always comes to an end that leaves the bridge ready, reports a removal only with its evidence, and has its
  intention in the file before the privileged operation starts.
\<close>

section \<open>A bridge to run\<close>

text \<open>A capture with TUN switched off that is free to be asked.\<close>

definition demo_capture :: "(unit, bool \<times> helper_event list) capture_port" where
  "demo_capture =
     \<lparr>cp_try_lock = State_Monad.return True,
      cp_status = State_Monad.return (\<lparr>cs_system_proxy = True, cs_tun = False\<rparr>, False, True),
      cp_capabilities = State_Monad.return (SA_Rpc, CA_Supported, CA_Supported),
      cp_set_capture = (\<lambda>request. State_Monad.return (Inr ())),
      cp_launch_proxy = None,
      cp_remember_selection = None,
      cp_record_failure = (\<lambda>err. State_Monad.return ()),
      cp_record_failure_for_selection = (\<lambda>err selection. State_Monad.return ())\<rparr>"

definition demo_bridge :: "(unit, bool \<times> helper_event list) bridge" where
  "demo_bridge =
     \<lparr>bg_helper = Some (helper_recording quiet_platform), bg_removals = demo_removal_self, bg_capture = demo_capture\<rparr>"

definition demo_bridge_state :: "write_fault list \<Rightarrow> (unit, bool \<times> helper_event list) bridge_state" where
  "demo_bridge_state fs =
     \<lparr>br_lifecycle = lifecycle_default, br_removals = in_memory\<lparr>st_faults := fs\<rparr>, br_helper = healthy_state,
      br_capture = (), br_notices = []\<rparr>"

lemma demo_idle: "bridge_idle demo_bridge (demo_bridge_state fs)"
  by (simp add: bridge_idle_def demo_bridge_state_def demo_bridge_def kept_def on_disk_def in_memory_def unstuck_def
      journal_default_valid lifecycle_default_def operation_snapshot_default_def) (simp add: journal_default_def)

section \<open>The properties\<close>



text \<open>
  C33: the privileged removal starts only with its intention in the file. If the process dies from there on, before
  the outcome is recorded, the next process shows the operation as interrupted, with its cleanup incomplete.
\<close>

theorem removal_written_ahead:
  assumes "removal_under_way self pub adm oid RP_Admitted s" and "rm_persistence (bg_removals self) = PS_PrivateFile"
    and "run_state (removal_prepared self pub adm oid) s = (Inr (), s')"
  shows "\<exists>t. reopened (bg_removals self) (st_file (br_removals s')) [] = Stored t \<and> store_records t \<noteq> []
    \<and> oc_operation_id (last (store_records t)) = oid
    \<and> oc_failure (last (store_records t)) = Some OF_ProcessInterrupted
    \<and> oc_cleanup (last (store_records t)) = CO_Incomplete"
proof -
  have "wp (removal_prepared self pub adm oid) (goes_on self pub adm oid RP_PrivilegedMaintenance) s"
    using prepared_leads [of self pub adm oid] assms(1) by (simp add: leads_def)
  from wp_run [OF this assms(3)]
  have "underway (bg_removals self) adm RP_PrivilegedMaintenance (br_removals s')" "ra_operation_id adm = oid"
    by (simp_all add: removal_under_way_def)
  from interrupted_reopened [OF this(1) assms(2)] this(2) show ?thesis
    by (auto simp: interrupted_def)
qed

theorem removal_written_ahead_witness:
  "\<exists>adm s s' t pub. run_state (removal_prepared demo_bridge pub adm demo_operation) s = (Inr (), s')
     \<and> reopened demo_removal_self (st_file (br_removals s')) [] = Stored t
     \<and> oc_cleanup (last (store_records t)) = CO_Incomplete"
proof -
  let ?identity = "\<lparr>oi_admitted_revision = 1, oi_operation = LO_Remove, oi_operation_id = demo_operation\<rparr>"
  define pub where "pub = \<lparr>pb_active = True, pb_duplicate_snapshot = None, pb_identity = ?identity\<rparr>"
  define s where "s = (demo_bridge_state [])\<lparr>
      br_lifecycle := snd (begin_lifecycle_with_identity (rm_parse_uuid demo_removal_self) LO_Remove demo_operation
        lifecycle_default),
      br_removals := snd (run_state (admit demo_removal_self demo_operation AS_Running) in_memory)\<rparr>"
  have "wp (admit demo_removal_self demo_operation AS_Running) (\<lambda>r s'. case r of
      Inl _ \<Rightarrow> kept demo_removal_self (\<lambda>_. True) s' \<and> unstuck s'
    | Inr adm \<Rightarrow> underway demo_removal_self adm RP_Admitted s' \<and> ra_operation_id adm = demo_operation) in_memory"
    by (rule admit_underway) (use demo_idle [of "[]"] in
      \<open>simp_all add: bridge_idle_def demo_bridge_def demo_bridge_state_def in_memory_def\<close>)
  moreover have "fst (run_state (admit demo_removal_self demo_operation AS_Running) in_memory) = Inr demo_admission"
    by code_simp
  ultimately have "underway demo_removal_self demo_admission RP_Admitted (br_removals s)"
    by (simp add: wp_iff s_def)
  moreover have "shown_pending pub demo_operation (br_lifecycle s)"
    unfolding pub_def s_def by code_simp
  ultimately have underway: "removal_under_way demo_bridge pub demo_admission demo_operation RP_Admitted s"
    by (simp add: removal_under_way_def demo_bridge_def demo_admission_def)
  have "fst (run_state (removal_prepared demo_bridge pub demo_admission demo_operation) s) = Inr ()"
    unfolding s_def pub_def by code_simp
  then obtain s' where run: "run_state (removal_prepared demo_bridge pub demo_admission demo_operation) s = (Inr (), s')"
    by (metis prod.collapse)
  have "rm_persistence (bg_removals demo_bridge) = PS_PrivateFile"
    by (simp add: demo_bridge_def demo_removal_self_def)
  from removal_written_ahead [OF underway this run] run show ?thesis
    by (auto simp: demo_bridge_def)
qed

text \<open>
  A removal that is dropped at one of its awaits is shown as in need of recovery under its id, nothing is shown as under
  way, and the next process that opens the file finds the removal interrupted.
\<close>

theorem dropped_removal_interrupted:
  assumes "bridge_idle self s" and "rm_persistence (bg_removals self) = PS_PrivateFile"
    and "run_state (remove_tun_helper_dropped self oid await c h) s = (None, s')"
  shows "ls_active (br_lifecycle s') = None \<and> ops_operation_id (ls_latest (br_lifecycle s')) = Some oid
    \<and> ops_outcome (ls_latest (br_lifecycle s')) = Some OU_RecoveryRequired
    \<and> (\<exists>t. reopened (bg_removals self) (st_file (br_removals s')) [] = Stored t \<and> store_records t \<noteq> []
         \<and> oc_operation_id (last (store_records t)) = oid
         \<and> oc_failure (last (store_records t)) = Some OF_ProcessInterrupted)"
proof -
  have "removal_cut_off self oid s'"
    using wp_run [OF remove_dropped [OF assms(1)] assms(3)] by simp
  then obtain adm phase where "underway (bg_removals self) adm phase (br_removals s')" "ra_operation_id adm = oid"
    and shown: "ls_active (br_lifecycle s') = None" "ops_operation_id (ls_latest (br_lifecycle s')) = Some oid"
      "ops_outcome (ls_latest (br_lifecycle s')) = Some OU_RecoveryRequired"
    by (auto simp: removal_cut_off_def)
  from interrupted_reopened [OF this(1) assms(2)] this(2) shown show ?thesis
    by (auto simp: interrupted_def)
qed

end
