(* ===== verification/Helper_Request_Properties.thy ===== *)
theory Helper_Request_Properties
  imports Helper_Requests Removal_Workflow_Properties
begin

text \<open>
  The three helper requests together: any sequence of them, over any capture, any helper platform and any failing
  write, leaves the bridge ready for the next one, and an installation or repair that fails leaves the capture alone.
\<close>

section \<open>Any sequence of requests\<close>

text \<open>Requests that are carried to their end, and installations and repairs that are dropped on the way.\<close>

datatype ('c, 'w) helper_request =
    HQ_Install bool
  | HQ_Repair bool
  | HQ_Remove
  | HQ_DroppedInstall bool 'c "'w helper_state"
  | HQ_DroppedRepair bool 'c "'w helper_state"

fun serve :: "('c, 'w) bridge \<Rightarrow> ('c, 'w) bridge_state \<Rightarrow> ('c, 'w) helper_request \<times> string \<times> write_fault list \<Rightarrow> ('c, 'w) bridge_state" where
  "serve self s (HQ_Install resume, oid, fs) =
     snd (run_state (install_tun_helper self oid resume) (s\<lparr>br_removals := (br_removals s)\<lparr>st_faults := fs\<rparr>\<rparr>))"
| "serve self s (HQ_Repair resume, oid, fs) =
     snd (run_state (repair_tun_helper self oid resume) (s\<lparr>br_removals := (br_removals s)\<lparr>st_faults := fs\<rparr>\<rparr>))"
| "serve self s (HQ_Remove, oid, fs) =
     snd (run_state (remove_tun_helper self oid) (s\<lparr>br_removals := (br_removals s)\<lparr>st_faults := fs\<rparr>\<rparr>))"
| "serve self s (HQ_DroppedInstall in_capture c h, oid, fs) =
     snd (run_state (helper_operation_dropped self LO_Install (install_tun_helper_correlated self) ''install'' oid in_capture c h)
       (s\<lparr>br_removals := (br_removals s)\<lparr>st_faults := fs\<rparr>\<rparr>))"
| "serve self s (HQ_DroppedRepair in_capture c h, oid, fs) =
     snd (run_state (helper_operation_dropped self LO_Repair (repair_tun_helper_correlated self) ''repair'' oid in_capture c h)
       (s\<lparr>br_removals := (br_removals s)\<lparr>st_faults := fs\<rparr>\<rparr>))"

text \<open>A step of the capture changes the capture and the helper, nothing else.\<close>

definition capture_only :: "(('c, 'w) bridge_state, 'a) state \<Rightarrow> bool" where
  "capture_only f \<longleftrightarrow> (\<forall>s Q. (\<forall>r c h. Q r (s\<lparr>br_capture := c, br_helper := h\<rparr>)) \<longrightarrow> wp f Q s)"

lemma capture_only_on_capture: "capture_only (on_capture f)"
  by (auto simp: capture_only_def intro: wp_on_capture)

lemma capture_only_return:
  fixes v :: 'a
  shows "capture_only (State_Monad.return v :: (('c, 'w) bridge_state, 'a) state)"
  unfolding capture_only_def
proof (intro allI impI wp_return)
  fix s :: "('c, 'w) bridge_state" and Q :: "'a \<Rightarrow> _"
  assume "\<forall>r c h. Q r (s\<lparr>br_capture := c, br_helper := h\<rparr>)"
  then have "Q v (s\<lparr>br_capture := br_capture s, br_helper := br_helper s\<rparr>)"
    by blast
  then show "Q v s"
    by simp
qed

lemma capture_only_bind:
  assumes "capture_only f" and "\<And>v. capture_only (g v)"
  shows "capture_only (State_Monad.bind f g)"
  using assms by (fastforce simp: capture_only_def intro: wp_bind)

lemma capture_only_cases:
  "capture_only f \<Longrightarrow> capture_only g \<Longrightarrow> capture_only (if b then f else g)"
  "(\<And>x y z. capture_only (f3 x y z)) \<Longrightarrow> capture_only (case t of (x, y, z) \<Rightarrow> f3 x y z)"
  "(\<And>e. capture_only (l e)) \<Longrightarrow> (\<And>v. capture_only (r v)) \<Longrightarrow> capture_only (case u of Inl e \<Rightarrow> l e | Inr v \<Rightarrow> r v)"
  "capture_only n \<Longrightarrow> (\<And>v. capture_only (k v)) \<Longrightarrow> capture_only (case w of None \<Rightarrow> n | Some v \<Rightarrow> k v)"
  by (auto split: prod.split sum.split option.split)

lemmas capture_only_rules = capture_only_on_capture capture_only_return capture_only_bind capture_only_cases

lemma reconcile_capture_only: "capture_only (reconcile_capture self resume)"
  unfolding reconcile_capture_def disable_tun_for_helper_lifecycle_def resume_tun_after_helper_lifecycle_def
    set_aggregate_capture_locked_def requested_capture_selection_def remember_selection_def try_then_def Let_def
  by (intro capture_only_rules)

lemma wp_capture_only:
  "capture_only f \<Longrightarrow> (\<And>r c h. Q r (s\<lparr>br_capture := c, br_helper := h\<rparr>)) \<Longrightarrow> wp f Q s"
  by (auto simp: capture_only_def)

section \<open>Installation and repair\<close>

text \<open>What the response of an installation or repair says of the operation shown and of the capture.\<close>

definition operation_reported :: "string \<Rightarrow> 'c \<Rightarrow> lifecycle_response \<Rightarrow> ('c, 'w) bridge_state \<Rightarrow> bool" where
  "operation_reported oid c r s \<longleftrightarrow>
     (case r of
        LR_Applied snapshot \<Rightarrow> ops_outcome snapshot = Some OU_Applied \<and> ops_operation_id snapshot = Some oid
      | LR_Failed err \<Rightarrow>
          br_capture s = c \<and> ops_operation_id (ls_latest (br_lifecycle s)) = Some oid
          \<and> ops_outcome (ls_latest (br_lifecycle s)) \<in> {Some OU_AuthorizationCancelled, Some OU_RecoveryRequired}
      | _ \<Rightarrow> br_capture s = c)"

lemma operation_run_idle:
  assumes "kept (bg_removals self) (\<lambda>_. True) (br_removals s)" and "unstuck (br_removals s)"
    and "shown_pending pub oid (br_lifecycle s)"
    and "\<And>s Q. (\<And>r t. Q r (s\<lparr>br_helper := t, br_lifecycle := publish_current_snapshot (br_lifecycle s)\<rparr>)) \<Longrightarrow>
      (\<And>r. Q r s) \<Longrightarrow> wp (operation (publication_correlation pub)) Q s"
  shows "wp (helper_operation_run self operation name pub oid resume)
    (\<lambda>r s'. bridge_idle self s' \<and> operation_reported oid (br_capture s) r s') s"
proof -
  have ended: "wp (case r of
            Inr _ \<Rightarrow>
              do { reconcile_capture self resume;
                   on_lifecycle (publication_finish_with pub OU_Applied None);
                   s \<leftarrow> State_Monad.get;
                   publish_tun_helper_lifecycle oid name ''applied'' None;
                   State_Monad.return (LR_Applied (ls_latest (br_lifecycle s))) }
          | Inl err \<Rightarrow>
              (let failure = settings_tun_helper_failure err;
                   outcome = tun_helper_failure_outcome failure
               in do { on_lifecycle (publication_finish_with pub outcome failure);
                       publish_tun_helper_lifecycle oid name (tun_helper_operation_outcome_id outcome)
                         (Some (settings_failure_id err));
                       State_Monad.return (LR_Failed err) }))
      (\<lambda>r s'. bridge_idle self s' \<and> operation_reported oid (br_capture s) r s') s1"
    if "br_removals s1 = br_removals s" "br_capture s1 = br_capture s" "shown_pending pub oid (br_lifecycle s1)"
    for r :: "settings_error + helper_snapshot" and s1
    using that assms(1,2) finish_with_ends [OF that(3)]
    by (cases r) (auto intro!: wp_bind wp_on_lifecycle wp_get wp_publish wp_return
        wp_capture_only [OF reconcile_capture_only]
        simp: bridge_idle_def operation_reported_def tun_helper_failure_outcome_def Let_def)
  show ?thesis
    unfolding helper_operation_run_def
    by (intro wp_bind wp_publish wp_on_lifecycle assms(4) ended) (use finalizing_shown [OF assms(3)] in simp_all)
qed

lemma operation_request_idle:
  assumes "bridge_idle self s"
    and "\<And>c s Q. (\<And>r t. Q r (s\<lparr>br_helper := t, br_lifecycle := publish_current_snapshot (br_lifecycle s)\<rparr>)) \<Longrightarrow>
      (\<And>r. Q r s) \<Longrightarrow> wp (operation c) Q s"
  shows "wp (helper_operation_request self kind operation name oid resume)
    (\<lambda>r s'. bridge_idle self s' \<and> operation_reported oid (br_capture s) r s') s"
proof -
  obtain result lifecycle where begun:
    "begin_lifecycle_with_identity (rm_parse_uuid (bg_removals self)) kind oid (br_lifecycle s) = (result, lifecycle)"
    by fastforce
  have run: "wp (helper_operation_run self operation name pub oid resume)
      (\<lambda>r s'. bridge_idle self s' \<and> operation_reported oid (br_capture s) r s') (s\<lparr>br_lifecycle := lifecycle\<rparr>)"
    if "result = Inr pub" "pb_duplicate_snapshot pub = None" for pub
  proof -
    have "shown_pending pub oid lifecycle"
      using begin_shown begun that by metis
    then have "wp (helper_operation_run self operation name pub oid resume) (\<lambda>r s'. bridge_idle self s'
        \<and> operation_reported oid (br_capture (s\<lparr>br_lifecycle := lifecycle\<rparr>)) r s') (s\<lparr>br_lifecycle := lifecycle\<rparr>)"
      by (intro operation_run_idle [OF _ _ _ assms(2)]) (use assms(1) in \<open>simp_all add: bridge_idle_def\<close>)
    then show ?thesis
      by simp
  qed
  show ?thesis
    unfolding helper_operation_request_def
    by (intro wp_bind wp_get)
      (use assms(1) in \<open>auto simp: begun operation_reported_def
        intro!: wp_return wp_bind wp_settings_error wp_on_lifecycle run [unfolded operation_reported_def]
        split: sum.split option.split\<close>)
qed

lemma install_idle:
  assumes "bridge_idle self s"
  shows "wp (install_tun_helper self oid resume) (\<lambda>r s'. bridge_idle self s' \<and> operation_reported oid (br_capture s) r s') s"
    and "wp (repair_tun_helper self oid resume) (\<lambda>r s'. bridge_idle self s' \<and> operation_reported oid (br_capture s) r s') s"
  unfolding install_tun_helper_def repair_tun_helper_def
  by (rule operation_request_idle [OF assms];
      unfold install_tun_helper_correlated_def repair_tun_helper_correlated_def; rule with_helper_any; simp)+

text \<open>A dropped installation or repair leaves the bridge idle too, by the drop of its publication.\<close>

lemma operation_dropped_idle:
  assumes "bridge_idle self s"
    and any: "\<And>c s Q. (\<And>r t. Q r (s\<lparr>br_helper := t, br_lifecycle := publish_current_snapshot (br_lifecycle s)\<rparr>)) \<Longrightarrow>
      (\<And>r. Q r s) \<Longrightarrow> wp (operation c) Q s"
  shows "wp (helper_operation_dropped self kind operation name oid in_capture c h) (\<lambda>r s'. bridge_idle self s') s"
proof -
  obtain result lifecycle where begun:
    "begin_lifecycle_with_identity (rm_parse_uuid (bg_removals self)) kind oid (br_lifecycle s) = (result, lifecycle)"
    by fastforce
  have cut: "wp (do { request_dropped pub c h; State_Monad.return None }) (\<lambda>r s'. bridge_idle self s') s1"
    and failed: "wp (do { on_lifecycle (publication_finish_with pub outcome failure);
        publish_tun_helper_lifecycle oid name label reason; State_Monad.return v }) (\<lambda>r s'. bridge_idle self s') s1"
    if "br_removals s1 = br_removals s" "shown_pending pub oid (br_lifecycle s1)"
    for pub s1 outcome failure label reason and v :: "lifecycle_response option"
    using that assms(1) drop_ends [OF that(2)] finish_with_ends [OF that(2)]
    by (auto simp: request_dropped_def bridge_idle_def intro!: wp_bind wp_update wp_on_lifecycle wp_publish wp_return)
  have run: "wp (do { on_lifecycle (\<lambda>_. lifecycle); helper_operation_cut self operation name pub oid in_capture c h })
      (\<lambda>r s'. bridge_idle self s') s"
    if "result = Inr pub" "pb_duplicate_snapshot pub = None" for pub
  proof -
    have shown: "shown_pending pub oid (publication_finalizing pub lifecycle)"
      using begin_shown begun that finalizing_shown by metis
    have ended: "wp (case r of
            Inr _ \<Rightarrow> do { request_dropped pub c h; State_Monad.return None }
          | Inl err \<Rightarrow>
              (let failure = settings_tun_helper_failure err;
                   outcome = tun_helper_failure_outcome failure
               in do { on_lifecycle (publication_finish_with pub outcome failure);
                       publish_tun_helper_lifecycle oid name (tun_helper_operation_outcome_id outcome)
                         (Some (settings_failure_id err));
                       State_Monad.return (Some (LR_Failed err)) })) (\<lambda>r s'. bridge_idle self s') s1"
      if "br_removals s1 = br_removals s" "shown_pending pub oid (br_lifecycle s1)"
      for r :: "settings_error + helper_snapshot" and s1
      unfolding Let_def using cut [OF that] failed [OF that] by (cases r) simp_all
    show ?thesis
      unfolding helper_operation_cut_def
      by (intro wp_bind wp_on_lifecycle wp_publish wp_if any ended cut) (use shown in simp_all)
  qed
  have refused: "wp (do { settings_error_response err; State_Monad.return (Some (LR_Settings err)) })
      (\<lambda>r s'. bridge_idle self s') s"
    and duplicate: "wp (State_Monad.return (Some (LR_Duplicate snapshot))) (\<lambda>r s'. bridge_idle self s') s" for err snapshot
    using assms(1) by (auto intro!: wp_bind wp_settings_error wp_return)
  show ?thesis
    unfolding helper_operation_dropped_def
    by (rule wp_bind, rule wp_get)
      (auto simp: begun intro!: refused duplicate run split: sum.split option.split)
qed

lemma serve_idle:
  assumes "bridge_idle self s"
  shows "bridge_idle self (serve self s request)"
proof (cases "(self, s, request)" rule: serve.cases)
  case (1 self' s' resume oid fs)
  have "bridge_idle self (s\<lparr>br_removals := (br_removals s)\<lparr>st_faults := fs\<rparr>\<rparr>)"
    using assms by (simp add: bridge_idle_def kept_def unstuck_def on_disk_def)
  from install_idle(1) [OF this] show ?thesis
    using 1 by (simp add: wp_iff)
next
  case (2 self' s' resume oid fs)
  have "bridge_idle self (s\<lparr>br_removals := (br_removals s)\<lparr>st_faults := fs\<rparr>\<rparr>)"
    using assms by (simp add: bridge_idle_def kept_def unstuck_def on_disk_def)
  from install_idle(2) [OF this] show ?thesis
    using 2 by (simp add: wp_iff)
next
  case (3 self' s' oid fs)
  have "bridge_idle self (s\<lparr>br_removals := (br_removals s)\<lparr>st_faults := fs\<rparr>\<rparr>)"
    using assms by (simp add: bridge_idle_def kept_def unstuck_def on_disk_def)
  from remove_idle [OF this] show ?thesis
    using 3 by (simp add: wp_iff)
next
  case (4 self' s' in_capture c h oid fs)
  have "bridge_idle self (s\<lparr>br_removals := (br_removals s)\<lparr>st_faults := fs\<rparr>\<rparr>)"
    using assms by (simp add: bridge_idle_def kept_def unstuck_def on_disk_def)
  from operation_dropped_idle [OF this, of "install_tun_helper_correlated self" LO_Install "''install''" oid in_capture c h]
  show ?thesis
    using 4 by (simp add: wp_iff install_tun_helper_correlated_def with_helper_any [unfolded wp_iff])
next
  case (5 self' s' in_capture c h oid fs)
  have "bridge_idle self (s\<lparr>br_removals := (br_removals s)\<lparr>st_faults := fs\<rparr>\<rparr>)"
    using assms by (simp add: bridge_idle_def kept_def unstuck_def on_disk_def)
  from operation_dropped_idle [OF this, of "repair_tun_helper_correlated self" LO_Repair "''repair''" oid in_capture c h]
  show ?thesis
    using 5 by (simp add: wp_iff repair_tun_helper_correlated_def with_helper_any [unfolded wp_iff])
qed

text \<open>
  When the store can be expected to admit a removal: it can write, no write fails, the id is a UUID in its canonical
  form that no record and no interrupted removal has, and a revision is left.
\<close>

definition removal_admissible :: "('c, 'w) bridge \<Rightarrow> ('c, 'w) bridge_state \<Rightarrow> string \<Rightarrow> bool" where
  "removal_admissible self s oid \<longleftrightarrow>
     rm_persistence (bg_removals self) \<noteq> PS_Unavailable \<and> st_faults (br_removals s) = []
     \<and> rm_parse_uuid (bg_removals self) oid = Some oid
     \<and> \<not> list_ex (\<lambda>r. oc_operation_id r = oid) (oj_records (st_journal (br_removals s)))
     \<and> \<not> is_some_and (oj_active (st_journal (br_removals s))) (\<lambda>a. ac_operation_id a = oid)
     \<and> checked_add (oj_next_revision (st_journal (br_removals s))) 1 \<noteq> None"

lemma idle_admits:
  assumes "bridge_idle self s" and "removal_admissible self s oid"
  shows "\<exists>adm. fst (run_state (admit (bg_removals self) oid state) (br_removals s)) = Inr adm
     \<and> ra_operation_id adm = oid"
proof -
  obtain n where "checked_add (oj_next_revision (st_journal (br_removals s))) 1 = Some n"
    using assms(2) by (auto simp: removal_admissible_def)
  moreover have "journal_valid (bg_removals self) (st_journal (br_removals s))" "unstuck (br_removals s)"
    using assms(1) by (simp_all add: bridge_idle_def kept_def)
  moreover have "oid \<notin> oc_operation_id ` set (oj_records (st_journal (br_removals s)))"
      "oid \<notin> ac_operation_id ` set_option (oj_active (st_journal (br_removals s)))"
    using assms(2) by (auto simp: removal_admissible_def list_ex_iff is_some_and_iff)
  ultimately have "wp (admit (bg_removals self) oid state)
      (\<lambda>r s'. \<exists>adm. r = Inr adm \<and> ra_operation_id adm = oid) (br_removals s)"
    using assms(2) by (intro admit_succeeds) (simp_all add: removal_admissible_def)
  then show ?thesis
    by (simp add: wp_iff)
qed

lemma idle_begins:
  assumes "bridge_idle self s" and "rm_parse_uuid (bg_removals self) oid \<noteq> None" and "length oid \<le> 96"
    and "find (\<lambda>identity. oi_operation_id identity = oid) (ls_seen (br_lifecycle s)) = None"
  shows "case begin_lifecycle_with_identity (rm_parse_uuid (bg_removals self)) kind oid (br_lifecycle s) of
      (Inr pub, _) \<Rightarrow> pb_duplicate_snapshot pub = None | _ \<Rightarrow> False"
  using assms by (auto simp: begin_lifecycle_with_identity_def Let_def bridge_idle_def split: option.split)

section \<open>The properties\<close>


definition demo_requests :: "((unit, bool \<times> helper_event list) helper_request \<times> string \<times> write_fault list) list" where
  "demo_requests =
     [(HQ_Remove, replicate 36 CHR ''2'', [WF_None, WF_After])]"


text \<open>
  C36: an installation or repair that does not end as applied has left the capture as it was, and if it was tried it is
  shown as cancelled or as in need of recovery; one that ends as applied is shown as applied under the id of
  the request.
\<close>

theorem helper_operation_capture_kept:
  assumes "bridge_idle self s"
    and "(r, s') \<in> {run_state (install_tun_helper self oid resume) s, run_state (repair_tun_helper self oid resume) s}"
  shows "case r of
      LR_Applied snapshot \<Rightarrow> ops_outcome snapshot = Some OU_Applied \<and> ops_operation_id snapshot = Some oid
    | LR_Failed err \<Rightarrow>
        br_capture s' = br_capture s \<and> ops_operation_id (ls_latest (br_lifecycle s')) = Some oid
        \<and> ops_outcome (ls_latest (br_lifecycle s')) \<in> {Some OU_AuthorizationCancelled, Some OU_RecoveryRequired}
    | _ \<Rightarrow> br_capture s' = br_capture s"
proof -
  have "operation_reported oid (br_capture s) r s'"
    using install_idle [OF assms(1), of oid resume] assms(2) by (auto simp: wp_iff dest: sym)
  then show ?thesis
    by (simp add: operation_reported_def)
qed

text \<open>An authorization that the user cancels.\<close>

definition cancelling_bridge :: "(unit, bool \<times> helper_event list) bridge" where
  "cancelling_bridge = demo_bridge\<lparr>bg_helper := Some (helper_recording (quiet_platform\<lparr>tp_run_lifecycle :=
     \<lambda>operation correlation. State_Monad.return (Inl \<lparr>he_kind = HF_AuthorizationCancelled, he_message = []\<rparr>)\<rparr>))\<rparr>"

theorem helper_operation_capture_kept_witness:
  "case run_state (repair_tun_helper cancelling_bridge demo_operation True) (demo_bridge_state []) of
     (r, s') \<Rightarrow> r = LR_Failed (SV_TunHelper HF_AuthorizationCancelled)
       \<and> ops_outcome (ls_latest (br_lifecycle s')) = Some OU_AuthorizationCancelled
       \<and> ops_operation_id (ls_latest (br_lifecycle s')) = Some demo_operation"
proof -
  let ?run = "run_state (repair_tun_helper cancelling_bridge demo_operation True) (demo_bridge_state [])"
  obtain r s' where run: "?run = (r, s')"
    by fastforce
  have "bridge_idle cancelling_bridge (demo_bridge_state [])"
    using demo_idle [of "[]"] by (simp add: bridge_idle_def cancelling_bridge_def)
  note reported = helper_operation_capture_kept [OF this, of r s' demo_operation True]
  have "case fst ?run of LR_Failed err \<Rightarrow> err = SV_TunHelper HF_AuthorizationCancelled | _ \<Rightarrow> False"
    "ops_outcome (ls_latest (br_lifecycle (snd ?run))) = Some OU_AuthorizationCancelled"
    by code_simp+
  then have "r = LR_Failed (SV_TunHelper HF_AuthorizationCancelled)"
    "ops_outcome (ls_latest (br_lifecycle s')) = Some OU_AuthorizationCancelled"
    by (auto simp: run split: lifecycle_response.splits)
  then show ?thesis
    using reported run by auto
qed

end
