(* ===== verification/Notifications.thy ===== *)
theory Notifications
  imports Mish_Prelude
begin

text \<open>
  \<^verbatim>\<open>NotificationCenter\<close> of \<^verbatim>\<open>crates/runtime/src/notifications.rs\<close>: the retained notifications with their identity, order
  and revision, and the single queue in which one client at a time presents the next of them under a lease. The
  clock reading of a call is an argument of it. The content of a notification is a type parameter; the actions it
  allows and its JSON, which generated code yields, are the fields of \<open>presentation_contract\<close>.
\<close>

section \<open>Records\<close>

definition NOTIFICATION_RETENTION_LIMIT :: nat where
  "NOTIFICATION_RETENTION_LIMIT = 128"

definition NOTIFICATION_PRESENTATION_BYTES_LIMIT :: nat where
  "NOTIFICATION_PRESENTATION_BYTES_LIMIT = 2048"

definition NOTIFICATION_PRESENTATION_DEPTH_LIMIT :: nat where
  "NOTIFICATION_PRESENTATION_DEPTH_LIMIT = 3"

definition NOTIFICATION_PRESENTATION_ENTRIES_LIMIT :: nat where
  "NOTIFICATION_PRESENTATION_ENTRIES_LIMIT = 32"

definition NOTIFICATION_PRESENTATION_STRING_LIMIT :: nat where
  "NOTIFICATION_PRESENTATION_STRING_LIMIT = 160"

definition NOTIFICATION_PRESENTATION_LEASE_MILLISECONDS :: u64 where
  "NOTIFICATION_PRESENTATION_LEASE_MILLISECONDS = 30000"

definition NOTIFICATION_REPLACEMENT_LIMIT :: nat where
  "NOTIFICATION_REPLACEMENT_LIMIT = 8"

definition IDENTIFIER_LIMIT :: nat where
  "IDENTIFIER_LIMIT = 96"

datatype severity = NS_Debug | NS_Info | NS_Success | NS_Warning | NS_Error

record 'c presentation =
  pn_content :: 'c
  pn_action_ids :: "string list"

record 'c notification_publication =
  np_dedupe_key :: string
  np_pinned :: bool
  np_presentation :: "'c presentation"
  np_replaces :: "string list"
  np_resolved :: bool
  np_severity :: severity

record presentation_identity =
  id_client :: string
  id_session :: string

datatype presentation_phase = PP_Folded | PP_Presenting | PP_Unpresented

datatype fold_reason = FR_Dismissed | FR_Suppressed | FR_TimedOut

record presentation_state =
  ps_fold_reason :: "fold_reason option"
  ps_folded_at :: "u64 option"
  ps_lease_expires_at :: "u64 option"
  ps_lease_generation :: "u64 option"
  ps_phase :: presentation_phase

definition folded :: "fold_reason \<Rightarrow> u64 \<Rightarrow> presentation_state" where
  "folded reason now =
     \<lparr>ps_fold_reason = Some reason, ps_folded_at = Some now, ps_lease_expires_at = None, ps_lease_generation = None,
      ps_phase = PP_Folded\<rparr>"

definition presenting :: "u64 \<Rightarrow> u64 \<Rightarrow> presentation_state" where
  "presenting generation expires_at =
     \<lparr>ps_fold_reason = None, ps_folded_at = None, ps_lease_expires_at = Some expires_at,
      ps_lease_generation = Some generation, ps_phase = PP_Presenting\<rparr>"

definition unpresented :: presentation_state where
  "unpresented =
     \<lparr>ps_fold_reason = None, ps_folded_at = None, ps_lease_expires_at = None, ps_lease_generation = None,
      ps_phase = PP_Unpresented\<rparr>"

record presentation_lease =
  le_expires_at :: u64
  le_generation :: u64
  le_identity :: presentation_identity

record 'c notification_record =
  nr_created_revision :: u64
  nr_dedupe_key :: string
  nr_id :: string
  nr_observed_at :: u64
  nr_pinned :: bool
  nr_presentation :: "'c presentation"
  nr_presentation_state :: presentation_state
  nr_read :: bool
  nr_resolved :: bool
  nr_revision :: u64
  nr_severity :: severity
  nr_presentation_generation :: u64
  nr_presentation_lease :: "presentation_lease option"

record 'c notification_snapshot =
  sn_notifications :: "'c notification_record list"
  sn_revision :: u64

record presentation_claim =
  cl_id :: string
  cl_lease_expires_at :: u64
  cl_lease_generation :: u64
  cl_revision :: u64

record presentation_completion =
  cm_client_id :: string
  cm_id :: string
  cm_lease_generation :: u64
  cm_outcome :: fold_reason
  cm_revision :: u64
  cm_session_id :: string

definition completion_identity :: "presentation_completion \<Rightarrow> presentation_identity" where
  "completion_identity c = \<lparr>id_client = cm_client_id c, id_session = cm_session_id c\<rparr>"

datatype validation_error = VE_InvalidDedupeKey | VE_InvalidPresentation | VE_InvalidReplacement | VE_TooManyReplacements

section \<open>Validation\<close>

text \<open>A JSON value as the validation sees it; strings are their bytes, of a number only whether it is finite counts.\<close>

datatype json =
    J_Null
  | J_Bool bool
  | J_Number bool
  | J_String string
  | J_Array "json list"
  | J_Object "(string \<times> json) list"

record 'c presentation_contract =
  pc_allowed_actions :: "'c \<Rightarrow> string list"
  pc_to_value :: "'c presentation \<Rightarrow> json"
  pc_to_vec_len :: "json \<Rightarrow> nat"

text \<open>The character classes are those of ASCII; \<^verbatim>\<open>contains\<close> is the library's \<open>sublist\<close>.\<close>

definition is_ascii_lowercase :: "char \<Rightarrow> bool" where
  "is_ascii_lowercase c \<longleftrightarrow> 97 \<le> (of_char c :: nat) \<and> (of_char c :: nat) \<le> 122"

definition is_ascii_uppercase :: "char \<Rightarrow> bool" where
  "is_ascii_uppercase c \<longleftrightarrow> 65 \<le> (of_char c :: nat) \<and> (of_char c :: nat) \<le> 90"

definition is_ascii_digit :: "char \<Rightarrow> bool" where
  "is_ascii_digit c \<longleftrightarrow> 48 \<le> (of_char c :: nat) \<and> (of_char c :: nat) \<le> 57"

definition is_ascii_alphanumeric :: "char \<Rightarrow> bool" where
  "is_ascii_alphanumeric c \<longleftrightarrow> is_ascii_lowercase c \<or> is_ascii_uppercase c \<or> is_ascii_digit c"

definition to_ascii_lowercase :: "string \<Rightarrow> string" where
  "to_ascii_lowercase s = map (\<lambda>c. if is_ascii_uppercase c then char_of (of_char c + 32 :: nat) else c) s"

definition valid_identifier :: "string \<Rightarrow> bool \<Rightarrow> bool" where
  "valid_identifier value allow_colon \<longleftrightarrow>
     value \<noteq> [] \<and> length value \<le> IDENTIFIER_LIMIT
     \<and> list_all (\<lambda>c. is_ascii_lowercase c \<or> is_ascii_digit c \<or> c \<in> set ''.-_'' \<or> allow_colon \<and> c = CHR '':'') value"

definition valid_presentation_key :: "string \<Rightarrow> bool" where
  "valid_presentation_key key =
     (if key = [] \<or> IDENTIFIER_LIMIT < length key
         \<or> \<not> list_all (\<lambda>c. is_ascii_alphanumeric c \<or> c \<in> set ''.-_'') key
      then False
      else \<not> list_ex (\<lambda>forbidden. sublist forbidden (to_ascii_lowercase key))
             [''diagnostic'', ''detail'', ''error'', ''message'', ''password'', ''path'', ''secret'', ''token'', ''url''])"

definition valid_presentation_string :: "string \<Rightarrow> bool" where
  "valid_presentation_string value =
     (if value = [] \<or> NOTIFICATION_PRESENTATION_STRING_LIMIT < length value then False
      else let lower = to_ascii_lowercase value;
               token_like = (64 \<le> length value \<and> list_all (\<lambda>c. is_ascii_alphanumeric c \<or> c \<in> set ''-_='') value)
           in \<not> sublist ''://'' value \<and> CHR ''/'' \<notin> set value \<and> CHR 0x5C \<notin> set value
              \<and> \<not> sublist ''bearer '' lower \<and> \<not> sublist ''token='' lower \<and> \<not> token_like)"

text \<open>
  The entries counted so far are passed along; \<open>None\<close> is the answer false. The additions do not saturate: a value
  whose entries exceed the limit is refused at once.
\<close>

fun valid_presentation_value :: "json \<Rightarrow> nat \<Rightarrow> nat \<Rightarrow> nat option"
  and valid_presentation_values :: "json list \<Rightarrow> nat \<Rightarrow> nat \<Rightarrow> nat option"
  and valid_presentation_members :: "(string \<times> json) list \<Rightarrow> nat \<Rightarrow> nat \<Rightarrow> nat option" where
  "valid_presentation_value value depth entries =
     (if NOTIFICATION_PRESENTATION_DEPTH_LIMIT < depth then None
      else case value of
             J_Null \<Rightarrow> Some entries
           | J_Bool _ \<Rightarrow> Some entries
           | J_Number is_finite \<Rightarrow> if is_finite then Some entries else None
           | J_String s \<Rightarrow> if valid_presentation_string s then Some entries else None
           | J_Array vs \<Rightarrow>
               if entries + length vs \<le> NOTIFICATION_PRESENTATION_ENTRIES_LIMIT
               then valid_presentation_values vs (depth + 1) (entries + length vs) else None
           | J_Object ms \<Rightarrow>
               if entries + length ms \<le> NOTIFICATION_PRESENTATION_ENTRIES_LIMIT
               then valid_presentation_members ms (depth + 1) (entries + length ms) else None)"
| "valid_presentation_values [] depth entries = Some entries"
| "valid_presentation_values (v # vs) depth entries =
     (case valid_presentation_value v depth entries of
        None \<Rightarrow> None
      | Some n \<Rightarrow> valid_presentation_values vs depth n)"
| "valid_presentation_members [] depth entries = Some entries"
| "valid_presentation_members ((key, v) # ms) depth entries =
     (if \<not> valid_presentation_key key then None
      else case valid_presentation_value v depth entries of
             None \<Rightarrow> None
           | Some n \<Rightarrow> valid_presentation_members ms depth n)"

declare valid_presentation_value.simps [simp del]

definition actions_valid :: "'c presentation_contract \<Rightarrow> 'c presentation \<Rightarrow> bool" where
  "actions_valid pc p \<longleftrightarrow>
     list_all (\<lambda>a. a \<in> set (pc_allowed_actions pc (pn_content p))) (pn_action_ids p) \<and> distinct (pn_action_ids p)"

definition validate_publication ::
  "'c presentation_contract \<Rightarrow> 'c notification_publication \<Rightarrow> validation_error + unit" where
  "validate_publication pc p =
     (if \<not> valid_identifier (np_dedupe_key p) True then Inl VE_InvalidDedupeKey
      else if NOTIFICATION_REPLACEMENT_LIMIT < length (np_replaces p) then Inl VE_TooManyReplacements
      else if list_ex (\<lambda>key. \<not> valid_identifier key True) (np_replaces p) then Inl VE_InvalidReplacement
      else if \<not> actions_valid pc (np_presentation p) then Inl VE_InvalidPresentation
      else let value = pc_to_value pc (np_presentation p)
           in if \<not> (case value of J_Object _ \<Rightarrow> True | _ \<Rightarrow> False)
                 \<or> NOTIFICATION_PRESENTATION_BYTES_LIMIT < pc_to_vec_len pc value
                 \<or> valid_presentation_value value 0 0 = None
              then Inl VE_InvalidPresentation
              else Inr ())"

definition valid_presentation_identity :: "presentation_identity \<Rightarrow> bool" where
  "valid_presentation_identity i \<longleftrightarrow> valid_identifier (id_client i) False \<and> valid_identifier (id_session i) False"

definition valid_presentation_completion :: "presentation_completion \<Rightarrow> bool" where
  "valid_presentation_completion c \<longleftrightarrow>
     valid_presentation_identity (completion_identity c) \<and> valid_identifier (cm_id c) True
     \<and> 0 < cm_lease_generation c"

section \<open>The center\<close>

text \<open>Beside its state, the snapshots it has broadcast, the newest first.\<close>

record 'c center =
  nc_next_id :: u64
  nc_records :: "'c notification_record list"
  nc_revision :: u64
  nc_updates :: "'c notification_snapshot list"

definition center_new :: "'c center" where
  "center_new = \<lparr>nc_next_id = 0, nc_records = [], nc_revision = 0, nc_updates = []\<rparr>"

definition snapshot :: "'c center \<Rightarrow> 'c notification_snapshot" where
  "snapshot s = \<lparr>sn_notifications = rev (nc_records s), sn_revision = nc_revision s\<rparr>"

definition publish_snapshot :: "'c center \<Rightarrow> 'c notification_snapshot \<times> 'c center" where
  "publish_snapshot s = (snapshot s, s\<lparr>nc_updates := snapshot s # nc_updates s\<rparr>)"

text \<open>\<^verbatim>\<open>Iterator::position\<close> and \<^verbatim>\<open>Iterator::rposition\<close>.\<close>

fun position :: "('a \<Rightarrow> bool) \<Rightarrow> 'a list \<Rightarrow> nat option" where
  "position P [] = None"
| "position P (x # xs) = (if P x then Some 0 else map_option Suc (position P xs))"

fun rposition :: "('a \<Rightarrow> bool) \<Rightarrow> 'a list \<Rightarrow> nat option" where
  "rposition P [] = None"
| "rposition P (x # xs) =
     (case rposition P xs of Some i \<Rightarrow> Some (Suc i) | None \<Rightarrow> if P x then Some 0 else None)"

definition resolution_preserves_occurrence_severity ::
  "'c notification_record \<Rightarrow> 'c notification_publication \<Rightarrow> bool" where
  "resolution_preserves_occurrence_severity r p \<longleftrightarrow>
     np_resolved p \<and> pn_content (nr_presentation r) = pn_content (np_presentation p)"

definition fold_resolved_unpresented_record :: "u64 \<Rightarrow> 'c notification_record \<Rightarrow> 'c notification_record" where
  "fold_resolved_unpresented_record now r =
     (if nr_resolved r \<and> ps_phase (nr_presentation_state r) = PP_Unpresented
      then r\<lparr>nr_presentation_lease := None, nr_presentation_state := folded FR_Suppressed now\<rparr>
      else r)"

definition same_occurrence :: "'c notification_publication \<Rightarrow> 'c notification_record \<Rightarrow> bool" where
  "same_occurrence p r \<longleftrightarrow> nr_dedupe_key r = np_dedupe_key p \<and> (\<not> nr_resolved r \<or> np_resolved p)"

text \<open>The publication says nothing new of the occurrence it names.\<close>

definition says_nothing_new :: "'c notification_publication \<Rightarrow> 'c notification_record \<Rightarrow> bool" where
  "says_nothing_new p r \<longleftrightarrow>
     nr_presentation r = np_presentation p \<and> nr_pinned r = np_pinned p \<and> nr_resolved r = np_resolved p
     \<and> nr_severity r =
         (if resolution_preserves_occurrence_severity r p then nr_severity r else np_severity p)"

definition updated_record ::
  "u64 \<Rightarrow> u64 \<Rightarrow> 'c notification_publication \<Rightarrow> 'c notification_record \<Rightarrow> 'c notification_record" where
  "updated_record now revision p r =
     fold_resolved_unpresented_record now
       (r\<lparr>nr_observed_at := now, nr_pinned := np_pinned p, nr_presentation := np_presentation p,
          nr_resolved := np_resolved p, nr_revision := revision,
          nr_severity := (if resolution_preserves_occurrence_severity r p then nr_severity r else np_severity p)\<rparr>)"

definition new_record :: "u64 \<Rightarrow> u64 \<Rightarrow> u64 \<Rightarrow> 'c notification_publication \<Rightarrow> 'c notification_record" where
  "new_record now revision next_id p =
     fold_resolved_unpresented_record now
       \<lparr>nr_created_revision = revision, nr_dedupe_key = np_dedupe_key p,
        nr_id = ''notification:'' @ u64_to_string next_id, nr_observed_at = now, nr_pinned = np_pinned p,
        nr_presentation = np_presentation p, nr_presentation_state = unpresented, nr_read = False,
        nr_resolved = np_resolved p, nr_revision = revision, nr_severity = np_severity p,
        nr_presentation_generation = 0, nr_presentation_lease = None\<rparr>"

definition replaced :: "'c notification_publication \<Rightarrow> 'c notification_record \<Rightarrow> bool" where
  "replaced p r \<longleftrightarrow> nr_dedupe_key r \<in> set (np_replaces p) \<and> nr_dedupe_key r \<noteq> np_dedupe_key p"

definition publish ::
  "'c presentation_contract \<Rightarrow> u64 \<Rightarrow> 'c notification_publication \<Rightarrow> 'c center
     \<Rightarrow> (validation_error + 'c notification_snapshot) \<times> 'c center" where
  "publish pc now p s =
     (case validate_publication pc p of
        Inl err \<Rightarrow> (Inl err, s)
      | Inr _ \<Rightarrow>
          if \<not> list_ex (replaced p) (nc_records s)
             \<and> is_some_and (rposition (same_occurrence p) (nc_records s)) (\<lambda>i. says_nothing_new p (nc_records s ! i))
          then (Inr (snapshot s), s)
          else let revision = saturating_add (nc_revision s) 1;
                   kept = filter (\<lambda>r. \<not> replaced p r) (nc_records s);
                   next_id = saturating_add (nc_next_id s) 1;
                   (records, next_id) =
                     (case rposition (same_occurrence p) kept of
                        Some i \<Rightarrow>
                          (take i kept @ drop (Suc i) kept @ [updated_record now revision p (kept ! i)], nc_next_id s)
                      | None \<Rightarrow> (kept @ [new_record now revision next_id p], next_id));
                   (shown, s') = publish_snapshot
                     (s\<lparr>nc_revision := revision, nc_next_id := next_id,
                        nc_records := pop_front_while_over NOTIFICATION_RETENTION_LIMIT records\<rparr>)
               in (Inr shown, s'))"

definition mark_read :: "string list \<Rightarrow> 'c center \<Rightarrow> 'c notification_snapshot \<times> 'c center" where
  "mark_read ids s =
     (if \<not> list_ex (\<lambda>r. \<not> nr_read r \<and> nr_id r \<in> set ids) (nc_records s) then (snapshot s, s)
      else let revision = saturating_add (nc_revision s) 1
           in publish_snapshot (s\<lparr>nc_revision := revision, nc_records :=
                map (\<lambda>r. if \<not> nr_read r \<and> nr_id r \<in> set ids then r\<lparr>nr_read := True, nr_revision := revision\<rparr> else r)
                  (nc_records s)\<rparr>))"

definition remove_matching :: "('c notification_record \<Rightarrow> bool) \<Rightarrow> 'c center \<Rightarrow> 'c notification_snapshot \<times> 'c center" where
  "remove_matching predicate s =
     (let records = filter (\<lambda>r. \<not> predicate r) (nc_records s)
      in if length (nc_records s) = length records then (snapshot s, s\<lparr>nc_records := records\<rparr>)
         else publish_snapshot (s\<lparr>nc_records := records, nc_revision := saturating_add (nc_revision s) 1\<rparr>))"

definition remove_notification :: "string \<Rightarrow> 'c center \<Rightarrow> 'c notification_snapshot \<times> 'c center" where
  "remove_notification nid s = remove_matching (\<lambda>r. nr_id r = nid \<and> \<not> nr_pinned r) s"

definition remove_by_dedupe_key :: "string \<Rightarrow> 'c center \<Rightarrow> 'c notification_snapshot \<times> 'c center" where
  "remove_by_dedupe_key key s = remove_matching (\<lambda>r. nr_dedupe_key r = key) s"

definition resolved_record :: "u64 \<Rightarrow> u64 \<Rightarrow> 'c notification_record \<Rightarrow> 'c notification_record" where
  "resolved_record now revision r =
     fold_resolved_unpresented_record now (r\<lparr>nr_pinned := False, nr_resolved := True, nr_revision := revision\<rparr>)"

definition resolve_by_dedupe_key :: "u64 \<Rightarrow> string \<Rightarrow> 'c center \<Rightarrow> 'c notification_snapshot \<times> 'c center" where
  "resolve_by_dedupe_key now key s =
     (case rposition (\<lambda>r. nr_dedupe_key r = key \<and> \<not> nr_resolved r) (nc_records s) of
        None \<Rightarrow> (snapshot s, s)
      | Some i \<Rightarrow>
          let revision = saturating_add (nc_revision s) 1
          in publish_snapshot (s\<lparr>nc_revision := revision,
               nc_records := (nc_records s)[i := resolved_record now revision (nc_records s ! i)]\<rparr>))"

definition in_namespace :: "string \<Rightarrow> 'c notification_record \<Rightarrow> bool" where
  "in_namespace namespace r \<longleftrightarrow> nr_dedupe_key r = namespace \<or> Sublist.prefix (namespace @ '':'') (nr_dedupe_key r)"

definition resolve_by_dedupe_namespace :: "u64 \<Rightarrow> string \<Rightarrow> 'c center \<Rightarrow> 'c notification_snapshot \<times> 'c center" where
  "resolve_by_dedupe_namespace now namespace s =
     (if \<not> list_ex (\<lambda>r. \<not> nr_resolved r \<and> in_namespace namespace r) (nc_records s) then (snapshot s, s)
      else let revision = saturating_add (nc_revision s) 1
           in publish_snapshot (s\<lparr>nc_revision := revision, nc_records :=
                map (\<lambda>r. if nr_resolved r \<or> \<not> in_namespace namespace r then r else resolved_record now revision r)
                  (nc_records s)\<rparr>))"

section \<open>Leases\<close>

definition has_expired :: "u64 \<Rightarrow> 'c notification_record \<Rightarrow> bool" where
  "has_expired now r = is_some_and (nr_presentation_lease r) (\<lambda>l. le_expires_at l \<le> now)"

definition held_by :: "presentation_identity \<Rightarrow> 'c notification_record \<Rightarrow> bool" where
  "held_by identity r = is_some_and (nr_presentation_lease r) (\<lambda>l. le_identity l = identity)"

definition requeued :: "'c notification_record \<Rightarrow> 'c notification_record" where
  "requeued r = r\<lparr>nr_presentation_lease := None, nr_presentation_state := unpresented\<rparr>"

definition requeue_where :: "('c notification_record \<Rightarrow> bool) \<Rightarrow> 'c center \<Rightarrow> nat list \<times> 'c center" where
  "requeue_where P s =
     (filter (\<lambda>i. P (nc_records s ! i)) [0..<length (nc_records s)],
      s\<lparr>nc_records := map (\<lambda>r. if P r then requeued r else r) (nc_records s)\<rparr>)"

definition expire_locked :: "u64 \<Rightarrow> 'c center \<Rightarrow> nat list \<times> 'c center" where
  "expire_locked now s = requeue_where (has_expired now) s"

text \<open>The indices are a set here: the code sorts them and drops duplicates.\<close>

definition commit_indices_locked :: "nat list \<Rightarrow> 'c center \<Rightarrow> 'c notification_snapshot \<times> 'c center" where
  "commit_indices_locked changed s =
     (if changed = [] then (snapshot s, s)
      else let revision = saturating_add (nc_revision s) 1
           in publish_snapshot (s\<lparr>nc_revision := revision, nc_records :=
                map (\<lambda>(i, r). if i \<in> set changed then r\<lparr>nr_revision := revision\<rparr> else r)
                  (enumerate 0 (nc_records s))\<rparr>))"

definition requeue_expired_locked :: "u64 \<Rightarrow> 'c center \<Rightarrow> 'c center" where
  "requeue_expired_locked now s =
     (case expire_locked now s of
        (expired, s') \<Rightarrow> if expired = [] then s' else snd (commit_indices_locked expired s'))"

definition center_snapshot :: "u64 \<Rightarrow> 'c center \<Rightarrow> 'c notification_snapshot \<times> 'c center" where
  "center_snapshot now s = (let s' = requeue_expired_locked now s in (snapshot s', s'))"

definition presentation_claim_of :: "'c notification_record \<Rightarrow> presentation_claim option" where
  "presentation_claim_of r =
     map_option (\<lambda>l. \<lparr>cl_id = nr_id r, cl_lease_expires_at = le_expires_at l, cl_lease_generation = le_generation l,
                      cl_revision = nr_revision r\<rparr>) (nr_presentation_lease r)"

definition leased :: "u64 \<Rightarrow> presentation_identity \<Rightarrow> 'c notification_record \<Rightarrow> 'c notification_record" where
  "leased now identity r =
     (let generation = max (saturating_add (nr_presentation_generation r) 1) 1;
          expires_at = saturating_add now NOTIFICATION_PRESENTATION_LEASE_MILLISECONDS
      in r\<lparr>nr_presentation_generation := generation,
           nr_presentation_lease := Some \<lparr>le_expires_at = expires_at, le_generation = generation, le_identity = identity\<rparr>,
           nr_presentation_state := presenting generation expires_at\<rparr>)"

definition claim_next_locked ::
  "u64 \<Rightarrow> presentation_identity \<Rightarrow> 'c center
     \<Rightarrow> (presentation_claim option \<times> 'c notification_snapshot) \<times> 'c center" where
  "claim_next_locked now identity s =
     (case expire_locked now s of
        (changed, s1) \<Rightarrow>
          (case position (held_by identity) (nc_records s1) of
             Some i \<Rightarrow>
               (case commit_indices_locked changed s1 of
                  (shown, s2) \<Rightarrow> ((presentation_claim_of (nc_records s2 ! i), shown), s2))
           | None \<Rightarrow>
               if list_ex (\<lambda>r. ps_phase (nr_presentation_state r) = PP_Presenting) (nc_records s1)
               then (case commit_indices_locked changed s1 of (shown, s2) \<Rightarrow> ((None, shown), s2))
               else let (changed, s1) =
                          (case position (\<lambda>r. ps_phase (nr_presentation_state r) = PP_Unpresented) (nc_records s1) of
                             Some i \<Rightarrow>
                               (changed @ [i],
                                s1\<lparr>nc_records := (nc_records s1)[i := leased now identity (nc_records s1 ! i)]\<rparr>)
                           | None \<Rightarrow> (changed, s1));
                        (shown, s2) = commit_indices_locked changed s1
                    in ((Option.bind (find (held_by identity) (nc_records s2)) presentation_claim_of, shown), s2)))"

definition completion_accepted :: "u64 \<Rightarrow> presentation_completion \<Rightarrow> 'c notification_record \<Rightarrow> bool" where
  "completion_accepted now c r \<longleftrightarrow>
     nr_revision r = cm_revision c \<and> ps_phase (nr_presentation_state r) = PP_Presenting
     \<and> is_some_and (nr_presentation_lease r) (\<lambda>l. le_identity l = completion_identity c
          \<and> le_generation l = cm_lease_generation c \<and> now < le_expires_at l)"

definition complete_presentation ::
  "u64 \<Rightarrow> presentation_completion \<Rightarrow> 'c center \<Rightarrow> (bool \<times> 'c notification_snapshot) \<times> 'c center" where
  "complete_presentation now c s =
     (case expire_locked now s of
        (changed, s1) \<Rightarrow>
          (case position (\<lambda>r. nr_id r = cm_id c) (nc_records s1) of
             Some i \<Rightarrow>
               if completion_accepted now c (nc_records s1 ! i)
               then (case commit_indices_locked (changed @ [i])
                            (s1\<lparr>nc_records := (nc_records s1)[i := (nc_records s1 ! i)
                                  \<lparr>nr_presentation_lease := None,
                                   nr_presentation_state := folded (cm_outcome c) now\<rparr>]\<rparr>) of
                       (shown, s2) \<Rightarrow> ((True, shown), s2))
               else (case commit_indices_locked changed s1 of (shown, s2) \<Rightarrow> ((False, shown), s2))
           | None \<Rightarrow> (case commit_indices_locked changed s1 of (shown, s2) \<Rightarrow> ((False, shown), s2))))"

definition release_presentation_leases ::
  "u64 \<Rightarrow> presentation_identity \<Rightarrow> 'c center \<Rightarrow> 'c notification_snapshot \<times> 'c center" where
  "release_presentation_leases now identity s =
     (case expire_locked now s of
        (changed, s1) \<Rightarrow>
          (case requeue_where (held_by identity) s1 of
             (released, s2) \<Rightarrow> commit_indices_locked (changed @ released) s2))"

section \<open>The sockets that own an identity\<close>

text \<open>\<^verbatim>\<open>NotificationPresentationSessionRegistry\<close> of \<^verbatim>\<open>crates/desktop-bridge/src/protocol.rs\<close>.\<close>

type_synonym session_registry = "presentation_identity \<rightharpoonup> u64"

definition reserve :: "presentation_identity \<Rightarrow> u64 \<Rightarrow> session_registry \<Rightarrow> bool \<times> session_registry" where
  "reserve identity socket owners =
     (case owners identity of
        Some owner \<Rightarrow> (owner = socket, owners)
      | None \<Rightarrow> (True, owners(identity \<mapsto> socket)))"

definition owns :: "presentation_identity \<Rightarrow> u64 \<Rightarrow> session_registry \<Rightarrow> bool" where
  "owns identity socket owners = is_some_and (owners identity) (\<lambda>owner. owner = socket)"

definition release_session :: "presentation_identity \<Rightarrow> u64 \<Rightarrow> session_registry \<Rightarrow> session_registry" where
  "release_session identity socket owners = (if owns identity socket owners then owners(identity := None) else owners)"

end
