(* ===== verification/Notification_Laws.thy ===== *)
theory Notification_Laws
  imports Notifications
begin

text \<open>
  What every call of the notification center keeps: the records stay bounded, distinct and coherent with their leases,
  an occurrence that is not resolved is the last one of its key, at most one record is being presented, and every
  change is told by a new revision and broadcast.
\<close>

section \<open>Lists and numbers\<close>

lemma nat_to_string_inj: "nat_to_string m = nat_to_string n \<Longrightarrow> m = n"
proof (induction m arbitrary: n rule: nat_to_string.induct)
  case (1 m)
  have digit: "''0123456789'' ! i = ''0123456789'' ! j \<Longrightarrow> i < 10 \<Longrightarrow> j < 10 \<Longrightarrow> i = j" for i j :: nat
    using nth_eq_iff_index_eq [of "''0123456789''" i j] by simp
  have nonempty: "nat_to_string k \<noteq> []" for k
    by (subst nat_to_string.simps) simp
  show ?case
  proof (cases "m < 10"; cases "n < 10")
    assume "m < 10" "n < 10"
    then show ?thesis
      using 1(2) digit by (simp add: nat_to_string.simps [of m] nat_to_string.simps [of n])
  next
    assume "m < 10" "\<not> n < 10"
    then show ?thesis
      using 1(2) nonempty [of "n div 10"] by (simp add: nat_to_string.simps [of m] nat_to_string.simps [of n])
  next
    assume "\<not> m < 10" "n < 10"
    then show ?thesis
      using 1(2) nonempty [of "m div 10"] by (simp add: nat_to_string.simps [of m] nat_to_string.simps [of n])
  next
    assume big: "\<not> m < 10" "\<not> n < 10"
    then have "nat_to_string (m div 10) = nat_to_string (n div 10)"
      "''0123456789'' ! (m mod 10) = ''0123456789'' ! (n mod 10)"
      using 1(2) by (simp_all add: nat_to_string.simps [of m] nat_to_string.simps [of n])
    then have "m div 10 = n div 10" "m mod 10 = n mod 10"
      using 1(1) [OF big(1)] digit [of "m mod 10" "n mod 10"] by simp_all
    then show ?thesis
      by (metis div_mult_mod_eq)
  qed
qed

lemma u64_to_string_inj: "u64_to_string m = u64_to_string n \<longleftrightarrow> m = n"
  by (auto simp: u64_to_string_def word_unat_eq_iff dest!: nat_to_string_inj)

lemma position_Some:
  "position P xs = Some i \<longleftrightarrow> i < length xs \<and> P (xs ! i) \<and> (\<forall>j < i. \<not> P (xs ! j))"
proof (induction xs arbitrary: i)
  case (Cons x xs)
  show ?case
    by (cases i) (auto simp: Cons All_less_Suc2)
qed simp

lemma position_None: "position P xs = None \<longleftrightarrow> (\<forall>x \<in> set xs. \<not> P x)"
  by (induction xs) auto

lemma rposition_None: "rposition P xs = None \<longleftrightarrow> (\<forall>x \<in> set xs. \<not> P x)"
  by (induction xs) (auto split: option.splits)

lemma rposition_split:
  "rposition P xs = Some i \<Longrightarrow> xs = take i xs @ xs ! i # drop (Suc i) xs \<and> i < length xs \<and> P (xs ! i)
     \<and> (\<forall>x \<in> set (drop (Suc i) xs). \<not> P x)"
proof (induction xs arbitrary: i)
  case (Cons x xs)
  show ?case
  proof (cases "rposition P xs")
    case None
    then show ?thesis
      using Cons.prems rposition_None [of P xs] by (auto split: if_splits)
  next
    case (Some k)
    then show ?thesis
      using Cons.IH [OF Some] Cons.prems by auto
  qed
qed simp

section \<open>The invariant\<close>

definition notification_id_of :: "u64 \<Rightarrow> string" where
  "notification_id_of k = ''notification:'' @ u64_to_string k"

definition coherent_record :: "u64 \<Rightarrow> 'c notification_record \<Rightarrow> bool" where
  "coherent_record revision r \<longleftrightarrow>
     nr_created_revision r \<le> nr_revision r \<and> nr_revision r \<le> revision
     \<and> (case nr_presentation_lease r of
          Some l \<Rightarrow> nr_presentation_state r = presenting (le_generation l) (le_expires_at l)
                    \<and> le_generation l = nr_presentation_generation r \<and> 0 < le_generation l
        | None \<Rightarrow> ps_phase (nr_presentation_state r) \<noteq> PP_Presenting)"

definition identified :: "u64 \<Rightarrow> 'c notification_record list \<Rightarrow> bool" where
  "identified next_id rs \<longleftrightarrow>
     (next_id \<noteq> - 1 \<longrightarrow> distinct (map nr_id rs)
        \<and> (\<forall>r \<in> set rs. \<exists>k. 0 < k \<and> k \<le> next_id \<and> nr_id r = notification_id_of k))"

definition latest_open :: "'c notification_record list \<Rightarrow> bool" where
  "latest_open rs \<longleftrightarrow> sorted_wrt (\<lambda>a b. nr_dedupe_key a = nr_dedupe_key b \<longrightarrow> nr_resolved a) rs"

definition leases :: "'c notification_record list \<Rightarrow> nat" where
  "leases rs = length (filter (\<lambda>r. nr_presentation_lease r \<noteq> None) rs)"

definition records_ok :: "u64 \<Rightarrow> u64 \<Rightarrow> 'c notification_record list \<Rightarrow> bool" where
  "records_ok revision next_id rs \<longleftrightarrow>
     length rs \<le> NOTIFICATION_RETENTION_LIMIT \<and> latest_open rs \<and> (\<forall>r \<in> set rs. coherent_record revision r)
     \<and> identified next_id rs \<and> leases rs \<le> 1"

definition center_ok :: "'c center \<Rightarrow> bool" where
  "center_ok s \<longleftrightarrow> records_ok (nc_revision s) (nc_next_id s) (nc_records s)"

text \<open>A record and what becomes of it: it stays the same occurrence, and once folded it stays folded.\<close>

definition follows :: "'c notification_record \<Rightarrow> 'c notification_record \<Rightarrow> bool" where
  "follows r r' \<longleftrightarrow>
     nr_id r' = nr_id r \<and> nr_dedupe_key r' = nr_dedupe_key r \<and> nr_created_revision r' = nr_created_revision r
     \<and> (ps_phase (nr_presentation_state r) = PP_Folded \<longrightarrow> nr_presentation_state r' = nr_presentation_state r)"

lemma follows_refl [simp]: "follows r r"
  by (simp add: follows_def)

lemma follows_member: "r \<in> set rs \<Longrightarrow> \<exists>r0 \<in> set rs. follows r0 r"
  by (auto intro: bexI [of _ r])

lemma follows_trans: "follows r r' \<Longrightarrow> follows r' r'' \<Longrightarrow> follows r r''"
  by (simp add: follows_def)

text \<open>How a call may change the records in place: none is reopened, leases are given up.\<close>

definition step_in_place :: "u64 \<Rightarrow> 'c notification_record \<Rightarrow> 'c notification_record \<Rightarrow> bool" where
  "step_in_place revision r r' \<longleftrightarrow>
     follows r r' \<and> (nr_resolved r \<longrightarrow> nr_resolved r') \<and> (coherent_record revision r \<longrightarrow> coherent_record revision r')
     \<and> (nr_presentation_lease r = None \<longrightarrow> nr_presentation_lease r' = None)"

lemma step_in_place_refl [simp]: "step_in_place revision r r"
  by (simp add: step_in_place_def)

lemma leases_mono:
  "list_all2 (\<lambda>r r'. nr_presentation_lease r = None \<longrightarrow> nr_presentation_lease r' = None) rs rs' \<Longrightarrow>
     leases rs' \<le> leases rs"
  by (induction rs rs' rule: list_all2_induct) (auto simp: leases_def)

lemma latest_open_kept:
  assumes "list_all2 (\<lambda>r r'. nr_dedupe_key r' = nr_dedupe_key r \<and> (nr_resolved r \<longrightarrow> nr_resolved r')) rs rs'"
    and "latest_open rs"
  shows "latest_open rs'"
  using assms by (auto simp: latest_open_def sorted_wrt_iff_nth_less list_all2_conv_all_nth)

lemma identified_ids:
  "identified next_id rs \<longleftrightarrow>
     (next_id \<noteq> - 1 \<longrightarrow> distinct (map nr_id rs)
        \<and> (\<forall>i \<in> set (map nr_id rs). \<exists>k. 0 < k \<and> k \<le> next_id \<and> i = notification_id_of k))"
  by (simp add: identified_def)

lemma identified_kept:
  assumes "list_all2 (\<lambda>r r'. nr_id r' = nr_id r) rs rs'"
  shows "identified next_id rs' = identified next_id rs"
proof -
  have "map nr_id rs' = map nr_id rs"
    using assms by (auto simp: list_all2_conv_all_nth intro!: nth_equalityI)
  then show ?thesis
    unfolding identified_ids by simp
qed

lemma records_ok_step:
  assumes "list_all2 (\<lambda>r r'. follows r r' \<and> (nr_resolved r \<longrightarrow> nr_resolved r')
      \<and> (coherent_record revision r \<longrightarrow> coherent_record revision r')) rs rs'"
    and "records_ok revision next_id rs" and "leases rs' \<le> 1"
  shows "records_ok revision next_id rs'"
proof -
  note weaken = list_all2_mono [OF assms(1)]
  have "latest_open rs'"
    by (rule latest_open_kept [OF weaken]) (use assms(2) in \<open>simp_all add: records_ok_def follows_def\<close>)
  moreover have "identified next_id rs' = identified next_id rs"
    by (rule identified_kept [OF weaken]) (simp add: follows_def)
  moreover have "length rs' = length rs"
    using assms(1) by (auto dest: list_all2_lengthD)
  moreover have "\<forall>r \<in> set rs'. coherent_record revision r"
    using assms by (fastforce simp: list_all2_conv_all_nth records_ok_def in_set_conv_nth)
  ultimately show ?thesis
    using assms(2,3) by (simp add: records_ok_def)
qed

lemma records_ok_in_place:
  assumes "list_all2 (step_in_place revision) rs rs'" and "records_ok revision next_id rs"
  shows "records_ok revision next_id rs'"
proof (rule records_ok_step [OF list_all2_mono [OF assms(1)] assms(2)])
  have "leases rs' \<le> leases rs"
    by (rule leases_mono [OF list_all2_mono [OF assms(1)]]) (simp add: step_in_place_def)
  then show "leases rs' \<le> 1"
    using assms(2) by (simp add: records_ok_def)
qed (simp add: step_in_place_def)

lemma records_ok_later: "records_ok revision next_id rs \<Longrightarrow> revision \<le> revision' \<Longrightarrow> records_ok revision' next_id rs"
  by (force simp: records_ok_def coherent_record_def split: option.splits)

lemma saturating_add_1_ge: "a \<le> saturating_add a 1"
  by (auto simp: saturating_add_def less_imp_le dest: checked_add_1_less split: option.split)

section \<open>A call\<close>

text \<open>
  Where the records of a later state come from: earlier records that they follow, or records made since, under a number
  that was not used before. The numbers last for \<open>2\<^sup>64 - 1\<close> notifications.
\<close>

definition made_since :: "'c center \<Rightarrow> 'c center \<Rightarrow> 'c notification_record \<Rightarrow> bool" where
  "made_since s s' r \<longleftrightarrow>
     nc_next_id s' = - 1 \<or> (\<exists>k. nc_next_id s < k \<and> k \<le> nc_next_id s' \<and> nr_id r = notification_id_of k)"

definition carried :: "'c center \<Rightarrow> 'c center \<Rightarrow> bool" where
  "carried s s' \<longleftrightarrow>
     nc_next_id s \<le> nc_next_id s'
     \<and> (\<forall>r' \<in> set (nc_records s'). (\<exists>r \<in> set (nc_records s). follows r r') \<or> made_since s s' r')"

definition told :: "'c center \<Rightarrow> 'c center \<Rightarrow> bool" where
  "told s s' \<longleftrightarrow>
     s' = s \<or> nc_revision s' = saturating_add (nc_revision s) 1 \<and> nc_updates s' = snapshot s' # nc_updates s"

definition advances :: "'c center \<Rightarrow> 'c center \<Rightarrow> bool" where
  "advances s s' \<longleftrightarrow> told s s' \<and> (center_ok s \<longrightarrow> center_ok s' \<and> carried s s')"

lemma carried_refl [simp]: "carried s s"
  by (auto simp: carried_def intro: follows_refl)

lemma advances_refl [simp]: "advances s s"
  by (simp add: advances_def told_def)

lemma carried_trans:
  assumes "carried s s'" and "carried s' s''"
  shows "carried s s''"
  unfolding carried_def
proof (intro conjI ballI)
  show "nc_next_id s \<le> nc_next_id s''"
    using assms by (auto simp: carried_def)
  fix r''
  assume "r'' \<in> set (nc_records s'')"
  then consider "made_since s' s'' r''" | r' where "r' \<in> set (nc_records s')" "follows r' r''"
    using assms(2) by (auto simp: carried_def)
  then show "(\<exists>r \<in> set (nc_records s). follows r r'') \<or> made_since s s'' r''"
  proof cases
    case 1
    moreover have "nc_next_id s \<le> nc_next_id s'"
      using assms(1) by (simp add: carried_def)
    ultimately show ?thesis
      unfolding made_since_def by (metis le_less_trans)
  next
    case 2
    then consider "made_since s s' r'" | r where "r \<in> set (nc_records s)" "follows r r'"
      using assms(1) by (auto simp: carried_def)
    then show ?thesis
    proof cases
      case 1
      moreover have "nc_next_id s' \<le> nc_next_id s''" "nr_id r'' = nr_id r'"
        using assms(2) 2 by (auto simp: carried_def follows_def)
      ultimately show ?thesis
        by (auto simp: made_since_def word_order.extremum_unique intro: order_trans)
    qed (use 2 follows_trans in blast)
  qed
qed

lemma advances_published:
  assumes "nc_revision s1 = saturating_add (nc_revision s) 1" and "nc_updates s1 = nc_updates s"
    and "center_ok s \<Longrightarrow> records_ok (nc_revision s1) (nc_next_id s) (nc_records s) \<Longrightarrow>
      records_ok (nc_revision s1) (nc_next_id s1) (nc_records s1) \<and> carried s s1"
  shows "advances s (snd (publish_snapshot s1))"
proof -
  have "center_ok s \<Longrightarrow> center_ok s1 \<and> carried s s1"
    using assms(1,3) records_ok_later [of "nc_revision s" "nc_next_id s" "nc_records s" "nc_revision s1"]
    by (auto simp: center_ok_def saturating_add_1_ge)
  then show ?thesis
    using assms(1,2)
    by (auto simp: advances_def told_def publish_snapshot_def center_ok_def snapshot_def carried_def made_since_def)
qed

lemma in_place_carried:
  assumes "list_all2 (step_in_place revision) (nc_records s) (nc_records s1)" and "nc_next_id s1 = nc_next_id s"
  shows "carried s s1"
  unfolding carried_def
proof (intro conjI ballI disjI1)
  fix r'
  assume "r' \<in> set (nc_records s1)"
  then obtain i where "i < length (nc_records s1)" "r' = nc_records s1 ! i"
    by (auto simp: in_set_conv_nth)
  then show "\<exists>r \<in> set (nc_records s). follows r r'"
    using assms(1) by (auto simp: list_all2_conv_all_nth step_in_place_def intro!: bexI [of _ "nc_records s ! i"])
qed (use assms in simp)

lemma advances_in_place:
  assumes "center_ok s \<Longrightarrow> list_all2 (step_in_place (nc_revision s1)) (nc_records s) (nc_records s1)"
    and "nc_revision s1 = saturating_add (nc_revision s) 1" and "nc_updates s1 = nc_updates s"
    and "nc_next_id s1 = nc_next_id s"
  shows "advances s (snd (publish_snapshot s1))"
  using assms by (intro advances_published) (auto intro: records_ok_in_place in_place_carried)

lemma step_in_place_map: "(\<And>r. r \<in> set rs \<Longrightarrow> step_in_place v r (f r)) \<Longrightarrow> list_all2 (step_in_place v) rs (map f rs)"
  by (simp add: list_all2_conv_all_nth)

lemma step_in_place_update: "step_in_place v (rs ! i) r \<Longrightarrow> list_all2 (step_in_place v) rs (rs[i := r])"
  by (auto simp: list_all2_conv_all_nth) (metis nth_list_update_eq nth_list_update_neq step_in_place_refl)

lemma step_in_place_simps:
  "step_in_place v r (r\<lparr>nr_read := True, nr_revision := v\<rparr>)"
  "step_in_place v r (r\<lparr>nr_revision := v\<rparr>)"
  "step_in_place v r (resolved_record now v r)"
  by (auto simp: step_in_place_def follows_def coherent_record_def resolved_record_def fold_resolved_unpresented_record_def
      folded_def presenting_def split: option.splits intro: order_trans)

lemma mark_read_advances: "advances s (snd (mark_read ids s))"
  by (auto simp: mark_read_def Let_def step_in_place_simps intro!: advances_in_place step_in_place_map)

lemma resolve_advances:
  "advances s (snd (resolve_by_dedupe_key now key s))"
  "advances s (snd (resolve_by_dedupe_namespace now key s))"
  by (auto simp: resolve_by_dedupe_key_def resolve_by_dedupe_namespace_def Let_def step_in_place_simps
      intro!: advances_in_place step_in_place_map step_in_place_update split: option.split)

section \<open>Removal and publication\<close>

lemma records_ok_filter:
  assumes "records_ok revision next_id rs"
  shows "records_ok revision next_id (filter P rs)"
proof -
  have "leases (filter P rs) \<le> leases rs"
    by (induction rs) (auto simp: leases_def)
  then show ?thesis
    using assms
    by (auto simp: records_ok_def latest_open_def identified_def sorted_wrt_filter distinct_map_filter
        intro: order_trans [OF length_filter_le])
qed

lemma remove_advances: "advances s (snd (remove_matching P s))"
proof (cases "length (nc_records s) = length (filter (\<lambda>r. \<not> P r) (nc_records s))")
  case True
  then have "filter (\<lambda>r. \<not> P r) (nc_records s) = nc_records s"
    by (metis filter_True length_filter_less nat_neq_iff)
  then show ?thesis
    by (simp add: remove_matching_def)
next
  case False
  then show ?thesis
    by (auto simp: remove_matching_def Let_def carried_def intro!: advances_published records_ok_filter follows_member)
qed

lemma leases_append [simp]: "leases (xs @ ys) = leases xs + leases ys"
  by (simp add: leases_def)

lemma leases_Cons: "leases (x # xs) = (if nr_presentation_lease x \<noteq> None then 1 else 0) + leases xs"
  by (simp add: leases_def)

text \<open>Publishing keeps the rest of the invariant before the queue is cut down to its limit.\<close>

definition records_fit :: "u64 \<Rightarrow> u64 \<Rightarrow> 'c notification_record list \<Rightarrow> bool" where
  "records_fit revision next_id rs \<longleftrightarrow>
     latest_open rs \<and> (\<forall>r \<in> set rs. coherent_record revision r) \<and> identified next_id rs \<and> leases rs \<le> 1"

lemma records_ok_fit: "records_ok revision next_id rs \<longleftrightarrow> length rs \<le> NOTIFICATION_RETENTION_LIMIT \<and> records_fit revision next_id rs"
  by (auto simp: records_ok_def records_fit_def)

lemma records_fit_drop:
  assumes "records_fit revision next_id rs"
  shows "records_fit revision next_id (drop n rs)"
proof -
  have "records_fit revision next_id (take n rs @ drop n rs)"
    using assms by simp
  then show ?thesis
    by (simp only: records_fit_def latest_open_def identified_ids sorted_wrt_append leases_append map_append
        distinct_append set_append) auto
qed

lemma trimmed_ok:
  assumes "records_fit revision next_id rs"
  shows "records_ok revision next_id (pop_front_while_over NOTIFICATION_RETENTION_LIMIT rs)"
  using records_fit_drop [OF assms] by (simp add: records_ok_fit pop_front_while_over_eq)

lemma updated_record_step:
  "step_in_place v r (updated_record now v p r\<lparr>nr_resolved := True\<rparr>)"
  "coherent_record v r \<Longrightarrow> coherent_record v (updated_record now v p r)"
  "follows r (updated_record now v p r)"
  "nr_presentation_lease r = None \<Longrightarrow> nr_presentation_lease (updated_record now v p r) = None"
  "nr_resolved (updated_record now v p r) = np_resolved p"
  by (auto simp: step_in_place_def follows_def coherent_record_def updated_record_def fold_resolved_unpresented_record_def
      folded_def presenting_def split: option.splits intro: order_trans)

lemma updated_fit:
  assumes fit: "records_fit v next_id rs" and found: "rposition (same_occurrence p) rs = Some i"
  shows "records_fit v next_id (take i rs @ drop (Suc i) rs @ [updated_record now v p (rs ! i)])"
proof -
  define xs r ys where "xs = take i rs" and "r = rs ! i" and "ys = drop (Suc i) rs"
  have rs: "rs = xs @ r # ys" and r: "same_occurrence p r" and ys: "\<forall>y \<in> set ys. \<not> same_occurrence p y"
    using rposition_split [OF found] by (simp_all add: xs_def r_def ys_def)
  let ?r = "updated_record now v p r"
  have key: "nr_dedupe_key ?r = nr_dedupe_key r" "nr_id ?r = nr_id r"
    using updated_record_step(3) [of r now v p] by (simp_all add: follows_def)
  have "latest_open (xs @ ys @ [?r])"
    using fit ys r by (auto simp: rs records_fit_def latest_open_def sorted_wrt_append key same_occurrence_def)
  moreover have "\<forall>x \<in> set (xs @ ys @ [?r]). coherent_record v x"
    using fit updated_record_step(2) [of v r now p] by (auto simp: rs records_fit_def)
  moreover have "identified next_id (xs @ ys @ [?r])"
    using fit by (auto simp: rs records_fit_def identified_def key)
  moreover have "leases (xs @ ys @ [?r]) \<le> leases rs"
    using updated_record_step(4) [of r now v p] by (auto simp: rs leases_Cons leases_def)
  ultimately show ?thesis
    using fit by (simp add: records_fit_def xs_def ys_def r_def)
qed

lemma new_record_sel:
  "nr_id (new_record now v k p) = notification_id_of k" "nr_dedupe_key (new_record now v k p) = np_dedupe_key p"
  "nr_presentation_lease (new_record now v k p) = None" "coherent_record v (new_record now v k p)"
  by (auto simp: new_record_def fold_resolved_unpresented_record_def notification_id_of_def coherent_record_def folded_def
      unpresented_def)

lemma new_fit:
  assumes fit: "records_fit v next_id rs" and none: "rposition (same_occurrence p) rs = None"
    and k: "k = saturating_add next_id 1"
  shows "records_fit v k (rs @ [new_record now v k p])"
proof -
  let ?r = "new_record now v k p"
  have "latest_open (rs @ [?r])"
    using fit none by (auto simp: records_fit_def latest_open_def sorted_wrt_append new_record_sel rposition_None same_occurrence_def)
  moreover have "identified k (rs @ [?r])"
    unfolding identified_def
  proof (intro impI conjI)
    assume "k \<noteq> - 1"
    then have less: "next_id < k"
      using k by (auto simp: saturating_add_def dest: checked_add_1_less split: option.splits)
    then have "next_id \<noteq> - 1"
      using word_order.extremum_strict by blast
    then have old: "distinct (map nr_id rs)" "\<forall>r \<in> set rs. \<exists>j. 0 < j \<and> j \<le> next_id \<and> nr_id r = notification_id_of j"
      using fit by (simp_all add: records_fit_def identified_def)
    have "notification_id_of k \<noteq> nr_id r" if "r \<in> set rs" for r
      using bspec [OF old(2) that] less by (auto simp: notification_id_of_def u64_to_string_inj)
    then show "distinct (map nr_id (rs @ [?r]))"
      using old(1) by (auto simp: new_record_sel)
    have "0 < k"
      using less le_less_trans word_zero_le by blast
    then show "\<forall>r \<in> set (rs @ [?r]). \<exists>j. 0 < j \<and> j \<le> k \<and> nr_id r = notification_id_of j"
      using old(2) less by (fastforce simp: new_record_sel intro: order_trans less_imp_le)
  qed
  ultimately show ?thesis
    using fit new_record_sel(3) [of now v k p] new_record_sel(4) [of v now k p] by (simp add: records_fit_def leases_Cons) (simp add: leases_def)
qed

lemma publish_advances: "advances s (snd (publish pc now p s))"
proof (cases "validate_publication pc p")
  case (Inr u)
  let ?v = "saturating_add (nc_revision s) 1" and ?kept = "filter (\<lambda>r. \<not> replaced p r) (nc_records s)"
    and ?k = "saturating_add (nc_next_id s) 1"
  let ?trim = "pop_front_while_over NOTIFICATION_RETENTION_LIMIT :: 'a notification_record list \<Rightarrow> _"
  have trim_set: "set (?trim rs) \<subseteq> set rs" for rs
    by (simp add: set_pop_front_while_over)
  have fit: "records_fit ?v (nc_next_id s) ?kept" if "records_ok ?v (nc_next_id s) (nc_records s)"
    using records_ok_filter [OF that] by (simp add: records_ok_fit)
  have changed: "advances s (snd (publish_snapshot (s\<lparr>nc_revision := ?v, nc_next_id := snd new, nc_records := ?trim (fst new)\<rparr>)))"
    if "new = (case rposition (same_occurrence p) ?kept of
          Some i \<Rightarrow> (take i ?kept @ drop (Suc i) ?kept @ [updated_record now ?v p (?kept ! i)], nc_next_id s)
        | None \<Rightarrow> (?kept @ [new_record now ?v ?k p], ?k))" for new
  proof (rule advances_published)
    have at: "i < length ?kept \<Longrightarrow> ?kept ! i \<in> set (nc_records s)" for i
      using nth_mem [of i ?kept] by auto
    have member: "(\<exists>r \<in> set (nc_records s). follows r r') \<or> nr_id r' = notification_id_of ?k \<and> snd new = ?k"
      if "r' \<in> set (fst new)" for r'
    proof (cases "rposition (same_occurrence p) ?kept")
      case None
      then show ?thesis
        using that by (auto simp: \<open>new = _\<close> new_record_sel intro: follows_member)
    next
      case (Some i)
      then have "\<exists>r \<in> set (nc_records s). follows r (updated_record now ?v p (?kept ! i))"
        using rposition_split [OF Some] at updated_record_step(3) by blast
      then show ?thesis
        using that Some by (auto simp: \<open>new = _\<close> intro: follows_member dest!: in_set_takeD in_set_dropD)
    qed
    have "nc_next_id s \<le> snd new"
      by (auto simp: that saturating_add_1_ge split: option.split)
    moreover have "nc_next_id s < ?k" if "?k \<noteq> - 1"
      using that by (auto simp: saturating_add_def dest: checked_add_1_less split: option.splits)
    ultimately have carried: "carried s (s\<lparr>nc_revision := ?v, nc_next_id := snd new, nc_records := ?trim (fst new)\<rparr>)"
      using member trim_set [of "fst new"] by (fastforce simp: carried_def made_since_def)
    let ?s = "s\<lparr>nc_revision := ?v, nc_next_id := snd new, nc_records := ?trim (fst new)\<rparr>"
    assume "records_ok (nc_revision ?s) (nc_next_id s) (nc_records s)"
    then have "records_ok ?v (snd new) (?trim (fst new))"
      using fit by (auto simp: \<open>new = _\<close> intro!: trimmed_ok updated_fit new_fit split: option.split)
    then show "records_ok (nc_revision ?s) (nc_next_id ?s) (nc_records ?s) \<and> carried s ?s"
      using carried by simp
  qed simp_all
  show ?thesis
    using changed [OF refl] by (auto simp: publish_def Inr Let_def split: prod.split)
qed (simp add: publish_def)

section \<open>Leases\<close>

lemma requeue_where_sel [simp]:
  "nc_revision (snd (requeue_where P s)) = nc_revision s" "nc_updates (snd (requeue_where P s)) = nc_updates s"
  "nc_next_id (snd (requeue_where P s)) = nc_next_id s"
  by (simp_all add: requeue_where_def)

lemma requeue_none: "fst (requeue_where P s) = [] \<Longrightarrow> snd (requeue_where P s) = s"
  by (cases s) (auto simp: requeue_where_def filter_empty_conv in_set_conv_nth intro!: map_idI)

lemma requeued_step:
  assumes "coherent_record v r" and "nr_presentation_lease r \<noteq> None"
  shows "step_in_place v r (requeued r)"
  using assms by (auto simp: step_in_place_def follows_def coherent_record_def requeued_def presenting_def unpresented_def)

lemma step_in_place_trans: "step_in_place v r r' \<Longrightarrow> step_in_place v r' r'' \<Longrightarrow> step_in_place v r r''"
  by (auto simp: step_in_place_def intro: follows_trans)

lemma in_place_trans:
  "list_all2 (step_in_place v) rs rs' \<Longrightarrow> list_all2 (step_in_place v) rs' rs'' \<Longrightarrow> list_all2 (step_in_place v) rs rs''"
  using list_all2_trans [of "step_in_place v" "step_in_place v" "step_in_place v"] step_in_place_trans by blast

lemma requeue_in_place:
  assumes "\<forall>r \<in> set (nc_records s). coherent_record v r" and "\<And>r. P r \<Longrightarrow> nr_presentation_lease r \<noteq> None"
  shows "list_all2 (step_in_place v) (nc_records s) (nc_records (snd (requeue_where P s)))"
  using assms by (auto simp: requeue_where_def intro!: step_in_place_map requeued_step)

lemma leased_conditions:
  "has_expired now r \<Longrightarrow> nr_presentation_lease r \<noteq> None" "held_by identity r \<Longrightarrow> nr_presentation_lease r \<noteq> None"
  by (auto simp: has_expired_def held_by_def is_some_and_iff)

definition committed :: "u64 \<Rightarrow> nat list \<Rightarrow> 'c notification_record list \<Rightarrow> 'c notification_record list" where
  "committed v changed rs = map (\<lambda>(i, r). if i \<in> set changed then r\<lparr>nr_revision := v\<rparr> else r) (enumerate 0 rs)"

lemma committed_in_place: "list_all2 (step_in_place v) rs (committed v changed rs)"
  by (auto simp: committed_def list_all2_conv_all_nth nth_enumerate_eq step_in_place_simps)

text \<open>A commit after changes that are complete but for the revision.\<close>

lemma commit_advances:
  assumes "nc_revision s1 = nc_revision s" and "nc_updates s1 = nc_updates s" and "nc_next_id s1 = nc_next_id s"
    and "changed = [] \<Longrightarrow> s1 = s"
    and "\<And>v. records_ok v (nc_next_id s) (nc_records s) \<Longrightarrow> records_ok v (nc_next_id s) (nc_records s1) \<and> carried s s1"
  shows "advances s (snd (commit_indices_locked changed s1))"
proof (cases "changed = []")
  case False
  let ?v = "saturating_add (nc_revision s) 1"
  have "advances s (snd (publish_snapshot (s1\<lparr>nc_revision := ?v, nc_records := committed ?v changed (nc_records s1)\<rparr>)))"
  proof (rule advances_published)
    assume "records_ok (nc_revision (s1\<lparr>nc_revision := ?v, nc_records := committed ?v changed (nc_records s1)\<rparr>))
      (nc_next_id s) (nc_records s)"
    then have ok: "records_ok ?v (nc_next_id s) (nc_records s1)" "carried s s1"
      using assms(5) by simp_all
    have "carried s1 (s1\<lparr>nc_revision := ?v, nc_records := committed ?v changed (nc_records s1)\<rparr>)"
      by (rule in_place_carried [where revision = ?v]) (simp_all add: committed_in_place)
    then show "records_ok (nc_revision (s1\<lparr>nc_revision := ?v, nc_records := committed ?v changed (nc_records s1)\<rparr>))
        (nc_next_id (s1\<lparr>nc_revision := ?v, nc_records := committed ?v changed (nc_records s1)\<rparr>))
        (nc_records (s1\<lparr>nc_revision := ?v, nc_records := committed ?v changed (nc_records s1)\<rparr>))
      \<and> carried s (s1\<lparr>nc_revision := ?v, nc_records := committed ?v changed (nc_records s1)\<rparr>)"
      using records_ok_in_place [OF committed_in_place ok(1)] carried_trans [OF ok(2)] assms(3) by simp
  qed (use assms in simp_all)
  then show ?thesis
    using False assms(1) by (simp add: commit_indices_locked_def committed_def Let_def)
qed (use assms in \<open>simp add: commit_indices_locked_def\<close>)

lemma commit_in_place:
  assumes "nc_revision s1 = nc_revision s" and "nc_updates s1 = nc_updates s" and "nc_next_id s1 = nc_next_id s"
    and "changed = [] \<Longrightarrow> s1 = s"
    and "\<And>v. \<forall>r \<in> set (nc_records s). coherent_record v r \<Longrightarrow> list_all2 (step_in_place v) (nc_records s) (nc_records s1)"
  shows "advances s (snd (commit_indices_locked changed s1))"
proof (rule commit_advances)
  fix v
  assume ok: "records_ok v (nc_next_id s) (nc_records s)"
  then have step: "list_all2 (step_in_place v) (nc_records s) (nc_records s1)"
    using assms(5) by (simp add: records_ok_def)
  from records_ok_in_place [OF step ok] in_place_carried [OF step assms(3)]
  show "records_ok v (nc_next_id s) (nc_records s1) \<and> carried s s1"
    by simp
qed (use assms in auto)

lemma expire_sel [simp]:
  "nc_revision (snd (expire_locked now s)) = nc_revision s" "nc_updates (snd (expire_locked now s)) = nc_updates s"
  "nc_next_id (snd (expire_locked now s)) = nc_next_id s"
  by (simp_all add: expire_locked_def)

lemma expire_none: "fst (expire_locked now s) = [] \<Longrightarrow> snd (expire_locked now s) = s"
  by (simp add: expire_locked_def requeue_none)

lemma expire_in_place:
  "\<forall>r \<in> set (nc_records s). coherent_record v r \<Longrightarrow>
     list_all2 (step_in_place v) (nc_records s) (nc_records (snd (expire_locked now s)))"
  unfolding expire_locked_def by (rule requeue_in_place) (auto dest: leased_conditions)

lemma expired_coherent:
  assumes "\<forall>r \<in> set (nc_records s). coherent_record v r"
  shows "\<forall>r \<in> set (nc_records (snd (expire_locked now s))). coherent_record v r"
  using expire_in_place [OF assms, of now] assms
  by (fastforce simp: list_all2_conv_all_nth step_in_place_def in_set_conv_nth)

lemma expire_commit_advances: "advances s (snd (commit_indices_locked (fst (expire_locked now s)) (snd (expire_locked now s))))"
  by (rule commit_in_place) (auto intro: expire_none expire_in_place)

lemma snapshot_advances: "advances s (snd (center_snapshot now s))"
  using expire_commit_advances [of s now] expire_none [of now s]
  by (auto simp: center_snapshot_def requeue_expired_locked_def Let_def split: prod.split)

lemma release_advances: "advances s (snd (release_presentation_leases now identity s))"
proof -
  let ?s1 = "snd (expire_locked now s)"
  let ?s2 = "snd (requeue_where (held_by identity) ?s1)"
  have "advances s (snd (commit_indices_locked (fst (expire_locked now s) @ fst (requeue_where (held_by identity) ?s1)) ?s2))"
  proof (rule commit_in_place)
    fix v
    assume ok: "\<forall>r \<in> set (nc_records s). coherent_record v r"
    have "list_all2 (step_in_place v) (nc_records ?s1) (nc_records ?s2)"
      by (rule requeue_in_place [OF expired_coherent [OF ok]]) (auto dest: leased_conditions)
    with expire_in_place [OF ok] show "list_all2 (step_in_place v) (nc_records s) (nc_records ?s2)"
      by (rule in_place_trans)
  qed (use expire_none [of now s] requeue_none [of "held_by identity" ?s1] in auto)
  then show ?thesis
    by (simp add: release_presentation_leases_def split: prod.split) (metis fst_conv snd_conv)
qed

lemma complete_advances: "advances s (snd (complete_presentation now c s))"
proof -
  obtain changed s1 where expired: "expire_locked now s = (changed, s1)"
    by fastforce
  note refused = expire_commit_advances [of s now, unfolded expired fst_conv snd_conv]
  have "advances s (snd (commit_indices_locked (changed @ [i]) (s1\<lparr>nc_records := (nc_records s1)[i := (nc_records s1 ! i)
      \<lparr>nr_presentation_lease := None, nr_presentation_state := folded (cm_outcome c) now\<rparr>]\<rparr>)))"
    if "completion_accepted now c (nc_records s1 ! i)" for i
  proof (rule commit_in_place)
    fix v
    assume ok: "\<forall>r \<in> set (nc_records s). coherent_record v r"
    have "step_in_place v (nc_records s1 ! i) ((nc_records s1 ! i)
        \<lparr>nr_presentation_lease := None, nr_presentation_state := folded (cm_outcome c) now\<rparr>)"
      using that by (auto simp: step_in_place_def follows_def coherent_record_def completion_accepted_def folded_def)
    from step_in_place_update [OF this] expire_in_place [OF ok, of now]
    show "list_all2 (step_in_place v) (nc_records s) (nc_records (s1\<lparr>nc_records := (nc_records s1)[i := (nc_records s1 ! i)
        \<lparr>nr_presentation_lease := None, nr_presentation_state := folded (cm_outcome c) now\<rparr>]\<rparr>))"
      unfolding expired by (simp add: in_place_trans)
  qed (use expire_sel [of now s] in \<open>simp_all add: expired\<close>)
  with refused show ?thesis
    by (auto simp: complete_presentation_def expired split: option.split prod.split) (metis snd_conv)+
qed

lemma leased_follows:
  assumes "ps_phase (nr_presentation_state r) = PP_Unpresented" and "coherent_record v r"
  shows "follows r (leased now identity r) \<and> nr_resolved (leased now identity r) = nr_resolved r
    \<and> coherent_record v (leased now identity r)"
proof -
  have "0 < max g (1 :: u64)" for g
    by (simp add: less_max_iff_disj)
  then show ?thesis
    using assms by (auto simp: follows_def leased_def Let_def coherent_record_def split: option.splits)
qed

lemma lease_presenting:
  "coherent_record v r \<Longrightarrow> nr_presentation_lease r \<noteq> None \<Longrightarrow> ps_phase (nr_presentation_state r) = PP_Presenting"
  by (auto simp: coherent_record_def presenting_def)

lemma no_presenting_no_lease:
  assumes "\<forall>r \<in> set rs. coherent_record v r"
    and "\<not> list_ex (\<lambda>r. ps_phase (nr_presentation_state r) = PP_Presenting) rs"
  shows "leases rs = 0"
  using assms lease_presenting [of v] unfolding leases_def list_ex_iff length_0_conv filter_empty_conv by blast

lemma claimed_ok:
  assumes "records_ok v next_id rs" and "\<not> list_ex (\<lambda>r. ps_phase (nr_presentation_state r) = PP_Presenting) rs"
    and "i < length rs" and "ps_phase (nr_presentation_state (rs ! i)) = PP_Unpresented"
  shows "records_ok v next_id (rs[i := leased now identity (rs ! i)])"
proof -
  have coherent: "\<forall>r \<in> set rs. coherent_record v r"
    using assms(1) by (simp add: records_ok_def)
  then have none: "leases (take i rs) = 0" "leases (drop (Suc i) rs) = 0"
    using no_presenting_no_lease [OF coherent assms(2)]
    by (auto simp: leases_def filter_empty_conv dest: in_set_takeD in_set_dropD)
  have "leases (rs[i := leased now identity (rs ! i)]) \<le> 1"
    using none by (simp add: upd_conv_take_nth_drop [OF assms(3)] leases_Cons)
  moreover have "list_all2 (\<lambda>r r'. follows r r' \<and> (nr_resolved r \<longrightarrow> nr_resolved r')
      \<and> (coherent_record v r \<longrightarrow> coherent_record v r')) rs (rs[i := leased now identity (rs ! i)])"
    using leased_follows [OF assms(4), of v now identity] coherent assms(3)
    by (auto simp: list_all2_conv_all_nth nth_list_update)
  ultimately show ?thesis
    using records_ok_step assms(1) by blast
qed

lemma claim_advances: "advances s (snd (claim_next_locked now identity s))"
proof -
  obtain changed s1 where expired: "expire_locked now s = (changed, s1)"
    by fastforce
  note refused = expire_commit_advances [of s now, unfolded expired fst_conv snd_conv]
  have sel: "nc_revision s1 = nc_revision s" "nc_updates s1 = nc_updates s" "nc_next_id s1 = nc_next_id s"
    using expire_sel [of now s] by (simp_all add: expired)
  have claimed: "advances s (snd (commit_indices_locked (changed @ [i])
      (s1\<lparr>nc_records := (nc_records s1)[i := leased now identity (nc_records s1 ! i)]\<rparr>)))"
    if free: "\<not> list_ex (\<lambda>r. ps_phase (nr_presentation_state r) = PP_Presenting) (nc_records s1)"
      and i: "position (\<lambda>r. ps_phase (nr_presentation_state r) = PP_Unpresented) (nc_records s1) = Some i" for i
  proof (rule commit_advances)
    fix v
    assume ok: "records_ok v (nc_next_id s) (nc_records s)"
    then have step: "list_all2 (step_in_place v) (nc_records s) (nc_records s1)"
      using expire_in_place [of s v now] by (simp add: expired records_ok_def)
    note ok1 = records_ok_in_place [OF step ok]
    let ?s2 = "s1\<lparr>nc_records := (nc_records s1)[i := leased now identity (nc_records s1 ! i)]\<rparr>"
    have i: "i < length (nc_records s1)" "ps_phase (nr_presentation_state (nc_records s1 ! i)) = PP_Unpresented"
      using i by (simp_all add: position_Some)
    then have "follows (nc_records s1 ! i) (leased now identity (nc_records s1 ! i))"
      using leased_follows [OF i(2), of v] ok1 by (simp add: records_ok_def)
    then have "carried s1 ?s2"
      using i(1) by (auto simp: carried_def dest!: set_update_subset_insert [THEN subsetD] intro: follows_member bexI [of _ "nc_records s1 ! i"])
    with claimed_ok [OF ok1 free i] carried_trans [OF in_place_carried [OF step sel(3)]]
    show "records_ok v (nc_next_id s) (nc_records ?s2) \<and> carried s ?s2"
      by simp
  qed (use sel in simp_all)
  show ?thesis
    using refused claimed
    by (auto simp: claim_next_locked_def expired Let_def split: option.split prod.split)
qed

lemma commit_next_id [simp]: "nc_next_id (snd (commit_indices_locked changed s)) = nc_next_id s"
  by (simp add: commit_indices_locked_def publish_snapshot_def Let_def)

lemma claim_keeps_ids: "nc_next_id (snd (claim_next_locked now identity s)) = nc_next_id s"
proof -
  obtain changed s1 where expired: "expire_locked now s = (changed, s1)"
    by fastforce
  have "nc_next_id s1 = nc_next_id s"
    using expire_sel(3) [of now s] by (simp add: expired)
  then show ?thesis
    using commit_next_id by (auto simp: claim_next_locked_def expired Let_def split: option.split prod.split) (metis commit_next_id select_convs(1) snd_conv surjective update_convs(2))+
qed

section \<open>Identities and sockets\<close>

text \<open>An identity belongs to one socket: reserving and releasing it never take it from another one.\<close>

lemma reserve_exclusive:
  assumes "reserve identity socket owners = (granted, owners')"
  shows "granted \<longleftrightarrow> owns identity socket owners'"
    and "owns other holder owners \<Longrightarrow> owns other holder owners'"
    and "granted \<Longrightarrow> holder \<noteq> socket \<Longrightarrow> \<not> fst (reserve identity holder owners')"
  using assms by (auto simp: reserve_def owns_def split: option.splits if_splits)

lemma release_exclusive:
  "owns other holder (release_session identity socket owners) \<longleftrightarrow>
     owns other holder owners \<and> \<not> (other = identity \<and> holder = socket)"
  by (auto simp: release_session_def owns_def is_some_and_iff)

end
