(* ===== verification/Notification_Properties.thy ===== *)
theory Notification_Properties
  imports Notification_Laws
begin

text \<open>
  Runs of the notification center: any calls of any clients at any readings of the clock, from the empty center on.
\<close>

section \<open>Runs\<close>

datatype 'c center_call =
    CC_Publish "'c notification_publication"
  | CC_MarkRead "string list"
  | CC_Remove string
  | CC_RemoveByKey string
  | CC_Resolve string
  | CC_ResolveNamespace string
  | CC_Snapshot
  | CC_Claim presentation_identity
  | CC_Complete presentation_completion
  | CC_Release presentation_identity

fun center_perform :: "'c presentation_contract \<Rightarrow> 'c center \<Rightarrow> u64 \<times> 'c center_call \<Rightarrow> 'c center" where
  "center_perform pc s (now, CC_Publish p) = snd (publish pc now p s)"
| "center_perform pc s (now, CC_MarkRead ids) = snd (mark_read ids s)"
| "center_perform pc s (now, CC_Remove nid) = snd (remove_notification nid s)"
| "center_perform pc s (now, CC_RemoveByKey key) = snd (remove_by_dedupe_key key s)"
| "center_perform pc s (now, CC_Resolve key) = snd (resolve_by_dedupe_key now key s)"
| "center_perform pc s (now, CC_ResolveNamespace namespace) = snd (resolve_by_dedupe_namespace now namespace s)"
| "center_perform pc s (now, CC_Snapshot) = snd (center_snapshot now s)"
| "center_perform pc s (now, CC_Claim identity) = snd (claim_next_locked now identity s)"
| "center_perform pc s (now, CC_Complete c) = snd (complete_presentation now c s)"
| "center_perform pc s (now, CC_Release identity) = snd (release_presentation_leases now identity s)"

lemma perform_advances: "advances s (center_perform pc s call)"
  by (cases "(pc, s, call)" rule: center_perform.cases)
    (simp_all add: publish_advances mark_read_advances remove_notification_def remove_by_dedupe_key_def remove_advances
      resolve_advances snapshot_advances claim_advances complete_advances release_advances)

lemma center_run:
  assumes "center_ok s"
  shows "center_ok (foldl (center_perform pc) s calls) \<and> carried s (foldl (center_perform pc) s calls)"
  using assms
proof (induction calls arbitrary: s)
  case (Cons call calls)
  let ?s = "center_perform pc s call"
  have "center_ok ?s" "carried s ?s"
    using perform_advances [of s pc call] Cons.prems by (simp_all add: advances_def)
  then show ?case
    using Cons.IH [of ?s] carried_trans by auto
qed simp

lemma center_new_ok: "center_ok center_new"
  by (simp add: center_ok_def center_new_def records_ok_def latest_open_def identified_def leases_def)

lemma reached_ok: "center_ok (foldl (center_perform pc) center_new calls)"
  using center_run [OF center_new_ok] by blast

section \<open>Broadcasts\<close>

definition broadcast_ok :: "'c center \<Rightarrow> bool" where
  "broadcast_ok s \<longleftrightarrow>
     (nc_updates s = [] \<longrightarrow> nc_revision s = 0 \<and> nc_records s = [])
     \<and> (\<forall>u us. nc_updates s = u # us \<longrightarrow> u = snapshot s)
     \<and> (nc_revision s \<noteq> - 1 \<longrightarrow> sorted_wrt (>) (map sn_revision (nc_updates s)) \<and> (\<forall>u \<in> set (nc_updates s). 0 < sn_revision u))"

lemma told_broadcast:
  assumes "told s s'" and "broadcast_ok s"
  shows "broadcast_ok s'"
proof (cases "s' = s")
  case False
  then have later: "nc_revision s' = saturating_add (nc_revision s) 1" "nc_updates s' = snapshot s' # nc_updates s"
    using assms(1) by (auto simp: told_def)
  have grows: "nc_revision s < nc_revision s'" if "nc_revision s' \<noteq> - 1"
    using that by (auto simp: later(1) saturating_add_def dest: checked_add_1_less split: option.splits)
  have below: "nc_revision s \<noteq> - 1" if "nc_revision s' \<noteq> - 1"
    using grows [OF that] word_order.extremum_strict [of "nc_revision s'"] by auto
  note less = grows below
  have "sn_revision u \<le> nc_revision s" if "u \<in> set (nc_updates s)" "nc_revision s \<noteq> - 1" for u
    using assms(2) that by (cases "nc_updates s") (auto simp: broadcast_ok_def snapshot_def)
  then have "sn_revision u < nc_revision s'" if "u \<in> set (nc_updates s)" "nc_revision s' \<noteq> - 1" for u
    using that less by (meson le_less_trans)
  moreover have "0 < nc_revision s'" if "nc_revision s' \<noteq> - 1"
    using less(1) [OF that] le_less_trans word_zero_le by blast
  ultimately show ?thesis
    using assms(2) less later(2) by (auto simp: broadcast_ok_def snapshot_def)
qed (use assms in simp)

lemma reached_broadcast: "broadcast_ok s \<Longrightarrow> broadcast_ok (foldl (center_perform pc) s calls)"
proof (induction calls arbitrary: s)
  case (Cons call calls)
  then show ?case
    using told_broadcast [of s "center_perform pc s call"] perform_advances [of s pc call] by (simp add: advances_def)
qed simp

section \<open>Claims\<close>

lemma committed_nth:
  "i < length rs \<Longrightarrow> committed v changed rs ! i = (if i \<in> set changed then (rs ! i)\<lparr>nr_revision := v\<rparr> else rs ! i)"
  by (simp add: committed_def nth_enumerate_eq)

lemma length_committed [simp]: "length (committed v changed rs) = length rs"
  by (simp add: committed_def)

lemma commit_records:
  "changed \<noteq> [] \<Longrightarrow> nc_records (snd (commit_indices_locked changed s)) = committed (saturating_add (nc_revision s) 1) changed (nc_records s)"
  by (simp add: commit_indices_locked_def publish_snapshot_def committed_def Let_def)

lemma expired_all:
  assumes "\<forall>r \<in> set (nc_records s). \<forall>l. nr_presentation_lease r = Some l \<longrightarrow> le_expires_at l \<le> now"
  shows "\<forall>r \<in> set (nc_records (snd (expire_locked now s))). nr_presentation_lease r = None"
  using assms
  by (force simp: expire_locked_def requeue_where_def requeued_def has_expired_def is_some_and_def split: option.splits)

lemma find_unique:
  assumes "i < length xs" and "P (xs ! i)" and "\<And>j. j < length xs \<Longrightarrow> j \<noteq> i \<Longrightarrow> \<not> P (xs ! j)"
  shows "find P xs = Some (xs ! i)"
  using assms by (auto simp: find_Some_iff intro!: exI [of _ i])

lemma position_unique:
  assumes "i < length xs" and "P (xs ! i)" and "\<And>j. j < length xs \<Longrightarrow> j \<noteq> i \<Longrightarrow> \<not> P (xs ! j)"
  shows "position P xs = Some i"
  using assms by (auto simp: position_Some)

text \<open>The record that a claim at an idle moment leases, after the commit.\<close>

lemma claim_idle:
  assumes "center_ok s" and "\<forall>r \<in> set (nc_records s). \<forall>l. nr_presentation_lease r = Some l \<longrightarrow> le_expires_at l \<le> now"
    and "\<exists>r \<in> set (nc_records s). ps_phase (nr_presentation_state r) \<noteq> PP_Folded"
  shows "\<exists>i r shown s'. claim_next_locked now identity s = ((presentation_claim_of (nc_records s' ! i), shown), s')
    \<and> i < length (nc_records s') \<and> nc_records s' ! i = (leased now identity r)\<lparr>nr_revision := nc_revision s'\<rparr>
    \<and> (\<forall>j < length (nc_records s'). j \<noteq> i \<longrightarrow> nr_presentation_lease (nc_records s' ! j) = None)"
proof -
  obtain changed s1 where expired: "expire_locked now s = (changed, s1)"
    by fastforce
  have free: "\<forall>r \<in> set (nc_records s1). nr_presentation_lease r = None"
    using expired_all [OF assms(2)] by (simp add: expired)
  have coherent: "\<forall>r \<in> set (nc_records s1). coherent_record (nc_revision s) r"
    using expired_coherent [of s "nc_revision s" now] assms(1) by (simp add: expired center_ok_def records_ok_def)
  then have quiet: "\<forall>r \<in> set (nc_records s1). ps_phase (nr_presentation_state r) \<noteq> PP_Presenting"
    using free by (auto simp: coherent_record_def)
  obtain r where "r \<in> set (nc_records s)" "ps_phase (nr_presentation_state r) \<noteq> PP_Folded"
    using assms(3) by blast
  then have "(if has_expired now r then requeued r else r) \<in> set (nc_records s1)"
    "ps_phase (nr_presentation_state (if has_expired now r then requeued r else r)) \<noteq> PP_Folded"
    using expired by (auto simp: expire_locked_def requeue_where_def requeued_def unpresented_def)
  then have "\<exists>r \<in> set (nc_records s1). ps_phase (nr_presentation_state r) \<noteq> PP_Folded"
    by blast
  then have "\<exists>r \<in> set (nc_records s1). ps_phase (nr_presentation_state r) = PP_Unpresented"
    using quiet by (metis presentation_phase.exhaust)
  then obtain i where i: "position (\<lambda>r. ps_phase (nr_presentation_state r) = PP_Unpresented) (nc_records s1) = Some i"
    using position_None by (metis (mono_tags, lifting) not_None_eq)
  then have bound: "i < length (nc_records s1)"
    by (simp add: position_Some)
  let ?leased = "leased now identity (nc_records s1 ! i)" and ?v = "saturating_add (nc_revision s1) 1"
  define s2 where "s2 = snd (commit_indices_locked (changed @ [i]) (s1\<lparr>nc_records := (nc_records s1)[i := ?leased]\<rparr>))"
  have records: "nc_records s2 = committed ?v (changed @ [i]) ((nc_records s1)[i := ?leased])" and revision: "nc_revision s2 = ?v"
    by (simp_all add: s2_def commit_records) (simp add: commit_indices_locked_def publish_snapshot_def Let_def)
  have at: "nc_records s2 ! i = ?leased\<lparr>nr_revision := ?v\<rparr>"
    using bound by (simp add: records committed_nth)
  have others: "nr_presentation_lease (nc_records s2 ! j) = None" if "j < length (nc_records s2)" "j \<noteq> i" for j
    using that free by (simp add: records committed_nth)
  have none: "position (held_by identity) (nc_records s1) = None"
    using free by (auto simp: position_None held_by_def)
  have holds: "held_by identity (nc_records s2 ! i)"
    by (simp add: at held_by_def leased_def Let_def)
  have same_length: "length (nc_records s2) = length (nc_records s1)"
    by (simp add: records)
  have "find (held_by identity) (nc_records s2) = Some (nc_records s2 ! i)"
    by (rule find_unique) (use bound others holds same_length in \<open>simp_all add: held_by_def\<close>)
  moreover obtain shown where "commit_indices_locked (changed @ [i]) (s1\<lparr>nc_records := (nc_records s1)[i := ?leased]\<rparr>) = (shown, s2)"
    by (metis prod.collapse s2_def)
  ultimately have "claim_next_locked now identity s = ((presentation_claim_of (nc_records s2 ! i), shown), s2)"
    using none quiet by (simp add: claim_next_locked_def expired i list_ex_iff Let_def)
  then show ?thesis
    using at others bound revision by (metis length_committed length_list_update records)
qed

lemma complete_current:
  assumes "center_ok s" and "nc_next_id s \<noteq> - 1" and "i < length (nc_records s)"
    and "nr_presentation_lease (nc_records s ! i) = Some l" and "now < le_expires_at l"
    and "\<forall>j < length (nc_records s). j \<noteq> i \<longrightarrow> nr_presentation_lease (nc_records s ! j) = None"
    and "completion_identity c = le_identity l" and "cm_id c = nr_id (nc_records s ! i)"
    and "cm_lease_generation c = le_generation l" and "cm_revision c = nr_revision (nc_records s ! i)"
  shows "fst (fst (complete_presentation now c s))"
proof -
  have "\<not> has_expired now r" if "r \<in> set (nc_records s)" for r
    using that assms(4-6) by (fastforce simp: has_expired_def is_some_and_iff in_set_conv_nth)
  then have expired: "expire_locked now s = ([], s)"
    by (cases s) (auto simp: expire_locked_def requeue_where_def filter_empty_conv intro!: map_idI)
  have "distinct (map nr_id (nc_records s))"
    using assms(1,2) by (simp add: center_ok_def records_ok_def identified_def)
  then have "position (\<lambda>r. nr_id r = cm_id c) (nc_records s) = Some i"
    using assms(3,8) by (intro position_unique) (auto simp: distinct_conv_nth)
  moreover have "ps_phase (nr_presentation_state (nc_records s ! i)) = PP_Presenting"
    using assms(1,3,4) by (intro lease_presenting [of "nc_revision s"]) (auto simp: center_ok_def records_ok_def)
  ultimately show ?thesis
    using assms by (auto simp: complete_presentation_def expired completion_accepted_def split: prod.split)
qed

text \<open>What an accepted completion presupposes and leaves.\<close>

lemma accepted_presenting:
  assumes "fst (fst (complete_presentation now c s))" and "center_ok s"
  shows "\<exists>r \<in> set (nc_records s). nr_id r = cm_id c \<and> ps_phase (nr_presentation_state r) = PP_Presenting"
proof -
  obtain changed s1 where expired: "expire_locked now s = (changed, s1)"
    by fastforce
  obtain i where i: "i < length (nc_records s1)" "nr_id (nc_records s1 ! i) = cm_id c"
      "completion_accepted now c (nc_records s1 ! i)"
    using assms(1) by (auto simp: complete_presentation_def expired position_Some split: option.splits if_splits prod.splits)
  have step: "list_all2 (step_in_place (nc_revision s)) (nc_records s) (nc_records s1)"
    using expire_in_place [of s "nc_revision s" now] assms(2) by (simp add: expired center_ok_def records_ok_def)
  let ?r = "nc_records s ! i"
  have bound: "i < length (nc_records s)" and at: "step_in_place (nc_revision s) ?r (nc_records s1 ! i)"
    using step i(1) by (auto simp: list_all2_conv_all_nth)
  have "nr_presentation_lease (nc_records s1 ! i) \<noteq> None"
    using i(3) by (auto simp: completion_accepted_def is_some_and_iff)
  then have "ps_phase (nr_presentation_state ?r) = PP_Presenting"
    using at bound assms(2) by (intro lease_presenting [of "nc_revision s"]) (auto simp: step_in_place_def center_ok_def records_ok_def)
  then show ?thesis
    using at bound i(2) by (intro bexI [of _ ?r]) (auto simp: step_in_place_def follows_def)
qed

lemma accepted_pair: "fst (fst x) \<Longrightarrow> \<exists>y. x = ((True, y), snd x)"
  by (cases x) auto

lemma folded_after:
  assumes "complete_presentation now c s = ((True, shown), s')"
  shows "\<exists>r \<in> set (nc_records s'). nr_id r = cm_id c \<and> ps_phase (nr_presentation_state r) = PP_Folded"
proof -
  obtain changed s1 where expired: "expire_locked now s = (changed, s1)"
    by fastforce
  obtain i where i: "i < length (nc_records s1)" "nr_id (nc_records s1 ! i) = cm_id c" and
    s': "s' = snd (commit_indices_locked (changed @ [i]) (s1\<lparr>nc_records := (nc_records s1)[i := (nc_records s1 ! i)
      \<lparr>nr_presentation_lease := None, nr_presentation_state := folded (cm_outcome c) now\<rparr>]\<rparr>))"
    using assms by (auto simp: complete_presentation_def expired position_Some split: option.splits if_splits prod.splits)
  have "nr_id (nc_records s' ! i) = cm_id c \<and> ps_phase (nr_presentation_state (nc_records s' ! i)) = PP_Folded"
    "i < length (nc_records s')"
    using i by (simp_all add: s' commit_records committed_nth folded_def)
  then show ?thesis
    by (intro bexI [of _ "nc_records s' ! i"]) simp_all
qed

section \<open>The properties\<close>

definition demo_contract :: "nat presentation_contract" where
  "demo_contract = \<lparr>pc_allowed_actions = \<lambda>_. [], pc_to_value = \<lambda>p. J_Object [(''kind'', J_String ''profile.saved'')],
     pc_to_vec_len = \<lambda>_. 24\<rparr>"

definition demo_publication :: "nat \<Rightarrow> nat notification_publication" where
  "demo_publication n = \<lparr>np_dedupe_key = ''saved'', np_pinned = False,
     np_presentation = \<lparr>pn_content = n, pn_action_ids = []\<rparr>, np_replaces = [], np_resolved = False, np_severity = NS_Info\<rparr>"

definition demo_client :: presentation_identity where
  "demo_client = \<lparr>id_client = ''window'', id_session = ''s1''\<rparr>"

definition demo_calls :: "(u64 \<times> nat center_call) list" where
  "demo_calls = [(1, CC_Publish (demo_publication 1)), (2, CC_Resolve ''saved''), (3, CC_Publish (demo_publication 2))]"

text \<open>
  C37: whatever clients and producers call, at most 128 notifications are kept, under distinct ids as long as the ids
  last, only the newest one of a key may be unresolved, a notification is being presented exactly while a lease on it
  is out, with the generation and the expiry that are shown, and at most one lease is out.
\<close>

theorem notifications_sound:
  assumes "s = foldl (center_perform pc) center_new calls"
  shows "length (nc_records s) \<le> 128 \<and> (nc_next_id s \<noteq> - 1 \<longrightarrow> distinct (map nr_id (nc_records s)))
    \<and> sorted_wrt (\<lambda>a b. nr_dedupe_key a = nr_dedupe_key b \<longrightarrow> nr_resolved a) (nc_records s)
    \<and> list_all (\<lambda>r. case nr_presentation_lease r of
          Some l \<Rightarrow> nr_presentation_state r = presenting (le_generation l) (le_expires_at l)
        | None \<Rightarrow> ps_phase (nr_presentation_state r) \<noteq> PP_Presenting) (nc_records s)
    \<and> length (filter (\<lambda>r. nr_presentation_lease r \<noteq> None) (nc_records s)) \<le> 1"
proof -
  have "center_ok s"
    using reached_ok assms by blast
  then show ?thesis
    by (auto simp: center_ok_def records_ok_def NOTIFICATION_RETENTION_LIMIT_def identified_def latest_open_def leases_def
        list_all_iff coherent_record_def split: option.splits)
qed

theorem notifications_sound_witness:
  "let s = foldl (center_perform demo_contract) center_new (demo_calls @ [(4, CC_Claim demo_client)])
   in map nr_resolved (nc_records s) = [True, False] \<and> distinct (map nr_id (nc_records s))
     \<and> length (filter (\<lambda>r. nr_presentation_lease r \<noteq> None) (nc_records s)) = 1"
proof -
  let ?s = "foldl (center_perform demo_contract) center_new (demo_calls @ [(4, CC_Claim demo_client)])"
  have "map nr_resolved (nc_records ?s) = [True, False]" "nc_next_id ?s \<noteq> - 1"
    "length (filter (\<lambda>r. nr_presentation_lease r \<noteq> None) (nc_records ?s)) = 1"
    by code_simp+
  then show ?thesis
    using notifications_sound [OF refl, of demo_contract "demo_calls @ [(4, CC_Claim demo_client)]"] by (simp add: Let_def)
qed

text \<open>
  C38: a notification is presented once: after its presentation has been completed, no completion for it is accepted
  again, whatever is called in between and as long as the ids last.
\<close>

theorem notification_presented_once:
  assumes "s = foldl (center_perform pc) center_new before"
    and "complete_presentation now c s = ((True, shown), s1)"
    and "s2 = foldl (center_perform pc) s1 later" and "nc_next_id s2 \<noteq> - 1" and "cm_id c' = cm_id c"
  shows "\<not> fst (fst (complete_presentation now' c' s2))"
proof
  assume again: "fst (fst (complete_presentation now' c' s2))"
  have ok1: "center_ok s1" and carried1: "carried s1 s2" and ok2: "center_ok s2"
    using complete_advances [of s now c] reached_ok [of pc before] assms(1-3) center_run [of s1 pc later]
    by (simp_all add: advances_def)
  have ids: "nc_next_id s1 \<noteq> - 1"
    using carried1 assms(4) by (auto simp: carried_def word_order.extremum_unique)
  from folded_after [OF assms(2)] obtain r where r: "r \<in> set (nc_records s1)" "nr_id r = cm_id c"
      "ps_phase (nr_presentation_state r) = PP_Folded"
    by blast
  from accepted_presenting [OF again] obtain r' where r': "r' \<in> set (nc_records s2)" "nr_id r' = cm_id c'"
      "ps_phase (nr_presentation_state r') = PP_Presenting"
    using ok2 by blast
  consider r0 where "r0 \<in> set (nc_records s1)" "follows r0 r'" | "made_since s1 s2 r'"
    using carried1 r'(1) by (auto simp: carried_def)
  then show False
  proof cases
    case 1
    then have "r0 = r"
      using ok1 ids r r' assms(5) by (auto simp: center_ok_def records_ok_def identified_def follows_def distinct_map dest: inj_onD)
    then show ?thesis
      using 1 r(3) r'(3) by (simp add: follows_def)
  next
    case 2
    obtain k where "k \<le> nc_next_id s1" "nr_id r = notification_id_of k"
      using ok1 ids r(1) by (auto simp: center_ok_def records_ok_def identified_def)
    then show ?thesis
      using 2 assms(4,5) r(2) r'(2) by (auto simp: made_since_def notification_id_of_def u64_to_string_inj)
  qed
qed

theorem notification_presented_once_witness:
  "let s = foldl (center_perform demo_contract) center_new (demo_calls @ [(4, CC_Claim demo_client)]);
       c = \<lparr>cm_client_id = ''window'', cm_id = ''notification:2'', cm_lease_generation = 1, cm_outcome = FR_Dismissed,
            cm_revision = 4, cm_session_id = ''s1''\<rparr>;
       s1 = snd (complete_presentation 5 c s)
   in fst (fst (complete_presentation 5 c s)) \<and> \<not> fst (fst (complete_presentation 6 c s1))"
proof -
  let ?calls = "demo_calls @ [(4, CC_Claim demo_client)]"
  let ?s = "foldl (center_perform demo_contract) center_new ?calls"
  let ?c = "\<lparr>cm_client_id = ''window'', cm_id = ''notification:2'', cm_lease_generation = 1, cm_outcome = FR_Dismissed,
            cm_revision = 4, cm_session_id = ''s1''\<rparr>"
  have accepted: "fst (fst (complete_presentation 5 ?c ?s))"
    by code_simp
  from accepted_pair [OF this] obtain shown where
    run: "complete_presentation 5 ?c ?s = ((True, shown), snd (complete_presentation 5 ?c ?s))"
    by blast
  have "nc_next_id (snd (complete_presentation 5 ?c ?s)) \<noteq> - 1"
    by code_simp
  then have "\<not> fst (fst (complete_presentation 6 ?c (snd (complete_presentation 5 ?c ?s))))"
    using notification_presented_once [OF refl run, of _ "[]" ?c] by simp
  then show ?thesis
    using accepted by (simp add: Let_def)
qed



text \<open>
  Subscribers see every change: the snapshot broadcast last is the state of the center, and as long as
  the revisions last each broadcast has a revision above all earlier ones, so that equal revisions mean equal snapshots.
\<close>

theorem notification_broadcasts:
  assumes "s = foldl (center_perform pc) center_new calls"
  shows "(if nc_updates s = [] then nc_records s = [] else hd (nc_updates s) = snapshot s)
    \<and> (nc_revision s \<noteq> - 1 \<longrightarrow> sorted_wrt (>) (map sn_revision (nc_updates s)))"
proof -
  have "broadcast_ok (center_new :: 'a center)"
    by (simp add: broadcast_ok_def center_new_def)
  then have "broadcast_ok s"
    using reached_broadcast assms by blast
  then show ?thesis
    by (cases "nc_updates s") (auto simp: broadcast_ok_def)
qed

section \<open>What is presented\<close>

fun json_depth :: "json \<Rightarrow> nat" where
  "json_depth (J_Array vs) = foldr (\<lambda>v. max (Suc (json_depth v))) vs 0"
| "json_depth (J_Object ms) = foldr (\<lambda>m. max (Suc (json_depth (snd m)))) ms 0"
| "json_depth _ = 0"

fun json_entries :: "json \<Rightarrow> nat" where
  "json_entries (J_Array vs) = length vs + sum_list (map json_entries vs)"
| "json_entries (J_Object ms) = length ms + sum_list (map (\<lambda>m. json_entries (snd m)) ms)"
| "json_entries _ = 0"

fun json_strings :: "json \<Rightarrow> string list" where
  "json_strings (J_String t) = [t]"
| "json_strings (J_Array vs) = concat (map json_strings vs)"
| "json_strings (J_Object ms) = concat (map (\<lambda>m. json_strings (snd m)) ms)"
| "json_strings _ = []"

lemma valid_value_counts:
  "valid_presentation_value v depth n = Some k \<Longrightarrow>
     depth + json_depth v \<le> 3 \<and> k = n + json_entries v \<and> (n \<le> 32 \<longrightarrow> k \<le> 32)
     \<and> list_all valid_presentation_string (json_strings v)"
  "valid_presentation_values vs depth n = Some k \<Longrightarrow>
     (vs \<noteq> [] \<longrightarrow> depth + foldr (\<lambda>v. max (Suc (json_depth v))) vs 0 \<le> 4)
     \<and> k = n + sum_list (map json_entries vs) \<and> (n \<le> 32 \<longrightarrow> k \<le> 32)
     \<and> list_all valid_presentation_string (concat (map json_strings vs))"
  "valid_presentation_members ms depth n = Some k \<Longrightarrow>
     (ms \<noteq> [] \<longrightarrow> depth + foldr (\<lambda>m. max (Suc (json_depth (snd m)))) ms 0 \<le> 4)
     \<and> k = n + sum_list (map (\<lambda>m. json_entries (snd m)) ms) \<and> (n \<le> 32 \<longrightarrow> k \<le> 32)
     \<and> list_all valid_presentation_string (concat (map (\<lambda>m. json_strings (snd m)) ms))"
proof (induction v depth n and vs depth n and ms depth n arbitrary: k and k and k
    rule: valid_presentation_value_valid_presentation_values_valid_presentation_members.induct)
  case (1 v depth n)
  have limits: "NOTIFICATION_PRESENTATION_DEPTH_LIMIT = 3" "NOTIFICATION_PRESENTATION_ENTRIES_LIMIT = 32"
    by (simp_all add: NOTIFICATION_PRESENTATION_DEPTH_LIMIT_def NOTIFICATION_PRESENTATION_ENTRIES_LIMIT_def)
  show ?case
  proof (cases v)
    case (J_Array vs)
    then show ?thesis
      using "1.prems" "1.IH"(1) [OF _ J_Array] by (cases "vs = []") (auto simp: limits valid_presentation_value.simps split: if_splits)
  next
    case (J_Object ms)
    then show ?thesis
      using "1.prems" "1.IH"(2) [OF _ J_Object]
      by (cases "ms = []") (auto simp: limits valid_presentation_value.simps split: if_splits)
  qed (use "1.prems" in \<open>auto simp: limits valid_presentation_value.simps split: if_splits\<close>)
next
  case (3 v vs depth n)
  then obtain m where m: "valid_presentation_value v depth n = Some m" "valid_presentation_values vs depth m = Some k"
    by (auto split: option.splits)
  show ?case
    using "3.IH"(1) [OF m(1)] "3.IH"(2) [OF m] by (cases "vs = []") auto
next
  case (5 key v ms depth n)
  then have key: "valid_presentation_key key"
    by (auto split: if_splits)
  then obtain m where m: "valid_presentation_value v depth n = Some m" "valid_presentation_members ms depth m = Some k"
    using "5.prems" by (auto split: option.splits)
  show ?case
    using "5.IH"(1) [OF _ m(1)] "5.IH"(2) [OF _ m] key by (cases "ms = []") auto
qed simp_all

lemma plain_string:
  assumes "valid_presentation_string t"
  shows "t \<noteq> [] \<and> length t \<le> 160 \<and> CHR ''/'' \<notin> set t \<and> CHR 0x5C \<notin> set t"
proof -
  have short: "\<not> (t = [] \<or> NOTIFICATION_PRESENTATION_STRING_LIMIT < length t)"
    using assms unfolding valid_presentation_string_def by argo
  have "CHR ''/'' \<notin> set t \<and> CHR 0x5C \<notin> set t"
    using assms unfolding valid_presentation_string_def if_not_P [OF short] Let_def by blast
  then show ?thesis
    using short unfolding NOTIFICATION_PRESENTATION_STRING_LIMIT_def by linarith
qed

text \<open>
  C40: what is published for presentation is small and plain: the JSON of an accepted notification is nested at most
  three deep, has at most 32 entries and 2048 bytes, and each of its strings has between 1 and 160 bytes, with no slash or
  backslash in it.
\<close>

theorem presentation_bounded:
  assumes "publish pc now p s = (Inr shown, s')"
  shows "let v = pc_to_value pc (np_presentation p)
    in json_depth v \<le> 3 \<and> json_entries v \<le> 32 \<and> pc_to_vec_len pc v \<le> 2048
      \<and> list_all (\<lambda>t. t \<noteq> [] \<and> length t \<le> 160 \<and> CHR ''/'' \<notin> set t \<and> CHR 0x5C \<notin> set t) (json_strings v)"
proof -
  let ?v = "pc_to_value pc (np_presentation p)"
  have "validate_publication pc p = Inr ()"
    using assms by (auto simp: publish_def split: sum.splits)
  then obtain k where k: "valid_presentation_value ?v 0 0 = Some k" and bytes: "pc_to_vec_len pc ?v \<le> 2048"
    by (auto simp: validate_publication_def Let_def NOTIFICATION_PRESENTATION_BYTES_LIMIT_def split: if_splits)
  from valid_value_counts(1) [OF k] have "list_all valid_presentation_string (json_strings ?v)"
    by simp
  then have "list_all (\<lambda>t. t \<noteq> [] \<and> length t \<le> 160 \<and> CHR ''/'' \<notin> set t \<and> CHR 0x5C \<notin> set t) (json_strings ?v)"
    by (rule list.pred_mono_strong) (rule plain_string)
  then show ?thesis
    using valid_value_counts(1) [OF k] bytes by (simp add: Let_def)
qed

theorem presentation_bounded_witness:
  "\<exists>shown s'. publish demo_contract 1 (demo_publication 1) center_new = (Inr shown, s')
     \<and> json_entries (pc_to_value demo_contract (np_presentation (demo_publication 1))) \<le> 32
     \<and> json_strings (pc_to_value demo_contract (np_presentation (demo_publication 1))) = [''profile.saved'']"
proof -
  have "\<not> isl (fst (publish demo_contract 1 (demo_publication 1) center_new))"
    by code_simp
  then obtain shown s' where run: "publish demo_contract 1 (demo_publication 1) center_new = (Inr shown, s')"
    by (metis prod.collapse sum.collapse(2))
  have "json_strings (pc_to_value demo_contract (np_presentation (demo_publication 1))) = [''profile.saved'']"
    by code_simp
  then show ?thesis
    using presentation_bounded [OF run] run by (auto simp: Let_def)
qed

end
