(* ===== verification/Spec2Isabelle.thy ===== *)
theory Spec2Isabelle
  imports Kernel_Properties Check_Properties Package_Properties Tun_Properties Traffic_Properties
    Capture_Properties Capture_Effects_Properties Recent_Accounting Download_Properties Maintenance_Properties
    Helper_Request_Properties Notification_Properties
begin

text \<open>
  Verification of the core of Mish, a desktop client that puts a system's network traffic through a local proxy core.

  \<^bold>\<open>The program.\<close> Mish keeps everything that must not race in state machines: a reducer maps a state and an input
  to a transition, and a shared kernel (\<^verbatim>\<open>crates/state-machine\<close>) admits inputs, publishes snapshots, runs the effects a
  transition asks for as tasks and hands their results back as inputs. The updater runs its check and its download on
  such machines (\<^verbatim>\<open>crates/updater\<close>), the privileged macOS services run theirs (\<^verbatim>\<open>crates/platform-macos\<close>), the
  desktop bridge runs the one of the traffic source (\<^verbatim>\<open>crates/desktop-bridge\<close>), and the Capture, which switches System
  Proxy and TUN, runs the largest one (\<^verbatim>\<open>crates/runtime\<close>). The effects of the Capture end in two reconcilers that
  change the system and confirm what they did, one over the network services with a journal of what was there before,
  one over the controller of the privileged TUN helper. Around them stand the journal of an update's
  installation, the record of helper removals, the requests of the user interface that install, repair and remove the
  helper, the notification center and the accounting of recent traffic.

  \<^bold>\<open>How it is modelled.\<close> Structs are records, enums are datatypes with the constructors of the source, integers are
  words of their width with the saturating, checked and wrapping operations of the source (\<open>Mish_Prelude\<close>), errors are
  the left of a sum, and a panic is \<open>None\<close> in a reducer. Code that threads a state is a program of the library's state
  monad; \<open>State_Wp\<close> holds one rule per construct for reasoning about it. What is outside the sources is a parameter: the
  platform traits are records of programs over a state of their own, so that the theorems hold for every platform, every
  failure and every interleaving of its own doings with the calls; clock readings, deadlines, answers of HTTP servers and
  faults of the file system are answers of the environment.

  \<^bold>\<open>The kernel\<close>, \<^verbatim>\<open>crates/state-machine/src/lib.rs\<close>. \<open>Kernel\<close> has the runner (\<open>apply_input_with_role\<close>,
  \<open>run_effect\<close>, \<open>finish_effect\<close>), the actor (\<open>actor_receive\<close>, \<open>actor_shutdown\<close>), the drain and the step
  relation \<open>kernel_step\<close> of an actor with its callers and its tasks. \<open>Kernel_Laws\<close> proves what it guarantees to every
  machine and states what a machine owes it as the locales \<open>machine_contract\<close>, \<open>total_machine\<close>,
  \<open>stale_inert\<close>, \<open>supervised_machine\<close> and \<open>disciplined_machine\<close>; every machine below interprets those it meets.
  \<open>Kernel_Settlement\<close> treats machines with several tasks in flight (locale \<open>flight_contract\<close>), \<open>Kernel_Replay\<close>
  recovers the state from the inputs the observer has seen. \<open>Kernel_Properties\<close>: a snapshot is published before the
  observer is told, task and ownership tables agree, admission is bounded and in order, and a shutdown ends after two
  deadlines whatever the executor does.

  \<^bold>\<open>The updater.\<close> \<open>Updater_Types\<close> and \<open>Check_Machine\<close> model the discovery of an update
  (\<^verbatim>\<open>service/check_machine.rs\<close>), \<open>Continuation_Machine\<close> its download, verification, commit, finalization and
  recovery (\<^verbatim>\<open>service/continuation_machine.rs\<close>), \<open>Download_Effect\<close> the executor of those effects with the resumable
  download (\<^verbatim>\<open>service.rs\<close>), and \<open>Maintenance\<close> the authority over the journal of an installation
  (\<^verbatim>\<open>service/maintenance.rs\<close>). \<open>Check_Properties\<close>, \<open>Continuation_Properties\<close>, \<open>Download_Properties\<close>: a
  candidate is available or ready only on the evidence of its own operation, a waiting state owns the task it waits for,
  an undisturbed download is settled, and a resumed one that starts over is not. \<open>Maintenance_Laws\<close>,
  \<open>Maintenance_Intent\<close>, \<open>Maintenance_Properties\<close>: over any calls, file faults and restarts the journal moves along
  the abstract relation \<open>journal_step\<close>, a committed installation stays in it until it is settled, automatic activation
  waits for it, and a restarted process can settle it.

  \<^bold>\<open>The privileged services.\<close> \<open>Package_Machine\<close> (\<^verbatim>\<open>internal_tun_package_machine.rs\<close>) and \<open>Tun_Lifecycle\<close>
  (\<^verbatim>\<open>tun_service/lifecycle_machine.rs\<close>): an installation counts as healthy only after its stages in order, with at most
  six reports until it ends; TUN is reported as enabled or disabled only as observed.

  \<^bold>\<open>The traffic.\<close> \<open>Traffic_Source\<close> (\<^verbatim>\<open>traffic_source_machine.rs\<close>): a connection command runs at most once and only
  with authority over the live session. \<open>Recent_Traffic\<close> (\<^verbatim>\<open>recent_traffic.rs\<close>) and \<open>Recent_Accounting\<close>: the byte
  totals equal an unbounded reference accounting.

  \<^bold>\<open>The Capture.\<close> \<open>Capture_Types\<close>, \<open>Capture_Machine\<close> and \<open>Capture_Flight\<close> (\<^verbatim>\<open>capture/machine.rs\<close>), \<open>System_Proxy\<close>,
  \<open>Proxy_Reconciler\<close>, \<open>Tun_Reconciler\<close> and \<open>Capture_Effects\<close> (\<^verbatim>\<open>capture.rs\<close>), \<open>Tun_Helper\<close>
  (\<^verbatim>\<open>tun_helper.rs\<close>), \<open>Simulated_Proxy\<close> (\<^verbatim>\<open>crates/simulated-host\<close>). \<open>Capture_Properties\<close>: an operation has exactly one
  task, an applied status was observed, and where the reducer panics, what a shutdown cancels and what a waiting caller is
  told. \<open>Proxy_Trace\<close> and \<open>Proxy_Status\<close> follow what the reconciler asks of its platform and shows;
  \<open>Proxy_Recovery\<close> states the contract of a host as the locales \<open>proxy_host\<close> and \<open>hosted_reconciler\<close>, which
  the simulated host meets, and refines the reconciler to an ownership specification; \<open>Proxy_Properties\<close>: every write is
  justified by what was just observed and journaled, the user's configuration can be recovered after every single
  platform call, and switching on and off is a round trip. \<open>Tun_Helper_Laws\<close>, \<open>Tun_Helper_Properties\<close>: at most one
  privileged call per request, on evidence of the same request. \<open>Capture_Effects_Laws\<close>,
  \<open>Capture_Effects_Properties\<close> put both reconcilers together (locale \<open>hosted_adapter\<close>): a confirmation rests on
  observations made for it, a failed transition claims nothing, and a shutdown that succeeds has restored the proxy.

  \<^bold>\<open>The helper requests.\<close> \<open>Removal_Occurrences\<close> (\<^verbatim>\<open>tun_helper_removal_occurrences.rs\<close>), \<open>Helper_Publication\<close>
  (\<^verbatim>\<open>crates/settings/src/lib.rs\<close>), \<open>Removal_Workflow\<close> and \<open>Helper_Requests\<close> (\<^verbatim>\<open>protocol.rs\<close>) model the
  requests from their admission to their notification, with the capture as a port whose operations may do anything to
  the capture and to the helper controller. \<open>Removal_Laws\<close>, \<open>Removal_Properties\<close>: the record of removals is bounded,
  ordered and coherent, and an admitted removal is not lost through failing writes and restarts.
  \<open>Removal_Workflow_Laws\<close>, \<open>Removal_Workflow_Properties\<close>, \<open>Helper_Request_Properties\<close>: the intention is in the
  file before the privileged removal starts, success is reported only with its evidence, an installation or repair that
  fails leaves the capture alone, and after any sequence of requests the next one is admitted.

  \<^bold>\<open>The notifications.\<close> \<open>Notifications\<close> (\<^verbatim>\<open>crates/runtime/src/notifications.rs\<close>) has the retained notifications and the
  queue in which one client at a time presents the next of them under a lease. \<open>Notification_Laws\<close>,
  \<open>Notification_Properties\<close>: identity, order and leases stay coherent, a notification is presented once, no client can
  hold up the queue, every change is broadcast under a new revision, and what is accepted for presentation is bounded.

  \<^bold>\<open>Bounds and loops.\<close> The loops of the source recurse on their data; the two that depend on an environment are the
  confirmation of a proxy configuration, with the attempts of the source, and the drain, which the environment ends by a
  deadline. The download loop recurses on the stream of chunks it receives. The limits of the source (inbox capacity,
  32 commands in the ledger, 64 transitions of evidence, 60 samples, 16 records and 16 operation ids, 128
  notifications) are constants of
  the models.

  \<^bold>\<open>Assumptions about the environment.\<close> An operation lock is taken when it is free. The kernel's callers stop when
  the actor has ended. A reading of the file yields what the last write that took effect put there. The simulated host is
  used without injected faults only where a theorem says so. The contract of \<open>proxy_host\<close> excludes other programs that
  edit the proxy configuration while Mish holds it; the safety of the reconciler's writes does not need it.

  \<^bold>\<open>Not modelled.\<close> Signatures, digests, semantic versions, UUIDs, JSON and YAML are code of other packages; where a
  modelled component uses a result of them it is a parameter. Sockets, processes, system commands and files appear
  only as the answers of platforms. The application runtime, the settings service, profile activation, the controller
  client and its streams, the backup, the probes, the server of the privileged service with its peer authentication,
  the command-line tool, the desktop and mobile shells and the user interface coordinate or display what is modelled
  here, or are glue to those systems. A cancelled request that drops its helper publication, and the locks held across a
  request, are not modelled: a request runs to its end.
\<close>

end
